(* ===== verification/Rtc_Prelude.thy ===== *)
theory Rtc_Prelude
  imports Main "HOL-Library.Word"
begin

text \<open>
  Shared vocabulary of the development: results as sums, the \<open>u64\<close> arithmetic of the
  sequence numbers (natural numbers with the wrap-around of \<open>+\<close> and the clamping of
  \<open>saturating_add\<close> written out), and the list lemmas the components use.
  Rust's \<open>Result<T, E>\<close> is the sum \<open>'e + 'a\<close>, with \<open>Err\<close> on the left; an operation that
  can panic returns an \<open>option\<close>, with \<^const>\<open>None\<close> for the panic.
\<close>

type_synonym ('a, 'e) result = "'e + 'a"

abbreviation Ok :: "'a \<Rightarrow> ('a, 'e) result" where "Ok \<equiv> Inr"
abbreviation Err :: "'e \<Rightarrow> ('a, 'e) result" where "Err \<equiv> Inl"

text \<open>
  Rust's \<open>?\<close> in code that changes a state: an error ends the computation and keeps the state
  reached so far.
\<close>

definition bind_ok ::
  "'s \<times> ('a, 'e) result \<Rightarrow> ('a \<Rightarrow> 's \<Rightarrow> 's \<times> ('b, 'e) result) \<Rightarrow> 's \<times> ('b, 'e) result" where
  "bind_ok m f = (case m of (s, Inl e) \<Rightarrow> (s, Err e) | (s, Inr a) \<Rightarrow> f a s)"

lemma bind_ok_simps [simp]:
  "bind_ok (s, Ok a) f = f a s" "bind_ok (s, Err e) f = (s, Err e)"
  by (simp_all add: bind_ok_def)

lemma fst_bind_ok_const [simp]: "fst (bind_ok m (\<lambda>_ s. (s, Ok b))) = fst m"
  by (simp add: bind_ok_def split: prod.split sum.split)

lemma fst_bind_ok_same: "(\<And>a s. f (fst (k a s)) = f s) \<Longrightarrow> f (fst (bind_ok m k)) = f (fst m)"
  by (simp add: bind_ok_def split: prod.split sum.split)

lemma bind_ok_Ok:
  "bind_ok m f = (s', Ok b) \<longleftrightarrow> (\<exists>s a. m = (s, Ok a) \<and> f a s = (s', Ok b))"
  by (auto simp: bind_ok_def split: prod.split sum.split)

type_synonym byte = "8 word"
type_synonym bytes = "8 word list"

text \<open>An ASCII literal as bytes, Rust's \<open>b"..."\<close>.\<close>

definition ascii :: "string \<Rightarrow> bytes" where
  "ascii = map (\<lambda>c. of_nat (of_char c))"

named_theorems u64_simps \<open>u64 arithmetic away from the overflow bound\<close>

section \<open>Unsigned 64-bit arithmetic on natural numbers\<close>

definition u64_mod :: nat where
  "u64_mod = 2 ^ 64"

definition u64_max :: nat where
  "u64_max = 2 ^ 64 - 1"

text \<open>\<open>usize::MAX\<close> on the 64-bit targets.\<close>

definition usize_max :: nat where
  "usize_max = 2 ^ 64 - 1"

text \<open>\<open>a + b\<close> and \<open>a - b\<close> as compiled without overflow checks: modulo \<open>2^64\<close>.\<close>

definition add64 :: "nat \<Rightarrow> nat \<Rightarrow> nat" where
  "add64 a b = (a + b) mod u64_mod"

definition sub64 :: "nat \<Rightarrow> nat \<Rightarrow> nat" where
  "sub64 a b = (a + (u64_mod - b mod u64_mod)) mod u64_mod"

definition saturating_add64 :: "nat \<Rightarrow> nat \<Rightarrow> nat" where
  "saturating_add64 a b = min (a + b) u64_max"

lemma u64_mod_eq: "u64_mod = Suc u64_max"
  by (simp add: u64_mod_def u64_max_def)

lemma u64_mod_pos [simp]: "0 < u64_mod"
  by (simp add: u64_mod_def)

lemma add64_exact [u64_simps]: "a + b < u64_mod \<Longrightarrow> add64 a b = a + b"
  by (simp add: add64_def)

lemma add64_bound [simp]: "add64 a b < u64_mod"
  by (simp add: add64_def)

lemma sub64_exact [u64_simps]: "b \<le> a \<Longrightarrow> a < u64_mod \<Longrightarrow> sub64 a b = a - b"
proof -
  assume ba: "b \<le> a" and a: "a < u64_mod"
  then have b: "b mod u64_mod = b" by simp
  have "a + (u64_mod - b) = (a - b) + u64_mod" using ba a by linarith
  then have "sub64 a b = ((a - b) + u64_mod) mod u64_mod"
    by (simp only: sub64_def b)
  with a show ?thesis by simp
qed

lemma add64_sub64_1 [u64_simps]:
  "0 < a + b \<Longrightarrow> a + b \<le> u64_mod \<Longrightarrow> sub64 (add64 a b) 1 = a + b - 1"
proof (cases "a + b = u64_mod")
  case True
  have one: "1 mod u64_mod = 1" by (simp add: u64_mod_def)
  have "sub64 (add64 a b) 1 = u64_mod - 1"
    using True by (simp add: add64_def sub64_def one)
  with True show ?thesis by simp
next
  case False
  assume "0 < a + b" "a + b \<le> u64_mod"
  with False have "a + b < u64_mod" and "1 \<le> a + b" by linarith+
  then show ?thesis by (simp only: add64_exact sub64_exact)
qed

section \<open>Numbers as text\<close>

text \<open>\<open>to_string\<close> of an unsigned number.\<close>

function decimal :: "nat \<Rightarrow> string" where
  "decimal n = (if n < 10 then [char_of (48 + n)] else decimal (n div 10) @ [char_of (48 + n mod 10)])"
  by pat_completeness auto
termination
  by (relation "measure id") auto

declare decimal.simps [simp del]

section \<open>Lists\<close>

text \<open>The length of the leading run of elements that satisfy \<open>P\<close>; Rust's
  \<open>iter().position(|e| !P(e)).unwrap_or(len)\<close>.\<close>

definition run_length :: "('a \<Rightarrow> bool) \<Rightarrow> 'a list \<Rightarrow> nat" where
  "run_length P xs = length (takeWhile P xs)"

lemma run_length_le [simp]: "run_length P xs \<le> length xs"
  by (simp add: run_length_def length_takeWhile_le)

lemma run_length_nth: "i < run_length P xs \<Longrightarrow> P (xs ! i)"
  unfolding run_length_def
  by (metis nth_mem set_takeWhileD takeWhile_nth)

lemma run_length_stop: "run_length P xs < length xs \<Longrightarrow> \<not> P (xs ! run_length P xs)"
  unfolding run_length_def by (rule nth_length_takeWhile)

lemma run_length_pos: "0 < run_length P xs \<longleftrightarrow> xs \<noteq> [] \<and> P (hd xs)"
  by (cases xs) (auto simp: run_length_def)

lemma drop_nth_map:
  "n \<le> length xs \<Longrightarrow> (\<And>i. i < n \<Longrightarrow> f (xs ! i) = g i) \<Longrightarrow> map f (take n xs) = map g [0..<n]"
  by (rule nth_equalityI) auto

lemma map_upt_shift: "map (\<lambda>i. f (a + i)) [0..<n] = map f [a..<a + n]"
  by (rule nth_equalityI) (auto simp: add.commute)

lemma find_append: "find p (xs @ ys) = (case find p xs of None \<Rightarrow> find p ys | Some x \<Rightarrow> Some x)"
  by (induction xs) auto

lemma map_leD: "m \<subseteq>\<^sub>m g \<Longrightarrow> m s = Some e \<Longrightarrow> g s = Some e"
  by (metis domI map_le_def)

lemma map_leI: "(\<And>s e. m s = Some e \<Longrightarrow> g s = Some e) \<Longrightarrow> m \<subseteq>\<^sub>m g"
  by (auto simp: map_le_def)

end
