(* ===== verification/Mrp_Window.thy ===== *)
theory Mrp_Window
  imports Rtc_Prelude
begin

text \<open>
  The sliding buffer of the reliable protocol, \<open>mrp/src/window.rs\<close>: \<open>BufferWindow\<close> holds
  elements indexed by sequence number between two bounds that move right as elements are
  drained or dropped. The record has the struct's fields; the \<open>VecDeque<Option<T>>\<close> is a
  list of options. Sequence numbers are \<open>u64\<close>, written as natural numbers with the
  arithmetic of the prelude; \<open>usize\<close> lengths are natural numbers.

  The interface the stream relies on is the locale \<open>sequence_window\<close>; the
  interpretation \<open>bw\<close> shows that the code's window satisfies it.
\<close>

section \<open>Data and operations\<close>

datatype window_error = BeforeWindow | AfterWindow

record 'a buffer_window =
  bw_left :: nat
  bw_data :: "'a option list"
  bw_capacity_limit :: nat

text \<open>The two \<open>assert_ne!\<close> of the constructor panic on a zero bound or capacity.\<close>

definition with_capacity_limit :: "nat \<Rightarrow> nat \<Rightarrow> 'a buffer_window option" where
  "with_capacity_limit capacity_limit left_bounds =
     (if left_bounds = 0 then None
      else if capacity_limit = 0 then None
      else Some \<lparr>bw_left = left_bounds, bw_data = [], bw_capacity_limit = capacity_limit\<rparr>)"

definition bw_new :: "nat \<Rightarrow> 'a buffer_window option" where
  "bw_new left_bounds =
     (if left_bounds = 0 then None else with_capacity_limit usize_max left_bounds)"

definition bw_len :: "'a buffer_window \<Rightarrow> nat" where
  "bw_len w = length (bw_data w)"

definition is_full :: "'a buffer_window \<Rightarrow> bool" where
  "is_full w = (length (bw_data w) = bw_capacity_limit w)"

definition max_seen_seqnum :: "'a buffer_window \<Rightarrow> nat" where
  "max_seen_seqnum w = sub64 (add64 (bw_left w) (length (bw_data w))) 1"

definition left_bounds :: "'a buffer_window \<Rightarrow> nat" where
  "left_bounds w = bw_left w"

definition right_bounds :: "'a buffer_window \<Rightarrow> nat" where
  "right_bounds w = saturating_add64 (bw_left w) (sub64 (bw_capacity_limit w) 1)"

definition get_pos :: "'a buffer_window \<Rightarrow> nat \<Rightarrow> (nat, window_error) result" where
  "get_pos w seqnum =
     (if seqnum < left_bounds w then Err BeforeWindow
      else if seqnum > right_bounds w then Err AfterWindow
      else Ok (sub64 seqnum (bw_left w)))"

text \<open>\<open>get\<close> reads an element; \<open>get_mut\<close> gives a reference, modelled by the update that the
  caller makes through it (\<open>f\<close> is applied in place, nothing happens where the reference is
  \<open>None\<close>).\<close>

definition bw_get :: "'a buffer_window \<Rightarrow> nat \<Rightarrow> 'a option" where
  "bw_get w seqnum =
     (case get_pos w seqnum of
        Inl _ \<Rightarrow> None
      | Inr pos \<Rightarrow> if pos < length (bw_data w) then bw_data w ! pos else None)"

definition get_mut :: "'a buffer_window \<Rightarrow> nat \<Rightarrow> ('a \<Rightarrow> 'a) \<Rightarrow> 'a buffer_window" where
  "get_mut w seqnum f =
     (case get_pos w seqnum of
        Inl _ \<Rightarrow> w
      | Inr pos \<Rightarrow>
          if pos < length (bw_data w)
          then w\<lparr>bw_data := (bw_data w)[pos := map_option f (bw_data w ! pos)]\<rparr>
          else w)"

text \<open>The loop \<open>while self.data.len() <= pos { self.data.push_back(None) }\<close>.\<close>

function push_none_until :: "nat \<Rightarrow> 'a option list \<Rightarrow> 'a option list" where
  "push_none_until pos d = (if length d \<le> pos then push_none_until pos (d @ [None]) else d)"
  by pat_completeness auto
termination
  by (relation "measure (\<lambda>(pos, d). Suc pos - length d)") auto

declare push_none_until.simps [simp del]

definition put :: "'a buffer_window \<Rightarrow> nat \<Rightarrow> 'a \<Rightarrow> ('a buffer_window, window_error) result" where
  "put w seqnum element =
     (case get_pos w seqnum of
        Inl e \<Rightarrow> Err e
      | Inr pos \<Rightarrow>
          (let d = push_none_until pos (bw_data w)
           in Ok (w\<lparr>bw_data := (if pos < length d then d[pos := Some element] else d)\<rparr>)))"

definition drain_front :: "'a buffer_window \<Rightarrow> 'a buffer_window \<times> (nat \<times> 'a list) option" where
  "drain_front w =
     (if bw_data w = [] \<or> hd (bw_data w) = None then (w, None)
      else let index = run_length (\<lambda>e. e \<noteq> None) (bw_data w);
               elements = map the (take index (bw_data w));
               w' = w\<lparr>bw_data := drop index (bw_data w), bw_left := add64 (bw_left w) index\<rparr>
           in (w', Some (bw_left w', elements)))"

definition drop_front :: "'a buffer_window \<Rightarrow> nat \<Rightarrow> 'a buffer_window \<times> nat" where
  "drop_front w num_to_drop =
     (let num_to_drain = min (length (bw_data w)) num_to_drop;
          w' = w\<lparr>bw_data := drop num_to_drain (bw_data w),
                 bw_left := add64 (bw_left w) num_to_drop\<rparr>
      in (w', bw_left w'))"

section \<open>Invariant and abstraction\<close>

text \<open>
  A window is well-formed when its bounds are positive, the buffered part fits the
  capacity, and the sequence number after the last buffered one does not wrap. The
  contents of a window are a partial map from sequence numbers to elements.
\<close>

definition bw_wf :: "'a buffer_window \<Rightarrow> bool" where
  "bw_wf w \<longleftrightarrow> 0 < bw_left w \<and> 0 < bw_capacity_limit w \<and> bw_capacity_limit w \<le> usize_max
     \<and> length (bw_data w) \<le> bw_capacity_limit w \<and> bw_left w + length (bw_data w) \<le> u64_max"

definition bw_contents :: "'a buffer_window \<Rightarrow> nat \<Rightarrow> 'a option" where
  "bw_contents w s =
     (if bw_left w \<le> s \<and> s < bw_left w + length (bw_data w) then bw_data w ! (s - bw_left w)
      else None)"

lemma push_none_until_eq: "push_none_until pos d = d @ replicate (Suc pos - length d) None"
proof (induction pos d rule: push_none_until.induct)
  case (1 pos d)
  show ?case
  proof (cases "length d \<le> pos")
    case True
    then have "push_none_until pos d = (d @ [None]) @ replicate (Suc pos - length (d @ [None])) None"
      using "1.IH" by (subst push_none_until.simps) simp
    moreover have "Suc pos - length d = Suc (Suc pos - length (d @ [None]))"
      using True by simp
    ultimately show ?thesis by simp
  next
    case False
    then show ?thesis by (subst push_none_until.simps) simp
  qed
qed

lemma length_push_none_until [simp]: "length (push_none_until pos d) = max (length d) (Suc pos)"
  by (simp add: push_none_until_eq)

lemma nth_push_none_until:
  "i < length d \<Longrightarrow> push_none_until pos d ! i = d ! i"
  "length d \<le> i \<Longrightarrow> i \<le> pos \<Longrightarrow> push_none_until pos d ! i = None"
  by (auto simp: push_none_until_eq nth_append)

lemma bw_wf_bounds:
  assumes "bw_wf w"
  shows "right_bounds w = min (bw_left w + bw_capacity_limit w - 1) u64_max"
    and "bw_left w \<le> right_bounds w"
    and "max_seen_seqnum w = bw_left w + length (bw_data w) - 1"
    and "bw_left w < u64_mod"
proof -
  have c: "sub64 (bw_capacity_limit w) 1 = bw_capacity_limit w - 1"
    using assms by (intro sub64_exact) (auto simp: bw_wf_def usize_max_def u64_mod_def)
  show "right_bounds w = min (bw_left w + bw_capacity_limit w - 1) u64_max"
    using assms by (simp add: right_bounds_def saturating_add64_def c [simplified] bw_wf_def)
  then show "bw_left w \<le> right_bounds w"
    using assms by (auto simp: bw_wf_def)
  show "max_seen_seqnum w = bw_left w + length (bw_data w) - 1"
    using assms unfolding max_seen_seqnum_def
    by (intro add64_sub64_1) (auto simp: bw_wf_def u64_mod_eq)
  show "bw_left w < u64_mod"
    using assms by (simp add: bw_wf_def u64_mod_eq)
qed

lemma get_pos_ok:
  assumes "bw_wf w" "bw_left w \<le> s" "s \<le> right_bounds w"
  shows "get_pos w s = Ok (s - bw_left w)"
proof -
  have "s < u64_mod"
    using assms bw_wf_bounds(1) [OF assms(1)] by (simp add: u64_mod_eq)
  then show ?thesis
    using assms by (simp add: get_pos_def left_bounds_def sub64_exact)
qed

lemma contents_in_window:
  assumes "bw_wf w" "bw_contents w s = Some e"
  shows "bw_left w \<le> s" "s < bw_left w + length (bw_data w)" "s \<le> right_bounds w"
  using assms bw_wf_bounds(1) [OF assms(1)]
  by (auto simp: bw_contents_def bw_wf_def split: if_splits)

lemma bw_get_contents: "bw_wf w \<Longrightarrow> bw_get w s = bw_contents w s"
proof (cases "bw_left w \<le> s \<and> s \<le> right_bounds w")
  case True
  assume "bw_wf w"
  with True show ?thesis by (auto simp: bw_get_def get_pos_ok bw_contents_def)
next
  case False
  assume wf: "bw_wf w"
  have "bw_contents w s = None"
    using contents_in_window [OF wf, of s] False by (cases "bw_contents w s") auto
  with False show ?thesis by (auto simp: bw_get_def get_pos_def left_bounds_def)
qed

lemma put_errors:
  "s < bw_left w \<Longrightarrow> put w s e = Err BeforeWindow"
  "bw_left w \<le> s \<Longrightarrow> right_bounds w < s \<Longrightarrow> put w s e = Err AfterWindow"
  by (auto simp: put_def get_pos_def left_bounds_def)

lemma put_ok:
  assumes wf: "bw_wf w" and lo: "bw_left w \<le> s" and hi: "s \<le> right_bounds w"
  shows "\<exists>w'. put w s e = Ok w' \<and> bw_left w' = bw_left w
           \<and> bw_capacity_limit w' = bw_capacity_limit w
           \<and> length (bw_data w') = max (length (bw_data w)) (Suc s - bw_left w)
           \<and> bw_contents w' = (bw_contents w)(s \<mapsto> e)"
proof -
  let ?pos = "s - bw_left w"
  let ?d = "push_none_until ?pos (bw_data w)"
  define w' where "w' = w\<lparr>bw_data := ?d[?pos := Some e]\<rparr>"
  have "put w s e = Ok w'"
    using get_pos_ok [OF wf lo hi] by (simp add: put_def w'_def Let_def)
  moreover have "length (bw_data w') = max (length (bw_data w)) (Suc s - bw_left w)"
    using lo by (simp add: w'_def Suc_diff_le)
  moreover have "bw_contents w' t = ((bw_contents w)(s \<mapsto> e)) t" for t
  proof -
    have nth: "t - bw_left w < length (bw_data w) \<Longrightarrow> ?d ! (t - bw_left w) = bw_data w ! (t - bw_left w)"
      by (rule nth_push_none_until(1))
    have non: "length (bw_data w) \<le> t - bw_left w \<Longrightarrow> t \<le> s \<Longrightarrow> ?d ! (t - bw_left w) = None"
      using lo by (intro nth_push_none_until(2)) auto
    show ?thesis
      using lo nth non by (auto simp: bw_contents_def w'_def nth_list_update)
  qed
  ultimately show ?thesis
    by (intro exI [of _ w']) (auto simp: w'_def)
qed

lemma put_wf:
  assumes wf: "bw_wf w" and ok: "put w s e = Ok w'" and s: "s < u64_max"
  shows "bw_wf w'"
proof -
  have lo: "bw_left w \<le> s" and hi: "s \<le> right_bounds w"
    using ok put_errors [where w = w and s = s and e = e] by (auto simp: not_less [symmetric])
  have "s \<le> bw_left w + bw_capacity_limit w - 1"
    using hi bw_wf_bounds(1) [OF wf] by simp
  with put_ok [OF wf lo hi, of e] ok wf lo s show ?thesis
    by (auto simp: bw_wf_def)
qed

text \<open>Every element of the drained prefix is present, so the \<open>expect\<close> in the source never
  panics.\<close>

lemma drain_front_no_panic:
  "e \<in> set (take (run_length (\<lambda>e. e \<noteq> None) d) d) \<Longrightarrow> e \<noteq> None"
  unfolding run_length_def by (metis set_takeWhileD takeWhile_eq_take)

lemma drain_front_none:
  "bw_contents w (bw_left w) = None \<Longrightarrow> drain_front w = (w, None)"
  by (cases "bw_data w") (auto simp: drain_front_def bw_contents_def)

lemma drain_front_some:
  assumes wf: "bw_wf w" and front: "bw_contents w (bw_left w) \<noteq> None"
  shows "\<exists>w' xs. drain_front w = (w', Some (bw_left w', xs))
           \<and> xs \<noteq> [] \<and> bw_left w' = bw_left w + length xs
           \<and> bw_capacity_limit w' = bw_capacity_limit w
           \<and> bw_wf w'
           \<and> (\<forall>i < length xs. bw_contents w (bw_left w + i) = Some (xs ! i))
           \<and> bw_contents w' (bw_left w') = None
           \<and> bw_contents w' = (\<lambda>s. if s < bw_left w' then None else bw_contents w s)"
proof -
  let ?d = "bw_data w" and ?P = "\<lambda>e. e \<noteq> None"
  define n where "n = run_length ?P ?d"
  define xs where "xs = map the (take n ?d)"
  define w' where "w' = w\<lparr>bw_data := drop n ?d, bw_left := add64 (bw_left w) n\<rparr>"
  have ne: "?d \<noteq> []" and hd: "hd ?d \<noteq> None"
    using front by (auto simp: bw_contents_def hd_conv_nth split: if_splits)
  have n: "n \<le> length ?d" "0 < n"
    using ne hd unfolding n_def by (simp_all add: run_length_pos)
  have len: "length xs = n"
    using n by (simp add: xs_def)
  have "bw_left w + n < u64_mod"
    using wf n by (auto simp: bw_wf_def u64_mod_eq)
  then have left: "bw_left w' = bw_left w + n"
    by (simp add: w'_def add64_exact)
  have drain: "drain_front w = (w', Some (bw_left w', xs))"
    using ne hd by (simp add: drain_front_def w'_def xs_def n_def Let_def)
  have el: "bw_contents w (bw_left w + i) = Some (xs ! i)" if "i < n" for i
    using that n run_length_nth [of i ?P ?d, folded n_def] by (auto simp: bw_contents_def xs_def)
  have cont: "bw_contents w' s = (if s < bw_left w' then None else bw_contents w s)" for s
  proof -
    have "\<lbrakk>bw_left w + n \<le> s; s < bw_left w + length ?d\<rbrakk>
        \<Longrightarrow> drop n ?d ! (s - (bw_left w + n)) = ?d ! (s - bw_left w)"
      using n by (simp add: add.commute)
    then show ?thesis
      using n by (auto simp: bw_contents_def left) (auto simp: w'_def)
  qed
  have "bw_contents w' (bw_left w') = bw_contents w (bw_left w + n)"
    by (simp add: cont left)
  then have stop: "bw_contents w' (bw_left w') = None"
    using run_length_stop [of ?P ?d, folded n_def] by (auto simp: bw_contents_def)
  have "bw_wf w'"
    using wf n left by (auto simp: bw_wf_def w'_def)
  with drain len left el cont stop n show ?thesis
    by (intro exI [of _ w'] exI [of _ xs]) (auto simp: w'_def)
qed

lemma drop_front_eq:
  assumes "bw_wf w" "n \<le> length (bw_data w)"
  shows "drop_front w n =
    (w\<lparr>bw_data := drop n (bw_data w), bw_left := bw_left w + n\<rparr>, bw_left w + n)"
proof -
  have "bw_left w + n < u64_mod"
    using assms by (auto simp: bw_wf_def u64_mod_eq)
  with assms show ?thesis
    by (simp add: drop_front_def Let_def add64_exact min_absorb2)
qed

lemma drop_front_wf:
  assumes "bw_wf w" "n \<le> length (bw_data w)"
  shows "bw_wf (fst (drop_front w n))"
  using assms by (auto simp: drop_front_eq bw_wf_def)

lemma drop_front_contents:
  assumes "bw_wf w" "n \<le> length (bw_data w)"
  shows "bw_contents (fst (drop_front w n)) =
    (\<lambda>s. if s < bw_left w + n then None else bw_contents w s)"
proof (rule ext)
  fix s
  have "\<lbrakk>bw_left w + n \<le> s; s < bw_left w + length (bw_data w)\<rbrakk>
      \<Longrightarrow> drop n (bw_data w) ! (s - (bw_left w + n)) = bw_data w ! (s - bw_left w)"
    using assms by (simp add: add.commute)
  then show "bw_contents (fst (drop_front w n)) s =
    (if s < bw_left w + n then None else bw_contents w s)"
    using assms by (auto simp: drop_front_eq bw_contents_def)
qed

lemma get_mut_contents:
  assumes "bw_wf w"
  shows "bw_contents (get_mut w s f) = (bw_contents w)(s := map_option f (bw_contents w s))"
    and "bw_left (get_mut w s f) = bw_left w"
    and "length (bw_data (get_mut w s f)) = length (bw_data w)"
    and "bw_capacity_limit (get_mut w s f) = bw_capacity_limit w"
proof -
  have out: "\<not> (bw_left w \<le> s \<and> s \<le> right_bounds w) \<Longrightarrow> bw_contents w s = None"
    using contents_in_window [OF assms, of s] by (cases "bw_contents w s") auto
  show "bw_contents (get_mut w s f) = (bw_contents w)(s := map_option f (bw_contents w s))"
  proof (cases "bw_left w \<le> s \<and> s \<le> right_bounds w")
    case True
    then show ?thesis
      using assms
      by (auto simp: get_mut_def get_pos_ok bw_contents_def nth_list_update fun_eq_iff)
  next
    case False
    then have "get_mut w s f = w"
      by (auto simp: get_mut_def get_pos_def left_bounds_def)
    with out False show ?thesis by auto
  qed
  show "bw_left (get_mut w s f) = bw_left w"
    and "length (bw_data (get_mut w s f)) = length (bw_data w)"
    and "bw_capacity_limit (get_mut w s f) = bw_capacity_limit w"
    by (auto simp: get_mut_def split: sum.splits)
qed

lemma get_mut_wf: "bw_wf w \<Longrightarrow> bw_wf (get_mut w s f)"
  by (simp add: bw_wf_def get_mut_contents)

lemma with_capacity_limit_wf:
  assumes "with_capacity_limit c l = Some w" "c \<le> usize_max" "l \<le> u64_max"
  shows "bw_wf w" "bw_left w = l" "bw_data w = []" "bw_capacity_limit w = c"
  using assms by (auto simp: with_capacity_limit_def bw_wf_def split: if_splits)

section \<open>The interface of a reordering window\<close>

text \<open>
  What the stream relies on: \<open>put\<close> stores an element between the bounds and refuses one
  outside them, \<open>drain\<close> hands out the contiguous run that starts at the lower bound and
  moves the bound past it. \<open>lookup\<close> is the contents as a map.
\<close>

locale sequence_window =
  fixes wf :: "'w \<Rightarrow> bool"
    and base :: "'w \<Rightarrow> nat"
    and limit :: "'w \<Rightarrow> nat"
    and lookup :: "'w \<Rightarrow> nat \<Rightarrow> 'a option"
    and insert :: "'w \<Rightarrow> nat \<Rightarrow> 'a \<Rightarrow> ('w, window_error) result"
    and drain :: "'w \<Rightarrow> 'w \<times> (nat \<times> 'a list) option"
  assumes base_in_window: "wf w \<Longrightarrow> base w \<le> limit w"
    and lookup_window: "wf w \<Longrightarrow> lookup w s = Some e \<Longrightarrow> base w \<le> s \<and> s \<le> limit w"
    and insert_before: "wf w \<Longrightarrow> s < base w \<Longrightarrow> insert w s e = Err BeforeWindow"
    and insert_after: "wf w \<Longrightarrow> limit w < s \<Longrightarrow> insert w s e = Err AfterWindow"
    and insert_inside: "\<lbrakk>wf w; base w \<le> s; s \<le> limit w\<rbrakk>
      \<Longrightarrow> \<exists>w'. insert w s e = Ok w' \<and> base w' = base w \<and> lookup w' = (lookup w)(s \<mapsto> e)
            \<and> (s < u64_max \<longrightarrow> wf w')"
    and drain_blocked: "\<lbrakk>wf w; lookup w (base w) = None\<rbrakk> \<Longrightarrow> drain w = (w, None)"
    and drain_ready: "\<lbrakk>wf w; lookup w (base w) \<noteq> None\<rbrakk>
      \<Longrightarrow> \<exists>w' xs. drain w = (w', Some (base w', xs)) \<and> xs \<noteq> [] \<and> wf w'
            \<and> base w' = base w + length xs
            \<and> (\<forall>i < length xs. lookup w (base w + i) = Some (xs ! i))
            \<and> lookup w' (base w') = None
            \<and> lookup w' = (\<lambda>s. if s < base w' then None else lookup w s)"
begin

text \<open>Contents that come from one numbered source \<open>g\<close> are drained in the source's order, each
  number once, without gaps.\<close>

lemma insert_drain_in_order:
  assumes wf: "wf w" and src: "lookup w \<subseteq>\<^sub>m g" and el: "g s = Some e"
    and lo: "base w \<le> s" and hi: "s \<le> limit w" and max: "s < u64_max"
    and ins: "insert w s e = Ok w1" and dr: "drain w1 = (w2, r)"
  shows "wf w2 \<and> base w \<le> base w2 \<and> lookup w2 \<subseteq>\<^sub>m g \<and> lookup w2 (base w2) = None
    \<and> (case r of None \<Rightarrow> base w2 = base w
        | Some (b, xs) \<Rightarrow> b = base w2 \<and> base w < base w2 \<and> map Some xs = map g [base w..<base w2])"
proof -
  from insert_inside [OF wf lo hi, of e] ins max
  have w1: "wf w1" "base w1 = base w" "lookup w1 = (lookup w)(s \<mapsto> e)" by auto
  have src1: "lookup w1 \<subseteq>\<^sub>m g"
    using src el by (auto simp: map_le_def w1(3))
  show ?thesis
  proof (cases "lookup w1 (base w1) = None")
    case True
    then have "w2 = w1" "r = None"
      using drain_blocked [OF w1(1) True] dr by simp_all
    with True w1(1,2) src1 show ?thesis by simp
  next
    case False
    from drain_ready [OF w1(1) False] obtain w' xs where
      d: "drain w1 = (w', Some (base w', xs))" "xs \<noteq> []" "wf w'" "base w' = base w1 + length xs"
        "\<forall>i < length xs. lookup w1 (base w1 + i) = Some (xs ! i)"
        "lookup w' (base w') = None"
        "lookup w' = (\<lambda>s. if s < base w' then None else lookup w1 s)" by blast
    have r: "w2 = w'" "r = Some (base w', xs)" using d(1) dr by simp_all
    have "map Some xs = map g [base w..<base w']"
    proof (rule nth_equalityI)
      show "length (map Some xs) = length (map g [base w..<base w'])" using d(4) w1(2) by simp
      fix i assume "i < length (map Some xs)"
      then have i: "i < length xs" by simp
      then have "lookup w1 (base w1 + i) = Some (xs ! i)" using d(5) by blast
      then have "g (base w1 + i) = Some (xs ! i)" using map_leD [OF src1] by blast
      with i d(4) w1(2) show "map Some xs ! i = map g [base w..<base w'] ! i" by simp
    qed
    moreover have "base w < base w'" using d(2,4) w1(2) by simp
    moreover have "lookup w' \<subseteq>\<^sub>m g"
      using src1 by (auto simp: d(7) map_le_def dom_def)
    ultimately show ?thesis using r d(3,6) by simp
  qed
qed

text \<open>Inserting at the lower bound always makes progress; inserting anywhere else into a
  window whose lower bound is empty hands nothing out.\<close>

lemma insert_base_progress:
  assumes wf: "wf w" and max: "base w < u64_max"
  obtains w1 w2 xs where "insert w (base w) e = Ok w1" "drain w1 = (w2, Some (base w2, xs))"
    "base w < base w2"
proof -
  from insert_inside [OF wf order.refl base_in_window [OF wf], of e] obtain w1 where
    w1: "insert w (base w) e = Ok w1" "base w1 = base w" "lookup w1 = (lookup w)(base w \<mapsto> e)"
      "base w < u64_max \<longrightarrow> wf w1" by blast
  have wf1: "wf w1" and ne: "lookup w1 (base w1) \<noteq> None" using w1 max by simp_all
  from drain_ready [OF wf1 ne] obtain w2 xs where
    d: "drain w1 = (w2, Some (base w2, xs))" "xs \<noteq> []" "base w2 = base w1 + length xs" by blast
  show ?thesis
  proof (rule that)
    show "insert w (base w) e = Ok w1" by (rule w1)
    show "drain w1 = (w2, Some (base w2, xs))" by (rule d)
    show "base w < base w2" using d w1 by simp
  qed
qed

end

interpretation bw: sequence_window bw_wf bw_left right_bounds bw_contents put drain_front
proof unfold_locales
  fix w :: "'a buffer_window" and s e
  show "bw_wf w \<Longrightarrow> bw_left w \<le> right_bounds w" by (rule bw_wf_bounds(2))
  show "bw_wf w \<Longrightarrow> bw_contents w s = Some e \<Longrightarrow> bw_left w \<le> s \<and> s \<le> right_bounds w"
    by (simp add: contents_in_window)
  show "bw_wf w \<Longrightarrow> s < bw_left w \<Longrightarrow> put w s e = Err BeforeWindow"
    by (rule put_errors(1))
  show "bw_wf w \<Longrightarrow> right_bounds w < s \<Longrightarrow> put w s e = Err AfterWindow"
    using bw_wf_bounds(2) [of w] by (intro put_errors(2)) auto
  show "\<lbrakk>bw_wf w; bw_left w \<le> s; s \<le> right_bounds w\<rbrakk>
      \<Longrightarrow> \<exists>w'. put w s e = Ok w' \<and> bw_left w' = bw_left w
            \<and> bw_contents w' = (bw_contents w)(s \<mapsto> e) \<and> (s < u64_max \<longrightarrow> bw_wf w')"
    using put_ok [of w s e] put_wf [of w s e] by metis
  show "\<lbrakk>bw_wf w; bw_contents w (bw_left w) = None\<rbrakk> \<Longrightarrow> drain_front w = (w, None)"
    by (rule drain_front_none)
  show "\<lbrakk>bw_wf w; bw_contents w (bw_left w) \<noteq> None\<rbrakk>
      \<Longrightarrow> \<exists>w' xs. drain_front w = (w', Some (bw_left w', xs)) \<and> xs \<noteq> [] \<and> bw_wf w'
            \<and> bw_left w' = bw_left w + length xs
            \<and> (\<forall>i < length xs. bw_contents w (bw_left w + i) = Some (xs ! i))
            \<and> bw_contents w' (bw_left w') = None
            \<and> bw_contents w' = (\<lambda>s. if s < bw_left w' then None else bw_contents w s)"
    by (drule (1) drain_front_some) (elim exE conjE, intro exI conjI, assumption+)
qed

end
