(* ===== verification/Mrp_Merge.thy ===== *)
theory Mrp_Merge
  imports Rtc_Prelude
begin

text \<open>
  The reassembly buffer of the reliable protocol, \<open>mrp/src/merge_buffer.rs\<close>: it collects a
  known number of parts and combines them. The trait bound \<open>T: Extend<T>\<close> is the argument
  \<open>ext\<close> of \<open>mb_merge\<close>: \<open>ext x xs\<close> is \<open>x\<close> after \<open>x.extend(xs)\<close>.
\<close>

datatype assembly_error = ContentLengthExceeded

record 'a merge_buffer =
  mb_data :: "'a list"
  mb_content_length :: nat

definition mb_new :: "nat \<Rightarrow> 'a merge_buffer option" where
  "mb_new content_length =
     (if content_length = 0 then None
      else Some \<lparr>mb_data = [], mb_content_length = content_length\<rparr>)"

text \<open>\<open>merge\<close> panics when it is called before the buffer is complete (\<open>assert_eq!\<close>) or on an
  empty buffer (\<open>unwrap\<close>).\<close>

definition mb_merge :: "('a \<Rightarrow> 'a list \<Rightarrow> 'a) \<Rightarrow> 'a merge_buffer \<Rightarrow> 'a option" where
  "mb_merge ext b =
     (if length (mb_data b) \<noteq> mb_content_length b then None
      else case mb_data b of [] \<Rightarrow> None | first # iter \<Rightarrow> Some (ext first iter))"

definition mb_push ::
  "'a merge_buffer \<Rightarrow> 'a \<Rightarrow> ('a merge_buffer \<times> bool, assembly_error) result" where
  "mb_push b x =
     (if length (mb_data b) = mb_content_length b then Err ContentLengthExceeded
      else let b' = b\<lparr>mb_data := mb_data b @ [x]\<rparr>
           in Ok (b', length (mb_data b') = mb_content_length b'))"

text \<open>A buffer that is being filled: it still misses at least one part.\<close>

definition mb_filling :: "'a merge_buffer \<Rightarrow> bool" where
  "mb_filling b \<longleftrightarrow> length (mb_data b) < mb_content_length b"

lemma mb_push_filling:
  assumes "mb_filling b"
  shows "mb_push b x = Ok (b\<lparr>mb_data := mb_data b @ [x]\<rparr>,
           Suc (length (mb_data b)) = mb_content_length b)"
  using assms by (simp add: mb_push_def mb_filling_def Let_def)

lemma mb_push_complete_merges:
  assumes "mb_push b x = Ok (b', True)"
  shows "\<exists>y ys. mb_data b @ [x] = y # ys \<and> mb_merge ext b' = Some (ext y ys)"
proof -
  have b': "b' = b\<lparr>mb_data := mb_data b @ [x]\<rparr>" "length (mb_data b') = mb_content_length b'"
    using assms by (auto simp: mb_push_def Let_def split: if_splits)
  obtain y ys where y: "mb_data b @ [x] = y # ys"
    by (cases "mb_data b @ [x]") auto
  with b' show ?thesis by (simp add: mb_merge_def)
qed

fun mb_push_all :: "'a merge_buffer \<Rightarrow> 'a list \<Rightarrow> ('a merge_buffer \<times> bool list, assembly_error) result" where
  "mb_push_all b [] = Ok (b, [])"
| "mb_push_all b (x # xs) =
     (case mb_push b x of
        Inl e \<Rightarrow> Err e
      | Inr (b', ready) \<Rightarrow>
          (case mb_push_all b' xs of Inl e \<Rightarrow> Err e | Inr (b'', rs) \<Rightarrow> Ok (b'', ready # rs)))"

lemma mb_push_all_fits:
  assumes "length (mb_data b) + length xs \<le> mb_content_length b"
  shows "\<exists>rs. mb_push_all b xs = Ok (b\<lparr>mb_data := mb_data b @ xs\<rparr>, rs)
    \<and> rs = map (\<lambda>i. length (mb_data b) + Suc i = mb_content_length b) [0..<length xs]"
  using assms
proof (induction xs arbitrary: b)
  case Nil
  then show ?case by simp
next
  case (Cons x xs)
  let ?b = "b\<lparr>mb_data := mb_data b @ [x]\<rparr>"
  have "mb_filling b" using Cons.prems by (simp add: mb_filling_def)
  then have p: "mb_push b x = Ok (?b, Suc (length (mb_data b)) = mb_content_length b)"
    by (rule mb_push_filling)
  have "length (mb_data ?b) + length xs \<le> mb_content_length ?b" using Cons.prems by simp
  from Cons.IH [OF this] have "mb_push_all ?b xs = Ok (b\<lparr>mb_data := mb_data b @ x # xs\<rparr>,
      map (\<lambda>i. length (mb_data b) + Suc (Suc i) = mb_content_length b) [0..<length xs])"
    by simp
  with p show ?case
    by (simp add: upt_conv_Cons map_Suc_upt [symmetric] comp_def del: upt_Suc)
qed

end
