(* ===== verification/Mrp_Stream.thy ===== *)
theory Mrp_Stream
  imports Mrp_Window Mrp_Merge
begin

text \<open>
  The sender and receiver state machine of the reliable protocol, \<open>mrp/src/stream.rs\<close>:
  \<open>MrpStream\<close> with its send window, receive window and reassembly state. The two type
  parameters \<open>SendData\<close> and \<open>ReceiveData\<close> are the type variables \<open>'s\<close> and \<open>'r\<close>.

  The closures the caller passes (\<open>FnOnce\<close>, \<open>FnMut\<close>) may change state of their own, so
  each is a function from a caller state \<open>'c\<close> and its arguments to the new caller state
  and its result, and the operation threads that state. \<open>Instant\<close> is a natural number.
  An operation that contains an \<open>expect\<close> or \<open>unwrap\<close> returns an \<open>option\<close>, \<^const>\<open>None\<close>
  being the panic.
\<close>

section \<open>Headers, packets and the stream\<close>

record mrp_header =
  seqnum :: "nat option"
  ack_num :: "nat option"
  num_packets :: "nat option"

definition header_new :: "nat option \<Rightarrow> nat option \<Rightarrow> mrp_header" where
  "header_new s a = \<lparr>seqnum = s, ack_num = a, num_packets = None\<rparr>"

definition header_new_with_length :: "nat option \<Rightarrow> nat option \<Rightarrow> nat option \<Rightarrow> mrp_header" where
  "header_new_with_length s a n = \<lparr>seqnum = s, ack_num = a, num_packets = n\<rparr>"

definition header_default :: mrp_header where
  "header_default = \<lparr>seqnum = None, ack_num = None, num_packets = None\<rparr>"

datatype 'd packet_wrapper = PacketWrapper mrp_header 'd

fun packet_header :: "'d packet_wrapper \<Rightarrow> mrp_header" where
  "packet_header (PacketWrapper h d) = h"

fun packet_data :: "'d packet_wrapper \<Rightarrow> 'd" where
  "packet_data (PacketWrapper h d) = d"

text \<open>\<open>impl Extend<PacketWrapper<Data>> for PacketWrapper<Data>\<close>: the first header is kept and
  the payloads are appended in order.\<close>

fun packet_extend ::
  "'t list packet_wrapper \<Rightarrow> 't list packet_wrapper list \<Rightarrow> 't list packet_wrapper" where
  "packet_extend (PacketWrapper h d) ps = PacketWrapper h (fold (\<lambda>p acc. acc @ packet_data p) ps d)"

record 's pending_packet =
  pp_packet :: 's
  next_send_at :: nat
  try_count :: "16 word"
  transmit :: bool

definition should_transmit :: "'s pending_packet \<Rightarrow> nat \<Rightarrow> bool" where
  "should_transmit p now = (transmit p \<or> next_send_at p \<le> now)"

record ('s, 'r) mrp_stream =
  should_ack :: bool
  send_buffer :: "'s pending_packet buffer_window"
  receive_buffer :: "'r packet_wrapper buffer_window"
  merge_state :: "'r merge_buffer option"
  merge_end_seqnum :: "nat option"

datatype mrp_receive_error =
  ReceiveWindowFull nat
| PacketMergeConflict
| InvalidNumPackets nat
| InvalidMergeState

datatype 'err mrp_send_error =
  SendWindowFull
| InnerSendFailed 'err

definition INITIAL_SEQNUM :: nat where "INITIAL_SEQNUM = 1"
definition INITIAL_ACKNUM :: nat where "INITIAL_ACKNUM = 1"

definition stream_with_capacity_limit :: "nat \<Rightarrow> ('s, 'r) mrp_stream option" where
  "stream_with_capacity_limit max_window_size =
     (case with_capacity_limit max_window_size INITIAL_SEQNUM of
        None \<Rightarrow> None
      | Some sb \<Rightarrow>
          (case with_capacity_limit max_window_size INITIAL_ACKNUM of
             None \<Rightarrow> None
           | Some rb \<Rightarrow> Some \<lparr>should_ack = False, send_buffer = sb, receive_buffer = rb,
                             merge_state = None, merge_end_seqnum = None\<rparr>))"

definition stream_default :: "('s, 'r) mrp_stream option" where
  "stream_default =
     (case bw_new INITIAL_SEQNUM of
        None \<Rightarrow> None
      | Some sb \<Rightarrow>
          (case bw_new INITIAL_ACKNUM of
             None \<Rightarrow> None
           | Some rb \<Rightarrow> Some \<lparr>should_ack = False, send_buffer = sb, receive_buffer = rb,
                             merge_state = None, merge_end_seqnum = None\<rparr>))"

definition ack_seqnum :: "('s, 'r) mrp_stream \<Rightarrow> nat" where
  "ack_seqnum st = left_bounds (receive_buffer st)"

definition next_seqnum :: "('s, 'r) mrp_stream \<Rightarrow> nat" where
  "next_seqnum st = add64 (max_seen_seqnum (send_buffer st)) 1"

definition send_len :: "('s, 'r) mrp_stream \<Rightarrow> nat" where
  "send_len st = bw_len (send_buffer st)"

definition receive_len :: "('s, 'r) mrp_stream \<Rightarrow> nat" where
  "receive_len st = bw_len (receive_buffer st)"

section \<open>Sending\<close>

definition try_send ::
  "('s, 'r) mrp_stream \<Rightarrow> ('c \<Rightarrow> mrp_header \<Rightarrow> 'c \<times> ('s \<times> nat, 'err) result) \<Rightarrow> 'c
    \<Rightarrow> (('s, 'r) mrp_stream \<times> 'c \<times> (unit, 'err mrp_send_error) result) option" where
  "try_send st send_data c =
     (if is_full (send_buffer st) then Some (st, c, Err SendWindowFull)
      else
        let header = header_default\<lparr>seqnum := Some (next_seqnum st)\<rparr>
        in case send_data c header of
             (c', Inr (packet, timeout)) \<Rightarrow>
               (case put (send_buffer st) (next_seqnum st)
                       \<lparr>pp_packet = packet, next_send_at = timeout, try_count = 1, transmit = False\<rparr>
                of Inl _ \<Rightarrow> None
                 | Inr sb \<Rightarrow> Some (st\<lparr>send_buffer := sb\<rparr>, c', Ok ()))
           | (c', Inl e) \<Rightarrow> Some (st, c', Err (InnerSendFailed e)))"

text \<open>The body of \<open>try_send_fragmented\<close>'s loop wraps the caller's closure, which cannot fail:
  the first fragment carries the number of packets.\<close>

definition fragment_closure ::
  "nat \<Rightarrow> nat \<Rightarrow> ('c \<Rightarrow> nat \<Rightarrow> mrp_header \<Rightarrow> 's \<Rightarrow> 'c \<times> 's \<times> nat) \<Rightarrow> 's
    \<Rightarrow> 'c \<Rightarrow> mrp_header \<Rightarrow> 'c \<times> ('s \<times> nat, 'err) result" where
  "fragment_closure n idx send_data fragment c header =
     (let header' = (if idx = 0 then header\<lparr>num_packets := Some n\<rparr> else header)
      in case send_data c idx header' fragment of (c', r) \<Rightarrow> (c', Ok r))"

fun send_fragments ::
  "nat \<Rightarrow> ('c \<Rightarrow> nat \<Rightarrow> mrp_header \<Rightarrow> 's \<Rightarrow> 'c \<times> 's \<times> nat) \<Rightarrow> nat \<Rightarrow> 's list
    \<Rightarrow> ('s, 'r) mrp_stream \<Rightarrow> 'c \<Rightarrow> (('s, 'r) mrp_stream \<times> 'c) option" where
  "send_fragments n send_data idx [] st c = Some (st, c)"
| "send_fragments n send_data idx (fragment # fragments) st c =
     (case try_send st (fragment_closure n idx send_data fragment
              :: 'c \<Rightarrow> mrp_header \<Rightarrow> 'c \<times> ('s \<times> nat, unit) result) c of
        None \<Rightarrow> None
      | Some (st', c', Inl _) \<Rightarrow> None
      | Some (st', c', Inr _) \<Rightarrow> send_fragments n send_data (Suc idx) fragments st' c')"

definition try_send_fragmented ::
  "('s, 'r) mrp_stream \<Rightarrow> 's list \<Rightarrow> ('c \<Rightarrow> nat \<Rightarrow> mrp_header \<Rightarrow> 's \<Rightarrow> 'c \<times> 's \<times> nat) \<Rightarrow> 'c
    \<Rightarrow> (('s, 'r) mrp_stream \<times> 'c \<times> (unit, unit mrp_send_error) result) option" where
  "try_send_fragmented st fragments send_data c =
     (if bw_capacity_limit (send_buffer st) \<le> bw_len (send_buffer st) + length fragments
      then Some (st, c, Err SendWindowFull)
      else case send_fragments (length fragments mod 2 ^ 32) send_data 0 fragments st c of
             None \<Rightarrow> None
           | Some (st', c') \<Rightarrow> Some (st', c', Ok ()))"

definition try_send_ack ::
  "('s, 'r) mrp_stream \<Rightarrow> ('c \<Rightarrow> mrp_header \<Rightarrow> 'c \<times> (unit, 'err) result) \<Rightarrow> 'c
    \<Rightarrow> ('s, 'r) mrp_stream \<times> 'c \<times> (nat option, 'err mrp_send_error) result" where
  "try_send_ack st send_ack c =
     (if should_ack st then
        (let header = (if should_ack st then header_default\<lparr>ack_num := Some (ack_seqnum st)\<rparr>
                       else header_default)
         in case send_ack c header of
              (c', Inr _) \<Rightarrow>
                (let st' = st\<lparr>should_ack := False\<rparr> in (st', c', Ok (Some (ack_seqnum st'))))
            | (c', Inl e) \<Rightarrow> (st, c', Err (InnerSendFailed e)))
      else (st, c, Ok None))"

fun resend_loop ::
  "nat \<Rightarrow> ('c \<Rightarrow> 's \<Rightarrow> 'c \<times> (nat, 'err) result) \<Rightarrow> nat list \<Rightarrow> ('s, 'r) mrp_stream \<Rightarrow> 'c
    \<Rightarrow> ('s, 'r) mrp_stream \<times> 'c \<times> (unit, 'err mrp_send_error) result" where
  "resend_loop now send_data [] st c = (st, c, Ok ())"
| "resend_loop now send_data (q # qs) st c =
     (case bw_get (send_buffer st) q of
        None \<Rightarrow> resend_loop now send_data qs st c
      | Some ppkt \<Rightarrow>
          if should_transmit ppkt now then
            (case send_data c (pp_packet ppkt) of
               (c', Inr t) \<Rightarrow>
                 resend_loop now send_data qs
                   (st\<lparr>send_buffer := get_mut (send_buffer st) q
                         (\<lambda>p. p\<lparr>next_send_at := t, try_count := try_count p + 1\<rparr>)\<rparr>) c'
             | (c', Inl e) \<Rightarrow> (st, c', Err (InnerSendFailed e)))
          else resend_loop now send_data qs st c)"

definition try_resend ::
  "('s, 'r) mrp_stream \<Rightarrow> nat \<Rightarrow> ('c \<Rightarrow> 's \<Rightarrow> 'c \<times> (nat, 'err) result) \<Rightarrow> 'c
    \<Rightarrow> ('s, 'r) mrp_stream \<times> 'c \<times> (unit, 'err mrp_send_error) result" where
  "try_resend st now send_data c =
     resend_loop now send_data
       [left_bounds (send_buffer st)..<Suc (max_seen_seqnum (send_buffer st))] st c"

section \<open>Receiving\<close>

definition update_send_window :: "('s, 'r) mrp_stream \<Rightarrow> nat \<Rightarrow> ('s, 'r) mrp_stream" where
  "update_send_window st received_ack_num =
     (if received_ack_num > next_seqnum st then st
      else if received_ack_num < left_bounds (send_buffer st) then st
      else if received_ack_num \<ge> left_bounds (send_buffer st) then
        (let old = received_ack_num - left_bounds (send_buffer st)
         in st\<lparr>send_buffer := fst (drop_front (send_buffer st) old)\<rparr>)
      else st)"

definition update_receiver_window ::
  "('s, 'r) mrp_stream \<Rightarrow> mrp_header \<Rightarrow> 'r
    \<Rightarrow> ('s, 'r) mrp_stream \<times> ('r packet_wrapper list, mrp_receive_error) result" where
  "update_receiver_window st header packet =
     (case seqnum header of
        Some q \<Rightarrow>
          (case put (receive_buffer st) q (PacketWrapper header packet) of
             Inl BeforeWindow \<Rightarrow> (st\<lparr>should_ack := True\<rparr>, Ok [])
           | Inl AfterWindow \<Rightarrow> (st, Err (ReceiveWindowFull q))
           | Inr rb \<Rightarrow>
               (case drain_front rb of
                  (rb', Some (_, ready_packets)) \<Rightarrow>
                    (st\<lparr>receive_buffer := rb', should_ack := True\<rparr>, Ok ready_packets)
                | (rb', None) \<Rightarrow> (st\<lparr>receive_buffer := rb'\<rparr>, Ok [])))
      | None \<Rightarrow> (st, Ok []))"

definition receive ::
  "('s, 'r) mrp_stream \<Rightarrow> mrp_header \<Rightarrow> 'r
    \<Rightarrow> ('s, 'r) mrp_stream \<times> ('r list, mrp_receive_error) result" where
  "receive st header packet =
     (case ack_num header of
        Some a \<Rightarrow> (update_send_window st a, Ok [])
      | None \<Rightarrow>
          if seqnum header \<noteq> None then
            (case update_receiver_window st header packet of
               (st', Inr ready) \<Rightarrow> (st', Ok (map packet_data ready))
             | (st', Inl e) \<Rightarrow> (st', Err e))
          else (st, Ok [packet]))"

definition fail_merge ::
  "('s, 'r) mrp_stream \<Rightarrow> mrp_receive_error \<Rightarrow> ('s, 'r) mrp_stream \<times> ('t, mrp_receive_error) result" where
  "fail_merge st reason = (st\<lparr>merge_state := None\<rparr>, Err reason)"

text \<open>The body of the loop in \<open>merge_packets\<close>, for one packet: what it pushes to \<open>result\<close>, or
  the error it returns with. \<open>continue\<close> is \<open>Ok []\<close>.\<close>

definition merge_packet ::
  "('r \<Rightarrow> 'r list \<Rightarrow> 'r) \<Rightarrow> ('s, 'r) mrp_stream \<Rightarrow> mrp_header \<Rightarrow> 'r
    \<Rightarrow> (('s, 'r) mrp_stream \<times> ('r list, mrp_receive_error) result) option" where
  "merge_packet ext st header d =
     (case seqnum header of
        None \<Rightarrow> Some (st, Ok [])
      | Some q \<Rightarrow>
          if merge_end_seqnum st \<noteq> None \<and> merge_state st = None
             \<and> \<not> the (merge_end_seqnum st) < q
          then Some (st, Ok [])
          else
            (case merge_state st of
               Some buffer \<Rightarrow>
                 if num_packets header \<noteq> None \<and> the (num_packets header) \<noteq> 0
                 then Some (fail_merge st PacketMergeConflict)
                 else
                   (case mb_push buffer d of
                      Inr (buffer', True) \<Rightarrow>
                        map_option (\<lambda>m. (st\<lparr>merge_state := None\<rparr>, Ok [m])) (mb_merge ext buffer')
                    | Inr (buffer', False) \<Rightarrow> Some (st\<lparr>merge_state := Some buffer'\<rparr>, Ok [])
                    | Inl _ \<Rightarrow> Some (fail_merge st InvalidMergeState))
             | None \<Rightarrow>
                 (case num_packets header of
                    Some n \<Rightarrow>
                      if n \<le> 1 then Some (st, Ok [d])
                      else if n > bw_capacity_limit (receive_buffer st)
                      then Some (st, Err (InvalidNumPackets n))
                      else
                        map_option
                          (\<lambda>buffer.
                             (st\<lparr>merge_state := Some (case mb_push buffer d of
                                                      Inr (b, _) \<Rightarrow> b | Inl _ \<Rightarrow> buffer),
                                 merge_end_seqnum := Some (sub64 (add64 q n) 1)\<rparr>, Ok []))
                          (mb_new n)
                  | None \<Rightarrow> Some (st, Ok [d]))))"

fun merge_packets ::
  "('r \<Rightarrow> 'r list \<Rightarrow> 'r) \<Rightarrow> ('s, 'r) mrp_stream \<Rightarrow> 'r list \<Rightarrow> 'r packet_wrapper list
    \<Rightarrow> (('s, 'r) mrp_stream \<times> ('r list, mrp_receive_error) result) option" where
  "merge_packets ext st res [] = Some (st, Ok res)"
| "merge_packets ext st res (PacketWrapper header d # packets) =
     (case merge_packet ext st header d of
        None \<Rightarrow> None
      | Some (st', Inl e) \<Rightarrow> Some (st', Err e)
      | Some (st', Inr out) \<Rightarrow> merge_packets ext st' (res @ out) packets)"

definition receive_and_merge ::
  "('r \<Rightarrow> 'r list \<Rightarrow> 'r) \<Rightarrow> ('s, 'r) mrp_stream \<Rightarrow> mrp_header \<Rightarrow> 'r
    \<Rightarrow> (('s, 'r) mrp_stream \<times> ('r list, mrp_receive_error) result) option" where
  "receive_and_merge ext st header packet =
     (case ack_num header of
        Some a \<Rightarrow> Some (update_send_window st a, Ok [])
      | None \<Rightarrow>
          if seqnum header \<noteq> None then
            (case update_receiver_window st header packet of
               (st', Inr ready) \<Rightarrow> merge_packets ext st' [] ready
             | (st', Inl e) \<Rightarrow> Some (st', Err e))
          else Some (st, Ok [packet]))"

section \<open>The stream invariant\<close>

text \<open>
  Both windows are well-formed, the send window has no gaps, and a reassembly in progress
  holds at least one part, still misses one, and knows where it ends.
\<close>

definition merge_ok :: "('s, 'r) mrp_stream \<Rightarrow> bool" where
  "merge_ok st = (case merge_state st of
     None \<Rightarrow> True
   | Some b \<Rightarrow> mb_filling b \<and> mb_data b \<noteq> [] \<and> merge_end_seqnum st \<noteq> None)"

definition stream_wf :: "('s, 'r) mrp_stream \<Rightarrow> bool" where
  "stream_wf st \<longleftrightarrow> bw_wf (send_buffer st) \<and> bw_wf (receive_buffer st)
     \<and> None \<notin> set (bw_data (send_buffer st)) \<and> merge_ok st"

lemma merge_ok_frame [simp]:
  "merge_ok (st\<lparr>send_buffer := sb\<rparr>) = merge_ok st"
  "merge_ok (st\<lparr>receive_buffer := rb\<rparr>) = merge_ok st"
  "merge_ok (st\<lparr>should_ack := a\<rparr>) = merge_ok st"
  by (simp_all add: merge_ok_def split: option.splits)

lemma next_seqnum_eq:
  assumes "bw_wf (send_buffer st)"
  shows "next_seqnum st = bw_left (send_buffer st) + bw_len (send_buffer st)"
proof -
  have "0 < bw_left (send_buffer st)"
    and "bw_left (send_buffer st) + length (bw_data (send_buffer st)) < u64_mod"
    using assms by (auto simp: bw_wf_def u64_mod_eq)
  then show ?thesis
    using bw_wf_bounds(3) [OF assms] by (simp add: next_seqnum_def add64_exact bw_len_def)
qed

lemma put_next:
  assumes wf: "bw_wf w" and room: "\<not> is_full w" and max: "bw_left w + length (bw_data w) < u64_max"
  shows "put w (bw_left w + length (bw_data w)) e = Ok (w\<lparr>bw_data := bw_data w @ [Some e]\<rparr>)"
proof -
  have "bw_left w + length (bw_data w) \<le> right_bounds w"
    using wf room max bw_wf_bounds(1) [OF wf] by (auto simp: bw_wf_def is_full_def)
  then show ?thesis
    using get_pos_ok [OF wf, of "bw_left w + length (bw_data w)"]
    by (simp add: put_def push_none_until_eq Let_def)
qed

lemma put_next_wf:
  assumes "bw_wf w" "\<not> is_full w" "bw_left w + length (bw_data w) < u64_max"
  shows "bw_wf (w\<lparr>bw_data := bw_data w @ [Some e]\<rparr>)"
  using assms by (auto simp: bw_wf_def is_full_def)

text \<open>Sending with a closure that succeeds: the packet goes to the end of the window under the
  next sequence number, and the \<open>expect\<close> does not panic.\<close>

lemma try_send_ok:
  assumes wf: "stream_wf st" and room: "\<not> is_full (send_buffer st)" and max: "next_seqnum st < u64_max"
    and call: "f c (header_default\<lparr>seqnum := Some (next_seqnum st)\<rparr>) = (c', Ok (p, t))"
  defines "sb \<equiv> (send_buffer st)\<lparr>bw_data := bw_data (send_buffer st)
             @ [Some \<lparr>pp_packet = p, next_send_at = t, try_count = 1, transmit = False\<rparr>]\<rparr>"
  shows "try_send st f c = Some (st\<lparr>send_buffer := sb\<rparr>, c', Ok ())"
    and "stream_wf (st\<lparr>send_buffer := sb\<rparr>)"
proof -
  have swf: "bw_wf (send_buffer st)" using wf by (simp add: stream_wf_def)
  note n = next_seqnum_eq [OF swf]
  show "try_send st f c = Some (st\<lparr>send_buffer := sb\<rparr>, c', Ok ())"
    using room call put_next [OF swf room] max n
    by (simp add: try_send_def Let_def bw_len_def sb_def)
  show "stream_wf (st\<lparr>send_buffer := sb\<rparr>)"
    using wf put_next_wf [OF swf room] max n
    by (simp add: stream_wf_def sb_def bw_len_def)
qed

lemma try_send_full: "is_full (send_buffer st) \<Longrightarrow> try_send st f c = Some (st, c, Err SendWindowFull)"
  by (simp add: try_send_def)

lemma try_send_inner_failed:
  assumes "\<not> is_full (send_buffer st)"
    and "f c (header_default\<lparr>seqnum := Some (next_seqnum st)\<rparr>) = (c', Err e)"
  shows "try_send st f c = Some (st, c', Err (InnerSendFailed e))"
  using assms by (simp add: try_send_def Let_def)

text \<open>An acknowledgement in range drops exactly the packets below it; any other is ignored.\<close>

lemma update_send_window_eq:
  assumes wf: "bw_wf (send_buffer st)"
  defines "w \<equiv> send_buffer st"
  shows "update_send_window st a =
    (if bw_left w \<le> a \<and> a \<le> bw_left w + length (bw_data w)
     then st\<lparr>send_buffer := w\<lparr>bw_data := drop (a - bw_left w) (bw_data w), bw_left := a\<rparr>\<rparr>
     else st)"
  using next_seqnum_eq [OF wf] drop_front_eq [OF wf, of "a - bw_left w"]
  by (auto simp: update_send_window_def Let_def left_bounds_def w_def bw_len_def)

lemma update_send_window_wf:
  assumes "stream_wf st" shows "stream_wf (update_send_window st a)"
  using assms update_send_window_eq [of st a]
  by (auto simp: stream_wf_def bw_wf_def dest: in_set_dropD)

text \<open>Receiving a packet that agrees with one numbered source \<open>g\<close> keeps the window in agreement
  with it and hands out the next contiguous run of the source.\<close>

lemma update_receiver_window_source:
  assumes wf: "stream_wf st" and q: "seqnum h = Some q" "q < u64_max"
    and hi: "q \<le> right_bounds (receive_buffer st)"
    and src: "bw_contents (receive_buffer st) \<subseteq>\<^sub>m g" and pkt: "g q = Some (PacketWrapper h d)"
    and gap: "bw_contents (receive_buffer st) (ack_seqnum st) = None"
  shows "\<exists>rb ack ready. update_receiver_window st h d =
      (st\<lparr>receive_buffer := rb, should_ack := ack\<rparr>, Ok ready)
    \<and> bw_wf rb \<and> ack_seqnum st \<le> bw_left rb
    \<and> bw_capacity_limit rb = bw_capacity_limit (receive_buffer st)
    \<and> map Some ready = map g [ack_seqnum st..<bw_left rb]
    \<and> bw_contents rb \<subseteq>\<^sub>m g \<and> bw_contents rb (bw_left rb) = None
    \<and> (should_ack st \<or> q < ack_seqnum st \<or> ack_seqnum st < bw_left rb \<longrightarrow> ack)
    \<and> (q = ack_seqnum st \<longrightarrow> q < bw_left rb)"
proof (cases "q < ack_seqnum st")
  case True
  then have "update_receiver_window st h d =
      (st\<lparr>receive_buffer := receive_buffer st, should_ack := True\<rparr>, Ok [])"
    using q by (simp add: update_receiver_window_def put_errors ack_seqnum_def left_bounds_def)
  with True wf src gap show ?thesis
    by (intro exI [of _ "receive_buffer st"] exI [of _ True] exI [of _ "[]"])
       (auto simp: stream_wf_def ack_seqnum_def left_bounds_def)
next
  case False
  let ?w = "receive_buffer st"
  have w: "bw_wf ?w" using wf by (simp add: stream_wf_def)
  have lo: "bw_left ?w \<le> q" using False by (simp add: ack_seqnum_def left_bounds_def)
  obtain w1 where w1: "put ?w q (PacketWrapper h d) = Ok w1"
    "bw_left w1 = bw_left ?w" "bw_capacity_limit w1 = bw_capacity_limit ?w"
    "bw_contents w1 = (bw_contents ?w)(q \<mapsto> PacketWrapper h d)"
    using put_ok [OF w lo hi] by blast
  obtain w2 r where w2: "drain_front w1 = (w2, r)" by (cases "drain_front w1")
  from bw.insert_drain_in_order [OF w src pkt lo hi q(2) w1(1) w2]
  have d: "bw_wf w2" "bw_left ?w \<le> bw_left w2" "bw_contents w2 \<subseteq>\<^sub>m g" "bw_contents w2 (bw_left w2) = None"
    "case r of None \<Rightarrow> bw_left w2 = bw_left ?w | Some (b, xs) \<Rightarrow>
       b = bw_left w2 \<and> bw_left ?w < bw_left w2 \<and> map Some xs = map g [bw_left ?w..<bw_left w2]"
    by auto
  have cap: "bw_capacity_limit w2 = bw_capacity_limit ?w"
    using w2 w1(3) by (auto simp: drain_front_def Let_def split: if_splits)
  have stuck: "r = None \<Longrightarrow> q \<noteq> bw_left ?w"
    using w2 drain_front_some [OF put_wf [OF w w1(1) q(2)]] w1(2,4) by auto
  show ?thesis
  proof (cases r)
    case None
    then have "update_receiver_window st h d =
        (st\<lparr>receive_buffer := w2, should_ack := should_ack st\<rparr>, Ok [])"
      using q w1(1) w2 by (simp add: update_receiver_window_def)
    with None d cap False stuck show ?thesis
      by (intro exI [of _ w2] exI [of _ "should_ack st"] exI [of _ "[]"])
         (auto simp: ack_seqnum_def left_bounds_def)
  next
    case (Some bx)
    then obtain b xs where "r = Some (b, xs)" by (cases bx) auto
    then have "update_receiver_window st h d =
        (st\<lparr>receive_buffer := w2, should_ack := True\<rparr>, Ok xs)"
      using q w1(1) w2 by (simp add: update_receiver_window_def)
    with \<open>r = Some (b, xs)\<close> d cap False show ?thesis
      by (intro exI [of _ w2] exI [of _ True] exI [of _ xs])
         (auto simp: ack_seqnum_def left_bounds_def)
  qed
qed

section \<open>Retransmission\<close>

text \<open>With a closure that sends every packet it is given (\<open>snd_one\<close> is its effect on the
  caller's state, \<open>t\<close> the next timeout it returns), \<open>try_resend\<close> sends exactly the packets that
  are due, in sequence order, and reschedules them.\<close>

definition resend_update :: "nat \<Rightarrow> ('s \<Rightarrow> nat) \<Rightarrow> 's pending_packet \<Rightarrow> 's pending_packet" where
  "resend_update now t p =
     (if should_transmit p now
      then p\<lparr>next_send_at := t (pp_packet p), try_count := try_count p + 1\<rparr> else p)"

definition due_packets :: "nat \<Rightarrow> 's pending_packet option list \<Rightarrow> 's list" where
  "due_packets now d =
     map pp_packet (filter (\<lambda>p. should_transmit p now) (map the (filter (\<lambda>e. e \<noteq> None) d)))"

lemma due_packets_Cons [simp]:
  "due_packets now (None # d) = due_packets now d"
  "due_packets now (Some p # d) =
     (if should_transmit p now then [pp_packet p] else []) @ due_packets now d"
  "due_packets now [] = []"
  by (auto simp: due_packets_def)

lemma due_packets_iff:
  "x \<in> set (due_packets now d) \<longleftrightarrow> (\<exists>p. Some p \<in> set d \<and> should_transmit p now \<and> x = pp_packet p)"
proof (induction d)
  case (Cons e d)
  then show ?case by (cases e) auto
qed simp

lemma get_mut_at:
  assumes "bw_wf w" "i < length (bw_data w)"
  shows "get_mut w (bw_left w + i) f = w\<lparr>bw_data := (bw_data w)[i := map_option f (bw_data w ! i)]\<rparr>"
    and "bw_get w (bw_left w + i) = bw_data w ! i"
proof -
  have "bw_left w + i \<le> right_bounds w"
    using assms bw_wf_bounds(1) [OF assms(1)] by (auto simp: bw_wf_def)
  then show "get_mut w (bw_left w + i) f = w\<lparr>bw_data := (bw_data w)[i := map_option f (bw_data w ! i)]\<rparr>"
    "bw_get w (bw_left w + i) = bw_data w ! i"
    using assms get_pos_ok [OF assms(1), of "bw_left w + i"] by (simp_all add: get_mut_def bw_get_def)
qed

lemma resend_loop_all:
  assumes "bw_wf (send_buffer st)" "bw_data (send_buffer st) = pre @ d"
    and f: "\<And>c p. f c p = (snd_one c p, Ok (t p))"
  shows "resend_loop now f
      [bw_left (send_buffer st) + length pre..<bw_left (send_buffer st) + length pre + length d] st c =
    (st\<lparr>send_buffer := (send_buffer st)\<lparr>bw_data := pre @ map (map_option (resend_update now t)) d\<rparr>\<rparr>,
     foldl snd_one c (due_packets now d), Ok ())"
  using assms(1,2)
proof (induction d arbitrary: st pre c)
  case Nil
  then show ?case by simp
next
  case (Cons e d)
  let ?w = "send_buffer st" and ?e = "map_option (resend_update now t) e"
  define st1 where "st1 = st\<lparr>send_buffer := ?w\<lparr>bw_data := (pre @ [?e]) @ d\<rparr>\<rparr>"
  have g: "bw_get ?w (bw_left ?w + length pre) = e"
    "\<And>f. get_mut ?w (bw_left ?w + length pre) f = ?w\<lparr>bw_data := pre @ map_option f e # d\<rparr>"
    using get_mut_at [OF Cons.prems(1), of "length pre"] Cons.prems(2) by simp_all
  have "bw_wf (send_buffer st1)"
    using Cons.prems by (simp add: st1_def bw_wf_def)
  from Cons.IH [OF this, of "pre @ [?e]"]
  have IH: "resend_loop now f
      [Suc (bw_left ?w + length pre)..<bw_left ?w + length pre + Suc (length d)] st1 c' =
    (st\<lparr>send_buffer := ?w\<lparr>bw_data := pre @ ?e # map (map_option (resend_update now t)) d\<rparr>\<rparr>,
     foldl snd_one c' (due_packets now d), Ok ())" for c'
    by (simp add: st1_def del: upt_Suc)
  have same: "?e = e \<Longrightarrow> st1 = st"
    using Cons.prems(2) by (simp add: st1_def)
  show ?case
  proof (cases "\<exists>p. e = Some p \<and> should_transmit p now")
    case True
    then obtain p where p: "e = Some p" "should_transmit p now" by blast
    then have "resend_update now t p = p\<lparr>next_send_at := t (pp_packet p), try_count := try_count p + 1\<rparr>"
      by (simp add: resend_update_def)
    with p show ?thesis
      using g IH f [of c "pp_packet p"] by (simp add: upt_conv_Cons st1_def del: upt_Suc)
  next
    case False
    then have "?e = e" by (cases e) (auto simp: resend_update_def)
    with False g IH same show ?thesis
      by (cases e) (simp_all add: upt_conv_Cons del: upt_Suc)
  qed
qed

lemma try_resend_all:
  assumes "bw_wf (send_buffer st)" and f: "\<And>c p. f c p = (snd_one c p, Ok (t p))"
  shows "try_resend st now f c =
    (st\<lparr>send_buffer := (send_buffer st)\<lparr>bw_data :=
          map (map_option (resend_update now t)) (bw_data (send_buffer st))\<rparr>\<rparr>,
     foldl snd_one c (due_packets now (bw_data (send_buffer st))), Ok ())"
proof -
  have "Suc (max_seen_seqnum (send_buffer st)) =
      bw_left (send_buffer st) + length (bw_data (send_buffer st))"
    using bw_wf_bounds(3) [OF assms(1)] assms(1) by (simp add: bw_wf_def)
  then show ?thesis
    using resend_loop_all [OF assms(1) _ f, of "[]" "bw_data (send_buffer st)"]
    by (simp add: try_resend_def left_bounds_def del: upt_Suc)
qed

text \<open>Whatever the closure does, retransmission changes neither the packets nor the window.\<close>

definition send_packets :: "('s, 'r) mrp_stream \<Rightarrow> 's option list" where
  "send_packets st = map (map_option pp_packet) (bw_data (send_buffer st))"

lemma get_mut_packets:
  assumes "\<And>p. pp_packet (f p) = pp_packet p"
  shows "map (map_option pp_packet) (bw_data (get_mut w q f)) = map (map_option pp_packet) (bw_data w)"
proof -
  have "map_option (pp_packet \<circ> f) e = map_option pp_packet e" for e
    using assms by (cases e) auto
  then show ?thesis
    by (auto simp: get_mut_def map_update option.map_comp list_update_same_conv split: sum.splits)
qed

lemma resend_loop_frame:
  assumes "resend_loop now f qs st c = (st', c', r)" "bw_wf (send_buffer st)"
    and "\<And>c p. \<lbrakk>I c; Some p \<in> set (send_packets st)\<rbrakk> \<Longrightarrow> I (fst (f c p))" and "I c"
  shows "(\<exists>sb. st' = st\<lparr>send_buffer := sb\<rparr>) \<and> send_packets st' = send_packets st
    \<and> bw_left (send_buffer st') = bw_left (send_buffer st)
    \<and> bw_capacity_limit (send_buffer st') = bw_capacity_limit (send_buffer st)
    \<and> bw_wf (send_buffer st') \<and> I c'"
  using assms
proof (induction qs arbitrary: st c)
  case Nil
  then show ?case by (auto intro: exI [of _ "send_buffer st"])
next
  case (Cons q qs)
  show ?case
  proof (cases "\<exists>p. bw_get (send_buffer st) q = Some p \<and> should_transmit p now")
    case False
    then have "resend_loop now f qs st c = (st', c', r)"
      using Cons.prems(1) by (auto split: option.splits)
    then show ?thesis using Cons.IH Cons.prems(2-4) by blast
  next
    case True
    then obtain p where p: "bw_get (send_buffer st) q = Some p" "should_transmit p now" by blast
    then have "bw_contents (send_buffer st) q = Some p"
      using bw_get_contents Cons.prems(2) by metis
    then have "Some p \<in> set (bw_data (send_buffer st))"
      by (auto simp: bw_contents_def in_set_conv_nth split: if_splits)
        (metis diff_less_mono2 less_diff_conv2 add.commute)
    then have mem: "Some (pp_packet p) \<in> set (send_packets st)"
      by (force simp: send_packets_def)
    obtain c1 r1 where f: "f c (pp_packet p) = (c1, r1)" by (cases "f c (pp_packet p)")
    then have I1: "I c1" using Cons.prems(3) [OF Cons.prems(4) mem] by simp
    show ?thesis
    proof (cases r1)
      case (Inl e)
      then show ?thesis using Cons.prems p f I1 by (auto intro: exI [of _ "send_buffer st"])
    next
      case (Inr t)
      define st1 where "st1 = st\<lparr>send_buffer := get_mut (send_buffer st) q
        (\<lambda>p. p\<lparr>next_send_at := t, try_count := try_count p + 1\<rparr>)\<rparr>"
      have run: "resend_loop now f qs st1 c1 = (st', c', r)"
        using Cons.prems(1) p f Inr by (simp add: st1_def)
      have pk: "send_packets st1 = send_packets st"
        unfolding send_packets_def st1_def by (simp add: get_mut_packets)
      have "bw_wf (send_buffer st1)"
        using Cons.prems(2) by (simp add: st1_def get_mut_wf)
      from Cons.IH [OF run this _ I1] Cons.prems(3) pk show ?thesis
        by (auto simp: st1_def get_mut_contents [OF Cons.prems(2)])
    qed
  qed
qed

end
