(* ===== verification/Mrp_Reassembly.thy ===== *)
theory Mrp_Reassembly
  imports Mrp_Stream
begin

text \<open>
  Reassembly of fragmented messages by \<open>MrpStream::merge_packets\<close>: what the loop of
  \<open>Mrp_Stream\<close> does to a whole group of fragments, to a prefix of a sequence of messages,
  and independently of how the packets are split into batches.
\<close>

section \<open>Reassembly\<close>

text \<open>Reassembly touches only the reassembly state, and of the windows reads only the capacity.\<close>

definition set_windows ::
  "bool \<Rightarrow> 's pending_packet buffer_window \<Rightarrow> 'r packet_wrapper buffer_window
    \<Rightarrow> ('s, 'r) mrp_stream \<Rightarrow> ('s, 'r) mrp_stream" where
  "set_windows a sb rb st = st\<lparr>should_ack := a, send_buffer := sb, receive_buffer := rb\<rparr>"

lemma set_windows_simps [simp]:
  "merge_state (set_windows a sb rb st) = merge_state st"
  "merge_end_seqnum (set_windows a sb rb st) = merge_end_seqnum st"
  "receive_buffer (set_windows a sb rb st) = rb"
  "send_buffer (set_windows a sb rb st) = sb"
  "should_ack (set_windows a sb rb st) = a"
  "set_windows a sb rb (set_windows a' sb' rb' st) = set_windows a sb rb st"
  by (simp_all add: set_windows_def)

lemma merge_packet_frame:
  assumes "bw_capacity_limit rb = bw_capacity_limit (receive_buffer st)"
  shows "merge_packet ext (set_windows a sb rb st) h d =
    map_option (map_prod (set_windows a sb rb) id) (merge_packet ext st h d)"
  using assms
  by (cases st) (auto simp: merge_packet_def fail_merge_def set_windows_def comp_def option.map_comp
      split: option.splits sum.splits prod.splits bool.splits)

lemma merge_packet_windows:
  assumes "merge_packet ext st h d = Some (st', r)"
  shows "should_ack st' = should_ack st" "send_buffer st' = send_buffer st"
    "receive_buffer st' = receive_buffer st"
proof -
  have "set_windows (should_ack st) (send_buffer st) (receive_buffer st) st = st"
    by (simp add: set_windows_def)
  with merge_packet_frame [of "receive_buffer st" st ext "should_ack st" "send_buffer st" h d] assms
  obtain st0 where "st' = set_windows (should_ack st) (send_buffer st) (receive_buffer st) st0"
    by auto
  then show "should_ack st' = should_ack st" "send_buffer st' = send_buffer st"
    "receive_buffer st' = receive_buffer st" by simp_all
qed

lemma merge_packet_ok:
  assumes "merge_ok st"
  shows "\<exists>st' r. merge_packet ext st h d = Some (st', r) \<and> merge_ok st'"
proof (cases "merge_state st")
  case None
  then show ?thesis
    by (auto simp: merge_packet_def merge_ok_def mb_new_def mb_push_def mb_filling_def Let_def
        split: option.splits)
next
  case (Some b)
  then have b: "mb_filling b" "mb_data b \<noteq> []" "merge_end_seqnum st \<noteq> None"
    using assms by (auto simp: merge_ok_def)
  obtain b' ready where p: "mb_push b d = Ok (b', ready)" "b' = b\<lparr>mb_data := mb_data b @ [d]\<rparr>"
    "ready = (Suc (length (mb_data b)) = mb_content_length b)"
    using mb_push_filling [OF b(1), of d] by blast
  show ?thesis
  proof (cases ready)
    case True
    then obtain m where "mb_merge ext b' = Some m"
      using mb_push_complete_merges [of b d b' ext] p(1) by auto
    with True p(1) Some b(3) assms show ?thesis
      by (auto simp: merge_packet_def fail_merge_def merge_ok_def split: option.splits)
  next
    case False
    then have "mb_filling b'" using p(2,3) b(1) by (auto simp: mb_filling_def)
    with False p Some b(3) assms show ?thesis
      by (auto simp: merge_packet_def fail_merge_def merge_ok_def split: option.splits)
  qed
qed

text \<open>The loop: it composes over appended batches, keeps the windows, and never panics.\<close>

lemma merge_packets_append:
  "merge_packets ext st res (ps @ qs) =
     (case merge_packets ext st res ps of
        Some (st', Inr res') \<Rightarrow> merge_packets ext st' res' qs
      | other \<Rightarrow> other)"
  by (induction ext st res ps rule: merge_packets.induct) (auto split: option.split sum.split)

lemma merge_packets_result:
  "merge_packets ext st (res0 @ res) ps =
     map_option (map_prod id (map_sum id ((@) res0))) (merge_packets ext st res ps)"
  by (induction ext st res ps rule: merge_packets.induct) (auto split: option.split sum.split)

lemma merge_packets_frame:
  assumes "bw_capacity_limit rb = bw_capacity_limit (receive_buffer st)"
  shows "merge_packets ext (set_windows a sb rb st) res ps =
    map_option (map_prod (set_windows a sb rb) id) (merge_packets ext st res ps)"
  using assms
proof (induction ext st res ps rule: merge_packets.induct)
  case (2 ext st res h d ps)
  show ?case
  proof (cases "merge_packet ext st h d")
    case None
    then show ?thesis using merge_packet_frame [OF 2(2)] by simp
  next
    case (Some x)
    obtain st' r where x: "x = (st', r)" by (cases x)
    have "receive_buffer st' = receive_buffer st"
      using merge_packet_windows(3) [of ext st h d st' r] Some x by simp
    with 2 Some x show ?thesis
      using merge_packet_frame [OF 2(2), of ext a sb h d] by (cases r) auto
  qed
qed simp

lemma merge_packets_ok:
  assumes "merge_ok st"
  shows "\<exists>st' r. merge_packets ext st res ps = Some (st', r) \<and> merge_ok st'
    \<and> should_ack st' = should_ack st \<and> send_buffer st' = send_buffer st
    \<and> receive_buffer st' = receive_buffer st"
  using assms
proof (induction ext st res ps rule: merge_packets.induct)
  case (2 ext st res h d ps)
  from merge_packet_ok [OF 2(2)] obtain st' r where
    m: "merge_packet ext st h d = Some (st', r)" "merge_ok st'" by blast
  with merge_packet_windows [OF m(1)] show ?case
    using 2(1) [of "(st', r)" st' r] by (cases r) auto
qed simp

text \<open>One whole group of fragments on an idle stream gives exactly one message: the first
  fragment extended by the others.\<close>

definition merge_idle :: "('s, 'r) mrp_stream \<Rightarrow> nat \<Rightarrow> bool" where
  "merge_idle st q \<longleftrightarrow> merge_state st = None
     \<and> (case merge_end_seqnum st of None \<Rightarrow> True | Some e \<Rightarrow> e < q)"

lemma merge_packet_single:
  assumes "merge_idle st q" "seqnum h = Some q" "num_packets h = None \<or> num_packets h = Some 1"
  shows "merge_packet ext st h d = Some (st, Ok [d])"
  using assms by (auto simp: merge_packet_def merge_idle_def split: option.splits)

lemma merge_packet_first:
  assumes "merge_idle st q" "seqnum h = Some q" "num_packets h = Some n" "2 \<le> n"
    and "n \<le> bw_capacity_limit (receive_buffer st)" "q + n \<le> u64_max"
  shows "merge_packet ext st h d = Some (st\<lparr>merge_state := Some \<lparr>mb_data = [d], mb_content_length = n\<rparr>,
     merge_end_seqnum := Some (q + n - 1)\<rparr>, Ok [])"
proof -
  have "sub64 (add64 q n) 1 = q + n - 1"
    using assms by (intro add64_sub64_1) (auto simp: u64_mod_eq)
  with assms show ?thesis
    by (auto simp: merge_packet_def merge_idle_def mb_new_def mb_push_def Let_def
        split: option.splits)
qed

lemma merge_packet_more:
  assumes "merge_state st = Some b" "mb_filling b" "mb_data b \<noteq> []"
    and "seqnum h = Some q" "num_packets h = None"
  shows "merge_packet ext st h d = Some
    (if Suc (length (mb_data b)) = mb_content_length b
     then (st\<lparr>merge_state := None\<rparr>, Ok [ext (hd (mb_data b)) (tl (mb_data b) @ [d])])
     else (st\<lparr>merge_state := Some (b\<lparr>mb_data := mb_data b @ [d]\<rparr>)\<rparr>, Ok []))"
  using assms mb_push_filling [OF assms(2), of d]
  by (cases "mb_data b") (auto simp: merge_packet_def mb_merge_def split: bool.splits)

fun numbered :: "nat \<Rightarrow> 'r list \<Rightarrow> 'r packet_wrapper list" where
  "numbered q [] = []"
| "numbered q (d # ds) = PacketWrapper (header_new (Some q) None) d # numbered (Suc q) ds"

lemma length_numbered [simp]: "length (numbered q ds) = length ds"
  by (induction ds arbitrary: q) auto

lemma take_numbered [simp]: "take k (numbered q ds) = numbered q (take k ds)"
  by (induction ds arbitrary: q k) (auto simp: take_Cons split: nat.splits)

lemma merge_rest:
  assumes "merge_state st = Some b" "mb_filling b" "mb_data b \<noteq> []"
    and "length (mb_data b) + length ds \<le> mb_content_length b"
  shows "merge_packets ext st res (numbered q ds) = Some
    (if length (mb_data b) + length ds = mb_content_length b
     then (st\<lparr>merge_state := None\<rparr>, Ok (res @ [ext (hd (mb_data b)) (tl (mb_data b) @ ds)]))
     else (st\<lparr>merge_state := Some (b\<lparr>mb_data := mb_data b @ ds\<rparr>)\<rparr>, Ok res))"
  using assms
proof (induction ds arbitrary: st b q)
  case Nil
  then show ?case by (simp add: mb_filling_def)
next
  case (Cons d ds)
  let ?b = "b\<lparr>mb_data := mb_data b @ [d]\<rparr>" and ?h = "header_new (Some q) None"
  have m: "merge_packet ext st ?h d = Some
    (if Suc (length (mb_data b)) = mb_content_length b
     then (st\<lparr>merge_state := None\<rparr>, Ok [ext (hd (mb_data b)) (tl (mb_data b) @ [d])])
     else (st\<lparr>merge_state := Some ?b\<rparr>, Ok []))"
    by (rule merge_packet_more [OF Cons.prems(1-3)]) (simp_all add: header_new_def)
  show ?case
  proof (cases "Suc (length (mb_data b)) = mb_content_length b")
    case True
    then have "ds = []" using Cons.prems(4) by (cases ds) auto
    with True m show ?thesis by simp
  next
    case False
    then have "mb_filling ?b" "length (mb_data ?b) + length ds \<le> mb_content_length ?b"
      using Cons.prems(2,4) by (auto simp: mb_filling_def)
    from Cons.IH [OF _ this(1) _ this(2), of "st\<lparr>merge_state := Some ?b\<rparr>" "Suc q"]
    show ?thesis using False m Cons.prems(3) by simp
  qed
qed

section \<open>Messages\<close>

text \<open>
  What an application sends: one packet (\<open>try_send\<close>) or a non-empty group of fragments
  (\<open>try_send_fragmented\<close>). \<open>packets_from q ms\<close> are the packets of the messages \<open>ms\<close> numbered
  from \<open>q\<close>, \<open>message_value\<close> is what the peer's application is to get for a message.
\<close>

datatype 'r message = Single 'r | Fragmented "'r list"

fun fragments_of :: "'r message \<Rightarrow> 'r list" where
  "fragments_of (Single d) = [d]"
| "fragments_of (Fragmented ds) = ds"

definition message_value :: "('r \<Rightarrow> 'r list \<Rightarrow> 'r) \<Rightarrow> 'r message \<Rightarrow> 'r" where
  "message_value ext m =
     (case fragments_of m of [d] \<Rightarrow> d | ds \<Rightarrow> ext (hd ds) (tl ds))"

fun message_packets :: "nat \<Rightarrow> 'r message \<Rightarrow> 'r packet_wrapper list" where
  "message_packets q (Single d) = [PacketWrapper (header_new (Some q) None) d]"
| "message_packets q (Fragmented []) = []"
| "message_packets q (Fragmented (d # ds)) =
     PacketWrapper (header_new_with_length (Some q) None (Some (Suc (length ds)))) d
       # numbered (Suc q) ds"

fun packets_from :: "nat \<Rightarrow> 'r message list \<Rightarrow> 'r packet_wrapper list" where
  "packets_from q [] = []"
| "packets_from q (m # ms) = message_packets q m @ packets_from (q + length (fragments_of m)) ms"

definition message_fits :: "nat \<Rightarrow> 'r message \<Rightarrow> bool" where
  "message_fits cap m \<longleftrightarrow> fragments_of m \<noteq> [] \<and> length (fragments_of m) \<le> cap"

lemma length_message_packets [simp]: "length (message_packets q m) = length (fragments_of m)"
  by (cases "(q, m)" rule: message_packets.cases) auto

lemma merge_message:
  assumes "merge_idle st q" "message_fits (bw_capacity_limit (receive_buffer st)) m"
    and "q + length (fragments_of m) \<le> u64_max" and "k \<le> length (fragments_of m)"
  shows "\<exists>st'. merge_packets ext st res (take k (message_packets q m)) =
      Some (st', Ok (if k = length (fragments_of m) then res @ [message_value ext m] else res))
    \<and> (k = length (fragments_of m) \<longrightarrow> merge_idle st' (q + k) \<and> receive_buffer st' = receive_buffer st)"
proof (cases "k = 0")
  case True
  then show ?thesis using assms(2) by (auto simp: message_fits_def)
next
  case k: False
  show ?thesis
  proof (cases "length (fragments_of m) = 1")
    case True
    then obtain h d where m: "message_packets q m = [PacketWrapper h d]" "fragments_of m = [d]"
      "seqnum h = Some q" "num_packets h = None \<or> num_packets h = Some 1"
      by (cases "(q, m)" rule: message_packets.cases)
        (auto simp: header_new_def header_new_with_length_def)
    have "merge_packet ext st h d = Some (st, Ok [d])"
      using merge_packet_single [OF assms(1)] m(3,4) by blast
    with m(1,2) k assms(1,4) show ?thesis
      by (auto simp: message_value_def merge_idle_def split: option.splits)
  next
    case False
    then obtain d ds where m: "m = Fragmented (d # ds)" "ds \<noteq> []"
      using assms(2) by (cases "(q, m)" rule: message_packets.cases) (auto simp: message_fits_def)
    define h :: mrp_header where
      "h = header_new_with_length (Some q) None (Some (Suc (length ds)))"
    define st1 where "st1 = st\<lparr>merge_state := Some \<lparr>mb_data = [d], mb_content_length = Suc (length ds)\<rparr>,
       merge_end_seqnum := Some (q + length ds)\<rparr>"
    have "merge_packet ext st h d = Some (st1, Ok [])"
      using merge_packet_first [OF assms(1), of h "Suc (length ds)"] assms(2,3) m
      by (cases ds) (auto simp: h_def st1_def header_new_with_length_def message_fits_def)
    moreover have "merge_packets ext st1 res (numbered (Suc q) (take (k - 1) ds)) = Some
      (if k = length (d # ds)
       then (st1\<lparr>merge_state := None\<rparr>, Ok (res @ [ext d ds]))
       else (st1\<lparr>merge_state := Some \<lparr>mb_data = d # take (k - 1) ds,
               mb_content_length = Suc (length ds)\<rparr>\<rparr>, Ok res))"
      using merge_rest [of st1 _ "take (k - 1) ds" ext res "Suc q"] k assms(4) m
      by (auto simp: st1_def mb_filling_def)
    ultimately have "merge_packets ext st res (take k (message_packets q m)) = Some
      (if k = length (d # ds)
       then (st1\<lparr>merge_state := None\<rparr>, Ok (res @ [ext d ds]))
       else (st1\<lparr>merge_state := Some \<lparr>mb_data = d # take (k - 1) ds,
               mb_content_length = Suc (length ds)\<rparr>\<rparr>, Ok res))"
      using k m by (cases k) (auto simp: h_def)
    then show ?thesis
      using m by (cases ds) (auto simp: merge_idle_def st1_def message_value_def)
  qed
qed

text \<open>How many of the messages are complete once \<open>k\<close> packets have arrived in order.\<close>

fun complete_messages :: "nat \<Rightarrow> 'r message list \<Rightarrow> nat" where
  "complete_messages k [] = 0"
| "complete_messages k (m # ms) =
     (if k < length (fragments_of m) then 0
      else Suc (complete_messages (k - length (fragments_of m)) ms))"

lemma packets_from_append:
  "packets_from q (ms @ ms') = packets_from q ms @ packets_from (q + length (packets_from q ms)) ms'"
  by (induction ms arbitrary: q) (auto simp: add.assoc)

lemma length_packets_from: "length (packets_from q ms) = length (packets_from q' ms)"
  by (induction ms arbitrary: q q') auto

lemma complete_messages_all: "length (packets_from q ms) \<le> k \<Longrightarrow> complete_messages k ms = length ms"
proof (induction ms arbitrary: q k)
  case (Cons m ms)
  then have "length (packets_from (q + length (fragments_of m)) ms) \<le> k - length (fragments_of m)"
    by simp
  with Cons show ?case by auto
qed simp

lemma merge_messages:
  assumes "merge_idle st q" "\<forall>m \<in> set ms. message_fits (bw_capacity_limit (receive_buffer st)) m"
    and "q + length (packets_from q ms) \<le> u64_max"
  shows "\<exists>st'. merge_packets ext st res (take k (packets_from q ms)) =
    Some (st', Ok (res @ map (message_value ext) (take (complete_messages k ms) ms)))"
  using assms
proof (induction ms arbitrary: st q res k)
  case Nil
  then show ?case by simp
next
  case (Cons m ms)
  let ?n = "length (fragments_of m)"
  have fits: "message_fits (bw_capacity_limit (receive_buffer st)) m"
    and bound: "q + ?n \<le> u64_max"
    using Cons.prems by auto
  show ?case
  proof (cases "k < ?n")
    case True
    with merge_message [OF Cons.prems(1) fits bound, of k ext res] show ?thesis by auto
  next
    case False
    from merge_message [OF Cons.prems(1) fits bound, of ?n ext res] obtain st' where
      st': "merge_packets ext st res (message_packets q m) = Some (st', Ok (res @ [message_value ext m]))"
      "merge_idle st' (q + ?n)" "receive_buffer st' = receive_buffer st" by auto
    from Cons.IH [OF st'(2), of "res @ [message_value ext m]" "k - ?n"] st'(3) Cons.prems(2,3)
    obtain st'' where "merge_packets ext st' (res @ [message_value ext m])
        (take (k - ?n) (packets_from (q + ?n) ms)) = Some (st'',
          Ok (res @ message_value ext m # map (message_value ext) (take (complete_messages (k - ?n) ms) ms)))"
      by auto
    with False st'(1) show ?thesis by (simp add: merge_packets_append)
  qed
qed

end
