(* ===== verification/Mrp_Protocol.thy ===== *)
theory Mrp_Protocol
  imports Mrp_Reassembly
begin

text \<open>
  Two \<open>MrpStream\<close> endpoints over a network that loses, duplicates and reorders packets.
  Every endpoint step is an operation of \<open>mrp/src/stream.rs\<close> as modelled in \<open>Mrp_Stream\<close>;
  the closures passed to it put packets on the wire. The fields \<open>sent\<close> and \<open>got\<close> record what
  the applications sent and were handed. The documentation of the module rules sequence
  number wrap-around out, so sending is limited to numbers below \<open>u64::MAX\<close>.
\<close>

section \<open>The system\<close>

datatype side = Alice | Bob

fun peer :: "side \<Rightarrow> side" where
  "peer Alice = Bob"
| "peer Bob = Alice"

lemma peer_simps [simp]: "peer (peer a) = a" "peer a \<noteq> a" "a \<noteq> peer a"
  by (cases a; simp)+

type_synonym 'd endpoint = "('d packet_wrapper, 'd) mrp_stream"

record 'd system =
  endpoint :: "side \<Rightarrow> 'd endpoint"
  wire :: "side \<Rightarrow> 'd packet_wrapper set"
  sent :: "side \<Rightarrow> 'd message list"
  got :: "side \<Rightarrow> 'd list"

definition transmit_new ::
  "'d \<Rightarrow> nat \<Rightarrow> 'd packet_wrapper set \<Rightarrow> mrp_header
    \<Rightarrow> 'd packet_wrapper set \<times> ('d packet_wrapper \<times> nat, unit) result" where
  "transmit_new d t c h = (insert (PacketWrapper h d) c, Ok (PacketWrapper h d, t))"

definition transmit_fragment ::
  "(nat \<Rightarrow> nat) \<Rightarrow> 'd packet_wrapper set \<Rightarrow> nat \<Rightarrow> mrp_header \<Rightarrow> 'd packet_wrapper
    \<Rightarrow> 'd packet_wrapper set \<times> 'd packet_wrapper \<times> nat" where
  "transmit_fragment ts c idx h p =
     (insert (PacketWrapper h (packet_data p)) c, PacketWrapper h (packet_data p), ts idx)"

definition transmit_ack ::
  "'d \<Rightarrow> 'd packet_wrapper set \<Rightarrow> mrp_header \<Rightarrow> 'd packet_wrapper set \<times> (unit, unit) result" where
  "transmit_ack d c h = (insert (PacketWrapper h d) c, Ok ())"

definition retransmit ::
  "('d packet_wrapper \<Rightarrow> bool) \<Rightarrow> ('d packet_wrapper \<Rightarrow> nat) \<Rightarrow> 'd packet_wrapper set
    \<Rightarrow> 'd packet_wrapper \<Rightarrow> 'd packet_wrapper set \<times> (nat, unit) result" where
  "retransmit works ts c p = (if works p then (insert p c, Ok (ts p)) else (c, Err ()))"

definition set_endpoint :: "'d system \<Rightarrow> side \<Rightarrow> 'd endpoint \<Rightarrow> 'd packet_wrapper set \<Rightarrow> 'd system" where
  "set_endpoint s a st w =
     s\<lparr>endpoint := (endpoint s)(a := st), wire := (wire s)(peer a := w)\<rparr>"

inductive mrp_step :: "('d \<Rightarrow> 'd list \<Rightarrow> 'd) \<Rightarrow> 'd system \<Rightarrow> 'd system \<Rightarrow> bool" for ext where
  send:
    "\<lbrakk>try_send (endpoint s a) (transmit_new d t) (wire s (peer a)) = Some (st, w, Ok ());
      next_seqnum (endpoint s a) < u64_max\<rbrakk>
     \<Longrightarrow> mrp_step ext s ((set_endpoint s a st w)\<lparr>sent := (sent s)(a := sent s a @ [Single d])\<rparr>)"
| send_fragmented:
    "\<lbrakk>try_send_fragmented (endpoint s a) (map (PacketWrapper header_default) ds)
        (transmit_fragment ts) (wire s (peer a)) = Some (st, w, Ok ());
      ds \<noteq> []; length ds < 2 ^ 32; next_seqnum (endpoint s a) + length ds \<le> u64_max\<rbrakk>
     \<Longrightarrow> mrp_step ext s ((set_endpoint s a st w)\<lparr>sent := (sent s)(a := sent s a @ [Fragmented ds])\<rparr>)"
| receive_ok:
    "\<lbrakk>PacketWrapper h d \<in> wire s a; receive_and_merge ext (endpoint s a) h d = Some (st, Ok out)\<rbrakk>
     \<Longrightarrow> mrp_step ext s ((set_endpoint s a st (wire s (peer a)))\<lparr>got := (got s)(a := got s a @ out)\<rparr>)"
| receive_err:
    "\<lbrakk>PacketWrapper h d \<in> wire s a; receive_and_merge ext (endpoint s a) h d = Some (st, Err e)\<rbrakk>
     \<Longrightarrow> mrp_step ext s (set_endpoint s a st (wire s (peer a)))"
| send_ack:
    "try_send_ack (endpoint s a) (transmit_ack d) (wire s (peer a)) = (st, w, r)
     \<Longrightarrow> mrp_step ext s (set_endpoint s a st w)"
| resend:
    "try_resend (endpoint s a) now (retransmit works ts) (wire s (peer a)) = (st, w, r)
     \<Longrightarrow> mrp_step ext s (set_endpoint s a st w)"
| lose:
    "w \<subseteq> wire s a \<Longrightarrow> mrp_step ext s (s\<lparr>wire := (wire s)(a := w)\<rparr>)"

definition mrp_init :: "nat \<Rightarrow> 'd system option" where
  "mrp_init cap =
     (case stream_with_capacity_limit cap of
        None \<Rightarrow> None
      | Some st \<Rightarrow> Some \<lparr>endpoint = (\<lambda>_. st), wire = (\<lambda>_. {}), sent = (\<lambda>_. []), got = (\<lambda>_. [])\<rparr>)"

definition mrp_reachable :: "('d \<Rightarrow> 'd list \<Rightarrow> 'd) \<Rightarrow> nat \<Rightarrow> 'd system \<Rightarrow> bool" where
  "mrp_reachable ext cap s \<longleftrightarrow>
     cap \<le> usize_max \<and> (\<exists>s0. mrp_init cap = Some s0 \<and> (mrp_step ext)\<^sup>*\<^sup>* s0 s)"

section \<open>What the sender keeps\<close>

definition log_at :: "'d packet_wrapper list \<Rightarrow> nat \<Rightarrow> 'd packet_wrapper option" where
  "log_at ps q = (if 1 \<le> q \<and> q \<le> length ps then Some (ps ! (q - 1)) else None)"

definition sender_inv :: "nat \<Rightarrow> 'd endpoint \<Rightarrow> 'd packet_wrapper list \<Rightarrow> bool" where
  "sender_inv cap st ps \<longleftrightarrow>
     bw_capacity_limit (send_buffer st) = cap
     \<and> bw_left (send_buffer st) + bw_len (send_buffer st) = Suc (length ps)
     \<and> send_packets st = map Some (drop (bw_left (send_buffer st) - 1) ps)"

text \<open>\<open>sent_more st st' ps\<close>: \<open>st'\<close> is \<open>st\<close> after buffering the packets \<open>ps\<close> behind the others.\<close>

definition sent_more :: "'d endpoint \<Rightarrow> 'd endpoint \<Rightarrow> 'd packet_wrapper list \<Rightarrow> bool" where
  "sent_more st st' ps \<longleftrightarrow>
     (\<exists>sb. st' = st\<lparr>send_buffer := sb\<rparr>) \<and> stream_wf st'
     \<and> bw_left (send_buffer st') = bw_left (send_buffer st)
     \<and> bw_capacity_limit (send_buffer st') = bw_capacity_limit (send_buffer st)
     \<and> send_packets st' = send_packets st @ map Some ps"

lemma sent_more_trans: "sent_more st st' ps \<Longrightarrow> sent_more st' st'' qs \<Longrightarrow> sent_more st st'' (ps @ qs)"
  by (auto simp: sent_more_def)

lemma length_send_packets [simp]: "length (send_packets st) = bw_len (send_buffer st)"
  by (simp add: send_packets_def bw_len_def)

lemma sent_more_next:
  assumes "stream_wf st" "sent_more st st' ps"
  shows "next_seqnum st' = next_seqnum st + length ps"
    and "bw_len (send_buffer st') = bw_len (send_buffer st) + length ps"
proof -
  have "length (send_packets st') = bw_len (send_buffer st) + length ps"
    using assms(2) by (simp add: sent_more_def)
  then show len: "bw_len (send_buffer st') = bw_len (send_buffer st) + length ps" by simp
  show "next_seqnum st' = next_seqnum st + length ps"
    using assms len by (simp add: next_seqnum_eq stream_wf_def sent_more_def)
qed

lemma try_send_transmits:
  assumes wf: "stream_wf st" and room: "\<not> is_full (send_buffer st)" and max: "next_seqnum st < u64_max"
    and call: "f c (header_new (Some (next_seqnum st)) None) = (c', Ok (p, t))"
  shows "\<exists>st'. try_send st f c = Some (st', c', Ok ()) \<and> sent_more st st' [p]"
proof -
  have h: "header_default\<lparr>seqnum := Some (next_seqnum st)\<rparr> = header_new (Some (next_seqnum st)) None"
    by (simp add: header_default_def header_new_def)
  note r = try_send_ok [OF wf room max, of f c c' p t, unfolded h, OF call]
  show ?thesis
    using r by (auto simp: sent_more_def send_packets_def)
qed

lemma sender_inv_more:
  assumes "sender_inv cap st ps" "sent_more st st' qs" "0 < bw_left (send_buffer st)" "stream_wf st"
  shows "sender_inv cap st' (ps @ qs)"
  using assms sent_more_next(2) [OF assms(4,2)] by (auto simp: sender_inv_def sent_more_def)

text \<open>The fragments after the first carry plain consecutive headers.\<close>

lemma send_fragments_rest:
  assumes "stream_wf st" "bw_len (send_buffer st) + length ds \<le> bw_capacity_limit (send_buffer st)"
    and "next_seqnum st + length ds \<le> u64_max" and "0 < idx"
  shows "\<exists>st'. send_fragments n (transmit_fragment ts) idx (map (PacketWrapper h0) ds) st c =
      Some (st', c \<union> set (numbered (next_seqnum st) ds))
    \<and> sent_more st st' (numbered (next_seqnum st) ds)"
  using assms
proof (induction ds arbitrary: st c idx)
  case Nil
  then show ?case by (auto simp: sent_more_def intro: exI [of _ "send_buffer st"])
next
  case (Cons d ds)
  let ?p = "PacketWrapper (header_new (Some (next_seqnum st)) None) d"
  have "\<not> is_full (send_buffer st)" "next_seqnum st < u64_max"
    using Cons.prems(2,3) by (auto simp: is_full_def bw_len_def)
  from try_send_transmits [OF Cons.prems(1) this,
      of "fragment_closure n idx (transmit_fragment ts) (PacketWrapper h0 d)" c "insert ?p c" ?p "ts idx"]
  obtain st1 where s1: "try_send st (fragment_closure n idx (transmit_fragment ts) (PacketWrapper h0 d)) c =
      Some (st1, insert ?p c, Ok () :: (unit, unit mrp_send_error) result)" "sent_more st st1 [?p]"
    using Cons.prems(4) by (auto simp: fragment_closure_def transmit_fragment_def Let_def)
  note n1 = sent_more_next [OF Cons.prems(1) s1(2)]
  have cap: "stream_wf st1" "bw_capacity_limit (send_buffer st1) = bw_capacity_limit (send_buffer st)"
    using s1(2) by (auto simp: sent_more_def)
  from Cons.IH [OF cap(1), of "Suc idx" "insert ?p c"] n1 cap(2) Cons.prems(2,3)
  obtain st' where s': "send_fragments n (transmit_fragment ts) (Suc idx) (map (PacketWrapper h0) ds) st1
      (insert ?p c) = Some (st', insert ?p c \<union> set (numbered (Suc (next_seqnum st)) ds))"
    "sent_more st1 st' (numbered (Suc (next_seqnum st)) ds)" by auto
  show ?case
    using s1(1) s'(1) sent_more_trans [OF s1(2) s'(2)] by auto
qed

lemma try_send_fragmented_sends:
  assumes wf: "stream_wf st" and ne: "ds \<noteq> []" "length ds < 2 ^ 32"
    and max: "next_seqnum st + length ds \<le> u64_max"
    and room: "bw_len (send_buffer st) + length ds < bw_capacity_limit (send_buffer st)"
  defines "ps \<equiv> message_packets (next_seqnum st) (Fragmented ds)"
  shows "\<exists>st'. try_send_fragmented st (map (PacketWrapper h0) ds) (transmit_fragment ts) c =
      Some (st', c \<union> set ps, Ok ()) \<and> sent_more st st' ps"
proof -
  obtain d rest where ds: "ds = d # rest" using ne(1) by (cases ds) auto
  let ?n = "Suc (length rest)"
  let ?p = "PacketWrapper (header_new_with_length (Some (next_seqnum st)) None (Some ?n)) d"
  have n: "length ds mod 2 ^ 32 = ?n" using ne(2) ds by simp
  have "\<not> is_full (send_buffer st)" "next_seqnum st < u64_max"
    using max room ds by (auto simp: is_full_def bw_len_def)
  from try_send_transmits [OF wf this,
      of "fragment_closure ?n 0 (transmit_fragment ts) (PacketWrapper h0 d)" c "insert ?p c" ?p "ts 0"]
  obtain st1 where s1: "try_send st (fragment_closure ?n 0 (transmit_fragment ts) (PacketWrapper h0 d)) c =
      Some (st1, insert ?p c, Ok () :: (unit, unit mrp_send_error) result)" "sent_more st st1 [?p]"
    by (auto simp: fragment_closure_def transmit_fragment_def Let_def
        header_new_def header_new_with_length_def)
  note n1 = sent_more_next [OF wf s1(2)]
  have cap: "stream_wf st1" "bw_capacity_limit (send_buffer st1) = bw_capacity_limit (send_buffer st)"
    using s1(2) by (auto simp: sent_more_def)
  from send_fragments_rest [OF cap(1), of rest "Suc 0" ?n ts h0 "insert ?p c"] n1 cap(2) max room ds
  obtain st' where s': "send_fragments ?n (transmit_fragment ts) (Suc 0) (map (PacketWrapper h0) rest) st1
      (insert ?p c) = Some (st', insert ?p c \<union> set (numbered (Suc (next_seqnum st)) rest))"
    "sent_more st1 st' (numbered (Suc (next_seqnum st)) rest)" by auto
  show ?thesis
    using room n s1(1) s'(1) sent_more_trans [OF s1(2) s'(2)]
    by (auto simp: try_send_fragmented_def ds ps_def)
qed

section \<open>What the receiver has\<close>

definition reset_merge :: "('s, 'r) mrp_stream \<Rightarrow> ('s, 'r) mrp_stream" where
  "reset_merge st = st\<lparr>merge_state := None, merge_end_seqnum := None\<rparr>"

definition receiver_inv ::
  "('d \<Rightarrow> 'd list \<Rightarrow> 'd) \<Rightarrow> nat \<Rightarrow> 'd endpoint \<Rightarrow> 'd packet_wrapper list \<Rightarrow> 'd list \<Rightarrow> bool" where
  "receiver_inv ext cap st ps out \<longleftrightarrow>
     bw_capacity_limit (receive_buffer st) = cap
     \<and> 1 \<le> ack_seqnum st \<and> ack_seqnum st \<le> Suc (length ps)
     \<and> bw_contents (receive_buffer st) \<subseteq>\<^sub>m log_at ps
     \<and> bw_contents (receive_buffer st) (ack_seqnum st) = None
     \<and> merge_packets ext (reset_merge st) [] (take (ack_seqnum st - 1) ps) = Some (st, Ok out)"

lemma log_at_append: "log_at ps \<subseteq>\<^sub>m log_at (ps @ qs)"
  by (auto simp: map_le_def log_at_def nth_append split: if_splits)

lemma map_le_log_append: "m \<subseteq>\<^sub>m log_at ps \<Longrightarrow> m \<subseteq>\<^sub>m log_at (ps @ qs)"
  using log_at_append map_le_trans by blast

lemma receiver_inv_more: "receiver_inv ext cap st ps out \<Longrightarrow> receiver_inv ext cap st (ps @ qs) out"
  by (auto simp: receiver_inv_def map_le_log_append)

lemma reset_merge_windows:
  "reset_merge (set_windows a sb rb st) = set_windows a sb rb (reset_merge st)"
  by (simp add: reset_merge_def set_windows_def)

lemma receiver_inv_windows:
  assumes "receiver_inv ext cap st ps out"
  shows "receiver_inv ext cap (set_windows a sb (receive_buffer st) st) ps out"
  using assms merge_packets_frame [of "receive_buffer st" "reset_merge st"]
  by (simp add: receiver_inv_def ack_seqnum_def reset_merge_windows) (simp add: reset_merge_def)

lemma take_log_upto:
  assumes "map Some xs = map (log_at ps) [l..<r]" "1 \<le> l" "l \<le> r"
  shows "take (r - 1) ps = take (l - 1) ps @ xs" and "r \<le> max l (Suc (length ps))"
proof -
  have len: "length xs = r - l"
    using arg_cong [OF assms(1), of length] by simp
  have el: "log_at ps (l + i) = Some (xs ! i)" if "i < length xs" for i
    using arg_cong [OF assms(1), of "\<lambda>ys. ys ! i"] that len by simp
  show r: "r \<le> max l (Suc (length ps))"
  proof (cases "l = r")
    case False
    then have "r - l - 1 < length xs" using assms(3) len by simp
    from el [OF this] False assms(3) show ?thesis by (auto simp: log_at_def split: if_splits)
  qed simp
  have nth: "l - 1 + i < length ps" "ps ! (l - 1 + i) = xs ! i" if "i < length xs" for i
    using el [OF that] assms(2) by (auto simp: log_at_def split: if_splits)
  have "length (take (r - l) (drop (l - 1) ps)) = length xs"
    using nth(1) [of "length xs - 1"] len by (cases xs) auto
  then have "xs = take (r - l) (drop (l - 1) ps)"
    using nth len by (intro nth_equalityI) (auto simp: less_diff_conv2)
  moreover have "r - 1 = l - 1 + (r - l)" using assms(2,3) by simp
  ultimately show "take (r - 1) ps = take (l - 1) ps @ xs"
    by (simp only: take_add)
qed

text \<open>The receiving step: a packet of the log is never refused, never panics, and moves the
  receiver along the log.\<close>

lemma receiver_inv_data:
  assumes inv: "receiver_inv ext cap st ps out" and wf: "stream_wf st"
    and ps: "ps = packets_from 1 ms" "\<forall>m \<in> set ms. message_fits cap m" "length ps < u64_max"
    and h: "ack_num h = None" "seqnum h = Some q" "log_at ps q = Some (PacketWrapper h d)"
    and hi: "q \<le> right_bounds (receive_buffer st)"
  shows "\<exists>st' new. receive_and_merge ext st h d = Some (st', Ok new)
    \<and> receiver_inv ext cap st' ps (out @ new) \<and> stream_wf st' \<and> send_buffer st' = send_buffer st
    \<and> ack_seqnum st \<le> ack_seqnum st' \<and> (q = ack_seqnum st \<longrightarrow> q < ack_seqnum st')
    \<and> (should_ack st \<or> q < ack_seqnum st \<or> ack_seqnum st < ack_seqnum st' \<longrightarrow> should_ack st')"
proof -
  have q: "q < u64_max" using h(3) ps(3) by (auto simp: log_at_def split: if_splits)
  from inv have i: "bw_contents (receive_buffer st) \<subseteq>\<^sub>m log_at ps"
    "bw_contents (receive_buffer st) (ack_seqnum st) = None" "1 \<le> ack_seqnum st"
    "bw_capacity_limit (receive_buffer st) = cap"
    by (auto simp: receiver_inv_def)
  from update_receiver_window_source [OF wf h(2) q hi i(1) h(3) i(2)]
  obtain rb ack ready where u: "update_receiver_window st h d =
      (st\<lparr>receive_buffer := rb, should_ack := ack\<rparr>, Ok ready)"
    "bw_wf rb" "ack_seqnum st \<le> bw_left rb" "bw_capacity_limit rb = bw_capacity_limit (receive_buffer st)"
    "map Some ready = map (log_at ps) [ack_seqnum st..<bw_left rb]"
    "bw_contents rb \<subseteq>\<^sub>m log_at ps" "bw_contents rb (bw_left rb) = None"
    "should_ack st \<or> q < ack_seqnum st \<or> ack_seqnum st < bw_left rb \<longrightarrow> ack"
    "q = ack_seqnum st \<longrightarrow> q < bw_left rb" by blast
  define st1 where "st1 = set_windows ack (send_buffer st) rb st"
  have st1: "st\<lparr>receive_buffer := rb, should_ack := ack\<rparr> = st1" by (simp add: st1_def set_windows_def)
  have "merge_ok st1" using wf by (simp add: st1_def set_windows_def stream_wf_def)
  from merge_packets_ok [OF this, of ext "[]" ready] obtain st2 r where
    m: "merge_packets ext st1 [] ready = Some (st2, r)" "merge_ok st2" "should_ack st2 = ack"
      "send_buffer st2 = send_buffer st" "receive_buffer st2 = rb"
    by (auto simp: st1_def)
  have reset: "reset_merge st2 = reset_merge st1"
    using m(3-5) by (simp add: reset_merge_def st1_def set_windows_def)
  have tk: "take (bw_left rb - 1) ps = take (ack_seqnum st - 1) ps @ ready"
    and le: "bw_left rb \<le> Suc (length ps)"
    using take_log_upto [OF u(5) i(3) u(3)] inv by (auto simp: receiver_inv_def)
  have "merge_packets ext (reset_merge st1) [] (take (ack_seqnum st - 1) ps) = Some (st1, Ok out)"
    using inv u(4) merge_packets_frame [of rb "reset_merge st"]
    by (simp add: receiver_inv_def st1_def reset_merge_windows) (simp add: reset_merge_def)
  then have total: "merge_packets ext (reset_merge st1) [] (take (bw_left rb - 1) ps) =
      Some (st2, map_sum id ((@) out) r)"
    using m(1) merge_packets_result [of ext st1 out "[]" ready] by (simp add: tk [simplified] merge_packets_append)
  have "merge_idle (reset_merge st1) 1" "receive_buffer (reset_merge st1) = rb"
    by (simp_all add: merge_idle_def reset_merge_def st1_def)
  with merge_messages [of "reset_merge st1" 1 ms ext "[]" "bw_left rb - 1"] ps u(4) i(4) total
  obtain new where r: "r = Ok new" by (cases r) auto
  have "receive_and_merge ext st h d = Some (st2, Ok new)"
    using h(1,2) u(1) m(1) r by (simp add: receive_and_merge_def st1)
  moreover have "ack_seqnum st2 = bw_left rb" using m(5) by (simp add: ack_seqnum_def left_bounds_def)
  moreover have "stream_wf st2" using wf u(2) m(2,4,5) by (simp add: stream_wf_def)
  ultimately show ?thesis
    using total reset r le u i m by (auto simp: receiver_inv_def)
qed

section \<open>The invariant of one direction\<close>

definition data_inv :: "'d packet_wrapper set \<Rightarrow> 'd packet_wrapper list \<Rightarrow> bool" where
  "data_inv w ps \<longleftrightarrow> (\<forall>h d. PacketWrapper h d \<in> w \<longrightarrow> ack_num h = None \<longrightarrow>
     (\<exists>q. seqnum h = Some q \<and> log_at ps q = Some (PacketWrapper h d)))"

definition ack_inv :: "'d packet_wrapper set \<Rightarrow> nat \<Rightarrow> bool" where
  "ack_inv w n \<longleftrightarrow> (\<forall>h d x. PacketWrapper h d \<in> w \<longrightarrow> ack_num h = Some x \<longrightarrow> x \<le> n)"

definition link ::
  "('d \<Rightarrow> 'd list \<Rightarrow> 'd) \<Rightarrow> nat \<Rightarrow> 'd endpoint \<Rightarrow> 'd endpoint \<Rightarrow> 'd message list
    \<Rightarrow> 'd packet_wrapper set \<Rightarrow> 'd packet_wrapper set \<Rightarrow> 'd list \<Rightarrow> bool" where
  "link ext cap S R ms to_r to_s out \<longleftrightarrow>
     stream_wf S \<and> stream_wf R \<and> (\<forall>m \<in> set ms. message_fits cap m)
     \<and> sender_inv cap S (packets_from 1 ms) \<and> receiver_inv ext cap R (packets_from 1 ms) out
     \<and> bw_left (send_buffer S) \<le> ack_seqnum R
     \<and> data_inv to_r (packets_from 1 ms) \<and> ack_inv to_s (ack_seqnum R)"

definition same_send :: "'d endpoint \<Rightarrow> 'd endpoint \<Rightarrow> bool" where
  "same_send st st' \<longleftrightarrow> bw_left (send_buffer st') = bw_left (send_buffer st)
     \<and> bw_capacity_limit (send_buffer st') = bw_capacity_limit (send_buffer st)
     \<and> send_packets st' = send_packets st"

definition same_receive :: "'d endpoint \<Rightarrow> 'd endpoint \<Rightarrow> bool" where
  "same_receive st st' \<longleftrightarrow> st' = set_windows (should_ack st') (send_buffer st') (receive_buffer st) st"

lemma same_send_refl [simp]: "same_send st st" by (simp add: same_send_def)

lemma same_receive_refl [simp]: "same_receive st st" by (simp add: same_receive_def set_windows_def)

lemma same_receive_send [simp]: "same_receive st (st\<lparr>send_buffer := sb\<rparr>)"
  by (simp add: same_receive_def set_windows_def)

lemma same_receive_ack [simp]: "same_receive st (st\<lparr>should_ack := a\<rparr>)"
  by (simp add: same_receive_def set_windows_def)

lemma same_send_ack [simp]: "same_send st (st\<lparr>should_ack := a\<rparr>)"
  by (simp add: same_send_def send_packets_def)

lemma link_frame:
  assumes l: "link ext cap S R ms to_r to_s out"
    and "stream_wf S'" "same_send S S'" "stream_wf R'" "same_receive R R'"
    and "data_inv to_r' (packets_from 1 ms)" "ack_inv to_s' (ack_seqnum R)"
  shows "link ext cap S' R' ms to_r' to_s' out"
proof -
  have len: "bw_len (send_buffer S') = bw_len (send_buffer S)"
    using assms(3) length_send_packets [of S] length_send_packets [of S'] by (simp add: same_send_def)
  have R: "ack_seqnum R' = ack_seqnum R"
    using assms(5) unfolding same_receive_def ack_seqnum_def by (metis set_windows_simps(3))
  have "receiver_inv ext cap R' (packets_from 1 ms) out"
    using l assms(5) receiver_inv_windows unfolding link_def same_receive_def by metis
  with assms len R show ?thesis
    by (simp add: link_def sender_inv_def same_send_def)
qed

lemma data_inv_Un: "data_inv (a \<union> b) ps \<longleftrightarrow> data_inv a ps \<and> data_inv b ps"
  by (auto simp: data_inv_def)

lemma data_inv_more: "data_inv a ps \<Longrightarrow> data_inv a (ps @ qs)"
  unfolding data_inv_def by (meson log_at_append map_leD)

lemma data_inv_mono: "a \<subseteq> b \<Longrightarrow> data_inv b ps \<Longrightarrow> data_inv a ps"
  by (auto simp: data_inv_def)

lemma ack_inv_mono: "a \<subseteq> b \<Longrightarrow> n \<le> m \<Longrightarrow> ack_inv b n \<Longrightarrow> ack_inv a m"
  unfolding ack_inv_def by (meson in_mono le_trans)

text \<open>The packets of a message are numbered by their position in the log.\<close>

definition well_numbered :: "nat \<Rightarrow> 'd packet_wrapper list \<Rightarrow> bool" where
  "well_numbered q ps \<longleftrightarrow> (\<forall>i < length ps. seqnum (packet_header (ps ! i)) = Some (q + i)
     \<and> ack_num (packet_header (ps ! i)) = None)"

lemma well_numbered_append:
  "well_numbered q ps \<Longrightarrow> well_numbered (q + length ps) qs \<Longrightarrow> well_numbered q (ps @ qs)"
  unfolding well_numbered_def
  by (metis (no_types, opaque_lifting) add.assoc le_add_diff_inverse length_append
      nat_add_left_cancel_less not_le nth_append)

lemma numbered_numbered: "well_numbered q (numbered q ds)"
proof (induction ds arbitrary: q)
  case (Cons d ds)
  have "well_numbered q [PacketWrapper (header_new (Some q) None) d]"
    by (simp add: well_numbered_def header_new_def)
  from well_numbered_append [OF this] Cons.IH [of "Suc q"] show ?case by simp
qed (simp add: well_numbered_def)

lemma message_packets_numbered: "well_numbered q (message_packets q m)"
proof (cases "(q, m)" rule: message_packets.cases)
  case (3 q' d ds)
  have "well_numbered q [PacketWrapper (header_new_with_length (Some q) None (Some (Suc (length ds)))) d]"
    by (simp add: well_numbered_def header_new_with_length_def)
  from well_numbered_append [OF this] numbered_numbered [of "Suc q" ds] 3 show ?thesis by simp
qed (auto simp: well_numbered_def header_new_def)

lemma packets_from_numbered: "well_numbered q (packets_from q ms)"
proof (induction ms arbitrary: q)
  case (Cons m ms)
  then show ?case
    using well_numbered_append [OF message_packets_numbered, of q m "packets_from (q + length (fragments_of m)) ms"]
    by simp
qed (simp add: well_numbered_def)

lemma log_packet_numbered:
  assumes "p \<in> set (packets_from 1 ms)"
  shows "\<exists>q. seqnum (packet_header p) = Some q \<and> ack_num (packet_header p) = None
    \<and> log_at (packets_from 1 ms) q = Some p \<and> 1 \<le> q \<and> q \<le> length (packets_from 1 ms)"
proof -
  obtain i where "i < length (packets_from 1 ms)" "packets_from 1 ms ! i = p"
    using assms by (metis in_set_conv_nth)
  with packets_from_numbered [of 1 ms] show ?thesis
    by (auto simp: well_numbered_def log_at_def intro!: exI [of _ "Suc i"])
qed

lemma data_inv_log: "set ps \<subseteq> set (packets_from 1 ms) \<Longrightarrow> data_inv (set ps) (packets_from 1 ms)"
  unfolding data_inv_def using log_packet_numbered by (metis packet_header.simps subset_iff)

lemma no_acks_log: "p \<in> set (packets_from 1 ms) \<Longrightarrow> ack_num (packet_header p) = None"
  using log_packet_numbered by blast

section \<open>The operations on one direction\<close>

lemma sender_bounds:
  assumes "link ext cap S R ms to_r to_s out"
  shows "next_seqnum S = Suc (length (packets_from 1 ms))" "length (packets_from 1 ms) < u64_max"
    "length (packets_from 1 ms) \<le> right_bounds (receive_buffer R)" "0 < bw_left (send_buffer S)"
proof -
  have w: "bw_wf (send_buffer S)" "bw_wf (receive_buffer R)"
    using assms by (auto simp: link_def stream_wf_def)
  have len: "bw_left (send_buffer S) + bw_len (send_buffer S) = Suc (length (packets_from 1 ms))"
    using assms by (simp add: link_def sender_inv_def)
  with next_seqnum_eq [OF w(1)] show "next_seqnum S = Suc (length (packets_from 1 ms))" by simp
  show "length (packets_from 1 ms) < u64_max" "0 < bw_left (send_buffer S)"
    using w(1) len by (auto simp: bw_wf_def bw_len_def)
  moreover have "bw_left (send_buffer S) \<le> bw_left (receive_buffer R)"
    "bw_len (send_buffer S) \<le> cap" "bw_capacity_limit (receive_buffer R) = cap"
    using assms w(1) by (auto simp: link_def sender_inv_def receiver_inv_def ack_seqnum_def
        left_bounds_def bw_wf_def bw_len_def)
  ultimately show "length (packets_from 1 ms) \<le> right_bounds (receive_buffer R)"
    using len bw_wf_bounds(1) [OF w(2)] by auto
qed

lemma link_send:
  assumes l: "link ext cap S R ms to_r to_s out" and m: "message_fits cap m"
    and s: "sent_more S S' (message_packets (next_seqnum S) m)"
  shows "link ext cap S' R (ms @ [m]) (to_r \<union> set (message_packets (next_seqnum S) m)) to_s out"
proof -
  let ?qs = "message_packets (next_seqnum S) m"
  have ps: "packets_from 1 (ms @ [m]) = packets_from 1 ms @ ?qs"
    using sender_bounds(1) [OF l] by (simp add: packets_from_append)
  have wf: "stream_wf S" "stream_wf S'" using l s by (auto simp: link_def sent_more_def)
  have "sender_inv cap S' (packets_from 1 ms @ ?qs)"
    using l s sender_inv_more sender_bounds(4) [OF l] wf(1) by (auto simp: link_def)
  moreover have "data_inv (set ?qs) (packets_from 1 (ms @ [m]))"
    by (rule data_inv_log) (simp add: ps [simplified])
  moreover have "receiver_inv ext cap R (packets_from 1 ms @ ?qs) out" "data_inv to_r (packets_from 1 ms @ ?qs)"
    using l by (simp_all add: link_def receiver_inv_more data_inv_more)
  moreover have "bw_left (send_buffer S') = bw_left (send_buffer S)"
    using s by (simp add: sent_more_def)
  ultimately show ?thesis
    using l m wf unfolding link_def ps data_inv_Un by simp
qed

lemma link_peer_sends:
  assumes l: "link ext cap S R ms to_r to_s out" and s: "sent_more R R' (message_packets q m)"
  shows "link ext cap S R' ms to_r (to_s \<union> set (message_packets q m)) out"
proof (rule link_frame [OF l])
  show "stream_wf S" "data_inv to_r (packets_from 1 ms)" using l by (simp_all add: link_def)
  show "stream_wf R'" "same_receive R R'" using s by (auto simp: sent_more_def)
  have "ack_num (packet_header p) = None" if "p \<in> set (message_packets q m)" for p
    using message_packets_numbered [of q m] that by (auto simp: well_numbered_def in_set_conv_nth)
  then have "ack_num h = None" if "PacketWrapper h d \<in> set (message_packets q m)" for h d
    using that by fastforce
  then show "ack_inv (to_s \<union> set (message_packets q m)) (ack_seqnum R)"
    using l by (auto simp: link_def ack_inv_def)
qed simp

lemma link_data:
  assumes l: "link ext cap S R ms to_r to_s out"
    and p: "PacketWrapper h d \<in> to_r" "ack_num h = None"
  shows "\<exists>R' new q. receive_and_merge ext R h d = Some (R', Ok new)
    \<and> link ext cap S R' ms to_r to_s (out @ new)
    \<and> send_buffer R' = send_buffer R \<and> ack_seqnum R \<le> ack_seqnum R'
    \<and> seqnum h = Some q \<and> (q = ack_seqnum R \<longrightarrow> q < ack_seqnum R')
    \<and> (should_ack R \<or> q < ack_seqnum R \<or> ack_seqnum R < ack_seqnum R' \<longrightarrow> should_ack R')"
proof -
  have k: "receiver_inv ext cap R (packets_from 1 ms) out" "stream_wf R" "\<forall>m \<in> set ms. message_fits cap m"
    "data_inv to_r (packets_from 1 ms)" "ack_inv to_s (ack_seqnum R)"
    using l by (simp_all add: link_def)
  then obtain q where q: "seqnum h = Some q" "log_at (packets_from 1 ms) q = Some (PacketWrapper h d)"
    using p unfolding data_inv_def by blast
  then have "q \<le> right_bounds (receive_buffer R)"
    using sender_bounds(3) [OF l] by (auto simp: log_at_def split: if_splits)
  from receiver_inv_data [OF k(1,2) refl k(3) sender_bounds(2) [OF l] p(2) q this]
  obtain R' new where r: "receive_and_merge ext R h d = Some (R', Ok new)"
    "receiver_inv ext cap R' (packets_from 1 ms) (out @ new)" "stream_wf R'"
    "send_buffer R' = send_buffer R" "ack_seqnum R \<le> ack_seqnum R'"
    "q = ack_seqnum R \<longrightarrow> q < ack_seqnum R'"
    "should_ack R \<or> q < ack_seqnum R \<or> ack_seqnum R < ack_seqnum R' \<longrightarrow> should_ack R'" by blast
  have "link ext cap S R' ms to_r to_s (out @ new)"
    using l r(2,3,5) ack_inv_mono [OF order.refl r(5) k(5)] by (auto simp: link_def)
  with r q(1) show ?thesis by blast
qed

lemma link_ack:
  assumes l: "link ext cap S R ms to_r to_s out" and x: "x \<le> ack_seqnum R"
  shows "link ext cap (update_send_window S x) R ms to_r to_s out"
proof -
  let ?w = "send_buffer S" and ?S = "update_send_window S x"
  have wf: "stream_wf S" using l by (simp add: link_def)
  then have w: "bw_wf ?w" by (simp add: stream_wf_def)
  have wf': "stream_wf ?S" using wf by (rule update_send_window_wf)
  show ?thesis
  proof (cases "bw_left ?w \<le> x \<and> x \<le> bw_left ?w + length (bw_data ?w)")
    case True
    then have S: "?S = S\<lparr>send_buffer := ?w\<lparr>bw_data := drop (x - bw_left ?w) (bw_data ?w), bw_left := x\<rparr>\<rparr>"
      using update_send_window_eq [OF w] by simp
    have "send_packets S = map Some (drop (bw_left ?w - 1) (packets_from 1 ms))"
      using l by (simp add: link_def sender_inv_def)
    then have "drop (x - bw_left ?w) (send_packets S) =
        map Some (drop (x - 1) (packets_from 1 ms))"
      using True sender_bounds(4) [OF l] by (simp add: drop_map)
    then have "send_packets ?S = map Some (drop (x - 1) (packets_from 1 ms))"
      unfolding S by (simp add: send_packets_def drop_map)
    then have "sender_inv cap ?S (packets_from 1 ms)"
      using l True by (auto simp: link_def sender_inv_def S bw_len_def)
    with l x wf' show ?thesis by (simp add: link_def S)
  next
    case False
    then have "?S = S" using update_send_window_eq [OF w] by auto
    with l show ?thesis by simp
  qed
qed

section \<open>The invariant of the system\<close>

definition side_link :: "('d \<Rightarrow> 'd list \<Rightarrow> 'd) \<Rightarrow> nat \<Rightarrow> 'd system \<Rightarrow> side \<Rightarrow> bool" where
  "side_link ext cap s a \<longleftrightarrow> link ext cap (endpoint s a) (endpoint s (peer a)) (sent s a)
     (wire s (peer a)) (wire s a) (got s (peer a))"

definition sys_inv :: "('d \<Rightarrow> 'd list \<Rightarrow> 'd) \<Rightarrow> nat \<Rightarrow> 'd system \<Rightarrow> bool" where
  "sys_inv ext cap s \<longleftrightarrow> side_link ext cap s Alice \<and> side_link ext cap s Bob"

lemma sys_inv_sides: "sys_inv ext cap s \<longleftrightarrow> side_link ext cap s a \<and> side_link ext cap s (peer a)"
  by (cases a) (auto simp: sys_inv_def)

lemma sys_inv_link: "sys_inv ext cap s \<Longrightarrow> side_link ext cap s a"
  by (simp add: sys_inv_sides [of _ _ _ a])

lemma link_wf: "link ext cap S R ms to_r to_s out \<Longrightarrow> stream_wf S \<and> stream_wf R"
  by (simp add: link_def)

text \<open>A step of side \<open>a\<close> is seen by the direction it sends on and by the one it receives on.\<close>

lemma sys_inv_set_endpoint:
  "sys_inv ext cap ((set_endpoint s a st w)\<lparr>sent := (sent s)(a := ms), got := (got s)(a := out)\<rparr>) \<longleftrightarrow>
     link ext cap st (endpoint s (peer a)) ms w (wire s a) (got s (peer a))
     \<and> link ext cap (endpoint s (peer a)) st (sent s (peer a)) (wire s a) w out"
  by (simp add: sys_inv_sides [of _ _ _ a] side_link_def set_endpoint_def)

lemma step_send_inv:
  assumes inv: "sys_inv ext cap s" and m: "message_fits cap m"
    and s: "sent_more (endpoint s a) st (message_packets (next_seqnum (endpoint s a)) m)"
    and w: "w = wire s (peer a) \<union> set (message_packets (next_seqnum (endpoint s a)) m)"
  shows "sys_inv ext cap ((set_endpoint s a st w)\<lparr>sent := (sent s)(a := sent s a @ [m])\<rparr>)"
proof -
  have l: "side_link ext cap s a" "side_link ext cap s (peer a)" using inv by (simp_all add: sys_inv_link)
  have "link ext cap st (endpoint s (peer a)) (sent s a @ [m]) w (wire s a) (got s (peer a))"
    unfolding w by (rule link_send [OF _ m s]) (use l in \<open>simp add: side_link_def\<close>)
  moreover have "link ext cap (endpoint s (peer a)) st (sent s (peer a)) (wire s a) w (got s a)"
    unfolding w by (rule link_peer_sends [OF _ s]) (use l in \<open>simp add: side_link_def\<close>)
  ultimately show ?thesis
    using sys_inv_set_endpoint [where ext = ext and cap = cap and s = s and a = a and st = st and w = w
        and ms = "sent s a @ [m]" and out = "got s a"] by (simp add: set_endpoint_def)
qed

lemma step_receive_inv:
  assumes inv: "sys_inv ext cap s" and p: "PacketWrapper h d \<in> wire s a"
  shows "\<exists>st out. receive_and_merge ext (endpoint s a) h d = Some (st, Ok out)
    \<and> sys_inv ext cap ((set_endpoint s a st (wire s (peer a)))\<lparr>got := (got s)(a := got s a @ out)\<rparr>)"
proof -
  let ?E = "endpoint s a" and ?P = "endpoint s (peer a)"
  have l: "link ext cap ?E ?P (sent s a) (wire s (peer a)) (wire s a) (got s (peer a))"
    "link ext cap ?P ?E (sent s (peer a)) (wire s a) (wire s (peer a)) (got s a)"
    using inv by (simp_all add: sys_inv_sides [of _ _ _ a] side_link_def)
  have d: "data_inv (wire s (peer a)) (packets_from 1 (sent s a))" "ack_inv (wire s a) (ack_seqnum ?P)"
    "ack_inv (wire s (peer a)) (ack_seqnum ?E)" "data_inv (wire s a) (packets_from 1 (sent s (peer a)))"
    using l by (simp_all add: link_def)
  show ?thesis
  proof (cases "ack_num h")
    case None
    from link_data [OF l(2) p None] obtain st new where
      r: "receive_and_merge ext ?E h d = Some (st, Ok new)" "send_buffer st = send_buffer ?E"
        "link ext cap ?P st (sent s (peer a)) (wire s a) (wire s (peer a)) (got s a @ new)" by blast
    have "same_send ?E st" using r(2) by (simp add: same_send_def send_packets_def)
    then have "link ext cap st ?P (sent s a) (wire s (peer a)) (wire s a) (got s (peer a))"
      using link_frame [OF l(1)] link_wf [OF l(1)] link_wf [OF r(3)] d by simp
    with r(1,3) show ?thesis
      using sys_inv_set_endpoint [where ext = ext and cap = cap and s = s and a = a and st = st and w = "wire s (peer a)"
        and ms = "sent s a" and out = "got s a @ new"] by (simp add: set_endpoint_def)
  next
    case (Some x)
    let ?st = "update_send_window ?E x"
    have r: "receive_and_merge ext ?E h d = Some (?st, Ok [])" using Some by (simp add: receive_and_merge_def)
    have "x \<le> ack_seqnum ?P" using d(2) p Some unfolding ack_inv_def by blast
    then have l1: "link ext cap ?st ?P (sent s a) (wire s (peer a)) (wire s a) (got s (peer a))"
      by (rule link_ack [OF l(1)])
    have "same_receive ?E ?st" by (simp add: update_send_window_def Let_def)
    then have "link ext cap ?P ?st (sent s (peer a)) (wire s a) (wire s (peer a)) (got s a)"
      using link_frame [OF l(2)] link_wf [OF l1] d by simp
    with r l1 show ?thesis
      using sys_inv_set_endpoint [where ext = ext and cap = cap and s = s and a = a and st = ?st and w = "wire s (peer a)"
        and ms = "sent s a" and out = "got s a"] by (auto simp: set_endpoint_def)
  qed
qed

text \<open>Steps that change neither the packets to send nor what was received: acknowledging and
  resending.\<close>

lemma step_frame_inv:
  assumes inv: "sys_inv ext cap s" and st: "stream_wf st" "same_send (endpoint s a) st"
    "same_receive (endpoint s a) st"
    and w: "\<And>h d. PacketWrapper h d \<in> w - wire s (peer a) \<Longrightarrow>
      PacketWrapper h d \<in> set (packets_from 1 (sent s a)) \<or> ack_num h = Some (ack_seqnum (endpoint s a))"
  shows "sys_inv ext cap (set_endpoint s a st w)"
proof -
  let ?E = "endpoint s a" and ?P = "endpoint s (peer a)"
  have l: "link ext cap ?E ?P (sent s a) (wire s (peer a)) (wire s a) (got s (peer a))"
    "link ext cap ?P ?E (sent s (peer a)) (wire s a) (wire s (peer a)) (got s a)"
    using inv by (simp_all add: sys_inv_sides [of _ _ _ a] side_link_def)
  have d: "data_inv (wire s (peer a)) (packets_from 1 (sent s a))" "ack_inv (wire s a) (ack_seqnum ?P)"
    "ack_inv (wire s (peer a)) (ack_seqnum ?E)" "data_inv (wire s a) (packets_from 1 (sent s (peer a)))"
    using l by (simp_all add: link_def)
  have "data_inv w (packets_from 1 (sent s a))"
    unfolding data_inv_def
  proof (intro allI impI)
    fix h d assume p: "PacketWrapper h d \<in> w" "ack_num h = None"
    then have "PacketWrapper h d \<in> wire s (peer a) \<or> PacketWrapper h d \<in> set (packets_from 1 (sent s a))"
      using w by fastforce
    then show "\<exists>q. seqnum h = Some q \<and> log_at (packets_from 1 (sent s a)) q = Some (PacketWrapper h d)"
      using d(1) p(2) log_packet_numbered unfolding data_inv_def by (metis packet_header.simps)
  qed
  moreover have "ack_inv w (ack_seqnum ?E)"
    unfolding ack_inv_def
  proof (intro allI impI)
    fix h d x assume p: "PacketWrapper h d \<in> w" "ack_num h = Some x"
    then have "PacketWrapper h d \<in> wire s (peer a) \<or> x = ack_seqnum ?E"
      using w no_acks_log by fastforce
    then show "x \<le> ack_seqnum ?E" using d(3) p(2) unfolding ack_inv_def by blast
  qed
  ultimately have "link ext cap st ?P (sent s a) w (wire s a) (got s (peer a))"
    "link ext cap ?P st (sent s (peer a)) (wire s a) w (got s a)"
    using link_frame [OF l(1)] link_frame [OF l(2)] link_wf [OF l(1)] st d by simp_all
  then show ?thesis
    using sys_inv_set_endpoint [where ext = ext and cap = cap and s = s and a = a and st = st and w = w
        and ms = "sent s a" and out = "got s a"] by (simp add: set_endpoint_def)
qed

lemma retransmit_effect: "fst (retransmit works ts c p) \<subseteq> insert p c" "c \<subseteq> fst (retransmit works ts c p)"
  by (auto simp: retransmit_def)

lemma step_resend_inv:
  assumes inv: "sys_inv ext cap s"
    and r: "try_resend (endpoint s a) now (retransmit works ts) (wire s (peer a)) = (st, w, r)"
  shows "sys_inv ext cap (set_endpoint s a st w)"
proof -
  let ?E = "endpoint s a"
  define I where "I c \<longleftrightarrow> c \<subseteq> wire s (peer a) \<union> {p. Some p \<in> set (send_packets ?E)}" for c
  have l: "link ext cap ?E (endpoint s (peer a)) (sent s a) (wire s (peer a)) (wire s a) (got s (peer a))"
    using inv by (simp add: sys_inv_sides [of _ _ _ a] side_link_def)
  then have wf: "stream_wf ?E" and sp: "send_packets ?E =
      map Some (drop (bw_left (send_buffer ?E) - 1) (packets_from 1 (sent s a)))"
    by (simp_all add: link_def sender_inv_def)
  have "bw_wf (send_buffer ?E)" using wf by (simp add: stream_wf_def)
  from resend_loop_frame [OF r [unfolded try_resend_def] this, of I]
  have f: "\<exists>sb. st = ?E\<lparr>send_buffer := sb\<rparr>" "send_packets st = send_packets ?E"
    "bw_left (send_buffer st) = bw_left (send_buffer ?E)"
    "bw_capacity_limit (send_buffer st) = bw_capacity_limit (send_buffer ?E)"
    "bw_wf (send_buffer st)" "I w"
    using retransmit_effect(1) unfolding I_def by blast+
  have "None \<notin> set (send_packets st)"
    unfolding f(2) sp by auto
  then have "None \<notin> set (bw_data (send_buffer st))"
    by (force simp: send_packets_def)
  then have "stream_wf st" using f(1,5) wf by (auto simp: stream_wf_def)
  moreover have "same_send ?E st" "same_receive ?E st" using f(1-4) by (auto simp: same_send_def)
  moreover have "PacketWrapper h d \<in> set (packets_from 1 (sent s a))"
    if "PacketWrapper h d \<in> w - wire s (peer a)" for h d
    using that f(6) set_drop_subset [of _ "packets_from 1 (sent s a)"] unfolding I_def sp by auto
  ultimately show ?thesis using step_frame_inv [OF inv] by blast
qed

lemma step_ack_inv:
  assumes inv: "sys_inv ext cap s"
    and r: "try_send_ack (endpoint s a) (transmit_ack d) (wire s (peer a)) = (st, w, r)"
  shows "sys_inv ext cap (set_endpoint s a st w)"
proof -
  let ?E = "endpoint s a"
  have wf: "stream_wf ?E" using sys_inv_link [OF inv, of a] by (simp add: side_link_def link_def)
  have "st = ?E\<lparr>should_ack := False\<rparr> \<or> st = ?E" and w: "\<And>h d. PacketWrapper h d \<in> w - wire s (peer a)
      \<Longrightarrow> ack_num h = Some (ack_seqnum ?E)"
    using r by (auto simp: try_send_ack_def transmit_ack_def Let_def split: if_splits)
  then have "stream_wf st" "same_send ?E st" "same_receive ?E st" using wf by (auto simp: stream_wf_def)
  then show ?thesis using step_frame_inv [OF inv] w by blast
qed

lemma mrp_step_inv:
  assumes "mrp_step ext s s'" "sys_inv ext cap s"
  shows "sys_inv ext cap s'"
  using assms
proof cases
  case (send a d t st w)
  let ?E = "endpoint s a"
  have wf: "stream_wf ?E" "bw_wf (send_buffer ?E)" "bw_capacity_limit (send_buffer ?E) = cap"
    using sys_inv_link [OF assms(2), of a] by (auto simp: side_link_def link_def stream_wf_def sender_inv_def)
  have room: "\<not> is_full (send_buffer ?E)" using send(2) by (auto simp: try_send_def)
  let ?p = "PacketWrapper (header_new (Some (next_seqnum ?E)) None) d"
  from try_send_transmits [OF wf(1) room send(3), of "transmit_new d t" "wire s (peer a)"
      "insert ?p (wire s (peer a))" ?p t] send(2)
  have "w = insert ?p (wire s (peer a))" "sent_more ?E st [?p]" by (auto simp: transmit_new_def)
  moreover have "message_fits cap (Single d)"
    using wf(2,3) by (auto simp: message_fits_def bw_wf_def)
  ultimately show ?thesis
    using step_send_inv [OF assms(2), of "Single d" a st w] send(1) by simp
next
  case (send_fragmented a ds ts st w)
  let ?E = "endpoint s a"
  have wf: "stream_wf ?E" "bw_capacity_limit (send_buffer ?E) = cap"
    using sys_inv_link [OF assms(2), of a] by (auto simp: side_link_def link_def sender_inv_def)
  have room: "bw_len (send_buffer ?E) + length ds < bw_capacity_limit (send_buffer ?E)"
    using send_fragmented(2) by (auto simp: try_send_fragmented_def split: if_splits)
  from try_send_fragmented_sends [OF wf(1) send_fragmented(3-5) room, of header_default ts "wire s (peer a)"]
  have "w = wire s (peer a) \<union> set (message_packets (next_seqnum ?E) (Fragmented ds))"
    "sent_more ?E st (message_packets (next_seqnum ?E) (Fragmented ds))"
    using send_fragmented(2) by auto
  moreover have "message_fits cap (Fragmented ds)"
    using room wf(2) send_fragmented(3) by (simp add: message_fits_def)
  ultimately show ?thesis
    using step_send_inv [OF assms(2), of "Fragmented ds" a st w] send_fragmented(1) by simp
next
  case (receive_ok h d a st out)
  then show ?thesis using step_receive_inv [OF assms(2), of h d a] by auto
next
  case (receive_err h d a st e)
  then show ?thesis using step_receive_inv [OF assms(2), of h d a] by auto
next
  case (send_ack a d st w r)
  then show ?thesis using step_ack_inv [OF assms(2)] by blast
next
  case (resend a now works ts st w r)
  then show ?thesis using step_resend_inv [OF assms(2)] by blast
next
  case (lose w a)
  have l: "side_link ext cap s a" "side_link ext cap s (peer a)"
    using assms(2) by (simp_all add: sys_inv_link)
  have "side_link ext cap s' a" "side_link ext cap s' (peer a)"
    using l lose data_inv_mono [OF lose(2)] ack_inv_mono [OF lose(2) order.refl]
    by (auto simp: side_link_def link_def)
  then show ?thesis by (simp add: sys_inv_sides [of _ _ _ a])
qed

lemma mrp_init_inv:
  assumes "mrp_init cap = Some s" "cap \<le> usize_max"
  shows "sys_inv ext cap s"
proof -
  obtain st where st: "stream_with_capacity_limit cap = Some st"
    "s = \<lparr>endpoint = (\<lambda>_. st), wire = (\<lambda>_. {}), sent = (\<lambda>_. []), got = (\<lambda>_. [])\<rparr>"
    using assms(1) by (auto simp: mrp_init_def split: option.splits)
  then obtain sb rb where w: "with_capacity_limit cap 1 = Some sb" "with_capacity_limit cap 1 = Some rb"
    "st = \<lparr>should_ack = False, send_buffer = sb, receive_buffer = rb,
           merge_state = None, merge_end_seqnum = None\<rparr>"
    by (auto simp: stream_with_capacity_limit_def INITIAL_SEQNUM_def INITIAL_ACKNUM_def split: option.splits)
  have one: "(1::nat) \<le> u64_max" by (simp add: u64_max_def)
  note c = with_capacity_limit_wf [OF w(1) assms(2) one] with_capacity_limit_wf [OF w(2) assms(2) one]
  have "link ext cap st st [] {} {} []"
    using c by (simp add: link_def w(3) stream_wf_def merge_ok_def sender_inv_def receiver_inv_def
        bw_len_def send_packets_def ack_seqnum_def left_bounds_def data_inv_def ack_inv_def
        reset_merge_def map_le_def bw_contents_def dom_def)
  then show ?thesis by (simp add: sys_inv_def side_link_def st(2))
qed

lemma mrp_reachable_inv: "mrp_reachable ext cap s \<Longrightarrow> sys_inv ext cap s"
proof -
  assume "mrp_reachable ext cap s"
  then obtain s0 where s0: "mrp_init cap = Some s0" "cap \<le> usize_max" "(mrp_step ext)\<^sup>*\<^sup>* s0 s"
    by (auto simp: mrp_reachable_def)
  from s0(3) mrp_init_inv [OF s0(1,2)] show ?thesis
    by (induction rule: rtranclp_induct) (auto intro: mrp_step_inv)
qed

end
