(* ===== verification/Mrp_Delivery.thy ===== *)
theory Mrp_Delivery
  imports Mrp_Protocol
begin

text \<open>
  What the reliable protocol of \<open>mrp/src/stream.rs\<close> promises its two applications over a
  network that loses, duplicates and reorders: in-order exactly-once delivery of reassembled
  messages, no error and no panic on any packet of the peer, retention of everything the
  peer has not got, and a run that delivers and acknowledges everything from every
  reachable state. A concrete run shows the hypotheses can hold.
\<close>

section \<open>Progress\<close>

text \<open>
  A run that delivers everything exists from every state that satisfies the invariant: the
  sender's timers fire and the retransmissions, then the acknowledgement, get through.
\<close>

lemma sys_inv_log:
  assumes "sys_inv ext cap s"
  shows "send_packets (endpoint s a) =
      map Some (drop (bw_left (send_buffer (endpoint s a)) - 1) (packets_from 1 (sent s a)))"
    and "bw_left (send_buffer (endpoint s a)) + send_len (endpoint s a) =
      Suc (length (packets_from 1 (sent s a)))"
    and "bw_left (send_buffer (endpoint s a)) \<le> ack_seqnum (endpoint s (peer a))"
    and "ack_seqnum (endpoint s (peer a)) \<le> Suc (length (packets_from 1 (sent s a)))"
    and "0 < bw_left (send_buffer (endpoint s a))"
    and "stream_wf (endpoint s a)"
  using sys_inv_link [OF assms, of a] sender_bounds(4)
  by (auto simp: side_link_def link_def sender_inv_def receiver_inv_def send_len_def stream_wf_def bw_wf_def)

lemma sys_inv_got:
  assumes "sys_inv ext cap s"
  shows "got s (peer a) = map (message_value ext)
    (take (complete_messages (ack_seqnum (endpoint s (peer a)) - 1) (sent s a)) (sent s a))"
proof -
  let ?R = "endpoint s (peer a)" and ?ps = "packets_from 1 (sent s a)"
  have l: "link ext cap (endpoint s a) ?R (sent s a) (wire s (peer a)) (wire s a) (got s (peer a))"
    using sys_inv_link [OF assms, of a] by (simp add: side_link_def)
  then have r: "merge_packets ext (reset_merge ?R) [] (take (ack_seqnum ?R - 1) ?ps) =
      Some (?R, Ok (got s (peer a)))" "bw_capacity_limit (receive_buffer ?R) = cap"
    "\<forall>m \<in> set (sent s a). message_fits cap m"
    by (simp_all add: link_def receiver_inv_def)
  have "merge_idle (reset_merge ?R) 1" "receive_buffer (reset_merge ?R) = receive_buffer ?R"
    by (simp_all add: merge_idle_def reset_merge_def)
  with merge_messages [of "reset_merge ?R" 1 "sent s a" ext "[]" "ack_seqnum ?R - 1"] r
    sender_bounds(2) [OF l] show ?thesis by auto
qed

lemma packet_at:
  assumes "sys_inv ext cap s" "bw_left (send_buffer (endpoint s a)) \<le> q" "q \<le> length (packets_from 1 (sent s a))"
  shows "\<exists>h d. packets_from 1 (sent s a) ! (q - 1) = PacketWrapper h d \<and> seqnum h = Some q \<and> ack_num h = None
    \<and> PacketWrapper h d \<in> set (drop (bw_left (send_buffer (endpoint s a)) - 1) (packets_from 1 (sent s a)))"
proof -
  let ?ps = "packets_from 1 (sent s a)" and ?l = "bw_left (send_buffer (endpoint s a))"
  have q: "0 < q" "q - 1 < length ?ps" "?l - 1 \<le> q - 1"
    using assms(2,3) sys_inv_log(5) [OF assms(1), of a] by auto
  obtain h d where p: "?ps ! (q - 1) = PacketWrapper h d" by (cases "?ps ! (q - 1)")
  have "seqnum h = Some q \<and> ack_num h = None"
    using packets_from_numbered [of 1 "sent s a"] q(1,2) p
    unfolding well_numbered_def by (metis Suc_eq_plus1_left Suc_pred packet_header.simps One_nat_def)
  moreover have "drop (?l - 1) ?ps ! (q - 1 - (?l - 1)) = ?ps ! (q - 1)"
    using q(2,3) by (simp only: nth_drop le_add_diff_inverse less_imp_le)
  then have "PacketWrapper h d \<in> set (drop (?l - 1) ?ps)"
    using p q by (metis diff_less_mono length_drop nth_mem)
  ultimately show ?thesis using p by blast
qed

lemma foldl_insert: "foldl (\<lambda>c p. insert p c) c ps = c \<union> set ps"
  by (induction ps arbitrary: c) auto

lemma resend_everything:
  assumes inv: "sys_inv ext cap s"
  shows "\<exists>s'. mrp_step ext s s' \<and> sent s' = sent s
    \<and> endpoint s' (peer a) = endpoint s (peer a)
    \<and> same_send (endpoint s a) (endpoint s' a)
    \<and> set (drop (bw_left (send_buffer (endpoint s a)) - 1) (packets_from 1 (sent s a))) \<subseteq> wire s' (peer a)"
proof -
  let ?E = "endpoint s a" and ?d = "bw_data (send_buffer (endpoint s a))"
  have wf: "bw_wf (send_buffer ?E)" using sys_inv_log(6) [OF inv, of a] by (simp add: stream_wf_def)
  define now where "now = Max (insert 0 (set (map (next_send_at \<circ> the) ?d)))"
  have due: "should_transmit p now" if "Some p \<in> set ?d" for p
    using that unfolding should_transmit_def now_def
    by (intro disjI2 Max_ge) (auto intro: rev_image_eqI)
  define u :: "'a packet_wrapper pending_packet \<Rightarrow> 'a packet_wrapper pending_packet"
    where "u = resend_update now (\<lambda>_. 0)"
  have f: "retransmit (\<lambda>_. True) (\<lambda>_. 0) c p = (insert p c, Ok 0)" for c and p :: "'a packet_wrapper"
    by (simp add: retransmit_def)
  define st where "st = ?E\<lparr>send_buffer := (send_buffer ?E)\<lparr>bw_data := map (map_option u) ?d\<rparr>\<rparr>"
  have r: "try_resend ?E now (retransmit (\<lambda>_. True) (\<lambda>_. 0)) (wire s (peer a)) =
      (st, wire s (peer a) \<union> set (due_packets now ?d), Ok ())"
    using try_resend_all [OF wf, of "retransmit (\<lambda>_. True) (\<lambda>_. 0)" "\<lambda>c p. insert p c" "\<lambda>_. 0", OF f]
    by (simp add: foldl_insert st_def u_def)
  have "map_option pp_packet (map_option u e) = map_option pp_packet e" for e
    by (cases e) (auto simp: u_def resend_update_def)
  then have "same_send ?E st" by (simp add: same_send_def st_def send_packets_def comp_def)
  moreover have "p \<in> set (due_packets now ?d)" if "Some p \<in> set (send_packets ?E)" for p
    using that due by (auto simp: send_packets_def due_packets_iff eq_commute [of "Some p"]) blast
  then have "set (drop (bw_left (send_buffer ?E) - 1) (packets_from 1 (sent s a))) \<subseteq> set (due_packets now ?d)"
    unfolding sys_inv_log(1) [OF inv, of a] by auto
  ultimately show ?thesis
    using mrp_step.resend [OF r, of ext]
    by (intro exI [of _ "set_endpoint s a st (wire s (peer a) \<union> set (due_packets now ?d))"])
       (auto simp: set_endpoint_def)
qed

lemma receive_everything:
  assumes "sys_inv ext cap s"
    and "set (drop (bw_left (send_buffer (endpoint s a)) - 1) (packets_from 1 (sent s a))) \<subseteq> wire s (peer a)"
  shows "\<exists>s'. (mrp_step ext)\<^sup>*\<^sup>* s s' \<and> sent s' = sent s \<and> endpoint s' a = endpoint s a \<and> wire s' = wire s
    \<and> ack_seqnum (endpoint s' (peer a)) = Suc (length (packets_from 1 (sent s a)))"
  using assms
proof (induction "Suc (length (packets_from 1 (sent s a))) - ack_seqnum (endpoint s (peer a))"
    arbitrary: s rule: less_induct)
  case less
  let ?R = "endpoint s (peer a)" and ?N = "length (packets_from 1 (sent s a))"
  show ?case
  proof (cases "ack_seqnum ?R = Suc ?N")
    case False
    then have "bw_left (send_buffer (endpoint s a)) \<le> ack_seqnum ?R" "ack_seqnum ?R \<le> ?N"
      using sys_inv_log(3,4) [OF less.prems(1), of a] by auto
    from packet_at [OF less.prems(1) this] less.prems(2) obtain h d where
      p: "PacketWrapper h d \<in> wire s (peer a)" "seqnum h = Some (ack_seqnum ?R)" "ack_num h = None" by blast
    have "link ext cap (endpoint s a) ?R (sent s a) (wire s (peer a)) (wire s a) (got s (peer a))"
      using sys_inv_link [OF less.prems(1), of a] by (simp add: side_link_def)
    from link_data [OF this p(1,3)] obtain st new where
      r: "receive_and_merge ext ?R h d = Some (st, Ok new)" "ack_seqnum ?R < ack_seqnum st"
      using p(2) by auto
    define s1 where "s1 = (set_endpoint s (peer a) st (wire s a))\<lparr>got := (got s)(peer a := got s (peer a) @ new)\<rparr>"
    have step: "mrp_step ext s s1"
      using mrp_step.receive_ok [OF p(1) r(1)] by (simp add: s1_def)
    have s1: "sent s1 = sent s" "endpoint s1 a = endpoint s a" "wire s1 = wire s" "endpoint s1 (peer a) = st"
      by (simp_all add: s1_def set_endpoint_def)
    have inv1: "sys_inv ext cap s1" using mrp_step_inv [OF step less.prems(1)] .
    have "ack_seqnum st \<le> Suc ?N" using sys_inv_log(4) [OF inv1, of a] s1 by simp
    then have "Suc ?N - ack_seqnum st < Suc ?N - ack_seqnum ?R" using r(2) by linarith
    with less.hyps [of s1] inv1 less.prems(2) s1 obtain s' where
      "(mrp_step ext)\<^sup>*\<^sup>* s1 s'" "sent s' = sent s" "endpoint s' a = endpoint s a" "wire s' = wire s"
      "ack_seqnum (endpoint s' (peer a)) = Suc ?N" by auto
    with step show ?thesis by (meson converse_rtranclp_into_rtranclp)
  qed (use less.prems in auto)
qed

lemma acknowledge_everything:
  assumes inv: "sys_inv ext cap s"
    and ack: "ack_seqnum (endpoint s (peer a)) = Suc (length (packets_from 1 (sent s a)))"
    and should: "should_ack (endpoint s (peer a))"
  shows "\<exists>s'. (mrp_step ext)\<^sup>*\<^sup>* s s' \<and> sent s' = sent s \<and> send_len (endpoint s' a) = 0
    \<and> endpoint s' (peer a) = (endpoint s (peer a))\<lparr>should_ack := False\<rparr>"
proof -
  let ?R = "endpoint s (peer a)" and ?S = "endpoint s a"
  define h :: mrp_header where "h = header_default\<lparr>ack_num := Some (ack_seqnum ?R)\<rparr>"
  define p :: "'a packet_wrapper" where "p = PacketWrapper h undefined"
  define s1 where "s1 = set_endpoint s (peer a) (?R\<lparr>should_ack := False\<rparr>) (insert p (wire s a))"
  have "try_send_ack ?R (transmit_ack undefined) (wire s (peer (peer a))) =
      (?R\<lparr>should_ack := False\<rparr>, insert p (wire s a), Ok (Some (ack_seqnum ?R)))"
    using should by (simp add: try_send_ack_def transmit_ack_def h_def p_def Let_def ack_seqnum_def)
  then have step1: "mrp_step ext s s1" unfolding s1_def by (rule mrp_step.send_ack)
  have s1: "sent s1 = sent s" "endpoint s1 a = ?S" "p \<in> wire s1 a"
    "endpoint s1 (peer a) = ?R\<lparr>should_ack := False\<rparr>"
    by (simp_all add: s1_def set_endpoint_def)
  let ?S' = "update_send_window ?S (ack_seqnum ?R)"
  define s2 where "s2 = (set_endpoint s1 a ?S' (wire s1 (peer a)))\<lparr>got := (got s1)(a := got s1 a @ [])\<rparr>"
  have "receive_and_merge ext (endpoint s1 a) h undefined = Some (?S', Ok [])"
    by (simp add: s1 receive_and_merge_def h_def)
  with s1(3) have step2: "mrp_step ext s1 s2"
    unfolding s2_def p_def by (intro mrp_step.receive_ok)
  have "bw_wf (send_buffer ?S)" using sys_inv_log(6) [OF inv, of a] by (simp add: stream_wf_def)
  then have "send_len ?S' = 0"
    using sys_inv_log(2,5) [OF inv, of a] ack
    by (simp add: update_send_window_eq send_len_def bw_len_def)
  then have "sent s2 = sent s" "send_len (endpoint s2 a) = 0" "endpoint s2 (peer a) = ?R\<lparr>should_ack := False\<rparr>"
    using s1 by (simp_all add: s2_def set_endpoint_def)
  with step1 step2 show ?thesis by (meson r_into_rtranclp rtranclp.rtrancl_into_rtrancl)
qed

lemma prompt_ack:
  assumes inv: "sys_inv ext cap s" and busy: "0 < send_len (endpoint s a)"
    and wire: "set (drop (bw_left (send_buffer (endpoint s a)) - 1) (packets_from 1 (sent s a))) \<subseteq> wire s (peer a)"
    and ack: "ack_seqnum (endpoint s (peer a)) = Suc (length (packets_from 1 (sent s a)))"
  shows "\<exists>s'. mrp_step ext s s' \<and> sent s' = sent s \<and> should_ack (endpoint s' (peer a))
    \<and> ack_seqnum (endpoint s' (peer a)) = Suc (length (packets_from 1 (sent s a)))"
proof -
  let ?R = "endpoint s (peer a)" and ?l = "bw_left (send_buffer (endpoint s a))"
  have l: "?l \<le> length (packets_from 1 (sent s a))"
    using busy sys_inv_log(2) [OF inv, of a] by linarith
  from packet_at [OF inv order.refl l] wire obtain h d where
    p: "PacketWrapper h d \<in> wire s (peer a)" "seqnum h = Some ?l" "ack_num h = None" by blast
  have "link ext cap (endpoint s a) ?R (sent s a) (wire s (peer a)) (wire s a) (got s (peer a))"
    using sys_inv_link [OF inv, of a] by (simp add: side_link_def)
  from link_data [OF this p(1,3)] obtain st new where
    r: "receive_and_merge ext ?R h d = Some (st, Ok new)" "ack_seqnum ?R \<le> ack_seqnum st" "should_ack st"
    using p(2) ack l by auto
  define s1 where "s1 = (set_endpoint s (peer a) st (wire s a))\<lparr>got := (got s)(peer a := got s (peer a) @ new)\<rparr>"
  have step: "mrp_step ext s s1"
    using mrp_step.receive_ok [OF p(1) r(1)] by (simp add: s1_def)
  have s1: "sent s1 = sent s" "endpoint s1 (peer a) = st"
    by (simp_all add: s1_def set_endpoint_def)
  have "ack_seqnum st \<le> Suc (length (packets_from 1 (sent s a)))"
    using sys_inv_log(4) [OF mrp_step_inv [OF step inv], of a] s1 by simp
  with r ack s1 step show ?thesis by auto
qed

lemma everything_delivered:
  assumes inv: "sys_inv ext cap s"
  shows "\<exists>s'. (mrp_step ext)\<^sup>*\<^sup>* s s' \<and> sent s' = sent s \<and> send_len (endpoint s' a) = 0
    \<and> got s' (peer a) = map (message_value ext) (sent s a)"
proof -
  let ?ps = "packets_from 1 (sent s a)" and ?N = "Suc (length (packets_from 1 (sent s a)))"
  have steps_inv: "(mrp_step ext)\<^sup>*\<^sup>* x y \<Longrightarrow> sys_inv ext cap x \<Longrightarrow> sys_inv ext cap y" for x y
    by (induction rule: rtranclp_induct) (auto intro: mrp_step_inv)
  have fin: "got x (peer a) = map (message_value ext) (sent s a)"
    if "sys_inv ext cap x" "sent x = sent s" "ack_seqnum (endpoint x (peer a)) = ?N" for x
    using sys_inv_got [OF that(1), of a] that(2,3) complete_messages_all [of 1 "sent s a"] by simp
  from resend_everything [OF inv, of a] obtain s1 where
    s1: "mrp_step ext s s1" "sent s1 = sent s" "same_send (endpoint s a) (endpoint s1 a)"
      "set (drop (bw_left (send_buffer (endpoint s a)) - 1) ?ps) \<subseteq> wire s1 (peer a)" by blast
  then have i1: "sys_inv ext cap s1"
    and w1: "set (drop (bw_left (send_buffer (endpoint s1 a)) - 1) (packets_from 1 (sent s1 a))) \<subseteq> wire s1 (peer a)"
    using mrp_step_inv [OF s1(1) inv] by (simp_all add: same_send_def)
  from receive_everything [OF i1 w1] obtain s2 where
    s2: "(mrp_step ext)\<^sup>*\<^sup>* s1 s2" "sent s2 = sent s" "endpoint s2 a = endpoint s1 a" "wire s2 = wire s1"
      "ack_seqnum (endpoint s2 (peer a)) = ?N" using s1(2) by auto
  have i2: "sys_inv ext cap s2" using steps_inv [OF s2(1) i1] .
  have to2: "(mrp_step ext)\<^sup>*\<^sup>* s s2" using s1(1) s2(1) by simp
  show ?thesis
  proof (cases "send_len (endpoint s2 a) = 0")
    case True
    then show ?thesis using to2 s2(2,5) fin [OF i2] by blast
  next
    case False
    from prompt_ack [OF i2, of a] False w1 s1(2) s2 obtain s3 where
      s3: "mrp_step ext s2 s3" "sent s3 = sent s" "should_ack (endpoint s3 (peer a))"
        "ack_seqnum (endpoint s3 (peer a)) = ?N" by auto
    have i3: "sys_inv ext cap s3" using mrp_step_inv [OF s3(1) i2] .
    from acknowledge_everything [OF i3, of a] s3 obtain s4 where
      s4: "(mrp_step ext)\<^sup>*\<^sup>* s3 s4" "sent s4 = sent s" "send_len (endpoint s4 a) = 0"
        "endpoint s4 (peer a) = (endpoint s3 (peer a))\<lparr>should_ack := False\<rparr>" by auto
    have "got s4 (peer a) = map (message_value ext) (sent s a)"
      using fin [OF steps_inv [OF s4(1) i3] s4(2)] s4(4) s3(4) by (simp add: ack_seqnum_def)
    moreover have "(mrp_step ext)\<^sup>*\<^sup>* s s4" using to2 s3(1) s4(1) by simp
    ultimately show ?thesis using s4(2,3) by blast
  qed
qed

section \<open>A run\<close>

text \<open>Alice sends a message of two fragments; Bob gets the second fragment first, then the other.\<close>

definition join_lists :: "nat list \<Rightarrow> nat list list \<Rightarrow> nat list" where
  "join_lists x xs = x @ concat xs"

definition run_header1 :: mrp_header where "run_header1 = header_new_with_length (Some 1) None (Some 2)"
definition run_header2 :: mrp_header where "run_header2 = header_new (Some 2) None"
definition run_packets :: "nat list packet_wrapper set" where
  "run_packets = {PacketWrapper run_header1 [7], PacketWrapper run_header2 [8, 9]}"

definition run_idle :: "nat list endpoint" where
  "run_idle = \<lparr>should_ack = False,
     send_buffer = \<lparr>bw_left = 1, bw_data = [], bw_capacity_limit = 3\<rparr>,
     receive_buffer = \<lparr>bw_left = 1, bw_data = [], bw_capacity_limit = 3\<rparr>,
     merge_state = None, merge_end_seqnum = None\<rparr>"

definition run_alice :: "nat list endpoint" where
  "run_alice = run_idle\<lparr>send_buffer := \<lparr>bw_left = 1, bw_data =
     [Some \<lparr>pp_packet = PacketWrapper run_header1 [7], next_send_at = 5, try_count = 1, transmit = False\<rparr>,
      Some \<lparr>pp_packet = PacketWrapper run_header2 [8, 9], next_send_at = 5, try_count = 1, transmit = False\<rparr>],
     bw_capacity_limit = 3\<rparr>\<rparr>"

definition run_bob1 :: "nat list endpoint" where
  "run_bob1 = run_idle\<lparr>receive_buffer := \<lparr>bw_left = 1,
     bw_data = [None, Some (PacketWrapper run_header2 [8, 9])], bw_capacity_limit = 3\<rparr>\<rparr>"

definition run_bob2 :: "nat list endpoint" where
  "run_bob2 = run_idle\<lparr>receive_buffer := \<lparr>bw_left = 3, bw_data = [], bw_capacity_limit = 3\<rparr>,
     should_ack := True, merge_end_seqnum := Some 2\<rparr>"

definition run0 :: "nat list system" where
  "run0 = \<lparr>endpoint = (\<lambda>_. run_idle), wire = (\<lambda>_. {}), sent = (\<lambda>_. []), got = (\<lambda>_. [])\<rparr>"
definition run1 :: "nat list system" where
  "run1 = (set_endpoint run0 Alice run_alice run_packets)
     \<lparr>sent := (sent run0)(Alice := sent run0 Alice @ [Fragmented [[7], [8, 9]]])\<rparr>"
definition run2 :: "nat list system" where
  "run2 = (set_endpoint run1 Bob run_bob1 (wire run1 Alice))\<lparr>got := (got run1)(Bob := got run1 Bob @ [])\<rparr>"
definition run3 :: "nat list system" where
  "run3 = (set_endpoint run2 Bob run_bob2 (wire run2 Alice))\<lparr>got := (got run2)(Bob := got run2 Bob @ [[7, 8, 9]])\<rparr>"

lemmas run_defs = run0_def run1_def run2_def run3_def set_endpoint_def run_packets_def

lemmas run_eval = run_idle_def run_alice_def run_bob1_def run_bob2_def run_header1_def run_header2_def
  header_new_def header_new_with_length_def header_default_def
  put_def get_pos_def left_bounds_def right_bounds_def push_none_until_eq drain_front_def run_length_def
  add64_def sub64_def saturating_add64_def u64_mod_def u64_max_def is_full_def bw_len_def
  next_seqnum_def max_seen_seqnum_def Let_def

lemma run0_init: "mrp_init 3 = Some run0"
  by (simp add: mrp_init_def run0_def run_idle_def stream_with_capacity_limit_def with_capacity_limit_def
      INITIAL_SEQNUM_def INITIAL_ACKNUM_def)

lemma run1_step: "mrp_step join_lists run0 run1"
proof -
  have "try_send_fragmented (endpoint run0 Alice) (map (PacketWrapper header_default) [[7], [8, 9]])
      (transmit_fragment (\<lambda>_. 5)) (wire run0 (peer Alice)) = Some (run_alice, run_packets, Ok ())"
    by (simp add: try_send_fragmented_def try_send_def fragment_closure_def transmit_fragment_def
        run_eval run_defs insert_commute) (simp add: numeral_2_eq_2)
  moreover have "next_seqnum (endpoint run0 Alice) + length [[7], [8, 9::nat]] \<le> u64_max"
    by (simp add: run_eval run_defs)
  ultimately show ?thesis
    unfolding run1_def by (intro mrp_step.send_fragmented) simp_all
qed

lemma run2_step: "mrp_step join_lists run1 run2"
proof -
  have "receive_and_merge join_lists (endpoint run1 Bob) run_header2 [8, 9] = Some (run_bob1, Ok [])"
    by (simp add: receive_and_merge_def update_receiver_window_def run_eval run_defs)
  moreover have "PacketWrapper run_header2 [8, 9] \<in> wire run1 Bob" by (simp add: run_defs)
  ultimately show ?thesis
    using mrp_step.receive_ok [of run_header2 "[8, 9]" run1 Bob join_lists run_bob1 "[]"]
    by (simp add: run2_def)
qed

lemma run3_step: "mrp_step join_lists run2 run3"
proof -
  have "receive_and_merge join_lists (endpoint run2 Bob) run_header1 [7] = Some (run_bob2, Ok [[7, 8, 9]])"
    by (simp add: receive_and_merge_def update_receiver_window_def merge_packet_def mb_new_def
        mb_push_def mb_merge_def join_lists_def run_eval run_defs)
  moreover have "PacketWrapper run_header1 [7] \<in> wire run2 Bob" by (simp add: run_defs)
  ultimately show ?thesis
    using mrp_step.receive_ok [of run_header1 "[7]" run2 Bob join_lists run_bob2 "[[7, 8, 9]]"]
    by (simp add: run3_def)
qed

lemma run_reachable:
  "mrp_reachable join_lists 3 run1" "mrp_reachable join_lists 3 run2" "mrp_reachable join_lists 3 run3"
proof -
  have "3 \<le> usize_max" by (simp add: usize_max_def)
  moreover have "(mrp_step join_lists)\<^sup>*\<^sup>* run0 run1" using run1_step by blast
  moreover from this have "(mrp_step join_lists)\<^sup>*\<^sup>* run0 run2" using run2_step by simp
  moreover from this have "(mrp_step join_lists)\<^sup>*\<^sup>* run0 run3" using run3_step by simp
  ultimately show "mrp_reachable join_lists 3 run1" "mrp_reachable join_lists 3 run2"
    "mrp_reachable join_lists 3 run3"
    using run0_init unfolding mrp_reachable_def by blast+
qed

section \<open>What the protocol promises\<close>

text \<open>
  C1: in-order, exactly-once delivery. In every reachable state, what one application was
  handed is exactly the sequence of complete messages that the other sent, in order, each
  once and reassembled, as far as the receiver's lower bound has got.
\<close>

theorem in_order_exactly_once:
  assumes "mrp_reachable ext cap s"
  shows "got s (peer a) = map (message_value ext)
    (take (complete_messages (ack_seqnum (endpoint s (peer a)) - 1) (sent s a)) (sent s a))"
  using mrp_reachable_inv [OF assms] by (rule sys_inv_got)

theorem in_order_exactly_once_witness:
  "mrp_reachable join_lists 3 run3 \<and> got run3 Bob = [[7, 8, 9]]
    \<and> map (message_value join_lists) (take (complete_messages (ack_seqnum (endpoint run3 Bob) - 1)
        (sent run3 Alice)) (sent run3 Alice)) = [[7, 8, 9]]"
proof -
  have "got run3 Bob = [[7, 8, 9]]" by (simp add: run_defs)
  with in_order_exactly_once [OF run_reachable(3), of Alice] run_reachable(3) show ?thesis by simp
qed

text \<open>
  C3: no packet of the peer is ever refused. In every reachable state, receiving any packet
  that is on the wire succeeds: there is no full receive window, no merge conflict, no
  invalid packet count, and no panic.
\<close>

theorem peer_packets_accepted:
  assumes "mrp_reachable ext cap s" and "PacketWrapper h d \<in> wire s a"
  shows "\<exists>st out. receive_and_merge ext (endpoint s a) h d = Some (st, Ok out) \<and> stream_wf st"
proof -
  from step_receive_inv [OF mrp_reachable_inv [OF assms(1)] assms(2)] obtain st out where
    r: "receive_and_merge ext (endpoint s a) h d = Some (st, Ok out)"
      "sys_inv ext cap ((set_endpoint s a st (wire s (peer a)))\<lparr>got := (got s)(a := got s a @ out)\<rparr>)"
    by blast
  have "stream_wf st" using sys_inv_log(6) [OF r(2), of a] by (simp add: set_endpoint_def)
  with r(1) show ?thesis by blast
qed

theorem peer_packets_accepted_witness:
  "mrp_reachable join_lists 3 run2 \<and> PacketWrapper run_header1 [7] \<in> wire run2 Bob
    \<and> (\<exists>st out. receive_and_merge join_lists (endpoint run2 Bob) run_header1 [7] = Some (st, Ok out))"
proof -
  have "PacketWrapper run_header1 [7] \<in> wire run2 Bob" by (simp add: run_defs)
  with peer_packets_accepted [OF run_reachable(2) this] run_reachable(2) show ?thesis by blast
qed

text \<open>
  C4: nothing is dropped too early. In every reachable state the sender still buffers, under
  its sequence number, every packet it sent that the receiver has not yet taken in order.
\<close>

theorem undelivered_retained:
  assumes "mrp_reachable ext cap s"
    and "ack_seqnum (endpoint s (peer a)) \<le> q" and "q \<le> length (packets_from 1 (sent s a))"
  shows "map_option pp_packet (bw_get (send_buffer (endpoint s a)) q) = Some (packets_from 1 (sent s a) ! (q - 1))"
proof -
  let ?w = "send_buffer (endpoint s a)" and ?ps = "packets_from 1 (sent s a)"
  have inv: "sys_inv ext cap s" using mrp_reachable_inv [OF assms(1)] .
  note l = sys_inv_log [OF inv, of a]
  obtain i where i: "q = bw_left ?w + i" using l(3) assms(2) le_Suc_ex le_trans by blast
  have len: "i < length (bw_data ?w)" using i l(2) assms(3) by (simp add: send_len_def bw_len_def)
  have "bw_wf ?w" using l(6) by (simp add: stream_wf_def)
  from get_mut_at(2) [OF this len]
  have "map_option pp_packet (bw_get ?w q) = send_packets (endpoint s a) ! i"
    using len i by (simp add: send_packets_def)
  also have "\<dots> = Some (drop (bw_left ?w - 1) ?ps ! i)"
    unfolding l(1) using i l(5) assms(3) by (intro nth_map) simp
  also have "drop (bw_left ?w - 1) ?ps ! i = ?ps ! (q - 1)"
    using i l(5) assms(3) by (subst nth_drop) auto
  finally show ?thesis .
qed

theorem undelivered_retained_witness:
  "mrp_reachable join_lists 3 run2
    \<and> map_option pp_packet (bw_get (send_buffer (endpoint run2 Alice)) 2) =
        Some (PacketWrapper run_header2 [8, 9])"
proof -
  have "ack_seqnum (endpoint run2 (peer Alice)) \<le> 2"
    by (simp add: run_defs run_eval ack_seqnum_def)
  moreover have "packets_from 1 (sent run2 Alice) =
      [PacketWrapper run_header1 [7], PacketWrapper run_header2 [8, 9]]"
    by (simp add: run_defs run_header1_def run_header2_def numeral_2_eq_2)
  ultimately show ?thesis
    using undelivered_retained [OF run_reachable(2), of Alice 2] run_reachable(2) by simp
qed

text \<open>
  C2: delivery is always possible. From every reachable state there is a run, without any new
  message, after which the peer's application has got every message that was sent and the
  sender's window is empty: no state of the two endpoints is stuck.
\<close>

theorem delivery_possible:
  assumes "mrp_reachable ext cap s"
  shows "\<exists>s'. (mrp_step ext)\<^sup>*\<^sup>* s s' \<and> sent s' = sent s \<and> send_len (endpoint s' a) = 0
    \<and> got s' (peer a) = map (message_value ext) (sent s a)"
  using mrp_reachable_inv [OF assms] by (rule everything_delivered)

theorem delivery_possible_witness:
  "\<exists>s'. (mrp_step join_lists)\<^sup>*\<^sup>* run1 s' \<and> got run1 Bob = [] \<and> send_len (endpoint run1 Alice) = 2
    \<and> send_len (endpoint s' Alice) = 0 \<and> got s' Bob = [[7, 8, 9]]"
proof -
  have "got run1 Bob = []" "send_len (endpoint run1 Alice) = 2"
    "map (message_value join_lists) (sent run1 Alice) = [[7, 8, 9]]"
    by (simp_all add: run_defs run_eval send_len_def message_value_def join_lists_def)
  with delivery_possible [OF run_reachable(1), of Alice] show ?thesis by auto
qed

end
