(* ===== verification/Frame_Crypto.thy ===== *)
theory Frame_Crypto
  imports Rtc_Prelude "HOL-Library.Finite_Map"
begin

text \<open>
  Frame encryption of group calls, \<open>src/rust/src/core/crypto.rs\<close>: a sender state with a
  ratcheting secret, receiver states that follow it, and the \<open>Context\<close> that encrypts and
  decrypts frames. Counters keep their width (\<open>u8\<close> ratchet, \<open>u64\<close> frame, \<open>u32\<close> sender).

  The cryptographic crates are parameters, collected in the record \<open>prims\<close>:
  HKDF-SHA256 expansion, the AES-256-CTR keystream, and HMAC-SHA256. \<open>apply_keystream\<close> XORs the
  data with the keystream. \<open>SystemTime::now()\<close> is the argument \<open>now\<close>.
\<close>

unbundle bit_operations_syntax

section \<open>Primitives and encodings\<close>

record prims =
  hkdf_expand :: "bytes \<Rightarrow> bytes \<Rightarrow> nat \<Rightarrow> bytes"
  aes_keystream :: "bytes \<Rightarrow> bytes \<Rightarrow> nat \<Rightarrow> bytes"
  hmac_sha256 :: "bytes \<Rightarrow> bytes \<Rightarrow> bytes"

text \<open>What the code relies on: a keystream of the requested length.\<close>

definition keystream_total :: "prims \<Rightarrow> bool" where
  "keystream_total P \<longleftrightarrow> (\<forall>k iv n. length (aes_keystream P k iv n) = n)"

definition apply_keystream :: "prims \<Rightarrow> bytes \<Rightarrow> bytes \<Rightarrow> bytes \<Rightarrow> bytes" where
  "apply_keystream P key iv data = map2 (XOR) data (aes_keystream P key iv (length data))"

datatype crypto_error = NoMatchingReceiverState

definition RATCHET_INFO_STRING :: bytes where "RATCHET_INFO_STRING = ascii ''RingRTC Ratchet''"
definition MAX_RECEIVER_STATES_TO_RETAIN :: nat where "MAX_RECEIVER_STATES_TO_RETAIN = 5"
definition MAX_OOO_FRAMES :: "64 word" where "MAX_OOO_FRAMES = 30 * 10"
definition MAX_OOO_RATCHETS :: "8 word" where "MAX_OOO_RATCHETS = 5"
definition MAC_SIZE_BYTES :: nat where "MAC_SIZE_BYTES = 16"

definition be_bytes64 :: "64 word \<Rightarrow> bytes" where
  "be_bytes64 w = map (\<lambda>i. ucast (drop_bit (8 * (7 - i)) w)) [0..<8]"

definition be_bytes32 :: "32 word \<Rightarrow> bytes" where
  "be_bytes32 w = map (\<lambda>i. ucast (drop_bit (8 * (3 - i)) w)) [0..<4]"

definition convert_frame_counter_to_iv :: "64 word \<Rightarrow> bytes" where
  "convert_frame_counter_to_iv frame_counter = be_bytes64 frame_counter @ replicate 8 0"

definition len_as_u32_be_bytes :: "bytes \<Rightarrow> bytes" where
  "len_as_u32_be_bytes data = be_bytes32 (of_nat (length data))"

section \<open>Sender and receiver states\<close>

record sender_state =
  current_aes_key :: bytes
  current_hmac_key :: bytes
  current_secret :: bytes
  ratchet_counter :: "8 word"

definition derive_aes_key :: "prims \<Rightarrow> sender_state \<Rightarrow> sender_state" where
  "derive_aes_key P s = s\<lparr>current_aes_key := hkdf_expand P (current_secret s) (ascii ''RingRTC AES Key'') 32\<rparr>"

definition derive_hmac_key :: "prims \<Rightarrow> sender_state \<Rightarrow> sender_state" where
  "derive_hmac_key P s = s\<lparr>current_hmac_key := hkdf_expand P (current_secret s) (ascii ''RingRTC HMAC Key'') 32\<rparr>"

definition sender_state_new :: "prims \<Rightarrow> 8 word \<Rightarrow> bytes \<Rightarrow> sender_state" where
  "sender_state_new P counter secret =
     derive_hmac_key P (derive_aes_key P
       \<lparr>current_aes_key = replicate 32 0, current_hmac_key = replicate 32 0,
        current_secret = secret, ratchet_counter = counter\<rparr>)"

definition ratchet_secret :: "prims \<Rightarrow> bytes \<Rightarrow> bytes" where
  "ratchet_secret P secret = hkdf_expand P secret RATCHET_INFO_STRING 32"

definition mut_advance_ratchet :: "prims \<Rightarrow> sender_state \<Rightarrow> sender_state" where
  "mut_advance_ratchet P s =
     (let s1 = s\<lparr>current_secret := ratchet_secret P (current_secret s)\<rparr>;
          s2 = derive_hmac_key P (derive_aes_key P s1)
      in s2\<lparr>ratchet_counter := ratchet_counter s2 + 1\<rparr>)"

record receiver_state =
  rs_sender_state :: sender_state
  ratchet_frame :: "64 word"
  old_secret :: bytes
  old_ratchet_counter :: "8 word"

definition receiver_state_new :: "prims \<Rightarrow> 8 word \<Rightarrow> bytes \<Rightarrow> receiver_state" where
  "receiver_state_new P counter secret =
     \<lparr>rs_sender_state = sender_state_new P counter secret, ratchet_frame = 0,
      old_secret = secret, old_ratchet_counter = counter\<rparr>"

text \<open>The loop \<open>while cur != ratchet_counter_goal\<close>; it ends because the \<open>u8\<close> counter wraps.\<close>

function ratchet_to :: "prims \<Rightarrow> 8 word \<Rightarrow> 8 word \<Rightarrow> bytes \<Rightarrow> bytes" where
  "ratchet_to P goal cur secret =
     (if cur = goal then secret else ratchet_to P goal (cur + 1) (ratchet_secret P secret))"
  by pat_completeness auto
termination
proof (relation "measure (\<lambda>(P, goal, cur, secret). unat (goal - cur))")
  fix P :: prims and goal cur :: "8 word" and secret :: bytes
  assume "cur \<noteq> goal"
  then have "unat (goal - cur - 1) < unat (goal - cur)" by (intro measure_unat) auto
  then show "((P, goal, cur + 1, ratchet_secret P secret), P, goal, cur, secret)
      \<in> measure (\<lambda>(P, goal, cur, secret). unat (goal - cur))"
    by (simp add: diff_diff_eq)
qed simp

declare ratchet_to.simps [simp del]

definition try_advance_ratchet :: "prims \<Rightarrow> receiver_state \<Rightarrow> 8 word \<Rightarrow> 64 word \<Rightarrow> receiver_state" where
  "try_advance_ratchet P st ratchet_counter_goal frame_counter =
     (let (cur, secret) =
            (if frame_counter > ratchet_frame st
             then (ratchet_counter (rs_sender_state st), current_secret (rs_sender_state st))
             else (old_ratchet_counter st, old_secret st));
          ss = sender_state_new P ratchet_counter_goal (ratchet_to P ratchet_counter_goal cur secret)
      in if frame_counter - ratchet_frame st > MAX_OOO_FRAMES
         then \<lparr>rs_sender_state = ss, ratchet_frame = frame_counter,
               old_secret = current_secret (rs_sender_state st),
               old_ratchet_counter = ratchet_counter (rs_sender_state st)\<rparr>
         else \<lparr>rs_sender_state = ss, ratchet_frame = frame_counter,
               old_secret = old_secret st, old_ratchet_counter = old_ratchet_counter st\<rparr>)"

function limit_ooo :: "prims \<Rightarrow> receiver_state \<Rightarrow> receiver_state" where
  "limit_ooo P st =
     (if ratchet_counter (rs_sender_state st) - old_ratchet_counter st > MAX_OOO_RATCHETS
      then limit_ooo P (st\<lparr>old_secret := ratchet_secret P (old_secret st),
                          old_ratchet_counter := old_ratchet_counter st + 1\<rparr>)
      else st)"
  by pat_completeness auto
termination
proof (relation "measure (\<lambda>(P, st). unat (ratchet_counter (rs_sender_state st) - old_ratchet_counter st))")
  fix P :: prims and st :: receiver_state
  let ?d = "ratchet_counter (rs_sender_state st) - old_ratchet_counter st"
  assume "?d > MAX_OOO_RATCHETS"
  then have "?d \<noteq> 0" by auto
  then have "unat (?d - 1) < unat ?d" by (rule measure_unat)
  then show "((P, st\<lparr>old_secret := ratchet_secret P (old_secret st),
      old_ratchet_counter := old_ratchet_counter st + 1\<rparr>), P, st)
      \<in> measure (\<lambda>(P, st). unat (ratchet_counter (rs_sender_state st) - old_ratchet_counter st))"
    by (simp add: diff_diff_eq)
qed simp

declare limit_ooo.simps [simp del]

section \<open>Authentication and decryption of one frame\<close>

definition frame_mac :: "prims \<Rightarrow> bytes \<Rightarrow> 64 word \<Rightarrow> bytes \<Rightarrow> bytes" where
  "frame_mac P key frame_counter data =
     take MAC_SIZE_BYTES (hmac_sha256 P key
       (convert_frame_counter_to_iv frame_counter @ len_as_u32_be_bytes data @ data @ be_bytes32 0))"

definition check_mac :: "prims \<Rightarrow> receiver_state \<Rightarrow> 64 word \<Rightarrow> bytes \<Rightarrow> bytes \<Rightarrow> bool" where
  "check_mac P st frame_counter data mac =
     (frame_mac P (current_hmac_key (rs_sender_state st)) frame_counter data = mac)"

definition decrypt_internal :: "prims \<Rightarrow> receiver_state \<Rightarrow> 64 word \<Rightarrow> bytes \<Rightarrow> bytes" where
  "decrypt_internal P st frame_counter data =
     apply_keystream P (current_aes_key (rs_sender_state st)) (convert_frame_counter_to_iv frame_counter) data"

section \<open>Error statistics\<close>

record decryption_error_stats =
  start_time :: nat
  last_time :: nat
  err_count :: "32 word"

record decryption_error_tracker =
  error_stats :: "(32 word, decryption_error_stats) fmap"
  last_checked_time :: nat

definition tracker_default :: "nat \<Rightarrow> decryption_error_tracker" where
  "tracker_default now = \<lparr>error_stats = fmempty, last_checked_time = now\<rparr>"

definition stats_default :: "nat \<Rightarrow> decryption_error_stats" where
  "stats_default now = \<lparr>start_time = now, last_time = now, err_count = 0\<rparr>"

definition stats_increment :: "nat \<Rightarrow> decryption_error_stats \<Rightarrow> decryption_error_stats" where
  "stats_increment now s =
     (let s1 = (if err_count s = 0 then s\<lparr>start_time := now\<rparr> else s)
      in s1\<lparr>last_time := now, err_count := err_count s1 + 1\<rparr>)"

definition stats_reset :: "decryption_error_stats \<Rightarrow> decryption_error_stats" where
  "stats_reset s = s\<lparr>err_count := 0\<rparr>"

definition increment_decryption_error :: "nat \<Rightarrow> decryption_error_tracker \<Rightarrow> 32 word \<Rightarrow> decryption_error_tracker" where
  "increment_decryption_error now t sender_id =
     t\<lparr>error_stats := fmupd sender_id
        (stats_increment now
          (case fmlookup (error_stats t) sender_id of Some s \<Rightarrow> s | None \<Rightarrow> stats_default now))
        (error_stats t)\<rparr>"

definition ready_for_report :: "decryption_error_tracker \<Rightarrow> 32 word \<Rightarrow> bool" where
  "ready_for_report t sender_id =
     (case fmlookup (error_stats t) sender_id of
        Some s \<Rightarrow> last_time s < last_checked_time t | None \<Rightarrow> False)"

definition get_report ::
  "nat \<Rightarrow> decryption_error_tracker
    \<Rightarrow> decryption_error_tracker \<times> (32 word, decryption_error_stats) fmap option" where
  "get_report now t =
     (let report = fmfilter (ready_for_report t) (error_stats t);
          t' = t\<lparr>last_checked_time := now\<rparr>
      in if report = fmempty then (t', None)
         else (t'\<lparr>error_stats := fmfilter (\<lambda>i. \<not> ready_for_report t i) (error_stats t)\<rparr>, Some report))"

section \<open>The context\<close>

record crypto_context =
  ctx_sender_state :: sender_state
  next_frame_counter :: "64 word"
  remote_states_by_id :: "(32 word, receiver_state list) fmap"
  ctx_error_tracker :: decryption_error_tracker

definition context_new :: "prims \<Rightarrow> nat \<Rightarrow> bytes \<Rightarrow> crypto_context" where
  "context_new P now initial_send_secret =
     \<lparr>ctx_sender_state = sender_state_new P 0 initial_send_secret, next_frame_counter = 1,
      remote_states_by_id = fmempty, ctx_error_tracker = tracker_default now\<rparr>"

text \<open>\<open>encrypt\<close> returns the context, the data as altered in place, the MAC it fills in, and the
  two counters to send along.\<close>

definition encrypt :: "prims \<Rightarrow> crypto_context \<Rightarrow> bytes
    \<Rightarrow> crypto_context \<times> bytes \<times> bytes \<times> (8 word \<times> 64 word, crypto_error) result" where
  "encrypt P ctx data =
     (let frame_counter = next_frame_counter ctx;
          ss = ctx_sender_state ctx;
          data' = apply_keystream P (current_aes_key ss) (convert_frame_counter_to_iv frame_counter) data;
          mac = frame_mac P (current_hmac_key ss) frame_counter data'
      in (ctx\<lparr>next_frame_counter := next_frame_counter ctx + 1\<rparr>, data', mac,
          Ok (ratchet_counter ss, frame_counter)))"

definition states_by_id :: "crypto_context \<Rightarrow> 32 word \<Rightarrow> receiver_state list" where
  "states_by_id ctx sender_id =
     (case fmlookup (remote_states_by_id ctx) sender_id of Some sts \<Rightarrow> sts | None \<Rightarrow> [])"

definition set_states_by_id :: "crypto_context \<Rightarrow> 32 word \<Rightarrow> receiver_state list \<Rightarrow> crypto_context" where
  "set_states_by_id ctx sender_id sts =
     ctx\<lparr>remote_states_by_id := fmupd sender_id sts (remote_states_by_id ctx)\<rparr>"

fun decrypt_matching ::
  "prims \<Rightarrow> 8 word \<Rightarrow> 64 word \<Rightarrow> bytes \<Rightarrow> bytes \<Rightarrow> receiver_state list \<Rightarrow> bytes option" where
  "decrypt_matching P rc fc data mac [] = None"
| "decrypt_matching P rc fc data mac (st # sts) =
     (if ratchet_counter (rs_sender_state st) = rc \<and> check_mac P st fc data mac
      then Some (decrypt_internal P st fc data)
      else decrypt_matching P rc fc data mac sts)"

fun decrypt_ratcheting ::
  "prims \<Rightarrow> 8 word \<Rightarrow> 64 word \<Rightarrow> bytes \<Rightarrow> bytes \<Rightarrow> receiver_state list
    \<Rightarrow> (receiver_state list \<times> bytes) option" where
  "decrypt_ratcheting P rc fc data mac [] = None"
| "decrypt_ratcheting P rc fc data mac (st # sts) =
     (let try_state = try_advance_ratchet P st rc fc
      in if check_mac P try_state fc data mac
         then (let st' = limit_ooo P try_state in Some (st' # sts, decrypt_internal P st' fc data))
         else map_option (\<lambda>(sts', d). (st # sts', d)) (decrypt_ratcheting P rc fc data mac sts))"

definition decrypt ::
  "prims \<Rightarrow> nat \<Rightarrow> crypto_context \<Rightarrow> 32 word \<Rightarrow> 8 word \<Rightarrow> 64 word \<Rightarrow> bytes \<Rightarrow> bytes
    \<Rightarrow> crypto_context \<times> bytes \<times> (unit, crypto_error) result" where
  "decrypt P now ctx sender_id rc fc data mac =
     (let sts = states_by_id ctx sender_id; ctx1 = set_states_by_id ctx sender_id sts
      in case decrypt_matching P rc fc data mac sts of
           Some d \<Rightarrow> (ctx1, d, Ok ())
         | None \<Rightarrow>
             (case decrypt_ratcheting P rc fc data mac sts of
                Some (sts', d) \<Rightarrow> (set_states_by_id ctx sender_id sts', d, Ok ())
              | None \<Rightarrow>
                  (ctx1\<lparr>ctx_error_tracker := increment_decryption_error now (ctx_error_tracker ctx1) sender_id\<rparr>,
                   data, Err NoMatchingReceiverState)))"

definition send_state :: "crypto_context \<Rightarrow> 8 word \<times> bytes" where
  "send_state ctx = (ratchet_counter (ctx_sender_state ctx), current_secret (ctx_sender_state ctx))"

definition advance_send_ratchet :: "prims \<Rightarrow> crypto_context \<Rightarrow> crypto_context \<times> (8 word \<times> bytes)" where
  "advance_send_ratchet P ctx =
     (let ctx' = ctx\<lparr>ctx_sender_state := mut_advance_ratchet P (ctx_sender_state ctx)\<rparr>
      in (ctx', send_state ctx'))"

definition reset_send_ratchet :: "prims \<Rightarrow> crypto_context \<Rightarrow> bytes \<Rightarrow> crypto_context" where
  "reset_send_ratchet P ctx secret = ctx\<lparr>ctx_sender_state := sender_state_new P 0 secret\<rparr>"

definition add_receive_secret :: "prims \<Rightarrow> crypto_context \<Rightarrow> 32 word \<Rightarrow> 8 word \<Rightarrow> bytes \<Rightarrow> crypto_context" where
  "add_receive_secret P ctx sender_id counter secret =
     (let sts = states_by_id ctx sender_id;
          sts1 = (if length sts = MAX_RECEIVER_STATES_TO_RETAIN then butlast sts else sts)
      in set_states_by_id ctx sender_id (receiver_state_new P counter secret # sts1))"

definition get_error_report ::
  "nat \<Rightarrow> crypto_context \<Rightarrow> crypto_context \<times> (32 word, decryption_error_stats) fmap option" where
  "get_error_report now ctx =
     (case get_report now (ctx_error_tracker ctx) of (t, r) \<Rightarrow> (ctx\<lparr>ctx_error_tracker := t\<rparr>, r))"

section \<open>The ratchet\<close>

abbreviation ratchet_n :: "prims \<Rightarrow> nat \<Rightarrow> bytes \<Rightarrow> bytes" where
  "ratchet_n P n \<equiv> ratchet_secret P ^^ n"

lemma unat_pred: "(x :: 'a::len word) \<noteq> 0 \<Longrightarrow> unat x = Suc (unat (x - 1))"
  by (simp add: unat_minus_one unat_gt_0)

lemma ratchet_to_eq: "ratchet_to P goal cur secret = ratchet_n P (unat (goal - cur)) secret"
proof (induction P goal cur secret rule: ratchet_to.induct)
  case (1 P goal cur secret)
  show ?case
  proof (cases "cur = goal")
    case False
    then have "unat (goal - cur) = Suc (unat (goal - (cur + 1)))"
      using unat_pred [of "goal - cur"] by (simp add: diff_diff_eq)
    with 1 False show ?thesis by (simp add: ratchet_to.simps [of P goal cur] funpow_swap1)
  qed (simp add: ratchet_to.simps)
qed

lemma limit_ooo_eq:
  "limit_ooo P st =
     (let d = unat (ratchet_counter (rs_sender_state st) - old_ratchet_counter st)
      in if d \<le> 5 then st
         else st\<lparr>old_secret := ratchet_n P (d - 5) (old_secret st),
                 old_ratchet_counter := ratchet_counter (rs_sender_state st) - 5\<rparr>)"
proof (induction P st rule: limit_ooo.induct)
  case (1 P st)
  let ?rc = "ratchet_counter (rs_sender_state st)" and ?old = "old_ratchet_counter st"
  let ?st = "st\<lparr>old_secret := ratchet_secret P (old_secret st), old_ratchet_counter := ?old + 1\<rparr>"
  have gt: "?rc - ?old > MAX_OOO_RATCHETS \<longleftrightarrow> 5 < unat (?rc - ?old)"
    by (simp add: MAX_OOO_RATCHETS_def word_less_nat_alt)
  show ?case
  proof (cases "5 < unat (?rc - ?old)")
    case True
    define n where "n = unat (?rc - (?old + 1))"
    have "?rc - ?old \<noteq> 0" using True by (metis not_less_zero unat_0)
    then have d: "unat (?rc - ?old) = Suc n"
      using unat_pred [of "?rc - ?old"] by (simp add: diff_diff_eq n_def)
    have step: "limit_ooo P st = limit_ooo P ?st"
      using True gt by (simp add: limit_ooo.simps [of P st])
    have IH: "limit_ooo P ?st = (if n \<le> 5 then ?st
        else st\<lparr>old_secret := ratchet_n P (n - 5) (ratchet_secret P (old_secret st)),
                old_ratchet_counter := ?rc - 5\<rparr>)"
      using 1 True gt by (simp add: Let_def n_def)
    show ?thesis
    proof (cases "n = 5")
      case True
      then have "?rc - (?old + 1) = 5" by (simp add: word_unat_eq_iff n_def)
      then have "?old + 1 = ?rc - 5" by (simp add: algebra_simps)
      with True step IH d show ?thesis by (simp add: Let_def)
    next
      case False
      then have "Suc n - 5 = Suc (n - 5)" "5 < n" using True d by simp_all
      with step IH d show ?thesis by (simp add: Let_def funpow_swap1)
    qed
  next
    case False
    then show ?thesis using gt by (simp add: limit_ooo.simps [of P st])
  qed
qed

lemma sender_state_new_simps [simp]:
  "ratchet_counter (sender_state_new P c s) = c"
  "current_secret (sender_state_new P c s) = s"
  by (simp_all add: sender_state_new_def derive_aes_key_def derive_hmac_key_def)

lemma mut_advance_ratchet_new:
  "mut_advance_ratchet P (sender_state_new P c s) = sender_state_new P (c + 1) (ratchet_secret P s)"
  by (simp add: mut_advance_ratchet_def sender_state_new_def derive_aes_key_def derive_hmac_key_def Let_def)

lemma limit_ooo_sender [simp]: "rs_sender_state (limit_ooo P st) = rs_sender_state st"
  by (simp add: limit_ooo_eq Let_def)

lemma limit_ooo_frame [simp]: "ratchet_frame (limit_ooo P st) = ratchet_frame st"
  by (simp add: limit_ooo_eq Let_def)

section \<open>One frame\<close>

lemma map2_xor_cancel:
  fixes xs ks :: bytes
  shows "length ks = length xs \<Longrightarrow> map2 (XOR) (map2 (XOR) xs ks) ks = xs"
  by (induction xs ks rule: list_induct2') (auto simp: xor.assoc)

lemma apply_keystream_cancel:
  assumes "keystream_total P"
  shows "apply_keystream P k iv (apply_keystream P k iv data) = data"
proof -
  have "length (apply_keystream P k iv data) = length data"
    using assms by (simp add: apply_keystream_def keystream_total_def)
  then show ?thesis
    using assms by (simp add: apply_keystream_def keystream_total_def map2_xor_cancel)
qed

text \<open>A frame encrypted under a sender state passes the MAC check of any receiver state that has
  reached the same sender state, and decrypts to the plaintext.\<close>

definition sealed :: "prims \<Rightarrow> sender_state \<Rightarrow> 64 word \<Rightarrow> bytes \<Rightarrow> bytes \<times> bytes" where
  "sealed P ss fc data =
     (let d = apply_keystream P (current_aes_key ss) (convert_frame_counter_to_iv fc) data
      in (d, frame_mac P (current_hmac_key ss) fc d))"

lemma encrypt_sealed:
  "encrypt P ctx data =
     (ctx\<lparr>next_frame_counter := next_frame_counter ctx + 1\<rparr>,
      fst (sealed P (ctx_sender_state ctx) (next_frame_counter ctx) data),
      snd (sealed P (ctx_sender_state ctx) (next_frame_counter ctx) data),
      Ok (ratchet_counter (ctx_sender_state ctx), next_frame_counter ctx))"
  by (simp add: encrypt_def sealed_def Let_def)

lemma sealed_opens:
  assumes "keystream_total P" "sealed P ss fc data = (d, mac)" "rs_sender_state st = ss"
  shows "check_mac P st fc d mac" "decrypt_internal P st fc d = data"
  using assms by (auto simp: sealed_def check_mac_def decrypt_internal_def apply_keystream_cancel Let_def)

text \<open>What the two loops of \<open>decrypt\<close> return.\<close>

lemma decrypt_matching_iff:
  "decrypt_matching P rc fc data mac sts =
     map_option (\<lambda>st. decrypt_internal P st fc data)
       (find (\<lambda>st. ratchet_counter (rs_sender_state st) = rc \<and> check_mac P st fc data mac) sts)"
  by (induction sts) auto

lemma decrypt_ratcheting_some:
  assumes "decrypt_ratcheting P rc fc data mac sts = Some (sts', d)"
  shows "\<exists>pre st post. sts = pre @ st # post
    \<and> sts' = pre @ limit_ooo P (try_advance_ratchet P st rc fc) # post
    \<and> check_mac P (try_advance_ratchet P st rc fc) fc data mac
    \<and> d = decrypt_internal P (try_advance_ratchet P st rc fc) fc data
    \<and> (\<forall>st' \<in> set pre. \<not> check_mac P (try_advance_ratchet P st' rc fc) fc data mac)"
  using assms
proof (induction sts arbitrary: sts')
  case (Cons st sts)
  show ?case
  proof (cases "check_mac P (try_advance_ratchet P st rc fc) fc data mac")
    case True
    then show ?thesis using Cons.prems
      by (intro exI [of _ "[]"] exI [of _ st] exI [of _ sts])
        (auto simp: Let_def decrypt_internal_def)
  next
    case False
    then obtain sts1 where s: "decrypt_ratcheting P rc fc data mac sts = Some (sts1, d)" "sts' = st # sts1"
      using Cons.prems by (auto simp: Let_def)
    from Cons.IH [OF s(1)] obtain pre st1 post where
      "sts = pre @ st1 # post" "sts1 = pre @ limit_ooo P (try_advance_ratchet P st1 rc fc) # post"
      "check_mac P (try_advance_ratchet P st1 rc fc) fc data mac"
      "d = decrypt_internal P (try_advance_ratchet P st1 rc fc) fc data"
      "\<forall>st' \<in> set pre. \<not> check_mac P (try_advance_ratchet P st' rc fc) fc data mac" by blast
    with False s(2) show ?thesis
      by (intro exI [of _ "st # pre"] exI [of _ st1] exI [of _ post]) auto
  qed
qed simp

lemma decrypt_ratcheting_none:
  "decrypt_ratcheting P rc fc data mac sts = None \<longleftrightarrow>
     (\<forall>st \<in> set sts. \<not> check_mac P (try_advance_ratchet P st rc fc) fc data mac)"
  by (induction sts) (auto simp: Let_def)

section \<open>Receivers that follow a sender\<close>

text \<open>
  \<open>follows P s0 i j st\<close>: the receiver state is at ratchet \<open>i\<close> of the chain that starts with the
  secret \<open>s0\<close>, and keeps the secret of ratchet \<open>j\<close> for frames that come late.
\<close>

definition follows :: "prims \<Rightarrow> bytes \<Rightarrow> nat \<Rightarrow> nat \<Rightarrow> receiver_state \<Rightarrow> bool" where
  "follows P s0 i j st \<longleftrightarrow>
     rs_sender_state st = sender_state_new P (of_nat i) (ratchet_n P i s0)
     \<and> old_secret st = ratchet_n P j s0 \<and> old_ratchet_counter st = of_nat j"

definition sends_at :: "prims \<Rightarrow> bytes \<Rightarrow> nat \<Rightarrow> crypto_context \<Rightarrow> bool" where
  "sends_at P s0 k ctx \<longleftrightarrow> ctx_sender_state ctx = sender_state_new P (of_nat k) (ratchet_n P k s0)"

text \<open>The same without what is kept for late frames.\<close>

definition at_ratchet :: "prims \<Rightarrow> bytes \<Rightarrow> nat \<Rightarrow> receiver_state \<Rightarrow> bool" where
  "at_ratchet P s0 i st \<longleftrightarrow> rs_sender_state st = sender_state_new P (of_nat i) (ratchet_n P i s0)"

lemma of_nat_byte_diff:
  assumes "i \<le> k" "k < i + 256"
  shows "unat ((of_nat k :: 8 word) - of_nat i) = k - i"
proof -
  have eq: "(of_nat k :: 8 word) - of_nat i = of_nat (k - i)" using assms(1) by (simp add: of_nat_diff)
  show ?thesis unfolding eq using assms by (simp only: unat_of_nat) (simp add: take_bit_nat_eq_self)
qed

lemma of_nat_byte_diff_back:
  assumes "k < i" "i < k + 256"
  shows "unat ((of_nat k :: 8 word) - of_nat i) = 256 - (i - k)"
proof -
  have "(of_nat (k + 256) :: 8 word) = of_nat k" by simp
  then show ?thesis using of_nat_byte_diff [of i "k + 256"] assms by (simp del: of_nat_add)
qed

lemma ratchet_chain:
  assumes "i \<le> k" "k < i + 256"
  shows "ratchet_to P (of_nat k) (of_nat i) (ratchet_n P i s0) = ratchet_n P k s0"
proof -
  have "ratchet_n P (k - i) (ratchet_n P i s0) = ratchet_n P (k - i + i) s0"
    by (simp only: funpow_add comp_apply)
  with assms show ?thesis by (simp add: ratchet_to_eq of_nat_byte_diff)
qed

text \<open>The state \<open>try_advance_ratchet\<close> computes, for frames ahead and for frames that come late.\<close>

lemma try_advance_ahead:
  assumes "follows P s0 i j st" "ratchet_frame st < fc" "i \<le> k" "k < i + 256"
  shows "\<exists>j'. j' \<in> {i, j} \<and> follows P s0 k j' (try_advance_ratchet P st (of_nat k) fc)
    \<and> ratchet_frame (try_advance_ratchet P st (of_nat k) fc) = fc"
  using assms ratchet_chain [OF assms(3,4), of P s0]
  by (auto simp: try_advance_ratchet_def follows_def Let_def)

lemma try_advance_at:
  assumes "at_ratchet P s0 i st" "ratchet_frame st < fc" "i \<le> k" "k < i + 256"
  shows "at_ratchet P s0 k (try_advance_ratchet P st (of_nat k) fc)"
    "ratchet_frame (try_advance_ratchet P st (of_nat k) fc) = fc"
  using assms ratchet_chain [OF assms(3,4), of P s0]
  by (auto simp: try_advance_ratchet_def at_ratchet_def Let_def)

lemma try_advance_late:
  assumes "follows P s0 i j st" "fc < ratchet_frame st" "MAX_OOO_FRAMES < fc - ratchet_frame st"
    and "j \<le> k" "k < j + 256"
  shows "follows P s0 k i (try_advance_ratchet P st (of_nat k) fc)"
  using assms ratchet_chain [OF assms(4,5), of P s0]
  by (auto simp: try_advance_ratchet_def follows_def Let_def)

text \<open>Limiting the retained ratchet of a state that follows the chain keeps it on the chain.\<close>

lemma limit_ooo_follows:
  assumes "follows P s0 k j st" "j \<le> k" "k < j + 256"
  shows "follows P s0 k (max j (k - 5)) (limit_ooo P st)"
proof (cases "k - j \<le> 5")
  case True
  then have "max j (k - 5) = j" using assms(2) by simp
  with True show ?thesis
    using assms of_nat_byte_diff [OF assms(2,3)] by (simp add: limit_ooo_eq follows_def Let_def)
next
  case False
  have "ratchet_n P (k - j - 5) (ratchet_n P j s0) = ratchet_n P (k - j - 5 + j) s0"
    by (simp only: funpow_add comp_apply)
  moreover have "k - j - 5 + j = k - 5" "max j (k - 5) = k - 5" using False by simp_all
  moreover have "(of_nat k :: 8 word) - 5 = of_nat (k - 5)" using False by (simp add: of_nat_diff)
  ultimately show ?thesis
    using assms False of_nat_byte_diff [OF assms(2,3)] by (simp add: limit_ooo_eq follows_def Let_def)
qed

lemma limit_ooo_advanced:
  assumes "follows P s0 i j st" "ratchet_frame st < fc" "j \<le> i" "i \<le> k" "k < j + 256"
  shows "\<exists>j'. follows P s0 k j' (limit_ooo P (try_advance_ratchet P st (of_nat k) fc)) \<and> j' \<le> k \<and> k \<le> j' + 5"
proof -
  obtain j1 where j1: "j1 \<in> {i, j}" "follows P s0 k j1 (try_advance_ratchet P st (of_nat k) fc)"
    using try_advance_ahead [OF assms(1,2), of k] assms(3-5) by auto
  then have "follows P s0 k (max j1 (k - 5)) (limit_ooo P (try_advance_ratchet P st (of_nat k) fc))"
    using limit_ooo_follows [OF j1(2)] assms(3-5) by auto
  then show ?thesis
    using j1(1) assms(3,4) by (intro exI [of _ "max j1 (k - 5)"]) auto
qed

lemma limit_ooo_ahead:
  assumes "follows P s0 k i st" "k < i" "i < k + 251"
  shows "follows P s0 k (k + 251) (limit_ooo P st)"
proof -
  have "ratchet_n P (256 - (i - k) - 5) (ratchet_n P i s0) = ratchet_n P (256 - (i - k) - 5 + i) s0"
    by (simp only: funpow_add comp_apply)
  moreover have "256 - (i - k) - 5 + i = k + 251" using assms(2,3) by simp
  moreover have "(of_nat k :: 8 word) - 5 = of_nat (k + 251)" by simp
  ultimately show ?thesis
    using assms of_nat_byte_diff_back [of k i]
    by (auto simp: limit_ooo_eq follows_def Let_def add.commute [of k 251])
qed

lemma states_set [simp]:
  "states_by_id (set_states_by_id ctx i sts) i' = (if i' = i then sts else states_by_id ctx i')"
  by (simp add: states_by_id_def set_states_by_id_def)

lemma set_states_twice [simp]: "set_states_by_id (set_states_by_id ctx i sts) i sts' = set_states_by_id ctx i sts'"
  by (simp add: set_states_by_id_def)

lemma find_None_set: "(\<And>x. x \<in> set xs \<Longrightarrow> \<not> p x) \<Longrightarrow> find p xs = None"
  by (simp add: find_None_iff)

text \<open>A state list in which only \<open>st\<close> can authenticate the frame.\<close>

definition only_candidate ::
  "prims \<Rightarrow> 8 word \<Rightarrow> 64 word \<Rightarrow> bytes \<Rightarrow> bytes \<Rightarrow> receiver_state list \<Rightarrow> receiver_state list \<Rightarrow> bool" where
  "only_candidate P rc fc d mac pre post \<longleftrightarrow>
     list_all (\<lambda>st. \<not> check_mac P st fc d mac \<and> \<not> check_mac P (try_advance_ratchet P st rc fc) fc d mac)
       (pre @ post)"

lemma decrypt_matching_only:
  assumes "only_candidate P rc fc d mac pre post" "check_mac P st fc d mac"
    and "ratchet_counter (rs_sender_state st) = rc"
  shows "decrypt_matching P rc fc d mac (pre @ st # post) = Some (decrypt_internal P st fc d)"
proof -
  have "find (\<lambda>st. ratchet_counter (rs_sender_state st) = rc \<and> check_mac P st fc d mac) pre = None"
    using assms(1) by (intro find_None_set) (auto simp: only_candidate_def list_all_iff)
  with assms(2,3) show ?thesis by (simp add: decrypt_matching_iff find_append)
qed

lemma decrypt_ratcheting_only:
  assumes "only_candidate P rc fc d mac pre post" "check_mac P (try_advance_ratchet P st rc fc) fc d mac"
  shows "decrypt_ratcheting P rc fc d mac (pre @ st # post) =
    Some (pre @ limit_ooo P (try_advance_ratchet P st rc fc) # post,
          decrypt_internal P (try_advance_ratchet P st rc fc) fc d)"
  using assms
proof (induction pre)
  case (Cons a pre)
  then show ?case by (auto simp: only_candidate_def Let_def)
qed (simp add: Let_def decrypt_internal_def)

lemma decrypt_ratcheted:
  assumes "only_candidate P rc fc d mac pre post" "states_by_id ctx i = pre @ st # post"
    and "check_mac P (try_advance_ratchet P st rc fc) fc d mac"
    and "ratchet_counter (rs_sender_state st) \<noteq> rc"
  shows "decrypt P now ctx i rc fc d mac =
    (set_states_by_id ctx i (pre @ limit_ooo P (try_advance_ratchet P st rc fc) # post),
     decrypt_internal P (try_advance_ratchet P st rc fc) fc d, Ok ())"
proof -
  have "find (\<lambda>st. ratchet_counter (rs_sender_state st) = rc \<and> check_mac P st fc d mac) (pre @ st # post) = None"
    using assms(1,4) by (intro find_None_set) (auto simp: only_candidate_def list_all_iff)
  then show ?thesis
    using decrypt_ratcheting_only [OF assms(1,3)] assms(2)
    by (simp add: decrypt_def Let_def decrypt_matching_iff)
qed

section \<open>Operation sequences\<close>

text \<open>Everything a caller can do to a context.\<close>

datatype crypto_op =
  OpEncrypt bytes
| OpDecrypt nat "32 word" "8 word" "64 word" bytes bytes
| OpAdvance
| OpReset bytes
| OpAddSecret "32 word" "8 word" bytes
| OpReport nat

fun run_op :: "prims \<Rightarrow> crypto_op \<Rightarrow> crypto_context \<Rightarrow> crypto_context" where
  "run_op P (OpEncrypt data) ctx = fst (encrypt P ctx data)"
| "run_op P (OpDecrypt now i rc fc d mac) ctx = fst (decrypt P now ctx i rc fc d mac)"
| "run_op P OpAdvance ctx = fst (advance_send_ratchet P ctx)"
| "run_op P (OpReset s) ctx = reset_send_ratchet P ctx s"
| "run_op P (OpAddSecret i c s) ctx = add_receive_secret P ctx i c s"
| "run_op P (OpReport now) ctx = fst (get_error_report now ctx)"

text \<open>The frames encrypted on the way: the key in use, the data, and what \<open>encrypt\<close> made of it.\<close>

fun frames_sent :: "prims \<Rightarrow> crypto_op list \<Rightarrow> crypto_context \<Rightarrow> (bytes \<times> bytes \<times> bytes) list" where
  "frames_sent P [] ctx = []"
| "frames_sent P (o1 # os) ctx =
     (case o1 of
        OpEncrypt data \<Rightarrow> [(current_aes_key (ctx_sender_state ctx), data, fst (snd (encrypt P ctx data)))]
      | _ \<Rightarrow> []) @ frames_sent P os (run_op P o1 ctx)"

fun is_encrypt :: "crypto_op \<Rightarrow> bool" where
  "is_encrypt (OpEncrypt data) = True"
| "is_encrypt _ = False"

lemma decrypt_counter: "next_frame_counter (fst (decrypt P now ctx i rc fc d mac)) = next_frame_counter ctx"
  by (auto simp: decrypt_def set_states_by_id_def Let_def split: option.splits)

lemma run_op_counter:
  "next_frame_counter (run_op P o1 ctx) = next_frame_counter ctx + (if is_encrypt o1 then 1 else 0)"
  by (cases o1) (auto simp: encrypt_def decrypt_counter advance_send_ratchet_def
      reset_send_ratchet_def add_receive_secret_def set_states_by_id_def get_error_report_def Let_def
      split: prod.splits)

lemma be_bytes64_nth: "i < 8 \<Longrightarrow> be_bytes64 w ! i = ucast (drop_bit (8 * (7 - i)) w)"
  by (simp add: be_bytes64_def)

lemma be_bytes64_inj: "be_bytes64 v = be_bytes64 w \<Longrightarrow> v = w"
proof (rule bit_word_eqI)
  fix n assume n: "n < LENGTH(64)" and eq: "be_bytes64 v = be_bytes64 w"
  let ?i = "7 - n div 8"
  have k: "?i < 8" "7 - ?i = n div 8" using n by auto
  have "bit (be_bytes64 x ! ?i) (n mod 8) = bit x n" for x
    using k by (simp add: be_bytes64_nth bit_simps)
  with eq show "bit v n = bit w n" by metis
qed

lemma length_be_bytes64 [simp]: "length (be_bytes64 w) = 8"
  by (simp add: be_bytes64_def)

lemma convert_frame_counter_to_iv_inj:
  "convert_frame_counter_to_iv v = convert_frame_counter_to_iv w \<Longrightarrow> v = w"
  by (simp add: convert_frame_counter_to_iv_def be_bytes64_inj)

text \<open>The initialisation vectors of \<open>n\<close> frames from a frame counter on.\<close>

definition ivs_from :: "64 word \<Rightarrow> nat \<Rightarrow> bytes list" where
  "ivs_from c n = map (\<lambda>m. convert_frame_counter_to_iv (c + of_nat m)) [0..<n]"

lemma ivs_from_Suc: "ivs_from c (Suc n) = convert_frame_counter_to_iv c # ivs_from (c + 1) n"
proof -
  have "ivs_from c (Suc n) = convert_frame_counter_to_iv (c + of_nat 0)
      # map (\<lambda>m. convert_frame_counter_to_iv (c + of_nat (Suc m))) [0..<n]"
    unfolding ivs_from_def by (simp add: upt_conv_Cons map_Suc_upt [symmetric] comp_def del: upt_Suc of_nat_Suc)
  then show ?thesis
    by (simp add: ivs_from_def add.assoc)
qed

lemma ivs_from_distinct:
  assumes "n \<le> 2 ^ 64"
  shows "distinct (ivs_from c n)"
proof -
  have "m = m'" if "m < n" "m' < n" "convert_frame_counter_to_iv (c + of_nat m) = convert_frame_counter_to_iv (c + of_nat m')" for m m'
  proof -
    have "(of_nat m :: 64 word) = of_nat m'"
      using convert_frame_counter_to_iv_inj [OF that(3)] by simp
    then have "unat (of_nat m :: 64 word) = unat (of_nat m' :: 64 word)" by simp
    moreover have "m < 2 ^ 64" "m' < 2 ^ 64" using that(1,2) assms by auto
    ultimately show ?thesis by (simp add: unat_of_nat take_bit_nat_eq_self)
  qed
  then show ?thesis
    by (simp add: ivs_from_def distinct_map inj_on_def)
qed

lemma frames_sent_ivs:
  "list_all2 (\<lambda>iv (k, data, sent). sent = apply_keystream P k iv data)
     (ivs_from (next_frame_counter ctx) (length (filter is_encrypt os))) (frames_sent P os ctx)"
proof (induction os arbitrary: ctx)
  case (Cons o1 os)
  then show ?case
    using Cons.IH [of "run_op P o1 ctx"]
    by (cases o1) (simp_all add: run_op_counter ivs_from_Suc encrypt_def Let_def del: run_op.simps)
qed (simp add: ivs_from_def)

lemma decrypt_ratcheting_length:
  "decrypt_ratcheting P rc fc d mac sts = Some (sts', x) \<Longrightarrow> length sts' = length sts"
  using decrypt_ratcheting_some by fastforce

definition states_bounded :: "crypto_context \<Rightarrow> bool" where
  "states_bounded ctx \<longleftrightarrow> (\<forall>i. length (states_by_id ctx i) \<le> MAX_RECEIVER_STATES_TO_RETAIN)"

lemma states_by_id_tracker [simp]: "states_by_id (ctx\<lparr>ctx_error_tracker := t\<rparr>) i = states_by_id ctx i"
  by (simp add: states_by_id_def)

lemma run_op_bounded: "states_bounded ctx \<Longrightarrow> states_bounded (run_op P o1 ctx)"
proof (cases o1)
  case (OpDecrypt now i rc fc d mac)
  assume "states_bounded ctx"
  with OpDecrypt show ?thesis
    by (auto simp: states_bounded_def decrypt_def Let_def split: option.splits
        dest!: decrypt_ratcheting_length)
next
  case (OpAddSecret i c s)
  assume "states_bounded ctx"
  then have b: "\<And>i. length (states_by_id ctx i) \<le> 5"
    by (simp add: states_bounded_def MAX_RECEIVER_STATES_TO_RETAIN_def)
  then have "length (states_by_id ctx i) = 5 \<or> length (states_by_id ctx i) \<le> 4"
    using b [of i] by linarith
  with b show ?thesis
    using OpAddSecret
    by (auto simp: states_bounded_def add_receive_secret_def Let_def MAX_RECEIVER_STATES_TO_RETAIN_def)
qed (auto simp: states_bounded_def encrypt_def advance_send_ratchet_def reset_send_ratchet_def
    get_error_report_def states_by_id_def Let_def split: prod.splits)

section \<open>Properties\<close>

text \<open>Toy primitives on which the hypotheses below can be evaluated.\<close>

definition toy_prims :: prims where
  "toy_prims = \<lparr>hkdf_expand = (\<lambda>s info n. map (\<lambda>b. b + of_nat (length info)) s),
     aes_keystream = (\<lambda>k iv n. replicate n (hd k)), hmac_sha256 = (\<lambda>k m. k @ m)\<rparr>"

definition toy_sender :: crypto_context where
  "toy_sender = fst (advance_send_ratchet toy_prims (context_new toy_prims 0 [1]))"

definition toy_receiver :: crypto_context where
  "toy_receiver = add_receive_secret toy_prims (context_new toy_prims 0 [9]) 7 0 [1]"

lemma toy_total: "keystream_total toy_prims"
  by (simp add: keystream_total_def toy_prims_def)

lemma toy_sends: "sends_at toy_prims [1] 1 toy_sender"
  by (simp add: sends_at_def toy_sender_def advance_send_ratchet_def context_new_def mut_advance_ratchet_new Let_def)

lemma toy_states: "states_by_id toy_receiver 7 = [receiver_state_new toy_prims 0 [1]]"
  by (simp add: toy_receiver_def add_receive_secret_def context_new_def states_by_id_def
      set_states_by_id_def MAX_RECEIVER_STATES_TO_RETAIN_def Let_def)

lemma toy_at: "at_ratchet toy_prims [1] 0 (receiver_state_new toy_prims 0 [1])"
  by (simp add: at_ratchet_def receiver_state_new_def)

lemma toy_follows: "follows toy_prims [1] 0 0 (receiver_state_new toy_prims 0 [1])"
  by (simp add: follows_def receiver_state_new_def)

text \<open>
  C5: round trip across ratchets. A frame that the sender encrypts at ratchet \<open>k\<close> is decrypted
  to the plaintext by a receiver with a state at most 255 ratchets behind that saw no later frame,
  provided no other state retained for the sender accepts the frame's MAC. That state is then at
  ratchet \<open>k\<close> and the others are as they were; if the ratchet it retains for late frames was on
  the sender's chain and less than 256 behind \<open>k\<close>, it still is, and is at most five behind when the
  state moved.
\<close>

theorem frame_round_trip:
  assumes total: "keystream_total P" and sends: "sends_at P s0 k snd_ctx"
    and states: "states_by_id rcv i = pre @ st # post" and at: "at_ratchet P s0 r st"
    and near: "r \<le> k" "k < r + 256" and new: "r = k \<or> ratchet_frame st < next_frame_counter snd_ctx"
    and enc: "encrypt P snd_ctx data = (snd', d, mac, Ok (rc, fc))"
    and only: "only_candidate P rc fc d mac pre post"
  shows "\<exists>rcv' st'. decrypt P now rcv i rc fc d mac = (rcv', data, Ok ())
    \<and> states_by_id rcv' i = pre @ st' # post \<and> at_ratchet P s0 k st' \<and> (r < k \<longrightarrow> ratchet_frame st' = fc)
    \<and> (\<forall>j. follows P s0 r j st \<and> j \<le> r \<and> k < j + 256
         \<longrightarrow> (\<exists>j'. follows P s0 k j' st' \<and> j' \<le> k \<and> (r < k \<longrightarrow> k \<le> j' + 5)))"
proof -
  have e: "sealed P (ctx_sender_state snd_ctx) fc data = (d, mac)" "rc = of_nat k"
    "fc = next_frame_counter snd_ctx"
    using sends enc by (auto simp: encrypt_sealed sends_at_def)
  have ss: "ctx_sender_state snd_ctx = sender_state_new P (of_nat k) (ratchet_n P k s0)"
    using sends by (simp add: sends_at_def)
  show ?thesis
  proof (cases "r = k")
    case True
    then have st: "rs_sender_state st = ctx_sender_state snd_ctx" "ratchet_counter (rs_sender_state st) = rc"
      using at ss e(2) by (simp_all add: at_ratchet_def)
    note o = sealed_opens [OF total e(1) st(1)]
    have "decrypt P now rcv i rc fc d mac = (set_states_by_id rcv i (pre @ st # post), data, Ok ())"
      using decrypt_matching_only [OF only o(1) st(2)] o(2) states by (simp add: decrypt_def Let_def)
    then show ?thesis using True at by auto
  next
    case False
    then have lt: "r < k" "ratchet_frame st < fc" using near new e(3) by auto
    let ?st = "try_advance_ratchet P st rc fc"
    have t: "at_ratchet P s0 k ?st" "ratchet_frame ?st = fc"
      using try_advance_at [OF at lt(2) near] e(2) by simp_all
    note o = sealed_opens [OF total e(1), of ?st]
    have o: "check_mac P ?st fc d mac" "decrypt_internal P ?st fc d = data"
      using o t(1) ss by (simp_all add: at_ratchet_def)
    have "unat (rc - of_nat r) = k - r"
      using of_nat_byte_diff [OF near] e(2) by simp
    then have "ratchet_counter (rs_sender_state st) \<noteq> rc"
      using lt(1) at by (auto simp: at_ratchet_def)
    from decrypt_ratcheted [OF only states o(1) this, of now] o(2)
    have "decrypt P now rcv i rc fc d mac = (set_states_by_id rcv i (pre @ limit_ooo P ?st # post), data, Ok ())"
      by simp
    moreover have "\<exists>j'. follows P s0 k j' (limit_ooo P ?st) \<and> j' \<le> k \<and> k \<le> j' + 5"
      if "follows P s0 r j st" "j \<le> r" "k < j + 256" for j
      using limit_ooo_advanced [OF that(1) lt(2) that(2) near(1) that(3)] e(2) by simp
    ultimately show ?thesis
      using t by (intro exI [of _ "set_states_by_id rcv i (pre @ limit_ooo P ?st # post)"]
          exI [of _ "limit_ooo P ?st"]) (auto simp: at_ratchet_def)
  qed
qed

theorem frame_round_trip_witness:
  "\<exists>rcv'. (case encrypt toy_prims toy_sender [10, 20] of
       (snd', d, mac, Inr (rc, fc)) \<Rightarrow>
         d \<noteq> [10, 20] \<and> decrypt toy_prims 0 toy_receiver 7 rc fc d mac = (rcv', [10, 20], Ok ())
     | _ \<Rightarrow> False)"
proof -
  obtain snd' d mac rc fc where e: "encrypt toy_prims toy_sender [10, 20] = (snd', d, mac, Ok (rc, fc))"
    by (simp add: encrypt_def Let_def)
  have "ratchet_frame (receiver_state_new toy_prims 0 [1]) < next_frame_counter toy_sender"
    by (simp add: receiver_state_new_def toy_sender_def advance_send_ratchet_def context_new_def Let_def)
  then obtain rcv' where "decrypt toy_prims 0 toy_receiver 7 rc fc d mac = (rcv', [10, 20], Ok ())"
    using frame_round_trip [OF toy_total toy_sends, of toy_receiver 7 "[]" _ "[]" 0 "[10, 20]" snd' d mac rc fc 0]
      toy_states toy_at e by (auto simp: only_candidate_def)
  moreover have "d \<noteq> [10, 20]"
    using e by (auto simp: encrypt_def Let_def apply_keystream_def toy_prims_def toy_sender_def
        advance_send_ratchet_def context_new_def mut_advance_ratchet_def sender_state_new_def
        derive_aes_key_def derive_hmac_key_def ratchet_secret_def ascii_def RATCHET_INFO_STRING_def)
  ultimately show ?thesis using e by auto
qed

text \<open>
  C6: authenticity of decryption. \<open>decrypt\<close> returns data only when a retained state, directly
  at the given ratchet or ratcheted to it, verifies the MAC; otherwise it fails, leaves the
  data and every receiver state as they were, and counts one error for that sender only.
\<close>

theorem decrypt_authenticated:
  "case decrypt P now ctx i rc fc d mac of
     (ctx', d', Inr _) \<Rightarrow>
       (\<exists>st \<in> set (states_by_id ctx i). \<exists>st'. (st' = st \<and> ratchet_counter (rs_sender_state st) = rc
            \<or> st' = try_advance_ratchet P st rc fc)
          \<and> check_mac P st' fc d mac \<and> d' = decrypt_internal P st' fc d)
   | (ctx', d', Inl e) \<Rightarrow>
       d' = d \<and> states_by_id ctx' = states_by_id ctx \<and> ctx_sender_state ctx' = ctx_sender_state ctx
       \<and> ctx_error_tracker ctx' = increment_decryption_error now (ctx_error_tracker ctx) i
       \<and> list_all (\<lambda>st. \<not> (ratchet_counter (rs_sender_state st) = rc \<and> check_mac P st fc d mac)
            \<and> \<not> check_mac P (try_advance_ratchet P st rc fc) fc d mac) (states_by_id ctx i)"
proof (cases "decrypt_matching P rc fc d mac (states_by_id ctx i)")
  case None
  then have n: "\<forall>st \<in> set (states_by_id ctx i). \<not> (ratchet_counter (rs_sender_state st) = rc \<and> check_mac P st fc d mac)"
    by (auto simp: decrypt_matching_iff find_None_iff)
  show ?thesis
  proof (cases "decrypt_ratcheting P rc fc d mac (states_by_id ctx i)")
    case None2: None
    then have "\<forall>st \<in> set (states_by_id ctx i). \<not> check_mac P (try_advance_ratchet P st rc fc) fc d mac"
      by (simp add: decrypt_ratcheting_none)
    with n None None2 show ?thesis
      by (auto simp: decrypt_def Let_def list_all_iff fun_eq_iff set_states_by_id_def states_by_id_def)
  next
    case (Some x)
    then obtain sts' d' where x: "decrypt_ratcheting P rc fc d mac (states_by_id ctx i) = Some (sts', d')"
      by (cases x) auto
    from decrypt_ratcheting_some [OF x] None x show ?thesis
      by (auto simp: decrypt_def Let_def)
  qed
next
  case (Some d')
  then obtain st where "find (\<lambda>st. ratchet_counter (rs_sender_state st) = rc \<and> check_mac P st fc d mac)
      (states_by_id ctx i) = Some st" "d' = decrypt_internal P st fc d"
    by (auto simp: decrypt_matching_iff)
  then have "st \<in> set (states_by_id ctx i)" "ratchet_counter (rs_sender_state st) = rc"
    "check_mac P st fc d mac" "d' = decrypt_internal P st fc d"
    by (auto simp: find_Some_iff in_set_conv_nth)
  with Some show ?thesis by (auto simp: decrypt_def Let_def)
qed

text \<open>
  C21: no initialisation vector is used twice. Over any sequence of operations on a context with
  at most \<open>2^64\<close> encryptions, whatever ratchet steps, resets and receptions lie between them,
  there are pairwise different initialisation vectors, one for each encrypted frame and the same
  for every choice of the primitives, with which the frames were encrypted: the data sent is the
  plaintext under the key stream of the key in use and of that vector.
\<close>

theorem ivs_never_reused:
  assumes "length (filter is_encrypt os) \<le> 2 ^ 64"
  shows "\<exists>ivs. distinct ivs \<and> length ivs = length (filter is_encrypt os)
    \<and> (\<forall>P. list_all2 (\<lambda>iv (k, data, sent). sent = apply_keystream P k iv data) ivs (frames_sent P os ctx))"
  using ivs_from_distinct [OF assms] frames_sent_ivs
  by (intro exI [of _ "ivs_from (next_frame_counter ctx) (length (filter is_encrypt os))"])
    (simp add: ivs_from_def)

theorem ivs_never_reused_witness:
  "\<exists>iv1 iv2. iv1 \<noteq> iv2
    \<and> list_all2 (\<lambda>iv (k, data, sent). sent = apply_keystream toy_prims k iv data) [iv1, iv2]
        (frames_sent toy_prims [OpEncrypt [1], OpReset [2], OpEncrypt [1]] toy_sender)
    \<and> length (frames_sent toy_prims [OpEncrypt [1], OpReset [2], OpEncrypt [1]] toy_sender) = 2"
proof -
  let ?os = "[OpEncrypt [1], OpReset [2], OpEncrypt [1]]"
  have l: "length (filter is_encrypt ?os) \<le> 2 ^ 64" by simp
  obtain ivs where ivs: "distinct ivs" "length ivs = 2"
    "list_all2 (\<lambda>iv (k, data, sent). sent = apply_keystream toy_prims k iv data) ivs (frames_sent toy_prims ?os toy_sender)"
    using ivs_never_reused [OF l, of toy_sender] by auto
  then obtain iv1 iv2 where "ivs = [iv1, iv2]"
    by (auto simp: length_Suc_conv numeral_2_eq_2)
  with ivs show ?thesis
    by (intro exI [of _ iv1] exI [of _ iv2]) auto
qed

text \<open>
  C27: bounded retention. Over any sequence of operations a context keeps at most five receiver
  states per sender, and adding secrets keeps exactly the five newest, newest first.
\<close>

theorem five_newest_receiver_states:
  assumes "states_bounded ctx"
  shows "states_bounded (fold (run_op P) os ctx)
    \<and> states_by_id (add_receive_secret P ctx i c s) i =
        take 5 (receiver_state_new P c s # states_by_id ctx i)"
proof
  show "states_bounded (fold (run_op P) os ctx)"
    using assms by (induction os arbitrary: ctx) (auto intro: run_op_bounded)
  have "length (states_by_id ctx i) \<le> 5"
    using assms by (simp add: states_bounded_def MAX_RECEIVER_STATES_TO_RETAIN_def)
  then show "states_by_id (add_receive_secret P ctx i c s) i =
      take 5 (receiver_state_new P c s # states_by_id ctx i)"
    by (auto simp: add_receive_secret_def MAX_RECEIVER_STATES_TO_RETAIN_def Let_def butlast_conv_take)
qed

theorem five_newest_receiver_states_witness:
  "states_bounded toy_receiver
    \<and> states_by_id (add_receive_secret toy_prims toy_receiver 7 3 [2]) 7 =
        [receiver_state_new toy_prims 3 [2], receiver_state_new toy_prims 0 [1]]"
proof -
  have b: "states_bounded toy_receiver"
    by (simp add: states_bounded_def toy_receiver_def add_receive_secret_def context_new_def
        states_by_id_def set_states_by_id_def MAX_RECEIVER_STATES_TO_RETAIN_def Let_def)
  from five_newest_receiver_states [OF b, of toy_prims "[]" 7 3 "[2]"] b show ?thesis by (simp add: toy_states)
qed

text \<open>
  C30: what a late frame does to the retained ratchet. A frame of an earlier ratchet \<open>k\<close> that the
  receiver can still derive decrypts; but afterwards the secret the receiver retains for late
  frames is the one of ratchet \<open>k + 251\<close>, which lies ahead of every secret it has used, under
  the counter \<open>k - 5\<close>: the secrets of the ratchets before \<open>k\<close> are gone.
\<close>

theorem late_frame_retains_future_secret:
  assumes "keystream_total P" and "sealed P (sender_state_new P (of_nat k) (ratchet_n P k s0)) fc data = (d, mac)"
    and "states_by_id rcv i = [st]" and "follows P s0 r j st"
    and "j \<le> k" and "k < r" and "r < k + 251" and "r < j + 256"
    and "fc < ratchet_frame st" and "MAX_OOO_FRAMES < fc - ratchet_frame st"
  shows "\<exists>st'. decrypt P now rcv i (of_nat k) fc d mac = (set_states_by_id rcv i [st'], data, Ok ())
    \<and> follows P s0 k (k + 251) st'"
proof -
  let ?t = "try_advance_ratchet P st (of_nat k) fc"
  have t: "follows P s0 k r ?t"
    using try_advance_late [OF assms(4,9,10,5)] assms(6,8) by simp
  then have tt: "rs_sender_state ?t = sender_state_new P (of_nat k) (ratchet_n P k s0)"
    by (simp add: follows_def)
  note o = sealed_opens [OF assms(1,2) tt]
  have "unat ((of_nat r :: 8 word) - of_nat k) = r - k"
    using of_nat_byte_diff [of k r] assms(6,7) by simp
  then have "ratchet_counter (rs_sender_state st) \<noteq> of_nat k"
    using assms(4,6) by (auto simp: follows_def)
  from decrypt_ratcheted [of P "of_nat k" fc d mac "[]" "[]" rcv i st, OF _ _ o(1) this] assms(3) o(2)
  have "decrypt P now rcv i (of_nat k) fc d mac = (set_states_by_id rcv i [limit_ooo P ?t], data, Ok ())"
    by (simp add: only_candidate_def)
  with limit_ooo_ahead [OF t assms(6,7)] show ?thesis by blast
qed

text \<open>A receiver that was given the secret of ratchet 0 and has decrypted frame 10 at ratchet 2.\<close>

definition toy_ahead :: receiver_state where
  "toy_ahead = limit_ooo toy_prims (try_advance_ratchet toy_prims (receiver_state_new toy_prims 0 [1]) 2 10)"

lemma toy_ahead_follows: "follows toy_prims [1] 2 0 toy_ahead" "ratchet_frame toy_ahead = 10"
proof -
  have "follows toy_prims [1] 2 0 (try_advance_ratchet toy_prims (receiver_state_new toy_prims 0 [1]) 2 10)
      \<and> ratchet_frame (try_advance_ratchet toy_prims (receiver_state_new toy_prims 0 [1]) 2 10) = 10"
    using try_advance_ahead [OF toy_follows, of 10 2] by (simp add: receiver_state_new_def)
  then show "follows toy_prims [1] 2 0 toy_ahead" "ratchet_frame toy_ahead = 10"
    using limit_ooo_follows [of toy_prims "[1]" 2 0] by (simp_all add: toy_ahead_def)
qed

theorem late_frame_retains_future_secret_witness:
  "\<exists>d mac st'. decrypt toy_prims 0 (set_states_by_id toy_receiver 7 [toy_ahead]) 7 1 5 d mac =
      (set_states_by_id toy_receiver 7 [st'], [10, 20], Ok ())
    \<and> follows toy_prims [1] 1 252 st'"
proof -
  obtain d mac where e: "sealed toy_prims (sender_state_new toy_prims (of_nat 1) (ratchet_n toy_prims 1 [1]))
      5 [10, 20] = (d, mac)" by fastforce
  have "MAX_OOO_FRAMES < 5 - ratchet_frame toy_ahead" "5 < ratchet_frame toy_ahead"
    by (simp_all add: MAX_OOO_FRAMES_def toy_ahead_follows(2) word_less_nat_alt)
  with late_frame_retains_future_secret [OF toy_total e _ toy_ahead_follows(1),
      of "set_states_by_id toy_receiver 7 [toy_ahead]" 7 0]
  show ?thesis by auto
qed

end
