(* ===== verification/Base16.thy ===== *)
theory Base16
  imports Rtc_Prelude
begin

text \<open>
  The consonant base-16 encoding of call link keys, \<open>src/rust/src/lite/call_links/base16.rs\<close>.
  A Rust \<open>&str\<close> is a list of Unicode scalar values (natural numbers); its bytes are the UTF-8
  encoding. \<open>string[position..]\<close> panics when \<open>position\<close> is not a character boundary, so
  parsing returns an \<open>option\<close> whose \<^const>\<open>None\<close> is that panic.
\<close>

section \<open>Strings\<close>

type_synonym ustring = "nat list"

definition utf8_char :: "nat \<Rightarrow> bytes" where
  "utf8_char c =
     (if c < 0x80 then [of_nat c]
      else if c < 0x800 then [of_nat (0xC0 + c div 64), of_nat (0x80 + c mod 64)]
      else if c < 0x10000 then
        [of_nat (0xE0 + c div 4096), of_nat (0x80 + (c div 64) mod 64), of_nat (0x80 + c mod 64)]
      else [of_nat (0xF0 + c div 262144), of_nat (0x80 + (c div 4096) mod 64),
            of_nat (0x80 + (c div 64) mod 64), of_nat (0x80 + c mod 64)])"

definition as_bytes :: "ustring \<Rightarrow> bytes" where
  "as_bytes s = concat (map utf8_char s)"

definition str_len :: "ustring \<Rightarrow> nat" where
  "str_len s = length (as_bytes s)"

text \<open>The first character of \<open>string[position..]\<close>.\<close>

fun first_char_from :: "nat \<Rightarrow> ustring \<Rightarrow> nat option" where
  "first_char_from position [] = None"
| "first_char_from position (c # s) =
     (if position = 0 then Some c
      else if position < length (utf8_char c) then None
      else first_char_from (position - length (utf8_char c)) s)"

section \<open>Encoding\<close>

definition ALPHABET :: bytes where
  "ALPHABET = ascii ''bcdfghkmnpqrstxz''"

definition TABLE :: "bytes list" where
  "TABLE = concat (map (\<lambda>i. map (\<lambda>j. [ALPHABET ! i, ALPHABET ! j]) [0..<16]) [0..<16])"

definition table_index :: "byte \<Rightarrow> bytes" where
  "table_index b = TABLE ! unat b"

function chunks :: "nat \<Rightarrow> 'a list \<Rightarrow> 'a list list" where
  "chunks n xs = (if xs = [] \<or> n = 0 then [] else take n xs # chunks n (drop n xs))"
  by pat_completeness auto
termination
  by (relation "measure (\<lambda>(n, xs). length xs)") auto

declare chunks.simps [simp del]

text \<open>The loop of \<open>Display::fmt\<close>, with the flag \<open>is_first\<close> and the formatter's fill character.\<close>

fun fmt_chunks :: "byte \<Rightarrow> bool \<Rightarrow> bytes list \<Rightarrow> bytes" where
  "fmt_chunks fill is_first [] = []"
| "fmt_chunks fill is_first (chunk # rest) =
     (if is_first then [] else [fill]) @ concat (map table_index chunk) @ fmt_chunks fill False rest"

definition fmt :: "nat option \<Rightarrow> byte \<Rightarrow> bytes \<Rightarrow> bytes" where
  "fmt precision fill bs =
     fmt_chunks fill True (chunks (case precision of Some n \<Rightarrow> n | None \<Rightarrow> usize_max) bs)"

section \<open>Decoding\<close>

datatype decode_error =
  OddLengthInput
| MissingSeparator nat
| UnexpectedSeparator nat
| BadCharacter nat nat

definition SKIP_ALPHABET :: bytes where
  "SKIP_ALPHABET = ascii ''-''"

definition position_in :: "bytes \<Rightarrow> byte \<Rightarrow> nat option" where
  "position_in alphabet b = find (\<lambda>i. alphabet ! i = b) [0..<length alphabet]"

definition identify_bad_char :: "ustring \<Rightarrow> bytes \<Rightarrow> decode_error option" where
  "identify_bad_char string iter =
     (let position = str_len string - (length iter + 1)
      in case first_char_from position string of
           None \<Rightarrow> None
         | Some bad_char \<Rightarrow>
             Some (if bad_char < 0x80 \<and> of_nat bad_char \<in> set SKIP_ALPHABET
                   then UnexpectedSeparator position else BadCharacter position bad_char))"

fun parse_loop ::
  "ustring \<Rightarrow> bytes \<Rightarrow> nat \<Rightarrow> nat list \<Rightarrow> bytes \<Rightarrow> (bytes, decode_error) result option" where
  "parse_loop string [] count_until_separator chunk_sizes res = Some (Ok res)"
| "parse_loop string (first # bs) count_until_separator chunk_sizes res =
     (if count_until_separator = 0 then
        (if first \<notin> set SKIP_ALPHABET
         then Some (Err (MissingSeparator (str_len string - (length bs + 1))))
         else if length bs = 0 then Some (Err (UnexpectedSeparator (str_len string - 1)))
         else
           (case chunk_sizes of
              chunk_size # rest \<Rightarrow> parse_loop string bs chunk_size rest res
            | [] \<Rightarrow> Some (Ok res)))
      else
        (case position_in ALPHABET first of
           None \<Rightarrow> map_option Err (identify_bad_char string bs)
         | Some upper \<Rightarrow>
             (case bs of
                [] \<Rightarrow> Some (Err OddLengthInput)
              | second # bs' \<Rightarrow>
                  (case position_in ALPHABET second of
                     None \<Rightarrow> map_option Err (identify_bad_char string bs')
                   | Some lower \<Rightarrow>
                       parse_loop string bs' (count_until_separator - 1) chunk_sizes
                         (res @ [push_bit 4 (of_nat upper) + of_nat lower])))))"

definition parse_with_separators :: "ustring \<Rightarrow> nat list \<Rightarrow> (bytes, decode_error) result option" where
  "parse_with_separators string chunk_sizes =
     (case chunk_sizes of
        [] \<Rightarrow> Some (Ok [])
      | chunk_size # rest \<Rightarrow> parse_loop string (as_bytes string) chunk_size rest [])"

definition base16_parse :: "ustring \<Rightarrow> (bytes, decode_error) result option" where
  "base16_parse string = parse_with_separators string [usize_max]"

section \<open>The alphabet\<close>

lemma length_ALPHABET [simp]: "length ALPHABET = 16"
  by (simp add: ALPHABET_def ascii_def)

lemma distinct_ALPHABET: "distinct ALPHABET"
  by (simp add: ALPHABET_def ascii_def)

lemma position_in_ALPHABET:
  assumes "i < 16"
  shows "position_in ALPHABET (ALPHABET ! i) = Some i"
  unfolding position_in_def find_Some_iff
  using assms distinct_ALPHABET by (intro exI [of _ i]) (auto simp: nth_eq_iff_index_eq)

lemma position_in_Some: "position_in ALPHABET b = Some i \<Longrightarrow> i < 16 \<and> b = ALPHABET ! i"
  by (auto simp: position_in_def find_Some_iff)

lemma nth_concat_rows:
  assumes "\<And>x. x \<in> set xs \<Longrightarrow> length (f x) = m" "i < length xs" "j < m"
  shows "concat (map f xs) ! (i * m + j) = f (xs ! i) ! j"
  using assms
proof (induction xs arbitrary: i)
  case (Cons x xs)
  show ?case
  proof (cases i)
    case 0
    then show ?thesis using Cons.prems by (simp add: nth_append)
  next
    case (Suc k)
    then have "concat (map f (x # xs)) ! (i * m + j) = concat (map f xs) ! (k * m + j)"
      using Cons.prems(1) by (simp add: nth_append)
    with Suc Cons show ?thesis by simp
  qed
qed simp

lemma byte_bound: "unat (b :: byte) < 256"
  using unsigned_less [of b] by simp

lemma nibble_bounds: "unat (b :: byte) div 16 < 16" "unat b mod 16 < 16"
  using byte_bound [of b] by simp_all

lemma table_index_eq: "table_index b = [ALPHABET ! (unat b div 16), ALPHABET ! (unat b mod 16)]"
proof -
  have "unat b < 256" by (rule byte_bound)
  then have "TABLE ! (unat b div 16 * 16 + unat b mod 16) =
      map (\<lambda>j. [ALPHABET ! ([0..<16] ! (unat b div 16)), ALPHABET ! j]) [0..<16] ! (unat b mod 16)"
    unfolding TABLE_def by (intro nth_concat_rows) auto
  with \<open>unat b < 256\<close> show ?thesis by (simp add: table_index_def)
qed

lemma nibbles_join: "push_bit 4 (of_nat (unat b div 16)) + of_nat (unat b mod 16) = (b :: byte)"
proof -
  have "push_bit 4 (of_nat (unat b div 16)) + of_nat (unat b mod 16) =
      (of_nat (unat b div 16 * 16 + unat b mod 16) :: byte)"
    by (simp only: push_bit_eq_mult of_nat_add of_nat_mult) simp
  then show ?thesis by simp
qed

section \<open>Decoding what was encoded\<close>

lemma parse_chunk:
  "parse_loop s (concat (map table_index chunk) @ bs) (length chunk + c) sizes res =
     parse_loop s bs c sizes (res @ chunk)"
proof (induction chunk arbitrary: res)
  case (Cons b chunk)
  show ?case
    using nibble_bounds [of b] Cons [of "res @ [b]"]
    by (simp add: table_index_eq position_in_ALPHABET nibbles_join)
qed simp

definition SEP :: byte where "SEP = 45"

lemma SEP_skip [simp]: "b \<in> set SKIP_ALPHABET \<longleftrightarrow> b = SEP"
  by (simp add: SKIP_ALPHABET_def ascii_def SEP_def)

lemma fmt_chunks_nonempty: "c \<noteq> [] \<Longrightarrow> fmt_chunks SEP True (c # cs) \<noteq> []"
  by (cases c) (simp_all add: table_index_eq)

lemma parse_chunks:
  assumes "\<forall>x \<in> set cs. x \<noteq> []"
  shows "parse_loop s (fmt_chunks SEP True (c # cs) @ bs) (length c) (map length cs @ sizes) res =
    parse_loop s bs 0 sizes (res @ concat (c # cs))"
  using assms
proof (induction cs arbitrary: c res)
  case Nil
  then show ?case using parse_chunk [of s c bs 0] by simp
next
  case (Cons c' cs)
  have eq: "fmt_chunks SEP True (c # c' # cs) @ bs =
      concat (map table_index c) @ SEP # fmt_chunks SEP True (c' # cs) @ bs"
    by simp
  have ne: "fmt_chunks SEP True (c' # cs) @ bs \<noteq> []"
    using Cons.prems fmt_chunks_nonempty [of c' cs] by (simp del: fmt_chunks.simps)
  have "parse_loop s (fmt_chunks SEP True (c # c' # cs) @ bs) (length c) (map length (c' # cs) @ sizes) res =
      parse_loop s (SEP # fmt_chunks SEP True (c' # cs) @ bs) 0 (map length (c' # cs) @ sizes) (res @ c)"
    unfolding eq using parse_chunk [of s c _ 0] by simp
  also have "\<dots> = parse_loop s (fmt_chunks SEP True (c' # cs) @ bs) (length c') (map length cs @ sizes) (res @ c)"
    using ne by (simp del: fmt_chunks.simps)
  also have "\<dots> = parse_loop s bs 0 sizes (res @ c @ concat (c' # cs))"
    using Cons.IH [of c' "res @ c"] Cons.prems by simp
  finally show ?case by simp
qed

text \<open>An encoding is ASCII, so its bytes are its characters.\<close>

lemma as_bytes_ascii:
  assumes "\<forall>b \<in> set bs. unat b < 128"
  shows "as_bytes (map unat bs) = bs"
  using assms by (induction bs) (auto simp: as_bytes_def utf8_char_def)

lemma ALPHABET_ascii: "b \<in> set ALPHABET \<Longrightarrow> unat b < 128"
  by (auto simp: ALPHABET_def ascii_def)

lemma letter_ascii: "position_in ALPHABET b = Some i \<Longrightarrow> unat b < 128"
  by (rule ALPHABET_ascii) (auto dest: position_in_Some)

lemma SEP_ascii: "unat SEP < 128"
  by (simp add: SEP_def)

lemma table_index_ascii: "b' \<in> set (table_index b) \<Longrightarrow> unat b' < 128"
proof -
  assume b': "b' \<in> set (table_index b)"
  with nibble_bounds [of b] have "b' \<in> set ALPHABET" by (auto simp: table_index_eq)
  then show ?thesis by (rule ALPHABET_ascii)
qed

lemma fmt_chunks_ascii: "b \<in> set (fmt_chunks SEP f cs) \<Longrightarrow> unat b < 128"
  by (induction cs arbitrary: f) (auto simp: SEP_def dest: table_index_ascii split: if_splits)

text \<open>Chunking a list and measuring the chunks.\<close>

lemma concat_chunks: "0 < n \<Longrightarrow> concat (chunks n xs) = xs"
proof (induction n xs rule: chunks.induct)
  case (1 n xs)
  then show ?case by (cases "xs = []") (auto simp: chunks.simps [of n xs] chunks.simps [of n "[]"])
qed

lemma chunks_nonempty: "c \<in> set (chunks n xs) \<Longrightarrow> c \<noteq> []"
proof (induction n xs rule: chunks.induct)
  case (1 n xs)
  then show ?case by (cases "xs = [] \<or> n = 0") (auto simp: chunks.simps [of n xs])
qed

lemma length_chunks:
  "0 < n \<Longrightarrow> length xs = n * m \<Longrightarrow> map length (chunks n xs) = replicate m n"
proof (induction m arbitrary: xs)
  case 0
  then show ?case by (simp add: chunks.simps)
next
  case (Suc m)
  then have "xs \<noteq> []" "length (drop n xs) = n * m" "length (take n xs) = n" by auto
  with Suc show ?case by (simp add: chunks.simps [of n xs])
qed

section \<open>Parsing never panics\<close>

text \<open>Rust's \<open>char\<close> is a Unicode scalar value, below \<open>0x110000\<close>.\<close>

definition chars_ok :: "ustring \<Rightarrow> bool" where
  "chars_ok s = list_all (\<lambda>c. c < 0x110000) s"

lemma utf8_lead:
  assumes "128 \<le> c" "c < 0x110000"
  shows "\<exists>b bs. utf8_char c = b # bs \<and> 128 \<le> unat b"
proof -
  have u: "unat (of_nat n :: byte) = n" if "n < 256" for n
    using that by (simp add: unat_of_nat take_bit_nat_eq_self)
  consider "c < 0x800" | "0x800 \<le> c" "c < 0x10000" | "0x10000 \<le> c" by linarith
  then show ?thesis
  proof cases
    case 1
    then show ?thesis using assms u [of "0xC0 + c div 64"] by (auto simp: utf8_char_def)
  next
    case 2
    then show ?thesis using assms u [of "0xE0 + c div 4096"] by (auto simp: utf8_char_def)
  next
    case 3
    then show ?thesis using assms u [of "0xF0 + c div 262144"] by (auto simp: utf8_char_def)
  qed
qed

lemma first_char_from_boundary: "first_char_from (str_len s1) (s1 @ c # s2) = Some c"
proof (induction s1)
  case (Cons x s1)
  have "0 < length (utf8_char x)" by (simp add: utf8_char_def)
  with Cons show ?case by (simp add: str_len_def as_bytes_def)
qed (simp add: str_len_def as_bytes_def)

text \<open>A boundary: what is left of the bytes is the encoding of what is left of the characters.\<close>

definition at_boundary :: "ustring \<Rightarrow> bytes \<Rightarrow> bool" where
  "at_boundary s bs \<longleftrightarrow> (\<exists>s1 s2. s = s1 @ s2 \<and> bs = as_bytes s2)"

lemma identify_bad_char_some:
  assumes "at_boundary s (b # bs)"
  shows "identify_bad_char s bs \<noteq> None"
proof -
  obtain s1 c s2 where s: "s = s1 @ c # s2" "b # bs = as_bytes (c # s2)"
    using assms unfolding at_boundary_def by (metis as_bytes_def concat.simps(1) list.distinct(1) list.exhaust list.simps(8))
  have "str_len s = str_len s1 + length (b # bs)"
    using s by (simp add: str_len_def as_bytes_def)
  then have "str_len s - (length bs + 1) = str_len s1" by simp
  with s(1) show ?thesis
    by (simp add: identify_bad_char_def first_char_from_boundary Let_def)
qed

lemma at_boundary_next:
  assumes "at_boundary s (b # bs)" "chars_ok s" "unat b < 128"
  shows "at_boundary s bs"
proof -
  obtain s1 c s2 where s: "s = s1 @ c # s2" "b # bs = as_bytes (c # s2)"
    using assms(1) unfolding at_boundary_def by (metis as_bytes_def concat.simps(1) list.distinct(1) list.exhaust list.simps(8))
  have c: "c < 0x110000" using assms(2) s(1) by (simp add: chars_ok_def)
  have "c < 128"
  proof (rule ccontr)
    assume "\<not> c < 128"
    then obtain b' bs' where "utf8_char c = b' # bs'" "128 \<le> unat b'" using utf8_lead [of c] c by auto
    with s(2) assms(3) show False by (simp add: as_bytes_def)
  qed
  then have "bs = as_bytes s2" using s(2) by (simp add: as_bytes_def utf8_char_def)
  with s(1) show ?thesis unfolding at_boundary_def by (metis append_Cons append_Nil append_assoc)
qed

lemma parse_loop_no_panic:
  "at_boundary s bs \<Longrightarrow> chars_ok s \<Longrightarrow> parse_loop s bs n sizes res \<noteq> None"
proof (induction s bs n sizes res rule: parse_loop.induct)
  case (2 s b bs n sizes res)
  have next1: "b \<in> set SKIP_ALPHABET \<or> position_in ALPHABET b \<noteq> None \<Longrightarrow> at_boundary s bs"
    using at_boundary_next [OF 2(3,4)] letter_ascii SEP_ascii by auto
  show ?case
  proof (cases "n = 0")
    case True
    then show ?thesis using 2(1,4) next1 by (auto split: list.splits)
  next
    case False
    show ?thesis
    proof (cases "position_in ALPHABET b")
      case None
      then show ?thesis using False identify_bad_char_some [OF 2(3)] by auto
    next
      case (Some u)
      then have at: "at_boundary s bs" using next1 by blast
      show ?thesis
      proof (cases bs)
        case (Cons b2 bs2)
        show ?thesis
        proof (cases "position_in ALPHABET b2")
          case None
          then show ?thesis using False Some Cons identify_bad_char_some [of s b2 bs2] at by auto
        next
          case (Some l)
          then have "at_boundary s bs2"
            using at_boundary_next [of s b2 bs2] at Cons 2(4) letter_ascii [of b2 l] by simp
          then show ?thesis
            using 2(2) [OF False \<open>position_in ALPHABET b = Some u\<close> Cons Some] 2(4) False Cons Some
              \<open>position_in ALPHABET b = Some u\<close> by simp
        qed
      qed (use False Some in simp)
    qed
  qed
qed simp

lemma parse_no_panic: "chars_ok s \<Longrightarrow> parse_with_separators s sizes \<noteq> None"
proof -
  assume "chars_ok s"
  moreover have "at_boundary s (as_bytes s)" unfolding at_boundary_def by (metis append_Nil)
  ultimately show ?thesis
    using parse_loop_no_panic [of s "as_bytes s"]
    by (cases sizes) (simp_all add: parse_with_separators_def del: not_None_eq)
qed

text \<open>What the encoder of a key writes, as a string, and what the decoder makes of it, also when
  more text follows after one more separator.\<close>

definition encoded :: "bytes list \<Rightarrow> ustring" where
  "encoded cs = map unat (fmt_chunks SEP True cs)"

lemma parse_encoded:
  assumes "\<forall>x \<in> set (c # cs). x \<noteq> []"
  shows "parse_with_separators (encoded (c # cs)) (map length (c # cs)) = Some (Ok (concat (c # cs)))"
proof -
  have "as_bytes (encoded (c # cs)) = fmt_chunks SEP True (c # cs)"
    unfolding encoded_def by (rule as_bytes_ascii) (blast intro: fmt_chunks_ascii)
  with assms parse_chunks [of cs "encoded (c # cs)" c "[]" "[]" "[]"] show ?thesis
    by (simp add: parse_with_separators_def del: fmt_chunks.simps)
qed

lemma parse_encoded_trailing:
  assumes "\<forall>x \<in> set (c # cs). x \<noteq> []" "t \<noteq> []"
  shows "parse_with_separators (encoded (c # cs) @ 45 # t) (map length (c # cs)) = Some (Ok (concat (c # cs)))"
proof -
  have e: "as_bytes (encoded (c # cs)) = fmt_chunks SEP True (c # cs)"
    unfolding encoded_def by (rule as_bytes_ascii) (blast intro: fmt_chunks_ascii)
  have "as_bytes (x # xs) \<noteq> []" for x xs by (simp add: as_bytes_def utf8_char_def)
  then have "as_bytes t \<noteq> []" using assms(2) by (cases t) auto
  moreover have "as_bytes (encoded (c # cs) @ 45 # t) = fmt_chunks SEP True (c # cs) @ SEP # as_bytes t"
    using e by (simp add: as_bytes_def utf8_char_def SEP_def del: fmt_chunks.simps)
  ultimately show ?thesis
    using assms parse_chunks [of cs "encoded (c # cs) @ 45 # t" c "SEP # as_bytes t" "[]" "[]"]
    by (simp add: parse_with_separators_def del: fmt_chunks.simps)
qed

end
