(* ===== verification/Root_Key.thy ===== *)
theory Root_Key
  imports Base16 "HOL-Library.Finite_Map"
begin

text \<open>
  Call link root keys, \<open>src/rust/src/lite/call_links/root_key.rs\<close>: the 16-byte version 0 key,
  the 21-byte version 1 key with a server-generated epoch, their text and byte forms, and the
  encryption of call names. HKDF, AES-256-GCM-SIV, the hex encoder and the random generator
  are parameters.
\<close>

unbundle bit_operations_syntax

section \<open>Constants and primitives\<close>

definition CRN_LEN :: nat where "CRN_LEN = 16"
definition VERSION_OFFSET :: nat where "VERSION_OFFSET = CRN_LEN"
definition EPOCH_LEN :: nat where "EPOCH_LEN = 4"
definition EPOCH_OFFSET :: nat where "EPOCH_OFFSET = CRN_LEN + 1"
definition V1_LEN :: nat where "V1_LEN = CRN_LEN + 1 + EPOCH_LEN"
definition V1_VERSION :: byte where "V1_VERSION = 1"
definition INVALID_BIT :: byte where "INVALID_BIT = 0x80"
definition VERSION_MASK :: byte where "VERSION_MASK = INVALID_BIT XOR 0xff"

record link_prims =
  lp_hkdf :: "bytes \<Rightarrow> bytes \<Rightarrow> nat \<Rightarrow> bytes"
  gcm_siv_encrypt :: "bytes \<Rightarrow> bytes \<Rightarrow> bytes \<Rightarrow> bytes \<times> bytes"
  gcm_siv_decrypt :: "bytes \<Rightarrow> bytes \<Rightarrow> bytes \<Rightarrow> bytes option"

text \<open>What the code relies on: opening what was sealed under the same key and nonce gives the
  plaintext.\<close>

definition aead_correct :: "link_prims \<Rightarrow> bool" where
  "aead_correct L \<longleftrightarrow> (\<forall>k n p c t. gcm_siv_encrypt L k n p = (c, t) \<longrightarrow> gcm_siv_decrypt L k n (c @ t) = Some p)"

section \<open>Keys\<close>

datatype root_key_error =
  InvalidKeyString
| InvalidKeyLength
| InvalidAdjacentBytes
| InvalidKeyVersion
| InvalidRootKey

record root_key_v0 = v0_crn :: bytes
record root_key_v1 = v1_bytes :: bytes

datatype call_link_root_key = KeyV0 root_key_v0 | KeyV1 root_key_v1

text \<open>\<open>chunks_exact(2)\<close> leaves an odd last byte out.\<close>

fun has_repeated_chunk :: "bytes \<Rightarrow> bool" where
  "has_repeated_chunk (a # b # rest) =
     (if (unat a + 256 * unat b) mod 0x1111 = 0 then True else has_repeated_chunk rest)"
| "has_repeated_chunk _ = False"

definition v0_from_bytes :: "bytes \<Rightarrow> (root_key_v0, root_key_error) result" where
  "v0_from_bytes value =
     (if length value \<noteq> CRN_LEN then Err InvalidKeyLength
      else if has_repeated_chunk value then Err InvalidAdjacentBytes
      else Ok \<lparr>v0_crn = value\<rparr>)"

definition v0_from_str :: "ustring \<Rightarrow> (root_key_v0, root_key_error) result option" where
  "v0_from_str value =
     map_option (\<lambda>r. case r of Inl _ \<Rightarrow> Err InvalidKeyString | Inr bs \<Rightarrow> v0_from_bytes bs)
       (parse_with_separators value [2, 2, 2, 2, 2, 2, 2, 2])"

definition v1_from_bytes :: "bytes \<Rightarrow> (root_key_v1, root_key_error) result" where
  "v1_from_bytes value =
     (if length value \<noteq> V1_LEN then Err InvalidKeyLength
      else if (value ! VERSION_OFFSET) AND VERSION_MASK \<noteq> V1_VERSION then Err InvalidKeyVersion
      else if has_repeated_chunk (take CRN_LEN value) then Err InvalidAdjacentBytes
      else Ok \<lparr>v1_bytes = value\<rparr>)"

definition v1_from_str :: "ustring \<Rightarrow> (root_key_v1, root_key_error) result option" where
  "v1_from_str value =
     map_option (\<lambda>r. case r of Inl _ \<Rightarrow> Err InvalidKeyString | Inr bs \<Rightarrow> v1_from_bytes bs)
       (parse_with_separators value [4, 4, 4, 4, 1, 4])"

definition be_bytes_u32 :: "32 word \<Rightarrow> bytes" where
  "be_bytes_u32 w = [ucast (drop_bit 24 w), ucast (drop_bit 16 w), ucast (drop_bit 8 w), ucast w]"

definition u32_from_be_bytes :: "bytes \<Rightarrow> 32 word" where
  "u32_from_be_bytes bs =
     push_bit 24 (ucast (bs ! 0)) OR push_bit 16 (ucast (bs ! 1)) OR push_bit 8 (ucast (bs ! 2)) OR ucast (bs ! 3)"

definition without_epoch :: "bytes \<Rightarrow> root_key_v1" where
  "without_epoch crn = \<lparr>v1_bytes = crn @ [V1_VERSION OR INVALID_BIT] @ replicate EPOCH_LEN 0\<rparr>"

definition with_epoch :: "bytes \<Rightarrow> 32 word \<Rightarrow> root_key_v1" where
  "with_epoch crn epoch = \<lparr>v1_bytes = crn @ [V1_VERSION] @ be_bytes_u32 epoch\<rparr>"

definition v1_is_valid :: "root_key_v1 \<Rightarrow> bool" where
  "v1_is_valid k = ((v1_bytes k ! VERSION_OFFSET) AND INVALID_BIT = 0)"

definition key_is_valid :: "call_link_root_key \<Rightarrow> bool" where
  "key_is_valid k = (case k of KeyV0 _ \<Rightarrow> True | KeyV1 v1 \<Rightarrow> v1_is_valid v1)"

definition key_as_slice :: "call_link_root_key \<Rightarrow> bytes" where
  "key_as_slice k = (case k of KeyV0 v0 \<Rightarrow> v0_crn v0 | KeyV1 v1 \<Rightarrow> v1_bytes v1)"

definition v0_to_formatted_string :: "root_key_v0 \<Rightarrow> ustring" where
  "v0_to_formatted_string k = map unat (fmt (Some 2) 45 (v0_crn k))"

definition v1_to_formatted_string :: "root_key_v1 \<Rightarrow> ustring" where
  "v1_to_formatted_string k =
     map unat (fmt (Some 4) 45 (take CRN_LEN (v1_bytes k)) @ [45]
       @ fmt None 32 (take 1 (drop VERSION_OFFSET (v1_bytes k))) @ [45]
       @ fmt None 32 (take EPOCH_LEN (drop EPOCH_OFFSET (v1_bytes k))))"

definition to_formatted_string :: "call_link_root_key \<Rightarrow> ustring" where
  "to_formatted_string k = (case k of KeyV0 v0 \<Rightarrow> v0_to_formatted_string v0 | KeyV1 v1 \<Rightarrow> v1_to_formatted_string v1)"

definition key_from_str :: "ustring \<Rightarrow> (call_link_root_key, root_key_error) result option" where
  "key_from_str value =
     (case v0_from_str value of
        None \<Rightarrow> None
      | Some (Inr inner) \<Rightarrow> Some (Ok (KeyV0 inner))
      | Some (Inl _) \<Rightarrow>
          (case v1_from_str value of
             None \<Rightarrow> None
           | Some (Inr inner) \<Rightarrow> Some (Ok (KeyV1 inner))
           | Some (Inl _) \<Rightarrow> Some (Err InvalidKeyString)))"

definition key_from_bytes :: "bytes \<Rightarrow> (call_link_root_key, root_key_error) result" where
  "key_from_bytes value =
     (if length value = CRN_LEN then map_sum id KeyV0 (v0_from_bytes value)
      else if length value = V1_LEN then map_sum id KeyV1 (v1_from_bytes value)
      else Err InvalidRootKey)"

section \<open>Generation and the server's answer\<close>

text \<open>The random generator is the sequence of its 16-byte draws; the loop draws until a draw has
  no repeated chunk, so it may not return.\<close>

partial_function (option) draw_crn :: "(nat \<Rightarrow> bytes) \<Rightarrow> nat \<Rightarrow> bytes option" where
  "draw_crn rng i = (if has_repeated_chunk (rng i) then draw_crn rng (Suc i) else Some (rng i))"

definition generate :: "(nat \<Rightarrow> bytes) \<Rightarrow> call_link_root_key option" where
  "generate rng = map_option (\<lambda>crn. KeyV1 (without_epoch crn)) (draw_crn rng 0)"

definition process_server_response :: "call_link_root_key \<Rightarrow> 32 word option \<Rightarrow> call_link_root_key option" where
  "process_server_response k response_epoch =
     (case k of
        KeyV0 _ \<Rightarrow> None
      | KeyV1 v1 \<Rightarrow>
          if v1_is_valid v1 then None
          else let crn = take CRN_LEN (v1_bytes v1)
               in Some (case response_epoch of
                          None \<Rightarrow> KeyV0 \<lparr>v0_crn = crn\<rparr>
                        | Some epoch \<Rightarrow> KeyV1 (with_epoch crn epoch)))"

definition derive_room_id :: "link_prims \<Rightarrow> call_link_root_key \<Rightarrow> bytes" where
  "derive_room_id L k =
     lp_hkdf L (take CRN_LEN (key_as_slice k)) (ascii ''20230501-Signal-CallLinkRootKey-RoomId'') 32"

text \<open>The headers as a finite map from names to values.\<close>

definition prepare_http_headers ::
  "link_prims \<Rightarrow> (bytes \<Rightarrow> string) \<Rightarrow> call_link_root_key \<Rightarrow> (string, string) fmap \<Rightarrow> (string, string) fmap" where
  "prepare_http_headers L hex_encode k headers =
     (let headers1 = fmupd ''X-Room-Id'' (hex_encode (derive_room_id L k)) headers
      in case k of
           KeyV0 _ \<Rightarrow> headers1
         | KeyV1 v1 \<Rightarrow>
             if v1_is_valid v1
             then fmupd ''X-Epoch''
                    (decimal (unat (u32_from_be_bytes (take EPOCH_LEN (drop EPOCH_OFFSET (v1_bytes v1)))))) headers1
             else headers1)"

section \<open>Encryption of call names\<close>

datatype failed_to_decrypt = FailedToDecrypt

definition PADDING_MARKER :: byte where "PADDING_MARKER = 0x80"
definition BLOCK_SIZE :: nat where "BLOCK_SIZE = 32"
definition NONCE_LEN :: nat where "NONCE_LEN = 12"

definition cipher_key :: "link_prims \<Rightarrow> call_link_root_key \<Rightarrow> bytes" where
  "cipher_key L k =
     (case k of
        KeyV0 v0 \<Rightarrow> lp_hkdf L (v0_crn v0) (ascii ''20230501-Signal-CallLinkRootKey-AES'') 32
      | KeyV1 v1 \<Rightarrow> lp_hkdf L (take CRN_LEN (v1_bytes v1)) (ascii ''20251219-Signal-CallLinkRootKey-AES'') 32)"

definition name_encrypt :: "link_prims \<Rightarrow> call_link_root_key \<Rightarrow> bytes \<Rightarrow> bytes \<Rightarrow> bytes" where
  "name_encrypt L k nonce plaintext =
     (let buffer = nonce @ plaintext @ [PADDING_MARKER];
          padding_len = BLOCK_SIZE - length buffer mod BLOCK_SIZE;
          buffer1 = (if padding_len \<noteq> BLOCK_SIZE then buffer @ replicate padding_len 0 else buffer);
          (c, tag) = gcm_siv_encrypt L (cipher_key L k) nonce (drop (length nonce) buffer1)
      in take (length nonce) buffer1 @ c @ tag)"

text \<open>\<open>rposition\<close>: the last index whose element satisfies the predicate.\<close>

definition rposition :: "('a \<Rightarrow> bool) \<Rightarrow> 'a list \<Rightarrow> nat option" where
  "rposition p xs = find (\<lambda>i. p (xs ! i)) (rev [0..<length xs])"

definition name_decrypt :: "link_prims \<Rightarrow> call_link_root_key \<Rightarrow> bytes \<Rightarrow> (bytes, failed_to_decrypt) result" where
  "name_decrypt L k encrypted =
     (if length encrypted < NONCE_LEN then Err FailedToDecrypt
      else
        (case gcm_siv_decrypt L (cipher_key L k) (take NONCE_LEN encrypted) (drop NONCE_LEN encrypted) of
           None \<Rightarrow> Err FailedToDecrypt
         | Some plaintext \<Rightarrow>
             (case rposition (\<lambda>b. b = PADDING_MARKER) plaintext of
                None \<Rightarrow> Err FailedToDecrypt
              | Some i \<Rightarrow> Ok (take i plaintext))))"

section \<open>Text form\<close>

lemma fmt_chunks_append:
  "fmt_chunks fill f (cs @ ds) = fmt_chunks fill f cs @ fmt_chunks fill (f \<and> cs = []) ds"
  by (induction cs arbitrary: f) auto

lemma chunks_Nil [simp]: "chunks n [] = []"
  by (simp add: chunks.simps)

lemma chunks_whole: "xs \<noteq> [] \<Longrightarrow> length xs \<le> n \<Longrightarrow> chunks n xs = [xs]"
  by (cases n; subst chunks.simps) auto

lemma chunks_eq_Nil: "0 < n \<Longrightarrow> chunks n xs = [] \<longleftrightarrow> xs = []"
  by (simp add: chunks.simps [of n xs])

lemma fmt_whole: "xs \<noteq> [] \<Longrightarrow> length xs \<le> usize_max \<Longrightarrow> fmt None fill xs = concat (map table_index xs)"
  by (simp add: fmt_def chunks_whole)

text \<open>The parts of a key as its text form groups them.\<close>

definition v0_groups :: "root_key_v0 \<Rightarrow> bytes list" where
  "v0_groups k = chunks 2 (v0_crn k)"

definition v1_groups :: "root_key_v1 \<Rightarrow> bytes list" where
  "v1_groups k = chunks 4 (take CRN_LEN (v1_bytes k))
     @ [take 1 (drop VERSION_OFFSET (v1_bytes k)), take EPOCH_LEN (drop EPOCH_OFFSET (v1_bytes k))]"

lemma v0_formatted: "v0_to_formatted_string k = encoded (v0_groups k)"
  by (simp add: v0_to_formatted_string_def encoded_def v0_groups_def fmt_def SEP_def)

lemma v1_formatted:
  assumes "length (v1_bytes k) = V1_LEN"
  shows "v1_to_formatted_string k = encoded (v1_groups k)"
proof -
  let ?c = "chunks 4 (take CRN_LEN (v1_bytes k))"
  have ne: "take 1 (drop VERSION_OFFSET (v1_bytes k)) \<noteq> []" "take EPOCH_LEN (drop EPOCH_OFFSET (v1_bytes k)) \<noteq> []"
    "take CRN_LEN (v1_bytes k) \<noteq> []"
    using assms by (auto simp: V1_LEN_def VERSION_OFFSET_def EPOCH_LEN_def EPOCH_OFFSET_def CRN_LEN_def)
  have "length (take n (drop m (v1_bytes k))) \<le> usize_max" for n m
    using assms by (auto simp: V1_LEN_def EPOCH_LEN_def CRN_LEN_def usize_max_def)
  then have f: "fmt None 32 (take 1 (drop VERSION_OFFSET (v1_bytes k))) =
      concat (map table_index (take 1 (drop VERSION_OFFSET (v1_bytes k))))"
    "fmt None 32 (take EPOCH_LEN (drop EPOCH_OFFSET (v1_bytes k))) =
      concat (map table_index (take EPOCH_LEN (drop EPOCH_OFFSET (v1_bytes k))))"
    using fmt_whole ne by blast+
  have "?c \<noteq> []" using ne(3) chunks_eq_Nil [of 4 "take CRN_LEN (v1_bytes k)"] by simp
  then show ?thesis
    unfolding v1_to_formatted_string_def f encoded_def v1_groups_def fmt_chunks_append
    by (simp add: fmt_def SEP_def)
qed

lemma v0_groups_props:
  assumes "length (v0_crn k) = CRN_LEN"
  shows "map length (v0_groups k) = [2, 2, 2, 2, 2, 2, 2, 2]" "concat (v0_groups k) = v0_crn k"
    "\<forall>x \<in> set (v0_groups k). x \<noteq> []"
proof -
  have "map length (v0_groups k) = replicate 8 2"
    unfolding v0_groups_def using assms by (intro length_chunks) (simp_all add: CRN_LEN_def)
  then show "map length (v0_groups k) = [2, 2, 2, 2, 2, 2, 2, 2]" by (simp add: numeral_eq_Suc)
  show "concat (v0_groups k) = v0_crn k" by (simp add: v0_groups_def concat_chunks)
  show "\<forall>x \<in> set (v0_groups k). x \<noteq> []" by (auto simp: v0_groups_def dest: chunks_nonempty)
qed

lemma v1_groups_props:
  assumes "length (v1_bytes k) = V1_LEN"
  shows "map length (v1_groups k) = [4, 4, 4, 4, 1, 4]" "concat (v1_groups k) = v1_bytes k"
    "\<forall>x \<in> set (v1_groups k). x \<noteq> []"
proof -
  have l: "length (v1_bytes k) = 21" using assms by (simp add: V1_LEN_def EPOCH_LEN_def CRN_LEN_def)
  have "map length (chunks 4 (take CRN_LEN (v1_bytes k))) = replicate 4 4"
    using l by (intro length_chunks) (simp_all add: CRN_LEN_def)
  then show ml: "map length (v1_groups k) = [4, 4, 4, 4, 1, 4]"
    using l by (simp add: v1_groups_def numeral_eq_Suc VERSION_OFFSET_def EPOCH_LEN_def EPOCH_OFFSET_def CRN_LEN_def)
  have "v1_bytes k = take 16 (v1_bytes k) @ take 1 (drop 16 (v1_bytes k)) @ drop 1 (drop 16 (v1_bytes k))"
    by (simp only: append_take_drop_id)
  moreover have "drop 1 (drop 16 (v1_bytes k)) = take 4 (drop 17 (v1_bytes k))" using l by simp
  ultimately have "v1_bytes k = take 16 (v1_bytes k) @ take 1 (drop 16 (v1_bytes k)) @ take 4 (drop 17 (v1_bytes k))"
    by (simp only:)
  then show "concat (v1_groups k) = v1_bytes k"
    by (simp add: v1_groups_def concat_chunks VERSION_OFFSET_def EPOCH_LEN_def EPOCH_OFFSET_def CRN_LEN_def)
  show "\<forall>x \<in> set (v1_groups k). x \<noteq> []"
    using l by (auto simp: v1_groups_def VERSION_OFFSET_def EPOCH_LEN_def EPOCH_OFFSET_def CRN_LEN_def
        dest: chunks_nonempty)
qed

text \<open>Parsing the groups of a key gives its bytes, whatever follows after one more separator.\<close>

lemma parse_groups:
  assumes "map length cs = sizes" "\<forall>x \<in> set cs. x \<noteq> []" "sizes \<noteq> []" "t = [] \<or> (\<exists>u. u \<noteq> [] \<and> t = 45 # u)"
  shows "parse_with_separators (encoded cs @ t) sizes = Some (Ok (concat cs))"
proof -
  obtain c cs' where "cs = c # cs'" using assms(1,3) by (cases cs) auto
  with assms parse_encoded [of c cs'] parse_encoded_trailing [of c cs'] show ?thesis by auto
qed

text \<open>A version 1 string is never taken for a version 0 string: the separator after the second
  byte is missing.\<close>

lemma v1_not_v0:
  assumes "length (v1_bytes k) = V1_LEN"
  shows "\<exists>n. parse_with_separators (encoded (v1_groups k) @ t) [2, 2, 2, 2, 2, 2, 2, 2] =
    Some (Err (MissingSeparator n))"
proof -
  have "map length (v1_groups k) = [4, 4, 4, 4, 1, 4]" using v1_groups_props(1) [OF assms] .
  then obtain g gs where g: "v1_groups k = g # gs" "length g = 4" by (cases "v1_groups k") auto
  then obtain b0 b1 b2 b3 where b: "g = [b0, b1, b2, b3]"
    by (auto simp: numeral_eq_Suc length_Suc_conv)
  let ?s = "encoded (v1_groups k) @ t"
  have "as_bytes (encoded (v1_groups k)) = fmt_chunks SEP True (v1_groups k)"
    unfolding encoded_def by (rule as_bytes_ascii) (blast intro: fmt_chunks_ascii)
  then obtain r where r: "as_bytes ?s = concat (map table_index [b0, b1]) @ table_index b2 @ r"
    by (auto simp: g b as_bytes_def)
  have ne: "ALPHABET ! i \<noteq> SEP" if "i < 16" for i
  proof -
    have "SEP \<notin> set ALPHABET" by (simp add: SEP_def ALPHABET_def ascii_def)
    with that show ?thesis by (metis length_ALPHABET nth_mem)
  qed
  have "parse_loop ?s (as_bytes ?s) (length [b0, b1] + 0) [2, 2, 2, 2, 2, 2, 2] [] =
      parse_loop ?s (table_index b2 @ r) 0 [2, 2, 2, 2, 2, 2, 2] [b0, b1]"
    unfolding r by (subst parse_chunk) simp
  moreover have "length [b0, b1] + 0 = 2" by simp
  ultimately have "parse_loop ?s (as_bytes ?s) 2 [2, 2, 2, 2, 2, 2, 2] [] =
      parse_loop ?s (table_index b2 @ r) 0 [2, 2, 2, 2, 2, 2, 2] [b0, b1]" by (simp only:)
  then show ?thesis
    using ne nibble_bounds(1) [of b2] by (simp add: parse_with_separators_def table_index_eq)
qed

section \<open>Well-formed keys\<close>

definition key_ok :: "call_link_root_key \<Rightarrow> bool" where
  "key_ok k \<longleftrightarrow> key_from_bytes (key_as_slice k) = Ok k"

lemma key_ok_V0: "key_ok (KeyV0 v0) \<longleftrightarrow> v0_from_bytes (v0_crn v0) = Ok v0"
  by (auto simp: key_ok_def key_from_bytes_def key_as_slice_def v0_from_bytes_def V1_LEN_def EPOCH_LEN_def CRN_LEN_def
      map_sum_def split: sum.splits if_splits)

lemma key_ok_V1: "key_ok (KeyV1 v1) \<longleftrightarrow> v1_from_bytes (v1_bytes v1) = Ok v1"
  by (auto simp: key_ok_def key_from_bytes_def key_as_slice_def v1_from_bytes_def V1_LEN_def EPOCH_LEN_def CRN_LEN_def
      map_sum_def split: sum.splits if_splits)

lemma v0_from_bytes_ok: "v0_from_bytes bs = Ok k \<Longrightarrow> v0_crn k = bs \<and> length bs = CRN_LEN"
  by (auto simp: v0_from_bytes_def split: if_splits)

lemma v1_from_bytes_ok: "v1_from_bytes bs = Ok k \<Longrightarrow> v1_bytes k = bs \<and> length bs = V1_LEN"
  by (auto simp: v1_from_bytes_def split: if_splits)

lemma key_from_str_formatted:
  assumes "key_ok k" "t = [] \<or> (\<exists>u. u \<noteq> [] \<and> t = 45 # u)"
  shows "key_from_str (to_formatted_string k @ t) = Some (Ok k)"
proof (cases k)
  case (KeyV0 v0)
  then have ok: "v0_from_bytes (v0_crn v0) = Ok v0" using assms(1) key_ok_V0 by blast
  have "parse_with_separators (encoded (v0_groups v0) @ t) [2, 2, 2, 2, 2, 2, 2, 2] = Some (Ok (v0_crn v0))"
    using parse_groups [OF v0_groups_props(1,3) _ assms(2)] v0_groups_props(2) v0_from_bytes_ok [OF ok] by simp
  with KeyV0 ok show ?thesis
    by (simp add: key_from_str_def to_formatted_string_def v0_formatted v0_from_str_def)
next
  case (KeyV1 v1)
  then have ok: "v1_from_bytes (v1_bytes v1) = Ok v1" using assms(1) key_ok_V1 by blast
  then have len: "length (v1_bytes v1) = V1_LEN" using v1_from_bytes_ok by blast
  have "parse_with_separators (encoded (v1_groups v1) @ t) [4, 4, 4, 4, 1, 4] = Some (Ok (v1_bytes v1))"
    using parse_groups [OF v1_groups_props(1,3) _ assms(2)] v1_groups_props(2) len by simp
  moreover obtain n where "parse_with_separators (encoded (v1_groups v1) @ t) [2, 2, 2, 2, 2, 2, 2, 2] =
      Some (Err (MissingSeparator n))" using v1_not_v0 [OF len] by blast
  ultimately show ?thesis
    using KeyV1 ok
    by (simp add: key_from_str_def to_formatted_string_def v1_formatted [OF len] v0_from_str_def v1_from_str_def)
qed

section \<open>Repeated chunks and epochs\<close>

lemma split_digits: "(c::nat) < 256 \<Longrightarrow> c + 256 * c' = a + 256 * b \<Longrightarrow> a < 256 \<Longrightarrow> a = c \<and> b = c'"
proof -
  assume lt: "c < 256" "a < 256" and eq: "c + 256 * c' = a + 256 * b"
  have "(c + 256 * c') mod 256 = c" using lt(1) by (simp only: mod_mult_self2 mod_less)
  moreover have "(a + 256 * b) mod 256 = a" using lt(2) by (simp only: mod_mult_self2 mod_less)
  ultimately have "a = c" using eq by (simp only:)
  with eq show ?thesis by linarith
qed

lemma seventeen_digits: "(q::nat) < 16 \<Longrightarrow> 17 * q div 16 = q \<and> 17 * q mod 16 = q"
proof -
  assume lt: "q < 16"
  have "17 * q = q + 16 * q" by linarith
  then show ?thesis
    using lt by (simp only: mod_mult_self2 mod_less div_mult_self2 div_less) simp
qed

lemma repeated_pair:
  fixes a b :: nat
  assumes "a < 256" "b < 256"
  shows "(a + 256 * b) mod 0x1111 = 0 \<longleftrightarrow> a = b \<and> a div 16 = a mod 16"
proof
  assume "(a + 256 * b) mod 0x1111 = 0"
  then obtain q where q: "a + 256 * b = 0x1111 * q" unfolding mod_eq_0_iff_dvd by (rule dvdE)
  have lt: "q < 16" using q assms by linarith
  have "17 * q + 256 * (17 * q) = a + 256 * b" using q by linarith
  moreover have "17 * q < 256" using lt by linarith
  ultimately have "a = 17 * q \<and> b = 17 * q" using split_digits assms(1) by blast
  then show "a = b \<and> a div 16 = a mod 16" using seventeen_digits [OF lt] by (simp only:)
next
  assume *: "a = b \<and> a div 16 = a mod 16"
  have "a = 17 * (a mod 16)" using div_mult_mod_eq [of a 16] * by linarith
  then obtain d where "a = 17 * d" by (rule that)
  then have "a + 256 * b = 0x1111 * d" using * by linarith
  then show "(a + 256 * b) mod 0x1111 = 0" by (simp only: mod_mult_self1_is_0)
qed

definition same_digits :: "byte \<Rightarrow> byte \<Rightarrow> bool" where
  "same_digits a b \<longleftrightarrow> a = b \<and> unat a div 16 = unat a mod 16"

lemma has_repeated_chunk_iff:
  "has_repeated_chunk bs \<longleftrightarrow> (\<exists>i. 2 * i + 1 < length bs \<and> same_digits (bs ! (2 * i)) (bs ! (2 * i + 1)))"
proof (induction bs rule: has_repeated_chunk.induct)
  case (1 a b rest)
  have p: "(unat a + 256 * unat b) mod 0x1111 = 0 \<longleftrightarrow> same_digits a b"
    using repeated_pair [OF byte_bound byte_bound, of a b] by (simp add: same_digits_def word_unat_eq_iff)
  have "(\<exists>i. 2 * i + 1 < length (a # b # rest) \<and> same_digits ((a # b # rest) ! (2 * i)) ((a # b # rest) ! (2 * i + 1)))
    \<longleftrightarrow> same_digits a b \<or> (\<exists>i. 2 * i + 1 < length rest \<and> same_digits (rest ! (2 * i)) (rest ! (2 * i + 1)))"
    (is "(\<exists>i. ?Q i) \<longleftrightarrow> _ \<or> (\<exists>i. ?R i)")
  proof -
    have "?Q 0 \<longleftrightarrow> same_digits a b" "\<And>i. ?Q (Suc i) \<longleftrightarrow> ?R i" by simp_all
    then show ?thesis by (metis not0_implies_Suc)
  qed
  with 1 p show ?case by auto
qed simp_all

lemma u32_be_round_trip: "u32_from_be_bytes (be_bytes_u32 e) = e"
proof (rule bit_word_eqI)
  fix n assume n: "n < LENGTH(32)"
  consider "n < 8" | "8 \<le> n" "n < 16" | "16 \<le> n" "n < 24" | "24 \<le> n" by linarith
  then show "bit (u32_from_be_bytes (be_bytes_u32 e)) n = bit e n"
    by cases (use n in \<open>auto simp: u32_from_be_bytes_def be_bytes_u32_def bit_simps\<close>)
qed

lemma length_be_bytes_u32 [simp]: "length (be_bytes_u32 e) = 4"
  by (simp add: be_bytes_u32_def)

lemma version_bits:
  "(V1_VERSION OR INVALID_BIT) AND VERSION_MASK = V1_VERSION" "V1_VERSION AND VERSION_MASK = V1_VERSION"
  "(V1_VERSION OR INVALID_BIT) AND INVALID_BIT \<noteq> 0" "V1_VERSION AND INVALID_BIT = 0"
  by (simp_all add: V1_VERSION_def INVALID_BIT_def VERSION_MASK_def)

lemma without_epoch_ok:
  assumes "length crn = CRN_LEN" "\<not> has_repeated_chunk crn"
  shows "key_ok (KeyV1 (without_epoch crn))" "\<not> key_is_valid (KeyV1 (without_epoch crn))"
  using assms version_bits
  by (auto simp: key_ok_V1 v1_from_bytes_def without_epoch_def key_is_valid_def v1_is_valid_def
      V1_LEN_def VERSION_OFFSET_def EPOCH_LEN_def nth_append)

lemma with_epoch_ok:
  assumes "length crn = CRN_LEN" "\<not> has_repeated_chunk crn"
  shows "key_ok (KeyV1 (with_epoch crn e))" "key_is_valid (KeyV1 (with_epoch crn e))"
  using assms version_bits
  by (auto simp: key_ok_V1 v1_from_bytes_def with_epoch_def key_is_valid_def v1_is_valid_def
      V1_LEN_def VERSION_OFFSET_def EPOCH_LEN_def nth_append)

section \<open>Padding\<close>

lemma rposition_marker:
  assumes "\<not> p 0"
  shows "p m \<Longrightarrow> rposition p (xs @ m # replicate n 0) = Some (length xs)"
proof -
  assume m: "p m"
  let ?ys = "xs @ m # replicate n 0"
  have split: "[0..<length ?ys] = [0..<length xs] @ length xs # [Suc (length xs)..<length ?ys]"
    using upt_add_eq_append [of 0 "length xs" "Suc n"] by (simp add: upt_conv_Cons del: upt_Suc)
  have "find (\<lambda>i. p (?ys ! i)) (rev [Suc (length xs)..<length ?ys]) = None"
    using assms by (auto simp: find_None_iff nth_append nth_Cons')
  moreover have "p (?ys ! length xs)" using m by simp
  ultimately show ?thesis
    unfolding rposition_def split by (simp add: find_append del: upt_Suc)
qed

lemma unpad_pad:
  fixes nonce p :: bytes
  defines "buffer \<equiv> nonce @ p @ [PADDING_MARKER]"
  shows "\<exists>n. drop (length nonce) (if BLOCK_SIZE - length buffer mod BLOCK_SIZE \<noteq> BLOCK_SIZE
      then buffer @ replicate (BLOCK_SIZE - length buffer mod BLOCK_SIZE) 0 else buffer) =
    p @ PADDING_MARKER # replicate n 0"
  by (auto simp: buffer_def intro: exI [of _ 0])

lemma name_decrypt_encrypt:
  assumes "aead_correct L" "length nonce = NONCE_LEN"
  shows "name_decrypt L k (name_encrypt L k nonce p) = Ok p"
proof -
  define buffer where "buffer = nonce @ p @ [PADDING_MARKER]"
  define buffer1 where "buffer1 = (if BLOCK_SIZE - length buffer mod BLOCK_SIZE \<noteq> BLOCK_SIZE
      then buffer @ replicate (BLOCK_SIZE - length buffer mod BLOCK_SIZE) 0 else buffer)"
  obtain n where n: "drop (length nonce) buffer1 = p @ PADDING_MARKER # replicate n 0"
    using unpad_pad [of nonce p] unfolding buffer1_def buffer_def by blast
  obtain c t where e: "gcm_siv_encrypt L (cipher_key L k) nonce (drop (length nonce) buffer1) = (c, t)"
    by fastforce
  have nonce: "take (length nonce) buffer1 = nonce" by (simp add: buffer1_def buffer_def)
  have "name_encrypt L k nonce p = nonce @ c @ t"
    unfolding name_encrypt_def Let_def buffer_def [symmetric] buffer1_def [symmetric] using e nonce by simp
  moreover have "gcm_siv_decrypt L (cipher_key L k) nonce (c @ t) = Some (p @ PADDING_MARKER # replicate n 0)"
    using assms(1) e n unfolding aead_correct_def by auto
  moreover have "rposition (\<lambda>b. b = PADDING_MARKER) (p @ PADDING_MARKER # replicate n 0) = Some (length p)"
    by (rule rposition_marker) (simp_all add: PADDING_MARKER_def)
  ultimately show ?thesis using assms(2) by (simp add: name_decrypt_def)
qed

lemma draw_crn_first:
  assumes "\<not> has_repeated_chunk (rng n)" "\<And>i. i < n \<Longrightarrow> has_repeated_chunk (rng i)" "k \<le> n"
  shows "draw_crn rng k = Some (rng n)"
  using assms(3)
proof (induction "n - k" arbitrary: k)
  case 0
  then have "k = n" by simp
  then show ?case using assms(1) by (subst draw_crn.simps) simp
next
  case (Suc d)
  then have "k < n" "d = n - Suc k" by simp_all
  then show ?case using Suc(1) [of "Suc k"] assms(2) by (subst draw_crn.simps) simp
qed

section \<open>Properties\<close>

text \<open>A concrete key, and toy primitives for the name encryption.\<close>

definition example_crn :: bytes where
  "example_crn = [1, 2, 3, 4, 5, 6, 7, 8, 9, 10, 11, 12, 13, 14, 15, 16]"

lemma example_crn_ok: "length example_crn = CRN_LEN" "\<not> has_repeated_chunk example_crn"
  by (simp_all add: example_crn_def CRN_LEN_def)

definition toy_link_prims :: link_prims where
  "toy_link_prims = \<lparr>lp_hkdf = (\<lambda>s info n. s @ info), gcm_siv_encrypt = (\<lambda>k n p. (map ((+) 1) p, [7])),
     gcm_siv_decrypt = (\<lambda>k n c. if c \<noteq> [] \<and> last c = 7 then Some (map (\<lambda>b. b - 1) (butlast c)) else None)\<rparr>"

lemma toy_aead: "aead_correct toy_link_prims"
proof -
  have "map (\<lambda>b. b - 1) (map ((+) 1) p) = p" for p :: bytes by (induction p) auto
  then show ?thesis by (auto simp: aead_correct_def toy_link_prims_def butlast_append comp_def)
qed

text \<open>
  C22: text round trip. Formatting a well-formed root key, of either version, and parsing the text
  gives the same key.
\<close>

theorem root_key_text_round_trip:
  assumes "key_ok k"
  shows "key_from_str (to_formatted_string k) = Some (Ok k)"
  using key_from_str_formatted [OF assms, of "[]"] by simp

theorem root_key_text_round_trip_witness:
  "key_ok (KeyV1 (with_epoch example_crn 5))
    \<and> key_from_str (to_formatted_string (KeyV1 (with_epoch example_crn 5))) = Some (Ok (KeyV1 (with_epoch example_crn 5)))"
  using root_key_text_round_trip [OF with_epoch_ok(1) [OF example_crn_ok]] with_epoch_ok(1) [OF example_crn_ok]
  by blast

text \<open>
  C31: parsing accepts trailing text. The text of a key followed by a further separator and any
  further text at all parses as that key: the parser stops at the separator after the last
  group without looking at the rest.
\<close>

theorem trailing_text_accepted:
  assumes "key_ok k" and "t \<noteq> []"
  shows "key_from_str (to_formatted_string k @ 45 # t) = Some (Ok k)"
  using key_from_str_formatted [OF assms(1), of "45 # t"] assms(2) by blast

theorem trailing_text_accepted_witness:
  "key_ok (KeyV1 (with_epoch example_crn 5))
    \<and> key_from_str (to_formatted_string (KeyV1 (with_epoch example_crn 5)) @ [45, 63, 0x1F600]) =
        Some (Ok (KeyV1 (with_epoch example_crn 5)))"
  using trailing_text_accepted [OF with_epoch_ok(1) [OF example_crn_ok], of "[63, 0x1F600]"]
    with_epoch_ok(1) [OF example_crn_ok] by simp

text \<open>
  C23: parsing is safe. Parsing any string of Unicode characters as a root key returns (slicing the
  string for an error message never cuts a character), and every key it returns is well-formed.
\<close>

theorem root_key_parse_safe:
  assumes "chars_ok s"
  shows "\<exists>r. key_from_str s = Some r \<and> (case r of Inr k \<Rightarrow> key_ok k | Inl e \<Rightarrow> e = InvalidKeyString)"
proof -
  obtain r0 r1 where p: "parse_with_separators s [2, 2, 2, 2, 2, 2, 2, 2] = Some r0"
    "parse_with_separators s [4, 4, 4, 4, 1, 4] = Some r1"
    using parse_no_panic [OF assms] by blast
  have ok: "v0_from_bytes bs = Ok v0 \<Longrightarrow> key_ok (KeyV0 v0)" "v1_from_bytes bs = Ok v1 \<Longrightarrow> key_ok (KeyV1 v1)" for bs v0 v1
    using v0_from_bytes_ok v1_from_bytes_ok by (auto simp: key_ok_V0 key_ok_V1)
  show ?thesis
    using p ok by (auto simp: key_from_str_def v0_from_str_def v1_from_str_def split: sum.splits)
qed

theorem root_key_parse_safe_witness:
  "chars_ok [98, 233, 100, 102]
    \<and> (\<exists>r. key_from_str [98, 233, 100, 102] = Some r \<and> (case r of Inr k \<Rightarrow> key_ok k | Inl e \<Rightarrow> e = InvalidKeyString))"
proof -
  have "chars_ok [98, 233, 100, 102]" by (simp add: chars_ok_def)
  with root_key_parse_safe [OF this] show ?thesis by blast
qed

text \<open>
  C24: a generated key and the server's answer. When the random generator eventually draws
  bytes without a repeated chunk, generation returns a well-formed key that is not valid yet;
  the server's answer turns it into a valid, well-formed key (version 1 with the epoch, or
  version 0 without), and the room identifier stays the same.
\<close>

theorem generated_key_becomes_valid:
  assumes "\<And>i. length (rng i) = CRN_LEN" and "\<not> has_repeated_chunk (rng n)"
  shows "\<exists>k k'. generate rng = Some k \<and> key_ok k \<and> \<not> key_is_valid k
    \<and> process_server_response k epoch = Some k' \<and> key_ok k' \<and> key_is_valid k'
    \<and> derive_room_id L k' = derive_room_id L k"
proof -
  define m where "m = (LEAST m. \<not> has_repeated_chunk (rng m))"
  have m: "\<not> has_repeated_chunk (rng m)" "\<And>i. i < m \<Longrightarrow> has_repeated_chunk (rng i)"
    using LeastI [of "\<lambda>m. \<not> has_repeated_chunk (rng m)", OF assms(2)] not_less_Least unfolding m_def by auto
  let ?k = "KeyV1 (without_epoch (rng m))"
  have g: "generate rng = Some ?k" using draw_crn_first [of rng m 0] m by (simp add: generate_def)
  have k: "key_ok ?k" "\<not> key_is_valid ?k" using without_epoch_ok assms(1) m(1) by blast+
  have crn: "take CRN_LEN (v1_bytes (without_epoch (rng m))) = rng m"
    using assms(1) by (simp add: without_epoch_def)
  show ?thesis
  proof (cases epoch)
    case None
    have "key_ok (KeyV0 \<lparr>v0_crn = rng m\<rparr>)" using assms(1) m(1) by (simp add: key_ok_V0 v0_from_bytes_def)
    then show ?thesis
      using g k crn None assms(1)
      by (auto simp: process_server_response_def key_is_valid_def derive_room_id_def key_as_slice_def Let_def)
  next
    case (Some e)
    then show ?thesis
      using g k crn with_epoch_ok [OF assms(1) m(1), of e] assms(1)
      by (auto simp: process_server_response_def key_is_valid_def derive_room_id_def key_as_slice_def
          with_epoch_def Let_def)
  qed
qed

theorem generated_key_becomes_valid_witness:
  "\<exists>k k'. generate (\<lambda>i. if i = 0 then replicate 16 0x55 else example_crn) = Some k \<and> \<not> key_is_valid k
    \<and> process_server_response k (Some 7) = Some k' \<and> key_is_valid k'"
proof -
  let ?rng = "\<lambda>i::nat. if i = 0 then replicate 16 0x55 else example_crn"
  have "length (?rng i) = CRN_LEN" for i using example_crn_ok(1) by (simp add: CRN_LEN_def)
  with generated_key_becomes_valid [of ?rng 1 "Some 7" toy_link_prims] example_crn_ok(2) show ?thesis by auto
qed

text \<open>
  C25: name round trip. Decrypting an encrypted call name under the same key gives the name,
  whatever its bytes and length: the padding is removed exactly.
\<close>

theorem call_name_round_trip:
  assumes "aead_correct L" and "length nonce = NONCE_LEN"
  shows "name_decrypt L k (name_encrypt L k nonce plaintext) = Ok plaintext"
  using assms by (rule name_decrypt_encrypt)

theorem call_name_round_trip_witness:
  "aead_correct toy_link_prims \<and> length (replicate 12 (3 :: byte)) = NONCE_LEN
    \<and> name_decrypt toy_link_prims (KeyV0 \<lparr>v0_crn = example_crn\<rparr>)
        (name_encrypt toy_link_prims (KeyV0 \<lparr>v0_crn = example_crn\<rparr>) (replicate 12 3) [0x80, 0]) = Ok [0x80, 0]"
proof -
  have n: "length (replicate 12 (3 :: byte)) = NONCE_LEN" by (simp add: NONCE_LEN_def)
  with call_name_round_trip [OF toy_aead n] toy_aead show ?thesis by blast
qed

text \<open>
  What counts as a repeated chunk. The test on little-endian pairs accepts exactly the byte
  strings in which some even-odd pair of adjacent bytes consists of four equal hex digits.
\<close>

theorem repeated_chunk_is_four_equal_digits:
  "has_repeated_chunk bs \<longleftrightarrow> (\<exists>i. 2 * i + 1 < length bs \<and> same_digits (bs ! (2 * i)) (bs ! (2 * i + 1)))"
  by (rule has_repeated_chunk_iff)

end
