(* ===== verification/Rtc_Units.thy ===== *)
theory Rtc_Units
  imports Rtc_Prelude
begin

text \<open>
  Data sizes and data rates (\<open>common/units.rs\<close>). A size is its number of bits, a \<open>u64\<close>; a
  rate is the size transferred per second. Multiplications are those of an optimised build:
  they wrap. Both types are ordered by their number of bits, as \<open>derive(Ord)\<close> orders a struct
  of one field. The conversions through \<open>f64\<close> (a rate times or a size divided by a duration)
  are not modelled.
\<close>

datatype data_size = DataSize (bits: "64 word")

instantiation data_size :: linorder
begin

definition less_eq_data_size :: "data_size \<Rightarrow> data_size \<Rightarrow> bool" where
  "less_eq_data_size a b = (bits a \<le> bits b)"

definition less_data_size :: "data_size \<Rightarrow> data_size \<Rightarrow> bool" where
  "less_data_size a b = (bits a < bits b)"

instance
  by standard (auto simp: less_eq_data_size_def less_data_size_def data_size.expand)

end

datatype data_rate = DataRate (size_per_second: data_size)

instantiation data_rate :: linorder
begin

definition less_eq_data_rate :: "data_rate \<Rightarrow> data_rate \<Rightarrow> bool" where
  "less_eq_data_rate a b = (size_per_second a \<le> size_per_second b)"

definition less_data_rate :: "data_rate \<Rightarrow> data_rate \<Rightarrow> bool" where
  "less_data_rate a b = (size_per_second a < size_per_second b)"

instance
  by standard (auto simp: less_eq_data_rate_def less_data_rate_def data_rate.expand)

end

section \<open>Sizes\<close>

definition from_bits :: "64 word \<Rightarrow> data_size" where
  "from_bits b = DataSize b"

definition as_bits :: "data_size \<Rightarrow> 64 word" where
  "as_bits s = bits s"

definition from_bytes :: "64 word \<Rightarrow> data_size" where
  "from_bytes b = from_bits (b * 8)"

definition as_bytes :: "data_size \<Rightarrow> 64 word" where
  "as_bytes s = as_bits s div 8"

definition from_kilobits :: "64 word \<Rightarrow> data_size" where
  "from_kilobits kbits = from_bits (kbits * 1000)"

definition as_kilobits :: "data_size \<Rightarrow> 64 word" where
  "as_kilobits s = as_bits s div 1000"

definition from_kilobytes :: "64 word \<Rightarrow> data_size" where
  "from_kilobytes kbytes = from_bytes (kbytes * 1000)"

definition as_kilobytes :: "data_size \<Rightarrow> 64 word" where
  "as_kilobytes s = as_bytes s div 1000"

definition from_megabits :: "64 word \<Rightarrow> data_size" where
  "from_megabits mbits = from_kilobits (mbits * 1000)"

definition as_megabits :: "data_size \<Rightarrow> 64 word" where
  "as_megabits s = as_kilobits s div 1000"

definition from_megabytes :: "64 word \<Rightarrow> data_size" where
  "from_megabytes mbytes = from_kilobytes (mbytes * 1000)"

definition as_megabytes :: "data_size \<Rightarrow> 64 word" where
  "as_megabytes s = as_kilobytes s div 1000"

definition add_size :: "data_size \<Rightarrow> data_size \<Rightarrow> data_size" where
  "add_size a b = from_bits (bits a + bits b)"

section \<open>Rates\<close>

definition per_second :: "data_size \<Rightarrow> data_rate" where
  "per_second s = DataRate s"

definition from_bps :: "64 word \<Rightarrow> data_rate" where
  "from_bps bps = per_second (from_bits bps)"

definition as_bps :: "data_rate \<Rightarrow> 64 word" where
  "as_bps r = as_bits (size_per_second r)"

definition from_kbps :: "64 word \<Rightarrow> data_rate" where
  "from_kbps kbps = per_second (from_kilobits kbps)"

definition as_kbps :: "data_rate \<Rightarrow> 64 word" where
  "as_kbps r = as_kilobits (size_per_second r)"

definition from_mbps :: "64 word \<Rightarrow> data_rate" where
  "from_mbps mbps = per_second (from_megabits mbps)"

definition as_mbps :: "data_rate \<Rightarrow> 64 word" where
  "as_mbps r = as_megabits (size_per_second r)"

definition min_opt :: "data_rate \<Rightarrow> data_rate option \<Rightarrow> data_rate" where
  "min_opt r other = (case other of Some other \<Rightarrow> min r other | None \<Rightarrow> r)"

section \<open>Rates and their number of bits per second\<close>

lemmas rate_defs =
  from_bits_def as_bits_def from_bytes_def as_bytes_def from_kilobits_def as_kilobits_def
  from_kilobytes_def as_kilobytes_def from_megabits_def as_megabits_def from_megabytes_def
  as_megabytes_def per_second_def from_bps_def as_bps_def from_kbps_def as_kbps_def
  from_mbps_def as_mbps_def

lemma as_bps_from_bps [simp]: "as_bps (from_bps b) = b"
  by (simp add: rate_defs)

lemma from_bps_as_bps [simp]: "from_bps (as_bps r) = r"
  by (simp add: rate_defs)

lemma as_bps_from_kbps [simp]: "as_bps (from_kbps k) = k * 1000"
  by (simp add: rate_defs)

lemma as_bps_from_mbps [simp]: "as_bps (from_mbps m) = m * 1000 * 1000"
  by (simp add: rate_defs)

lemma rate_le_iff: "r \<le> s \<longleftrightarrow> as_bps r \<le> as_bps s"
  by (simp add: less_eq_data_rate_def less_eq_data_size_def rate_defs)

lemma rate_less_iff: "r < s \<longleftrightarrow> as_bps r < as_bps s"
  by (simp add: less_data_rate_def less_data_size_def rate_defs)

lemma rate_eq_iff: "r = s \<longleftrightarrow> as_bps r = as_bps s"
  by (auto simp: rate_defs intro: data_rate.expand data_size.expand)

lemma min_opt_le: "min_opt r o' \<le> r"
  by (simp add: min_opt_def split: option.split)

lemma min_opt_le_other: "o' = Some s \<Longrightarrow> min_opt r o' \<le> s"
  by (simp add: min_opt_def)

lemma min_opt_cases: "min_opt r o' = r \<or> o' = Some (min_opt r o')"
  by (auto simp: min_opt_def min_def split: option.split)

end
