(* ===== verification/Audio_Config.thy ===== *)
theory Audio_Config
  imports Rtc_Prelude
begin

text \<open>
  The configuration of the audio encoder and decoder (\<open>webrtc/media.rs\<close>), data that the calls
  hand to WebRTC.
\<close>

datatype audio_bandwidth = Auto | Full | SuperWide | Wide | Medium | Narrow

record audio_encoder_config =
  initial_packet_size_ms :: int
  min_packet_size_ms :: int
  max_packet_size_ms :: int
  initial_bitrate_bps :: int
  min_bitrate_bps :: int
  encoder_max_bitrate_bps :: int
  audio_bandwidth_of :: audio_bandwidth
  encoder_complexity :: "8 word"
  adaptation :: int
  enable_cbr :: bool
  enable_dtx :: bool
  enable_fec :: bool
  dred_duration :: "8 word"
  min_packet_loss_percent :: "8 word"
  encoder_dnn_weights :: "bytes option"

definition audio_encoder_config_default :: audio_encoder_config where
  "audio_encoder_config_default =
     \<lparr> initial_packet_size_ms = 60, min_packet_size_ms = 60, max_packet_size_ms = 60,
       initial_bitrate_bps = 32000, min_bitrate_bps = 32000, encoder_max_bitrate_bps = 32000,
       audio_bandwidth_of = Auto, encoder_complexity = 9, adaptation = 0,
       enable_cbr = True, enable_dtx = True, enable_fec = True,
       dred_duration = 0, min_packet_loss_percent = 0, encoder_dnn_weights = None \<rparr>"

record audio_decoder_config =
  decoder_dnn_weights :: "bytes option"
  decoder_complexity :: "8 word option"

definition audio_decoder_config_default :: audio_decoder_config where
  "audio_decoder_config_default = \<lparr> decoder_dnn_weights = None, decoder_complexity = Some 0 \<rparr>"

end
