(* ===== verification/Call_State.thy ===== *)
theory Call_State
  imports Rtc_Units Audio_Config
begin

text \<open>
  The enumerations that \<open>common/mod.rs\<close> shares between calls and connections: the states of a
  call and of a connection with the predicates the two state machines guard their handlers
  with, the reasons a call ends, the events the application is told, the direction and media
  type of a call and the data mode. Constructors shared by several enumerations are written with
  their type, \<open>call_state.Terminating\<close> for \<open>CallState::Terminating\<close>. A predicate is one
  equation per state, as the code lists every state. To \<open>RingRtcError\<close>, \<open>Anyhow\<close> adds the errors built from a
  message. \<open>CallConfig\<close> is without the audio device and jitter buffer settings, which only WebRTC
  reads.
\<close>

type_synonym call_id = "64 word"
type_synonym device_id = "32 word"

datatype ringrtc_error =
    MutexPoisoned string
  | RwLockPoisoned string
  | NullPointer string string
  | OptionValueNotSet string string
  | RegisterActor
  | CallAlreadyInProgress call_id
  | CallManagerIsBusy
  | NoActiveCall
  | CallIdNotFound call_id
  | ConnectionNotFound device_id
  | ActiveDeviceIdAlreadySet device_id
  | ActiveMediaStreamAlreadySet device_id
  | PendingCallAlreadySet device_id
  | AppConnectionAlreadySet device_id
  | AppCallContextAlreadySet call_id
  | ClientAlreadyExistsForCall
  | CreatePeerConnectionObserver
  | CreateRtpObserver
  | CreatePeerConnectionFactory
  | CreatePeerConnection
  | UpdateTransceivers
  | CreateVideoSource
  | CreateVideoTrack
  | CreateAudioTrack
  | QueryAudioDevices
  | SetAudioDevice
  | CreateSessionDescriptionObserver string int
  | CreateSessionDescriptionObserverResult string
  | SetSessionDescriptionObserver string int
  | SetSessionDescriptionObserverResult string
  | AddIceCandidate
  | ToSdp
  | MungeSdp
  | UnknownSignaledProtocolVersion
  | RtpDataProtocol string
  | SendRtp
  | ReceiveRtp
  | UseIceGatherer
  | CreateIceGatherer
  | UnexpectedResponseCodeFromSFu "16 word"
  | SfuClientRequestFailed
  | GroupCallFull
  | FrameCounterTooBig
  | FailedToEncrypt
  | FailedToDecrypt
  | SrtpKeyNegotiationFailure
  | InvalidRemoteSrtpKey
  | BufferTooSmall
  | Anyhow string

section \<open>Call states\<close>

datatype call_state =
    NotYetStarted | WaitingToProceed | ConnectingBeforeAccepted | ConnectingAfterAccepted
  | ConnectedBeforeAccepted | ConnectedAndAccepted | ReconnectingAfterAccepted | Terminating
  | Terminated

primrec call_can_receive_ice_candidates :: "call_state \<Rightarrow> bool" where
  "call_can_receive_ice_candidates call_state.NotYetStarted = False"
| "call_can_receive_ice_candidates call_state.WaitingToProceed = True"
| "call_can_receive_ice_candidates call_state.ConnectingBeforeAccepted = True"
| "call_can_receive_ice_candidates call_state.ConnectingAfterAccepted = True"
| "call_can_receive_ice_candidates call_state.ConnectedBeforeAccepted = True"
| "call_can_receive_ice_candidates call_state.ConnectedAndAccepted = True"
| "call_can_receive_ice_candidates call_state.ReconnectingAfterAccepted = True"
| "call_can_receive_ice_candidates call_state.Terminating = False"
| "call_can_receive_ice_candidates call_state.Terminated = False"

primrec call_connected_or_reconnecting :: "call_state \<Rightarrow> bool" where
  "call_connected_or_reconnecting call_state.NotYetStarted = False"
| "call_connected_or_reconnecting call_state.WaitingToProceed = False"
| "call_connected_or_reconnecting call_state.ConnectingBeforeAccepted = False"
| "call_connected_or_reconnecting call_state.ConnectingAfterAccepted = False"
| "call_connected_or_reconnecting call_state.ConnectedBeforeAccepted = True"
| "call_connected_or_reconnecting call_state.ConnectedAndAccepted = True"
| "call_connected_or_reconnecting call_state.ReconnectingAfterAccepted = True"
| "call_connected_or_reconnecting call_state.Terminating = False"
| "call_connected_or_reconnecting call_state.Terminated = False"

primrec call_can_be_accepted_locally :: "call_state \<Rightarrow> bool" where
  "call_can_be_accepted_locally call_state.NotYetStarted = False"
| "call_can_be_accepted_locally call_state.WaitingToProceed = False"
| "call_can_be_accepted_locally call_state.ConnectingBeforeAccepted = False"
| "call_can_be_accepted_locally call_state.ConnectingAfterAccepted = False"
| "call_can_be_accepted_locally call_state.ConnectedBeforeAccepted = True"
| "call_can_be_accepted_locally call_state.ConnectedAndAccepted = False"
| "call_can_be_accepted_locally call_state.ReconnectingAfterAccepted = False"
| "call_can_be_accepted_locally call_state.Terminating = False"
| "call_can_be_accepted_locally call_state.Terminated = False"

primrec call_active :: "call_state \<Rightarrow> bool" where
  "call_active call_state.NotYetStarted = False"
| "call_active call_state.WaitingToProceed = False"
| "call_active call_state.ConnectingBeforeAccepted = False"
| "call_active call_state.ConnectingAfterAccepted = False"
| "call_active call_state.ConnectedBeforeAccepted = False"
| "call_active call_state.ConnectedAndAccepted = True"
| "call_active call_state.ReconnectingAfterAccepted = True"
| "call_active call_state.Terminating = False"
| "call_active call_state.Terminated = False"

primrec call_accepted :: "call_state \<Rightarrow> bool" where
  "call_accepted call_state.NotYetStarted = False"
| "call_accepted call_state.WaitingToProceed = False"
| "call_accepted call_state.ConnectingBeforeAccepted = False"
| "call_accepted call_state.ConnectedBeforeAccepted = False"
| "call_accepted call_state.ConnectingAfterAccepted = True"
| "call_accepted call_state.ConnectedAndAccepted = True"
| "call_accepted call_state.ReconnectingAfterAccepted = True"
| "call_accepted call_state.Terminating = False"
| "call_accepted call_state.Terminated = False"

primrec call_can_send_hangup_via_rtp :: "call_state \<Rightarrow> bool" where
  "call_can_send_hangup_via_rtp call_state.NotYetStarted = False"
| "call_can_send_hangup_via_rtp call_state.WaitingToProceed = True"
| "call_can_send_hangup_via_rtp call_state.ConnectingBeforeAccepted = True"
| "call_can_send_hangup_via_rtp call_state.ConnectingAfterAccepted = True"
| "call_can_send_hangup_via_rtp call_state.ConnectedBeforeAccepted = True"
| "call_can_send_hangup_via_rtp call_state.ConnectedAndAccepted = True"
| "call_can_send_hangup_via_rtp call_state.ReconnectingAfterAccepted = True"
| "call_can_send_hangup_via_rtp call_state.Terminating = True"
| "call_can_send_hangup_via_rtp call_state.Terminated = True"

primrec call_should_propagate_hangup :: "call_state \<Rightarrow> bool" where
  "call_should_propagate_hangup call_state.NotYetStarted = False"
| "call_should_propagate_hangup call_state.WaitingToProceed = True"
| "call_should_propagate_hangup call_state.ConnectingBeforeAccepted = True"
| "call_should_propagate_hangup call_state.ConnectedBeforeAccepted = True"
| "call_should_propagate_hangup call_state.ConnectingAfterAccepted = False"
| "call_should_propagate_hangup call_state.ConnectedAndAccepted = False"
| "call_should_propagate_hangup call_state.ReconnectingAfterAccepted = False"
| "call_should_propagate_hangup call_state.Terminating = False"
| "call_should_propagate_hangup call_state.Terminated = False"

primrec call_can_be_terminated_remotely :: "call_state \<Rightarrow> bool" where
  "call_can_be_terminated_remotely call_state.NotYetStarted = False"
| "call_can_be_terminated_remotely call_state.WaitingToProceed = True"
| "call_can_be_terminated_remotely call_state.ConnectingBeforeAccepted = True"
| "call_can_be_terminated_remotely call_state.ConnectingAfterAccepted = True"
| "call_can_be_terminated_remotely call_state.ConnectedBeforeAccepted = True"
| "call_can_be_terminated_remotely call_state.ConnectedAndAccepted = True"
| "call_can_be_terminated_remotely call_state.ReconnectingAfterAccepted = True"
| "call_can_be_terminated_remotely call_state.Terminating = False"
| "call_can_be_terminated_remotely call_state.Terminated = False"

primrec call_terminating_or_terminated :: "call_state \<Rightarrow> bool" where
  "call_terminating_or_terminated call_state.NotYetStarted = False"
| "call_terminating_or_terminated call_state.WaitingToProceed = False"
| "call_terminating_or_terminated call_state.ConnectingBeforeAccepted = False"
| "call_terminating_or_terminated call_state.ConnectingAfterAccepted = False"
| "call_terminating_or_terminated call_state.ConnectedBeforeAccepted = False"
| "call_terminating_or_terminated call_state.ConnectedAndAccepted = False"
| "call_terminating_or_terminated call_state.ReconnectingAfterAccepted = False"
| "call_terminating_or_terminated call_state.Terminating = True"
| "call_terminating_or_terminated call_state.Terminated = True"

section \<open>Connection states\<close>

datatype connection_state =
    NotYetStarted | Starting | IceGathering | ConnectingBeforeAccepted | ConnectingAfterAccepted
  | ConnectedBeforeAccepted | IceFailed | ConnectedAndAccepted | ReconnectingAfterAccepted
  | Terminating | Terminated

primrec conn_can_send_ice_candidates :: "connection_state \<Rightarrow> bool" where
  "conn_can_send_ice_candidates connection_state.NotYetStarted = False"
| "conn_can_send_ice_candidates connection_state.Starting = True"
| "conn_can_send_ice_candidates connection_state.IceGathering = True"
| "conn_can_send_ice_candidates connection_state.ConnectingBeforeAccepted = True"
| "conn_can_send_ice_candidates connection_state.ConnectingAfterAccepted = True"
| "conn_can_send_ice_candidates connection_state.ConnectedBeforeAccepted = True"
| "conn_can_send_ice_candidates connection_state.ConnectedAndAccepted = True"
| "conn_can_send_ice_candidates connection_state.ReconnectingAfterAccepted = True"
| "conn_can_send_ice_candidates connection_state.IceFailed = True"
| "conn_can_send_ice_candidates connection_state.Terminating = False"
| "conn_can_send_ice_candidates connection_state.Terminated = False"

primrec conn_can_receive_ice_candidates :: "connection_state \<Rightarrow> bool" where
  "conn_can_receive_ice_candidates connection_state.NotYetStarted = False"
| "conn_can_receive_ice_candidates connection_state.Starting = False"
| "conn_can_receive_ice_candidates connection_state.IceGathering = False"
| "conn_can_receive_ice_candidates connection_state.ConnectingBeforeAccepted = True"
| "conn_can_receive_ice_candidates connection_state.ConnectingAfterAccepted = True"
| "conn_can_receive_ice_candidates connection_state.ConnectedBeforeAccepted = True"
| "conn_can_receive_ice_candidates connection_state.ConnectedAndAccepted = True"
| "conn_can_receive_ice_candidates connection_state.ReconnectingAfterAccepted = True"
| "conn_can_receive_ice_candidates connection_state.IceFailed = False"
| "conn_can_receive_ice_candidates connection_state.Terminating = False"
| "conn_can_receive_ice_candidates connection_state.Terminated = False"

primrec conn_connecting_or_connected :: "connection_state \<Rightarrow> bool" where
  "conn_connecting_or_connected connection_state.NotYetStarted = False"
| "conn_connecting_or_connected connection_state.Starting = False"
| "conn_connecting_or_connected connection_state.IceGathering = False"
| "conn_connecting_or_connected connection_state.ConnectingBeforeAccepted = True"
| "conn_connecting_or_connected connection_state.ConnectingAfterAccepted = True"
| "conn_connecting_or_connected connection_state.ConnectedBeforeAccepted = True"
| "conn_connecting_or_connected connection_state.ConnectedAndAccepted = True"
| "conn_connecting_or_connected connection_state.ReconnectingAfterAccepted = True"
| "conn_connecting_or_connected connection_state.IceFailed = False"
| "conn_connecting_or_connected connection_state.Terminating = False"
| "conn_connecting_or_connected connection_state.Terminated = False"

primrec conn_connected_or_reconnecting :: "connection_state \<Rightarrow> bool" where
  "conn_connected_or_reconnecting connection_state.NotYetStarted = False"
| "conn_connected_or_reconnecting connection_state.Starting = False"
| "conn_connected_or_reconnecting connection_state.IceGathering = False"
| "conn_connected_or_reconnecting connection_state.ConnectingBeforeAccepted = False"
| "conn_connected_or_reconnecting connection_state.ConnectingAfterAccepted = False"
| "conn_connected_or_reconnecting connection_state.ConnectedBeforeAccepted = True"
| "conn_connected_or_reconnecting connection_state.ConnectedAndAccepted = True"
| "conn_connected_or_reconnecting connection_state.ReconnectingAfterAccepted = True"
| "conn_connected_or_reconnecting connection_state.IceFailed = False"
| "conn_connected_or_reconnecting connection_state.Terminating = False"
| "conn_connected_or_reconnecting connection_state.Terminated = False"

primrec conn_can_be_accepted_locally :: "connection_state \<Rightarrow> bool" where
  "conn_can_be_accepted_locally connection_state.NotYetStarted = False"
| "conn_can_be_accepted_locally connection_state.Starting = False"
| "conn_can_be_accepted_locally connection_state.IceGathering = False"
| "conn_can_be_accepted_locally connection_state.ConnectingBeforeAccepted = True"
| "conn_can_be_accepted_locally connection_state.ConnectingAfterAccepted = False"
| "conn_can_be_accepted_locally connection_state.ConnectedBeforeAccepted = True"
| "conn_can_be_accepted_locally connection_state.ConnectedAndAccepted = False"
| "conn_can_be_accepted_locally connection_state.ReconnectingAfterAccepted = True"
| "conn_can_be_accepted_locally connection_state.IceFailed = False"
| "conn_can_be_accepted_locally connection_state.Terminating = False"
| "conn_can_be_accepted_locally connection_state.Terminated = False"

primrec conn_active :: "connection_state \<Rightarrow> bool" where
  "conn_active connection_state.NotYetStarted = False"
| "conn_active connection_state.Starting = False"
| "conn_active connection_state.IceGathering = False"
| "conn_active connection_state.ConnectingBeforeAccepted = False"
| "conn_active connection_state.ConnectingAfterAccepted = False"
| "conn_active connection_state.ConnectedBeforeAccepted = False"
| "conn_active connection_state.ConnectedAndAccepted = True"
| "conn_active connection_state.ReconnectingAfterAccepted = True"
| "conn_active connection_state.IceFailed = False"
| "conn_active connection_state.Terminating = False"
| "conn_active connection_state.Terminated = False"

primrec conn_can_send_hangup_via_rtp :: "connection_state \<Rightarrow> bool" where
  "conn_can_send_hangup_via_rtp connection_state.NotYetStarted = False"
| "conn_can_send_hangup_via_rtp connection_state.Starting = True"
| "conn_can_send_hangup_via_rtp connection_state.IceGathering = True"
| "conn_can_send_hangup_via_rtp connection_state.ConnectingBeforeAccepted = True"
| "conn_can_send_hangup_via_rtp connection_state.ConnectingAfterAccepted = True"
| "conn_can_send_hangup_via_rtp connection_state.ConnectedBeforeAccepted = True"
| "conn_can_send_hangup_via_rtp connection_state.ConnectedAndAccepted = True"
| "conn_can_send_hangup_via_rtp connection_state.ReconnectingAfterAccepted = True"
| "conn_can_send_hangup_via_rtp connection_state.IceFailed = True"
| "conn_can_send_hangup_via_rtp connection_state.Terminating = True"
| "conn_can_send_hangup_via_rtp connection_state.Terminated = True"

primrec conn_terminating_or_terminated :: "connection_state \<Rightarrow> bool" where
  "conn_terminating_or_terminated connection_state.NotYetStarted = False"
| "conn_terminating_or_terminated connection_state.Starting = False"
| "conn_terminating_or_terminated connection_state.IceGathering = False"
| "conn_terminating_or_terminated connection_state.ConnectingBeforeAccepted = False"
| "conn_terminating_or_terminated connection_state.ConnectingAfterAccepted = False"
| "conn_terminating_or_terminated connection_state.ConnectedBeforeAccepted = False"
| "conn_terminating_or_terminated connection_state.ConnectedAndAccepted = False"
| "conn_terminating_or_terminated connection_state.ReconnectingAfterAccepted = False"
| "conn_terminating_or_terminated connection_state.IceFailed = False"
| "conn_terminating_or_terminated connection_state.Terminating = True"
| "conn_terminating_or_terminated connection_state.Terminated = True"

section \<open>Outcomes and events for the application\<close>

datatype call_end_reason =
    LocalHangup | RemoteHangup | RemoteHangupNeedPermission | RemoteHangupAccepted
  | RemoteHangupDeclined | RemoteHangupBusy | RemoteBusy | RemoteGlare | RemoteReCall
  | Timeout | InternalFailure | SignalingFailure | ConnectionFailure | AppDroppedCall
  | DeviceExplicitlyDisconnected | ServerExplicitlyDisconnected | DeniedRequestToJoinCall
  | RemovedFromCall | CallManagerIsBusy | SfuClientFailedToJoin
  | FailedToCreatePeerConnectionFactory | FailedToNegotiatedSrtpKeys
  | FailedToCreatePeerConnection | FailedToStartPeerConnection | FailedToUpdatePeerConnection
  | FailedToSetMaxSendBitrate | IceFailedWhileConnecting | IceFailedAfterConnected
  | ServerChangedDemuxId | HasMaxDevices

datatype application_event =
    LocalRinging | RemoteRinging | LocalAccepted | RemoteAccepted | RemoteAudioEnable
  | RemoteAudioDisable | RemoteVideoEnable | RemoteVideoDisable | RemoteSharingScreenEnable
  | RemoteSharingScreenDisable | Reconnecting | Reconnected | GlareHandlingFailure
  | ReceivedOfferExpired | ReceivedOfferWhileActive | ReceivedOfferWithGlare

section \<open>Direction, media type and data mode\<close>

text \<open>The conversions from \<open>i32\<close> of the first two panic outside the enumeration.\<close>

datatype call_direction = Incoming | Outgoing

definition call_direction_from_i32 :: "32 word \<Rightarrow> call_direction option" where
  "call_direction_from_i32 value =
     (if value = 0 then Some Incoming else if value = 1 then Some Outgoing else None)"

datatype call_media_type = Audio | Video

definition call_media_type_from_i32 :: "32 word \<Rightarrow> call_media_type option" where
  "call_media_type_from_i32 value =
     (if value = 0 then Some Audio else if value = 1 then Some Video else None)"

datatype data_mode =
    Low
  | Normal
  | Custom (max_bitrate_setting: data_rate) (max_group_call_receive_rate: data_rate)

definition data_mode_from_i32 :: "32 word \<Rightarrow> data_mode" where
  "data_mode_from_i32 value =
     (if value = 0 then Low else if value = 1 then Normal else Normal)"

definition max_bitrate :: "data_mode \<Rightarrow> data_rate" where
  "max_bitrate mode = (case mode of
     Low \<Rightarrow> from_kbps 300
   | Normal \<Rightarrow> from_kbps 2000
   | Custom max_bitrate _ \<Rightarrow> max_bitrate)"

text \<open>The fields of \<open>CallConfig\<close> that the modelled code reads.\<close>

record call_config =
  data_mode_of :: data_mode
  stats_interval_secs :: "16 word"
  stats_initial_offset_secs :: "16 word"
  call_summary_time_limit_secs :: "16 word"
  audio_encoder_config :: audio_encoder_config
  audio_decoder_config :: audio_decoder_config
  enable_tcc_audio :: bool
  enable_vp9_encode :: bool
  enable_vp9_decode :: bool

definition call_config_default :: call_config where
  "call_config_default =
     \<lparr> data_mode_of = Normal, stats_interval_secs = 10, stats_initial_offset_secs = 2,
       call_summary_time_limit_secs = 300, audio_encoder_config = audio_encoder_config_default,
       audio_decoder_config = audio_decoder_config_default, enable_tcc_audio = False,
       enable_vp9_encode = True, enable_vp9_decode = True \<rparr>"

definition with_data_mode :: "data_mode \<Rightarrow> call_config \<Rightarrow> call_config" where
  "with_data_mode mode c = c\<lparr>data_mode_of := mode\<rparr>"

definition with_enable_vp9_encode :: "bool \<Rightarrow> call_config \<Rightarrow> call_config" where
  "with_enable_vp9_encode b c = c\<lparr>enable_vp9_encode := b\<rparr>"

definition with_enable_vp9_decode :: "bool \<Rightarrow> call_config \<Rightarrow> call_config" where
  "with_enable_vp9_decode b c = c\<lparr>enable_vp9_decode := b\<rparr>"

definition with_dred_duration :: "8 word \<Rightarrow> call_config \<Rightarrow> call_config" where
  "with_dred_duration d c =
     c\<lparr>audio_encoder_config := (audio_encoder_config c)\<lparr>dred_duration := d\<rparr>\<rparr>"

end
