(* ===== verification/Signaling.thy ===== *)
theory Signaling
  imports Call_State
begin

text \<open>
  The messages of the signaling channel (\<open>core/signaling.rs\<close>): offers, answers, ICE updates and
  hangups. The protobuf codec is generated code: \<open>encode\<close> and \<open>decode\<close> are arguments of the
  operations that use them. Addresses are kept as their octets and port: the flow information and
  the scope of an IPv6 socket address are dropped, which no operation here reads or sends.
\<close>

section \<open>Addresses\<close>

datatype ip_addr = V4 bytes | V6 bytes

datatype socket_addr = SocketAddr (ip_of: ip_addr) (port_of: "16 word")

text \<open>An \<open>IpAddr\<close> has exactly 4 or 16 octets.\<close>

fun socket_addr_wf :: "socket_addr \<Rightarrow> bool" where
  "socket_addr_wf (SocketAddr (V4 octets) _) = (length octets = 4)"
| "socket_addr_wf (SocketAddr (V6 octets) _) = (length octets = 16)"

record socket_addr_proto =
  proto_ip :: "bytes option"
  proto_port :: "32 word option"

definition socket_addr_into :: "socket_addr \<Rightarrow> socket_addr_proto" where
  "socket_addr_into addr =
     \<lparr> proto_ip = Some (case ip_of addr of V4 v4 \<Rightarrow> v4 | V6 v6 \<Rightarrow> v6),
       proto_port = Some (ucast (port_of addr)) \<rparr>"

definition to_std :: "socket_addr_proto \<Rightarrow> socket_addr option" where
  "to_std p = (case proto_ip p of
     None \<Rightarrow> None
   | Some octets \<Rightarrow>
       (case (if length octets = 4 then Some (V4 octets)
              else if length octets = 16 then Some (V6 octets)
              else None) of
          None \<Rightarrow> None
        | Some ip \<Rightarrow>
            (case proto_port p of
               None \<Rightarrow> None
             | Some port \<Rightarrow>
                 if 65535 < port then None else Some (SocketAddr ip (ucast port)))))"

section \<open>ICE candidates\<close>

record ice_candidate_v3_proto =
  proto_sdp :: "string option"

record ice_candidate_proto =
  added_v3 :: "ice_candidate_v3_proto option"
  removed :: "socket_addr_proto option"

datatype ice_candidate = IceCandidate (ice_opaque: bytes)

datatype ice = Ice (candidates: "ice_candidate list")

type_synonym ice_encoder = "ice_candidate_proto \<Rightarrow> (bytes, ringrtc_error) result"
type_synonym ice_decoder = "bytes \<Rightarrow> ice_candidate_proto option"

definition from_v3_sdp :: "ice_encoder \<Rightarrow> string \<Rightarrow> (ice_candidate, ringrtc_error) result" where
  "from_v3_sdp encode sdp =
     (case encode \<lparr> added_v3 = Some \<lparr> proto_sdp = Some sdp \<rparr>, removed = None \<rparr> of
        Err e \<Rightarrow> Err e
      | Ok opaque \<Rightarrow> Ok (IceCandidate opaque))"

definition FAKE_SDP :: string where
  "FAKE_SDP = ''candidate:FAKE 1 tcp 0 127.0.0.1 0 typ host''"

definition from_removed_address ::
  "ice_encoder \<Rightarrow> socket_addr \<Rightarrow> (ice_candidate, ringrtc_error) result" where
  "from_removed_address encode removed_address =
     (case encode \<lparr> added_v3 = Some \<lparr> proto_sdp = Some FAKE_SDP \<rparr>,
                    removed = Some (socket_addr_into removed_address) \<rparr> of
        Err e \<Rightarrow> Err e
      | Ok opaque \<Rightarrow> Ok (IceCandidate opaque))"

definition v3_sdp :: "ice_decoder \<Rightarrow> ice_candidate \<Rightarrow> string option" where
  "v3_sdp decode c = (case decode (ice_opaque c) of
     None \<Rightarrow> None
   | Some p \<Rightarrow> (case added_v3 p of None \<Rightarrow> None | Some v3 \<Rightarrow> proto_sdp v3))"

definition removed_address :: "ice_decoder \<Rightarrow> ice_candidate \<Rightarrow> socket_addr option" where
  "removed_address decode c = (case decode (ice_opaque c) of
     None \<Rightarrow> None
   | Some p \<Rightarrow> (case removed p of None \<Rightarrow> None | Some a \<Rightarrow> to_std a))"

section \<open>Hangups\<close>

datatype hangup =
    Normal
  | AcceptedOnAnotherDevice device_id
  | DeclinedOnAnotherDevice device_id
  | BusyOnAnotherDevice device_id
  | NeedPermission "device_id option"

datatype hangup_type =
    Normal | AcceptedOnAnotherDevice | DeclinedOnAnotherDevice | BusyOnAnotherDevice
  | NeedPermission

primrec to_type_and_device_id :: "hangup \<Rightarrow> hangup_type \<times> device_id option" where
  "to_type_and_device_id hangup.Normal = (hangup_type.Normal, None)"
| "to_type_and_device_id (hangup.AcceptedOnAnotherDevice d) =
     (hangup_type.AcceptedOnAnotherDevice, Some d)"
| "to_type_and_device_id (hangup.DeclinedOnAnotherDevice d) =
     (hangup_type.DeclinedOnAnotherDevice, Some d)"
| "to_type_and_device_id (hangup.BusyOnAnotherDevice d) =
     (hangup_type.BusyOnAnotherDevice, Some d)"
| "to_type_and_device_id (hangup.NeedPermission d) = (hangup_type.NeedPermission, d)"

primrec from_type_and_device_id :: "hangup_type \<Rightarrow> device_id \<Rightarrow> hangup" where
  "from_type_and_device_id hangup_type.Normal d = hangup.Normal"
| "from_type_and_device_id hangup_type.AcceptedOnAnotherDevice d =
     hangup.AcceptedOnAnotherDevice d"
| "from_type_and_device_id hangup_type.DeclinedOnAnotherDevice d =
     hangup.DeclinedOnAnotherDevice d"
| "from_type_and_device_id hangup_type.BusyOnAnotherDevice d = hangup.BusyOnAnotherDevice d"
| "from_type_and_device_id hangup_type.NeedPermission d = hangup.NeedPermission (Some d)"

text \<open>The discriminants of \<open>HangupType\<close>, and their inverse.\<close>

primrec hangup_type_as_i32 :: "hangup_type \<Rightarrow> 32 word" where
  "hangup_type_as_i32 hangup_type.Normal = 0"
| "hangup_type_as_i32 hangup_type.AcceptedOnAnotherDevice = 1"
| "hangup_type_as_i32 hangup_type.DeclinedOnAnotherDevice = 2"
| "hangup_type_as_i32 hangup_type.BusyOnAnotherDevice = 3"
| "hangup_type_as_i32 hangup_type.NeedPermission = 4"

definition hangup_type_from_i32 :: "32 word \<Rightarrow> hangup_type option" where
  "hangup_type_from_i32 value =
     (if value = 0 then Some hangup_type.Normal
      else if value = 1 then Some hangup_type.AcceptedOnAnotherDevice
      else if value = 2 then Some hangup_type.DeclinedOnAnotherDevice
      else if value = 3 then Some hangup_type.BusyOnAnotherDevice
      else if value = 4 then Some hangup_type.NeedPermission
      else None)"

section \<open>Offers and answers\<close>

datatype video_codec_type = VP8 | VP9 | H264_CONSTRAINED_BASELINE | H264_CONSTRAINED_HIGH

record connection_parameters_v4 =
  public_key :: "bytes option"
  ice_ufrag :: "string option"
  ice_pwd :: "string option"
  receive_video_codecs :: "video_codec_type option list"
  max_bitrate_bps :: "64 word option"
  encode_only_video_codecs :: "video_codec_type option list"
  decode_only_video_codecs :: "video_codec_type option list"

text \<open>
  The protobuf messages \<open>Offer\<close> and \<open>Answer\<close> have one optional field, \<open>v4\<close>: they are its
  value.
\<close>

type_synonym v4_proto = "connection_parameters_v4 option"
type_synonym v4_encoder = "v4_proto \<Rightarrow> (bytes, ringrtc_error) result"
type_synonym v4_decoder = "bytes \<Rightarrow> (v4_proto, ringrtc_error) result"

record offer =
  offer_media_type :: call_media_type
  offer_opaque :: bytes
  offer_proto :: v4_proto

definition offer_new ::
  "v4_decoder \<Rightarrow> call_media_type \<Rightarrow> bytes \<Rightarrow> (offer, ringrtc_error) result" where
  "offer_new decode media_type opaque = (case decode opaque of
     Err e \<Rightarrow> Err e
   | Ok proto \<Rightarrow>
       Ok \<lparr> offer_media_type = media_type, offer_opaque = opaque, offer_proto = proto \<rparr>)"

definition offer_from_v4 ::
  "v4_encoder \<Rightarrow> v4_decoder \<Rightarrow> call_media_type \<Rightarrow> connection_parameters_v4
   \<Rightarrow> (offer, ringrtc_error) result" where
  "offer_from_v4 encode decode media_type v4 = (case encode (Some v4) of
     Err e \<Rightarrow> Err e
   | Ok opaque \<Rightarrow> offer_new decode media_type opaque)"

definition offer_to_v4 :: "offer \<Rightarrow> connection_parameters_v4 option" where
  "offer_to_v4 = offer_proto"

record answer =
  answer_opaque :: bytes
  answer_proto :: v4_proto

definition answer_new :: "v4_decoder \<Rightarrow> bytes \<Rightarrow> (answer, ringrtc_error) result" where
  "answer_new decode opaque = (case decode opaque of
     Err e \<Rightarrow> Err e
   | Ok proto \<Rightarrow> Ok \<lparr> answer_opaque = opaque, answer_proto = proto \<rparr>)"

definition answer_from_v4 ::
  "v4_encoder \<Rightarrow> v4_decoder \<Rightarrow> connection_parameters_v4 \<Rightarrow> (answer, ringrtc_error) result" where
  "answer_from_v4 encode decode v4 = (case encode (Some v4) of
     Err e \<Rightarrow> Err e
   | Ok opaque \<Rightarrow> answer_new decode opaque)"

definition answer_to_v4 :: "answer \<Rightarrow> connection_parameters_v4 option" where
  "answer_to_v4 = answer_proto"

section \<open>Sent and received messages\<close>

record received_offer =
  ro_offer :: offer
  ro_age :: nat
  ro_sender_device_id :: device_id
  ro_receiver_device_id :: device_id
  ro_sender_identity_key :: bytes
  ro_receiver_identity_key :: bytes

record received_answer =
  ra_answer :: answer
  ra_sender_device_id :: device_id
  ra_sender_identity_key :: bytes
  ra_receiver_identity_key :: bytes

record received_ice =
  ri_ice :: ice
  ri_sender_device_id :: device_id

record received_hangup =
  rh_hangup :: hangup
  rh_sender_device_id :: device_id

record sender_status =
  video_enabled :: "bool option"
  sharing_screen :: "bool option"
  audio_enabled :: "bool option"

definition sender_status_default :: sender_status where
  "sender_status_default =
     \<lparr> video_enabled = None, sharing_screen = None, audio_enabled = None \<rparr>"

section \<open>Round trips\<close>

lemma to_std_into: "socket_addr_wf addr \<Longrightarrow> to_std (socket_addr_into addr) = Some addr"
proof (cases addr)
  case (SocketAddr ip port)
  assume "socket_addr_wf addr"
  moreover have "ucast port \<le> (65535 :: 32 word)"
  proof -
    have "unat port < 2 ^ 16"
      using unsigned_less [where w = port and 'a = nat] by simp
    then show ?thesis
      by (simp add: word_le_nat_alt unsigned_ucast_eq take_bit_nat_eq_self)
  qed
  moreover have "ucast (ucast port :: 32 word) = port"
    by (rule bit_word_eqI) (simp add: bit_simps)
  ultimately show ?thesis
    using SocketAddr
    by (cases ip) (simp_all add: to_std_def socket_addr_into_def not_less)
qed

lemma to_std_wf: "to_std p = Some addr \<Longrightarrow> socket_addr_wf addr"
  by (auto simp: to_std_def split: option.splits if_splits)

lemma hangup_type_round_trip [simp]: "hangup_type_from_i32 (hangup_type_as_i32 t) = Some t"
  by (cases t) (simp_all add: hangup_type_from_i32_def)

text \<open>The identity of a hangup survives its wire form; an absent device id becomes 0.\<close>

lemma hangup_round_trip:
  assumes "to_type_and_device_id h = (t, d)"
  shows "from_type_and_device_id t (case d of Some d \<Rightarrow> d | None \<Rightarrow> 0)
     = (if h = hangup.NeedPermission None then hangup.NeedPermission (Some 0) else h)"
  using assms by (cases h) (auto split: option.splits)

end
