(* ===== verification/Event_Actor.thy ===== *)
theory Event_Actor
  imports Rtc_Prelude
begin

text \<open>
  How the state machines receive work: the bounded channel and its \<^emph>\<open>event stream\<close>
  (\<open>core/util.rs\<close>, on \<open>std::sync::mpsc::sync_channel\<close>), and the \<^emph>\<open>actor\<close> threads that run queued
  closures (\<open>common/actor.rs\<close>). A closure is its defunctionalised form, a value of type \<open>'f\<close>.
  The clock of the actors is an argument. The heap of delayed tasks is a list ordered by
  deadline; tasks of one deadline keep their order, a choice the standard library leaves open.
\<close>

section \<open>Event streams\<close>

datatype 'e event_stream = Active "'e list" | Ended "'e list"

definition CHANNEL_CAPACITY :: nat where
  "CHANNEL_CAPACITY = 256"

datatype try_send_error = Full | Disconnected

text \<open>Dropping the receiver, as \<open>close\<close> does, disconnects the channel.\<close>

fun try_send_event :: "'e \<Rightarrow> 'e event_stream \<Rightarrow> 'e event_stream \<times> (unit, try_send_error) result" where
  "try_send_event e (Active q) =
     (if length q < CHANNEL_CAPACITY then (Active (q @ [e]), Ok ()) else (Active q, Err Full))"
| "try_send_event e (Ended q) = (Ended q, Err Disconnected)"

text \<open>
  \<open>recv\<close> on an active stream waits for the next event; on an ended one it takes what was left
  and then reports the end.
\<close>

datatype 'e received = Received 'e | Waiting | Closed

fun recv :: "'e event_stream \<Rightarrow> 'e event_stream \<times> 'e received" where
  "recv (Active []) = (Active [], Waiting)"
| "recv (Active (e # q)) = (Active q, Received e)"
| "recv (Ended []) = (Ended [], Closed)"
| "recv (Ended (e # q)) = (Ended q, Received e)"

fun close_stream :: "'e event_stream \<Rightarrow> 'e event_stream" where
  "close_stream (Active q) = Ended q"
| "close_stream (Ended q) = Ended q"

fun stream_events :: "'e event_stream \<Rightarrow> 'e list" where
  "stream_events (Active q) = q"
| "stream_events (Ended q) = q"

fun stream_open :: "'e event_stream \<Rightarrow> bool" where
  "stream_open (Active q) = True"
| "stream_open (Ended q) = False"

lemma stream_events_close [simp]: "stream_events (close_stream s) = stream_events s"
  by (cases s) auto

lemma stream_open_close [simp]: "\<not> stream_open (close_stream s)"
  by (cases s) auto

lemma recv_events:
  "recv s = (s', Received e) \<Longrightarrow>
     stream_events s = e # stream_events s' \<and> stream_open s' = stream_open s"
  by (cases s rule: recv.cases) auto

lemma recv_none:
  "recv s = (s', r) \<Longrightarrow> r = Waiting \<or> r = Closed \<Longrightarrow> s' = s \<and> stream_events s = []"
  by (cases s rule: recv.cases) auto

section \<open>Actors\<close>

text \<open>\<open>None\<close> as a closure is the empty task that \<open>stop\<close> sends to wake the loop.\<close>

datatype 'f task = Task (run: "'f option") (deadline: "nat option")

definition immediate :: "'f option \<Rightarrow> 'f task" where
  "immediate f = Task f None"

definition delayed :: "'f option \<Rightarrow> nat \<Rightarrow> nat \<Rightarrow> 'f task" where
  "delayed f now delay = Task f (Some (now + delay))"

definition into_immediate :: "'f task \<Rightarrow> 'f task" where
  "into_immediate t = Task (run t) None"

definition is_delayed :: "'f task \<Rightarrow> bool" where
  "is_delayed t = (deadline t \<noteq> None)"

definition timeout :: "nat \<Rightarrow> 'f task \<Rightarrow> nat" where
  "timeout now t = (case deadline t of None \<Rightarrow> 0 | Some d \<Rightarrow> d - now)"

record 'f actor =
  inbox :: "'f task list"
  delayed_tasks :: "'f task list"
  stopped :: bool
  ended :: bool
  has_been_stopped :: bool

definition actor_start :: "'f actor" where
  "actor_start =
     \<lparr> inbox = [], delayed_tasks = [], stopped = False, ended = False, has_been_stopped = False \<rparr>"

text \<open>Sending to a thread that has ended is ignored.\<close>

definition send_task :: "'f task \<Rightarrow> 'f actor \<Rightarrow> 'f actor" where
  "send_task t a = (if ended a then a else a\<lparr>inbox := inbox a @ [t]\<rparr>)"

definition actor_send :: "'f \<Rightarrow> 'f actor \<Rightarrow> 'f actor" where
  "actor_send f = send_task (immediate (Some f))"

definition actor_send_delayed :: "nat \<Rightarrow> nat \<Rightarrow> 'f \<Rightarrow> 'f actor \<Rightarrow> 'f actor" where
  "actor_send_delayed now delay f = send_task (delayed (Some f) now delay)"

fun heap_push :: "'f task \<Rightarrow> 'f task list \<Rightarrow> 'f task list" where
  "heap_push t [] = [t]"
| "heap_push t (u # us) =
     (if the (deadline t) < the (deadline u) then t # u # us else u # heap_push t us)"

text \<open>
  One iteration of the thread's loop at time \<open>now\<close>: the task that is run, if any. An iteration
  that finds nothing to receive waits, that is, leaves the actor as it is.
\<close>

definition next_received :: "nat \<Rightarrow> 'f actor \<Rightarrow> ('f task \<times> 'f actor) option" where
  "next_received now a = (case inbox a of
     t # ts \<Rightarrow> Some (t, a\<lparr>inbox := ts\<rparr>)
   | [] \<Rightarrow> (case delayed_tasks a of
       [] \<Rightarrow> None
     | d # ds \<Rightarrow>
         if timeout now d = 0 then Some (into_immediate d, a\<lparr>delayed_tasks := ds\<rparr>) else None))"

definition actor_iterate :: "nat \<Rightarrow> 'f actor \<Rightarrow> 'f option \<times> 'f actor" where
  "actor_iterate now a =
     (if ended a then (None, a)
      else (case next_received now a of
        None \<Rightarrow> (None, a)
      | Some (t, a) \<Rightarrow>
          if stopped a then (None, a\<lparr>inbox := [], delayed_tasks := [], ended := True\<rparr>)
          else if is_delayed t then (None, a\<lparr>delayed_tasks := heap_push t (delayed_tasks a)\<rparr>)
          else (run t, a)))"

definition stop_actor :: "'f actor \<Rightarrow> 'f actor" where
  "stop_actor a = send_task (immediate None) (a\<lparr>stopped := True\<rparr>)"

definition stop_all_without_joining :: "'f actor \<Rightarrow> 'f actor" where
  "stop_all_without_joining a =
     (if has_been_stopped a then a else stop_actor (a\<lparr>has_been_stopped := True\<rparr>))"

text \<open>
  Joining waits for the thread: the next iteration is its last. A second call finds no thread
  to stop or to join.
\<close>

definition stop_all_and_join :: "nat \<Rightarrow> 'f actor \<Rightarrow> 'f actor" where
  "stop_all_and_join now a =
     (if has_been_stopped a then a
      else snd (actor_iterate now (stop_all_without_joining a)))"

text \<open>The tasks of an actor without delayed work, in the order they will run.\<close>

definition queued :: "'f actor \<Rightarrow> 'f list" where
  "queued a = List.map_filter run (inbox a)"

section \<open>What actors run\<close>

lemma actor_iterate_ended [simp]: "ended a \<Longrightarrow> actor_iterate now a = (None, a)"
  by (simp add: actor_iterate_def)

text \<open>Stopping ends the thread at once: nothing that was queued is run.\<close>

lemma stop_all_and_join_ended:
  assumes "\<not> has_been_stopped a"
  shows "ended (stop_all_and_join now a) \<and> fst (actor_iterate now (stop_all_without_joining a)) = None"
  using assms
  by (cases "inbox a")
     (auto simp: stop_all_and_join_def stop_all_without_joining_def stop_actor_def send_task_def
        actor_iterate_def next_received_def)

lemma has_been_stopped_stop [simp]: "has_been_stopped (stop_all_and_join now a)"
proof -
  have "has_been_stopped (stop_all_without_joining a)"
    by (simp add: stop_all_without_joining_def stop_actor_def send_task_def)
  moreover have "has_been_stopped (snd (actor_iterate now b)) = has_been_stopped b" for b :: "'a actor"
    by (auto simp: actor_iterate_def next_received_def split: list.splits)
  ultimately show ?thesis
    by (simp add: stop_all_and_join_def)
qed

text \<open>
  C28: stopping a running actor discards the tasks it still holds. The iteration that ends the
  thread runs no task and the thread runs none afterwards, whatever was queued or delayed.
\<close>

theorem stop_discards_queued_tasks:
  assumes "\<not> has_been_stopped a"
  shows "fst (actor_iterate now (stop_all_without_joining a)) = None
    \<and> (\<forall>later. actor_iterate later (stop_all_and_join now a) = (None, stop_all_and_join now a))"
  using stop_all_and_join_ended [OF assms] by simp

theorem stop_discards_queued_tasks_witness:
  "\<not> has_been_stopped (actor_send (7 :: nat) actor_start)
    \<and> queued (actor_send (7 :: nat) actor_start) = [7]
    \<and> actor_iterate 5 (stop_all_and_join 3 (actor_send (7 :: nat) actor_start))
        = (None, stop_all_and_join 3 (actor_send 7 actor_start))"
proof -
  have "\<not> has_been_stopped (actor_send (7 :: nat) actor_start)"
    by (simp add: actor_send_def send_task_def actor_start_def)
  moreover have "queued (actor_send (7 :: nat) actor_start) = [7]"
    by (simp add: queued_def actor_send_def send_task_def actor_start_def immediate_def
        map_filter_def)
  ultimately show ?thesis
    using stop_discards_queued_tasks [of "actor_send (7 :: nat) actor_start" 3] by simp
qed

lemma actor_iterate_immediate:
  assumes "\<not> ended a" "\<not> stopped a" "inbox a = immediate (Some f) # ts"
  shows "actor_iterate now a = (Some f, a\<lparr>inbox := ts\<rparr>)"
  using assms by (simp add: actor_iterate_def next_received_def is_delayed_def immediate_def)

lemma queued_send [simp]:
  "queued (actor_send f a) = (if ended a then queued a else queued a @ [f])"
  by (simp add: queued_def actor_send_def send_task_def immediate_def map_filter_def)

end
