(* ===== verification/Connection_Types.thy ===== *)
theory Connection_Types
  imports Signaling Event_Actor
begin

text \<open>
  The vocabulary of connections: network routes, the events of the two state machines
  (\<open>core/connection_fsm.rs\<close>, \<open>core/call_fsm.rs\<close>), the messages sent as RTP data, the parent call as
  a connection sees it, and the environment of a connection. WebRTC's \<open>PeerConnection\<close> and the
  generated protobuf codec are the record \<^emph>\<open>conn_ops\<close> of functions on an abstract state \<open>'pc\<close>;
  what the call manager does with a request is a function on an abstract state \<open>'m\<close>. An operation
  returns its state with its \<open>Result\<close>: what was done before an error stays done.
\<close>

section \<open>Network routes\<close>

datatype ice_connection_state =
    New | Checking | Connected | Completed | Failed | Disconnected | Closed | Max

datatype transport_protocol = Udp | Tcp | Tls | Unknown

datatype network_adapter_type =
    Unknown | Ethernet | Wifi | Cellular | Vpn | Loopback | Default | Cellular2G | Cellular3G
  | Cellular4G | Cellular5G

record network_route =
  local_adapter_type :: network_adapter_type
  local_adapter_type_under_vpn :: network_adapter_type
  local_relayed :: bool
  local_relay_protocol :: transport_protocol
  remote_relayed :: bool

section \<open>Events\<close>

text \<open>Media streams, application objects and condition variables are numbered handles.\<close>

datatype connection_observer_event =
    StateChanged connection_state
  | RemoteSenderStatusChanged sender_status
  | ReceivedHangup hangup
  | IceNetworkRouteChanged network_route
  | IceConnected
  | IceDisconnected
  | AudioLevels "16 word" "16 word"
  | LowBandwidthForVideo bool

datatype connection_event =
    ReceivedIce ice
  | ReceivedHangup call_id hangup
  | SendHangupViaRtpData hangup
  | Accept
  | ReceivedAcceptedViaRtpData call_id
  | ReceivedSenderStatusViaRtpData call_id sender_status "64 word"
  | ReceivedReceiverStatusViaRtpData call_id data_rate "64 word"
  | UpdateSenderStatus sender_status
  | UpdateDataMode data_mode
  | LocalIceCandidates "ice_candidate list"
  | IceConnected
  | IceFailed
  | IceDisconnected
  | IceNetworkRouteChanged network_route
  | InternalError ringrtc_error
  | ReceivedIncomingMedia nat
  | Synchronize nat
  | Terminate

datatype call_event =
    StartCall
  | AcceptCall
  | SendHangupViaRtpDataToAll hangup
  | Proceed call_config "nat option"
  | SendingOffer
  | SendingAnswer
  | ReceivedAnswer received_answer
  | ReceivedIce received_ice
  | ReceivedHangup received_hangup
  | ConnectionObserverEvent connection_observer_event device_id
  | ConnectionObserverError ringrtc_error device_id
  | InternalError ringrtc_error
  | CallTimeout
  | Synchronize nat
  | Terminate

section \<open>The parent call, as a connection sees it\<close>

datatype cm_request =
    CmStartCall call_direction call_media_type
  | CmNotifyApplication application_event
  | CmNotifyNetworkRouteChanged network_route
  | CmNotifyAudioLevels "16 word" "16 word"
  | CmNotifyLowBandwidthForVideo bool
  | CmInternalError ringrtc_error
  | CmConnectionFailure
  | CmTimeout
  | CmRemoteHangup "call_end_reason option"
  | CmSendOffer offer
  | CmSendAnswer answer device_id
  | CmSendBufferedLocalIceCandidates device_id bool
  | CmSendHangup hangup
  | CmConnectIncomingMedia nat nat
  | CmDisconnectIncomingMedia nat

type_synonym 'm call_manager = "call_id \<Rightarrow> cm_request \<Rightarrow> 'm \<Rightarrow> 'm \<times> (unit, ringrtc_error) result"

record 'm call_link =
  link_call_id :: call_id
  link_state :: call_state
  link_call_context :: "nat option"
  link_stream :: "call_event event_stream"
  manager :: 'm

text \<open>\<open>Call::inject_event\<close>; the statistics it feeds are not modelled.\<close>

definition inject_call_event ::
  "call_event \<Rightarrow> ('m, 'x) call_link_scheme \<Rightarrow> ('m, 'x) call_link_scheme \<times> (unit, ringrtc_error) result"
where
  "inject_call_event event p = (case try_send_event event (link_stream p) of
     (s, Ok _) \<Rightarrow> (p\<lparr>link_stream := s\<rparr>, Ok ())
   | (s, Err try_send_error.Disconnected) \<Rightarrow> (p\<lparr>link_stream := s\<rparr>, Ok ())
   | (s, Err Full) \<Rightarrow> (p\<lparr>link_stream := s\<rparr>, Err (Anyhow ''sending on a full channel'')))"

definition on_connection_observer_event ::
  "device_id \<Rightarrow> connection_observer_event \<Rightarrow> ('m, 'x) call_link_scheme
   \<Rightarrow> ('m, 'x) call_link_scheme \<times> (unit, ringrtc_error) result" where
  "on_connection_observer_event remote_device_id event =
     inject_call_event (ConnectionObserverEvent event remote_device_id)"

definition on_connection_observer_error ::
  "device_id \<Rightarrow> ringrtc_error \<Rightarrow> ('m, 'x) call_link_scheme
   \<Rightarrow> ('m, 'x) call_link_scheme \<times> (unit, ringrtc_error) result" where
  "on_connection_observer_error remote_device_id error =
     inject_call_event (ConnectionObserverError error remote_device_id)"

definition cm_call ::
  "'m call_manager \<Rightarrow> cm_request \<Rightarrow> ('m, 'x) call_link_scheme
   \<Rightarrow> ('m, 'x) call_link_scheme \<times> (unit, ringrtc_error) result" where
  "cm_call cm req p = (case cm (link_call_id p) req (manager p) of
     (m, r) \<Rightarrow> (p\<lparr>manager := m\<rparr>, r))"

definition send_buffered_local_ice_candidates ::
  "'m call_manager \<Rightarrow> device_id \<Rightarrow> bool \<Rightarrow> ('m, 'x) call_link_scheme
   \<Rightarrow> ('m, 'x) call_link_scheme \<times> (unit, ringrtc_error) result" where
  "send_buffered_local_ice_candidates cm remote_device_id broadcast p =
     (if link_state p = call_state.Terminating \<or> link_state p = call_state.Terminated then (p, Ok ())
      else cm_call cm (CmSendBufferedLocalIceCandidates remote_device_id broadcast) p)"

definition call_context ::
  "('m, 'x) call_link_scheme \<Rightarrow> (nat, ringrtc_error) result" where
  "call_context p = (case link_call_context p of
     Some v \<Rightarrow> Ok v
   | None \<Rightarrow> Err (OptionValueNotSet ''call_context()'' ''call_context''))"

definition connect_incoming_media ::
  "'m call_manager \<Rightarrow> nat \<Rightarrow> ('m, 'x) call_link_scheme
   \<Rightarrow> ('m, 'x) call_link_scheme \<times> (unit, ringrtc_error) result" where
  "connect_incoming_media cm media p = (case call_context p of
     Err e \<Rightarrow> (p, Err e)
   | Ok ctx \<Rightarrow> cm_call cm (CmConnectIncomingMedia ctx media) p)"

section \<open>RTP data messages\<close>

record rtp_accepted =
  acc_id :: "64 word option"

record rtp_hangup =
  hup_id :: "64 word option"
  hup_type :: "32 word option"
  hup_device_id :: "32 word option"

record rtp_sender_status =
  ss_id :: "64 word option"
  ss_video_enabled :: "bool option"
  ss_sharing_screen :: "bool option"
  ss_audio_enabled :: "bool option"

record rtp_receiver_status =
  rs_id :: "64 word option"
  rs_max_bitrate_bps :: "64 word option"

record rtp_message =
  msg_accepted :: "rtp_accepted option"
  msg_hangup :: "rtp_hangup option"
  msg_sender_status :: "rtp_sender_status option"
  msg_seqnum :: "64 word option"
  msg_receiver_status :: "rtp_receiver_status option"

definition rtp_message_default :: rtp_message where
  "rtp_message_default =
     \<lparr> msg_accepted = None, msg_hangup = None, msg_sender_status = None, msg_seqnum = None,
       msg_receiver_status = None \<rparr>"

text \<open>The generated accessor of an optional scalar: its value, or 0.\<close>

definition or_default :: "('a :: zero) option \<Rightarrow> 'a" where
  "or_default v = (case v of Some x \<Rightarrow> x | None \<Rightarrow> 0)"

text \<open>The generated accessor of the enumeration \<open>type\<close>: an unknown value reads as 0.\<close>

definition hup_type_accessor :: "rtp_hangup \<Rightarrow> 32 word" where
  "hup_type_accessor h =
     (case hangup_type_from_i32 (or_default (hup_type h)) of
        Some t \<Rightarrow> hangup_type_as_i32 t | None \<Rightarrow> 0)"

record rtp_header =
  pt :: "8 word"
  ssrc :: "32 word"
  rtp_seqnum :: "16 word"
  timestamp :: "32 word"

definition RTP_DATA_PAYLOAD_TYPE :: "8 word" where
  "RTP_DATA_PAYLOAD_TYPE = 101"

definition RTP_DATA_SSRC :: "32 word" where
  "RTP_DATA_SSRC = 0xD"

section \<open>The environment of a connection\<close>

record 'pc conn_ops =
  pc_set_send_rates :: "data_rate \<Rightarrow> 'pc \<Rightarrow> 'pc \<times> (unit, ringrtc_error) result"
  pc_send_rtp :: "rtp_header \<Rightarrow> bytes \<Rightarrow> 'pc \<Rightarrow> 'pc \<times> (unit, ringrtc_error) result"
  pc_add_ice_candidate_from_sdp :: "string \<Rightarrow> 'pc \<Rightarrow> 'pc \<times> (unit, ringrtc_error) result"
  pc_remove_ice_candidates :: "socket_addr list \<Rightarrow> 'pc \<Rightarrow> 'pc"
  pc_get_stats :: "'pc \<Rightarrow> 'pc"
  pc_get_audio_levels :: "'pc \<Rightarrow> 16 word \<times> 16 word list"
  pc_get_last_bandwidth_estimate :: "'pc \<Rightarrow> data_rate"
  pc_set_audio_playout_enabled :: "bool \<Rightarrow> 'pc \<Rightarrow> 'pc"
  pc_set_incoming_media_enabled :: "bool \<Rightarrow> 'pc \<Rightarrow> 'pc"
  pc_set_outgoing_media_enabled :: "bool \<Rightarrow> 'pc \<Rightarrow> 'pc"
  pc_set_audio_recording_enabled :: "bool \<Rightarrow> 'pc \<Rightarrow> 'pc"
  pc_regather_on_all_networks :: "'pc \<Rightarrow> 'pc"
  pc_close :: "'pc \<Rightarrow> 'pc"
  rtp_encode :: "rtp_message \<Rightarrow> (bytes, ringrtc_error) result"
  rtp_decode :: "bytes \<Rightarrow> (rtp_message, ringrtc_error) result"
  rtp_message_size :: nat
  ice_decode :: ice_decoder

end
