(* ===== verification/Connection.thy ===== *)
theory Connection
  imports Connection_Types
begin

text \<open>
  A connection to one remote device (\<open>core/connection.rs\<close>): its state, bandwidth limits, the
  accumulated message that it sends as RTP data, buffered ICE candidates, the periodic tick and
  the events it injects into its own state machine and into the queue of the parent call.
  Operations that reach the parent call work on the pair of the connection and the call's link.
  A lock that is poisoned because its holder panicked is not modelled. Of the three \<open>start_\<close>
  operations this theory holds the SRTP key negotiation; the operations themselves are in
  \<open>Connection_Start\<close>.
\<close>

section \<open>State\<close>

datatype connection_type = OutgoingParent | OutgoingChild | Incoming

record bandwidth_controller =
  local_mode :: data_mode
  remote_max :: "data_rate option"
  route :: network_route

record poll_stats_config =
  poll_stats_interval :: nat
  poll_stats_initial_offset :: nat
  poll_stats_interval_ticks :: nat
  poll_stats_initial_offset_ticks :: nat

datatype bwe_callback_state = CheckIfLow nat | CheckIfRecovered nat | Done

datatype stats_observer = StatsObserver (next_network_route: "network_route option")

record 'pc webrtc_data =
  peer_connection :: "'pc option"
  last_sent_rtp_data_timestamp :: "32 word"
  connection_ptr :: "nat option"
  incoming_media :: "nat option"
  app_connection :: "nat option"
  stats_observer :: "stats_observer option"

text \<open>
  The fields of a connection that its clones share behind an \<open>Arc\<close> are the state that all its
  threads act on. Two are not shared. \<open>bwe_state\<close> is a plain field, which every clone copies: only
  \<open>tick\<close> reads or writes it, on the one clone that \<open>start_tick\<close> hands to the tick actor, so
  the field below is the one of that clone. \<open>ticks_elapsed\<close> belongs to the tick actor itself.
\<close>

record 'pc connection =
  conn_call_id :: call_id
  remote_device_id :: device_id
  direction :: call_direction
  conn_state :: connection_state
  webrtc :: "'pc webrtc_data"
  bandwidth :: bandwidth_controller
  conn_config :: call_config
  audio_levels_interval :: "nat option"
  poll_config :: poll_stats_config
  buffered_local_ice_candidates :: "ice_candidate list"
  terminate_complete :: bool
  conn_type :: connection_type
  tick_context :: "unit actor"
  ticks_elapsed :: nat
  accumulated_rtp_data_message :: rtp_message
  last_received_rtp_data_timestamp :: "32 word"
  bwe_state :: bwe_callback_state
  conn_stream :: "connection_event event_stream"
  fsm_started :: bool

section \<open>Constants\<close>

definition TICK_INTERVAL_MILLIS :: nat where
  "TICK_INTERVAL_MILLIS = 200"

definition SEND_RTP_DATA_MESSAGE_INTERVAL_TICKS :: nat where
  "SEND_RTP_DATA_MESSAGE_INTERVAL_TICKS = 1000 div TICK_INTERVAL_MILLIS"

definition CHECK_BWE_INTERVAL_TICKS :: nat where
  "CHECK_BWE_INTERVAL_TICKS = 1000 div TICK_INTERVAL_MILLIS"

definition DELAYED_BWE_CHECK_INTERVAL_TICKS :: nat where
  "DELAYED_BWE_CHECK_INTERVAL_TICKS = 10000 div TICK_INTERVAL_MILLIS"

definition BWE_THRESHOLD_FOR_LOW_NOTIFICATION :: data_rate where
  "BWE_THRESHOLD_FOR_LOW_NOTIFICATION = from_kbps 60"

definition BWE_THRESHOLD_FOR_RECOVERED_NOTIFICATION :: data_rate where
  "BWE_THRESHOLD_FOR_RECOVERED_NOTIFICATION = from_kbps 70"

definition DELAY_FOR_RECOVERED_BWE_CALLBACK_TICKS :: nat where
  "DELAY_FOR_RECOVERED_BWE_CALLBACK_TICKS = 6000 div TICK_INTERVAL_MILLIS"

definition MIN_SEND_RATE :: data_rate where
  "MIN_SEND_RATE = from_kbps 30"

definition RELAYED_MAX_SEND_RATE :: data_rate where
  "RELAYED_MAX_SEND_RATE = from_mbps 1"

section \<open>Bandwidth limits\<close>

definition local_max :: "bandwidth_controller \<Rightarrow> data_rate" where
  "local_max b = max_bitrate (local_mode b)"

definition relay_max :: "bandwidth_controller \<Rightarrow> data_rate option" where
  "relay_max b =
     (if local_relayed (route b) \<or> remote_relayed (route b) then Some RELAYED_MAX_SEND_RATE else None)"

definition max_send_rate :: "bandwidth_controller \<Rightarrow> data_rate" where
  "max_send_rate b =
     max (min_opt (min_opt (local_max b) (remote_max b)) (relay_max b)) MIN_SEND_RATE"

definition poll_stats_config_new :: "16 word \<Rightarrow> 16 word \<Rightarrow> poll_stats_config" where
  "poll_stats_config_new interval_secs initial_offset_secs =
     \<lparr> poll_stats_interval = unat interval_secs,
       poll_stats_initial_offset = unat initial_offset_secs,
       poll_stats_interval_ticks = unat interval_secs * 1000 div TICK_INTERVAL_MILLIS,
       poll_stats_initial_offset_ticks = unat initial_offset_secs * 1000 div TICK_INTERVAL_MILLIS \<rparr>"

definition get_initial_offset :: "poll_stats_config \<Rightarrow> nat" where
  "get_initial_offset c =
     (if poll_stats_initial_offset c = 0 then poll_stats_interval c else poll_stats_initial_offset c)"

section \<open>Creation\<close>

definition unknown_route :: network_route where
  "unknown_route =
     \<lparr> local_adapter_type = network_adapter_type.Unknown,
       local_adapter_type_under_vpn = network_adapter_type.Unknown,
       local_relayed = False, local_relay_protocol = transport_protocol.Unknown,
       remote_relayed = False \<rparr>"

text \<open>\<open>ptr\<close> is the address that \<open>init_connection_ptr\<close> allocates.\<close>

definition connection_new ::
  "call_id \<Rightarrow> call_direction \<Rightarrow> device_id \<Rightarrow> connection_type \<Rightarrow> call_config \<Rightarrow> nat option \<Rightarrow> nat
   \<Rightarrow> 'pc connection" where
  "connection_new call_id dir remote_device ty config audio_levels ptr =
     \<lparr> conn_call_id = call_id,
       remote_device_id = remote_device,
       direction = dir,
       conn_state = connection_state.NotYetStarted,
       webrtc = \<lparr> peer_connection = None, last_sent_rtp_data_timestamp = 0,
                  connection_ptr = Some ptr, incoming_media = None, app_connection = None,
                  stats_observer = None \<rparr>,
       bandwidth = \<lparr> local_mode = data_mode_of config, remote_max = None, route = unknown_route \<rparr>,
       conn_config = config,
       audio_levels_interval = audio_levels,
       poll_config =
         poll_stats_config_new (stats_interval_secs config) (stats_initial_offset_secs config),
       buffered_local_ice_candidates = [],
       terminate_complete = False,
       conn_type = ty,
       tick_context = actor_start,
       ticks_elapsed = 0,
       accumulated_rtp_data_message = rtp_message_default,
       last_received_rtp_data_timestamp = 0,
       bwe_state = CheckIfLow 0,
       conn_stream = Active [], fsm_started = False \<rparr>"

section \<open>State and parent notifications\<close>

type_synonym ('pc, 'm, 'x) conn_pair = "'pc connection \<times> ('m, 'x) call_link_scheme"

definition notify_observer ::
  "connection_observer_event \<Rightarrow> ('pc, 'm, 'x) conn_pair
   \<Rightarrow> ('pc, 'm, 'x) conn_pair \<times> (unit, ringrtc_error) result" where
  "notify_observer event cp = (case cp of (c, p) \<Rightarrow>
     (case on_connection_observer_event (remote_device_id c) event p of (p, r) \<Rightarrow> ((c, p), r)))"

definition connection_internal_error ::
  "ringrtc_error \<Rightarrow> ('pc, 'm, 'x) conn_pair
   \<Rightarrow> ('pc, 'm, 'x) conn_pair \<times> (unit, ringrtc_error) result" where
  "connection_internal_error error cp = (case cp of (c, p) \<Rightarrow>
     (case on_connection_observer_error (remote_device_id c) error p of (p, r) \<Rightarrow> ((c, p), r)))"

definition set_state ::
  "connection_state \<Rightarrow> ('pc, 'm, 'x) conn_pair
   \<Rightarrow> ('pc, 'm, 'x) conn_pair \<times> (unit, ringrtc_error) result" where
  "set_state new_state cp = (case cp of (c, p) \<Rightarrow>
     if conn_state c \<noteq> new_state then
       notify_observer (StateChanged new_state) (c\<lparr>conn_state := new_state\<rparr>, p)
     else ((c, p), Ok ()))"

definition conn_terminating :: "'pc connection \<Rightarrow> bool" where
  "conn_terminating c = (conn_state c = connection_state.Terminating)"

definition can_send_messages :: "'pc connection \<Rightarrow> bool" where
  "can_send_messages c =
     (conn_state c \<noteq> connection_state.Terminating \<and> conn_state c \<noteq> connection_state.Terminated)"

text \<open>\<open>Connection::inject_event\<close>, into the connection's own state machine.\<close>

definition inject_event ::
  "connection_event \<Rightarrow> 'pc connection \<Rightarrow> 'pc connection \<times> (unit, ringrtc_error) result" where
  "inject_event event c = (case try_send_event event (conn_stream c) of
     (s, Ok _) \<Rightarrow> (c\<lparr>conn_stream := s\<rparr>, Ok ())
   | (s, Err try_send_error.Disconnected) \<Rightarrow> (c\<lparr>conn_stream := s\<rparr>, Ok ())
   | (s, Err Full) \<Rightarrow> (c\<lparr>conn_stream := s\<rparr>, Err (Anyhow ''sending on a full channel'')))"

definition inject_internal_error :: "ringrtc_error \<Rightarrow> 'pc connection \<Rightarrow> 'pc connection" where
  "inject_internal_error error c = fst (inject_event (connection_event.InternalError error) c)"

section \<open>The peer connection\<close>

text \<open>\<open>webrtc.peer_connection()?\<close> followed by a call on it.\<close>

definition with_peer_connection ::
  "('pc \<Rightarrow> 'pc \<times> ('a, ringrtc_error) result) \<Rightarrow> 'pc connection
   \<Rightarrow> 'pc connection \<times> ('a, ringrtc_error) result" where
  "with_peer_connection f c = (case peer_connection (webrtc c) of
     None \<Rightarrow> (c, Err (OptionValueNotSet ''peer_connection'' ''peer_connection''))
   | Some pc \<Rightarrow>
       (case f pc of (pc, r) \<Rightarrow> (c\<lparr>webrtc := (webrtc c)\<lparr>peer_connection := Some pc\<rparr>\<rparr>, r)))"

definition apply_bandwidth_controller ::
  "'pc conn_ops \<Rightarrow> 'pc connection \<Rightarrow> 'pc connection \<times> (unit, ringrtc_error) result" where
  "apply_bandwidth_controller ops c =
     with_peer_connection (pc_set_send_rates ops (max_send_rate (bandwidth c))) c"

definition update_bandwidth_controller ::
  "'pc conn_ops \<Rightarrow> (bandwidth_controller \<Rightarrow> bandwidth_controller \<times> bool) \<Rightarrow> 'pc connection
   \<Rightarrow> 'pc connection \<times> (bool, ringrtc_error) result" where
  "update_bandwidth_controller ops update c = (case update (bandwidth c) of (b, changed) \<Rightarrow>
     if changed then
       (case apply_bandwidth_controller ops (c\<lparr>bandwidth := b\<rparr>) of
          (c, Err e) \<Rightarrow> (c, Err e)
        | (c, Ok _) \<Rightarrow> (c, Ok changed))
     else (c\<lparr>bandwidth := b\<rparr>, Ok changed))"

definition set_remote_max_bitrate ::
  "'pc conn_ops \<Rightarrow> data_rate \<Rightarrow> 'pc connection \<Rightarrow> 'pc connection \<times> (unit, ringrtc_error) result" where
  "set_remote_max_bitrate ops rate c =
     (case update_bandwidth_controller ops
             (\<lambda>b. if remote_max b = Some rate then (b, False)
                  else (b\<lparr>remote_max := Some rate\<rparr>, True)) c of
        (c, Err e) \<Rightarrow> (c, Err e)
      | (c, Ok _) \<Rightarrow> (c, Ok ()))"

text \<open>A relevant change of the route is first reported to the statistics observer.\<close>

definition report_route_to_stats ::
  "'pc conn_ops \<Rightarrow> network_route \<Rightarrow> 'pc connection \<Rightarrow> 'pc connection" where
  "report_route_to_stats ops new_route c =
     (let old = route (bandwidth c) in
      if local_relayed old \<noteq> local_relayed new_route \<or> remote_relayed old \<noteq> remote_relayed new_route
        \<or> local_relay_protocol old \<noteq> local_relay_protocol new_route
      then
        (case stats_observer (webrtc c) of
           None \<Rightarrow> c
         | Some _ \<Rightarrow>
             c\<lparr>webrtc := (webrtc c)
                 \<lparr>stats_observer := Some (StatsObserver (Some new_route)),
                  peer_connection := map_option (pc_get_stats ops) (peer_connection (webrtc c))\<rparr>\<rparr>)
      else c)"

definition set_network_route ::
  "'pc conn_ops \<Rightarrow> network_route \<Rightarrow> 'pc connection
   \<Rightarrow> 'pc connection \<times> (unit, ringrtc_error) result" where
  "set_network_route ops new_route c =
     (case update_bandwidth_controller ops
             (\<lambda>b. if route b = new_route then (b, False) else (b\<lparr>route := new_route\<rparr>, True))
             (report_route_to_stats ops new_route c) of
        (c, Err e) \<Rightarrow> (c, Err e)
      | (c, Ok _) \<Rightarrow> (c, Ok ()))"

section \<open>Sending RTP data\<close>

definition send_via_rtp_data ::
  "'pc conn_ops \<Rightarrow> rtp_message \<Rightarrow> 'pc connection \<Rightarrow> 'pc connection \<times> (unit, ringrtc_error) result" where
  "send_via_rtp_data ops data c = (case rtp_encode ops data of
     Err e \<Rightarrow> (c, Err e)
   | Ok bytes \<Rightarrow>
       (let ts = last_sent_rtp_data_timestamp (webrtc c) + 1;
            header = \<lparr> pt = RTP_DATA_PAYLOAD_TYPE, ssrc = RTP_DATA_SSRC, rtp_seqnum = ucast ts,
                       timestamp = ts \<rparr>;
            c = c\<lparr>webrtc := (webrtc c)\<lparr>last_sent_rtp_data_timestamp := ts\<rparr>\<rparr>
        in with_peer_connection (\<lambda>pc. (fst (pc_send_rtp ops header bytes pc), Ok ())) c))"

definition update_and_send_rtp_data_message ::
  "'pc conn_ops \<Rightarrow> (rtp_message \<Rightarrow> rtp_message) \<Rightarrow> 'pc connection
   \<Rightarrow> 'pc connection \<times> (unit, ringrtc_error) result" where
  "update_and_send_rtp_data_message ops populate c =
     (let m = populate (accumulated_rtp_data_message c);
          m = m\<lparr>msg_seqnum := Some (or_default (msg_seqnum m) + 1)\<rparr>
      in send_via_rtp_data ops m (c\<lparr>accumulated_rtp_data_message := m\<rparr>))"

definition send_latest_rtp_data_message ::
  "'pc conn_ops \<Rightarrow> 'pc connection \<Rightarrow> 'pc connection \<times> (unit, ringrtc_error) result" where
  "send_latest_rtp_data_message ops c =
     (if accumulated_rtp_data_message c \<noteq> rtp_message_default
      then send_via_rtp_data ops (accumulated_rtp_data_message c) c
      else (c, Ok ()))"

definition send_hangup_via_rtp_data ::
  "'pc conn_ops \<Rightarrow> hangup \<Rightarrow> 'pc connection \<Rightarrow> 'pc connection \<times> (unit, ringrtc_error) result" where
  "send_hangup_via_rtp_data ops h c = (case to_type_and_device_id h of (ty, dev) \<Rightarrow>
     update_and_send_rtp_data_message ops
       (\<lambda>data. data\<lparr>msg_hangup := Some \<lparr> hup_id = Some (conn_call_id c),
                                       hup_type = Some (hangup_type_as_i32 ty),
                                       hup_device_id = dev \<rparr>\<rparr>) c)"

definition send_accepted_via_rtp_data ::
  "'pc conn_ops \<Rightarrow> 'pc connection \<Rightarrow> 'pc connection \<times> (unit, ringrtc_error) result" where
  "send_accepted_via_rtp_data ops c =
     update_and_send_rtp_data_message ops
       (\<lambda>data. data\<lparr>msg_accepted := Some \<lparr> acc_id = Some (conn_call_id c) \<rparr>\<rparr>) c"

text \<open>\<open>Option::or\<close>.\<close>

definition option_or :: "'a option \<Rightarrow> 'a option \<Rightarrow> 'a option" where
  "option_or a b = (case a of None \<Rightarrow> b | Some _ \<Rightarrow> a)"

definition merge_sender_status ::
  "call_id \<Rightarrow> sender_status \<Rightarrow> rtp_sender_status option \<Rightarrow> rtp_sender_status" where
  "merge_sender_status call_id updated previous =
     \<lparr> ss_id = Some call_id,
       ss_video_enabled =
         option_or (video_enabled updated) (Option.bind previous ss_video_enabled),
       ss_sharing_screen =
         option_or (sharing_screen updated) (Option.bind previous ss_sharing_screen),
       ss_audio_enabled =
         option_or (audio_enabled updated) (Option.bind previous ss_audio_enabled) \<rparr>"

definition update_sender_status_from_fsm ::
  "'pc conn_ops \<Rightarrow> sender_status \<Rightarrow> 'pc connection \<Rightarrow> 'pc connection \<times> (unit, ringrtc_error) result"
where
  "update_sender_status_from_fsm ops updated c =
     update_and_send_rtp_data_message ops
       (\<lambda>data. data\<lparr>msg_sender_status :=
          Some (merge_sender_status (conn_call_id c) updated (msg_sender_status data))\<rparr>) c"

definition update_data_mode ::
  "'pc conn_ops \<Rightarrow> data_mode \<Rightarrow> 'pc connection \<Rightarrow> 'pc connection \<times> (unit, ringrtc_error) result" where
  "update_data_mode ops mode c =
     (case update_bandwidth_controller ops
             (\<lambda>b. if local_mode b = mode then (b, False) else (b\<lparr>local_mode := mode\<rparr>, True)) c of
        (c, Err e) \<Rightarrow> (c, Err e)
      | (c, Ok changed) \<Rightarrow>
          if changed then
            update_and_send_rtp_data_message ops
              (\<lambda>data. data\<lparr>msg_receiver_status :=
                 Some \<lparr> rs_id = Some (conn_call_id c),
                        rs_max_bitrate_bps = Some (as_bps (max_bitrate mode)) \<rparr>\<rparr>) c
          else (c, Ok ()))"

section \<open>ICE candidates\<close>

definition buffer_local_ice_candidates ::
  "'m call_manager \<Rightarrow> ice_candidate list \<Rightarrow> ('pc, 'm, 'x) conn_pair
   \<Rightarrow> ('pc, 'm, 'x) conn_pair \<times> (unit, ringrtc_error) result" where
  "buffer_local_ice_candidates cm cands cp = (case cp of (c, p) \<Rightarrow>
     (let before = length (buffered_local_ice_candidates c);
          c = c\<lparr>buffered_local_ice_candidates := buffered_local_ice_candidates c @ cands\<rparr>;
          after = length (buffered_local_ice_candidates c)
      in if before = 0 \<and> 0 < after then
           (case send_buffered_local_ice_candidates cm (remote_device_id c)
                   (conn_type c = OutgoingParent) p of (p, r) \<Rightarrow> ((c, p), r))
         else ((c, p), Ok ())))"

definition take_buffered_local_ice_candidates ::
  "'pc connection \<Rightarrow> 'pc connection \<times> ice_candidate list" where
  "take_buffered_local_ice_candidates c =
     (c\<lparr>buffered_local_ice_candidates := []\<rparr>, buffered_local_ice_candidates c)"

text \<open>The classification of remote candidates into additions and removals, in order.\<close>

fun added_sdps :: "ice_decoder \<Rightarrow> ice_candidate list \<Rightarrow> string list" where
  "added_sdps dec [] = []"
| "added_sdps dec (cand # cands) =
     (case removed_address dec cand of
        Some _ \<Rightarrow> added_sdps dec cands
      | None \<Rightarrow> (case v3_sdp dec cand of
          Some sdp \<Rightarrow> sdp # added_sdps dec cands
        | None \<Rightarrow> added_sdps dec cands))"

fun removed_addresses :: "ice_decoder \<Rightarrow> ice_candidate list \<Rightarrow> socket_addr list" where
  "removed_addresses dec [] = []"
| "removed_addresses dec (cand # cands) =
     (case removed_address dec cand of
        Some a \<Rightarrow> a # removed_addresses dec cands
      | None \<Rightarrow> removed_addresses dec cands)"

definition add_and_remove_remote_ice_candidates ::
  "'pc conn_ops \<Rightarrow> ice_candidate list \<Rightarrow> 'pc \<Rightarrow> 'pc" where
  "add_and_remove_remote_ice_candidates ops cands pc =
     (let pc = fold (\<lambda>sdp pc. fst (pc_add_ice_candidate_from_sdp ops sdp pc))
                 (added_sdps (ice_decode ops) cands) pc;
          gone = removed_addresses (ice_decode ops) cands
      in if gone \<noteq> [] then pc_remove_ice_candidates ops gone pc else pc)"

definition connection_handle_received_ice ::
  "'pc conn_ops \<Rightarrow> ice \<Rightarrow> 'pc connection \<Rightarrow> 'pc connection \<times> (unit, ringrtc_error) result" where
  "connection_handle_received_ice ops msg c =
     with_peer_connection
       (\<lambda>pc. (add_and_remove_remote_ice_candidates ops (candidates msg) pc, Ok ())) c"

definition inject_local_ice_candidate ::
  "ice_candidate \<Rightarrow> bool \<Rightarrow> 'pc connection \<Rightarrow> 'pc connection \<times> (unit, ringrtc_error) result" where
  "inject_local_ice_candidate cand force_send c =
     (if \<not> force_send \<and> conn_type c = OutgoingChild then (c, Ok ())
      else inject_event (LocalIceCandidates [cand]) c)"

definition inject_local_ice_candidate_removed ::
  "ice_encoder \<Rightarrow> socket_addr \<Rightarrow> bool \<Rightarrow> 'pc connection
   \<Rightarrow> 'pc connection \<times> (unit, ringrtc_error) result" where
  "inject_local_ice_candidate_removed enc address force_send c =
     (if \<not> force_send \<and> conn_type c = OutgoingChild then (c, Ok ())
      else (case from_removed_address enc address of
        Ok cand \<Rightarrow> inject_event (LocalIceCandidates [cand]) c
      | Err _ \<Rightarrow> (c, Ok ())))"

definition handle_ice_connection_state_changed ::
  "ice_connection_state \<Rightarrow> 'pc connection \<Rightarrow> 'pc connection \<times> (unit, ringrtc_error) result" where
  "handle_ice_connection_state_changed new_state c = (case new_state of
     Completed \<Rightarrow> inject_event connection_event.IceConnected c
   | Connected \<Rightarrow> inject_event connection_event.IceConnected c
   | Failed \<Rightarrow> inject_event connection_event.IceFailed c
   | ice_connection_state.Disconnected \<Rightarrow> inject_event connection_event.IceDisconnected c
   | _ \<Rightarrow> (c, Ok ()))"

section \<open>Receiving RTP data\<close>

text \<open>Each of the four parts of a message injects its event; a failed injection is only logged.\<close>

definition inject_accepted_part :: "rtp_message \<Rightarrow> 'pc connection \<Rightarrow> 'pc connection" where
  "inject_accepted_part m c = (case msg_accepted m of
     None \<Rightarrow> c
   | Some acc \<Rightarrow>
       if direction c = call_direction.Outgoing
       then fst (inject_event (ReceivedAcceptedViaRtpData (or_default (acc_id acc))) c)
       else inject_internal_error (RtpDataProtocol ''Received 'accepted' for inbound call'') c)"

definition inject_hangup_part :: "rtp_message \<Rightarrow> 'pc connection \<Rightarrow> 'pc connection" where
  "inject_hangup_part m c = (case msg_hangup m of
     None \<Rightarrow> c
   | Some h \<Rightarrow>
       fst (inject_event (connection_event.ReceivedHangup (or_default (hup_id h))
         (from_type_and_device_id
            (case hangup_type_from_i32 (hup_type_accessor h) of
               Some t \<Rightarrow> t | None \<Rightarrow> hangup_type.Normal)
            (or_default (hup_device_id h)))) c))"

definition inject_sender_status_part :: "rtp_message \<Rightarrow> 'pc connection \<Rightarrow> 'pc connection" where
  "inject_sender_status_part m c = (case (msg_sender_status m, msg_seqnum m) of
     (Some ss, Some seqnum) \<Rightarrow>
       fst (inject_event (ReceivedSenderStatusViaRtpData (or_default (ss_id ss))
         \<lparr> video_enabled = ss_video_enabled ss, sharing_screen = ss_sharing_screen ss,
           audio_enabled = ss_audio_enabled ss \<rparr> seqnum) c)
   | _ \<Rightarrow> c)"

definition inject_receiver_status_part :: "rtp_message \<Rightarrow> 'pc connection \<Rightarrow> 'pc connection" where
  "inject_receiver_status_part m c = (case (msg_receiver_status m, msg_seqnum m) of
     (Some rs, Some seqnum) \<Rightarrow>
       fst (inject_event (ReceivedReceiverStatusViaRtpData (or_default (rs_id rs))
         (from_bps (or_default (rs_max_bitrate_bps rs))) seqnum) c)
   | _ \<Rightarrow> c)"

definition inject_received_via_rtp_data ::
  "'pc conn_ops \<Rightarrow> bytes \<Rightarrow> 'pc connection \<Rightarrow> 'pc connection" where
  "inject_received_via_rtp_data ops payload c =
     (if rtp_message_size ops * 2 < length payload then c
      else if payload = [] then c
      else (case rtp_decode ops payload of
        Err _ \<Rightarrow> c
      | Ok m \<Rightarrow>
          inject_receiver_status_part m (inject_sender_status_part m
            (inject_hangup_part m (inject_accepted_part m c)))))"

definition handle_rtp_received ::
  "'pc conn_ops \<Rightarrow> rtp_header \<Rightarrow> bytes \<Rightarrow> 'pc connection \<Rightarrow> 'pc connection" where
  "handle_rtp_received ops header payload c =
     (if pt header = RTP_DATA_PAYLOAD_TYPE \<and> ssrc header = RTP_DATA_SSRC then
        (if last_received_rtp_data_timestamp c \<le> timestamp header then
           inject_received_via_rtp_data ops payload
             (c\<lparr>last_received_rtp_data_timestamp := timestamp header\<rparr>)
         else c)
      else c)"

section \<open>Media\<close>

definition set_incoming_media ::
  "nat \<Rightarrow> 'pc connection \<Rightarrow> 'pc connection \<times> (unit, ringrtc_error) result" where
  "set_incoming_media media c = (case incoming_media (webrtc c) of
     Some _ \<Rightarrow> (c, Err (ActiveMediaStreamAlreadySet (remote_device_id c)))
   | None \<Rightarrow> (c\<lparr>webrtc := (webrtc c)\<lparr>incoming_media := Some media\<rparr>\<rparr>, Ok ()))"

definition set_app_connection ::
  "nat \<Rightarrow> 'pc connection \<Rightarrow> 'pc connection \<times> (unit, ringrtc_error) result" where
  "set_app_connection app c = (case app_connection (webrtc c) of
     Some _ \<Rightarrow> (c, Err (AppConnectionAlreadySet (remote_device_id c)))
   | None \<Rightarrow> (c\<lparr>webrtc := (webrtc c)\<lparr>app_connection := Some app\<rparr>\<rparr>, Ok ()))"

text \<open>The observer of RTP packets, which the pointer is made into, is the caller of \<open>handle_rtp_received\<close>.\<close>

definition set_peer_connection ::
  "'pc \<Rightarrow> 'pc connection \<Rightarrow> 'pc connection \<times> (unit, ringrtc_error) result" where
  "set_peer_connection pc c = (case connection_ptr (webrtc c) of
     None \<Rightarrow> (c, Err (OptionValueNotSet ''connection_ptr()'' ''connection_ptr''))
   | Some _ \<Rightarrow> (c\<lparr>webrtc := (webrtc c)\<lparr>peer_connection := Some pc\<rparr>\<rparr>, Ok ()))"

text \<open>\<open>create\<close> is the platform's \<open>create_incoming_media\<close>, reached through the call manager.\<close>

definition connection_handle_received_incoming_media ::
  "(nat \<Rightarrow> (nat, ringrtc_error) result) \<Rightarrow> nat \<Rightarrow> 'pc connection
   \<Rightarrow> 'pc connection \<times> (unit, ringrtc_error) result" where
  "connection_handle_received_incoming_media create media_stream c = (case create media_stream of
     Err e \<Rightarrow> (c, Err e)
   | Ok media \<Rightarrow> set_incoming_media media c)"

definition enable_media ::
  "'pc conn_ops \<Rightarrow> 'm call_manager \<Rightarrow> ('pc, 'm, 'x) conn_pair
   \<Rightarrow> ('pc, 'm, 'x) conn_pair \<times> (unit, ringrtc_error) result" where
  "enable_media ops cm cp = (case cp of (c, p) \<Rightarrow>
     (case with_peer_connection
             (\<lambda>pc. (pc_set_audio_recording_enabled ops True (pc_set_outgoing_media_enabled ops True
                (pc_set_incoming_media_enabled ops True (pc_set_audio_playout_enabled ops True pc))),
                Ok ())) c of
        (c, Err e) \<Rightarrow> ((c, p), Err e)
      | (c, Ok _) \<Rightarrow>
          (case incoming_media (webrtc c) of
             None \<Rightarrow> ((c, p), Err (OptionValueNotSet ''enable_media()'' ''webrtc.incoming_media''))
           | Some media \<Rightarrow> (case connect_incoming_media cm media p of (p, r) \<Rightarrow> ((c, p), r)))))"

definition regather_on_all_networks ::
  "'pc conn_ops \<Rightarrow> 'pc connection \<Rightarrow> 'pc connection \<times> (unit, ringrtc_error) result" where
  "regather_on_all_networks ops =
     with_peer_connection (\<lambda>pc. (pc_regather_on_all_networks ops pc, Ok ()))"

section \<open>The periodic tick\<close>

text \<open>
  \<open>tick\<close> is a sequence of parts; the first error ends it. A division by a zero statistics interval
  panics, the outcome \<^const>\<open>None\<close>. The observer is notified on a best-effort basis.
\<close>

type_synonym ('pc, 'm, 'x) tick_result =
  "(('pc, 'm, 'x) conn_pair \<times> (unit, ringrtc_error) result) option"

definition is_multiple_of :: "nat \<Rightarrow> nat \<Rightarrow> bool" where
  "is_multiple_of a b = (if b = 0 then a = 0 else a mod b = 0)"

definition tick_send ::
  "'pc conn_ops \<Rightarrow> nat \<Rightarrow> 'pc connection \<Rightarrow> 'pc connection \<times> (unit, ringrtc_error) result" where
  "tick_send ops ticks c =
     (if is_multiple_of ticks SEND_RTP_DATA_MESSAGE_INTERVAL_TICKS
      then send_latest_rtp_data_message ops c else (c, Ok ()))"

definition tick_stats ::
  "'pc conn_ops \<Rightarrow> nat \<Rightarrow> 'pc connection \<Rightarrow> ('pc connection \<times> (unit, ringrtc_error) result) option"
where
  "tick_stats ops ticks c =
     (let interval = poll_stats_interval_ticks (poll_config c) in
      if interval = 0 then None
      else if ticks mod interval = poll_stats_initial_offset_ticks (poll_config c) then
        (case stats_observer (webrtc c) of
           Some _ \<Rightarrow> Some (with_peer_connection (\<lambda>pc. (pc_get_stats ops pc, Ok ())) c)
         | None \<Rightarrow> Some (c, Ok ()))
      else Some (c, Ok ()))"

definition tick_audio ::
  "'pc conn_ops \<Rightarrow> nat \<Rightarrow> ('pc, 'm, 'x) conn_pair
   \<Rightarrow> ('pc, 'm, 'x) conn_pair \<times> (unit, ringrtc_error) result" where
  "tick_audio ops ticks cp = (case cp of (c, p) \<Rightarrow>
     (case audio_levels_interval c of
        None \<Rightarrow> ((c, p), Ok ())
      | Some millis \<Rightarrow>
          if is_multiple_of ticks (millis div TICK_INTERVAL_MILLIS) then
            (case with_peer_connection (\<lambda>pc. (pc, Ok (pc_get_audio_levels ops pc))) c of
               (c, Err e) \<Rightarrow> ((c, p), Err e)
             | (c, Ok (captured, levels)) \<Rightarrow>
                 (fst (notify_observer
                    (AudioLevels captured (case levels of [] \<Rightarrow> 0 | l # _ \<Rightarrow> l)) (c, p)), Ok ()))
          else ((c, p), Ok ())))"

definition sending_video :: "'pc connection \<Rightarrow> bool" where
  "sending_video c = (case msg_sender_status (accumulated_rtp_data_message c) of
     Some ss \<Rightarrow> ss_video_enabled ss = Some True
   | None \<Rightarrow> False)"

definition tick_bwe ::
  "'pc conn_ops \<Rightarrow> nat \<Rightarrow> ('pc, 'm, 'x) conn_pair
   \<Rightarrow> ('pc, 'm, 'x) conn_pair \<times> (unit, ringrtc_error) result" where
  "tick_bwe ops ticks cp = (case cp of (c, p) \<Rightarrow>
     if \<not> is_multiple_of ticks CHECK_BWE_INTERVAL_TICKS then ((c, p), Ok ())
     else (case bwe_state c of
       CheckIfLow delayed_check_tick \<Rightarrow>
         if sending_video c then
           (if conn_state c = connection_state.ConnectedAndAccepted then
              (if delayed_check_tick < ticks then
                 (case with_peer_connection (\<lambda>pc. (pc, Ok (pc_get_last_bandwidth_estimate ops pc))) c of
                    (c, Err e) \<Rightarrow> ((c, p), Err e)
                  | (c, Ok bwe) \<Rightarrow>
                      if bwe < BWE_THRESHOLD_FOR_LOW_NOTIFICATION then
                        (case fst (notify_observer (LowBandwidthForVideo False) (c, p)) of (c, p) \<Rightarrow>
                           ((c\<lparr>bwe_state := CheckIfRecovered ticks\<rparr>, p), Ok ()))
                      else ((c, p), Ok ()))
               else ((c, p), Ok ()))
            else
              ((c\<lparr>bwe_state := CheckIfLow (add64 ticks DELAYED_BWE_CHECK_INTERVAL_TICKS)\<rparr>, p), Ok ()))
         else ((c, p), Ok ())
     | CheckIfRecovered last_callback_tick \<Rightarrow>
         if add64 last_callback_tick DELAY_FOR_RECOVERED_BWE_CALLBACK_TICKS \<le> ticks then
           (case with_peer_connection (\<lambda>pc. (pc, Ok (pc_get_last_bandwidth_estimate ops pc))) c of
              (c, Err e) \<Rightarrow> ((c, p), Err e)
            | (c, Ok bwe) \<Rightarrow>
                if BWE_THRESHOLD_FOR_RECOVERED_NOTIFICATION < bwe then
                  (case fst (notify_observer (LowBandwidthForVideo True) (c, p)) of (c, p) \<Rightarrow>
                     ((c\<lparr>bwe_state := Done\<rparr>, p), Ok ()))
                else ((c, p), Ok ()))
         else ((c, p), Ok ())
     | Done \<Rightarrow> ((c, p), Ok ())))"

definition tick ::
  "'pc conn_ops \<Rightarrow> nat \<Rightarrow> ('pc, 'm, 'x) conn_pair \<Rightarrow> ('pc, 'm, 'x) tick_result" where
  "tick ops ticks cp = (case cp of (c, p) \<Rightarrow>
     (case tick_send ops ticks c of
        (c, Err e) \<Rightarrow> Some ((c, p), Err e)
      | (c, Ok _) \<Rightarrow>
          (case tick_stats ops ticks c of
             None \<Rightarrow> None
           | Some (c, Err e) \<Rightarrow> Some ((c, p), Err e)
           | Some (c, Ok _) \<Rightarrow>
               (case tick_audio ops ticks (c, p) of
                  (cp, Err e) \<Rightarrow> Some (cp, Err e)
                | (cp, Ok _) \<Rightarrow> Some (tick_bwe ops ticks cp)))))"

definition start_tick :: "nat \<Rightarrow> 'pc connection \<Rightarrow> 'pc connection" where
  "start_tick now c =
     c\<lparr>tick_context := actor_send_delayed now TICK_INTERVAL_MILLIS () (tick_context c)\<rparr>"

text \<open>What the tick actor runs: an error of \<open>tick\<close> is logged, and the next tick is scheduled.\<close>

definition tick_and_reschedule ::
  "'pc conn_ops \<Rightarrow> nat \<Rightarrow> ('pc, 'm, 'x) conn_pair \<Rightarrow> ('pc, 'm, 'x) conn_pair option" where
  "tick_and_reschedule ops now cp = (case cp of (c, p) \<Rightarrow>
     (let ticks = add64 (ticks_elapsed c) 1 in
      case tick ops ticks (c\<lparr>ticks_elapsed := ticks\<rparr>, p) of
        None \<Rightarrow> None
      | Some ((c, p), _) \<Rightarrow> Some (start_tick now c, p)))"

section \<open>Termination\<close>

definition inject_send_hangup_via_rtp_data ::
  "hangup \<Rightarrow> ('pc, 'm, 'x) conn_pair \<Rightarrow> ('pc, 'm, 'x) conn_pair \<times> (unit, ringrtc_error) result" where
  "inject_send_hangup_via_rtp_data h cp = (case set_state connection_state.Terminating cp of
     (cp, Err e) \<Rightarrow> (cp, Err e)
   | ((c, p), Ok _) \<Rightarrow> (case inject_event (SendHangupViaRtpData h) c of (c, r) \<Rightarrow> ((c, p), r)))"

text \<open>
  \<open>terminate\<close> up to and after its wait for the state machine: \<open>wait_for_terminate\<close> returns once
  \<open>terminate_complete\<close> is set.
\<close>

definition terminate_begin ::
  "('pc, 'm, 'x) conn_pair \<Rightarrow> ('pc, 'm, 'x) conn_pair \<times> (unit, ringrtc_error) result" where
  "terminate_begin cp = (case set_state connection_state.Terminating cp of
     (cp, Err e) \<Rightarrow> (cp, Err e)
   | ((c, p), Ok _) \<Rightarrow> (case inject_event connection_event.Terminate c of (c, r) \<Rightarrow> ((c, p), r)))"

definition notify_terminate_complete :: "'pc connection \<Rightarrow> 'pc connection" where
  "notify_terminate_complete c = c\<lparr>terminate_complete := True\<rparr>"

definition release_webrtc :: "'pc conn_ops \<Rightarrow> 'pc connection \<Rightarrow> 'pc connection" where
  "release_webrtc ops c =
     c\<lparr>webrtc := (webrtc c)\<lparr>peer_connection := map_option (pc_close ops) (peer_connection (webrtc c)),
         incoming_media := None, stats_observer := None, app_connection := None,
         connection_ptr := None\<rparr>\<rparr>"

definition terminate_finish ::
  "'pc conn_ops \<Rightarrow> nat \<Rightarrow> ('pc, 'm, 'x) conn_pair
   \<Rightarrow> ('pc, 'm, 'x) conn_pair \<times> (unit, ringrtc_error) result" where
  "terminate_finish ops now cp = (case set_state connection_state.Terminated cp of
     (cp, Err e) \<Rightarrow> (cp, Err e)
   | ((c, p), Ok _) \<Rightarrow>
       (let c = c\<lparr>tick_context := stop_all_and_join now (tick_context c)\<rparr> in
        ((release_webrtc ops c, p),
         case connection_ptr (webrtc c) of
           Some _ \<Rightarrow> Ok ()
         | None \<Rightarrow> Err (OptionValueNotSet ''close()'' ''connection_ptr''))))"

section \<open>SRTP key negotiation\<close>

text \<open>
  The Diffie-Hellman exchange yields the shared secret unless it is non-contributory; \<open>hkdf\<close> is
  HKDF-SHA256 with salt, input key, info and output length.
\<close>

record srtp_key =
  srtp_key_bytes :: bytes
  srtp_salt :: bytes

record negotiated_srtp_keys =
  offer_key :: srtp_key
  answer_key :: srtp_key

definition SRTP_KEY_SIZE :: nat where
  "SRTP_KEY_SIZE = 32"

definition SRTP_SALT_SIZE :: nat where
  "SRTP_SALT_SIZE = 12"

definition HKDF_INFO_PREFIX :: bytes where
  "HKDF_INFO_PREFIX = ascii ''Signal_Calling_20200807_SignallingDH_SRTPKey_KDF''"

definition negotiate_srtp_keys ::
  "('sk \<Rightarrow> bytes \<Rightarrow> bytes option) \<Rightarrow> (bytes \<Rightarrow> bytes \<Rightarrow> bytes \<Rightarrow> nat \<Rightarrow> bytes option)
   \<Rightarrow> 'sk \<Rightarrow> bytes \<Rightarrow> bytes \<Rightarrow> bytes \<Rightarrow> (negotiated_srtp_keys, ringrtc_error) result" where
  "negotiate_srtp_keys dh hkdf local_secret remote_public_key caller_identity_key
       callee_identity_key =
     (if length remote_public_key \<noteq> 32 then Err InvalidRemoteSrtpKey
      else (case dh local_secret remote_public_key of
        None \<Rightarrow> Err InvalidRemoteSrtpKey
      | Some shared_secret \<Rightarrow>
          (case hkdf (replicate 32 0) shared_secret
                  (HKDF_INFO_PREFIX @ caller_identity_key @ callee_identity_key)
                  (SRTP_KEY_SIZE + SRTP_SALT_SIZE + SRTP_KEY_SIZE + SRTP_SALT_SIZE) of
             None \<Rightarrow> Err SrtpKeyNegotiationFailure
           | Some okm \<Rightarrow>
               (let offer_k = take SRTP_KEY_SIZE okm; okm = drop SRTP_KEY_SIZE okm;
                    offer_s = take SRTP_SALT_SIZE okm; okm = drop SRTP_SALT_SIZE okm;
                    answer_k = take SRTP_KEY_SIZE okm; okm = drop SRTP_KEY_SIZE okm;
                    answer_s = take SRTP_SALT_SIZE okm
                in Ok \<lparr> offer_key = \<lparr> srtp_key_bytes = offer_k, srtp_salt = offer_s \<rparr>,
                        answer_key = \<lparr> srtp_key_bytes = answer_k, srtp_salt = answer_s \<rparr> \<rparr>))))"

end
