(* ===== verification/Session_Description.thy ===== *)
theory Session_Description
  imports Connection
begin

text \<open>
  Session descriptions (\<open>webrtc/sdp_observer.rs\<close>): the conversions between WebRTC's description
  objects and the V4 connection parameters that offers and answers carry. The C++ functions on
  descriptions and on a peer connection are the fields of \<open>sdp_ops\<close>; a failing C++ function
  returns no object.
\<close>

datatype rffi_video_codec_type = Vp8 | Vp9

record rffi_connection_parameters_v4 =
  rffi_ice_ufrag :: string
  rffi_ice_pwd :: string
  bidirectional_video_codecs :: "rffi_video_codec_type list"
  rffi_encode_only_video_codecs :: "rffi_video_codec_type list"
  rffi_decode_only_video_codecs :: "rffi_video_codec_type list"

record 'sd session_description =
  sd_rffi :: 'sd
  supports_asymmetric :: "bool option"

record ('pc, 'sd, 'ig) sdp_ops =
  ffi_disable_dtls_and_set_srtp_key :: "srtp_key \<Rightarrow> 'sd \<Rightarrow> 'sd \<times> bool"
  ffi_to_v4 :: "'sd \<Rightarrow> bool \<Rightarrow> bool \<Rightarrow> rffi_connection_parameters_v4 option"
  ffi_to_v4_legacy :: "'sd \<Rightarrow> bool \<Rightarrow> rffi_connection_parameters_v4 option"
  ffi_from_v4 :: "bool \<Rightarrow> rffi_connection_parameters_v4 \<Rightarrow> bool \<Rightarrow> bool \<Rightarrow> bool \<Rightarrow> bool \<Rightarrow> 'sd option"
  ffi_from_v4_legacy :: "bool \<Rightarrow> rffi_connection_parameters_v4 \<Rightarrow> bool \<Rightarrow> bool \<Rightarrow> 'sd option"
  pc_create_shared_ice_gatherer :: "'pc \<Rightarrow> 'pc \<times> ('ig, ringrtc_error) result"
  pc_use_shared_ice_gatherer :: "'ig \<Rightarrow> 'pc \<Rightarrow> 'pc \<times> (unit, ringrtc_error) result"
  pc_create_send_only_transceiver :: "'pc \<Rightarrow> 'pc \<times> bool"
  pc_create_offer :: "'pc \<Rightarrow> 'pc \<times> ('sd, ringrtc_error) result"
  pc_create_answer :: "'pc \<Rightarrow> 'pc \<times> ('sd, ringrtc_error) result"
  pc_set_local_description :: "'sd \<Rightarrow> 'pc \<Rightarrow> 'pc \<times> (unit, ringrtc_error) result"
  pc_set_remote_description :: "'sd \<Rightarrow> 'pc \<Rightarrow> 'pc \<times> (unit, ringrtc_error) result"
  pc_receive_rtp :: "8 word \<Rightarrow> bool \<Rightarrow> 'pc \<Rightarrow> 'pc \<times> (unit, ringrtc_error) result"
  pc_configure_audio_encoders :: "audio_encoder_config \<Rightarrow> 'pc \<Rightarrow> 'pc"
  pc_configure_audio_decoders :: "audio_decoder_config \<Rightarrow> 'pc \<Rightarrow> 'pc"

definition disable_dtls_and_set_srtp_key ::
  "('pc, 'sd, 'ig) sdp_ops \<Rightarrow> srtp_key \<Rightarrow> 'sd session_description
   \<Rightarrow> 'sd session_description \<times> (unit, ringrtc_error) result" where
  "disable_dtls_and_set_srtp_key S key sd =
     (case ffi_disable_dtls_and_set_srtp_key S key (sd_rffi sd) of (r, success) \<Rightarrow>
        (sd\<lparr>sd_rffi := r\<rparr>, if success then Ok () else Err MungeSdp))"

section \<open>To and from the V4 parameters\<close>

primrec rffi_codec_to_proto :: "rffi_video_codec_type \<Rightarrow> video_codec_type option" where
  "rffi_codec_to_proto Vp8 = Some VP8"
| "rffi_codec_to_proto Vp9 = Some VP9"

definition to_v4 ::
  "('pc, 'sd, 'ig) sdp_ops \<Rightarrow> bytes \<Rightarrow> call_config \<Rightarrow> data_mode \<Rightarrow> 'sd session_description
   \<Rightarrow> (connection_parameters_v4, ringrtc_error) result" where
  "to_v4 S key config mode sd = (case supports_asymmetric sd of
     None \<Rightarrow> Err (Anyhow ''Unexpectedly called SessionDescription::to_v4 in a group call context'')
   | Some asymmetric \<Rightarrow>
       (case (if asymmetric
              then ffi_to_v4 S (sd_rffi sd) (enable_vp9_encode config) (enable_vp9_decode config)
              else ffi_to_v4_legacy S (sd_rffi sd)
                     (enable_vp9_encode config \<and> enable_vp9_decode config)) of
          None \<Rightarrow> Err MungeSdp
        | Some v4 \<Rightarrow>
            Ok \<lparr> public_key = Some key,
                 ice_ufrag = Some (rffi_ice_ufrag v4),
                 ice_pwd = Some (rffi_ice_pwd v4),
                 receive_video_codecs = map rffi_codec_to_proto (bidirectional_video_codecs v4),
                 max_bitrate_bps = Some (as_bps (max_bitrate mode)),
                 encode_only_video_codecs = map rffi_codec_to_proto (rffi_encode_only_video_codecs v4),
                 decode_only_video_codecs = map rffi_codec_to_proto (rffi_decode_only_video_codecs v4) \<rparr>))"

text \<open>\<open>CString::new\<close> refuses an interior null character.\<close>

definition to_cstring :: "string option \<Rightarrow> (string, ringrtc_error) result" where
  "to_cstring s = (case s of
     None \<Rightarrow> Ok []
   | Some s \<Rightarrow>
       if CHR 0x00 \<in> set s then Err (Anyhow ''nul byte found in provided data'') else Ok s)"

primrec proto_to_rffi :: "video_codec_type option \<Rightarrow> rffi_video_codec_type option" where
  "proto_to_rffi None = None"
| "proto_to_rffi (Some t) = (if t = VP8 then Some Vp8 else if t = VP9 then Some Vp9 else None)"

definition sd_from_v4 ::
  "('pc, 'sd, 'ig) sdp_ops \<Rightarrow> bool \<Rightarrow> connection_parameters_v4 \<Rightarrow> call_config \<Rightarrow> bool
   \<Rightarrow> ('sd session_description, ringrtc_error) result" where
  "sd_from_v4 S offer v4 config is_v4_local = (case to_cstring (ice_ufrag v4) of
     Err e \<Rightarrow> Err e
   | Ok ufrag \<Rightarrow> (case to_cstring (ice_pwd v4) of
       Err e \<Rightarrow> Err e
     | Ok pwd \<Rightarrow>
         (let asymmetric = (encode_only_video_codecs v4 \<noteq> [] \<and> decode_only_video_codecs v4 \<noteq> []);
              codecs = List.map_filter proto_to_rffi;
              rffi_v4 = \<lparr> rffi_ice_ufrag = ufrag, rffi_ice_pwd = pwd,
                          bidirectional_video_codecs = codecs (receive_video_codecs v4),
                          rffi_encode_only_video_codecs =
                            (if asymmetric then codecs (encode_only_video_codecs v4) else []),
                          rffi_decode_only_video_codecs =
                            (if asymmetric then codecs (decode_only_video_codecs v4) else []) \<rparr>
          in case (if asymmetric
                   then ffi_from_v4 S offer rffi_v4 (enable_tcc_audio config)
                          (enable_vp9_encode config) (enable_vp9_decode config) is_v4_local
                   else ffi_from_v4_legacy S offer rffi_v4 (enable_tcc_audio config)
                          (enable_vp9_encode config \<and> enable_vp9_decode config)) of
               None \<Rightarrow> Err MungeSdp
             | Some sd \<Rightarrow> Ok \<lparr> sd_rffi = sd, supports_asymmetric = Some asymmetric \<rparr>)))"

definition sd_offer_from_v4 ::
  "('pc, 'sd, 'ig) sdp_ops \<Rightarrow> connection_parameters_v4 \<Rightarrow> call_config \<Rightarrow> bool
   \<Rightarrow> ('sd session_description, ringrtc_error) result" where
  "sd_offer_from_v4 S = sd_from_v4 S True"

definition sd_answer_from_v4 ::
  "('pc, 'sd, 'ig) sdp_ops \<Rightarrow> connection_parameters_v4 \<Rightarrow> call_config \<Rightarrow> bool
   \<Rightarrow> ('sd session_description, ringrtc_error) result" where
  "sd_answer_from_v4 S = sd_from_v4 S False"

text \<open>The codecs of a description survive their wire form.\<close>

lemma codecs_round_trip [simp]: "List.map_filter proto_to_rffi (map rffi_codec_to_proto cs) = cs"
proof (induction cs)
  case (Cons c cs)
  then show ?case
    by (cases c) (simp_all add: map_filter_simps)
qed (simp add: map_filter_simps)

end
