(* ===== verification/Connection_Start.thy ===== *)
theory Connection_Start
  imports Session_Description
begin

text \<open>
  How a connection starts (\<open>start_outgoing_parent\<close>, \<open>start_outgoing_child\<close>, \<open>start_incoming\<close> of
  \<open>core/connection.rs\<close>): the offer and the answer are made, the SRTP keys negotiated, and the peer
  connection configured with a local and a remote description. Each is a sequence of steps that
  the first error ends; the state machine is started in any case. The random secret is an argument;
  the Diffie-Hellman exchange, the key derivation and the codec of offers and answers are the
  fields of \<open>start_env\<close>.
\<close>

record 'sk start_env =
  env_public :: "'sk \<Rightarrow> bytes"
  env_dh :: "'sk \<Rightarrow> bytes \<Rightarrow> bytes option"
  env_hkdf :: "bytes \<Rightarrow> bytes \<Rightarrow> bytes \<Rightarrow> nat \<Rightarrow> bytes option"
  env_encode :: v4_encoder
  env_decode :: v4_decoder

definition on_pc ::
  "('pc \<Rightarrow> 'pc \<times> ('a, ringrtc_error) result) \<Rightarrow> ('pc, 'm, 'x) conn_pair
   \<Rightarrow> ('pc, 'm, 'x) conn_pair \<times> ('a, ringrtc_error) result" where
  "on_pc f cp = (case with_peer_connection f (fst cp) of (c, r) \<Rightarrow> ((c, snd cp), r))"

definition start_fsm :: "'pc connection \<Rightarrow> 'pc connection" where
  "start_fsm c = c\<lparr>fsm_started := True\<rparr>"

text \<open>The last step of the three functions.\<close>

definition finish_start ::
  "('pc, 'm, 'x) conn_pair \<times> 'r \<Rightarrow> ('pc, 'm, 'x) conn_pair \<times> 'r" where
  "finish_start res = (case res of ((c, p), r) \<Rightarrow> ((start_fsm c, p), r))"

section \<open>The outgoing parent\<close>

definition start_outgoing_parent ::
  "('pc, 'sd, 'ig) sdp_ops \<Rightarrow> 'sk start_env \<Rightarrow> 'sk \<Rightarrow> call_media_type \<Rightarrow> ('pc, 'm, 'x) conn_pair
   \<Rightarrow> ('pc, 'm, 'x) conn_pair \<times> ('sk \<times> 'ig \<times> offer, ringrtc_error) result" where
  "start_outgoing_parent S E secret media_type cp = finish_start (
     bind_ok (set_state connection_state.Starting cp) (\<lambda>_ cp.
     bind_ok (on_pc (pc_create_shared_ice_gatherer S) cp) (\<lambda>gatherer cp.
     bind_ok (on_pc (pc_use_shared_ice_gatherer S gatherer) cp) (\<lambda>_ cp.
     bind_ok (on_pc (pc_create_offer S) cp) (\<lambda>sd cp.
     bind_ok (cp, to_v4 S (env_public E secret) (conn_config (fst cp)) (data_mode_of (conn_config (fst cp)))
                    \<lparr> sd_rffi = sd, supports_asymmetric = Some True \<rparr>) (\<lambda>v4 cp.
     bind_ok (on_pc (pc_set_local_description S sd) cp) (\<lambda>_ cp.
     bind_ok (cp, offer_from_v4 (env_encode E) (env_decode E) media_type v4) (\<lambda>offer cp.
     bind_ok (set_state connection_state.IceGathering cp) (\<lambda>_ cp.
       (cp, Ok (secret, gatherer, offer)))))))))))"

section \<open>Common steps of a child and an incoming connection\<close>

definition create_stats_observer :: "('pc, 'm, 'x) conn_pair \<Rightarrow> ('pc, 'm, 'x) conn_pair" where
  "create_stats_observer cp = (case cp of (c, p) \<Rightarrow>
     (c\<lparr>webrtc := (webrtc c)\<lparr>stats_observer := Some (StatsObserver None)\<rparr>\<rparr>, p))"

definition set_remote_max :: "64 word option \<Rightarrow> ('pc, 'm, 'x) conn_pair \<Rightarrow> ('pc, 'm, 'x) conn_pair" where
  "set_remote_max bps cp = (case cp of (c, p) \<Rightarrow>
     (c\<lparr>bandwidth := (bandwidth c)\<lparr>remote_max := map_option from_bps bps\<rparr>\<rparr>, p))"

definition configure_audio ::
  "('pc, 'sd, 'ig) sdp_ops \<Rightarrow> ('pc, 'm, 'x) conn_pair
   \<Rightarrow> ('pc, 'm, 'x) conn_pair \<times> (unit, ringrtc_error) result" where
  "configure_audio S cp = on_pc (\<lambda>pc.
     (pc_configure_audio_decoders S (audio_decoder_config (conn_config (fst cp)))
        (pc_configure_audio_encoders S (audio_encoder_config (conn_config (fst cp))) pc), Ok ())) cp"

definition apply_bandwidth ::
  "'pc conn_ops \<Rightarrow> ('pc, 'm, 'x) conn_pair \<Rightarrow> ('pc, 'm, 'x) conn_pair \<times> (unit, ringrtc_error) result" where
  "apply_bandwidth ops cp = (case apply_bandwidth_controller ops (fst cp) of (c, r) \<Rightarrow> ((c, snd cp), r))"

section \<open>The outgoing child\<close>

text \<open>A peer without asymmetric codecs makes both descriptions fall back to the common ones.\<close>

definition negotiated_offer ::
  "connection_parameters_v4 \<Rightarrow> connection_parameters_v4 \<Rightarrow> connection_parameters_v4" where
  "negotiated_offer v4_offer v4_answer =
     (if encode_only_video_codecs v4_answer = [] \<or> decode_only_video_codecs v4_answer = []
      then v4_offer\<lparr>encode_only_video_codecs := [], decode_only_video_codecs := []\<rparr>
      else v4_offer)"

definition set_both_keys ::
  "('pc, 'sd, 'ig) sdp_ops \<Rightarrow> 'sk start_env \<Rightarrow> 'sk \<Rightarrow> bytes option \<Rightarrow> bytes \<Rightarrow> bytes
   \<Rightarrow> 'sd session_description \<times> 'sd session_description
   \<Rightarrow> ('sd session_description \<times> 'sd session_description, ringrtc_error) result" where
  "set_both_keys S E secret remote_public_key caller_identity_key callee_identity_key sds =
     (case sds of (offer, answer) \<Rightarrow>
       (case remote_public_key of
          None \<Rightarrow> Ok (offer, answer)
        | Some key \<Rightarrow>
            (case negotiate_srtp_keys (env_dh E) (env_hkdf E) secret key
                    caller_identity_key callee_identity_key of
               Err e \<Rightarrow> Err e
             | Ok keys \<Rightarrow>
                 (case disable_dtls_and_set_srtp_key S (offer_key keys) offer of
                    (offer, Err e) \<Rightarrow> Err e
                  | (offer, Ok _) \<Rightarrow>
                      (case disable_dtls_and_set_srtp_key S (answer_key keys) answer of
                         (answer, Err e) \<Rightarrow> Err e
                       | (answer, Ok _) \<Rightarrow> Ok (offer, answer))))))"

definition start_outgoing_child ::
  "'pc conn_ops \<Rightarrow> ('pc, 'sd, 'ig) sdp_ops \<Rightarrow> 'sk start_env \<Rightarrow> 'sk \<Rightarrow> 'ig \<Rightarrow> offer \<Rightarrow> received_answer
   \<Rightarrow> ('pc, 'm, 'x) conn_pair \<Rightarrow> ('pc, 'm, 'x) conn_pair \<times> (unit, ringrtc_error) result" where
  "start_outgoing_child ops S E secret gatherer offer received cp = finish_start (
     bind_ok (set_state connection_state.Starting cp) (\<lambda>_ cp.
     bind_ok (on_pc (pc_use_shared_ice_gatherer S gatherer) (create_stats_observer cp)) (\<lambda>_ cp.
     bind_ok (on_pc (\<lambda>pc. case pc_create_send_only_transceiver S pc of (pc, b) \<Rightarrow>
                (pc, if b then Ok () else Err (Anyhow ''Couldn't create send-only transceiver for video''))) cp)
       (\<lambda>_ cp.
     bind_ok (on_pc (pc_create_offer S) cp) (\<lambda>_ cp.
     (case (offer_to_v4 offer, answer_to_v4 (ra_answer received)) of
        (Some v4_offer, Some v4_answer) \<Rightarrow>
          (let cp = set_remote_max (max_bitrate_bps v4_answer) cp; config = conn_config (fst cp) in
           bind_ok (cp, sd_offer_from_v4 S (negotiated_offer v4_offer v4_answer) config True) (\<lambda>offer cp.
           bind_ok (cp, sd_answer_from_v4 S v4_answer config False) (\<lambda>answer cp.
           bind_ok (cp, set_both_keys S E secret (public_key v4_answer)
                          (ra_receiver_identity_key received) (ra_sender_identity_key received)
                          (offer, answer)) (\<lambda>sds cp.
           bind_ok (on_pc (pc_set_local_description S (sd_rffi (fst sds))) cp) (\<lambda>_ cp.
           bind_ok (on_pc (pc_receive_rtp S RTP_DATA_PAYLOAD_TYPE True) cp) (\<lambda>_ cp.
           bind_ok (on_pc (pc_set_remote_description S (sd_rffi (snd sds))) cp) (\<lambda>_ cp.
           bind_ok (configure_audio S cp) (\<lambda>_ cp.
           bind_ok (apply_bandwidth ops cp) (\<lambda>_ cp.
             set_state connection_state.ConnectingBeforeAccepted cp)))))))))
      | _ \<Rightarrow> (cp, Err UnknownSignaledProtocolVersion)))))))"

section \<open>The incoming connection\<close>

text \<open>The offer gets its key at once; the key of the answer is kept for the answer.\<close>

definition set_offer_key ::
  "('pc, 'sd, 'ig) sdp_ops \<Rightarrow> 'sk start_env \<Rightarrow> 'sk \<Rightarrow> bytes option \<Rightarrow> bytes \<Rightarrow> bytes
   \<Rightarrow> 'sd session_description
   \<Rightarrow> ('sd session_description \<times> srtp_key option, ringrtc_error) result" where
  "set_offer_key S E secret remote_public_key caller_identity_key callee_identity_key offer =
     (case remote_public_key of
        None \<Rightarrow> Ok (offer, None)
      | Some key \<Rightarrow>
          (case negotiate_srtp_keys (env_dh E) (env_hkdf E) secret key
                  caller_identity_key callee_identity_key of
             Err e \<Rightarrow> Err e
           | Ok keys \<Rightarrow>
               (case disable_dtls_and_set_srtp_key S (offer_key keys) offer of
                  (offer, Err e) \<Rightarrow> Err e
                | (offer, Ok _) \<Rightarrow> Ok (offer, Some (answer_key keys)))))"

definition set_answer_key ::
  "('pc, 'sd, 'ig) sdp_ops \<Rightarrow> srtp_key option \<Rightarrow> 'sd session_description
   \<Rightarrow> ('sd session_description, ringrtc_error) result" where
  "set_answer_key S key answer = (case key of
     None \<Rightarrow> Ok answer
   | Some key \<Rightarrow>
       (case disable_dtls_and_set_srtp_key S key answer of
          (answer, Err e) \<Rightarrow> Err e
        | (answer, Ok _) \<Rightarrow> Ok answer))"

definition start_incoming ::
  "'pc conn_ops \<Rightarrow> ('pc, 'sd, 'ig) sdp_ops \<Rightarrow> 'sk start_env \<Rightarrow> 'sk \<Rightarrow> received_offer \<Rightarrow> ice_candidate list
   \<Rightarrow> ('pc, 'm, 'x) conn_pair \<Rightarrow> ('pc, 'm, 'x) conn_pair \<times> (answer, ringrtc_error) result" where
  "start_incoming ops S E secret received remote_ice_candidates cp = finish_start (
     bind_ok (set_state connection_state.Starting cp) (\<lambda>_ cp.
     bind_ok (on_pc (\<lambda>pc. (pc, Ok ())) (create_stats_observer cp)) (\<lambda>_ cp.
     (case offer_to_v4 (ro_offer received) of
        None \<Rightarrow> (cp, Err UnknownSignaledProtocolVersion)
      | Some v4_offer \<Rightarrow>
          (let cp = set_remote_max (max_bitrate_bps v4_offer) cp; config = conn_config (fst cp) in
           bind_ok (cp, sd_offer_from_v4 S v4_offer config False) (\<lambda>offer cp.
           bind_ok (cp, set_offer_key S E secret (public_key v4_offer)
                          (ro_sender_identity_key received) (ro_receiver_identity_key received) offer)
             (\<lambda>(offer, key) cp.
           bind_ok (on_pc (pc_set_remote_description S (sd_rffi offer)) cp) (\<lambda>_ cp.
           bind_ok (on_pc (pc_create_answer S) cp) (\<lambda>sd cp.
           bind_ok (cp, set_answer_key S key
                          \<lparr> sd_rffi = sd, supports_asymmetric = supports_asymmetric offer \<rparr>) (\<lambda>answer cp.
           bind_ok (cp, to_v4 S (env_public E secret) config (local_mode (bandwidth (fst cp))) answer)
             (\<lambda>v4_answer cp.
           bind_ok (cp, sd_answer_from_v4 S v4_answer config True) (\<lambda>answer cp.
           bind_ok (cp, set_answer_key S key answer) (\<lambda>answer cp.
           bind_ok (cp, answer_from_v4 (env_encode E) (env_decode E) v4_answer) (\<lambda>answer_to_send cp.
           bind_ok (on_pc (pc_receive_rtp S RTP_DATA_PAYLOAD_TYPE False) cp) (\<lambda>_ cp.
           bind_ok (on_pc (pc_set_local_description S (sd_rffi answer)) cp) (\<lambda>_ cp.
           bind_ok (configure_audio S cp) (\<lambda>_ cp.
           bind_ok (apply_bandwidth ops cp) (\<lambda>_ cp.
           bind_ok (on_pc (\<lambda>pc. (add_and_remove_remote_ice_candidates ops remote_ice_candidates pc, Ok ())) cp)
             (\<lambda>_ cp.
           bind_ok (set_state connection_state.ConnectingBeforeAccepted cp) (\<lambda>_ cp.
             (cp, Ok answer_to_send)))))))))))))))))))))"

end
