(* ===== verification/Connection_Fsm.thy ===== *)
theory Connection_Fsm
  imports Connection
begin

text \<open>
  The state machine of a connection (\<open>core/connection_fsm.rs\<close>): every handler of an event, the
  closures it queues for its worker and notify threads, and the loop that feeds it. A handler
  works on the machine, the connection and the parent call's link, and receives the connection
  state that the loop read before dispatching. Logging is left out, and with it the reports of
  unexpected events, which have no other effect.
\<close>

section \<open>The machine\<close>

datatype conn_worker_task =
    WSendAccepted
  | WSendHangup hangup
  | WUpdateSenderStatus sender_status
  | WUpdateDataMode data_mode
  | WBufferLocalIceCandidates "ice_candidate list"
  | WReceivedIncomingMedia nat
  | WSync

datatype conn_notify_task =
    NObserverEvent connection_observer_event
  | NInternalError ringrtc_error
  | NSync

record conn_fsm =
  worker_thread :: "conn_worker_task actor"
  notify_thread :: "conn_notify_task actor"
  last_remote_sender_status :: "(64 word \<times> sender_status) option"
  last_remote_receiver_status :: "(64 word \<times> data_rate) option"
  synced :: "nat list"

definition conn_fsm_new :: conn_fsm where
  "conn_fsm_new =
     \<lparr> worker_thread = actor_start, notify_thread = actor_start, last_remote_sender_status = None,
       last_remote_receiver_status = None, synced = [] \<rparr>"

type_synonym ('pc, 'm, 'x) fsm_state =
  "conn_fsm \<times> 'pc connection \<times> ('m, 'x) call_link_scheme"

type_synonym ('pc, 'm, 'x) fsm_result =
  "('pc, 'm, 'x) fsm_state \<times> (unit, ringrtc_error) result"

definition worker_spawn :: "conn_worker_task \<Rightarrow> conn_fsm \<Rightarrow> conn_fsm" where
  "worker_spawn t f =
     (if has_been_stopped (worker_thread f) then f
      else f\<lparr>worker_thread := actor_send t (worker_thread f)\<rparr>)"

definition notify_spawn :: "conn_notify_task \<Rightarrow> conn_fsm \<Rightarrow> conn_fsm" where
  "notify_spawn t f =
     (if has_been_stopped (notify_thread f) then f
      else f\<lparr>notify_thread := actor_send t (notify_thread f)\<rparr>)"

definition drain_worker_thread :: "conn_fsm \<Rightarrow> conn_fsm" where
  "drain_worker_thread f = f\<lparr>worker_thread := stop_all_and_join 0 (worker_thread f)\<rparr>"

definition drain_notify_thread :: "conn_fsm \<Rightarrow> conn_fsm" where
  "drain_notify_thread f = f\<lparr>notify_thread := stop_all_and_join 0 (notify_thread f)\<rparr>"

definition fsm_notify_observer :: "connection_observer_event \<Rightarrow> conn_fsm \<Rightarrow> conn_fsm" where
  "fsm_notify_observer event = notify_spawn (NObserverEvent event)"

definition fsm_send_accepted_via_rtp_data :: "conn_fsm \<Rightarrow> conn_fsm" where
  "fsm_send_accepted_via_rtp_data = worker_spawn WSendAccepted"

section \<open>Status changes\<close>

definition handle_remote_receiver_status_changed ::
  "'pc conn_ops \<Rightarrow> data_rate \<Rightarrow> ('pc, 'm, 'x) conn_pair
   \<Rightarrow> ('pc, 'm, 'x) conn_pair \<times> (unit, ringrtc_error) result" where
  "handle_remote_receiver_status_changed ops rate cp = (case cp of (c, p) \<Rightarrow>
     (case set_remote_max_bitrate ops rate c of (c, r) \<Rightarrow> ((c, p), r)))"

definition handle_remote_sender_status_changed ::
  "sender_status \<Rightarrow> ('pc, 'm, 'x) conn_pair
   \<Rightarrow> ('pc, 'm, 'x) conn_pair \<times> (unit, ringrtc_error) result" where
  "handle_remote_sender_status_changed status = notify_observer (RemoteSenderStatusChanged status)"

definition handle_connected_and_accepted_for_the_first_time ::
  "'pc conn_ops \<Rightarrow> ('pc, 'm, 'x) fsm_state \<Rightarrow> ('pc, 'm, 'x) fsm_result" where
  "handle_connected_and_accepted_for_the_first_time ops st = (case st of (f, c, p) \<Rightarrow>
     (case set_state connection_state.ConnectedAndAccepted (c, p) of
        (cp, Err e) \<Rightarrow> ((f, cp), Err e)
      | (cp, Ok _) \<Rightarrow>
          (case (case last_remote_receiver_status f of
                   Some (_, rate) \<Rightarrow> handle_remote_receiver_status_changed ops rate cp
                 | None \<Rightarrow> (cp, Ok ())) of
             (cp, Err e) \<Rightarrow> ((f, cp), Err e)
           | (cp, Ok _) \<Rightarrow>
               (case (case last_remote_sender_status f of
                        Some (_, status) \<Rightarrow> handle_remote_sender_status_changed status cp
                      | None \<Rightarrow> (cp, Ok ())) of
                  (cp, Err e) \<Rightarrow> ((f, cp), Err e)
                | (cp, Ok _) \<Rightarrow>
                    ((if direction (fst cp) = call_direction.Incoming
                      then fsm_send_accepted_via_rtp_data f else f, cp), Ok ())))))"

definition handle_received_sender_status_via_rtp_data ::
  "connection_state \<Rightarrow> call_id \<Rightarrow> sender_status \<Rightarrow> 64 word \<Rightarrow> ('pc, 'm, 'x) fsm_state
   \<Rightarrow> ('pc, 'm, 'x) fsm_result" where
  "handle_received_sender_status_via_rtp_data state call_id status seqnum st =
     (case st of (f, c, p) \<Rightarrow>
        if conn_call_id c \<noteq> call_id then (st, Ok ())
        else
          (let stale = (case last_remote_sender_status f of
                          None \<Rightarrow> False | Some (last_seqnum, _) \<Rightarrow> seqnum \<le> last_seqnum);
               changed = (case last_remote_sender_status f of
                            None \<Rightarrow> True | Some (_, last_status) \<Rightarrow> last_status \<noteq> status)
           in if stale then (st, Ok ())
              else
                (let f = f\<lparr>last_remote_sender_status := Some (seqnum, status)\<rparr> in
                 if (state = connection_state.ConnectedAndAccepted
                     \<or> state = connection_state.ReconnectingAfterAccepted) \<and> changed
                 then (case handle_remote_sender_status_changed status (c, p) of (cp, r) \<Rightarrow> ((f, cp), r))
                 else ((f, c, p), Ok ()))))"

definition handle_received_receiver_status_via_rtp_data ::
  "'pc conn_ops \<Rightarrow> connection_state \<Rightarrow> call_id \<Rightarrow> data_rate \<Rightarrow> 64 word \<Rightarrow> ('pc, 'm, 'x) fsm_state
   \<Rightarrow> ('pc, 'm, 'x) fsm_result" where
  "handle_received_receiver_status_via_rtp_data ops state call_id rate seqnum st =
     (case st of (f, c, p) \<Rightarrow>
        if conn_call_id c \<noteq> call_id then (st, Ok ())
        else
          (let stale = (case last_remote_receiver_status f of
                          None \<Rightarrow> False | Some (last_seqnum, _) \<Rightarrow> seqnum \<le> last_seqnum);
               changed = (case last_remote_receiver_status f of
                            None \<Rightarrow> True | Some (_, last_rate) \<Rightarrow> rate \<noteq> last_rate)
           in if stale then (st, Ok ())
              else
                (let f = f\<lparr>last_remote_receiver_status := Some (seqnum, rate)\<rparr> in
                 if (state = connection_state.ConnectedAndAccepted
                     \<or> state = connection_state.ReconnectingAfterAccepted) \<and> changed
                 then (case handle_remote_receiver_status_changed ops rate (c, p) of (cp, r) \<Rightarrow> ((f, cp), r))
                 else ((f, c, p), Ok ()))))"

section \<open>Acceptance and hangups\<close>

definition handle_received_hangup ::
  "connection_state \<Rightarrow> call_id \<Rightarrow> hangup \<Rightarrow> ('pc, 'm, 'x) fsm_state \<Rightarrow> ('pc, 'm, 'x) fsm_result" where
  "handle_received_hangup state call_id h st = (case st of (f, c, p) \<Rightarrow>
     if conn_call_id c \<noteq> call_id then (st, Ok ())
     else if conn_connecting_or_connected state
     then ((fsm_notify_observer (connection_observer_event.ReceivedHangup h) f, c, p), Ok ())
     else (st, Ok ()))"

definition with_conn_state ::
  "connection_state \<Rightarrow> ('pc, 'm, 'x) fsm_state \<Rightarrow> ('pc, 'm, 'x) fsm_result" where
  "with_conn_state new_state st = (case st of (f, cp) \<Rightarrow>
     (case set_state new_state cp of (cp, r) \<Rightarrow> ((f, cp), r)))"

definition handle_received_accepted_via_rtp_data ::
  "'pc conn_ops \<Rightarrow> connection_state \<Rightarrow> call_id \<Rightarrow> ('pc, 'm, 'x) fsm_state \<Rightarrow> ('pc, 'm, 'x) fsm_result"
where
  "handle_received_accepted_via_rtp_data ops state call_id st = (case st of (f, c, p) \<Rightarrow>
     if conn_call_id c \<noteq> call_id then (st, Ok ())
     else (case state of
       connection_state.ConnectingBeforeAccepted \<Rightarrow>
         with_conn_state connection_state.ConnectingAfterAccepted st
     | connection_state.ConnectedBeforeAccepted \<Rightarrow>
         handle_connected_and_accepted_for_the_first_time ops st
     | _ \<Rightarrow> (st, Ok ())))"

definition handle_accept ::
  "'pc conn_ops \<Rightarrow> connection_state \<Rightarrow> ('pc, 'm, 'x) fsm_state \<Rightarrow> ('pc, 'm, 'x) fsm_result" where
  "handle_accept ops state st =
     (if conn_can_be_accepted_locally state
      then handle_connected_and_accepted_for_the_first_time ops st
      else (st, Ok ()))"

definition handle_send_hangup_via_rtp_data ::
  "connection_state \<Rightarrow> hangup \<Rightarrow> ('pc, 'm, 'x) fsm_state \<Rightarrow> ('pc, 'm, 'x) fsm_result" where
  "handle_send_hangup_via_rtp_data state h st = (case st of (f, c, p) \<Rightarrow>
     if conn_can_send_hangup_via_rtp state then ((worker_spawn (WSendHangup h) f, c, p), Ok ())
     else (st, Ok ()))"

definition handle_update_sender_status ::
  "connection_state \<Rightarrow> sender_status \<Rightarrow> ('pc, 'm, 'x) fsm_state \<Rightarrow> ('pc, 'm, 'x) fsm_result" where
  "handle_update_sender_status state status st = (case st of (f, c, p) \<Rightarrow>
     if conn_connected_or_reconnecting state
     then ((worker_spawn (WUpdateSenderStatus status) f, c, p), Ok ())
     else (st, Ok ()))"

definition handle_update_data_mode ::
  "connection_state \<Rightarrow> data_mode \<Rightarrow> ('pc, 'm, 'x) fsm_state \<Rightarrow> ('pc, 'm, 'x) fsm_result" where
  "handle_update_data_mode state mode st = (case st of (f, c, p) \<Rightarrow>
     if conn_connecting_or_connected state then ((worker_spawn (WUpdateDataMode mode) f, c, p), Ok ())
     else (st, Ok ()))"

section \<open>ICE\<close>

definition fsm_handle_received_ice ::
  "'pc conn_ops \<Rightarrow> connection_state \<Rightarrow> ice \<Rightarrow> ('pc, 'm, 'x) fsm_state \<Rightarrow> ('pc, 'm, 'x) fsm_result" where
  "fsm_handle_received_ice ops state msg st = (case st of (f, c, p) \<Rightarrow>
     if state = connection_state.NotYetStarted then (st, Ok ())
     else if conn_can_receive_ice_candidates state then
       (case connection_handle_received_ice ops msg c of (c, r) \<Rightarrow> ((f, c, p), r))
     else (st, Ok ()))"

definition handle_local_ice_candidates ::
  "connection_state \<Rightarrow> ice_candidate list \<Rightarrow> ('pc, 'm, 'x) fsm_state \<Rightarrow> ('pc, 'm, 'x) fsm_result" where
  "handle_local_ice_candidates state cands st = (case st of (f, c, p) \<Rightarrow>
     if conn_can_send_ice_candidates state
     then ((worker_spawn (WBufferLocalIceCandidates cands) f, c, p), Ok ())
     else (st, Ok ()))"

definition handle_ice_connected ::
  "'pc conn_ops \<Rightarrow> connection_state \<Rightarrow> ('pc, 'm, 'x) fsm_state \<Rightarrow> ('pc, 'm, 'x) fsm_result" where
  "handle_ice_connected ops state st = (case st of (f, c, p) \<Rightarrow>
     (let st = (fsm_notify_observer connection_observer_event.IceConnected f, c, p) in
      case state of
        connection_state.ConnectingBeforeAccepted \<Rightarrow>
          with_conn_state connection_state.ConnectedBeforeAccepted st
      | connection_state.ConnectingAfterAccepted \<Rightarrow>
          handle_connected_and_accepted_for_the_first_time ops st
      | connection_state.ReconnectingAfterAccepted \<Rightarrow>
          with_conn_state connection_state.ConnectedAndAccepted st
      | _ \<Rightarrow> (st, Ok ())))"

definition fsm_handle_ice_failed ::
  "connection_state \<Rightarrow> ('pc, 'm, 'x) fsm_state \<Rightarrow> ('pc, 'm, 'x) fsm_result" where
  "fsm_handle_ice_failed state st =
     (if conn_connecting_or_connected state then with_conn_state connection_state.IceFailed st
      else (st, Ok ()))"

definition handle_ice_disconnected ::
  "connection_state \<Rightarrow> ('pc, 'm, 'x) fsm_state \<Rightarrow> ('pc, 'm, 'x) fsm_result" where
  "handle_ice_disconnected state st = (case st of (f, c, p) \<Rightarrow>
     (let st = (fsm_notify_observer connection_observer_event.IceDisconnected f, c, p) in
      case state of
        connection_state.ConnectedBeforeAccepted \<Rightarrow>
          with_conn_state connection_state.ConnectingBeforeAccepted st
      | connection_state.ConnectedAndAccepted \<Rightarrow>
          with_conn_state connection_state.ReconnectingAfterAccepted st
      | _ \<Rightarrow> (st, Ok ())))"

definition handle_ice_network_route_changed ::
  "'pc conn_ops \<Rightarrow> network_route \<Rightarrow> ('pc, 'm, 'x) fsm_state \<Rightarrow> ('pc, 'm, 'x) fsm_result" where
  "handle_ice_network_route_changed ops new_route st = (case st of (f, c, p) \<Rightarrow>
     (case set_network_route ops new_route c of
        (c, Err e) \<Rightarrow> ((f, c, p), Err e)
      | (c, Ok _) \<Rightarrow>
          ((fsm_notify_observer (connection_observer_event.IceNetworkRouteChanged new_route) f, c, p),
           Ok ())))"

section \<open>Errors, media, synchronisation and termination\<close>

definition handle_internal_error ::
  "ringrtc_error \<Rightarrow> ('pc, 'm, 'x) fsm_state \<Rightarrow> ('pc, 'm, 'x) fsm_result" where
  "handle_internal_error error st = (case st of (f, c, p) \<Rightarrow>
     ((notify_spawn (NInternalError error) f, c, p), Ok ()))"

definition fsm_handle_received_incoming_media ::
  "connection_state \<Rightarrow> nat \<Rightarrow> ('pc, 'm, 'x) fsm_state \<Rightarrow> ('pc, 'm, 'x) fsm_result" where
  "fsm_handle_received_incoming_media state media_stream st = (case st of (f, c, p) \<Rightarrow>
     if conn_connecting_or_connected state
     then ((worker_spawn (WReceivedIncomingMedia media_stream) f, c, p), Ok ())
     else (st, Ok ()))"

text \<open>
  \<open>handle_synchronize\<close>, used by tests only: a marker is sent to both threads and waited for. A
  thread that has ended never runs it, which is an error; the wait of at most two seconds is not
  modelled.
\<close>

definition handle_synchronize ::
  "nat \<Rightarrow> ('pc, 'm, 'x) fsm_state \<Rightarrow> ('pc, 'm, 'x) fsm_result" where
  "handle_synchronize sync st = (case st of (f, c, p) \<Rightarrow>
     if ended (worker_thread f) then (st, Err (Anyhow ''channel is empty and sending half is closed''))
     else
       (let f = f\<lparr>worker_thread := actor_send WSync (worker_thread f)\<rparr> in
        if ended (notify_thread f)
        then ((f, c, p), Err (Anyhow ''channel is empty and sending half is closed''))
        else ((f\<lparr>notify_thread := actor_send NSync (notify_thread f), synced := synced f @ [sync]\<rparr>,
               c, p), Ok ())))"

definition handle_terminate :: "('pc, 'm, 'x) fsm_state \<Rightarrow> ('pc, 'm, 'x) fsm_result" where
  "handle_terminate st = (case st of (f, c, p) \<Rightarrow>
     ((drain_notify_thread (drain_worker_thread f),
       notify_terminate_complete (c\<lparr>conn_stream := close_stream (conn_stream c)\<rparr>), p), Ok ()))"

section \<open>Dispatch\<close>

definition handle_event ::
  "'pc conn_ops \<Rightarrow> connection_state \<Rightarrow> connection_event \<Rightarrow> ('pc, 'm, 'x) fsm_state
   \<Rightarrow> ('pc, 'm, 'x) fsm_result" where
  "handle_event ops state event st = (case event of
     SendHangupViaRtpData h \<Rightarrow> handle_send_hangup_via_rtp_data state h st
   | connection_event.Terminate \<Rightarrow> handle_terminate st
   | connection_event.Synchronize sync \<Rightarrow> handle_synchronize sync st
   | _ \<Rightarrow>
       if conn_terminating_or_terminated state then (st, Ok ())
       else (case event of
         connection_event.ReceivedHangup call_id h \<Rightarrow> handle_received_hangup state call_id h st
       | Accept \<Rightarrow> handle_accept ops state st
       | ReceivedAcceptedViaRtpData call_id \<Rightarrow>
           handle_received_accepted_via_rtp_data ops state call_id st
       | ReceivedSenderStatusViaRtpData call_id status seqnum \<Rightarrow>
           handle_received_sender_status_via_rtp_data state call_id status seqnum st
       | ReceivedReceiverStatusViaRtpData call_id rate seqnum \<Rightarrow>
           handle_received_receiver_status_via_rtp_data ops state call_id rate seqnum st
       | connection_event.ReceivedIce msg \<Rightarrow> fsm_handle_received_ice ops state msg st
       | UpdateSenderStatus status \<Rightarrow> handle_update_sender_status state status st
       | UpdateDataMode mode \<Rightarrow> handle_update_data_mode state mode st
       | LocalIceCandidates cands \<Rightarrow> handle_local_ice_candidates state cands st
       | connection_event.IceConnected \<Rightarrow> handle_ice_connected ops state st
       | connection_event.IceFailed \<Rightarrow> fsm_handle_ice_failed state st
       | connection_event.IceDisconnected \<Rightarrow> handle_ice_disconnected state st
       | connection_event.IceNetworkRouteChanged new_route \<Rightarrow>
           handle_ice_network_route_changed ops new_route st
       | connection_event.InternalError error \<Rightarrow> handle_internal_error error st
       | ReceivedIncomingMedia media_stream \<Rightarrow> fsm_handle_received_incoming_media state media_stream st
       | _ \<Rightarrow> (st, Ok ())))"

text \<open>
  One turn of \<open>run\<close>: the next event is taken, the state is read, and the event is handled; an error
  is logged. \<^const>\<open>None\<close> is the end of the loop.
\<close>

definition run_once ::
  "'pc conn_ops \<Rightarrow> ('pc, 'm, 'x) fsm_state \<Rightarrow> ('pc, 'm, 'x) fsm_state option" where
  "run_once ops st = (case st of (f, c, p) \<Rightarrow>
     (case recv (conn_stream c) of
        (s, Received event) \<Rightarrow>
          Some (fst (handle_event ops (conn_state c) event (f, c\<lparr>conn_stream := s\<rparr>, p)))
      | (s, Waiting) \<Rightarrow> Some st
      | (s, received.Closed) \<Rightarrow> None))"

section \<open>The worker and notify threads\<close>

text \<open>
  A closure of the worker thread does nothing once the connection is terminating, the hangup
  apart; an error it meets is injected as an internal error. \<open>create\<close> is the platform's
  \<open>create_incoming_media\<close>.
\<close>

definition worker_task_body ::
  "'pc conn_ops \<Rightarrow> 'm call_manager \<Rightarrow> (nat \<Rightarrow> (nat, ringrtc_error) result) \<Rightarrow> conn_worker_task
   \<Rightarrow> ('pc, 'm, 'x) conn_pair \<Rightarrow> ('pc, 'm, 'x) conn_pair \<times> (unit, ringrtc_error) result" where
  "worker_task_body ops cm create t cp = (case cp of (c, p) \<Rightarrow>
     (case t of
        WSendHangup h \<Rightarrow> (case send_hangup_via_rtp_data ops h c of (c, r) \<Rightarrow> ((c, p), r))
      | WSync \<Rightarrow> (cp, Ok ())
      | _ \<Rightarrow>
          if conn_terminating c then (cp, Ok ())
          else (case t of
            WSendAccepted \<Rightarrow> (case send_accepted_via_rtp_data ops c of (c, r) \<Rightarrow> ((c, p), r))
          | WUpdateSenderStatus status \<Rightarrow>
              (case update_sender_status_from_fsm ops status c of (c, r) \<Rightarrow> ((c, p), r))
          | WUpdateDataMode mode \<Rightarrow> (case update_data_mode ops mode c of (c, r) \<Rightarrow> ((c, p), r))
          | WBufferLocalIceCandidates cands \<Rightarrow> buffer_local_ice_candidates cm cands cp
          | WReceivedIncomingMedia media_stream \<Rightarrow>
              (case connection_handle_received_incoming_media create media_stream c of
                 (c, r) \<Rightarrow> ((c, p), r))
          | _ \<Rightarrow> (cp, Ok ()))))"

definition run_worker_task ::
  "'pc conn_ops \<Rightarrow> 'm call_manager \<Rightarrow> (nat \<Rightarrow> (nat, ringrtc_error) result) \<Rightarrow> conn_worker_task
   \<Rightarrow> ('pc, 'm, 'x) conn_pair \<Rightarrow> ('pc, 'm, 'x) conn_pair" where
  "run_worker_task ops cm create t cp = (case worker_task_body ops cm create t cp of
     ((c, p), Err e) \<Rightarrow> (inject_internal_error e c, p)
   | (cp, Ok _) \<Rightarrow> cp)"

definition run_notify_task ::
  "conn_notify_task \<Rightarrow> ('pc, 'm, 'x) conn_pair \<Rightarrow> ('pc, 'm, 'x) conn_pair" where
  "run_notify_task t cp = (case cp of (c, p) \<Rightarrow>
     (case t of
        NObserverEvent event \<Rightarrow>
          if conn_terminating c then cp
          else (case notify_observer event cp of
            ((c, p), Err e) \<Rightarrow> (inject_internal_error e c, p)
          | (cp, Ok _) \<Rightarrow> cp)
      | NInternalError error \<Rightarrow>
          if conn_terminating c then cp else fst (connection_internal_error error cp)
      | NSync \<Rightarrow> cp))"

end
