(* ===== verification/Versioning.thy ===== *)
theory Versioning
  imports Rtc_Prelude "HOL-Library.Product_Lexorder"
begin

text \<open>
  Semantic versions (\<open>common/versioning.rs\<close>): their text, their parser and their order. The
  parser reads the first three parts of the text and ignores further ones.
\<close>

datatype semantic_version = SemanticVersion (major: "16 word") (minor: "16 word") (patch: "16 word")

definition version_to_string :: "semantic_version \<Rightarrow> string" where
  "version_to_string v =
     decimal (unat (major v)) @ ''.'' @ decimal (unat (minor v)) @ ''.'' @ decimal (unat (patch v))"

text \<open>The order compares the three numbers in turn.\<close>

definition version_key :: "semantic_version \<Rightarrow> 16 word \<times> 16 word \<times> 16 word" where
  "version_key v = (major v, minor v, patch v)"

lemma version_key_inject: "version_key v = version_key w \<longleftrightarrow> v = w"
  by (cases v; cases w) (simp add: version_key_def)

instantiation semantic_version :: linorder
begin

definition less_eq_semantic_version :: "semantic_version \<Rightarrow> semantic_version \<Rightarrow> bool" where
  "less_eq_semantic_version v w = (version_key v \<le> version_key w)"

definition less_semantic_version :: "semantic_version \<Rightarrow> semantic_version \<Rightarrow> bool" where
  "less_semantic_version v w = (version_key v < version_key w)"

instance
  by standard (auto simp: less_eq_semantic_version_def less_semantic_version_def version_key_inject
      intro: order.trans)

end

section \<open>Parsing\<close>

text \<open>\<open>str::split(".")\<close>: a text without a dot is one part.\<close>

fun split_dots :: "string \<Rightarrow> string list" where
  "split_dots [] = [[]]"
| "split_dots (c # cs) =
     (if c = CHR ''.'' then [] # split_dots cs
      else (case split_dots cs of p # ps \<Rightarrow> (c # p) # ps | [] \<Rightarrow> [[c]]))"

definition is_digit :: "char \<Rightarrow> bool" where
  "is_digit c = (48 \<le> (of_char c :: nat) \<and> (of_char c :: nat) \<le> 57)"

definition digits_value :: "string \<Rightarrow> nat" where
  "digits_value ds = foldl (\<lambda>n c. n * 10 + (of_char c - 48)) 0 ds"

text \<open>
  \<open>str::parse::<u16>\<close>: one leading plus sign, at least one digit, digits only, and a value that
  fits.
\<close>

definition parse_u16 :: "string \<Rightarrow> 16 word option" where
  "parse_u16 s =
     (let ds = (case s of c # r \<Rightarrow> if c = CHR ''+'' then r else s | [] \<Rightarrow> []) in
      if ds = [] \<or> \<not> list_all is_digit ds then None
      else if digits_value ds < 2 ^ 16 then Some (of_nat (digits_value ds)) else None)"

datatype semantic_version_parsing_error = SemanticVersionParsingError

definition version_try_from :: "string \<Rightarrow> (semantic_version, semantic_version_parsing_error) result" where
  "version_try_from value = (case split_dots value of
     a # rest \<Rightarrow>
       (case parse_u16 a of
          None \<Rightarrow> Err SemanticVersionParsingError
        | Some ma \<Rightarrow>
            (case rest of
               b # rest \<Rightarrow>
                 (case parse_u16 b of
                    None \<Rightarrow> Err SemanticVersionParsingError
                  | Some mi \<Rightarrow>
                      (case rest of
                         c # _ \<Rightarrow>
                           (case parse_u16 c of
                              None \<Rightarrow> Err SemanticVersionParsingError
                            | Some pa \<Rightarrow> Ok (SemanticVersion ma mi pa))
                       | [] \<Rightarrow> Err SemanticVersionParsingError))
             | [] \<Rightarrow> Err SemanticVersionParsingError))
   | [] \<Rightarrow> Err SemanticVersionParsingError)"

section \<open>Round trip\<close>

lemma digit_char: "d < 10 \<Longrightarrow> is_digit (char_of (48 + d)) \<and> (of_char (char_of (48 + d) :: char) :: nat) = 48 + d"
  by (simp add: is_digit_def)

lemma digits_value_snoc: "digits_value (ds @ [c]) = digits_value ds * 10 + (of_char c - 48)"
  by (simp add: digits_value_def)

lemma decimal_parses: "decimal n \<noteq> [] \<and> list_all is_digit (decimal n) \<and> digits_value (decimal n) = n"
proof (induction n rule: decimal.induct)
  case (1 n)
  show ?case
  proof (cases "n < 10")
    case True
    then show ?thesis
      using digit_char [of n] by (simp add: decimal.simps [of n] digits_value_def)
  next
    case False
    have "n mod 10 < 10"
      by simp
    then show ?thesis
      using False 1 digit_char [of "n mod 10"] by (simp add: decimal.simps [of n] digits_value_snoc)
  qed
qed

lemma parse_u16_decimal: "parse_u16 (decimal (unat w)) = Some w"
proof -
  obtain c r where d: "decimal (unat w) = c # r"
    using decimal_parses by (meson neq_Nil_conv)
  then have "is_digit c"
    using decimal_parses [of "unat w"] by simp
  then have "c \<noteq> CHR ''+''"
    by (auto simp: is_digit_def)
  moreover have "unat w < 2 ^ 16"
    using unsigned_less [where w = w and 'a = nat] by simp
  ultimately show ?thesis
    using d decimal_parses [of "unat w"] by (simp add: parse_u16_def Let_def)
qed

lemma split_dots_digits: "list_all is_digit ds \<Longrightarrow> split_dots ds = [ds]"
  by (induction ds) (auto simp: is_digit_def)

lemma split_dots_part: "list_all is_digit ds \<Longrightarrow> split_dots (ds @ CHR ''.'' # rest) = ds # split_dots rest"
  by (induction ds) (auto simp: is_digit_def)

lemma version_round_trip: "version_try_from (version_to_string v) = Ok v"
proof -
  have "split_dots (version_to_string v) =
      [decimal (unat (major v)), decimal (unat (minor v)), decimal (unat (patch v))]"
    using decimal_parses by (simp add: version_to_string_def split_dots_part split_dots_digits)
  then show ?thesis
    by (simp add: version_try_from_def parse_u16_decimal)
qed

end
