(* ===== verification/Assets.thy ===== *)
theory Assets
  imports Versioning Audio_Config "HOL-Library.List_Lexorder" "HOL-Library.Char_ord" "HOL-Library.Multiset"
begin

text \<open>
  Large assets that the application supplies and the code verifies before use
  (\<open>core/assets.rs\<close>, the order of \<open>AssetMetadata\<close> in \<open>protobuf.rs\<close> and the configuration of
  Opus DRED in \<open>webrtc/media.rs\<close>). The file system, SHA-512 and the hexadecimal printer are
  parameters. A set of assets (\<open>BTreeSet\<close>) is the list of its elements in ascending order; locks
  are never poisoned.
\<close>

section \<open>Assets and their order\<close>

datatype asset_metadata = AssetMetadata
  (asset_group: string) (version_text: string) (size_bytes: "32 word") (sha512_hash: bytes)

definition metadata_key :: "asset_metadata \<Rightarrow> string \<times> string \<times> 32 word \<times> bytes" where
  "metadata_key m = (asset_group m, version_text m, size_bytes m, sha512_hash m)"

lemma metadata_key_inject: "metadata_key m = metadata_key n \<longleftrightarrow> m = n"
  by (cases m; cases n) (simp add: metadata_key_def)

instantiation asset_metadata :: linorder
begin

definition less_eq_asset_metadata :: "asset_metadata \<Rightarrow> asset_metadata \<Rightarrow> bool" where
  "less_eq_asset_metadata m n = (metadata_key m \<le> metadata_key n)"

definition less_asset_metadata :: "asset_metadata \<Rightarrow> asset_metadata \<Rightarrow> bool" where
  "less_asset_metadata m n = (metadata_key m < metadata_key n)"

instance
  by standard (auto simp: less_eq_asset_metadata_def less_asset_metadata_def metadata_key_inject
      intro: order.trans)

end

record asset =
  asset_version :: semantic_version
  asset_metadata_of :: asset_metadata
  asset_content :: bytes

text \<open>\<open>Ord for Asset\<close>: by metadata, then by version.\<close>

definition asset_key :: "asset \<Rightarrow> asset_metadata \<times> semantic_version" where
  "asset_key a = (asset_metadata_of a, asset_version a)"

datatype asset_error =
    DisabledAsset
  | UnsupportedAsset string
  | FailedToReadAssetFile string string
  | FailedToAccessAssetRegistry string
  | InvalidAssetMetadata string
  | InvalidAssetPayload string string
  | AssetAlreadyRegistered semantic_version string

record asset_manifest_entry =
  metadata :: asset_metadata
  disabled :: bool

datatype asset_handle = FilePath string | Content bytes

record asset_env =
  fs_read :: "string \<Rightarrow> (bytes, string) result"
  sha512 :: "bytes \<Rightarrow> bytes"
  hex_encode :: "bytes \<Rightarrow> string"

definition asset_new :: "asset_metadata \<Rightarrow> bytes \<Rightarrow> (asset, asset_error) result" where
  "asset_new m content = (case version_try_from (version_text m) of
     Err _ \<Rightarrow> Err (InvalidAssetMetadata (''version='' @ version_text m))
   | Ok v \<Rightarrow> Ok \<lparr> asset_version = v, asset_metadata_of = m, asset_content = content \<rparr>)"

section \<open>The registry\<close>

type_synonym asset_registry = "string \<rightharpoonup> asset list"

text \<open>\<open>BTreeSet::insert\<close>: an element that compares equal is kept.\<close>

definition asset_set_insert :: "asset \<Rightarrow> asset list \<Rightarrow> asset list" where
  "asset_set_insert a s =
     (if list_ex (\<lambda>b. asset_key b = asset_key a) s then s else insort_key asset_key a s)"

definition get_options_for :: "asset_registry \<Rightarrow> string \<Rightarrow> semantic_version list option" where
  "get_options_for reg grp = map_option (map asset_version) (reg grp)"

definition get_asset :: "asset_registry \<Rightarrow> string \<Rightarrow> semantic_version \<Rightarrow> asset option" where
  "get_asset reg grp v = Option.bind (reg grp) (find (\<lambda>a. asset_version a = v))"

definition registry_add ::
  "string \<Rightarrow> asset_metadata \<Rightarrow> bytes \<Rightarrow> asset_registry \<Rightarrow> asset_registry \<times> (unit, asset_error) result" where
  "registry_add grp m content reg = (case asset_new m content of
     Err e \<Rightarrow> (reg, Err e)
   | Ok a \<Rightarrow>
       (let s = (case reg grp of Some s \<Rightarrow> s | None \<Rightarrow> []); reg = reg(grp \<mapsto> s) in
        if list_ex (\<lambda>b. asset_version b = asset_version a) s
        then (reg, Err (AssetAlreadyRegistered (asset_version a) grp))
        else (reg(grp \<mapsto> asset_set_insert a s), Ok ())))"

section \<open>The manager\<close>

record asset_manager =
  manifest :: "asset_manifest_entry list"
  registry :: asset_registry

definition asset_manager_new :: "asset_manifest_entry list \<Rightarrow> asset_manager" where
  "asset_manager_new entries = \<lparr> manifest = entries, registry = Map.empty \<rparr>"

text \<open>The manifest that is built in. \<open>off\<close> is the build condition, a simulator or a 32-bit target.\<close>

definition supported_assets :: "bool \<Rightarrow> asset_manifest_entry list" where
  "supported_assets off =
     [\<lparr> metadata = AssetMetadata ''opus-dred'' ''0.0.1'' 1998208
          [0xb1, 0xd7, 0xe9, 0x75, 0xbf, 0xee, 0xdf, 0x08, 0x93, 0x7c, 0x1a, 0xf6, 0xb3, 0x48, 0x31, 0xd4,
           0xb2, 0x57, 0xea, 0x38, 0xa2, 0xe2, 0xda, 0xae, 0xc9, 0xac, 0x7f, 0x50, 0x14, 0xe1, 0x4c, 0x65,
           0x93, 0x11, 0x7c, 0x8e, 0x09, 0x22, 0xa3, 0x62, 0x66, 0x15, 0xfb, 0xdb, 0x4a, 0x41, 0x97, 0x0e,
           0xf9, 0x0d, 0x41, 0xd5, 0x17, 0xa8, 0x19, 0x25, 0xb7, 0x55, 0xbb, 0xf3, 0x78, 0xc1, 0x8a, 0x69],
        disabled = off \<rparr>]"

definition resolve_handle :: "asset_env \<Rightarrow> asset_handle \<Rightarrow> (bytes, asset_error) result" where
  "resolve_handle env handle = (case handle of
     FilePath path \<Rightarrow> (case fs_read env path of
         Ok content \<Rightarrow> Ok content
       | Err kind \<Rightarrow> Err (FailedToReadAssetFile path kind))
   | Content content \<Rightarrow> Ok content)"

definition supported_versions :: "asset_manager \<Rightarrow> string \<Rightarrow> asset_manifest_entry list" where
  "supported_versions mgr grp = filter (\<lambda>e. asset_group (metadata e) = grp) (manifest mgr)"

text \<open>The content is cut to the expected size when it is accepted.\<close>

fun verify_asset ::
  "asset_env \<Rightarrow> string \<Rightarrow> asset_manifest_entry list \<Rightarrow> bytes \<Rightarrow> (asset_metadata \<times> bytes, asset_error) result"
where
  "verify_asset env grp [] content =
     Err (InvalidAssetPayload grp (hex_encode env (sha512 env content)))"
| "verify_asset env grp (entry # entries) content =
     (let expected_size = unat (size_bytes (metadata entry)) in
      if length content < expected_size then verify_asset env grp entries content
      else if sha512 env (take expected_size content) \<noteq> sha512_hash (metadata entry)
      then verify_asset env grp entries content
      else if disabled entry then Err DisabledAsset
      else Ok (metadata entry, take expected_size content))"

definition add_asset_for_feature ::
  "asset_env \<Rightarrow> string \<Rightarrow> asset_handle \<Rightarrow> asset_manager \<Rightarrow> asset_manager \<times> (unit, asset_error) result" where
  "add_asset_for_feature env grp handle mgr =
     (let supported = supported_versions mgr grp in
      if supported = [] then (mgr, Err (UnsupportedAsset grp))
      else (case resolve_handle env handle of
        Err e \<Rightarrow> (mgr, Err e)
      | Ok content \<Rightarrow>
          (case verify_asset env grp supported content of
             Err e \<Rightarrow> (mgr, Err e)
           | Ok (m, content) \<Rightarrow>
               (case registry_add grp m content (registry mgr) of (reg, r) \<Rightarrow>
                  (mgr\<lparr>registry := reg\<rparr>, r)))))"

text \<open>
  \<open>configure_dred_from_assets\<close>; \<open>call_sim\<close> tells whether the code is built for the call
  simulator.
\<close>

definition configure_dred_from_assets ::
  "bool \<Rightarrow> asset_registry \<Rightarrow> audio_encoder_config \<times> audio_decoder_config
   \<Rightarrow> audio_encoder_config \<times> audio_decoder_config" where
  "configure_dred_from_assets call_sim reg configs = (case configs of (enc, dec) \<Rightarrow>
     if call_sim \<or> dred_duration enc = 0 then (enc, dec)
     else (case Option.bind (get_options_for reg ''opus-dred'')
                  (\<lambda>versions. case versions of
                     v # _ \<Rightarrow> get_asset reg ''opus-dred'' v | [] \<Rightarrow> None) of
       Some a \<Rightarrow>
         (enc\<lparr>encoder_dnn_weights := Some (asset_content a), enable_fec := False\<rparr>,
          dec\<lparr>decoder_dnn_weights := Some (asset_content a)\<rparr>)
     | None \<Rightarrow> (enc\<lparr>dred_duration := 0\<rparr>, dec)))"

section \<open>What the registry holds\<close>

text \<open>An asset is verified by an entry that allows it, for its grp and its very content.\<close>

definition verified_by :: "asset_env \<Rightarrow> string \<Rightarrow> asset_manifest_entry list \<Rightarrow> asset \<Rightarrow> bool" where
  "verified_by env grp entries a = list_ex (\<lambda>e.
     \<not> disabled e \<and> metadata e = asset_metadata_of a \<and> asset_group (metadata e) = grp
     \<and> length (asset_content a) = unat (size_bytes (metadata e))
     \<and> sha512 env (asset_content a) = sha512_hash (metadata e)
     \<and> version_try_from (version_text (metadata e)) = Ok (asset_version a)) entries"

definition registry_ok :: "asset_env \<Rightarrow> asset_manager \<Rightarrow> bool" where
  "registry_ok env mgr = (\<forall>grp s. registry mgr grp = Some s \<longrightarrow>
     list_all (verified_by env grp (manifest mgr)) s
     \<and> distinct (map asset_version s) \<and> sorted (map asset_key s) \<and> s \<noteq> [])"

lemma verify_asset_Ok:
  assumes "verify_asset env grp entries content = Ok (m, body)"
  shows "\<exists>e \<in> set entries. \<not> disabled e \<and> metadata e = m \<and> length body = unat (size_bytes m)
    \<and> sha512 env body = sha512_hash m"
  using assms by (induction entries) (auto simp: Let_def split: if_splits)

lemma asset_set_insert_set: "set (asset_set_insert a s) \<subseteq> insert a (set s)"
  by (auto simp: asset_set_insert_def set_insort_key)

lemma asset_set_insert_nonempty [simp]: "asset_set_insert a s \<noteq> []"
  by (cases s) (auto simp: asset_set_insert_def)

lemma registry_ok_new: "registry_ok env (asset_manager_new entries)"
  by (simp add: registry_ok_def asset_manager_new_def)

lemma distinct_insert_version:
  assumes "distinct (map asset_version s)" "\<not> list_ex (\<lambda>b. asset_version b = asset_version a) s"
  shows "distinct (map asset_version (asset_set_insert a s))"
proof (cases "list_ex (\<lambda>b. asset_key b = asset_key a) s")
  case False
  have "mset (map asset_version (insort_key asset_key a s)) = mset (map asset_version (a # s))"
    by simp
  then have "distinct (map asset_version (insort_key asset_key a s)) = distinct (map asset_version (a # s))"
    by (rule mset_eq_imp_distinct_iff)
  with False assms show ?thesis
    by (auto simp: asset_set_insert_def list_ex_iff)
qed (use assms in \<open>simp add: asset_set_insert_def\<close>)

lemma sorted_insert_asset: "sorted (map asset_key s) \<Longrightarrow> sorted (map asset_key (asset_set_insert a s))"
  by (simp add: asset_set_insert_def sorted_insort_key)

lemma registry_ok_put:
  assumes "registry_ok env mgr" "list_all (verified_by env grp (manifest mgr)) s"
    "distinct (map asset_version s)" "sorted (map asset_key s)" "s \<noteq> []"
  shows "registry_ok env (mgr\<lparr>registry := (registry mgr)(grp \<mapsto> s)\<rparr>)"
  using assms by (auto simp: registry_ok_def)

lemma add_asset_ok:
  assumes ok: "registry_ok env mgr" and add: "add_asset_for_feature env grp handle mgr = (mgr', r)"
  shows "registry_ok env mgr' \<and> manifest mgr' = manifest mgr"
proof -
  define old where "old = (case registry mgr grp of Some s \<Rightarrow> s | None \<Rightarrow> [])"
  have old: "list_all (verified_by env grp (manifest mgr)) old" "distinct (map asset_version old)"
      "sorted (map asset_key old)"
    using ok by (auto simp: old_def registry_ok_def split: option.split)
  show ?thesis
  proof (cases "\<exists>m body a. asset_new m body = Ok a \<and> (\<exists>content. verify_asset env grp (supported_versions mgr grp) content = Ok (m, body))
      \<and> (mgr', r) = (case registry_add grp m body (registry mgr) of (reg, r) \<Rightarrow> (mgr\<lparr>registry := reg\<rparr>, r))")
    case True
    then obtain m body a content where new: "asset_new m body = Ok a"
      and ver: "verify_asset env grp (supported_versions mgr grp) content = Ok (m, body)"
      and res: "(mgr', r) = (case registry_add grp m body (registry mgr) of (reg, r) \<Rightarrow> (mgr\<lparr>registry := reg\<rparr>, r))"
      by blast
    have a: "verified_by env grp (manifest mgr) a"
      using verify_asset_Ok [OF ver] new
      by (auto simp: verified_by_def list_ex_iff asset_new_def supported_versions_def split: sum.splits)
    have "list_all (verified_by env grp (manifest mgr)) (asset_set_insert a old)"
      using a old(1) asset_set_insert_set [of a old] by (auto simp: list_all_iff)
    moreover have "sorted (map asset_key (asset_set_insert a old))"
      using old(3) by (rule sorted_insert_asset)
    moreover have "list_ex (\<lambda>b. asset_version b = asset_version a) old \<Longrightarrow> old \<noteq> []"
      by auto
    ultimately show ?thesis
      using res new registry_ok_put [OF ok] old distinct_insert_version [OF old(2), of a]
      by (auto simp: registry_add_def Let_def old_def [symmetric] split: if_splits)
  next
    case False
    then have "mgr' = mgr"
      using add by (auto simp: add_asset_for_feature_def Let_def registry_add_def split: if_splits sum.splits prod.splits)
    with ok show ?thesis
      by simp
  qed
qed

definition add_assets :: "asset_env \<Rightarrow> (string \<times> asset_handle) list \<Rightarrow> asset_manager \<Rightarrow> asset_manager" where
  "add_assets env = fold (\<lambda>(grp, handle) mgr. fst (add_asset_for_feature env grp handle mgr))"

lemma add_assets_ok:
  "registry_ok env mgr \<Longrightarrow> registry_ok env (add_assets env adds mgr) \<and> manifest (add_assets env adds mgr) = manifest mgr"
proof (induction adds arbitrary: mgr)
  case (Cons x adds)
  obtain grp handle where x: "x = (grp, handle)"
    by (cases x)
  obtain mgr' r where "add_asset_for_feature env grp handle mgr = (mgr', r)"
    by (meson surj_pair)
  then show ?case
    using x Cons.IH [of mgr'] add_asset_ok [OF Cons.prems] by (simp add: add_assets_def)
qed (simp add: add_assets_def)

text \<open>
  C34: only verified assets are ever handed out. Whatever assets the application adds, in whatever
  order, from files or from memory: an asset that a lookup returns has the version asked for, and
  an entry of the manifest that is not disabled allows exactly this content for this group, by its
  size, its SHA-512 and its version.
\<close>

theorem registered_assets_verified:
  assumes "get_asset (registry (add_assets env adds (asset_manager_new entries))) grp v = Some a"
  shows "asset_version a = v
    \<and> (\<exists>e \<in> set entries. \<not> disabled e \<and> asset_group (metadata e) = grp
         \<and> length (asset_content a) = unat (size_bytes (metadata e))
         \<and> sha512 env (asset_content a) = sha512_hash (metadata e)
         \<and> version_try_from (version_text (metadata e)) = Ok v)"
proof -
  let ?mgr = "add_assets env adds (asset_manager_new entries)"
  have ok: "registry_ok env ?mgr" and man: "manifest ?mgr = entries"
    using add_assets_ok [OF registry_ok_new, of env adds entries] by (auto simp: asset_manager_new_def)
  obtain s where s: "registry ?mgr grp = Some s" and a: "find (\<lambda>a. asset_version a = v) s = Some a"
    using assms by (auto simp: get_asset_def split: option.splits bind_splits)
  then have "a \<in> set s" "asset_version a = v"
    by (auto simp: find_Some_iff)
  moreover have "list_all (verified_by env grp entries) s"
    using ok s man by (auto simp: registry_ok_def)
  ultimately show ?thesis
    by (auto simp: list_all_iff verified_by_def list_ex_iff)
qed

text \<open>A manifest with two versions of a group, for concrete runs; the hash is the content.\<close>

definition demo_env :: asset_env where
  "demo_env = \<lparr> fs_read = \<lambda>_. Err ''not found'', sha512 = \<lambda>b. b, hex_encode = \<lambda>_. [] \<rparr>"

definition demo_manifest :: "asset_manifest_entry list" where
  "demo_manifest =
     [\<lparr> metadata = AssetMetadata ''opus-dred'' ''0.0.9'' 1 [9], disabled = False \<rparr>,
      \<lparr> metadata = AssetMetadata ''opus-dred'' ''0.0.10'' 1 [10], disabled = False \<rparr>]"

definition demo_adds :: "(string \<times> asset_handle) list" where
  "demo_adds = [(''opus-dred'', Content [9]), (''opus-dred'', Content [10, 77]), (''opus-dred'', Content [11])]"

lemma demo_versions:
  "version_try_from ''0.0.9'' = Ok (SemanticVersion 0 0 9)"
  "version_try_from ''0.0.10'' = Ok (SemanticVersion 0 0 10)"
  by (simp_all add: version_try_from_def parse_u16_def is_digit_def digits_value_def Let_def)

lemma demo_order: "asset_key \<lparr> asset_version = SemanticVersion 0 0 10,
     asset_metadata_of = AssetMetadata ''opus-dred'' ''0.0.10'' 1 [10], asset_content = b \<rparr>
   < asset_key \<lparr> asset_version = SemanticVersion 0 0 9,
     asset_metadata_of = AssetMetadata ''opus-dred'' ''0.0.9'' 1 [9], asset_content = b' \<rparr>"
  by (simp add: asset_key_def less_asset_metadata_def less_eq_asset_metadata_def metadata_key_def less_char_def)

lemmas asset_demo_defs = demo_env_def demo_manifest_def asset_manager_new_def add_asset_for_feature_def
  supported_versions_def resolve_handle_def registry_add_def asset_new_def demo_versions Let_def

lemma demo_registry:
  "registry (add_assets demo_env demo_adds (asset_manager_new demo_manifest)) ''opus-dred'' =
     Some [\<lparr> asset_version = SemanticVersion 0 0 10,
             asset_metadata_of = AssetMetadata ''opus-dred'' ''0.0.10'' 1 [10], asset_content = [10] \<rparr>,
           \<lparr> asset_version = SemanticVersion 0 0 9,
             asset_metadata_of = AssetMetadata ''opus-dred'' ''0.0.9'' 1 [9], asset_content = [9] \<rparr>]"
  using demo_order [of "[10]" "[9]"]
  by (simp add: add_assets_def demo_adds_def asset_demo_defs asset_set_insert_def)
     (auto simp: asset_key_def)

theorem registered_assets_verified_witness:
  "\<exists>a. get_asset (registry (add_assets demo_env demo_adds (asset_manager_new demo_manifest))) ''opus-dred''
         (SemanticVersion 0 0 10) = Some a
     \<and> asset_version a = SemanticVersion 0 0 10 \<and> asset_content a = [10]
     \<and> (\<exists>e \<in> set demo_manifest. sha512 demo_env (asset_content a) = sha512_hash (metadata e))"
proof -
  let ?reg = "registry (add_assets demo_env demo_adds (asset_manager_new demo_manifest))"
  obtain a where a: "get_asset ?reg ''opus-dred'' (SemanticVersion 0 0 10) = Some a" "asset_content a = [10]"
    by (simp add: get_asset_def demo_registry)
  then show ?thesis
    using registered_assets_verified [OF a(1)] by blast
qed

text \<open>
  C35: the versions of a group are listed in ascending order of their texts, and the asset that
  configures DRED is the one whose text comes first. Whatever assets the application adds: the
  versions listed for a group are those of its registered assets, each once, in ascending order of
  the texts that the manifest gives them. The first asset of the group \<open>opus-dred\<close> is the one whose
  content becomes the weights of the encoder and of the decoder when DRED is asked for. So with
  the versions 0.0.9 and 0.0.10 it is 0.0.10, and with 0.0.1 and 0.0.2 it is 0.0.1.
\<close>

theorem options_in_text_order:
  assumes "reg = registry (add_assets env adds (asset_manager_new entries))"
    and "get_options_for reg grp = Some vs"
  shows "\<exists>a assets. reg grp = Some (a # assets) \<and> vs = map asset_version (a # assets) \<and> distinct vs
    \<and> sorted (map (\<lambda>b. version_text (asset_metadata_of b)) (a # assets))
    \<and> (\<forall>b \<in> set (a # assets). version_try_from (version_text (asset_metadata_of b)) = Ok (asset_version b)
         \<and> (\<exists>e \<in> set entries. \<not> disabled e \<and> asset_group (metadata e) = grp \<and> metadata e = asset_metadata_of b))
    \<and> (\<forall>enc dec. grp = ''opus-dred'' \<and> dred_duration enc \<noteq> 0
         \<longrightarrow> configure_dred_from_assets False reg (enc, dec) =
               (enc\<lparr>encoder_dnn_weights := Some (asset_content a), enable_fec := False\<rparr>,
                dec\<lparr>decoder_dnn_weights := Some (asset_content a)\<rparr>))"
proof -
  let ?mgr = "add_assets env adds (asset_manager_new entries)"
  have ok: "registry_ok env ?mgr" "manifest ?mgr = entries"
    using add_assets_ok [OF registry_ok_new, of env adds entries] by (simp_all add: asset_manager_new_def)
  obtain s where s: "reg grp = Some s" and vs: "vs = map asset_version s"
    using assms by (auto simp: get_options_for_def)
  have inv: "list_all (verified_by env grp entries) s" "distinct (map asset_version s)" "sorted (map asset_key s)"
    "s \<noteq> []"
    using ok s assms(1) by (auto simp: registry_ok_def)
  let ?text = "\<lambda>a. version_text (asset_metadata_of a)"
  have verified: "version_try_from (?text b) = Ok (asset_version b)
      \<and> (\<exists>e \<in> set entries. \<not> disabled e \<and> asset_group (metadata e) = grp \<and> metadata e = asset_metadata_of b)"
    if "b \<in> set s" for b
    using inv(1) that by (fastforce simp: list_all_iff verified_by_def list_ex_iff)
  have "?text a \<le> ?text b" if "a \<in> set s" "b \<in> set s" "asset_key a \<le> asset_key b" for a b
    using verified [OF that(1)] verified [OF that(2)] that(3)
    by (auto simp: asset_key_def less_eq_asset_metadata_def metadata_key_def less_asset_metadata_def)
  then have sorted: "sorted (map ?text s)"
    using inv(3) by (simp add: sorted_map sorted_wrt_iff_nth_less)
  obtain a assets where a: "s = a # assets"
    using inv(4) by (cases s) auto
  have "configure_dred_from_assets False reg (enc, dec) =
      (enc\<lparr>encoder_dnn_weights := Some (asset_content a), enable_fec := False\<rparr>,
       dec\<lparr>decoder_dnn_weights := Some (asset_content a)\<rparr>)" if "grp = ''opus-dred''" "dred_duration enc \<noteq> 0" for enc dec
    using that s a by (simp add: configure_dred_from_assets_def get_options_for_def get_asset_def)
  then show ?thesis
    using s vs inv(2) sorted verified unfolding a by blast
qed

definition demo_encoder :: audio_encoder_config where
  "demo_encoder = audio_encoder_config_default\<lparr>dred_duration := 20\<rparr>"

theorem options_in_text_order_witness:
  "\<exists>reg enc dec. reg = registry (add_assets demo_env demo_adds (asset_manager_new demo_manifest))
     \<and> get_options_for reg ''opus-dred'' = Some [SemanticVersion 0 0 10, SemanticVersion 0 0 9]
     \<and> SemanticVersion 0 0 9 < SemanticVersion 0 0 10
     \<and> configure_dred_from_assets False reg (demo_encoder, audio_decoder_config_default) = (enc, dec)
     \<and> encoder_dnn_weights enc = Some [10] \<and> decoder_dnn_weights dec = Some [10]"
proof -
  let ?reg = "registry (add_assets demo_env demo_adds (asset_manager_new demo_manifest))"
  have opts: "get_options_for ?reg ''opus-dred'' = Some [SemanticVersion 0 0 10, SemanticVersion 0 0 9]"
    by (simp add: get_options_for_def demo_registry)
  moreover have "SemanticVersion 0 0 9 < SemanticVersion 0 0 10"
    by (simp add: less_semantic_version_def version_key_def)
  moreover have "dred_duration demo_encoder \<noteq> 0"
    by (simp add: demo_encoder_def)
  ultimately show ?thesis
    using options_in_text_order [OF refl opts] by (auto simp: demo_registry)
qed

end
