(* ===== verification/Call.thy ===== *)
theory Call
  imports Connection_Start Connection_Fsm Assets "HOL-Library.AList"
begin

text \<open>
  A call (\<open>core/call.rs\<close>): the connections to the devices of one peer, the device that was chosen,
  and the operations that the call's state machine and the call manager run on it. A call extends
  what its connections see of it. The map of connections is an association list, whose order is the
  order in which the hash map is iterated; an entry is a connection with its state machine.
  Connections that have left the map are remembered in \<open>retired\<close>, which no operation reads. The
  random secret of a new connection is an argument.
\<close>

section \<open>State\<close>

type_synonym 'pc conn_entry = "conn_fsm \<times> 'pc connection"

record pending_call =
  pending_received :: received_offer
  pending_ice_candidates :: "ice_candidate list"

record ('pc, 'sk, 'ig) forking_state =
  parent_connection :: "'pc conn_entry"
  fork_local_secret :: 'sk
  fork_ice_gatherer :: 'ig
  fork_offer :: offer

record ('m, 'pc, 'sk, 'ig) call = "'m call_link" +
  call_dir :: call_direction
  call_media :: call_media_type
  local_device :: device_id
  active_device :: "device_id option"
  pending :: "pending_call option"
  connection_map :: "(device_id \<times> 'pc conn_entry) list"
  retired :: "'pc conn_entry list"
  call_terminate_complete :: bool
  did_send_offer :: bool
  did_notify_remote_ringing :: bool
  forking :: "('pc, 'sk, 'ig) forking_state option"
  timeout_thread :: "unit actor option"
  call_assets :: asset_registry

text \<open>
  What a call calls: WebRTC, the codecs and key functions, the call manager, and the platform's
  creation of connections.
\<close>

record ('pc, 'm, 'sd, 'ig, 'sk) call_env =
  e_ops :: "'pc conn_ops"
  e_sdp :: "('pc, 'sd, 'ig) sdp_ops"
  e_start :: "'sk start_env"
  e_cm :: "'m call_manager"
  e_create :: "call_id \<Rightarrow> device_id \<Rightarrow> connection_type \<Rightarrow> call_config \<Rightarrow> nat option \<Rightarrow> 'm
    \<Rightarrow> 'm \<times> ('pc connection, ringrtc_error) result"
  e_call_sim :: bool

text \<open>\<open>Call::new\<close>: a new call with a new state machine.\<close>

definition call_new ::
  "call_id \<Rightarrow> call_direction \<Rightarrow> call_media_type \<Rightarrow> device_id \<Rightarrow> asset_registry \<Rightarrow> 'm \<Rightarrow> ('m, 'pc, 'sk, 'ig) call" where
  "call_new cid dir media dev assets m =
     \<lparr> link_call_id = cid, link_state = call_state.NotYetStarted, link_call_context = None,
       link_stream = Active [], manager = m, call_dir = dir, call_media = media, local_device = dev,
       active_device = None, pending = None, connection_map = [], retired = [], call_terminate_complete = False,
       did_send_offer = False, did_notify_remote_ringing = False, forking = None,
       timeout_thread = None, call_assets = assets \<rparr>"

definition start_timeout_timer ::
  "nat \<Rightarrow> nat \<Rightarrow> ('m, 'pc, 'sk, 'ig, 'x) call_scheme \<Rightarrow> ('m, 'pc, 'sk, 'ig, 'x) call_scheme" where
  "start_timeout_timer now period call =
     (if period \<noteq> 0
      then call\<lparr>timeout_thread := Some (actor_send_delayed now period () actor_start)\<rparr> else call)"

definition call_set_state ::
  "call_state \<Rightarrow> ('m, 'x) call_link_scheme \<Rightarrow> ('m, 'x) call_link_scheme" where
  "call_set_state s call = call\<lparr>link_state := s\<rparr>"

definition set_active_device_id ::
  "device_id \<Rightarrow> ('m, 'pc, 'sk, 'ig, 'x) call_scheme
   \<Rightarrow> ('m, 'pc, 'sk, 'ig, 'x) call_scheme \<times> (unit, ringrtc_error) result" where
  "set_active_device_id d call = (case active_device call of
     Some v \<Rightarrow> (call, Err (ActiveDeviceIdAlreadySet v))
   | None \<Rightarrow> (call\<lparr>active_device := Some d\<rparr>, Ok ()))"

definition active_device_id ::
  "('m, 'pc, 'sk, 'ig, 'x) call_scheme \<Rightarrow> (device_id, ringrtc_error) result" where
  "active_device_id call = (case active_device call of
     Some d \<Rightarrow> Ok d
   | None \<Rightarrow> Err (OptionValueNotSet ''active_connection'' ''active_connection''))"

definition handle_received_offer ::
  "received_offer \<Rightarrow> ('m, 'pc, 'sk, 'ig, 'x) call_scheme
   \<Rightarrow> ('m, 'pc, 'sk, 'ig, 'x) call_scheme \<times> (unit, ringrtc_error) result" where
  "handle_received_offer received call = (case pending call of
     Some p \<Rightarrow> (call, Err (PendingCallAlreadySet (ro_sender_device_id (pending_received p))))
   | None \<Rightarrow>
       (call\<lparr>pending := Some \<lparr> pending_received = received, pending_ice_candidates = [] \<rparr>\<rparr>, Ok ()))"

definition set_call_context ::
  "nat \<Rightarrow> ('m, 'x) call_link_scheme \<Rightarrow> ('m, 'x) call_link_scheme \<times> (unit, ringrtc_error) result" where
  "set_call_context ctx call = (case link_call_context call of
     Some _ \<Rightarrow> (call, Err (AppCallContextAlreadySet (link_call_id call)))
   | None \<Rightarrow> (call\<lparr>link_call_context := Some ctx\<rparr>, Ok ()))"

definition call_terminating :: "('m, 'x) call_link_scheme \<Rightarrow> bool" where
  "call_terminating call = (link_state call = call_state.Terminating)"

section \<open>Operations on a connection of the call\<close>

definition with_connection ::
  "device_id \<Rightarrow> ('pc conn_entry \<times> ('m, 'pc, 'sk, 'ig, 'x) call_scheme
                \<Rightarrow> ('pc conn_entry \<times> ('m, 'pc, 'sk, 'ig, 'x) call_scheme) \<times> ('a, ringrtc_error) result)
   \<Rightarrow> ('m, 'pc, 'sk, 'ig, 'x) call_scheme
   \<Rightarrow> ('m, 'pc, 'sk, 'ig, 'x) call_scheme \<times> ('a, ringrtc_error) result" where
  "with_connection d g call = (case map_of (connection_map call) d of
     None \<Rightarrow> (call, Err (ConnectionNotFound d))
   | Some entry \<Rightarrow> (case g (entry, call) of ((entry, call), r) \<Rightarrow>
       (call\<lparr>connection_map := AList.update d entry (connection_map call)\<rparr>, r)))"

definition on_entry ::
  "(('pc, 'm, 'x) conn_pair \<Rightarrow> ('pc, 'm, 'x) conn_pair \<times> ('a, ringrtc_error) result)
   \<Rightarrow> 'pc conn_entry \<times> ('m, 'x) call_link_scheme
   \<Rightarrow> ('pc conn_entry \<times> ('m, 'x) call_link_scheme) \<times> ('a, ringrtc_error) result" where
  "on_entry g ec = (case ec of ((f, c), p) \<Rightarrow>
     (case g (c, p) of ((c, p), r) \<Rightarrow> (((f, c), p), r)))"

definition with_active_connection ::
  "(('pc, 'm, ('pc, 'sk, 'ig, 'x) call_ext) conn_pair
      \<Rightarrow> ('pc, 'm, ('pc, 'sk, 'ig, 'x) call_ext) conn_pair \<times> ('a, ringrtc_error) result)
   \<Rightarrow> ('m, 'pc, 'sk, 'ig, 'x) call_scheme
   \<Rightarrow> ('m, 'pc, 'sk, 'ig, 'x) call_scheme \<times> ('a, ringrtc_error) result" where
  "with_active_connection g call = (case active_device_id call of
     Err e \<Rightarrow> (call, Err e)
   | Ok d \<Rightarrow> with_connection d (on_entry g) call)"

text \<open>
  The statistics of the call summary are not modelled: attaching them only requires that the active
  connection is in the map.
\<close>

definition start_call_summary_stats_collection ::
  "('m, 'pc, 'sk, 'ig, 'x) call_scheme \<Rightarrow> ('m, 'pc, 'sk, 'ig, 'x) call_scheme \<times> (unit, ringrtc_error) result" where
  "start_call_summary_stats_collection = with_active_connection (\<lambda>cp. (cp, Ok ()))"

definition inject_into ::
  "connection_event \<Rightarrow> ('pc, 'm, 'x) conn_pair \<Rightarrow> ('pc, 'm, 'x) conn_pair \<times> (unit, ringrtc_error) result" where
  "inject_into e cp = (case inject_event e (fst cp) of (c, r) \<Rightarrow> ((c, snd cp), r))"

section \<open>Notifications\<close>

definition call_notify_application ::
  "'m call_manager \<Rightarrow> application_event \<Rightarrow> ('m, 'pc, 'sk, 'ig, 'x) call_scheme
   \<Rightarrow> ('m, 'pc, 'sk, 'ig, 'x) call_scheme \<times> (unit, ringrtc_error) result" where
  "call_notify_application cm event call =
     (if event = RemoteRinging then
        (if did_notify_remote_ringing call then (call, Ok ())
         else cm_call cm (CmNotifyApplication event) (call\<lparr>did_notify_remote_ringing := True\<rparr>))
      else cm_call cm (CmNotifyApplication event) call)"

text \<open>The remaining notifications pass through to the call manager.\<close>

definition call_start :: "'m call_manager \<Rightarrow> ('m, 'pc, 'sk, 'ig, 'x) call_scheme
   \<Rightarrow> ('m, 'pc, 'sk, 'ig, 'x) call_scheme \<times> (unit, ringrtc_error) result" where
  "call_start cm call = cm_call cm (CmStartCall (call_dir call) (call_media call)) call"

section \<open>Acceptance\<close>

definition accept_locally ::
  "('pc, 'm, 'sd, 'ig, 'sk) call_env \<Rightarrow> nat \<Rightarrow> ('m, 'pc, 'sk, 'ig, 'x) call_scheme
   \<Rightarrow> ('m, 'pc, 'sk, 'ig, 'x) call_scheme \<times> (unit, ringrtc_error) result" where
  "accept_locally E now call =
     bind_ok (with_active_connection (inject_into Accept) call) (\<lambda>_ call.
     bind_ok (with_active_connection (enable_media (e_ops E) (e_cm E)) call) (\<lambda>_ call.
     bind_ok (with_active_connection (\<lambda>(c, p). ((start_tick now c, p), Ok ())) call) (\<lambda>_ call.
       call_notify_application (e_cm E) LocalAccepted call)))"

definition accept_remotely ::
  "('pc, 'm, 'sd, 'ig, 'sk) call_env \<Rightarrow> nat \<Rightarrow> ('m, 'pc, 'sk, 'ig, 'x) call_scheme
   \<Rightarrow> ('m, 'pc, 'sk, 'ig, 'x) call_scheme \<times> (unit, ringrtc_error) result" where
  "accept_remotely E now call =
     bind_ok (with_active_connection (enable_media (e_ops E) (e_cm E)) call) (\<lambda>_ call.
     bind_ok (with_active_connection (\<lambda>(c, p). ((start_tick now c, p), Ok ())) call) (\<lambda>_ call.
     bind_ok (call_notify_application (e_cm E) RemoteAccepted call) (\<lambda>_ call.
     bind_ok (with_active_connection (\<lambda>(c, p). ((c, p), Ok (route (bandwidth c)))) call) (\<lambda>r call.
       cm_call (e_cm E) (CmNotifyNetworkRouteChanged r) call))))"

section \<open>Proceeding\<close>

definition create_connection ::
  "('pc, 'm, 'sd, 'ig, 'sk) call_env \<Rightarrow> device_id \<Rightarrow> connection_type \<Rightarrow> call_config \<Rightarrow> nat option
   \<Rightarrow> ('m, 'x) call_link_scheme \<Rightarrow> ('m, 'x) call_link_scheme \<times> ('pc connection, ringrtc_error) result" where
  "create_connection E d ty config levels call =
     (case e_create E (link_call_id call) d ty config levels (manager call) of (m, r) \<Rightarrow>
        (call\<lparr>manager := m\<rparr>, r))"

text \<open>An operation on a connection that is not in the map.\<close>

definition on_new ::
  "(('pc, 'm, 'x) conn_pair \<Rightarrow> ('pc, 'm, 'x) conn_pair \<times> ('a, ringrtc_error) result) \<Rightarrow> 'pc connection
   \<Rightarrow> ('m, 'x) call_link_scheme \<Rightarrow> ('m, 'x) call_link_scheme \<times> ('pc connection \<times> 'a, ringrtc_error) result" where
  "on_new g c call = (case g (c, call) of
     ((c, call), Err e) \<Rightarrow> (call, Err e)
   | ((c, call), Ok a) \<Rightarrow> (call, Ok (c, a)))"

definition configured :: "('pc, 'm, 'sd, 'ig, 'sk) call_env \<Rightarrow> asset_registry \<Rightarrow> call_config \<Rightarrow> call_config" where
  "configured E assets config =
     (case configure_dred_from_assets (e_call_sim E) assets
             (audio_encoder_config config, audio_decoder_config config) of (enc, dec) \<Rightarrow>
        config\<lparr>audio_encoder_config := enc, audio_decoder_config := dec\<rparr>)"

definition proceed_incoming ::
  "('pc, 'm, 'sd, 'ig, 'sk) call_env \<Rightarrow> 'sk \<Rightarrow> call_config \<Rightarrow> nat option \<Rightarrow> ('m, 'pc, 'sk, 'ig, 'x) call_scheme
   \<Rightarrow> ('m, 'pc, 'sk, 'ig, 'x) call_scheme \<times> (unit, ringrtc_error) result" where
  "proceed_incoming E secret config levels call = (case pending call of
     None \<Rightarrow> (call, Err (OptionValueNotSet ''proceed()'' ''pending_offer''))
   | Some p \<Rightarrow>
       (let d = ro_sender_device_id (pending_received p) in
        bind_ok (create_connection E d Incoming config levels (call\<lparr>pending := None\<rparr>)) (\<lambda>c call.
        bind_ok (on_new (start_incoming (e_ops E) (e_sdp E) (e_start E) secret (pending_received p)
                          (pending_ice_candidates p)) c call) (\<lambda>(c, answer) call.
        bind_ok (cm_call (e_cm E) (CmSendAnswer answer d) call) (\<lambda>_ call.
          set_active_device_id d
            (call\<lparr>connection_map := AList.update d (conn_fsm_new, c) (connection_map call)\<rparr>))))))"

definition proceed_outgoing ::
  "('pc, 'm, 'sd, 'ig, 'sk) call_env \<Rightarrow> 'sk \<Rightarrow> call_config \<Rightarrow> nat option \<Rightarrow> ('m, 'pc, 'sk, 'ig, 'x) call_scheme
   \<Rightarrow> ('m, 'pc, 'sk, 'ig, 'x) call_scheme \<times> (unit, ringrtc_error) result" where
  "proceed_outgoing E secret config levels call =
     bind_ok (create_connection E 0 OutgoingParent config levels call) (\<lambda>c call.
     bind_ok (on_new (start_outgoing_parent (e_sdp E) (e_start E) secret (call_media call)) c call)
       (\<lambda>(c, (secret, gatherer, offer)) call.
     bind_ok (cm_call (e_cm E) (CmSendOffer offer)
                (call\<lparr>forking := Some \<lparr> parent_connection = (conn_fsm_new, c), fork_local_secret = secret,
                                      fork_ice_gatherer = gatherer, fork_offer = offer \<rparr>\<rparr>)) (\<lambda>_ call.
       (call\<lparr>did_send_offer := True\<rparr>, Ok ()))))"

definition proceed ::
  "('pc, 'm, 'sd, 'ig, 'sk) call_env \<Rightarrow> 'sk \<Rightarrow> call_config \<Rightarrow> nat option \<Rightarrow> ('m, 'pc, 'sk, 'ig, 'x) call_scheme
   \<Rightarrow> ('m, 'pc, 'sk, 'ig, 'x) call_scheme \<times> (unit, ringrtc_error) result" where
  "proceed E secret config levels call =
     (let config = configured E (call_assets call) config in
      case call_dir call of
        call_direction.Incoming \<Rightarrow> proceed_incoming E secret config levels call
      | call_direction.Outgoing \<Rightarrow> proceed_outgoing E secret config levels call)"

section \<open>Answers and candidates\<close>

definition received_answer_by_call ::
  "('pc, 'm, 'sd, 'ig, 'sk) call_env \<Rightarrow> received_answer \<Rightarrow> ('m, 'pc, 'sk, 'ig, 'x) call_scheme
   \<Rightarrow> ('m, 'pc, 'sk, 'ig, 'x) call_scheme \<times> (unit, ringrtc_error) result" where
  "received_answer_by_call E received call =
     (let d = ra_sender_device_id received in
      case map_of (connection_map call) d of
        Some _ \<Rightarrow> (call, Ok ())
      | None \<Rightarrow>
          if link_state call = call_state.ConnectedAndAccepted
             \<or> link_state call = call_state.ReconnectingAfterAccepted then (call, Ok ())
          else (case forking call of
            None \<Rightarrow> (call, Err (ConnectionNotFound d))
          | Some fork \<Rightarrow>
              (let pc = snd (parent_connection fork) in
               bind_ok (create_connection E d OutgoingChild (conn_config pc) (audio_levels_interval pc) call) (\<lambda>c call.
               bind_ok (on_new (start_outgoing_child (e_ops E) (e_sdp E) (e_start E) (fork_local_secret fork)
                                 (fork_ice_gatherer fork) (fork_offer fork) received) c call) (\<lambda>(c, _) call.
                 (call\<lparr>connection_map := AList.update d (conn_fsm_new, c) (connection_map call)\<rparr>, Ok ()))))))"

definition received_ice_by_call ::
  "received_ice \<Rightarrow> ('m, 'pc, 'sk, 'ig, 'x) call_scheme
   \<Rightarrow> ('m, 'pc, 'sk, 'ig, 'x) call_scheme \<times> (unit, ringrtc_error) result" where
  "received_ice_by_call received call = (case pending call of
     Some p \<Rightarrow>
       (call\<lparr>pending := Some (p\<lparr>pending_ice_candidates :=
          pending_ice_candidates p @ candidates (ri_ice received)\<rparr>)\<rparr>, Ok ())
   | None \<Rightarrow>
       (let d = ri_sender_device_id received in
        case map_of (connection_map call) d of
          Some _ \<Rightarrow> with_connection d (on_entry (inject_into (connection_event.ReceivedIce (ri_ice received)))) call
        | None \<Rightarrow>
            if link_state call = call_state.ConnectedAndAccepted
               \<or> link_state call = call_state.ReconnectingAfterAccepted then (call, Ok ())
            else (call, Err (ConnectionNotFound d))))"

section \<open>Hangups\<close>

definition should_send_hangup :: "('m, 'pc, 'sk, 'ig, 'x) call_scheme \<Rightarrow> bool" where
  "should_send_hangup call = (case call_dir call of
     call_direction.Incoming \<Rightarrow> True
   | call_direction.Outgoing \<Rightarrow> did_send_offer call)"

definition should_send_hangup_on_failure :: "('m, 'pc, 'sk, 'ig, 'x) call_scheme \<Rightarrow> bool" where
  "should_send_hangup_on_failure call = (case call_dir call of
     call_direction.Incoming \<Rightarrow> call_accepted (link_state call)
   | call_direction.Outgoing \<Rightarrow> True)"

definition send_hangup_via_signaling_to_all ::
  "'m call_manager \<Rightarrow> hangup \<Rightarrow> ('m, 'x) call_link_scheme
   \<Rightarrow> ('m, 'x) call_link_scheme \<times> (unit, ringrtc_error) result" where
  "send_hangup_via_signaling_to_all cm h = cm_call cm (CmSendHangup h)"

text \<open>A loop over connections that the first error ends.\<close>

fun for_each_device ::
  "device_id list \<Rightarrow> (device_id \<Rightarrow> 's \<Rightarrow> 's \<times> (unit, ringrtc_error) result) \<Rightarrow> 's
   \<Rightarrow> 's \<times> (unit, ringrtc_error) result" where
  "for_each_device [] g call = (call, Ok ())"
| "for_each_device (d # ds) g call = bind_ok (g d call) (\<lambda>_ call. for_each_device ds g call)"

definition hang_up_device ::
  "hangup \<Rightarrow> device_id \<Rightarrow> ('m, 'pc, 'sk, 'ig, 'x) call_scheme
   \<Rightarrow> ('m, 'pc, 'sk, 'ig, 'x) call_scheme \<times> (unit, ringrtc_error) result" where
  "hang_up_device h d = with_connection d (on_entry (inject_send_hangup_via_rtp_data h))"

definition send_hangup_via_rtp_data_to_all ::
  "hangup \<Rightarrow> ('m, 'pc, 'sk, 'ig, 'x) call_scheme
   \<Rightarrow> ('m, 'pc, 'sk, 'ig, 'x) call_scheme \<times> (unit, ringrtc_error) result" where
  "send_hangup_via_rtp_data_to_all h call =
     for_each_device (map fst (connection_map call)) (hang_up_device h) call"

definition devices_except :: "device_id \<Rightarrow> (device_id \<times> 'pc conn_entry) list \<Rightarrow> device_id list" where
  "devices_except d entries = map fst (filter (\<lambda>(_, _, c). remote_device_id c \<noteq> d) entries)"

definition send_hangup_via_rtp_data_to_all_except ::
  "hangup \<Rightarrow> device_id \<Rightarrow> ('m, 'pc, 'sk, 'ig, 'x) call_scheme
   \<Rightarrow> ('m, 'pc, 'sk, 'ig, 'x) call_scheme \<times> (unit, ringrtc_error) result" where
  "send_hangup_via_rtp_data_to_all_except h excluded call =
     for_each_device (devices_except excluded (connection_map call)) (hang_up_device h) call"

definition send_hangup_via_rtp_data_and_signaling_to_all_except ::
  "'m call_manager \<Rightarrow> hangup \<Rightarrow> device_id \<Rightarrow> ('m, 'pc, 'sk, 'ig, 'x) call_scheme
   \<Rightarrow> ('m, 'pc, 'sk, 'ig, 'x) call_scheme \<times> (unit, ringrtc_error) result" where
  "send_hangup_via_rtp_data_and_signaling_to_all_except cm h excluded call =
     bind_ok (send_hangup_via_rtp_data_to_all_except h excluded call) (\<lambda>_ call.
       send_hangup_via_signaling_to_all cm h call)"

section \<open>Termination of connections\<close>

text \<open>
  \<open>Connection::terminate\<close> waits until the connection's state machine has handled the events before
  the termination and the termination itself; nothing else runs on that connection meanwhile. The
  machine runs: every function that creates a connection starts it at once, and a start spawns
  the machine whether it succeeds or not.
\<close>

fun run_machine :: "'pc conn_ops \<Rightarrow> nat \<Rightarrow> ('pc, 'm, 'x) fsm_state \<Rightarrow> ('pc, 'm, 'x) fsm_state" where
  "run_machine ops 0 st = st"
| "run_machine ops (Suc n) st =
     (if terminate_complete (fst (snd st)) then st
      else (case run_once ops st of None \<Rightarrow> st | Some st' \<Rightarrow> run_machine ops n st'))"

definition connection_terminate ::
  "'pc conn_ops \<Rightarrow> nat \<Rightarrow> 'pc conn_entry \<times> ('m, 'x) call_link_scheme
   \<Rightarrow> ('pc conn_entry \<times> ('m, 'x) call_link_scheme) \<times> (unit, ringrtc_error) result" where
  "connection_terminate ops now ec = (case ec of ((f, c), p) \<Rightarrow>
     (case terminate_begin (c, p) of
        ((c, p), Err e) \<Rightarrow> (((f, c), p), Err e)
      | ((c, p), Ok _) \<Rightarrow>
          (case run_machine ops (length (stream_events (conn_stream c))) (f, c, p) of (f, c, p) \<Rightarrow>
             (case terminate_finish ops now (c, p) of ((c, p), r) \<Rightarrow> (((f, c), p), r)))))"

text \<open>Terminating connections one after the other; an error is only logged.\<close>

fun terminate_entries ::
  "'pc conn_ops \<Rightarrow> nat \<Rightarrow> 'pc conn_entry list \<Rightarrow> ('m, 'pc, 'sk, 'ig, 'x) call_scheme
   \<Rightarrow> ('m, 'pc, 'sk, 'ig, 'x) call_scheme" where
  "terminate_entries ops now [] call = call"
| "terminate_entries ops now (entry # entries) call =
     (case connection_terminate ops now (entry, call) of ((entry, call), _) \<Rightarrow>
        terminate_entries ops now entries (call\<lparr>retired := retired call @ [entry]\<rparr>))"

definition handle_ice_failed ::
  "('pc, 'm, 'sd, 'ig, 'sk) call_env \<Rightarrow> nat \<Rightarrow> device_id \<Rightarrow> ('m, 'pc, 'sk, 'ig, 'x) call_scheme
   \<Rightarrow> ('m, 'pc, 'sk, 'ig, 'x) call_scheme \<times> (unit, ringrtc_error) result" where
  "handle_ice_failed E now d call = (case active_device_id call of
     Ok active \<Rightarrow> if active = d then cm_call (e_cm E) CmConnectionFailure call else (call, Ok ())
   | Err _ \<Rightarrow>
       if length (connection_map call) = 1 then cm_call (e_cm E) CmConnectionFailure call
       else (case map_of (connection_map call) d of
         None \<Rightarrow> (call, Ok ())
       | Some entry \<Rightarrow>
           (case connection_terminate (e_ops E) now
                   (entry, call\<lparr>connection_map := AList.delete d (connection_map call)\<rparr>) of
              ((entry, call), r) \<Rightarrow> (call\<lparr>retired := retired call @ [entry]\<rparr>, r))))"

definition terminate_connections ::
  "('pc, 'm, 'sd, 'ig, 'sk) call_env \<Rightarrow> nat \<Rightarrow> ('m, 'pc, 'sk, 'ig, 'x) call_scheme
   \<Rightarrow> ('m, 'pc, 'sk, 'ig, 'x) call_scheme" where
  "terminate_connections E now call =
     (let call = (case call_context call of
                    Ok ctx \<Rightarrow> fst (cm_call (e_cm E) (CmDisconnectIncomingMedia ctx) call)
                  | Err _ \<Rightarrow> call);
          call = (case forking call of
                    Some fork \<Rightarrow> terminate_entries (e_ops E) now [parent_connection fork] (call\<lparr>forking := None\<rparr>)
                  | None \<Rightarrow> call)
      in terminate_entries (e_ops E) now (map snd (connection_map call)) (call\<lparr>connection_map := []\<rparr>))"

definition terminate_connections_except_accepted ::
  "'pc conn_ops \<Rightarrow> nat \<Rightarrow> device_id \<Rightarrow> ('m, 'pc, 'sk, 'ig, 'x) call_scheme
   \<Rightarrow> ('m, 'pc, 'sk, 'ig, 'x) call_scheme" where
  "terminate_connections_except_accepted ops now accepted call =
     terminate_entries ops now
       (map snd (filter (\<lambda>(_, _, c). remote_device_id c \<noteq> accepted) (connection_map call)))
       (call\<lparr>connection_map := filter (\<lambda>(_, _, c). remote_device_id c = accepted) (connection_map call)\<rparr>)"

section \<open>Termination and injected events\<close>

definition inject_send_hangup_via_rtp_data_to_all ::
  "hangup \<Rightarrow> ('m, 'x) call_link_scheme \<Rightarrow> ('m, 'x) call_link_scheme \<times> (unit, ringrtc_error) result" where
  "inject_send_hangup_via_rtp_data_to_all h call =
     inject_call_event (SendHangupViaRtpDataToAll h) (call_set_state call_state.Terminating call)"

definition call_terminate_begin ::
  "('m, 'x) call_link_scheme \<Rightarrow> ('m, 'x) call_link_scheme \<times> (unit, ringrtc_error) result" where
  "call_terminate_begin call = inject_call_event call_event.Terminate (call_set_state call_state.Terminating call)"

definition call_notify_terminate_complete ::
  "('m, 'pc, 'sk, 'ig, 'x) call_scheme \<Rightarrow> ('m, 'pc, 'sk, 'ig, 'x) call_scheme" where
  "call_notify_terminate_complete call = call\<lparr>call_terminate_complete := True\<rparr>"

definition call_terminate_finish ::
  "('pc, 'm, 'sd, 'ig, 'sk) call_env \<Rightarrow> nat \<Rightarrow> ('m, 'pc, 'sk, 'ig, 'x) call_scheme
   \<Rightarrow> ('m, 'pc, 'sk, 'ig, 'x) call_scheme" where
  "call_terminate_finish E now call =
     (let call = terminate_connections E now call in
      call_set_state call_state.Terminated
        (call\<lparr>timeout_thread := map_option (stop_all_and_join now) (timeout_thread call)\<rparr>))"

end
