(* ===== verification/Call_Fsm.thy ===== *)
theory Call_Fsm
  imports Call
begin

text \<open>
  The state machine of a call (\<open>core/call_fsm.rs\<close>): every handler of an event, the closures it
  queues for its worker and notify threads, and the loop that feeds it. A handler works on the
  machine and the call, and receives the call state that the loop read before dispatching. Logging,
  the reports of unexpected events and the call statistics are left out.
\<close>

section \<open>The machine\<close>

datatype call_worker_task =
    WTerminateOthers hangup device_id
  | WAcceptRemotely
  | WProceed call_config "nat option"
  | WReceivedAnswer received_answer
  | WReceivedIce received_ice
  | WRemoteHangup "call_end_reason option"
  | WAcceptLocally
  | WSendHangupToAll hangup
  | WIceFailed device_id
  | WInternalError ringrtc_error
  | WTimeout
  | WCallSync

datatype call_notify_task =
    NApplication application_event
  | NNetworkRoute network_route
  | NAudioLevels "16 word" "16 word"
  | NLowBandwidth bool
  | NCallSync

record call_fsm =
  call_worker :: "call_worker_task actor"
  call_notify :: "call_notify_task actor"
  call_synced :: "nat list"

definition call_fsm_new :: call_fsm where
  "call_fsm_new = \<lparr> call_worker = actor_start, call_notify = actor_start, call_synced = [] \<rparr>"

type_synonym ('m, 'pc, 'sk, 'ig, 'x) call_fsm_state =
  "call_fsm \<times> ('m, 'pc, 'sk, 'ig, 'x) call_scheme"

type_synonym ('m, 'pc, 'sk, 'ig, 'x) call_fsm_result =
  "('m, 'pc, 'sk, 'ig, 'x) call_fsm_state \<times> (unit, ringrtc_error) result"

definition call_worker_spawn :: "call_worker_task \<Rightarrow> call_fsm \<Rightarrow> call_fsm" where
  "call_worker_spawn t f =
     (if has_been_stopped (call_worker f) then f
      else f\<lparr>call_worker := actor_send t (call_worker f)\<rparr>)"

definition call_notify_spawn :: "call_notify_task \<Rightarrow> call_fsm \<Rightarrow> call_fsm" where
  "call_notify_spawn t f =
     (if has_been_stopped (call_notify f) then f
      else f\<lparr>call_notify := actor_send t (call_notify f)\<rparr>)"

definition call_drain_worker_thread :: "call_fsm \<Rightarrow> call_fsm" where
  "call_drain_worker_thread f = f\<lparr>call_worker := stop_all_and_join 0 (call_worker f)\<rparr>"

definition call_drain_notify_thread :: "call_fsm \<Rightarrow> call_fsm" where
  "call_drain_notify_thread f = f\<lparr>call_notify := stop_all_and_join 0 (call_notify f)\<rparr>"

definition fsm_notify_application :: "application_event \<Rightarrow> call_fsm \<Rightarrow> call_fsm" where
  "fsm_notify_application event = call_notify_spawn (NApplication event)"

section \<open>Acceptance\<close>

definition handle_remotely_accepted_connection ::
  "device_id \<Rightarrow> ('m, 'pc, 'sk, 'ig, 'x) call_fsm_state \<Rightarrow> ('m, 'pc, 'sk, 'ig, 'x) call_fsm_result" where
  "handle_remotely_accepted_connection accepted st = (case st of (f, call) \<Rightarrow>
     (let h = hangup.AcceptedOnAnotherDevice accepted in
      case bind_ok (set_active_device_id accepted call) (\<lambda>_ call.
             bind_ok (start_call_summary_stats_collection call) (\<lambda>_ call.
               send_hangup_via_rtp_data_to_all_except h accepted call)) of
        (call, Err e) \<Rightarrow> ((f, call), Err e)
      | (call, Ok _) \<Rightarrow> ((call_worker_spawn (WTerminateOthers h accepted) f, call), Ok ())))"

definition activate_remotely_accepted_connection ::
  "('m, 'pc, 'sk, 'ig, 'x) call_fsm_state \<Rightarrow> ('m, 'pc, 'sk, 'ig, 'x) call_fsm_state" where
  "activate_remotely_accepted_connection st = (case st of (f, call) \<Rightarrow>
     (call_worker_spawn WAcceptRemotely f, call))"

definition handle_accept_call ::
  "call_state \<Rightarrow> ('m, 'pc, 'sk, 'ig, 'x) call_fsm_state \<Rightarrow> ('m, 'pc, 'sk, 'ig, 'x) call_fsm_result" where
  "handle_accept_call state st = (case st of (f, call) \<Rightarrow>
     if call_can_be_accepted_locally state
     then ((call_worker_spawn WAcceptLocally f, call_set_state call_state.ConnectedAndAccepted call), Ok ())
     else (st, Ok ()))"

section \<open>Start, proceed and signaling\<close>

definition fsm_handle_start_call ::
  "'m call_manager \<Rightarrow> call_state \<Rightarrow> ('m, 'pc, 'sk, 'ig, 'x) call_fsm_state
   \<Rightarrow> ('m, 'pc, 'sk, 'ig, 'x) call_fsm_result" where
  "fsm_handle_start_call cm state st = (case st of (f, call) \<Rightarrow>
     if state = call_state.NotYetStarted then
       (case call_start cm (call_set_state call_state.WaitingToProceed call) of (call, r) \<Rightarrow> ((f, call), r))
     else (st, Ok ()))"

definition handle_proceed ::
  "call_state \<Rightarrow> call_config \<Rightarrow> nat option \<Rightarrow> ('m, 'pc, 'sk, 'ig, 'x) call_fsm_state
   \<Rightarrow> ('m, 'pc, 'sk, 'ig, 'x) call_fsm_result" where
  "handle_proceed state config levels st = (case st of (f, call) \<Rightarrow>
     if state = call_state.WaitingToProceed
     then ((call_worker_spawn (WProceed config levels) f,
            call_set_state call_state.ConnectingBeforeAccepted call), Ok ())
     else (st, Ok ()))"

definition handle_received_answer ::
  "call_state \<Rightarrow> received_answer \<Rightarrow> ('m, 'pc, 'sk, 'ig, 'x) call_fsm_state
   \<Rightarrow> ('m, 'pc, 'sk, 'ig, 'x) call_fsm_result" where
  "handle_received_answer state received st = (case st of (f, call) \<Rightarrow>
     if state = call_state.ConnectingBeforeAccepted \<or> state = call_state.ConnectedBeforeAccepted
     then ((call_worker_spawn (WReceivedAnswer received) f, call), Ok ())
     else (st, Ok ()))"

definition call_handle_received_ice ::
  "call_state \<Rightarrow> received_ice \<Rightarrow> ('m, 'pc, 'sk, 'ig, 'x) call_fsm_state
   \<Rightarrow> ('m, 'pc, 'sk, 'ig, 'x) call_fsm_result" where
  "call_handle_received_ice state received st = (case st of (f, call) \<Rightarrow>
     if call_can_receive_ice_candidates state
     then ((call_worker_spawn (WReceivedIce received) f, call), Ok ())
     else (st, Ok ()))"

section \<open>Hangups\<close>

text \<open>
  How a hangup is treated: the hangup to send to the other devices, if any, and the reason that
  overrides the default one. An unexpected combination is only reported.
\<close>

definition hangup_response ::
  "hangup_type \<Rightarrow> call_direction \<Rightarrow> device_id \<Rightarrow> hangup option \<times> call_end_reason option" where
  "hangup_response ty dir sender = (case (ty, dir) of
     (hangup_type.NeedPermission, call_direction.Outgoing) \<Rightarrow>
       (Some (hangup.NeedPermission (Some sender)), Some RemoteHangupNeedPermission)
   | (hangup_type.Normal, call_direction.Incoming) \<Rightarrow> (None, None)
   | (hangup_type.Normal, call_direction.Outgoing) \<Rightarrow> (Some (hangup.DeclinedOnAnotherDevice sender), None)
   | (hangup_type.AcceptedOnAnotherDevice, call_direction.Incoming) \<Rightarrow> (None, Some RemoteHangupAccepted)
   | (hangup_type.DeclinedOnAnotherDevice, call_direction.Incoming) \<Rightarrow> (None, Some RemoteHangupDeclined)
   | (hangup_type.BusyOnAnotherDevice, call_direction.Incoming) \<Rightarrow> (None, Some RemoteHangupBusy)
   | (hangup_type.NeedPermission, call_direction.Incoming) \<Rightarrow> (None, None)
   | (hangup_type.AcceptedOnAnotherDevice, call_direction.Outgoing) \<Rightarrow> (None, None)
   | (hangup_type.DeclinedOnAnotherDevice, call_direction.Outgoing) \<Rightarrow> (None, None)
   | (hangup_type.BusyOnAnotherDevice, call_direction.Outgoing) \<Rightarrow> (None, None))"

definition call_handle_received_hangup ::
  "'m call_manager \<Rightarrow> call_state \<Rightarrow> received_hangup \<Rightarrow> ('m, 'pc, 'sk, 'ig, 'x) call_fsm_state
   \<Rightarrow> ('m, 'pc, 'sk, 'ig, 'x) call_fsm_result" where
  "call_handle_received_hangup cm state received st = (case st of (f, call) \<Rightarrow>
     (let sender = rh_sender_device_id received;
          (ty, dev) = to_type_and_device_id (rh_hangup received)
      in if call_dir call = call_direction.Incoming \<and> Some (local_device call) = dev then (st, Ok ())
         else if (case active_device_id call of Ok active \<Rightarrow> sender \<noteq> active | Err _ \<Rightarrow> False) then (st, Ok ())
         else
           (let (propagate, reason) = hangup_response ty (call_dir call) sender;
                call = (if call_can_be_terminated_remotely state
                        then call_set_state call_state.Terminating call else call)
            in case (case propagate of
                       Some h \<Rightarrow>
                         if call_should_propagate_hangup state
                         then send_hangup_via_rtp_data_and_signaling_to_all_except cm h
                                (case snd (to_type_and_device_id h) of Some d \<Rightarrow> d | None \<Rightarrow> 0) call
                         else (call, Ok ())
                     | None \<Rightarrow> (call, Ok ())) of
                 (call, Err e) \<Rightarrow> ((f, call), Err e)
               | (call, Ok _) \<Rightarrow> ((call_worker_spawn (WRemoteHangup reason) f, call), Ok ()))))"

definition handle_send_hangup_via_rtp_data_to_all ::
  "call_state \<Rightarrow> hangup \<Rightarrow> ('m, 'pc, 'sk, 'ig, 'x) call_fsm_state
   \<Rightarrow> ('m, 'pc, 'sk, 'ig, 'x) call_fsm_result" where
  "handle_send_hangup_via_rtp_data_to_all state h st = (case st of (f, call) \<Rightarrow>
     if call_can_send_hangup_via_rtp state
     then ((call_worker_spawn (WSendHangupToAll h) f, call), Ok ())
     else (st, Ok ()))"

section \<open>What connections report\<close>

text \<open>Reports about a connection that is not the active one are ignored in some states.\<close>

definition if_active_device ::
  "device_id \<Rightarrow> (('m, 'pc, 'sk, 'ig, 'x) call_fsm_state \<Rightarrow> ('m, 'pc, 'sk, 'ig, 'x) call_fsm_result)
   \<Rightarrow> ('m, 'pc, 'sk, 'ig, 'x) call_fsm_state \<Rightarrow> ('m, 'pc, 'sk, 'ig, 'x) call_fsm_result" where
  "if_active_device d g st = (case active_device_id (snd st) of
     Err e \<Rightarrow> (st, Err e)
   | Ok active \<Rightarrow> if active = d then g st else (st, Ok ()))"

definition handle_connection_state_changed ::
  "'pc conn_ops \<Rightarrow> call_state \<Rightarrow> connection_state \<Rightarrow> device_id \<Rightarrow> ('m, 'pc, 'sk, 'ig, 'x) call_fsm_state
   \<Rightarrow> ('m, 'pc, 'sk, 'ig, 'x) call_fsm_result" where
  "handle_connection_state_changed ops state cstate d st = (case st of (f, call) \<Rightarrow>
     (case (call_dir call, state, cstate) of
        (call_direction.Incoming, call_state.ConnectingBeforeAccepted, connection_state.ConnectedBeforeAccepted) \<Rightarrow>
          ((fsm_notify_application LocalRinging f,
            call_set_state call_state.ConnectedBeforeAccepted call), Ok ())
      | (call_direction.Outgoing, call_state.ConnectingBeforeAccepted, connection_state.ConnectedBeforeAccepted) \<Rightarrow>
          ((fsm_notify_application RemoteRinging f,
            call_set_state call_state.ConnectedBeforeAccepted call), Ok ())
      | (call_direction.Outgoing, call_state.ConnectingBeforeAccepted, connection_state.ConnectingAfterAccepted) \<Rightarrow>
          handle_remotely_accepted_connection d
            (f, call_set_state call_state.ConnectingAfterAccepted call)
      | (call_direction.Outgoing, call_state.ConnectedBeforeAccepted, connection_state.ConnectingAfterAccepted) \<Rightarrow>
          handle_remotely_accepted_connection d
            (f, call_set_state call_state.ConnectingAfterAccepted call)
      | (call_direction.Outgoing, call_state.ConnectingAfterAccepted, connection_state.ConnectedAndAccepted) \<Rightarrow>
          if_active_device d (\<lambda>(f, call).
            (activate_remotely_accepted_connection
               (fsm_notify_application RemoteRinging f,
                call_set_state call_state.ConnectedAndAccepted call), Ok ())) st
      | (call_direction.Outgoing, call_state.ConnectedBeforeAccepted, connection_state.ConnectedAndAccepted) \<Rightarrow>
          bind_ok (handle_remotely_accepted_connection d
                     (f, call_set_state call_state.ConnectedAndAccepted call)) (\<lambda>_ st.
            (activate_remotely_accepted_connection st, Ok ()))
      | (_, call_state.ConnectedAndAccepted, connection_state.ReconnectingAfterAccepted) \<Rightarrow>
          if_active_device d (\<lambda>(f, call).
            ((fsm_notify_application Reconnecting f,
              fst (with_active_connection
                     (\<lambda>(c, p). case regather_on_all_networks ops c of (c, r) \<Rightarrow> ((c, p), r))
                     (call_set_state call_state.ReconnectingAfterAccepted call))), Ok ())) st
      | (_, call_state.ReconnectingAfterAccepted, connection_state.ConnectedAndAccepted) \<Rightarrow>
          if_active_device d (\<lambda>(f, call).
            ((fsm_notify_application Reconnected f,
              call_set_state call_state.ConnectedAndAccepted call), Ok ())) st
      | (_, _, connection_state.IceFailed) \<Rightarrow> ((call_worker_spawn (WIceFailed d) f, call), Ok ())
      | _ \<Rightarrow> (st, Ok ())))"

definition notify_flag ::
  "bool option \<Rightarrow> application_event \<Rightarrow> application_event \<Rightarrow> call_fsm \<Rightarrow> call_fsm" where
  "notify_flag flag on off f = (case flag of
     Some True \<Rightarrow> fsm_notify_application on f
   | Some False \<Rightarrow> fsm_notify_application off f
   | None \<Rightarrow> f)"

definition handle_remote_sender_status ::
  "call_state \<Rightarrow> sender_status \<Rightarrow> device_id \<Rightarrow> ('m, 'pc, 'sk, 'ig, 'x) call_fsm_state
   \<Rightarrow> ('m, 'pc, 'sk, 'ig, 'x) call_fsm_result" where
  "handle_remote_sender_status state status d st =
     (if call_active state then
        if_active_device d (\<lambda>(f, call).
          ((notify_flag (audio_enabled status) RemoteAudioEnable RemoteAudioDisable
              (notify_flag (sharing_screen status) RemoteSharingScreenEnable RemoteSharingScreenDisable
                 (notify_flag (video_enabled status) RemoteVideoEnable RemoteVideoDisable f)),
            call), Ok ())) st
      else (st, Ok ()))"

definition handle_connection_observer_event ::
  "('pc, 'm, 'sd, 'ig, 'sk) call_env \<Rightarrow> call_state \<Rightarrow> connection_observer_event \<Rightarrow> device_id
   \<Rightarrow> ('m, 'pc, 'sk, 'ig, 'x) call_fsm_state \<Rightarrow> ('m, 'pc, 'sk, 'ig, 'x) call_fsm_result" where
  "handle_connection_observer_event E state event d st = (case st of (f, call) \<Rightarrow>
     (case event of
        StateChanged cstate \<Rightarrow> handle_connection_state_changed (e_ops E) state cstate d st
      | connection_observer_event.ReceivedHangup h \<Rightarrow>
          call_handle_received_hangup (e_cm E) state
            \<lparr> rh_hangup = h, rh_sender_device_id = d \<rparr> st
      | RemoteSenderStatusChanged status \<Rightarrow> handle_remote_sender_status state status d st
      | connection_observer_event.IceConnected \<Rightarrow> (st, Ok ())
      | connection_observer_event.IceDisconnected \<Rightarrow> (st, Ok ())
      | connection_observer_event.IceNetworkRouteChanged r \<Rightarrow>
          (case active_device_id call of
             Err _ \<Rightarrow> (st, Ok ())
           | Ok active \<Rightarrow>
               if active = d then ((call_notify_spawn (NNetworkRoute r) f, call), Ok ()) else (st, Ok ()))
      | AudioLevels captured received_level \<Rightarrow>
          ((call_notify_spawn (NAudioLevels captured received_level) f, call), Ok ())
      | LowBandwidthForVideo recovered \<Rightarrow> ((call_notify_spawn (NLowBandwidth recovered) f, call), Ok ())))"

section \<open>Errors, timeouts, synchronisation and termination\<close>

definition call_handle_internal_error ::
  "ringrtc_error \<Rightarrow> ('m, 'pc, 'sk, 'ig, 'x) call_fsm_state \<Rightarrow> ('m, 'pc, 'sk, 'ig, 'x) call_fsm_result" where
  "call_handle_internal_error e st = (case st of (f, call) \<Rightarrow>
     ((call_worker_spawn (WInternalError e) f, call), Ok ()))"

definition handle_connection_observer_error ::
  "ringrtc_error \<Rightarrow> device_id \<Rightarrow> ('m, 'pc, 'sk, 'ig, 'x) call_fsm_state
   \<Rightarrow> ('m, 'pc, 'sk, 'ig, 'x) call_fsm_result" where
  "handle_connection_observer_error e d = call_handle_internal_error e"

definition handle_call_timeout ::
  "call_state \<Rightarrow> ('m, 'pc, 'sk, 'ig, 'x) call_fsm_state \<Rightarrow> ('m, 'pc, 'sk, 'ig, 'x) call_fsm_result" where
  "handle_call_timeout state st = (case st of (f, call) \<Rightarrow>
     if \<not> call_active state then ((call_worker_spawn WTimeout f, call), Ok ()) else (st, Ok ()))"

text \<open>
  \<open>handle_synchronize\<close>: a marker is sent to each thread that has not been stopped and waited for; the
  wait of at most two seconds is not modelled, nor the wait for a termination, which is only
  reached once the termination has completed.
\<close>

definition call_handle_synchronize ::
  "nat \<Rightarrow> ('m, 'pc, 'sk, 'ig, 'x) call_fsm_state \<Rightarrow> ('m, 'pc, 'sk, 'ig, 'x) call_fsm_result" where
  "call_handle_synchronize sync st = (case st of (f, call) \<Rightarrow>
     (((call_notify_spawn NCallSync (call_worker_spawn WCallSync f))\<lparr>call_synced := call_synced f @ [sync]\<rparr>,
       call), Ok ()))"

definition call_handle_terminate ::
  "('m, 'pc, 'sk, 'ig, 'x) call_fsm_state \<Rightarrow> ('m, 'pc, 'sk, 'ig, 'x) call_fsm_result" where
  "call_handle_terminate st = (case st of (f, call) \<Rightarrow>
     ((call_drain_notify_thread (call_drain_worker_thread f),
       call_notify_terminate_complete
         (call_set_state call_state.Terminated (call\<lparr>link_stream := close_stream (link_stream call)\<rparr>))), Ok ()))"

section \<open>Dispatch\<close>

definition call_handle_event ::
  "('pc, 'm, 'sd, 'ig, 'sk) call_env \<Rightarrow> call_state \<Rightarrow> call_event \<Rightarrow> ('m, 'pc, 'sk, 'ig, 'x) call_fsm_state
   \<Rightarrow> ('m, 'pc, 'sk, 'ig, 'x) call_fsm_result" where
  "call_handle_event E state event st = (case event of
     SendHangupViaRtpDataToAll h \<Rightarrow> handle_send_hangup_via_rtp_data_to_all state h st
   | call_event.Terminate \<Rightarrow> call_handle_terminate st
   | call_event.Synchronize sync \<Rightarrow> call_handle_synchronize sync st
   | _ \<Rightarrow>
       if call_terminating_or_terminated state then (st, Ok ())
       else (case event of
         StartCall \<Rightarrow> fsm_handle_start_call (e_cm E) state st
       | Proceed config levels \<Rightarrow> handle_proceed state config levels st
       | AcceptCall \<Rightarrow> handle_accept_call state st
       | ReceivedAnswer received \<Rightarrow> handle_received_answer state received st
       | call_event.ReceivedIce received \<Rightarrow> call_handle_received_ice state received st
       | call_event.ReceivedHangup received \<Rightarrow> call_handle_received_hangup (e_cm E) state received st
       | ConnectionObserverEvent event d \<Rightarrow> handle_connection_observer_event E state event d st
       | ConnectionObserverError e d \<Rightarrow> handle_connection_observer_error e d st
       | call_event.InternalError e \<Rightarrow> call_handle_internal_error e st
       | CallTimeout \<Rightarrow> handle_call_timeout state st
       | _ \<Rightarrow> (st, Ok ())))"

definition call_run_once ::
  "('pc, 'm, 'sd, 'ig, 'sk) call_env \<Rightarrow> ('m, 'pc, 'sk, 'ig, 'x) call_fsm_state
   \<Rightarrow> ('m, 'pc, 'sk, 'ig, 'x) call_fsm_state option" where
  "call_run_once E st = (case st of (f, call) \<Rightarrow>
     (case recv (link_stream call) of
        (s, Received event) \<Rightarrow>
          Some (fst (call_handle_event E (link_state call) event (f, call\<lparr>link_stream := s\<rparr>)))
      | (s, Waiting) \<Rightarrow> Some st
      | (s, received.Closed) \<Rightarrow> None))"

section \<open>The worker and notify threads\<close>

text \<open>
  \<open>schedule_work_until_terminating\<close> drops its work once the call is terminating,
  \<open>schedule_work_even_when_terminating\<close> does not; both inject the error of a failed task. The error
  of the internal error report is only logged.
\<close>

definition until_terminating ::
  "(('m, 'pc, 'sk, 'ig, 'x) call_scheme \<Rightarrow> ('m, 'pc, 'sk, 'ig, 'x) call_scheme \<times> (unit, ringrtc_error) result)
   \<Rightarrow> ('m, 'pc, 'sk, 'ig, 'x) call_scheme
   \<Rightarrow> ('m, 'pc, 'sk, 'ig, 'x) call_scheme \<times> (unit, ringrtc_error) result" where
  "until_terminating work call = (if call_terminating call then (call, Ok ()) else work call)"

definition or_internal_error ::
  "('m, 'pc, 'sk, 'ig, 'x) call_scheme \<times> (unit, ringrtc_error) result \<Rightarrow> ('m, 'pc, 'sk, 'ig, 'x) call_scheme" where
  "or_internal_error cr = (case cr of
     (call, Err e) \<Rightarrow> fst (inject_call_event (call_event.InternalError e) call)
   | (call, Ok _) \<Rightarrow> call)"

definition call_worker_body ::
  "('pc, 'm, 'sd, 'ig, 'sk) call_env \<Rightarrow> nat \<Rightarrow> 'sk \<Rightarrow> call_worker_task \<Rightarrow> ('m, 'pc, 'sk, 'ig, 'x) call_scheme
   \<Rightarrow> ('m, 'pc, 'sk, 'ig, 'x) call_scheme \<times> (unit, ringrtc_error) result" where
  "call_worker_body E now secret t = (case t of
     WTerminateOthers h accepted \<Rightarrow> until_terminating (\<lambda>call.
       bind_ok (send_hangup_via_signaling_to_all (e_cm E) h call) (\<lambda>_ call.
         (terminate_connections_except_accepted (e_ops E) now accepted call, Ok ())))
   | WAcceptRemotely \<Rightarrow> until_terminating (accept_remotely E now)
   | WProceed config levels \<Rightarrow> until_terminating (proceed E secret config levels)
   | WReceivedAnswer received \<Rightarrow> until_terminating (received_answer_by_call E received)
   | WReceivedIce received \<Rightarrow> until_terminating (received_ice_by_call received)
   | WRemoteHangup reason \<Rightarrow> cm_call (e_cm E) (CmRemoteHangup reason)
   | WAcceptLocally \<Rightarrow> until_terminating (accept_locally E now)
   | WSendHangupToAll h \<Rightarrow> send_hangup_via_rtp_data_to_all h
   | WIceFailed d \<Rightarrow> until_terminating (handle_ice_failed E now d)
   | WInternalError e \<Rightarrow> (\<lambda>call. (fst (cm_call (e_cm E) (CmInternalError e) call), Ok ()))
   | WTimeout \<Rightarrow> cm_call (e_cm E) CmTimeout
   | WCallSync \<Rightarrow> (\<lambda>call. (call, Ok ())))"

definition run_call_worker_task ::
  "('pc, 'm, 'sd, 'ig, 'sk) call_env \<Rightarrow> nat \<Rightarrow> 'sk \<Rightarrow> call_worker_task \<Rightarrow> ('m, 'pc, 'sk, 'ig, 'x) call_scheme
   \<Rightarrow> ('m, 'pc, 'sk, 'ig, 'x) call_scheme" where
  "run_call_worker_task E now secret t call = or_internal_error (call_worker_body E now secret t call)"

definition call_notify_body ::
  "'m call_manager \<Rightarrow> call_notify_task \<Rightarrow> ('m, 'pc, 'sk, 'ig, 'x) call_scheme
   \<Rightarrow> ('m, 'pc, 'sk, 'ig, 'x) call_scheme \<times> (unit, ringrtc_error) result" where
  "call_notify_body cm t = (case t of
     NApplication event \<Rightarrow> call_notify_application cm event
   | NNetworkRoute r \<Rightarrow> cm_call cm (CmNotifyNetworkRouteChanged r)
   | NAudioLevels captured received_level \<Rightarrow> cm_call cm (CmNotifyAudioLevels captured received_level)
   | NLowBandwidth recovered \<Rightarrow> cm_call cm (CmNotifyLowBandwidthForVideo recovered)
   | NCallSync \<Rightarrow> (\<lambda>call. (call, Ok ())))"

definition run_call_notify_task ::
  "'m call_manager \<Rightarrow> call_notify_task \<Rightarrow> ('m, 'pc, 'sk, 'ig, 'x) call_scheme
   \<Rightarrow> ('m, 'pc, 'sk, 'ig, 'x) call_scheme" where
  "run_call_notify_task cm t call = or_internal_error (until_terminating (call_notify_body cm t) call)"

section \<open>Termination of a call\<close>

text \<open>
  \<open>Call::terminate\<close>: it waits until the state machine has handled the events before the termination
  and the termination itself, and then ends the connections.
\<close>

fun call_run_machine ::
  "('pc, 'm, 'sd, 'ig, 'sk) call_env \<Rightarrow> nat \<Rightarrow> ('m, 'pc, 'sk, 'ig, 'x) call_fsm_state
   \<Rightarrow> ('m, 'pc, 'sk, 'ig, 'x) call_fsm_state" where
  "call_run_machine E 0 st = st"
| "call_run_machine E (Suc n) st =
     (if call_terminate_complete (snd st) then st
      else (case call_run_once E st of None \<Rightarrow> st | Some st' \<Rightarrow> call_run_machine E n st'))"

definition call_terminate ::
  "('pc, 'm, 'sd, 'ig, 'sk) call_env \<Rightarrow> nat \<Rightarrow> ('m, 'pc, 'sk, 'ig, 'x) call_fsm_state
   \<Rightarrow> ('m, 'pc, 'sk, 'ig, 'x) call_fsm_result" where
  "call_terminate E now st = (case st of (f, call) \<Rightarrow>
     (case call_terminate_begin call of
        (call, Err e) \<Rightarrow> ((f, call), Err e)
      | (call, Ok _) \<Rightarrow>
          (case call_run_machine E (length (stream_events (link_stream call))) (f, call) of (f, call) \<Rightarrow>
             ((f, call_terminate_finish E now call), Ok ()))))"

end
