(* ===== verification/Connection_Props.thy ===== *)
theory Connection_Props
  imports Connection "HOL-Library.Sublist"
begin

text \<open>
  What connections guarantee: the send rate respects every limit, the accumulated message reaches
  the peer's state machine, removed ICE candidates are received as removals, local candidates are
  requested once per batch, the low-bandwidth callbacks fire in order, and both ends derive the
  same SRTP keys.
\<close>

section \<open>Bandwidth\<close>

lemma max_send_rate_upper:
  "max_send_rate b \<le> max (local_max b) MIN_SEND_RATE"
  "remote_max b = Some r \<Longrightarrow> max_send_rate b \<le> max r MIN_SEND_RATE"
  "relay_max b = Some r \<Longrightarrow> max_send_rate b \<le> max r MIN_SEND_RATE"
proof -
  let ?m = "min_opt (local_max b) (remote_max b)"
  have m: "min_opt ?m (relay_max b) \<le> ?m" "?m \<le> local_max b"
    by (rule min_opt_le)+
  then show "max_send_rate b \<le> max (local_max b) MIN_SEND_RATE"
    unfolding max_send_rate_def by (intro max.mono order_refl) (rule order_trans)
  show "remote_max b = Some r \<Longrightarrow> max_send_rate b \<le> max r MIN_SEND_RATE"
    unfolding max_send_rate_def
    by (intro max.mono order_refl order_trans [OF m(1) min_opt_le_other])
  show "relay_max b = Some r \<Longrightarrow> max_send_rate b \<le> max r MIN_SEND_RATE"
    unfolding max_send_rate_def by (intro max.mono order_refl min_opt_le_other)
qed

text \<open>
  The send rate never falls below the minimum, never exceeds the local mode's limit, the
  remote peer's limit or, on a relayed route, 1 Mbps (unless that limit is below the minimum),
  and always equals the minimum or one of those limits.
\<close>

theorem max_send_rate_respects_limits:
  "MIN_SEND_RATE \<le> max_send_rate b
   \<and> max_send_rate b \<le> max (max_bitrate (local_mode b)) MIN_SEND_RATE
   \<and> (case remote_max b of None \<Rightarrow> True | Some r \<Rightarrow> max_send_rate b \<le> max r MIN_SEND_RATE)
   \<and> (if local_relayed (route b) \<or> remote_relayed (route b)
      then max_send_rate b \<le> from_kbps 1000 else True)
   \<and> (max_send_rate b = MIN_SEND_RATE \<or> max_send_rate b = max_bitrate (local_mode b)
      \<or> remote_max b = Some (max_send_rate b) \<or> relay_max b = Some (max_send_rate b))"
proof (intro conjI)
  show "MIN_SEND_RATE \<le> max_send_rate b"
    by (simp add: max_send_rate_def)
  show "max_send_rate b \<le> max (max_bitrate (local_mode b)) MIN_SEND_RATE"
    using max_send_rate_upper(1) by (simp add: local_max_def)
  show "case remote_max b of None \<Rightarrow> True | Some r \<Rightarrow> max_send_rate b \<le> max r MIN_SEND_RATE"
    using max_send_rate_upper(2) by (auto split: option.split)
  have "max RELAYED_MAX_SEND_RATE MIN_SEND_RATE = from_kbps 1000"
    by (simp add: RELAYED_MAX_SEND_RATE_def MIN_SEND_RATE_def max_def rate_le_iff rate_eq_iff)
  then show "if local_relayed (route b) \<or> remote_relayed (route b)
      then max_send_rate b \<le> from_kbps 1000 else True"
    using max_send_rate_upper(3) [of b RELAYED_MAX_SEND_RATE] by (simp add: relay_max_def)
  show "max_send_rate b = MIN_SEND_RATE \<or> max_send_rate b = max_bitrate (local_mode b)
      \<or> remote_max b = Some (max_send_rate b) \<or> relay_max b = Some (max_send_rate b)"
    using min_opt_cases [of "min_opt (local_max b) (remote_max b)" "relay_max b"]
      min_opt_cases [of "local_max b" "remote_max b"]
    by (auto simp: max_send_rate_def max_def local_max_def split: if_splits)
qed

text \<open>Every limit change that succeeds leaves the peer connection with the resulting rate.\<close>

definition rate_applied :: "('pc \<Rightarrow> data_rate) \<Rightarrow> 'pc connection \<Rightarrow> bool" where
  "rate_applied rate_of c = (case peer_connection (webrtc c) of
     None \<Rightarrow> True | Some pc \<Rightarrow> rate_of pc = max_send_rate (bandwidth c))"

lemma apply_bandwidth_controller_rate:
  assumes "\<forall>r pc pc'. pc_set_send_rates ops r pc = (pc', Ok ()) \<longrightarrow> rate_of pc' = r"
    and "apply_bandwidth_controller ops c = (c', Ok ())"
  shows "rate_applied rate_of c' \<and> bandwidth c' = bandwidth c"
  using assms
  by (auto simp: apply_bandwidth_controller_def with_peer_connection_def rate_applied_def
      split: option.splits prod.splits)

lemma update_bandwidth_controller_rate:
  assumes set: "\<forall>r pc pc'. pc_set_send_rates ops r pc = (pc', Ok ()) \<longrightarrow> rate_of pc' = r"
    and same: "snd (update (bandwidth c)) \<or> fst (update (bandwidth c)) = bandwidth c"
    and applied: "rate_applied rate_of c"
    and res: "update_bandwidth_controller ops update c = (c', Ok changed)"
  shows "rate_applied rate_of c' \<and> bandwidth c' = fst (update (bandwidth c))"
proof (cases "update (bandwidth c)")
  case (Pair b chg)
  show ?thesis
  proof (cases chg)
    case True
    obtain c2 r where ap: "apply_bandwidth_controller ops (c\<lparr>bandwidth := b\<rparr>) = (c2, r)"
      by (meson surj_pair)
    then have "r = Ok () \<and> c2 = c'"
      using res Pair True by (cases r) (simp_all add: update_bandwidth_controller_def)
    then show ?thesis
      using apply_bandwidth_controller_rate [where rate_of = rate_of and ops = ops, OF set] Pair ap
      by auto
  next
    case False
    then show ?thesis
      using same applied res Pair
      by (auto simp: update_bandwidth_controller_def rate_applied_def)
  qed
qed

lemma report_route_rate:
  assumes "\<forall>pc. rate_of (pc_get_stats ops pc) = rate_of pc"
  shows "rate_applied rate_of (report_route_to_stats ops r c) = rate_applied rate_of c
    \<and> bandwidth (report_route_to_stats ops r c) = bandwidth c"
  using assms
  by (auto simp: report_route_to_stats_def rate_applied_def Let_def split: option.splits)

lemma send_via_rtp_data_rate:
  assumes "\<forall>h b pc. rate_of (fst (pc_send_rtp ops h b pc)) = rate_of pc"
    and "send_via_rtp_data ops m c = (c', res)"
  shows "rate_applied rate_of c' = rate_applied rate_of c \<and> bandwidth c' = bandwidth c"
  using assms
  by (auto simp: send_via_rtp_data_def with_peer_connection_def rate_applied_def Let_def
      split: sum.splits option.splits prod.splits)

lemma update_and_send_rate:
  assumes "\<forall>h b pc. rate_of (fst (pc_send_rtp ops h b pc)) = rate_of pc"
    and "update_and_send_rtp_data_message ops f c = (c', res)"
  shows "rate_applied rate_of c' = rate_applied rate_of c \<and> bandwidth c' = bandwidth c"
proof -
  have [simp]: "rate_applied rate_of (c\<lparr>accumulated_rtp_data_message := m\<rparr>) = rate_applied rate_of c" for m
    by (simp add: rate_applied_def split: option.split)
  show ?thesis
    using send_via_rtp_data_rate [where rate_of = rate_of and ops = ops, OF assms(1)] assms(2)
    by (fastforce simp: update_and_send_rtp_data_message_def Let_def)
qed

text \<open>
  C18: whenever the remote limit, the network route or the data mode is changed and the operation
  succeeds, the peer connection is left with the send rate that the new limits give, and the
  change itself is recorded.
\<close>

theorem applied_rate_follows_limits:
  assumes set: "\<forall>r pc pc'. pc_set_send_rates ops r pc = (pc', Ok ()) \<longrightarrow> rate_of pc' = r"
    and stats: "\<forall>pc. rate_of (pc_get_stats ops pc) = rate_of pc"
    and send: "\<forall>h b pc. rate_of (fst (pc_send_rtp ops h b pc)) = rate_of pc"
    and applied: "rate_applied rate_of c"
  shows "(\<forall>r c'. set_remote_max_bitrate ops r c = (c', Ok ())
            \<longrightarrow> rate_applied rate_of c' \<and> remote_max (bandwidth c') = Some r)
    \<and> (\<forall>n c'. set_network_route ops n c = (c', Ok ())
            \<longrightarrow> rate_applied rate_of c' \<and> route (bandwidth c') = n)
    \<and> (\<forall>m c'. update_data_mode ops m c = (c', Ok ())
            \<longrightarrow> rate_applied rate_of c' \<and> local_mode (bandwidth c') = m)"
proof -
  note upd = update_bandwidth_controller_rate [where rate_of = rate_of and ops = ops, OF set]
  have rate: "rate_applied rate_of c' \<and> remote_max (bandwidth c') = Some r"
    if "set_remote_max_bitrate ops r c = (c', Ok ())" for r c'
  proof -
    let ?u = "\<lambda>b. if remote_max b = Some r then (b, False) else (b\<lparr>remote_max := Some r\<rparr>, True)"
    obtain c2 res where "update_bandwidth_controller ops ?u c = (c2, res)"
      by (meson surj_pair)
    then show ?thesis
      using that upd [where update = ?u and c = c and c' = c2, OF _ applied]
      by (cases res) (simp_all add: set_remote_max_bitrate_def split: if_splits)
  qed
  have net: "rate_applied rate_of c' \<and> route (bandwidth c') = n"
    if "set_network_route ops n c = (c', Ok ())" for n c'
  proof -
    let ?u = "\<lambda>b. if route b = n then (b, False) else (b\<lparr>route := n\<rparr>, True)"
    let ?c = "report_route_to_stats ops n c"
    obtain c2 res where "update_bandwidth_controller ops ?u ?c = (c2, res)"
      by (meson surj_pair)
    then show ?thesis
      using that upd [where update = ?u and c = ?c and c' = c2] applied
        report_route_rate [where rate_of = rate_of and ops = ops, OF stats]
      by (cases res) (simp_all add: set_network_route_def split: if_splits)
  qed
  have mode: "rate_applied rate_of c' \<and> local_mode (bandwidth c') = m"
    if "update_data_mode ops m c = (c', Ok ())" for m c'
  proof -
    let ?u = "\<lambda>b. if local_mode b = m then (b, False) else (b\<lparr>local_mode := m\<rparr>, True)"
    obtain c2 res where "update_bandwidth_controller ops ?u c = (c2, res)"
      by (meson surj_pair)
    then show ?thesis
      using that upd [where update = ?u and c = c and c' = c2, OF _ applied]
        update_and_send_rate [where rate_of = rate_of and ops = ops and c = c2 and c' = c', OF send]
      by (cases res) (auto simp: update_data_mode_def split: if_splits)
  qed
  show "(\<forall>r c'. set_remote_max_bitrate ops r c = (c', Ok ())
            \<longrightarrow> rate_applied rate_of c' \<and> remote_max (bandwidth c') = Some r)
    \<and> (\<forall>n c'. set_network_route ops n c = (c', Ok ())
            \<longrightarrow> rate_applied rate_of c' \<and> route (bandwidth c') = n)
    \<and> (\<forall>m c'. update_data_mode ops m c = (c', Ok ())
            \<longrightarrow> rate_applied rate_of c' \<and> local_mode (bandwidth c') = m)"
    using rate net mode by blast
qed

text \<open>A peer connection that records what is done to it, for concrete runs.\<close>

record log_pc =
  log_rate :: data_rate
  log_rtp :: "(rtp_header \<times> bytes) list"
  log_added :: "string list"
  log_removed :: "socket_addr list"

definition log_ops :: "rtp_message \<Rightarrow> bytes \<Rightarrow> ice_decoder \<Rightarrow> log_pc conn_ops" where
  "log_ops m payload dec =
     \<lparr> pc_set_send_rates = \<lambda>r pc. (pc\<lparr>log_rate := r\<rparr>, Ok ()),
       pc_send_rtp = \<lambda>h b pc. (pc\<lparr>log_rtp := log_rtp pc @ [(h, b)]\<rparr>, Ok ()),
       pc_add_ice_candidate_from_sdp = \<lambda>sdp pc. (pc\<lparr>log_added := log_added pc @ [sdp]\<rparr>, Ok ()),
       pc_remove_ice_candidates = \<lambda>as pc. pc\<lparr>log_removed := log_removed pc @ as\<rparr>,
       pc_get_stats = \<lambda>pc. pc,
       pc_get_audio_levels = \<lambda>pc. (0, []),
       pc_get_last_bandwidth_estimate = \<lambda>pc. from_kbps 50,
       pc_set_audio_playout_enabled = \<lambda>b pc. pc,
       pc_set_incoming_media_enabled = \<lambda>b pc. pc,
       pc_set_outgoing_media_enabled = \<lambda>b pc. pc,
       pc_set_audio_recording_enabled = \<lambda>b pc. pc,
       pc_regather_on_all_networks = \<lambda>pc. pc,
       pc_close = \<lambda>pc. pc,
       rtp_encode = \<lambda>_. Ok payload,
       rtp_decode = \<lambda>_. Ok m,
       rtp_message_size = 64,
       ice_decode = dec \<rparr>"

definition log_pc_start :: log_pc where
  "log_pc_start = \<lparr> log_rate = from_kbps 2000, log_rtp = [], log_added = [], log_removed = [] \<rparr>"

definition demo_connection :: "call_direction \<Rightarrow> connection_state \<Rightarrow> log_pc connection" where
  "demo_connection dir st =
     (let c = connection_new 5 dir 2 Incoming call_config_default None 1 in
      c\<lparr>conn_state := st, webrtc := (webrtc c)\<lparr>peer_connection := Some log_pc_start\<rparr>\<rparr>)"

lemmas demo_defs = demo_connection_def connection_new_def log_pc_start_def log_ops_def
  call_config_default_def Let_def

theorem applied_rate_follows_limits_witness:
  "rate_applied log_rate (demo_connection call_direction.Outgoing connection_state.ConnectedAndAccepted)
   \<and> (\<exists>c'. set_remote_max_bitrate (log_ops rtp_message_default [1] (\<lambda>_. None)) (from_kbps 500)
          (demo_connection call_direction.Outgoing connection_state.ConnectedAndAccepted) = (c', Ok ())
        \<and> rate_applied log_rate c' \<and> remote_max (bandwidth c') = Some (from_kbps 500))"
proof -
  let ?ops = "log_ops rtp_message_default [1] (\<lambda>_. None)"
  let ?c = "demo_connection call_direction.Outgoing connection_state.ConnectedAndAccepted"
  have "max_send_rate (bandwidth ?c) = from_kbps 2000"
    by (simp add: demo_defs max_send_rate_def min_opt_def local_max_def relay_max_def unknown_route_def
        max_bitrate_def MIN_SEND_RATE_def max_def rate_le_iff)
  then have "rate_applied log_rate ?c"
    by (simp add: rate_applied_def demo_defs)
  moreover have "\<forall>r pc pc'. pc_set_send_rates ?ops r pc = (pc', Ok ()) \<longrightarrow> log_rate pc' = r"
    "\<forall>pc. log_rate (pc_get_stats ?ops pc) = log_rate pc"
    "\<forall>h b pc. log_rate (fst (pc_send_rtp ?ops h b pc)) = log_rate pc"
    by (auto simp: log_ops_def)
  moreover have "snd (set_remote_max_bitrate ?ops (from_kbps 500) ?c) = Ok ()"
    by (simp add: demo_defs set_remote_max_bitrate_def update_bandwidth_controller_def
        apply_bandwidth_controller_def with_peer_connection_def)
  then have "\<exists>c'. set_remote_max_bitrate ?ops (from_kbps 500) ?c = (c', Ok ())"
    by (metis surjective_pairing)
  ultimately show ?thesis
    using applied_rate_follows_limits [of ?ops log_rate ?c] by blast
qed

section \<open>RTP data\<close>

definition events_of :: "'pc connection \<Rightarrow> connection_event list" where
  "events_of c = stream_events (conn_stream c)"

lemma inject_event_frame [simp]:
  "direction (fst (inject_event e c)) = direction c"
  "conn_call_id (fst (inject_event e c)) = conn_call_id c"
  "conn_state (fst (inject_event e c)) = conn_state c"
  "stream_open (conn_stream (fst (inject_event e c))) = stream_open (conn_stream c)"
  by (cases "conn_stream c"; simp add: inject_event_def split: try_send_error.split)+

lemma inject_event_events:
  "events_of (fst (inject_event e c)) =
     (if stream_open (conn_stream c) \<and> length (events_of c) < CHANNEL_CAPACITY
      then events_of c @ [e] else events_of c)"
  by (cases "conn_stream c") (simp_all add: events_of_def inject_event_def)

text \<open>The events a received message stands for, in the order they are injected.\<close>

definition message_events :: "call_direction \<Rightarrow> rtp_message \<Rightarrow> connection_event list" where
  "message_events dir m =
     (case msg_accepted m of None \<Rightarrow> []
      | Some acc \<Rightarrow>
          [if dir = call_direction.Outgoing then ReceivedAcceptedViaRtpData (or_default (acc_id acc))
           else connection_event.InternalError
             (RtpDataProtocol ''Received 'accepted' for inbound call'')])
     @ (case msg_hangup m of None \<Rightarrow> []
      | Some h \<Rightarrow> [connection_event.ReceivedHangup (or_default (hup_id h))
          (from_type_and_device_id
             (case hangup_type_from_i32 (hup_type_accessor h) of
                Some t \<Rightarrow> t | None \<Rightarrow> hangup_type.Normal)
             (or_default (hup_device_id h)))])
     @ (case (msg_sender_status m, msg_seqnum m) of
          (Some ss, Some n) \<Rightarrow> [ReceivedSenderStatusViaRtpData (or_default (ss_id ss))
            \<lparr> video_enabled = ss_video_enabled ss, sharing_screen = ss_sharing_screen ss,
              audio_enabled = ss_audio_enabled ss \<rparr> n]
        | _ \<Rightarrow> [])
     @ (case (msg_receiver_status m, msg_seqnum m) of
          (Some rs, Some n) \<Rightarrow> [ReceivedReceiverStatusViaRtpData (or_default (rs_id rs))
            (from_bps (or_default (rs_max_bitrate_bps rs))) n]
        | _ \<Rightarrow> [])"

lemma message_parts_events:
  assumes "stream_open (conn_stream c)" "length (events_of c) + 4 \<le> CHANNEL_CAPACITY"
  shows "events_of (inject_receiver_status_part m (inject_sender_status_part m
            (inject_hangup_part m (inject_accepted_part m c))))
    = events_of c @ message_events (direction c) m"
  using assms
  by (simp add: inject_receiver_status_part_def inject_sender_status_part_def inject_hangup_part_def
      inject_accepted_part_def inject_internal_error_def message_events_def inject_event_events
      split: option.split)

lemma handle_rtp_received_events:
  assumes "pt hdr = RTP_DATA_PAYLOAD_TYPE" "ssrc hdr = RTP_DATA_SSRC"
    and "last_received_rtp_data_timestamp b \<le> timestamp hdr"
    and "rtp_decode ops payload = Ok m" "payload \<noteq> []" "length payload \<le> rtp_message_size ops * 2"
    and "stream_open (conn_stream b)" "length (events_of b) + 4 \<le> CHANNEL_CAPACITY"
  shows "events_of (handle_rtp_received ops hdr payload b) = events_of b @ message_events (direction b) m"
  using assms
    message_parts_events [of "b\<lparr>last_received_rtp_data_timestamp := timestamp hdr\<rparr>" m]
  by (simp add: handle_rtp_received_def inject_received_via_rtp_data_def events_of_def)

text \<open>The hangup as it arrives: an absent device id is received as 0.\<close>

definition received_hangup_of :: "hangup \<Rightarrow> hangup" where
  "received_hangup_of h =
     (if h = hangup.NeedPermission None then hangup.NeedPermission (Some 0) else h)"

lemma send_hangup_message:
  assumes "send_hangup_via_rtp_data ops h a = (a', r)"
  shows "\<exists>ty dev. to_type_and_device_id h = (ty, dev)
    \<and> msg_hangup (accumulated_rtp_data_message a') =
        Some \<lparr> hup_id = Some (conn_call_id a), hup_type = Some (hangup_type_as_i32 ty),
               hup_device_id = dev \<rparr>"
  using assms
  by (cases "to_type_and_device_id h")
     (auto simp: send_hangup_via_rtp_data_def update_and_send_rtp_data_message_def Let_def
        send_via_rtp_data_def with_peer_connection_def split: sum.splits option.splits prod.splits)

text \<open>
  C17: a hangup sent as RTP data reaches the state machine of the peer. The message handed to the
  peer connection is the encoded accumulated message, under a header that the receiver accepts;
  when it arrives, the events that the message stands for are appended to the receiver's queue,
  in order, and among them is the hangup of this call, with the type it was sent with and the device
  id as the wire carries it, a missing one as 0.
\<close>

theorem hangup_reaches_peer:
  assumes "send_hangup_via_rtp_data opsA h a = (a', Ok ())"
    and "peer_connection (webrtc a) = Some pc"
    and "rtp_encode opsA (accumulated_rtp_data_message a') = Ok payload"
    and "rtp_decode opsB payload = Ok (accumulated_rtp_data_message a')"
    and "payload \<noteq> []" "length payload \<le> rtp_message_size opsB * 2"
    and "last_received_rtp_data_timestamp b \<le> last_sent_rtp_data_timestamp (webrtc a) + 1"
    and "stream_open (conn_stream b)" "length (events_of b) + 4 \<le> CHANNEL_CAPACITY"
  shows "\<exists>hdr. peer_connection (webrtc a') = Some (fst (pc_send_rtp opsA hdr payload pc))
    \<and> events_of (handle_rtp_received opsB hdr payload b) =
        events_of b @ message_events (direction b) (accumulated_rtp_data_message a')
    \<and> connection_event.ReceivedHangup (conn_call_id a) (received_hangup_of h)
        \<in> set (message_events (direction b) (accumulated_rtp_data_message a'))"
proof -
  let ?ts = "last_sent_rtp_data_timestamp (webrtc a) + 1"
  define hdr where "hdr = \<lparr> pt = RTP_DATA_PAYLOAD_TYPE, ssrc = RTP_DATA_SSRC, rtp_seqnum = ucast ?ts,
      timestamp = ?ts \<rparr>"
  have sent: "peer_connection (webrtc a') = Some (fst (pc_send_rtp opsA hdr payload pc))"
    using assms(1-3)
    by (auto simp: send_hangup_via_rtp_data_def update_and_send_rtp_data_message_def Let_def
        send_via_rtp_data_def with_peer_connection_def hdr_def split: sum.splits prod.splits)
  moreover have "events_of (handle_rtp_received opsB hdr payload b) =
      events_of b @ message_events (direction b) (accumulated_rtp_data_message a')"
    using assms(4-9) by (intro handle_rtp_received_events) (simp_all add: hdr_def)
  moreover obtain ty dev where td: "to_type_and_device_id h = (ty, dev)"
    and m: "msg_hangup (accumulated_rtp_data_message a') =
        Some \<lparr> hup_id = Some (conn_call_id a), hup_type = Some (hangup_type_as_i32 ty),
               hup_device_id = dev \<rparr>"
    using send_hangup_message [OF assms(1)] by blast
  have "from_type_and_device_id ty (or_default dev) = received_hangup_of h"
    using hangup_round_trip [OF td] by (simp add: or_default_def received_hangup_of_def)
  then have "connection_event.ReceivedHangup (conn_call_id a) (received_hangup_of h)
        \<in> set (message_events (direction b) (accumulated_rtp_data_message a'))"
    by (simp add: message_events_def m hup_type_accessor_def or_default_def)
  ultimately show ?thesis by blast
qed

definition demo_message :: rtp_message where
  "demo_message = rtp_message_default
     \<lparr>msg_hangup := Some \<lparr> hup_id = Some 5, hup_type = Some 4, hup_device_id = None \<rparr>,
      msg_seqnum := Some 1\<rparr>"

theorem hangup_reaches_peer_witness:
  "\<exists>hdr a'. send_hangup_via_rtp_data (log_ops demo_message [1] (\<lambda>_. None)) (hangup.NeedPermission None)
       (demo_connection call_direction.Incoming connection_state.ConnectedAndAccepted) = (a', Ok ())
    \<and> connection_event.ReceivedHangup 5 (hangup.NeedPermission (Some 0))
       \<in> set (events_of (handle_rtp_received (log_ops demo_message [1] (\<lambda>_. None)) hdr [1]
           (demo_connection call_direction.Outgoing connection_state.ConnectedAndAccepted)))"
proof -
  let ?ops = "log_ops demo_message [1] (\<lambda>_. None)"
  let ?h = "hangup.NeedPermission None"
  let ?a = "demo_connection call_direction.Incoming connection_state.ConnectedAndAccepted"
  let ?b = "demo_connection call_direction.Outgoing connection_state.ConnectedAndAccepted"
  obtain a' where a': "send_hangup_via_rtp_data ?ops ?h ?a = (a', Ok ())"
    and m: "accumulated_rtp_data_message a' = demo_message"
    by (simp add: send_hangup_via_rtp_data_def update_and_send_rtp_data_message_def
        send_via_rtp_data_def with_peer_connection_def demo_defs demo_message_def
        rtp_message_default_def or_default_def)
  obtain hdr where "peer_connection (webrtc a') = Some (fst (pc_send_rtp ?ops hdr [1] log_pc_start))
    \<and> events_of (handle_rtp_received ?ops hdr [1] ?b) =
        events_of ?b @ message_events (direction ?b) (accumulated_rtp_data_message a')
    \<and> connection_event.ReceivedHangup (conn_call_id ?a) (received_hangup_of ?h)
        \<in> set (message_events (direction ?b) (accumulated_rtp_data_message a'))"
    using hangup_reaches_peer [of ?ops ?h ?a a' log_pc_start "[1]" ?ops ?b] a' m
    by (auto simp: demo_defs events_of_def CHANNEL_CAPACITY_def)
  moreover have "conn_call_id ?a = 5"
    by (simp add: demo_defs)
  ultimately have "connection_event.ReceivedHangup 5 (hangup.NeedPermission (Some 0))
       \<in> set (events_of (handle_rtp_received ?ops hdr [1] ?b))"
    by (simp add: received_hangup_of_def)
  then show ?thesis
    using a' by blast
qed

section \<open>ICE candidates\<close>

text \<open>
  C26: an ICE update is received as it was meant. Over a codec that decodes what it encodes, the
  removal of an address is received as the removal of that address and adds no candidate, and an
  added candidate is received as an addition and removes nothing.
\<close>

theorem ice_update_round_trip:
  assumes "\<And>p b. enc p = Ok b \<Longrightarrow> dec b = Some p"
  shows "(\<forall>addr cand. socket_addr_wf addr \<longrightarrow> from_removed_address enc addr = Ok cand
            \<longrightarrow> removed_addresses dec [cand] = [addr] \<and> added_sdps dec [cand] = [])
    \<and> (\<forall>sdp cand. from_v3_sdp enc sdp = Ok cand
            \<longrightarrow> removed_addresses dec [cand] = [] \<and> added_sdps dec [cand] = [sdp])"
  using assms
  by (auto simp: from_removed_address_def from_v3_sdp_def removed_address_def v3_sdp_def to_std_into
      split: sum.splits)

text \<open>A codec for the witness: one byte for the addition, one for the removal.\<close>

definition demo_added :: ice_candidate_proto where
  "demo_added = \<lparr> added_v3 = Some \<lparr> proto_sdp = Some ''a'' \<rparr>, removed = None \<rparr>"

definition demo_removed :: ice_candidate_proto where
  "demo_removed = \<lparr> added_v3 = Some \<lparr> proto_sdp = Some FAKE_SDP \<rparr>,
     removed = Some (socket_addr_into (SocketAddr (V4 [10, 0, 0, 1]) 4000)) \<rparr>"

definition demo_encode :: ice_encoder where
  "demo_encode p = (if p = demo_added then Ok [1] else if p = demo_removed then Ok [2]
     else Err (Anyhow ''unsupported''))"

definition demo_decode :: ice_decoder where
  "demo_decode b = (if b = [1] then Some demo_added else if b = [2] then Some demo_removed else None)"

theorem ice_update_round_trip_witness:
  "from_removed_address demo_encode (SocketAddr (V4 [10, 0, 0, 1]) 4000) = Ok (IceCandidate [2])
   \<and> removed_addresses demo_decode [IceCandidate [2]] = [SocketAddr (V4 [10, 0, 0, 1]) 4000]
   \<and> added_sdps demo_decode [IceCandidate [2]] = []
   \<and> from_v3_sdp demo_encode ''a'' = Ok (IceCandidate [1])
   \<and> added_sdps demo_decode [IceCandidate [1]] = [''a'']"
proof -
  have ne: "demo_added \<noteq> demo_removed"
    by (simp add: demo_added_def demo_removed_def)
  have rem: "from_removed_address demo_encode (SocketAddr (V4 [10, 0, 0, 1]) 4000) = Ok (IceCandidate [2])"
    using ne by (simp add: from_removed_address_def demo_encode_def demo_removed_def [symmetric])
  have add: "from_v3_sdp demo_encode ''a'' = Ok (IceCandidate [1])"
    by (simp add: from_v3_sdp_def demo_encode_def demo_added_def [symmetric])
  have "demo_encode p = Ok b \<Longrightarrow> demo_decode b = Some p" for p b
    using ne by (auto simp: demo_encode_def demo_decode_def split: if_splits)
  moreover have "socket_addr_wf (SocketAddr (V4 [10, 0, 0, 1]) 4000)"
    by simp
  ultimately show ?thesis
    using ice_update_round_trip [of demo_encode demo_decode] rem add by blast
qed

text \<open>Buffering a sequence of batches of local candidates.\<close>

definition buffer_batches ::
  "'m call_manager \<Rightarrow> ice_candidate list list \<Rightarrow> ('pc, 'm, 'x) conn_pair \<Rightarrow> ('pc, 'm, 'x) conn_pair"
where
  "buffer_batches cm batches cp = fold (\<lambda>cs cp. fst (buffer_local_ice_candidates cm cs cp)) batches cp"

definition log_manager :: "cm_request list call_manager" where
  "log_manager call_id req log = (log @ [req], Ok ())"

lemma buffer_batches_nonempty:
  assumes "buffered_local_ice_candidates c \<noteq> []"
  shows "buffer_batches cm batches (c, p) =
    (c\<lparr>buffered_local_ice_candidates := buffered_local_ice_candidates c @ concat batches\<rparr>, p)"
  using assms
proof (induction batches arbitrary: c)
  case (Cons cs batches)
  have "buffer_local_ice_candidates cm cs (c, p) =
      ((c\<lparr>buffered_local_ice_candidates := buffered_local_ice_candidates c @ cs\<rparr>, p), Ok ())"
    using Cons.prems by (simp add: buffer_local_ice_candidates_def Let_def)
  then show ?case
    using Cons.IH [of "c\<lparr>buffered_local_ice_candidates := buffered_local_ice_candidates c @ cs\<rparr>"]
      Cons.prems
    by (simp add: buffer_batches_def)
qed (simp add: buffer_batches_def)

text \<open>
  Local candidates are kept in order and requested once. Starting from an empty buffer,
  whatever batches arrive, the buffer holds exactly their concatenation, and the call manager has
  been asked exactly once to send them if there is any, never otherwise; taking the candidates
  returns them all and empties the buffer.
\<close>

theorem local_candidates_requested_once:
  assumes "buffered_local_ice_candidates c = []"
    and "\<not> call_terminating_or_terminated (link_state p)"
    and "buffer_batches cm batches (c, p) = (c', p')"
  shows "take_buffered_local_ice_candidates c' =
      (c'\<lparr>buffered_local_ice_candidates := []\<rparr>, concat batches)
    \<and> p' = (if concat batches = [] then p
            else fst (cm_call cm (CmSendBufferedLocalIceCandidates (remote_device_id c)
                   (conn_type c = OutgoingParent)) p))"
  using assms
proof (induction batches arbitrary: c)
  case Nil
  then show ?case
    by (simp add: buffer_batches_def take_buffered_local_ice_candidates_def)
next
  case (Cons cs batches)
  show ?case
  proof (cases "cs = []")
    case True
    then have "buffer_local_ice_candidates cm cs (c, p) = ((c, p), Ok ())"
      using Cons.prems(1) by (simp add: buffer_local_ice_candidates_def Let_def)
    then show ?thesis
      using Cons.IH [OF Cons.prems(1,2)] Cons.prems(3) True by (simp add: buffer_batches_def)
  next
    case False
    have live: "link_state p \<noteq> call_state.Terminating" "link_state p \<noteq> call_state.Terminated"
      using Cons.prems(2) by auto
    let ?c = "c\<lparr>buffered_local_ice_candidates := cs\<rparr>"
    let ?p = "fst (cm_call cm (CmSendBufferedLocalIceCandidates (remote_device_id c)
                   (conn_type c = OutgoingParent)) p)"
    have "fst (buffer_local_ice_candidates cm cs (c, p)) = (?c, ?p)"
      using Cons.prems(1) False live
      by (simp add: buffer_local_ice_candidates_def Let_def send_buffered_local_ice_candidates_def
          split: prod.split)
    then have "buffer_batches cm (cs # batches) (c, p) = buffer_batches cm batches (?c, ?p)"
      by (simp add: buffer_batches_def)
    then show ?thesis
      using buffer_batches_nonempty [of ?c cm batches ?p] Cons.prems(3) False
      by (auto simp: take_buffered_local_ice_candidates_def)
  qed
qed

definition demo_link :: "cm_request list call_link" where
  "demo_link = \<lparr> link_call_id = 5, link_state = call_state.ConnectingBeforeAccepted,
     link_call_context = Some 3, link_stream = Active [], manager = [] \<rparr>"

theorem local_candidates_requested_once_witness:
  "\<exists>c' p'. buffer_batches log_manager [[], [IceCandidate [1]], [IceCandidate [2]]]
       (demo_connection call_direction.Outgoing connection_state.Starting, demo_link) = (c', p')
    \<and> buffered_local_ice_candidates c' = [IceCandidate [1], IceCandidate [2]]
    \<and> manager p' = [CmSendBufferedLocalIceCandidates 2 False]"
proof -
  let ?c = "demo_connection call_direction.Outgoing connection_state.Starting"
  let ?bs = "[[], [IceCandidate [1]], [IceCandidate [2]]]"
  obtain c' p' where run: "buffer_batches log_manager ?bs (?c, demo_link) = (c', p')"
    by (meson surj_pair)
  have "buffered_local_ice_candidates ?c = []" "\<not> call_terminating_or_terminated (link_state demo_link)"
    "remote_device_id ?c = 2" "conn_type ?c = connection_type.Incoming"
    by (simp_all add: demo_defs demo_link_def)
  with local_candidates_requested_once [of ?c demo_link log_manager ?bs c' p'] run show ?thesis
    by (simp add: take_buffered_local_ice_candidates_def cm_call_def log_manager_def demo_link_def)
qed

section \<open>Low bandwidth\<close>

definition link_events :: "('m, 'x) call_link_scheme \<Rightarrow> call_event list" where
  "link_events p = stream_events (link_stream p)"

definition has_room :: "nat \<Rightarrow> ('m, 'x) call_link_scheme \<Rightarrow> bool" where
  "has_room n p = (stream_open (link_stream p) \<and> length (link_events p) + n \<le> CHANNEL_CAPACITY)"

lemma notify_observer_events:
  "\<exists>p'. fst (notify_observer e (c, p)) = (c, p')
    \<and> link_events p' =
        link_events p @ (if has_room 1 p then [ConnectionObserverEvent e (remote_device_id c)] else [])
    \<and> stream_open (link_stream p') = stream_open (link_stream p)"
  by (cases "link_stream p")
     (auto simp: notify_observer_def on_connection_observer_event_def inject_call_event_def
        link_events_def has_room_def)

lemma with_peer_connection_read:
  "with_peer_connection (\<lambda>pc. (pc, Ok (f pc))) c = (case peer_connection (webrtc c) of
     None \<Rightarrow> (c, Err (OptionValueNotSet ''peer_connection'' ''peer_connection''))
   | Some pc \<Rightarrow> (c, Ok (f pc)))"
proof (cases "peer_connection (webrtc c)")
  case (Some pc)
  then have "c\<lparr>webrtc := (webrtc c)\<lparr>peer_connection := Some pc\<rparr>\<rparr> = c"
    by (cases c, cases "webrtc c") auto
  then show ?thesis
    using Some by (simp add: with_peer_connection_def)
qed (simp add: with_peer_connection_def)

text \<open>
  One ticker of a connection: \<open>start_tick\<close> gives the tick actor a clone of the connection, which
  holds its own copy of \<open>bwe_callback_state\<close> and shares everything else. Between two ticks the
  other threads do anything to what is shared and to the queue of the call, but reach neither that
  copy nor the actor's count of ticks. The reports carry the tick, whether they tell of a recovery,
  and the connection as it was at the end of the tick. In a lossless run the queue of the call has
  room for the two events of a tick.
\<close>

definition low_reports :: "('m, 'x) call_link_scheme \<Rightarrow> ('m, 'x) call_link_scheme \<Rightarrow> bool list" where
  "low_reports p p' = List.map_filter
     (\<lambda>e. case e of ConnectionObserverEvent (LowBandwidthForVideo recovered) _ \<Rightarrow> Some recovered | _ \<Rightarrow> None)
     (drop (length (link_events p)) (link_events p'))"

type_synonym 'pc low_report = "nat \<times> bool \<times> 'pc connection"

inductive ticker_run ::
  "'pc conn_ops \<Rightarrow> bool \<Rightarrow> nat \<Rightarrow> ('pc, 'm, 'x) conn_pair \<Rightarrow> 'pc low_report list \<Rightarrow> bool"
  for ops lossless where
  ticker_new: "ticker_run ops lossless 0 (connection_new i dir dev ty config levels ptr, p) []"
| ticker_others:
    "ticker_run ops lossless n (c, p) rs
     \<Longrightarrow> bwe_state c' = bwe_state c \<Longrightarrow> ticks_elapsed c' = ticks_elapsed c
     \<Longrightarrow> ticker_run ops lossless n (c', p') rs"
| ticker_tick:
    "ticker_run ops lossless n (c, p) rs \<Longrightarrow> (lossless \<Longrightarrow> has_room 2 p)
     \<Longrightarrow> tick_and_reschedule ops now (c, p) = Some (c', p')
     \<Longrightarrow> ticker_run ops lossless (n + 1) (c', p')
           (rs @ map (\<lambda>b. (ticks_elapsed c', b, c')) (low_reports p p'))"

definition bandwidth_is_low :: "'pc conn_ops \<Rightarrow> 'pc connection \<Rightarrow> bool" where
  "bandwidth_is_low ops c = (conn_state c = connection_state.ConnectedAndAccepted \<and> sending_video c
     \<and> (case peer_connection (webrtc c) of
          Some pc \<Rightarrow> pc_get_last_bandwidth_estimate ops pc < from_kbps 60 | None \<Rightarrow> False))"

definition bandwidth_recovered :: "'pc conn_ops \<Rightarrow> 'pc connection \<Rightarrow> bool" where
  "bandwidth_recovered ops c = (case peer_connection (webrtc c) of
     Some pc \<Rightarrow> from_kbps 70 < pc_get_last_bandwidth_estimate ops pc | None \<Rightarrow> False)"

lemma low_reports_append:
  "link_events p' = link_events p @ es \<Longrightarrow> low_reports p p' = List.map_filter
     (\<lambda>e. case e of ConnectionObserverEvent (LowBandwidthForVideo recovered) _ \<Rightarrow> Some recovered | _ \<Rightarrow> None) es"
  by (simp add: low_reports_def)

lemma tick_bwe_step:
  assumes "tick_bwe ops ticks (c, p) = ((c', p'), r)"
  defines "told b \<equiv> (if has_room 1 p then [ConnectionObserverEvent (LowBandwidthForVideo b) (remote_device_id c)] else [])"
  shows "ticks_elapsed c' = ticks_elapsed c \<and> (case bwe_state c of
      CheckIfLow _ \<Rightarrow>
        (\<exists>t. bwe_state c' = CheckIfLow t) \<and> link_events p' = link_events p
        \<or> bwe_state c' = CheckIfRecovered ticks \<and> link_events p' = link_events p @ told False
          \<and> bandwidth_is_low ops c'
    | CheckIfRecovered t \<Rightarrow>
        bwe_state c' = CheckIfRecovered t \<and> link_events p' = link_events p
        \<or> bwe_state c' = Done \<and> link_events p' = link_events p @ told True
          \<and> add64 t 30 \<le> ticks \<and> bandwidth_recovered ops c'
    | Done \<Rightarrow> bwe_state c' = Done \<and> link_events p' = link_events p)"
proof -
  obtain p2 p3 where low: "fst (notify_observer (LowBandwidthForVideo False) (c, p)) = (c, p2)"
      "link_events p2 = link_events p @ told False"
    and recovered: "fst (notify_observer (LowBandwidthForVideo True) (c, p)) = (c, p3)"
      "link_events p3 = link_events p @ told True"
    using notify_observer_events [of _ c p] told_def by metis
  have delay: "DELAY_FOR_RECOVERED_BWE_CALLBACK_TICKS = 30"
    by (simp add: DELAY_FOR_RECOVERED_BWE_CALLBACK_TICKS_def TICK_INTERVAL_MILLIS_def)
  show ?thesis
    using assms(1) low recovered
    by (cases "bwe_state c")
       (auto simp: tick_bwe_def with_peer_connection_read delay BWE_THRESHOLD_FOR_LOW_NOTIFICATION_def
          BWE_THRESHOLD_FOR_RECOVERED_NOTIFICATION_def bandwidth_is_low_def bandwidth_recovered_def
          sending_video_def split: if_splits option.splits)
qed

text \<open>The parts of a tick before the bandwidth check leave the callback state alone and report audio levels at most.\<close>

definition ticker_fields :: "'pc connection \<Rightarrow> bwe_callback_state \<times> nat" where
  "ticker_fields c = (bwe_state c, ticks_elapsed c)"

lemma ticker_fields_peer: "with_peer_connection g c = (c', r) \<Longrightarrow> ticker_fields c' = ticker_fields c"
  by (auto simp: with_peer_connection_def ticker_fields_def split: option.splits prod.splits)

lemma ticker_fields_send: "tick_send ops n c = (c', r) \<Longrightarrow> ticker_fields c' = ticker_fields c"
  by (auto simp: tick_send_def send_latest_rtp_data_message_def send_via_rtp_data_def Let_def
      split: if_splits sum.splits dest!: ticker_fields_peer) (simp_all add: ticker_fields_def)

lemma ticker_fields_stats: "tick_stats ops n c = Some (c', r) \<Longrightarrow> ticker_fields c' = ticker_fields c"
  by (auto simp: tick_stats_def Let_def split: if_splits option.splits dest: ticker_fields_peer)

lemma tick_audio_step:
  assumes "tick_audio ops n (c, p) = ((c', p'), r)"
  shows "c' = c \<and> stream_open (link_stream p') = stream_open (link_stream p)
    \<and> (\<exists>es. link_events p' = link_events p @ es
         \<and> (es = [] \<or> (\<exists>l l'. es = [ConnectionObserverEvent (AudioLevels l l') (remote_device_id c)])))"
proof -
  have told: "p' = p \<or> (\<exists>l l'. fst (notify_observer (AudioLevels l l') (c, p)) = (c, p'))" "c' = c"
    using assms notify_observer_events [where c = c and p = p]
    by (auto simp: tick_audio_def with_peer_connection_read split: option.splits if_splits prod.splits)
      (metis Pair_inject)+
  show ?thesis
  proof (cases "p' = p")
    case False
    then obtain l l' where "fst (notify_observer (AudioLevels l l') (c, p)) = (c, p')"
      using told by blast
    then show ?thesis
      using notify_observer_events [of "AudioLevels l l'" c p] told by auto
  qed (use told in simp)
qed

lemma tick_parts:
  assumes "tick ops n (c, p) = Some ((c', p'), r)"
  obtains (ended) es where "ticker_fields c' = ticker_fields c" "link_events p' = link_events p @ es"
      "es = [] \<or> (\<exists>l l' i. es = [ConnectionObserverEvent (AudioLevels l l') i])"
  | (check) c1 p1 es where "ticker_fields c1 = ticker_fields c" "link_events p1 = link_events p @ es"
      "es = [] \<or> (\<exists>l l' i. es = [ConnectionObserverEvent (AudioLevels l l') i])"
      "stream_open (link_stream p1) = stream_open (link_stream p)"
      "tick_bwe ops n (c1, p1) = ((c', p'), r)"
proof -
  obtain c1 r1 where 1: "tick_send ops n c = (c1, r1)"
    by (meson surj_pair)
  show thesis
  proof (cases "isl r1 \<or> tick_stats ops n c1 = None")
    case True
    then show thesis
      using assms 1 ended [of "[]"] ticker_fields_send [OF 1] by (cases r1) (auto simp: tick_def)
  next
    case False
    then obtain c2 r2 where 2: "r1 = Ok ()" "tick_stats ops n c1 = Some (c2, r2)"
      by (cases r1) auto
    obtain c3 p3 r3 where 3: "tick_audio ops n (c2, p) = ((c3, p3), r3)"
      by (metis surj_pair)
    have f: "ticker_fields c2 = ticker_fields c"
      using ticker_fields_send [OF 1] ticker_fields_stats [OF 2(2)] by simp
    show thesis
      using assms 1 2 3 f ended [of "[]"] ended check tick_audio_step [OF 3]
      by (cases r2; cases r3) (auto simp: tick_def)
  qed
qed

definition tick_outcome ::
  "'pc conn_ops \<Rightarrow> bool \<Rightarrow> bwe_callback_state \<Rightarrow> nat \<Rightarrow> 'pc connection \<Rightarrow> bool list \<Rightarrow> bool" where
  "tick_outcome ops room st t c' told = (case st of
      CheckIfLow _ \<Rightarrow> (\<exists>d. bwe_state c' = CheckIfLow d) \<and> told = []
        \<or> bwe_state c' = CheckIfRecovered t \<and> bandwidth_is_low ops c' \<and> (told = [False] \<or> told = [] \<and> \<not> room)
    | CheckIfRecovered t0 \<Rightarrow> bwe_state c' = CheckIfRecovered t0 \<and> told = []
        \<or> bwe_state c' = Done \<and> add64 t0 30 \<le> t \<and> bandwidth_recovered ops c'
          \<and> (told = [True] \<or> told = [] \<and> \<not> room)
    | Done \<Rightarrow> bwe_state c' = Done \<and> told = [])"

lemma tick_and_reschedule_step:
  assumes "tick_and_reschedule ops now (c, p) = Some (c', p')"
  shows "ticks_elapsed c' = add64 (ticks_elapsed c) 1
    \<and> tick_outcome ops (has_room 2 p) (bwe_state c) (ticks_elapsed c') c' (low_reports p p')"
proof -
  let ?t = "add64 (ticks_elapsed c) 1"
  obtain c2 r where run: "tick ops ?t (c\<lparr>ticks_elapsed := ?t\<rparr>, p) = Some ((c2, p'), r)"
    and c': "c' = start_tick now c2"
    using assms by (auto simp: tick_and_reschedule_def Let_def split: option.splits)
  have same: "bwe_state c' = bwe_state c2" "ticks_elapsed c' = ticks_elapsed c2"
    "bandwidth_is_low ops c' = bandwidth_is_low ops c2" "bandwidth_recovered ops c' = bandwidth_recovered ops c2"
    by (simp_all add: c' start_tick_def bandwidth_is_low_def bandwidth_recovered_def sending_video_def)
  from run show ?thesis
  proof (cases rule: tick_parts)
    case (ended es)
    then have "low_reports p p' = []"
      by (auto simp: low_reports_def List.map_filter_simps)
    with ended show ?thesis
      by (cases "bwe_state c") (simp_all add: same tick_outcome_def ticker_fields_def)
  next
    case (check c1 p1 es)
    have room: "has_room 2 p \<Longrightarrow> has_room 1 p1"
      using check by (auto simp: has_room_def)
    have none: "low_reports p p' = List.map_filter (\<lambda>e. case e of
         ConnectionObserverEvent (LowBandwidthForVideo b) _ \<Rightarrow> Some b | _ \<Rightarrow> None) es'"
      if "link_events p' = link_events p1 @ es'" for es'
      using that check by (auto simp: low_reports_def List.map_filter_simps)
    have told: "low_reports p p' = [b] \<or> low_reports p p' = [] \<and> \<not> has_room 2 p"
      if "link_events p' = link_events p1 @ (if has_room 1 p1
            then [ConnectionObserverEvent (LowBandwidthForVideo b) (remote_device_id c1)] else [])" for b
      using none [OF that] room by (auto simp: List.map_filter_simps)
    have quiet: "link_events p' = link_events p1 \<Longrightarrow> low_reports p p' = []"
      using none [of "[]"] by (simp add: List.map_filter_simps)
    show ?thesis
      using tick_bwe_step [OF check(5)] check(1) told quiet
      by (cases "bwe_state c") (fastforce simp: same tick_outcome_def ticker_fields_def)+
  qed
qed

section \<open>The run of a ticker\<close>

definition one_report ::
  "bool \<Rightarrow> ('pc connection \<Rightarrow> bool) \<Rightarrow> nat \<Rightarrow> bool \<Rightarrow> 'pc low_report list \<Rightarrow> bool" where
  "one_report lossless P t b rs = ((\<exists>c. rs = [(t, b, c)] \<and> P c) \<or> rs = [] \<and> \<not> lossless)"

definition reports_upto ::
  "'pc conn_ops \<Rightarrow> bool \<Rightarrow> bwe_callback_state \<Rightarrow> nat \<Rightarrow> 'pc low_report list \<Rightarrow> bool" where
  "reports_upto ops lossless st n rs = (case st of
      CheckIfLow _ \<Rightarrow> rs = []
    | CheckIfRecovered t \<Rightarrow> t \<le> n \<and> one_report lossless (bandwidth_is_low ops) t False rs
    | Done \<Rightarrow> \<exists>t t' low recovered. t + 30 \<le> t' \<and> t' \<le> n \<and> rs = low @ recovered
        \<and> one_report lossless (bandwidth_is_low ops) t False low
        \<and> one_report lossless (bandwidth_recovered ops) t' True recovered)"

lemma ticker_run_reports:
  assumes "ticker_run ops lossless n cp rs" "n < 2 ^ 63"
  shows "ticks_elapsed (fst cp) = n \<and> reports_upto ops lossless (bwe_state (fst cp)) n rs"
  using assms
proof (induction rule: ticker_run.induct)
  case (ticker_tick n c p rs now c' p')
  have n: "ticks_elapsed c = n" and rs: "reports_upto ops lossless (bwe_state c) n rs"
    using ticker_tick by auto
  have t: "ticks_elapsed c' = n + 1"
    and out: "tick_outcome ops (has_room 2 p) (bwe_state c) (n + 1) c' (low_reports p p')"
    using tick_and_reschedule_step [OF ticker_tick.hyps(3)] n ticker_tick.prems
    by (auto simp: add64_def u64_mod_def)
  have later: "add64 t0 30 \<le> n + 1 \<Longrightarrow> t0 + 30 \<le> n + 1" if "t0 \<le> n" for t0
    using that ticker_tick.prems by (simp add: add64_def u64_mod_def)
  define new where "new = map (\<lambda>b. (ticks_elapsed c', b, c')) (low_reports p p')"
  have told: "one_report lossless P (n + 1) b new"
    if "P c'" "low_reports p p' = [b] \<or> low_reports p p' = [] \<and> \<not> has_room 2 p" for P b
    using that t ticker_tick.hyps(2) by (auto simp: one_report_def new_def)
  have none: "low_reports p p' = [] \<Longrightarrow> new = []"
    by (simp add: new_def)
  have "reports_upto ops lossless (bwe_state c') (n + 1) (rs @ new)"
  proof (cases "bwe_state c")
    case (CheckIfLow d)
    then show ?thesis
      using out rs told [of "bandwidth_is_low ops" False] none by (auto simp: tick_outcome_def reports_upto_def)
  next
    case (CheckIfRecovered t0)
    then have low: "t0 \<le> n" "one_report lossless (bandwidth_is_low ops) t0 False rs"
      using rs by (simp_all add: reports_upto_def)
    consider "bwe_state c' = CheckIfRecovered t0" "new = []"
      | "bwe_state c' = Done" "t0 + 30 \<le> n + 1" "one_report lossless (bandwidth_recovered ops) (n + 1) True new"
      using out CheckIfRecovered low later told [of "bandwidth_recovered ops" True] none
      by (auto simp: tick_outcome_def)
    then show ?thesis
    proof cases
      case 2
      then show ?thesis
        using low(2) by (simp only: reports_upto_def bwe_callback_state.case) blast
    qed (use low in \<open>simp add: reports_upto_def\<close>)
  next
    case Done
    then show ?thesis
      using out rs none by (fastforce simp: tick_outcome_def reports_upto_def)
  qed
  with t show ?case
    by (simp add: new_def)
qed (simp_all add: reports_upto_def connection_new_def)

text \<open>
  C19: the two low-bandwidth callbacks of a ticker fire at most once each, and in order. However
  the other threads act between its ticks, for its first \<open>2\<^sup>6\<^sup>3\<close> ticks: it has told the call of low
  bandwidth at most once and of its recovery at most once, in this order. When it told of low
  bandwidth, the call was connected and accepted, video was being sent and the estimate was below
  60 kbps; when it told of the recovery the estimate was above 70 kbps, and at least 30 ticks, 6
  seconds, had passed. If the queue of the call always had room, no recovery was reported that no
  report of low bandwidth preceded.
\<close>

theorem low_bandwidth_callbacks_in_order:
  assumes "ticker_run ops lossless n cp rs" "n < 2 ^ 63"
  shows "subseq (map (\<lambda>(t, recovered, _). recovered) rs) [False, True]
    \<and> (\<forall>(t, recovered, c') \<in> set rs.
         t \<le> n \<and> (if recovered then bandwidth_recovered ops c' else bandwidth_is_low ops c'))
    \<and> (\<forall>t c1 t' c2. rs = [(t, False, c1), (t', True, c2)] \<longrightarrow> t + 30 \<le> t')
    \<and> (lossless \<longrightarrow> prefix (map (\<lambda>(t, recovered, _). recovered) rs) [False, True])"
  using ticker_run_reports [OF assms]
  by (cases "bwe_state (fst cp)") (auto simp: reports_upto_def one_report_def)

text \<open>A call whose estimate drops to 50 kbps and, after a second, rises to 80 kbps.\<close>

fun run_ticks ::
  "'pc conn_ops \<Rightarrow> nat list \<Rightarrow> ('pc, 'm, 'x) conn_pair \<times> (nat \<times> bool) list
   \<Rightarrow> (('pc, 'm, 'x) conn_pair \<times> (nat \<times> bool) list) option" where
  "run_ticks ops [] s = Some s"
| "run_ticks ops (now # ts) ((c, p), told) =
     (if \<not> has_room 2 p then None else case tick_and_reschedule ops now (c, p) of
        None \<Rightarrow> None
      | Some (c', p') \<Rightarrow>
          run_ticks ops ts ((c', p'), told @ map (\<lambda>b. (ticks_elapsed c', b)) (low_reports p p')))"

lemma run_ticks_run:
  assumes "run_ticks ops ts (cp, told) = Some (cp', told')" "ticker_run ops lossless n cp rs"
    "told = map (\<lambda>(t, b, _). (t, b)) rs"
  shows "\<exists>rs'. ticker_run ops lossless (n + length ts) cp' rs' \<and> told' = map (\<lambda>(t, b, _). (t, b)) rs'"
  using assms
proof (induction ops ts "(cp, told)" arbitrary: cp told n rs rule: run_ticks.induct)
  case (2 ops now ts c p told)
  then obtain c2 p2 where tick: "has_room 2 p" "tick_and_reschedule ops now (c, p) = Some (c2, p2)"
    and rest: "run_ticks ops ts ((c2, p2), told @ map (\<lambda>b. (ticks_elapsed c2, b)) (low_reports p p2))
       = Some (cp', told')"
    by (auto split: if_splits option.splits)
  have "ticker_run ops lossless (n + 1) (c2, p2)
      (rs @ map (\<lambda>b. (ticks_elapsed c2, b, c2)) (low_reports p p2))"
    using ticker_tick [OF 2(3)] tick by simp
  then show ?case
    using 2(1) [OF _ _ refl rest] tick 2(4) by fastforce
qed auto

definition one_second :: "nat list" where
  "one_second = [0, 200, 400, 600, 800]"

definition estimating_ops :: "log_pc conn_ops" where
  "estimating_ops = (log_ops rtp_message_default [1] (\<lambda>_. None))\<lparr>pc_get_last_bandwidth_estimate := log_rate\<rparr>"

definition at_rate :: "nat \<Rightarrow> log_pc connection \<Rightarrow> log_pc connection" where
  "at_rate kbps c = c\<lparr>conn_state := connection_state.ConnectedAndAccepted,
     webrtc := (webrtc c)\<lparr>peer_connection := Some (log_pc_start\<lparr>log_rate := from_kbps (of_nat kbps)\<rparr>)\<rparr>,
     accumulated_rtp_data_message := rtp_message_default
        \<lparr>msg_sender_status := Some \<lparr> ss_id = Some 5, ss_video_enabled = Some True,
           ss_sharing_screen = None, ss_audio_enabled = None \<rparr>\<rparr>\<rparr>"

definition six_seconds :: "nat list" where
  "six_seconds = one_second @ one_second @ one_second @ one_second @ one_second @ one_second"

definition low_then_recovered :: "(nat \<times> bool) list option" where
  "low_then_recovered =
     (case run_ticks estimating_ops one_second
        ((at_rate 50 (connection_new 5 call_direction.Outgoing 2 Incoming call_config_default None 1), demo_link), []) of
        None \<Rightarrow> None
      | Some ((c, p), told) \<Rightarrow> map_option snd (run_ticks estimating_ops six_seconds ((at_rate 80 c, p), told)))"

lemma low_then_recovered_runs: "low_then_recovered = Some [(5, False), (35, True)]"
  by (simp add: low_then_recovered_def six_seconds_def one_second_def at_rate_def estimating_ops_def demo_defs
      demo_link_def has_room_def link_events_def CHANNEL_CAPACITY_def tick_and_reschedule_def add64_def
      u64_mod_def tick_def tick_send_def tick_stats_def tick_audio_def tick_bwe_def is_multiple_of_def
      SEND_RTP_DATA_MESSAGE_INTERVAL_TICKS_def CHECK_BWE_INTERVAL_TICKS_def TICK_INTERVAL_MILLIS_def
      poll_stats_config_new_def start_tick_def low_reports_def actor_send_delayed_def
      send_latest_rtp_data_message_def send_via_rtp_data_def with_peer_connection_def sending_video_def
      BWE_THRESHOLD_FOR_LOW_NOTIFICATION_def BWE_THRESHOLD_FOR_RECOVERED_NOTIFICATION_def rate_less_iff
      notify_observer_def on_connection_observer_event_def inject_call_event_def rtp_message_default_def
      DELAY_FOR_RECOVERED_BWE_CALLBACK_TICKS_def actor_start_def)

theorem low_bandwidth_callbacks_in_order_witness:
  "\<exists>(c :: log_pc connection) (p :: cm_request list call_link) rs. ticker_run estimating_ops True 35 (c, p) rs
    \<and> map (\<lambda>(t, b, _). (t, b)) rs = [(5, False), (35, True)]
    \<and> prefix (map (\<lambda>(t, recovered, _). recovered) rs) [False, True]"
proof -
  let ?c = "connection_new 5 call_direction.Outgoing 2 Incoming call_config_default None 1"
  obtain c1 p1 told1 cp2 where
    1: "run_ticks estimating_ops one_second ((at_rate 50 ?c, demo_link), []) = Some ((c1, p1), told1)"
    and 2: "run_ticks estimating_ops six_seconds ((at_rate 80 c1, p1), told1) = Some (cp2, [(5, False), (35, True)])"
    using low_then_recovered_runs by (auto simp: low_then_recovered_def split: option.splits)
  have "ticker_run estimating_ops True 0 (at_rate 50 ?c, demo_link) []"
    by (rule ticker_others [OF ticker_new]) (simp_all add: at_rate_def)
  then obtain rs1 where rs1: "ticker_run estimating_ops True 5 (c1, p1) rs1" "told1 = map (\<lambda>(t, b, _). (t, b)) rs1"
    using run_ticks_run [OF 1, of True 0 "[]"] by (auto simp: one_second_def eval_nat_numeral)
  have "ticker_run estimating_ops True 5 (at_rate 80 c1, p1) rs1"
    by (rule ticker_others [OF rs1(1)]) (simp_all add: at_rate_def)
  then obtain rs where rs: "ticker_run estimating_ops True 35 cp2 rs" "[(5, False), (35, True)] = map (\<lambda>(t, b, _). (t, b)) rs"
    using run_ticks_run [OF 2 _ rs1(2), of True 5] by (auto simp: six_seconds_def one_second_def)
  show ?thesis
    using low_bandwidth_callbacks_in_order [OF rs(1)] rs
    by (intro exI [where x = "fst cp2"] exI [where x = "snd cp2"] exI [where x = rs]) simp
qed

section \<open>SRTP keys\<close>

text \<open>
  C20: both ends of a call derive the same SRTP keys. If the Diffie-Hellman function gives the two
  ends the same secret, the caller and the callee negotiate the same offer and answer keys; when
  the key derivation yields as many bytes as asked for, each key has 32 bytes and each salt 12. A
  remote key that is not 32 bytes long, or whose exchange is non-contributory, is refused.
\<close>

theorem srtp_keys_agree:
  assumes dh: "\<And>a b. dh a (pub b) = dh b (pub a)"
    and len: "\<And>a. length (pub a) = 32"
    and out: "\<forall>salt ikm info n okm. hkdf salt ikm info n = Some okm \<longrightarrow> length okm = n"
  shows "negotiate_srtp_keys dh hkdf caller (pub callee) caller_id callee_id
       = negotiate_srtp_keys dh hkdf callee (pub caller) caller_id callee_id
    \<and> (\<forall>keys. negotiate_srtp_keys dh hkdf caller (pub callee) caller_id callee_id = Ok keys
         \<longrightarrow> length (srtp_key_bytes (offer_key keys)) = 32 \<and> length (srtp_salt (offer_key keys)) = 12
           \<and> length (srtp_key_bytes (answer_key keys)) = 32 \<and> length (srtp_salt (answer_key keys)) = 12)
    \<and> (\<forall>remote. length remote \<noteq> 32 \<or> dh caller remote = None
         \<longrightarrow> negotiate_srtp_keys dh hkdf caller remote caller_id callee_id = Err InvalidRemoteSrtpKey)"
proof (intro conjI allI impI)
  show "negotiate_srtp_keys dh hkdf caller (pub callee) caller_id callee_id
       = negotiate_srtp_keys dh hkdf callee (pub caller) caller_id callee_id"
    by (simp add: negotiate_srtp_keys_def len dh [of callee])
  show "negotiate_srtp_keys dh hkdf caller remote caller_id callee_id = Err InvalidRemoteSrtpKey"
    if "length remote \<noteq> 32 \<or> dh caller remote = None" for remote
    using that by (auto simp: negotiate_srtp_keys_def)
next
  fix keys
  assume ok: "negotiate_srtp_keys dh hkdf caller (pub callee) caller_id callee_id = Ok keys"
  then obtain okm where okm: "length okm = 88"
    and keys: "keys = \<lparr> offer_key = \<lparr> srtp_key_bytes = take 32 okm, srtp_salt = take 12 (drop 32 okm) \<rparr>,
      answer_key = \<lparr> srtp_key_bytes = take 32 (drop 12 (drop 32 okm)),
                     srtp_salt = take 12 (drop 32 (drop 12 (drop 32 okm))) \<rparr> \<rparr>"
    using out
    by (fastforce simp: negotiate_srtp_keys_def SRTP_KEY_SIZE_def SRTP_SALT_SIZE_def Let_def
        split: if_splits option.splits)
  then show "length (srtp_key_bytes (offer_key keys)) = 32" "length (srtp_salt (offer_key keys)) = 12"
    "length (srtp_key_bytes (answer_key keys)) = 32" "length (srtp_salt (answer_key keys)) = 12"
    by simp_all
qed

text \<open>A toy exchange over 32 equal bytes, and a derivation that repeats a byte.\<close>

definition toy_dh :: "byte \<Rightarrow> bytes \<Rightarrow> bytes option" where
  "toy_dh a key = Some (map (\<lambda>k. k * a) key)"

definition toy_pub :: "byte \<Rightarrow> bytes" where
  "toy_pub a = replicate 32 a"

definition toy_hkdf :: "bytes \<Rightarrow> bytes \<Rightarrow> bytes \<Rightarrow> nat \<Rightarrow> bytes option" where
  "toy_hkdf salt ikm info n = Some (replicate n (hd ikm))"

theorem srtp_keys_agree_witness:
  "negotiate_srtp_keys toy_dh toy_hkdf 3 (toy_pub 5) [1] [2]
     = negotiate_srtp_keys toy_dh toy_hkdf 5 (toy_pub 3) [1] [2]
   \<and> (\<exists>keys. negotiate_srtp_keys toy_dh toy_hkdf 3 (toy_pub 5) [1] [2] = Ok keys
        \<and> length (srtp_key_bytes (offer_key keys)) = 32)"
proof -
  have dh: "toy_dh a (toy_pub b) = toy_dh b (toy_pub a)" for a b
    by (simp add: toy_dh_def toy_pub_def mult.commute)
  have len: "length (toy_pub a) = 32" for a
    by (simp add: toy_pub_def)
  have out: "\<forall>salt ikm info n okm. toy_hkdf salt ikm info n = Some okm \<longrightarrow> length okm = n"
    by (auto simp: toy_hkdf_def)
  have "\<exists>keys. negotiate_srtp_keys toy_dh toy_hkdf 3 (toy_pub 5) [1] [2] = Ok keys"
    by (simp add: negotiate_srtp_keys_def len toy_dh_def toy_hkdf_def Let_def)
  then show ?thesis
    using srtp_keys_agree [of toy_dh toy_pub toy_hkdf 3 5 "[1]" "[2]", OF dh len out] by blast
qed

end
