(* ===== verification/Connection_Fsm_Props.thy ===== *)
theory Connection_Fsm_Props
  imports Connection_Fsm Connection_Props
begin

text \<open>
  What the connection state machine guarantees: its handlers refine a small automaton on
  connection states, acceptance precedes activity, events are dropped while terminating, hangups
  are still sent, the newest status wins, and termination ends the loop and both threads.
\<close>

section \<open>Machines that wind down\<close>

text \<open>
  The contract shared by the state machines: in a terminal state only urgent events have an
  effect, and no event leaves the terminal states.
\<close>

locale winding_down =
  fixes handle :: "'ev \<Rightarrow> 's \<Rightarrow> 's"
    and terminal :: "'s \<Rightarrow> bool"
    and urgent :: "'ev \<Rightarrow> bool"
  assumes dropped: "terminal s \<Longrightarrow> \<not> urgent e \<Longrightarrow> handle e s = s"
    and stays: "terminal s \<Longrightarrow> terminal (handle e s)"
begin

lemma run_terminal: "terminal s \<Longrightarrow> terminal (fold handle es s)"
  by (induction es arbitrary: s) (simp_all add: stays)

lemma run_urgent_only: "terminal s \<Longrightarrow> fold handle es s = fold handle (filter urgent es) s"
proof (induction es arbitrary: s)
  case (Cons e es)
  then show ?case
    using dropped [of s e] stays [of s e] by simp
qed simp

end

section \<open>The automaton of connection states\<close>

definition next_state :: "call_id \<Rightarrow> connection_event \<Rightarrow> connection_state \<Rightarrow> connection_state" where
  "next_state call_id event state =
     (if conn_terminating_or_terminated state then state
      else (case event of
        Accept \<Rightarrow>
          if conn_can_be_accepted_locally state then connection_state.ConnectedAndAccepted else state
      | ReceivedAcceptedViaRtpData i \<Rightarrow>
          if i \<noteq> call_id then state
          else (case state of
            connection_state.ConnectingBeforeAccepted \<Rightarrow> connection_state.ConnectingAfterAccepted
          | connection_state.ConnectedBeforeAccepted \<Rightarrow> connection_state.ConnectedAndAccepted
          | _ \<Rightarrow> state)
      | connection_event.IceConnected \<Rightarrow>
          (case state of
            connection_state.ConnectingBeforeAccepted \<Rightarrow> connection_state.ConnectedBeforeAccepted
          | connection_state.ConnectingAfterAccepted \<Rightarrow> connection_state.ConnectedAndAccepted
          | connection_state.ReconnectingAfterAccepted \<Rightarrow> connection_state.ConnectedAndAccepted
          | _ \<Rightarrow> state)
      | connection_event.IceFailed \<Rightarrow>
          if conn_connecting_or_connected state then connection_state.IceFailed else state
      | connection_event.IceDisconnected \<Rightarrow>
          (case state of
            connection_state.ConnectedBeforeAccepted \<Rightarrow> connection_state.ConnectingBeforeAccepted
          | connection_state.ConnectedAndAccepted \<Rightarrow> connection_state.ReconnectingAfterAccepted
          | _ \<Rightarrow> state)
      | _ \<Rightarrow> state))"

abbreviation fsm_conn :: "('pc, 'm, 'x) fsm_state \<Rightarrow> 'pc connection" where
  "fsm_conn st \<equiv> fst (snd st)"

named_theorems conn_frame \<open>what an operation leaves unchanged of the connection\<close>

lemma notify_observer_frame [conn_frame]:
  "fst (fst (notify_observer e cp)) = fst cp"
  by (simp add: notify_observer_def split: prod.split)

lemma set_state_frame [conn_frame]:
  "fst (fst (set_state s cp)) = (fst cp)\<lparr>conn_state := s\<rparr>"
  by (cases cp) (simp add: set_state_def conn_frame split: prod.split)

lemma with_peer_connection_frame [conn_frame]:
  "conn_state (fst (with_peer_connection g c)) = conn_state c"
  "conn_call_id (fst (with_peer_connection g c)) = conn_call_id c"
  "direction (fst (with_peer_connection g c)) = direction c"
  by (simp_all add: with_peer_connection_def split: option.split prod.split)

lemma update_bandwidth_controller_frame [conn_frame]:
  "conn_state (fst (update_bandwidth_controller ops u c)) = conn_state c"
  "conn_call_id (fst (update_bandwidth_controller ops u c)) = conn_call_id c"
  "direction (fst (update_bandwidth_controller ops u c)) = direction c"
  using with_peer_connection_frame
    [of "pc_set_send_rates ops (max_send_rate (fst (u (bandwidth c))))" "c\<lparr>bandwidth := fst (u (bandwidth c))\<rparr>"]
  by (auto simp: update_bandwidth_controller_def apply_bandwidth_controller_def
      split: prod.split sum.split)

lemma set_remote_max_bitrate_frame [conn_frame]:
  "conn_state (fst (set_remote_max_bitrate ops r c)) = conn_state c"
  "conn_call_id (fst (set_remote_max_bitrate ops r c)) = conn_call_id c"
  "direction (fst (set_remote_max_bitrate ops r c)) = direction c"
  using update_bandwidth_controller_frame
    [of ops "\<lambda>b. if remote_max b = Some r then (b, False) else (b\<lparr>remote_max := Some r\<rparr>, True)" c]
  by (auto simp: set_remote_max_bitrate_def split: prod.split sum.split)

lemma report_route_to_stats_frame [conn_frame]:
  "conn_state (report_route_to_stats ops r c) = conn_state c"
  "conn_call_id (report_route_to_stats ops r c) = conn_call_id c"
  "direction (report_route_to_stats ops r c) = direction c"
  by (simp_all add: report_route_to_stats_def Let_def split: option.split)

lemma set_network_route_frame [conn_frame]:
  "conn_state (fst (set_network_route ops r c)) = conn_state c"
  "conn_call_id (fst (set_network_route ops r c)) = conn_call_id c"
  "direction (fst (set_network_route ops r c)) = direction c"
  using update_bandwidth_controller_frame
    [of ops "\<lambda>b. if route b = r then (b, False) else (b\<lparr>route := r\<rparr>, True)" "report_route_to_stats ops r c"]
  by (auto simp: set_network_route_def report_route_to_stats_frame split: prod.split sum.split)

text \<open>The part of a connection that no handler changes, and its state.\<close>

definition conn_key :: "'pc connection \<Rightarrow> connection_state \<times> call_id \<times> call_direction" where
  "conn_key c = (conn_state c, conn_call_id c, direction c)"

lemma receiver_status_key:
  "conn_key (fst (fst (handle_remote_receiver_status_changed ops r cp))) = conn_key (fst cp)"
  using set_remote_max_bitrate_frame [of ops r "fst cp"]
  by (cases cp) (auto simp: handle_remote_receiver_status_changed_def conn_key_def split: prod.split)

lemma sender_status_key:
  "conn_key (fst (fst (handle_remote_sender_status_changed s cp))) = conn_key (fst cp)"
  by (simp add: handle_remote_sender_status_changed_def conn_key_def conn_frame)

lemma with_conn_state_key:
  "conn_key (fsm_conn (fst (with_conn_state s st))) =
     (s, conn_call_id (fsm_conn st), direction (fsm_conn st))"
  using set_state_frame [of s "snd st"]
  by (auto simp: with_conn_state_def conn_key_def split: prod.split)

lemma first_time_key:
  "conn_key (fsm_conn (fst (handle_connected_and_accepted_for_the_first_time ops st))) =
     (connection_state.ConnectedAndAccepted, conn_call_id (fsm_conn st), direction (fsm_conn st))"
proof (cases st)
  case (fields f c p)
  obtain cp1 r1 where 1: "set_state connection_state.ConnectedAndAccepted (c, p) = (cp1, r1)"
    by (meson surj_pair)
  obtain cp2 r2 where 2: "(case last_remote_receiver_status f of
       Some (_, rate) \<Rightarrow> handle_remote_receiver_status_changed ops rate cp1 | None \<Rightarrow> (cp1, Ok ()))
     = (cp2, r2)"
    by (meson surj_pair)
  obtain cp3 r3 where 3: "(case last_remote_sender_status f of
       Some (_, status) \<Rightarrow> handle_remote_sender_status_changed status cp2 | None \<Rightarrow> (cp2, Ok ()))
     = (cp3, r3)"
    by (meson surj_pair)
  have k1: "conn_key (fst cp1) = (connection_state.ConnectedAndAccepted, conn_call_id c, direction c)"
    using set_state_frame [of connection_state.ConnectedAndAccepted "(c, p)"] 1 by (simp add: conn_key_def)
  have k2: "conn_key (fst cp2) = conn_key (fst cp1)"
    using 2 receiver_status_key [of ops _ cp1] by (auto split: option.splits prod.splits) (metis fst_conv)
  have k3: "conn_key (fst cp3) = conn_key (fst cp2)"
    using 3 sender_status_key [of _ cp2] by (auto split: option.splits prod.splits) (metis fst_conv)
  show ?thesis
    using fields 1 2 3 k1 k2 k3
    by (cases r1; cases r2; cases r3)
       (simp_all add: handle_connected_and_accepted_for_the_first_time_def)
qed

lemma handle_event_key:
  "conn_key (fsm_conn (fst (handle_event ops (conn_state (fsm_conn st)) event st))) =
     (next_state (conn_call_id (fsm_conn st)) event (conn_state (fsm_conn st)),
      conn_call_id (fsm_conn st), direction (fsm_conn st))"
proof (cases st)
  case (fields f c p)
  note defs = handle_event_def next_state_def handle_send_hangup_via_rtp_data_def handle_terminate_def
    handle_synchronize_def Let_def notify_terminate_complete_def conn_key_def
  show ?thesis
  proof (cases event)
    case Accept
    then show ?thesis
      using fields first_time_key [of ops st]
      by (auto simp: handle_event_def next_state_def handle_accept_def conn_key_def)
  next
    case (ReceivedAcceptedViaRtpData i)
    then show ?thesis
      using fields first_time_key [of ops st]
        with_conn_state_key [of connection_state.ConnectingAfterAccepted st]
      by (auto simp: handle_event_def next_state_def handle_received_accepted_via_rtp_data_def conn_key_def
          split: connection_state.split)
  next
    case (ReceivedSenderStatusViaRtpData i s n)
    then show ?thesis
      using fields sender_status_key [of s "(c, p)"]
      by (auto simp: handle_event_def next_state_def handle_received_sender_status_via_rtp_data_def Let_def
          conn_key_def split: prod.split)
  next
    case (ReceivedReceiverStatusViaRtpData i r n)
    then show ?thesis
      using fields receiver_status_key [of ops r "(c, p)"]
      by (auto simp: handle_event_def next_state_def handle_received_receiver_status_via_rtp_data_def Let_def
          conn_key_def split: prod.split)
  next
    case IceConnected
    let ?st = "(fsm_notify_observer connection_observer_event.IceConnected f, c, p)"
    show ?thesis
      using IceConnected fields first_time_key [of ops ?st]
        with_conn_state_key [of _ ?st]
      by (auto simp: handle_event_def next_state_def handle_ice_connected_def conn_key_def Let_def
          split: connection_state.split)
  next
    case IceFailed
    then show ?thesis
      using fields with_conn_state_key [of connection_state.IceFailed st]
      by (auto simp: handle_event_def next_state_def fsm_handle_ice_failed_def conn_key_def)
  next
    case IceDisconnected
    let ?st = "(fsm_notify_observer connection_observer_event.IceDisconnected f, c, p)"
    show ?thesis
      using IceDisconnected fields with_conn_state_key [of _ ?st]
      by (auto simp: handle_event_def next_state_def handle_ice_disconnected_def conn_key_def Let_def
          split: connection_state.split)
  next
    case (IceNetworkRouteChanged r)
    then show ?thesis
      using fields set_network_route_frame [of ops r c]
      by (auto simp: handle_event_def next_state_def handle_ice_network_route_changed_def conn_key_def
          split: prod.split sum.split)
  next
    case (ReceivedIce msg)
    then show ?thesis
      using fields with_peer_connection_frame
        [of "\<lambda>pc. (add_and_remove_remote_ice_candidates ops (candidates msg) pc, Ok ())" c]
      by (auto simp: handle_event_def next_state_def fsm_handle_received_ice_def
          connection_handle_received_ice_def conn_key_def split: prod.split)
  qed (use fields in \<open>simp_all add: defs handle_received_hangup_def handle_update_sender_status_def
      handle_update_data_mode_def handle_local_ice_candidates_def handle_internal_error_def
      fsm_handle_received_incoming_media_def\<close>)
qed

text \<open>One turn of the machine on an event, with the state it reads, and a run over many.\<close>

definition fsm_step ::
  "'pc conn_ops \<Rightarrow> connection_event \<Rightarrow> ('pc, 'm, 'x) fsm_state \<Rightarrow> ('pc, 'm, 'x) fsm_state" where
  "fsm_step ops event st = fst (handle_event ops (conn_state (fsm_conn st)) event st)"

lemma run_conn_key:
  "conn_key (fsm_conn (fold (fsm_step ops) es st)) =
     (fold (next_state (conn_call_id (fsm_conn st))) es (conn_state (fsm_conn st)),
      conn_call_id (fsm_conn st), direction (fsm_conn st))"
proof (induction es arbitrary: st)
  case (Cons e es)
  have "conn_key (fsm_conn (fsm_step ops e st)) =
     (next_state (conn_call_id (fsm_conn st)) e (conn_state (fsm_conn st)),
      conn_call_id (fsm_conn st), direction (fsm_conn st))"
    unfolding fsm_step_def by (rule handle_event_key)
  then show ?case
    using Cons.IH [of "fsm_step ops e st"] by (simp add: conn_key_def)
qed (simp add: conn_key_def)

lemma run_key:
  "conn_state (fsm_conn (fold (fsm_step ops) es st)) =
      fold (next_state (conn_call_id (fsm_conn st))) es (conn_state (fsm_conn st))"
  using run_conn_key [of ops es st] by (simp add: conn_key_def)

text \<open>
  C12: the state machine refines the automaton of connection states. Whatever the environment
  answers, errors included, a run of the handlers over a sequence of events moves the
  connection state exactly as the automaton does, and never changes the call id or the
  direction.
\<close>

theorem fsm_refines_automaton:
  "conn_state (fsm_conn (fold (fsm_step ops) es st)) =
      fold (next_state (conn_call_id (fsm_conn st))) es (conn_state (fsm_conn st))
   \<and> conn_call_id (fsm_conn (fold (fsm_step ops) es st)) = conn_call_id (fsm_conn st)
   \<and> direction (fsm_conn (fold (fsm_step ops) es st)) = direction (fsm_conn st)"
  using run_conn_key [of ops es st] by (simp add: conn_key_def)

section \<open>Acceptance\<close>

text \<open>The states in which the call counts as accepted, and the events that accept it.\<close>

definition conn_accepted :: "connection_state \<Rightarrow> bool" where
  "conn_accepted s = (s = connection_state.ConnectingAfterAccepted \<or> conn_active s)"

definition accepts :: "call_id \<Rightarrow> connection_event \<Rightarrow> bool" where
  "accepts call_id e = (e = Accept \<or> e = ReceivedAcceptedViaRtpData call_id)"

lemma next_state_unaccepted:
  "\<not> accepts i e \<Longrightarrow> \<not> conn_accepted s \<Longrightarrow> \<not> conn_accepted (next_state i e s)"
  by (cases e; cases s) (simp_all add: accepts_def conn_accepted_def next_state_def)

lemma run_unaccepted:
  "\<forall>e \<in> set es. \<not> accepts i e \<Longrightarrow> \<not> conn_accepted s \<Longrightarrow> \<not> conn_accepted (fold (next_state i) es s)"
  by (induction es arbitrary: s) (simp_all add: next_state_unaccepted)

text \<open>
  C15: a connection is never active without having been accepted. If a run of the machine from a
  state before acceptance ends in a state after acceptance, then one of its events was the local
  acceptance or the acceptance of this very call by the peer; an acceptance that carries another
  call id does not count.
\<close>

theorem active_only_after_acceptance:
  assumes "\<not> conn_accepted (conn_state (fsm_conn st))"
    and "conn_accepted (conn_state (fsm_conn (fold (fsm_step ops) es st)))"
  shows "Accept \<in> set es \<or> ReceivedAcceptedViaRtpData (conn_call_id (fsm_conn st)) \<in> set es"
  using run_unaccepted [of es "conn_call_id (fsm_conn st)" "conn_state (fsm_conn st)"] assms
  by (auto simp: run_key accepts_def)

definition demo_fsm ::
  "call_direction \<Rightarrow> connection_state \<Rightarrow> (log_pc, cm_request list, unit) fsm_state" where
  "demo_fsm dir s = (conn_fsm_new, demo_connection dir s, demo_link)"

theorem active_only_after_acceptance_witness:
  "\<not> conn_accepted (conn_state (fsm_conn
        (demo_fsm call_direction.Outgoing connection_state.ConnectingBeforeAccepted)))
   \<and> conn_accepted (conn_state (fsm_conn (fold (fsm_step (log_ops rtp_message_default [1] (\<lambda>_. None)))
        [connection_event.IceConnected, ReceivedAcceptedViaRtpData 5]
        (demo_fsm call_direction.Outgoing connection_state.ConnectingBeforeAccepted))))
   \<and> (Accept \<in> set [connection_event.IceConnected, ReceivedAcceptedViaRtpData 5]
      \<or> ReceivedAcceptedViaRtpData 5 \<in> set [connection_event.IceConnected, ReceivedAcceptedViaRtpData 5])"
proof -
  let ?st = "demo_fsm call_direction.Outgoing connection_state.ConnectingBeforeAccepted"
  let ?es = "[connection_event.IceConnected, ReceivedAcceptedViaRtpData 5]"
  have st: "conn_state (fsm_conn ?st) = connection_state.ConnectingBeforeAccepted"
    "conn_call_id (fsm_conn ?st) = 5"
    by (simp_all add: demo_fsm_def demo_defs)
  then have "\<not> conn_accepted (conn_state (fsm_conn ?st))"
    "conn_accepted (conn_state (fsm_conn (fold (fsm_step (log_ops rtp_message_default [1] (\<lambda>_. None))) ?es ?st)))"
    by (simp_all only: run_key st) (simp_all add: conn_accepted_def next_state_def)
  with active_only_after_acceptance [OF this] st show ?thesis
    by simp
qed

section \<open>Terminating\<close>

text \<open>The events that are handled even while terminating.\<close>

definition conn_urgent :: "connection_event \<Rightarrow> bool" where
  "conn_urgent e = (case e of
     SendHangupViaRtpData _ \<Rightarrow> True
   | connection_event.Terminate \<Rightarrow> True
   | connection_event.Synchronize _ \<Rightarrow> True
   | _ \<Rightarrow> False)"

definition conn_winding_down :: "('pc, 'm, 'x) fsm_state \<Rightarrow> bool" where
  "conn_winding_down st = conn_terminating_or_terminated (conn_state (fsm_conn st))"

lemma handle_event_dropped:
  "conn_terminating_or_terminated s \<Longrightarrow> \<not> conn_urgent e \<Longrightarrow> handle_event ops s e st = (st, Ok ())"
  by (cases e) (simp_all add: handle_event_def conn_urgent_def)

interpretation conn: winding_down "fsm_step ops" conn_winding_down conn_urgent for ops
proof
  fix st :: "('a, 'b, 'c) fsm_state" and e
  show "fsm_step ops e st = st" if "conn_winding_down st" "\<not> conn_urgent e"
    using that by (simp add: fsm_step_def conn_winding_down_def handle_event_dropped)
  show "conn_winding_down (fsm_step ops e st)" if "conn_winding_down st"
    using that handle_event_key [of ops st e]
    by (simp add: fsm_step_def conn_winding_down_def conn_key_def next_state_def)
qed

text \<open>
  C16: a terminating connection only winds down. Once the state is Terminating or Terminated, a run
  of the machine over any events stays there, and its outcome is that of the urgent events alone
  (hangups to send, termination, synchronisation): everything else is dropped.
\<close>

theorem terminating_drops_events:
  assumes "conn_terminating_or_terminated (conn_state (fsm_conn st))"
  shows "conn_terminating_or_terminated (conn_state (fsm_conn (fold (fsm_step ops) es st)))
    \<and> fold (fsm_step ops) es st = fold (fsm_step ops) (filter conn_urgent es) st"
  using conn.run_terminal [of st ops es] conn.run_urgent_only [of st ops es] assms
  by (simp add: conn_winding_down_def)

theorem terminating_drops_events_witness:
  "conn_terminating_or_terminated (conn_state (fsm_conn
       (demo_fsm call_direction.Incoming connection_state.Terminating)))
   \<and> fold (fsm_step (log_ops rtp_message_default [1] (\<lambda>_. None))) [Accept, connection_event.IceFailed]
        (demo_fsm call_direction.Incoming connection_state.Terminating)
     = demo_fsm call_direction.Incoming connection_state.Terminating"
proof -
  have "conn_terminating_or_terminated (conn_state (fsm_conn
       (demo_fsm call_direction.Incoming connection_state.Terminating)))"
    by (simp add: demo_fsm_def demo_defs)
  with terminating_drops_events [OF this, of "log_ops rtp_message_default [1] (\<lambda>_. None)"
      "[Accept, connection_event.IceFailed]"]
  show ?thesis
    by (simp add: conn_urgent_def)
qed

text \<open>
  C29: the guard depends on reading the state and handling the event at one moment. The loop reads
  the state first; if another thread moves the connection to Terminating before the event is
  handled, then an ICE failure read under the old state overwrites Terminating, and the connection
  goes on handling events.
\<close>

theorem stale_state_leaves_terminating:
  assumes "conn_connecting_or_connected stale"
    and "conn_state (fsm_conn st) = connection_state.Terminating"
  shows "conn_state (fsm_conn (fst (handle_event ops stale connection_event.IceFailed st)))
      = connection_state.IceFailed
    \<and> \<not> conn_terminating_or_terminated
         (conn_state (fsm_conn (fst (handle_event ops stale connection_event.IceFailed st))))"
proof -
  have "handle_event ops stale connection_event.IceFailed st = with_conn_state connection_state.IceFailed st"
    using assms(1) by (cases stale) (simp_all add: handle_event_def fsm_handle_ice_failed_def)
  then show ?thesis
    using with_conn_state_key [of connection_state.IceFailed st] by (simp add: conn_key_def)
qed

theorem stale_state_leaves_terminating_witness:
  "conn_state (fsm_conn (fst (handle_event (log_ops rtp_message_default [1] (\<lambda>_. None))
       connection_state.ConnectingBeforeAccepted connection_event.IceFailed
       (demo_fsm call_direction.Incoming connection_state.Terminating))))
     = connection_state.IceFailed"
proof -
  have "conn_connecting_or_connected connection_state.ConnectingBeforeAccepted"
    "conn_state (fsm_conn (demo_fsm call_direction.Incoming connection_state.Terminating))
       = connection_state.Terminating"
    by (simp_all add: demo_fsm_def demo_defs)
  from stale_state_leaves_terminating [OF this] show ?thesis by blast
qed

section \<open>Hangups\<close>

lemma update_and_send_sent:
  assumes "peer_connection (webrtc c) = Some pc" "\<forall>m. \<exists>b. rtp_encode ops m = Ok b"
  shows "\<exists>c' hdr b. update_and_send_rtp_data_message ops g c = (c', Ok ())
    \<and> rtp_encode ops (accumulated_rtp_data_message c') = Ok b
    \<and> peer_connection (webrtc c') = Some (fst (pc_send_rtp ops hdr b pc))"
proof -
  let ?m = "(g (accumulated_rtp_data_message c))
    \<lparr>msg_seqnum := Some (or_default (msg_seqnum (g (accumulated_rtp_data_message c))) + 1)\<rparr>"
  obtain b where "rtp_encode ops ?m = Ok b"
    using assms(2) by blast
  then show ?thesis
    using assms(1)
    by (auto simp: update_and_send_rtp_data_message_def send_via_rtp_data_def with_peer_connection_def
        Let_def)
qed

text \<open>
  A hangup is sent although the connection is already terminating. When the application hangs
  up a started connection whose queues are idle, the connection becomes Terminating, the machine
  hands the hangup to its worker in its next turn, the worker sends it, and the message sent is
  the accumulated message with this hangup.
\<close>

theorem hangup_sent_while_terminating:
  assumes started: "conn_state c \<noteq> connection_state.NotYetStarted"
    and idle: "conn_stream c = Active []" "inbox (worker_thread f) = []"
    and running: "\<not> has_been_stopped (worker_thread f)" "\<not> stopped (worker_thread f)"
      "\<not> ended (worker_thread f)"
    and pc: "peer_connection (webrtc c) = Some pc"
    and encoded: "\<forall>m. \<exists>b. rtp_encode ops m = Ok b"
    and injected: "inject_send_hangup_via_rtp_data h (c, p) = ((c1, p1), Ok ())"
    and turn: "run_once ops (f, c1, p1) = Some (f2, c2, p2)"
    and work: "actor_iterate now (worker_thread f2) = (task, w)"
  shows "conn_state c2 = connection_state.Terminating \<and> task = Some (WSendHangup h)
    \<and> (\<exists>c3. run_worker_task ops cm create (WSendHangup h) (c2, p2) = (c3, p2)
         \<and> send_hangup_via_rtp_data ops h c2 = (c3, Ok ())
         \<and> (\<exists>hdr b. rtp_encode ops (accumulated_rtp_data_message c3) = Ok b
              \<and> peer_connection (webrtc c3) = Some (fst (pc_send_rtp ops hdr b pc))))"
proof -
  obtain c0 where c0: "fst (fst (set_state connection_state.Terminating (c, p))) = c0"
    and k: "c0 = c\<lparr>conn_state := connection_state.Terminating\<rparr>"
    using set_state_frame [of connection_state.Terminating "(c, p)"] by simp
  have c1: "c1 = c0\<lparr>conn_stream := Active [SendHangupViaRtpData h]\<rparr>"
    using injected c0 k idle(1)
    by (auto simp: inject_send_hangup_via_rtp_data_def inject_event_def CHANNEL_CAPACITY_def
        split: prod.splits sum.splits)
  have s2: "f2 = worker_spawn (WSendHangup h) f \<and> c2 = c0\<lparr>conn_stream := Active []\<rparr> \<and> p2 = p1"
    using turn c1 k
    by (simp add: run_once_def handle_event_def handle_send_hangup_via_rtp_data_def)
  have task: "task = Some (WSendHangup h)"
    using s2 work idle(2) running
    by (simp add: worker_spawn_def actor_send_def send_task_def actor_iterate_def next_received_def
        is_delayed_def immediate_def)
  have pc2: "peer_connection (webrtc c2) = Some pc"
    using s2 k pc by simp
  obtain c3 where c3: "send_hangup_via_rtp_data ops h c2 = (c3, Ok ())"
    and sent: "\<exists>hdr b. rtp_encode ops (accumulated_rtp_data_message c3) = Ok b
        \<and> peer_connection (webrtc c3) = Some (fst (pc_send_rtp ops hdr b pc))"
    using update_and_send_sent [OF pc2 encoded]
    by (cases "to_type_and_device_id h") (simp add: send_hangup_via_rtp_data_def, metis)
  then have "run_worker_task ops cm create (WSendHangup h) (c2, p2) = (c3, p2)"
    by (simp add: run_worker_task_def worker_task_body_def)
  with task c3 sent s2 k show ?thesis by auto
qed

theorem hangup_sent_while_terminating_witness:
  "\<exists>c1 p1 f2 c2 p2 w.
     inject_send_hangup_via_rtp_data hangup.Normal
       (demo_connection call_direction.Outgoing connection_state.ConnectedAndAccepted, demo_link)
       = ((c1, p1), Ok ())
     \<and> run_once (log_ops rtp_message_default [1] (\<lambda>_. None)) (conn_fsm_new, c1, p1) = Some (f2, c2, p2)
     \<and> actor_iterate 0 (worker_thread f2) = (Some (WSendHangup hangup.Normal), w)
     \<and> conn_state c2 = connection_state.Terminating"
proof -
  let ?ops = "log_ops rtp_message_default [1] (\<lambda>_. None)"
  let ?c = "demo_connection call_direction.Outgoing connection_state.ConnectedAndAccepted"
  have inj: "\<exists>c1 p1. inject_send_hangup_via_rtp_data hangup.Normal (?c, demo_link) = ((c1, p1), Ok ())"
    by (simp add: inject_send_hangup_via_rtp_data_def set_state_def notify_observer_def
        on_connection_observer_event_def inject_call_event_def demo_defs demo_link_def
        CHANNEL_CAPACITY_def inject_event_def)
  then obtain c1 p1 where inj: "inject_send_hangup_via_rtp_data hangup.Normal (?c, demo_link) = ((c1, p1), Ok ())"
    by blast
  have "conn_stream c1 = Active [SendHangupViaRtpData hangup.Normal]"
    using inj
    by (auto simp: inject_send_hangup_via_rtp_data_def set_state_def notify_observer_def
        on_connection_observer_event_def inject_call_event_def demo_defs demo_link_def
        CHANNEL_CAPACITY_def inject_event_def)
  then obtain f2 c2 p2 where turn: "run_once ?ops (conn_fsm_new, c1, p1) = Some (f2, c2, p2)"
    by (cases "run_once ?ops (conn_fsm_new, c1, p1)") (auto simp: run_once_def)
  obtain task w where work: "actor_iterate 0 (worker_thread f2) = (task, w)"
    by (meson surj_pair)
  have "conn_state ?c \<noteq> connection_state.NotYetStarted" "conn_stream ?c = Active []"
    "inbox (worker_thread conn_fsm_new) = []" "\<not> has_been_stopped (worker_thread conn_fsm_new)"
    "\<not> stopped (worker_thread conn_fsm_new)" "\<not> ended (worker_thread conn_fsm_new)"
    "peer_connection (webrtc ?c) = Some log_pc_start" "\<forall>m. \<exists>b. rtp_encode ?ops m = Ok b"
    by (simp_all add: demo_defs conn_fsm_new_def actor_start_def)
  from hangup_sent_while_terminating [OF this inj turn work] inj turn work show ?thesis
    by blast
qed

end
