(* ===== verification/Connection_Status.thy ===== *)
theory Connection_Status
  imports Connection_Fsm_Props
begin

text \<open>
  The remote status: which of the received status messages is remembered, and that the parent
  call has been told the remembered one whenever the connection is active.
\<close>

section \<open>The newest status wins\<close>

definition newer :: "64 word \<times> 'a \<Rightarrow> (64 word \<times> 'a) option \<Rightarrow> (64 word \<times> 'a) option" where
  "newer m prev = (case prev of
     None \<Rightarrow> Some m
   | Some l \<Rightarrow> if fst m \<le> fst l then prev else Some m)"

definition status_of :: "call_id \<Rightarrow> connection_event \<Rightarrow> (64 word \<times> sender_status) list" where
  "status_of call_id e = (case e of
     ReceivedSenderStatusViaRtpData i s n \<Rightarrow> if i = call_id then [(n, s)] else []
   | _ \<Rightarrow> [])"

lemma worker_spawn_last [simp]:
  "last_remote_sender_status (worker_spawn t f) = last_remote_sender_status f"
  "last_remote_sender_status (notify_spawn u f) = last_remote_sender_status f"
  "last_remote_receiver_status (worker_spawn t f) = last_remote_receiver_status f"
  "last_remote_receiver_status (notify_spawn u f) = last_remote_receiver_status f"
  by (simp_all add: worker_spawn_def notify_spawn_def)

lemma first_time_last:
  "last_remote_sender_status (fst (fst (handle_connected_and_accepted_for_the_first_time ops st)))
     = last_remote_sender_status (fst st)"
  by (cases st)
     (auto simp: handle_connected_and_accepted_for_the_first_time_def fsm_send_accepted_via_rtp_data_def
        split: prod.split sum.split)

lemma with_conn_state_last:
  "last_remote_sender_status (fst (fst (with_conn_state s st))) = last_remote_sender_status (fst st)"
  by (auto simp: with_conn_state_def split: prod.split)

lemma handle_event_last:
  assumes "\<not> conn_terminating_or_terminated s"
  shows "last_remote_sender_status (fst (fst (handle_event ops s e st))) =
    fold newer (status_of (conn_call_id (fsm_conn st)) e) (last_remote_sender_status (fst st))"
proof (cases st)
  case (fields f c p)
  note defs = handle_event_def status_of_def
  show ?thesis
  proof (cases e)
    case Accept
    then show ?thesis
      using assms first_time_last [of ops st] by (simp add: defs handle_accept_def)
  next
    case (ReceivedAcceptedViaRtpData i)
    then show ?thesis
      using assms fields first_time_last [of ops st] with_conn_state_last [of _ st]
      by (simp add: defs handle_received_accepted_via_rtp_data_def split: connection_state.split)
  next
    case (ReceivedSenderStatusViaRtpData i x n)
    then show ?thesis
      using assms fields
      by (auto simp: defs handle_received_sender_status_via_rtp_data_def Let_def newer_def
          split: prod.split option.split)
  next
    case (ReceivedReceiverStatusViaRtpData i r n)
    then show ?thesis
      using assms fields
      by (auto simp: defs handle_received_receiver_status_via_rtp_data_def Let_def
          split: prod.split)
  next
    case IceConnected
    then show ?thesis
      using assms fields
      by (auto simp: defs handle_ice_connected_def fsm_notify_observer_def first_time_last
          with_conn_state_last Let_def split: connection_state.split)
  next
    case IceDisconnected
    then show ?thesis
      using assms fields
      by (auto simp: defs handle_ice_disconnected_def fsm_notify_observer_def
          with_conn_state_last Let_def split: connection_state.split)
  next
    case IceFailed
    then show ?thesis
      using assms by (auto simp: defs fsm_handle_ice_failed_def with_conn_state_last)
  next
    case (IceNetworkRouteChanged r)
    then show ?thesis
      using assms fields
      by (auto simp: defs handle_ice_network_route_changed_def fsm_notify_observer_def
          split: prod.split sum.split)
  next
    case (ReceivedIce msg)
    then show ?thesis
      using assms fields by (auto simp: defs fsm_handle_received_ice_def split: prod.split)
  qed (use assms fields in \<open>simp_all add: defs handle_received_hangup_def fsm_notify_observer_def
      handle_update_sender_status_def handle_update_data_mode_def handle_local_ice_candidates_def
      handle_internal_error_def fsm_handle_received_incoming_media_def
      handle_send_hangup_via_rtp_data_def handle_synchronize_def handle_terminate_def Let_def
      drain_worker_thread_def drain_notify_thread_def\<close>)
qed

lemma next_state_not_terminal:
  "\<not> conn_terminating_or_terminated s \<Longrightarrow> \<not> conn_terminating_or_terminated (next_state i e s)"
  by (cases e; cases s) (simp_all add: next_state_def)

lemma run_last:
  assumes "\<not> conn_terminating_or_terminated (conn_state (fsm_conn st))"
  shows "last_remote_sender_status (fst (fold (fsm_step ops) es st)) =
    fold newer (concat (map (status_of (conn_call_id (fsm_conn st))) es))
      (last_remote_sender_status (fst st))"
  using assms
proof (induction es arbitrary: st)
  case (Cons e es)
  have key: "conn_state (fsm_conn (fsm_step ops e st)) =
      next_state (conn_call_id (fsm_conn st)) e (conn_state (fsm_conn st))"
    "conn_call_id (fsm_conn (fsm_step ops e st)) = conn_call_id (fsm_conn st)"
    using handle_event_key [of ops st e] by (simp_all add: fsm_step_def conn_key_def)
  show ?case
    using Cons.IH [of "fsm_step ops e st"] Cons.prems key next_state_not_terminal
      handle_event_last [OF Cons.prems, of ops e st]
    by (simp add: fsm_step_def)
qed simp

lemma fold_newer_Some:
  "fold newer ms (Some l) = Some r \<Longrightarrow>
     fst l \<le> fst r \<and> (\<forall>m \<in> set ms. fst m \<le> fst r) \<and> (r = l \<or> find (\<lambda>m. fst m = fst r) ms = Some r \<and> fst l < fst r)"
proof (induction ms arbitrary: l)
  case (Cons m ms)
  show ?case
  proof (cases "fst m \<le> fst l")
    case True
    then show ?thesis
      using Cons.IH [of l] Cons.prems by (auto simp: newer_def)
  next
    case False
    then show ?thesis
      using Cons.IH [of m] Cons.prems by (auto simp: newer_def)
  qed
qed simp

lemma fold_newer_not_None: "fold newer ms (Some l) \<noteq> None"
  by (induction ms arbitrary: l) (simp_all add: newer_def)

text \<open>
  C14: the newest remote status wins, whatever the order of arrival. After any run of events on a
  connection that had no status yet and is not terminating, the remembered status is absent
  exactly if no status message of this call was among them; otherwise it is the one with the
  largest sequence number, the first of them if the number was repeated. Statuses of other calls
  have no influence.
\<close>

theorem newest_sender_status_wins:
  assumes "\<not> conn_terminating_or_terminated (conn_state (fsm_conn st))"
    and "last_remote_sender_status (fst st) = None"
    and "msgs = concat (map (status_of (conn_call_id (fsm_conn st))) es)"
  shows "case last_remote_sender_status (fst (fold (fsm_step ops) es st)) of
      None \<Rightarrow> msgs = []
    | Some (n, s) \<Rightarrow> (\<forall>(m, t) \<in> set msgs. m \<le> n) \<and> find (\<lambda>(m, t). m = n) msgs = Some (n, s)"
proof -
  have all: "last_remote_sender_status (fst (fold (fsm_step ops) es st)) = fold newer msgs None"
    unfolding assms(3) using run_last [OF assms(1), of ops es] assms(2) by simp
  show ?thesis
  proof (cases msgs)
    case Nil
    then show ?thesis
      by (simp add: all)
  next
    case (Cons m ms)
    then have run: "last_remote_sender_status (fst (fold (fsm_step ops) es st)) = fold newer ms (Some m)"
      by (simp add: all newer_def)
    obtain r where r: "fold newer ms (Some m) = Some r"
      using fold_newer_not_None by blast
    have "(\<forall>x \<in> set msgs. fst x \<le> fst r) \<and> find (\<lambda>x. fst x = fst r) msgs = Some r"
      using fold_newer_Some [OF r] Cons by auto
    then show ?thesis
      using run r by (simp add: case_prod_beta')
  qed
qed

definition demo_status :: "bool \<Rightarrow> sender_status" where
  "demo_status b = sender_status_default\<lparr>video_enabled := Some b\<rparr>"

theorem newest_sender_status_wins_witness:
  "last_remote_sender_status (fst (fold (fsm_step (log_ops rtp_message_default [1] (\<lambda>_. None)))
       [ReceivedSenderStatusViaRtpData 5 (demo_status True) 4,
        ReceivedSenderStatusViaRtpData 5 (demo_status False) 2]
       (demo_fsm call_direction.Outgoing connection_state.ConnectedAndAccepted)))
     = Some (4, demo_status True)"
proof -
  let ?ops = "log_ops rtp_message_default [1] (\<lambda>_. None)"
  let ?st = "demo_fsm call_direction.Outgoing connection_state.ConnectedAndAccepted"
  let ?es = "[ReceivedSenderStatusViaRtpData 5 (demo_status True) 4,
        ReceivedSenderStatusViaRtpData 5 (demo_status False) 2]"
  have "\<not> conn_terminating_or_terminated (conn_state (fsm_conn ?st))"
    "last_remote_sender_status (fst ?st) = None" "conn_call_id (fsm_conn ?st) = 5"
    by (simp_all add: demo_fsm_def demo_defs conn_fsm_new_def)
  with newest_sender_status_wins [of ?st _ ?es ?ops, OF _ _ refl] show ?thesis
    by (auto simp: status_of_def split: option.splits if_splits)
qed

section \<open>The parent call knows the newest status\<close>

definition status_told :: "call_event \<Rightarrow> sender_status list" where
  "status_told e = (case e of
     ConnectionObserverEvent (RemoteSenderStatusChanged s) _ \<Rightarrow> [s] | _ \<Rightarrow> [])"

definition told :: "('m, 'x) call_link_scheme \<Rightarrow> sender_status list" where
  "told p = concat (map status_told (link_events p))"

text \<open>Room for \<open>n\<close> more events in the queue of the parent call, and a peer connection.\<close>

definition ready :: "nat \<Rightarrow> ('pc, 'm, 'x) conn_pair \<Rightarrow> bool" where
  "ready n cp = (stream_open (link_stream (snd cp))
     \<and> length (link_events (snd cp)) + n \<le> CHANNEL_CAPACITY
     \<and> peer_connection (webrtc (fst cp)) \<noteq> None)"

definition status_known :: "('pc, 'm, 'x) fsm_state \<Rightarrow> bool" where
  "status_known st = (conn_active (conn_state (fsm_conn st)) \<longrightarrow>
     (\<forall>n s. last_remote_sender_status (fst st) = Some (n, s)
        \<longrightarrow> told (snd (snd st)) \<noteq> [] \<and> last (told (snd (snd st))) = s))"

lemma status_known_spawn [simp]:
  "status_known (worker_spawn t f, cp) = status_known (f, cp)"
  "status_known (notify_spawn u f, cp) = status_known (f, cp)"
  by (simp_all add: status_known_def)

lemma status_known_fields:
  assumes "conn_key c' = conn_key c" "last_remote_sender_status g = last_remote_sender_status f"
  shows "status_known (g, c', p) = status_known (f, c, p)"
  using assms by (simp add: status_known_def conn_key_def)

lemma conn_active_iff:
  "conn_active s = (s = connection_state.ConnectedAndAccepted \<or> s = connection_state.ReconnectingAfterAccepted)"
  by (cases s) simp_all

definition rates_ok :: "'pc conn_ops \<Rightarrow> bool" where
  "rates_ok ops = (\<forall>r pc. snd (pc_set_send_rates ops r pc) = Ok ())"

lemma ready_mono: "ready n cp \<Longrightarrow> m \<le> n \<Longrightarrow> ready m cp"
  by (auto simp: ready_def)

lemma ready_cong:
  "ready n (c, p) \<Longrightarrow> peer_connection (webrtc c') = peer_connection (webrtc c) \<Longrightarrow> ready n (c', p)"
  by (simp add: ready_def)

lemma notify_ready:
  assumes "ready (Suc n) (c, p)"
  shows "\<exists>p'. notify_observer e (c, p) = ((c, p'), Ok ()) \<and> ready n (c, p')
    \<and> told p' = told p @ status_told (ConnectionObserverEvent e (remote_device_id c))"
  using assms
  by (cases "link_stream p")
     (auto simp: notify_observer_def on_connection_observer_event_def inject_call_event_def ready_def
        link_events_def told_def)

lemma set_state_ready:
  assumes "ready (Suc n) (c, p)"
  shows "\<exists>p'. set_state s (c, p) = ((c\<lparr>conn_state := s\<rparr>, p'), Ok ())
    \<and> ready n (c\<lparr>conn_state := s\<rparr>, p') \<and> told p' = told p"
proof (cases "conn_state c = s")
  case True
  then have same: "c\<lparr>conn_state := s\<rparr> = c"
    by (cases c) simp
  show ?thesis
    unfolding same using True ready_mono [OF assms, of n] by (simp add: set_state_def)
next
  case False
  have "ready (Suc n) (c\<lparr>conn_state := s\<rparr>, p)"
    using assms by (simp add: ready_def)
  from notify_ready [OF this, of "StateChanged s"] False show ?thesis
    by (auto simp: set_state_def status_told_def)
qed

lemma receiver_status_ready:
  assumes "rates_ok ops" "ready n (c, p)"
  shows "\<exists>c'. handle_remote_receiver_status_changed ops r (c, p) = ((c', p), Ok ())
    \<and> ready n (c', p) \<and> conn_key c' = conn_key c"
proof -
  obtain pc where pc: "peer_connection (webrtc c) = Some pc"
    using assms(2) by (auto simp: ready_def)
  obtain c' where c': "set_remote_max_bitrate ops r c = (c', Ok ())" "peer_connection (webrtc c') \<noteq> None"
  proof (cases "remote_max (bandwidth c) = Some r")
    case True
    then show ?thesis
      using that pc
      by (simp add: set_remote_max_bitrate_def update_bandwidth_controller_def)
  next
    case False
    obtain pc' where "pc_set_send_rates ops (max_send_rate ((bandwidth c)\<lparr>remote_max := Some r\<rparr>)) pc
        = (pc', Ok ())"
      using assms(1) by (metis rates_ok_def surjective_pairing)
    then show ?thesis
      using that False pc
      by (simp add: set_remote_max_bitrate_def update_bandwidth_controller_def
          apply_bandwidth_controller_def with_peer_connection_def)
  qed
  then show ?thesis
    using assms(2) set_remote_max_bitrate_frame [of ops r c]
    by (simp add: handle_remote_receiver_status_changed_def ready_def conn_key_def)
qed

lemma first_time_ready:
  assumes "rates_ok ops" "ready (Suc (Suc n)) (c, p)"
  shows "\<exists>f' c' p'. handle_connected_and_accepted_for_the_first_time ops (f, c, p) = ((f', c', p'), Ok ())
    \<and> ready n (c', p')
    \<and> told p' = told p @ (case last_remote_sender_status f of None \<Rightarrow> [] | Some (_, s) \<Rightarrow> [s])"
proof -
  obtain p1 where p1: "set_state connection_state.ConnectedAndAccepted (c, p) =
      ((c\<lparr>conn_state := connection_state.ConnectedAndAccepted\<rparr>, p1), Ok ())"
    "ready (Suc n) (c\<lparr>conn_state := connection_state.ConnectedAndAccepted\<rparr>, p1)" "told p1 = told p"
    using set_state_ready [OF assms(2)] by blast
  obtain c2 where c2: "(case last_remote_receiver_status f of
       Some (_, rate) \<Rightarrow> handle_remote_receiver_status_changed ops rate
          (c\<lparr>conn_state := connection_state.ConnectedAndAccepted\<rparr>, p1)
     | None \<Rightarrow> ((c\<lparr>conn_state := connection_state.ConnectedAndAccepted\<rparr>, p1), Ok ()))
     = ((c2, p1), Ok ())" "ready (Suc n) (c2, p1)"
  proof (cases "last_remote_receiver_status f")
    case None
    then show ?thesis
      using that p1(2) by simp
  next
    case (Some x)
    then show ?thesis
      using that receiver_status_ready [OF assms(1) p1(2), of "snd x"] by (cases x) auto
  qed
  obtain p3 where p3: "(case last_remote_sender_status f of
       Some (_, status) \<Rightarrow> handle_remote_sender_status_changed status (c2, p1)
     | None \<Rightarrow> ((c2, p1), Ok ())) = ((c2, p3), Ok ())" "ready n (c2, p3)"
     "told p3 = told p1 @ (case last_remote_sender_status f of None \<Rightarrow> [] | Some (_, s) \<Rightarrow> [s])"
  proof (cases "last_remote_sender_status f")
    case None
    then show ?thesis
      using that ready_mono [OF c2(2), of n] by simp
  next
    case (Some x)
    then show ?thesis
      using that notify_ready [OF c2(2), of "RemoteSenderStatusChanged (snd x)"]
      by (cases x) (auto simp: handle_remote_sender_status_changed_def status_told_def)
  qed
  show ?thesis
    using p1 c2 p3 by (simp add: handle_connected_and_accepted_for_the_first_time_def)
qed

lemma with_conn_state_ready:
  assumes "ready (Suc n) (c, p)"
  shows "\<exists>c' p'. with_conn_state s (f, c, p) = ((f, c', p'), Ok ()) \<and> ready n (c', p') \<and> told p' = told p"
  using set_state_ready [OF assms, of s] by (auto simp: with_conn_state_def)

lemma with_peer_connection_present:
  "(peer_connection (webrtc (fst (with_peer_connection g c))) = None) = (peer_connection (webrtc c) = None)"
  by (simp add: with_peer_connection_def split: option.split prod.split)

lemma set_network_route_present:
  "(peer_connection (webrtc (fst (set_network_route ops r c))) = None) = (peer_connection (webrtc c) = None)"
proof -
  let ?c = "report_route_to_stats ops r c"
  have rep: "(peer_connection (webrtc ?c) = None) = (peer_connection (webrtc c) = None)"
    by (simp add: report_route_to_stats_def Let_def split: option.split)
  have "(peer_connection (webrtc (fst (update_bandwidth_controller ops u ?c))) = None)
      = (peer_connection (webrtc ?c) = None)" for u
    using with_peer_connection_present
      [of "pc_set_send_rates ops (max_send_rate (fst (u (bandwidth ?c))))" "?c\<lparr>bandwidth := fst (u (bandwidth ?c))\<rparr>"]
    by (auto simp: update_bandwidth_controller_def apply_bandwidth_controller_def split: prod.split sum.split)
  from this [of "\<lambda>b. if route b = r then (b, False) else (b\<lparr>route := r\<rparr>, True)"] rep show ?thesis
    by (auto simp: set_network_route_def split: prod.split sum.split)
qed

lemma status_known_keep:
  assumes "status_known (f, c, p)"
    and "told (snd (snd st)) = told p"
    and "conn_active (conn_state (fsm_conn st)) \<Longrightarrow> conn_active (conn_state c)"
    and "last_remote_sender_status (fst st) = last_remote_sender_status f"
  shows "status_known st"
  using assms by (auto simp: status_known_def split: option.splits)

lemma first_time_known:
  assumes "rates_ok ops" "ready (Suc (Suc n)) (c, p)"
  shows "ready n (snd (fst (handle_connected_and_accepted_for_the_first_time ops (f, c, p))))
    \<and> status_known (fst (handle_connected_and_accepted_for_the_first_time ops (f, c, p)))"
  using first_time_ready [OF assms, of f] first_time_last [of ops "(f, c, p)"]
  by (auto simp: status_known_def split: option.splits)

lemma with_conn_state_known:
  assumes "status_known (f, c, p)" "ready (Suc (Suc n)) (c, p)"
    and "conn_active s \<Longrightarrow> conn_active (conn_state c)"
    and "last_remote_sender_status g = last_remote_sender_status f"
  shows "ready n (snd (fst (with_conn_state s (g, c, p)))) \<and> status_known (fst (with_conn_state s (g, c, p)))"
proof -
  obtain c' p' where w: "with_conn_state s (g, c, p) = ((g, c', p'), Ok ())"
    "ready n (c', p')" "told p' = told p"
    using with_conn_state_ready [of n c p s g] ready_mono [OF assms(2), of "Suc n"] by auto
  have "conn_state c' = s"
    using with_conn_state_key [of s "(g, c, p)"] w(1) by (simp add: conn_key_def)
  then show ?thesis
    using w status_known_keep [OF assms(1), of "(g, c', p')"] assms(3,4) by simp
qed

lemma sender_status_known:
  assumes "status_known (f, c, p)" "ready (Suc (Suc n)) (c, p)"
  shows "ready n (snd (fst (handle_received_sender_status_via_rtp_data (conn_state c) i s m (f, c, p))))
    \<and> status_known (fst (handle_received_sender_status_via_rtp_data (conn_state c) i s m (f, c, p)))"
proof -
  have r: "ready n (c, p)" and r1: "ready (Suc n) (c, p)"
    using ready_mono [OF assms(2)] by auto
  obtain p' where p': "handle_remote_sender_status_changed s (c, p) = ((c, p'), Ok ())" "ready n (c, p')"
      "told p' = told p @ [s]"
    using notify_ready [OF r1, of "RemoteSenderStatusChanged s"]
    by (auto simp: handle_remote_sender_status_changed_def status_told_def)
  show ?thesis
    using assms(1) r p'
    by (cases "last_remote_sender_status f")
       (auto simp: handle_received_sender_status_via_rtp_data_def Let_def status_known_def conn_active_iff)
qed

lemma receiver_status_known:
  assumes "rates_ok ops" "status_known (f, c, p)" "ready n (c, p)"
  shows "ready n (snd (fst (handle_received_receiver_status_via_rtp_data ops (conn_state c) i r m (f, c, p))))
    \<and> status_known (fst (handle_received_receiver_status_via_rtp_data ops (conn_state c) i r m (f, c, p)))"
proof -
  obtain c' where "handle_remote_receiver_status_changed ops r (c, p) = ((c', p), Ok ())"
      "ready n (c', p)" "conn_key c' = conn_key c"
    using receiver_status_ready [OF assms(1,3), of r] by blast
  moreover have "status_known (f\<lparr>last_remote_receiver_status := x\<rparr>, c2, p)" if "conn_key c2 = conn_key c" for x c2
    using assms(2) that by (simp add: status_known_def conn_key_def)
  ultimately show ?thesis
    using assms(2,3) by (auto simp: handle_received_receiver_status_via_rtp_data_def Let_def)
qed

lemma fsm_step_ready_known:
  assumes ok: "rates_ok ops" and ready: "ready (Suc (Suc n)) (snd st)"
    and live: "\<not> conn_terminating_or_terminated (conn_state (fsm_conn st))"
    and known: "status_known st"
  shows "ready n (snd (fsm_step ops e st)) \<and> status_known (fsm_step ops e st)"
proof (cases st)
  case (fields f c p)
  have r2: "ready (Suc (Suc n)) (c, p)" and r0: "ready n (c, p)" and k: "status_known (f, c, p)"
    and l: "\<not> conn_terminating_or_terminated (conn_state c)"
    using ready live known fields ready_mono [OF ready, of n] by auto
  note step = fsm_step_def handle_event_def
  note first = first_time_known [OF ok r2] and set = with_conn_state_known [OF k r2]
  show ?thesis
  proof (cases e)
    case Accept
    then show ?thesis
      using fields l r0 k first by (simp add: step handle_accept_def)
  next
    case (ReceivedAcceptedViaRtpData i)
    then show ?thesis
      using fields l r0 k first set [of connection_state.ConnectingAfterAccepted]
      by (simp add: step handle_received_accepted_via_rtp_data_def split: connection_state.split)
  next
    case (ReceivedSenderStatusViaRtpData i x m)
    then show ?thesis
      using fields l sender_status_known [OF k r2] by (simp add: step)
  next
    case (ReceivedReceiverStatusViaRtpData i r m)
    then show ?thesis
      using fields l receiver_status_known [OF ok k r0] by (simp add: step)
  next
    case IceConnected
    then show ?thesis
      using fields l r0 k first set [of connection_state.ConnectedBeforeAccepted]
        set [of connection_state.ConnectedAndAccepted]
      by (simp add: step handle_ice_connected_def fsm_notify_observer_def Let_def
          split: connection_state.split)
  next
    case IceFailed
    then show ?thesis
      using fields l r0 k set [of connection_state.IceFailed] by (simp add: step fsm_handle_ice_failed_def)
  next
    case IceDisconnected
    then show ?thesis
      using fields l r0 k set [of connection_state.ConnectingBeforeAccepted]
        set [of connection_state.ReconnectingAfterAccepted]
      by (simp add: step handle_ice_disconnected_def fsm_notify_observer_def Let_def
          split: connection_state.split)
  next
    case (IceNetworkRouteChanged r)
    then show ?thesis
      using fields l r0 k set_network_route_present [of ops r c] set_network_route_frame [of ops r c]
        status_known_fields [of "fst (set_network_route ops r c)" c f f p]
      by (auto simp: step handle_ice_network_route_changed_def fsm_notify_observer_def ready_def
          conn_key_def split: prod.splits sum.splits)
  next
    case (ReceivedIce msg)
    let ?g = "\<lambda>pc. (add_and_remove_remote_ice_candidates ops (candidates msg) pc, Ok ())"
    show ?thesis
      using ReceivedIce fields l r0 k with_peer_connection_present [of ?g c] with_peer_connection_frame [of ?g c]
        status_known_fields [of "fst (with_peer_connection ?g c)" c f f p]
      by (auto simp: step fsm_handle_received_ice_def connection_handle_received_ice_def ready_def
          conn_key_def split: prod.splits)
  qed (use fields l r0 k in \<open>auto simp: step handle_received_hangup_def fsm_notify_observer_def
      handle_update_sender_status_def handle_update_data_mode_def handle_local_ice_candidates_def
      handle_internal_error_def fsm_handle_received_incoming_media_def status_known_def ready_def
      handle_send_hangup_via_rtp_data_def handle_synchronize_def handle_terminate_def Let_def
      drain_worker_thread_def drain_notify_thread_def notify_terminate_complete_def\<close>)
qed

text \<open>
  C13: the parent call always knows the newest remote status of an active connection. From a
  connection that has not been accepted, after any run of events for which the call's queue has
  room and the send rate can be set: whenever the connection is active and has received a status,
  the last status the call was told is the newest one, including statuses received while ringing
  and reported only at acceptance.
\<close>

theorem call_knows_newest_status:
  assumes "rates_ok ops" "ready (2 * length es) (snd st)"
    and "\<not> conn_terminating_or_terminated (conn_state (fsm_conn st))"
    and "\<not> conn_active (conn_state (fsm_conn st))"
    and "conn_active (conn_state (fsm_conn (fold (fsm_step ops) es st)))"
    and "last_remote_sender_status (fst (fold (fsm_step ops) es st)) = Some (n, s)"
  shows "told (snd (snd (fold (fsm_step ops) es st))) \<noteq> []
    \<and> last (told (snd (snd (fold (fsm_step ops) es st)))) = s"
proof -
  have "status_known (fold (fsm_step ops) es st)"
    if "status_known st" "ready (2 * length es) (snd st)"
      "\<not> conn_terminating_or_terminated (conn_state (fsm_conn st))" for st es
    using that
  proof (induction es arbitrary: st)
    case (Cons e es)
    have "\<not> conn_terminating_or_terminated (conn_state (fsm_conn (fsm_step ops e st)))"
      using handle_event_key [of ops st e] next_state_not_terminal Cons.prems(3)
      by (simp add: fsm_step_def conn_key_def)
    then show ?case
      using Cons.IH [of "fsm_step ops e st"] Cons.prems
        fsm_step_ready_known [OF assms(1), of "2 * length es" st e]
      by simp
  qed simp
  from this [of st es] assms show ?thesis
    by (simp add: status_known_def)
qed

theorem call_knows_newest_status_witness:
  "told (snd (snd (fold (fsm_step (log_ops rtp_message_default [1] (\<lambda>_. None)))
       [ReceivedSenderStatusViaRtpData 5 (demo_status True) 4, ReceivedAcceptedViaRtpData 5]
       (demo_fsm call_direction.Outgoing connection_state.ConnectedBeforeAccepted)))) \<noteq> []
   \<and> last (told (snd (snd (fold (fsm_step (log_ops rtp_message_default [1] (\<lambda>_. None)))
       [ReceivedSenderStatusViaRtpData 5 (demo_status True) 4, ReceivedAcceptedViaRtpData 5]
       (demo_fsm call_direction.Outgoing connection_state.ConnectedBeforeAccepted))))) = demo_status True"
proof -
  let ?ops = "log_ops rtp_message_default [1] (\<lambda>_. None)"
  let ?st = "demo_fsm call_direction.Outgoing connection_state.ConnectedBeforeAccepted"
  let ?es = "[ReceivedSenderStatusViaRtpData 5 (demo_status True) 4, ReceivedAcceptedViaRtpData 5]"
  have st: "\<not> conn_terminating_or_terminated (conn_state (fsm_conn ?st))"
    "\<not> conn_active (conn_state (fsm_conn ?st))" "conn_call_id (fsm_conn ?st) = 5"
    "conn_state (fsm_conn ?st) = connection_state.ConnectedBeforeAccepted"
    "last_remote_sender_status (fst ?st) = None"
    by (simp_all add: demo_fsm_def demo_defs conn_fsm_new_def)
  have "rates_ok ?ops"
    by (simp add: rates_ok_def log_ops_def)
  moreover have "ready (2 * length ?es) (snd ?st)"
    by (simp add: ready_def demo_fsm_def demo_defs demo_link_def link_events_def CHANNEL_CAPACITY_def)
  moreover have "conn_active (conn_state (fsm_conn (fold (fsm_step ?ops) ?es ?st)))"
    by (simp only: run_key st) (simp add: next_state_def)
  moreover have "last_remote_sender_status (fst (fold (fsm_step ?ops) ?es ?st)) = Some (4, demo_status True)"
    by (simp only: run_last [OF st(1)] st) (simp add: status_of_def newer_def)
  ultimately show ?thesis
    using call_knows_newest_status [of ?ops ?es ?st] st(1,2) by blast
qed

end
