(* ===== verification/Connection_Start_Props.thy ===== *)
theory Connection_Start_Props
  imports Connection_Start Connection_Fsm_Props
begin

text \<open>
  What a successful start establishes: both ends have configured their peer connections with the
  same pair of SRTP keys, each respects the bitrate the other asked for, and the connection waits
  for its peer with a running state machine.
\<close>

section \<open>Steps\<close>

abbreviation pc_of :: "('pc, 'm, 'x) conn_pair \<Rightarrow> 'pc option" where
  "pc_of cp \<equiv> peer_connection (webrtc (fst cp))"

text \<open>What the steps of a start leave alone: the configuration and the bandwidth limits.\<close>

definition settings :: "('pc, 'm, 'x) conn_pair \<Rightarrow> call_config \<times> bandwidth_controller" where
  "settings cp = (conn_config (fst cp), bandwidth (fst cp))"

lemma on_pc_Ok:
  "on_pc f cp = (cp', Ok a) \<Longrightarrow> settings cp' = settings cp
    \<and> (\<exists>pc pc'. pc_of cp = Some pc \<and> f pc = (pc', Ok a) \<and> pc_of cp' = Some pc')"
  by (auto simp: on_pc_def with_peer_connection_def settings_def split: option.splits prod.splits)

lemma set_state_Ok:
  "set_state s cp = (cp', r) \<Longrightarrow> settings cp' = settings cp \<and> pc_of cp' = pc_of cp \<and> conn_state (fst cp') = s"
  using set_state_frame [of s cp] by (simp add: settings_def)

lemma create_stats_observer_keeps [simp]:
  "settings (create_stats_observer cp) = settings cp" "pc_of (create_stats_observer cp) = pc_of cp"
  by (simp_all add: create_stats_observer_def settings_def split: prod.split)

lemma set_remote_max_keeps [simp]:
  "pc_of (set_remote_max bps cp) = pc_of cp"
  "conn_config (fst (set_remote_max bps cp)) = conn_config (fst cp)"
  "bandwidth (fst (set_remote_max bps cp)) = (bandwidth (fst cp))\<lparr>remote_max := map_option from_bps bps\<rparr>"
  by (simp_all add: set_remote_max_def split: prod.split)

lemma apply_bandwidth_Ok:
  "apply_bandwidth ops cp = (cp', Ok u) \<Longrightarrow> settings cp' = settings cp
    \<and> (\<exists>pc pc'. pc_of cp = Some pc \<and> pc_set_send_rates ops (max_send_rate (bandwidth (fst cp))) pc = (pc', Ok u)
         \<and> pc_of cp' = Some pc')"
  by (auto simp: apply_bandwidth_def apply_bandwidth_controller_def with_peer_connection_def settings_def
      split: option.splits prod.splits)

lemma configure_audio_Ok:
  "configure_audio S cp = (cp', Ok u) \<Longrightarrow> settings cp' = settings cp
    \<and> (\<exists>pc d e. pc_of cp = Some pc
         \<and> pc_of cp' = Some (pc_configure_audio_decoders S d (pc_configure_audio_encoders S e pc)))"
  unfolding configure_audio_def by (drule on_pc_Ok) auto

lemmas step_Ok = on_pc_Ok set_state_Ok configure_audio_Ok apply_bandwidth_Ok

lemma finish_start_Ok:
  "finish_start m = (cp', Ok a) \<Longrightarrow> \<exists>cp. m = (cp, Ok a) \<and> settings cp' = settings cp \<and> pc_of cp' = pc_of cp
    \<and> conn_state (fst cp') = conn_state (fst cp) \<and> fsm_started (fst cp')"
  by (auto simp: finish_start_def start_fsm_def settings_def split: prod.splits)

lemma start_outgoing_parent_Ok:
  assumes "start_outgoing_parent S E secret media_type cp = (cp', Ok (secret', gatherer, offer))"
  shows "secret' = secret \<and> (\<exists>sd v4.
      to_v4 S (env_public E secret) (conn_config (fst cp)) (data_mode_of (conn_config (fst cp))) sd = Ok v4
      \<and> offer_from_v4 (env_encode E) (env_decode E) media_type v4 = Ok offer)"
  using finish_start_Ok [OF assms [unfolded start_outgoing_parent_def]]
  by (clarsimp simp: bind_ok_Ok settings_def dest!: on_pc_Ok set_state_Ok) metis

text \<open>
  What the model asks of WebRTC: setting a description stores it, the other operations keep both,
  and a description remembers the key it was given.
\<close>

definition keeps_descriptions :: "('pc \<Rightarrow> 'sd option \<times> 'sd option) \<Rightarrow> ('pc \<Rightarrow> 'pc \<times> 'r) \<Rightarrow> bool" where
  "keeps_descriptions desc f = (\<forall>pc. desc (fst (f pc)) = desc pc)"

definition webrtc_descriptions ::
  "('pc \<Rightarrow> 'sd option \<times> 'sd option) \<Rightarrow> ('sd \<Rightarrow> srtp_key option) \<Rightarrow> 'pc conn_ops \<Rightarrow> ('pc, 'sd, 'ig) sdp_ops \<Rightarrow> bool" where
  "webrtc_descriptions desc key_of ops S \<longleftrightarrow>
     (\<forall>sd pc pc'. pc_set_local_description S sd pc = (pc', Ok ()) \<longrightarrow> desc pc' = (Some sd, snd (desc pc)))
     \<and> (\<forall>sd pc pc'. pc_set_remote_description S sd pc = (pc', Ok ()) \<longrightarrow> desc pc' = (fst (desc pc), Some sd))
     \<and> keeps_descriptions desc (pc_create_answer S)
     \<and> (\<forall>pt b. keeps_descriptions desc (pc_receive_rtp S pt b))
     \<and> (\<forall>config pc. desc (pc_configure_audio_encoders S config pc) = desc pc)
     \<and> (\<forall>config pc. desc (pc_configure_audio_decoders S config pc) = desc pc)
     \<and> (\<forall>r. keeps_descriptions desc (pc_set_send_rates ops r))
     \<and> (\<forall>sdp. keeps_descriptions desc (pc_add_ice_candidate_from_sdp ops sdp))
     \<and> (\<forall>addrs pc. desc (pc_remove_ice_candidates ops addrs pc) = desc pc)
     \<and> (\<forall>key sd sd'. ffi_disable_dtls_and_set_srtp_key S key sd = (sd', True) \<longrightarrow> key_of sd' = Some key)"

lemma candidates_keep_descriptions:
  assumes "webrtc_descriptions desc key_of ops S"
  shows "desc (add_and_remove_remote_ice_candidates ops cands pc) = desc pc"
proof -
  have "desc (fold (\<lambda>sdp pc. fst (pc_add_ice_candidate_from_sdp ops sdp pc)) sdps pc) = desc pc" for sdps
    using assms by (induction sdps arbitrary: pc) (auto simp: webrtc_descriptions_def keeps_descriptions_def)
  then show ?thesis
    using assms by (simp add: add_and_remove_remote_ice_candidates_def webrtc_descriptions_def Let_def)
qed

lemma disable_key:
  assumes "webrtc_descriptions desc key_of ops S" "disable_dtls_and_set_srtp_key S key sd = (sd', Ok ())"
  shows "key_of (sd_rffi sd') = Some key"
  using assms by (auto simp: disable_dtls_and_set_srtp_key_def webrtc_descriptions_def split: prod.splits if_splits)

text \<open>The description that was made, with the key set on it.\<close>

definition keyed_description ::
  "('pc, 'sd, 'ig) sdp_ops \<Rightarrow> srtp_key \<Rightarrow> ('sd session_description, ringrtc_error) result \<Rightarrow> 'sd \<Rightarrow> bool" where
  "keyed_description S key made sd \<longleftrightarrow> (\<exists>sd0 sd1. made = Ok sd0
     \<and> disable_dtls_and_set_srtp_key S key sd0 = (sd1, Ok ()) \<and> sd = sd_rffi sd1)"

section \<open>The incoming side\<close>

text \<open>The steps of a successful start, with the peer connection after each.\<close>

lemma start_incoming_steps:
  assumes run: "start_incoming ops S E secret received cands cp = (cp', Ok answer)"
    and v4: "offer_to_v4 (ro_offer received) = Some v4_offer"
  shows "\<exists>sd0 remote k sd1 sd2 v4_answer sd3 local pc0 pc1 pc2 pc3 pc4 d e r pc5.
      sd_offer_from_v4 S v4_offer (conn_config (fst cp)) False = Ok sd0
      \<and> set_offer_key S E secret (public_key v4_offer) (ro_sender_identity_key received)
          (ro_receiver_identity_key received) sd0 = Ok (remote, k)
      \<and> pc_set_remote_description S (sd_rffi remote) pc0 = (pc1, Ok ())
      \<and> pc_create_answer S pc1 = (pc2, Ok sd1)
      \<and> to_v4 S (env_public E secret) (conn_config (fst cp)) (local_mode (bandwidth (fst cp))) sd2 = Ok v4_answer
      \<and> answer_from_v4 (env_encode E) (env_decode E) v4_answer = Ok answer
      \<and> sd_answer_from_v4 S v4_answer (conn_config (fst cp)) True = Ok sd3
      \<and> set_answer_key S k sd3 = Ok local
      \<and> pc_receive_rtp S RTP_DATA_PAYLOAD_TYPE False pc2 = (pc3, Ok ())
      \<and> pc_set_local_description S (sd_rffi local) pc3 = (pc4, Ok ())
      \<and> pc_set_send_rates ops r
          (pc_configure_audio_decoders S d (pc_configure_audio_encoders S e pc4)) = (pc5, Ok ())
      \<and> pc_of cp' = Some (add_and_remove_remote_ice_candidates ops cands pc5)
      \<and> bandwidth (fst cp') = (bandwidth (fst cp))\<lparr>remote_max := map_option from_bps (max_bitrate_bps v4_offer)\<rparr>
      \<and> conn_state (fst cp') = connection_state.ConnectingBeforeAccepted \<and> fsm_started (fst cp')"
  using finish_start_Ok [OF run [unfolded start_incoming_def]] v4
  by (clarsimp simp: bind_ok_Ok Let_def dest!: step_Ok, simp add: settings_def, blast)

lemma start_incoming_Ok:
  assumes web: "webrtc_descriptions desc key_of ops S"
    and run: "start_incoming ops S E secret received cands cp = (cp', Ok answer)"
    and v4: "offer_to_v4 (ro_offer received) = Some v4_offer" "public_key v4_offer = Some key"
  shows "\<exists>keys pc local remote sd v4_answer.
      negotiate_srtp_keys (env_dh E) (env_hkdf E) secret key
        (ro_sender_identity_key received) (ro_receiver_identity_key received) = Ok keys
      \<and> to_v4 S (env_public E secret) (conn_config (fst cp)) (local_mode (bandwidth (fst cp))) sd = Ok v4_answer
      \<and> answer_from_v4 (env_encode E) (env_decode E) v4_answer = Ok answer
      \<and> pc_of cp' = Some pc \<and> desc pc = (Some local, Some remote)
      \<and> keyed_description S (offer_key keys) (sd_offer_from_v4 S v4_offer (conn_config (fst cp)) False) remote
      \<and> keyed_description S (answer_key keys) (sd_answer_from_v4 S v4_answer (conn_config (fst cp)) True) local
      \<and> key_of local = Some (answer_key keys) \<and> key_of remote = Some (offer_key keys)"
proof -
  obtain sd0 remote k sd1 sd2 v4_answer sd3 local pc0 pc1 pc2 pc3 pc4 d e r pc5 where
    made: "sd_offer_from_v4 S v4_offer (conn_config (fst cp)) False = Ok sd0"
      "to_v4 S (env_public E secret) (conn_config (fst cp)) (local_mode (bandwidth (fst cp))) sd2 = Ok v4_answer"
      "answer_from_v4 (env_encode E) (env_decode E) v4_answer = Ok answer"
      "sd_answer_from_v4 S v4_answer (conn_config (fst cp)) True = Ok sd3"
    and st: "set_offer_key S E secret (Some key) (ro_sender_identity_key received)
          (ro_receiver_identity_key received) sd0 = Ok (remote, k)"
      "pc_set_remote_description S (sd_rffi remote) pc0 = (pc1, Ok ())"
      "pc_create_answer S pc1 = (pc2, Ok sd1)" "set_answer_key S k sd3 = Ok local"
      "pc_receive_rtp S RTP_DATA_PAYLOAD_TYPE False pc2 = (pc3, Ok ())"
      "pc_set_local_description S (sd_rffi local) pc3 = (pc4, Ok ())"
      "pc_set_send_rates ops r (pc_configure_audio_decoders S d (pc_configure_audio_encoders S e pc4)) = (pc5, Ok ())"
      "pc_of cp' = Some (add_and_remove_remote_ice_candidates ops cands pc5)"
    using start_incoming_steps [OF run v4(1)] v4(2) by auto
  from st(1) obtain keys where neg: "negotiate_srtp_keys (env_dh E) (env_hkdf E) secret key
        (ro_sender_identity_key received) (ro_receiver_identity_key received) = Ok keys"
    and k: "k = Some (answer_key keys)" and off: "disable_dtls_and_set_srtp_key S (offer_key keys) sd0 = (remote, Ok ())"
    by (auto simp: set_offer_key_def split: sum.splits prod.splits)
  have ans: "disable_dtls_and_set_srtp_key S (answer_key keys) sd3 = (local, Ok ())"
    using st(4) k by (auto simp: set_answer_key_def split: sum.splits prod.splits)
  have "desc (add_and_remove_remote_ice_candidates ops cands pc5) = (Some (sd_rffi local), Some (sd_rffi remote))"
    using web st unfolding candidates_keep_descriptions [OF web]
    by (simp add: webrtc_descriptions_def keeps_descriptions_def) (metis fst_conv snd_conv)
  then show ?thesis
    using neg st(8) made disable_key [OF web off] disable_key [OF web ans] off ans
    unfolding keyed_description_def by blast
qed

section \<open>The outgoing side\<close>

lemma start_outgoing_child_steps:
  assumes run: "start_outgoing_child ops S E secret gatherer offer received cp = (cp', Ok u)"
    and v4: "offer_to_v4 offer = Some v4_offer" "answer_to_v4 (ra_answer received) = Some v4_answer"
  shows "\<exists>off0 ans0 local remote pc0 pc1 pc2 pc3 d e r pc4.
      sd_offer_from_v4 S (negotiated_offer v4_offer v4_answer) (conn_config (fst cp)) True = Ok off0
      \<and> sd_answer_from_v4 S v4_answer (conn_config (fst cp)) False = Ok ans0
      \<and> set_both_keys S E secret (public_key v4_answer) (ra_receiver_identity_key received)
          (ra_sender_identity_key received) (off0, ans0) = Ok (local, remote)
      \<and> pc_set_local_description S (sd_rffi local) pc0 = (pc1, Ok ())
      \<and> pc_receive_rtp S RTP_DATA_PAYLOAD_TYPE True pc1 = (pc2, Ok ())
      \<and> pc_set_remote_description S (sd_rffi remote) pc2 = (pc3, Ok ())
      \<and> pc_set_send_rates ops r
          (pc_configure_audio_decoders S d (pc_configure_audio_encoders S e pc3)) = (pc4, Ok ())
      \<and> pc_of cp' = Some pc4
      \<and> bandwidth (fst cp') = (bandwidth (fst cp))\<lparr>remote_max := map_option from_bps (max_bitrate_bps v4_answer)\<rparr>
      \<and> conn_state (fst cp') = connection_state.ConnectingBeforeAccepted \<and> fsm_started (fst cp')"
  using finish_start_Ok [OF run [unfolded start_outgoing_child_def]] v4
  by (clarsimp simp: bind_ok_Ok Let_def dest!: step_Ok, simp add: settings_def, blast)

lemma start_outgoing_child_Ok:
  assumes web: "webrtc_descriptions desc key_of ops S"
    and run: "start_outgoing_child ops S E secret gatherer offer received cp = (cp', Ok u)"
    and v4: "offer_to_v4 offer = Some v4_offer" "answer_to_v4 (ra_answer received) = Some v4_answer"
      "public_key v4_answer = Some key"
  shows "\<exists>keys pc local remote.
      negotiate_srtp_keys (env_dh E) (env_hkdf E) secret key
        (ra_receiver_identity_key received) (ra_sender_identity_key received) = Ok keys
      \<and> pc_of cp' = Some pc \<and> desc pc = (Some local, Some remote)
      \<and> keyed_description S (offer_key keys)
          (sd_offer_from_v4 S (negotiated_offer v4_offer v4_answer) (conn_config (fst cp)) True) local
      \<and> keyed_description S (answer_key keys) (sd_answer_from_v4 S v4_answer (conn_config (fst cp)) False) remote
      \<and> key_of local = Some (offer_key keys) \<and> key_of remote = Some (answer_key keys)"
proof -
  obtain off0 ans0 local remote pc0 pc1 pc2 pc3 d e r pc4 where
    made: "sd_offer_from_v4 S (negotiated_offer v4_offer v4_answer) (conn_config (fst cp)) True = Ok off0"
      "sd_answer_from_v4 S v4_answer (conn_config (fst cp)) False = Ok ans0"
    and st: "set_both_keys S E secret (Some key) (ra_receiver_identity_key received)
          (ra_sender_identity_key received) (off0, ans0) = Ok (local, remote)"
      "pc_set_local_description S (sd_rffi local) pc0 = (pc1, Ok ())"
      "pc_receive_rtp S RTP_DATA_PAYLOAD_TYPE True pc1 = (pc2, Ok ())"
      "pc_set_remote_description S (sd_rffi remote) pc2 = (pc3, Ok ())"
      "pc_set_send_rates ops r (pc_configure_audio_decoders S d (pc_configure_audio_encoders S e pc3)) = (pc4, Ok ())"
      "pc_of cp' = Some pc4"
    using start_outgoing_child_steps [OF run v4(1,2)] v4(3) by auto
  from st(1) obtain keys where neg: "negotiate_srtp_keys (env_dh E) (env_hkdf E) secret key
        (ra_receiver_identity_key received) (ra_sender_identity_key received) = Ok keys"
    and off: "disable_dtls_and_set_srtp_key S (offer_key keys) off0 = (local, Ok ())"
    and ans: "disable_dtls_and_set_srtp_key S (answer_key keys) ans0 = (remote, Ok ())"
    by (auto simp: set_both_keys_def split: sum.splits prod.splits)
  have "desc pc4 = (Some (sd_rffi local), Some (sd_rffi remote))"
    using web st by (simp add: webrtc_descriptions_def keeps_descriptions_def) (metis fst_conv snd_conv)
  then show ?thesis
    using neg st(6) made disable_key [OF web off] disable_key [OF web ans] off ans
    unfolding keyed_description_def by blast
qed

section \<open>Both ends\<close>

lemma to_v4_Ok:
  "to_v4 S key config mode sd = Ok v4
   \<Longrightarrow> public_key v4 = Some key \<and> max_bitrate_bps v4 = Some (as_bps (max_bitrate mode))"
  by (auto simp: to_v4_def split: option.splits)

lemma offer_codec:
  assumes "\<forall>v b. enc v = Ok b \<longrightarrow> dec b = Ok v" "offer_from_v4 enc dec media_type v4 = Ok offer"
  shows "offer_to_v4 offer = Some v4"
  using assms by (auto simp: offer_from_v4_def offer_new_def offer_to_v4_def split: sum.splits)

lemma answer_codec:
  assumes "\<forall>v b. enc v = Ok b \<longrightarrow> dec b = Ok v" "answer_from_v4 enc dec v4 = Ok answer"
  shows "answer_to_v4 answer = Some v4"
  using assms by (auto simp: answer_from_v4_def answer_new_def answer_to_v4_def split: sum.splits)

lemma negotiate_symmetric:
  assumes "\<forall>a b. env_dh E a (env_public E b) = env_dh E b (env_public E a)" "\<forall>a. length (env_public E a) = 32"
  shows "negotiate_srtp_keys (env_dh E) (env_hkdf E) a (env_public E b) i j
       = negotiate_srtp_keys (env_dh E) (env_hkdf E) b (env_public E a) i j"
  using assms by (simp add: negotiate_srtp_keys_def)

text \<open>
  C33: when both ends of a call have started, they have configured matching descriptions with the
  same keys. Let the caller's parent connection make an offer, the callee start on that offer and
  answer, and the caller's child connection start on that answer, with both ends knowing the two
  identity keys. Then the two ends have negotiated the same keys. The caller's local description
  and the callee's remote one are both made from the offer's parameters, the caller's without the
  codecs that the answer does not allow, and both carry the key of the offer; the caller's remote
  description and the callee's local one are both made from the answer's parameters and carry the
  key of the answer. Each end limits its send rate by the data mode of the other; both connections
  are connecting, and both state machines run.
\<close>

theorem both_ends_agree:
  assumes web: "webrtc_descriptions descA keyA opsA SA" "webrtc_descriptions descB keyB opsB SB"
    and dh: "\<forall>a b. env_dh E a (env_public E b) = env_dh E b (env_public E a)" "\<forall>a. length (env_public E a) = 32"
    and codec: "\<forall>v b. env_encode E v = Ok b \<longrightarrow> env_decode E b = Ok v"
    and parent: "start_outgoing_parent SA E a media_type parent0 = (parent1, Ok (secret, gatherer, offer))"
    and incoming: "start_incoming opsB SB E b received cands callee0 = (callee, Ok answer)"
    and child: "start_outgoing_child opsA SA E secret gatherer offer reply caller0 = (caller, Ok ())"
    and sent: "ro_offer received = offer" "ra_answer reply = answer"
      "ra_receiver_identity_key reply = ro_sender_identity_key received"
      "ra_sender_identity_key reply = ro_receiver_identity_key received"
  shows "\<exists>v4_offer v4_answer keys pcA pcB localA remoteA localB remoteB.
      offer_to_v4 offer = Some v4_offer \<and> answer_to_v4 answer = Some v4_answer
      \<and> negotiate_srtp_keys (env_dh E) (env_hkdf E) a (env_public E b)
          (ro_sender_identity_key received) (ro_receiver_identity_key received) = Ok keys
      \<and> pc_of caller = Some pcA \<and> descA pcA = (Some localA, Some remoteA)
      \<and> pc_of callee = Some pcB \<and> descB pcB = (Some localB, Some remoteB)
      \<and> keyed_description SA (offer_key keys)
          (sd_offer_from_v4 SA (negotiated_offer v4_offer v4_answer) (conn_config (fst caller0)) True) localA
      \<and> keyed_description SB (offer_key keys)
          (sd_offer_from_v4 SB v4_offer (conn_config (fst callee0)) False) remoteB
      \<and> keyed_description SA (answer_key keys)
          (sd_answer_from_v4 SA v4_answer (conn_config (fst caller0)) False) remoteA
      \<and> keyed_description SB (answer_key keys)
          (sd_answer_from_v4 SB v4_answer (conn_config (fst callee0)) True) localB
      \<and> keyA localA = Some (offer_key keys) \<and> keyB remoteB = Some (offer_key keys)
      \<and> keyA remoteA = Some (answer_key keys) \<and> keyB localB = Some (answer_key keys)
      \<and> remote_max (bandwidth (fst caller)) = Some (max_bitrate (local_mode (bandwidth (fst callee0))))
      \<and> remote_max (bandwidth (fst callee)) = Some (max_bitrate (data_mode_of (conn_config (fst parent0))))
      \<and> conn_state (fst caller) = connection_state.ConnectingBeforeAccepted \<and> fsm_started (fst caller)
      \<and> conn_state (fst callee) = connection_state.ConnectingBeforeAccepted \<and> fsm_started (fst callee)"
proof -
  obtain sd v4_offer where secret: "secret = a"
    and v4o: "to_v4 SA (env_public E a) (conn_config (fst parent0)) (data_mode_of (conn_config (fst parent0))) sd = Ok v4_offer"
    and "offer_from_v4 (env_encode E) (env_decode E) media_type v4_offer = Ok offer"
    using start_outgoing_parent_Ok [OF parent] by blast
  then have offer: "offer_to_v4 offer = Some v4_offer" "offer_to_v4 (ro_offer received) = Some v4_offer"
    using offer_codec [OF codec] sent(1) by simp_all
  obtain keys pcB localB remoteB sd2 v4_answer where
    neg: "negotiate_srtp_keys (env_dh E) (env_hkdf E) b (env_public E a)
          (ro_sender_identity_key received) (ro_receiver_identity_key received) = Ok keys"
    and v4a: "to_v4 SB (env_public E b) (conn_config (fst callee0)) (local_mode (bandwidth (fst callee0))) sd2 = Ok v4_answer"
      "answer_from_v4 (env_encode E) (env_decode E) v4_answer = Ok answer"
    and B: "pc_of callee = Some pcB" "descB pcB = (Some localB, Some remoteB)"
      "keyed_description SB (offer_key keys) (sd_offer_from_v4 SB v4_offer (conn_config (fst callee0)) False) remoteB"
      "keyed_description SB (answer_key keys) (sd_answer_from_v4 SB v4_answer (conn_config (fst callee0)) True) localB"
      "keyB localB = Some (answer_key keys)" "keyB remoteB = Some (offer_key keys)"
    using start_incoming_Ok [OF web(2) incoming offer(2)] to_v4_Ok [OF v4o] by blast
  have ans: "answer_to_v4 answer = Some v4_answer" "answer_to_v4 (ra_answer reply) = Some v4_answer"
    using answer_codec [OF codec v4a(2)] sent(2) by simp_all
  have neg': "negotiate_srtp_keys (env_dh E) (env_hkdf E) a (env_public E b)
      (ro_sender_identity_key received) (ro_receiver_identity_key received) = Ok keys"
    using neg negotiate_symmetric [OF dh] by simp
  then obtain pcA localA remoteA where
    A: "pc_of caller = Some pcA" "descA pcA = (Some localA, Some remoteA)"
      "keyed_description SA (offer_key keys)
         (sd_offer_from_v4 SA (negotiated_offer v4_offer v4_answer) (conn_config (fst caller0)) True) localA"
      "keyed_description SA (answer_key keys) (sd_answer_from_v4 SA v4_answer (conn_config (fst caller0)) False) remoteA"
      "keyA localA = Some (offer_key keys)" "keyA remoteA = Some (answer_key keys)"
    using start_outgoing_child_Ok [OF web(1) child offer(1) ans(2)] to_v4_Ok [OF v4a(1)] sent(3,4) secret by auto
  have "remote_max (bandwidth (fst caller)) = Some (max_bitrate (local_mode (bandwidth (fst callee0))))
      \<and> conn_state (fst caller) = connection_state.ConnectingBeforeAccepted \<and> fsm_started (fst caller)"
    using start_outgoing_child_steps [OF child offer(1) ans(2)] to_v4_Ok [OF v4a(1)] by auto
  moreover have "remote_max (bandwidth (fst callee)) = Some (max_bitrate (data_mode_of (conn_config (fst parent0))))
      \<and> conn_state (fst callee) = connection_state.ConnectingBeforeAccepted \<and> fsm_started (fst callee)"
    using start_incoming_steps [OF incoming offer(2)] to_v4_Ok [OF v4o] by auto
  ultimately show ?thesis
    using A B offer(1) ans(1) neg' by blast
qed

text \<open>
  A small WebRTC for a concrete run: a description is the key it was given, a peer connection its
  two descriptions.
\<close>

type_synonym small_sd = "srtp_key option"
type_synonym small_pc = "small_sd option \<times> small_sd option"

definition small_v4 :: rffi_connection_parameters_v4 where
  "small_v4 = \<lparr> rffi_ice_ufrag = ''u'', rffi_ice_pwd = ''p'', bidirectional_video_codecs = [Vp8],
     rffi_encode_only_video_codecs = [Vp9], rffi_decode_only_video_codecs = [Vp8, Vp9] \<rparr>"

definition small_sdp_ops :: "(small_pc, small_sd, unit) sdp_ops" where
  "small_sdp_ops =
     \<lparr> ffi_disable_dtls_and_set_srtp_key = \<lambda>key sd. (Some key, True),
       ffi_to_v4 = \<lambda>sd e d. Some small_v4,
       ffi_to_v4_legacy = \<lambda>sd b. Some small_v4,
       ffi_from_v4 = \<lambda>offer v4 tcc e d loc. Some None,
       ffi_from_v4_legacy = \<lambda>offer v4 tcc b. Some None,
       pc_create_shared_ice_gatherer = \<lambda>pc. (pc, Ok ()),
       pc_use_shared_ice_gatherer = \<lambda>g pc. (pc, Ok ()),
       pc_create_send_only_transceiver = \<lambda>pc. (pc, True),
       pc_create_offer = \<lambda>pc. (pc, Ok None),
       pc_create_answer = \<lambda>pc. (pc, Ok None),
       pc_set_local_description = \<lambda>sd pc. ((Some sd, snd pc), Ok ()),
       pc_set_remote_description = \<lambda>sd pc. ((fst pc, Some sd), Ok ()),
       pc_receive_rtp = \<lambda>pt b pc. (pc, Ok ()),
       pc_configure_audio_encoders = \<lambda>c pc. pc,
       pc_configure_audio_decoders = \<lambda>c pc. pc \<rparr>"

definition small_ops :: "small_pc conn_ops" where
  "small_ops =
     \<lparr> pc_set_send_rates = \<lambda>r pc. (pc, Ok ()),
       pc_send_rtp = \<lambda>h b pc. (pc, Ok ()),
       pc_add_ice_candidate_from_sdp = \<lambda>sdp pc. (pc, Ok ()),
       pc_remove_ice_candidates = \<lambda>as pc. pc,
       pc_get_stats = \<lambda>pc. pc,
       pc_get_audio_levels = \<lambda>pc. (0, []),
       pc_get_last_bandwidth_estimate = \<lambda>pc. from_kbps 50,
       pc_set_audio_playout_enabled = \<lambda>b pc. pc,
       pc_set_incoming_media_enabled = \<lambda>b pc. pc,
       pc_set_outgoing_media_enabled = \<lambda>b pc. pc,
       pc_set_audio_recording_enabled = \<lambda>b pc. pc,
       pc_regather_on_all_networks = \<lambda>pc. pc,
       pc_close = \<lambda>pc. pc,
       rtp_encode = \<lambda>_. Ok [],
       rtp_decode = \<lambda>_. Ok rtp_message_default,
       rtp_message_size = 64,
       ice_decode = \<lambda>_. None \<rparr>"

definition small_public :: "nat \<Rightarrow> bytes" where
  "small_public n = replicate 31 0 @ [of_nat n]"

definition small_params :: "nat \<Rightarrow> connection_parameters_v4" where
  "small_params n = \<lparr> public_key = Some (small_public n), ice_ufrag = Some ''u'', ice_pwd = Some ''p'',
     receive_video_codecs = [Some VP8], max_bitrate_bps = Some (as_bps (max_bitrate data_mode.Normal)),
     encode_only_video_codecs = [Some VP9], decode_only_video_codecs = [Some VP8, Some VP9] \<rparr>"

definition small_env :: "nat start_env" where
  "small_env =
     \<lparr> env_public = small_public,
       env_dh = \<lambda>a p. Some [of_nat a + last p],
       env_hkdf = \<lambda>salt ikm info n. Some (replicate n (hd ikm)),
       env_encode = \<lambda>v. if v = Some (small_params 1) then Ok [1]
                        else if v = Some (small_params 2) then Ok [2] else Err BufferTooSmall,
       env_decode = \<lambda>b. if b = [1] then Ok (Some (small_params 1))
                        else if b = [2] then Ok (Some (small_params 2)) else Err BufferTooSmall \<rparr>"

definition small_connection :: "call_direction \<Rightarrow> connection_type \<Rightarrow> small_pc connection" where
  "small_connection dir ty =
     (let c = connection_new 5 dir 2 ty call_config_default None 1 in
      c\<lparr>webrtc := (webrtc c)\<lparr>peer_connection := Some (None, None)\<rparr>\<rparr>)"

lemma small_web: "webrtc_descriptions id id small_ops small_sdp_ops"
  by (auto simp: webrtc_descriptions_def keeps_descriptions_def small_ops_def small_sdp_ops_def)

lemma small_env_laws:
  "\<forall>a b. env_dh small_env a (env_public small_env b) = env_dh small_env b (env_public small_env a)"
  "\<forall>a. length (env_public small_env a) = 32"
  "\<forall>v b. env_encode small_env v = Ok b \<longrightarrow> env_decode small_env b = Ok v"
  by (auto simp: small_env_def small_public_def add.commute)

definition small_offer :: offer where
  "small_offer = \<lparr> offer_media_type = Audio, offer_opaque = [1], offer_proto = Some (small_params 1) \<rparr>"

definition small_answer :: answer where
  "small_answer = \<lparr> answer_opaque = [2], answer_proto = Some (small_params 2) \<rparr>"

lemma small_set_state:
  "set_state s (c, demo_link\<lparr>link_stream := Active q\<rparr>) =
     (if conn_state c = s then ((c, demo_link\<lparr>link_stream := Active q\<rparr>), Ok ())
      else if length q < CHANNEL_CAPACITY
      then ((c\<lparr>conn_state := s\<rparr>,
             demo_link\<lparr>link_stream := Active (q @ [ConnectionObserverEvent (StateChanged s) (remote_device_id c)])\<rparr>), Ok ())
      else ((c\<lparr>conn_state := s\<rparr>, demo_link\<lparr>link_stream := Active q\<rparr>), Err (Anyhow ''sending on a full channel'')))"
  by (simp add: set_state_def notify_observer_def on_connection_observer_event_def inject_call_event_def demo_link_def)

lemma demo_link_empty: "demo_link = demo_link\<lparr>link_stream := Active []\<rparr>"
  by (simp add: demo_link_def)

lemmas small_run = small_sdp_ops_def small_ops_def small_connection_def connection_new_def
  on_pc_def with_peer_connection_def create_stats_observer_def set_remote_max_def configure_audio_def
  apply_bandwidth_def apply_bandwidth_controller_def finish_start_def start_fsm_def Let_def
  to_v4_def small_v4_def call_config_default_def CHANNEL_CAPACITY_def small_set_state

lemma small_parent:
  "snd (start_outgoing_parent small_sdp_ops small_env 1 Audio
      (small_connection call_direction.Outgoing OutgoingParent, demo_link\<lparr>link_stream := Active []\<rparr>)) = Ok (1, (), small_offer)"
  by (simp add: start_outgoing_parent_def small_run small_env_def offer_from_v4_def
      offer_new_def small_offer_def small_params_def)

definition small_received :: received_offer where
  "small_received = \<lparr> ro_offer = small_offer, ro_age = 0, ro_sender_device_id = 1, ro_receiver_device_id = 1,
     ro_sender_identity_key = [7], ro_receiver_identity_key = [8] \<rparr>"

definition small_reply :: received_answer where
  "small_reply = \<lparr> ra_answer = small_answer, ra_sender_device_id = 1,
     ra_sender_identity_key = [8], ra_receiver_identity_key = [7] \<rparr>"

lemmas small_messages = small_received_def small_reply_def small_offer_def small_answer_def
  offer_to_v4_def answer_to_v4_def small_params_def sd_offer_from_v4_def sd_answer_from_v4_def sd_from_v4_def
  to_cstring_def map_filter_simps disable_dtls_and_set_srtp_key_def

lemma small_incoming:
  "snd (start_incoming small_ops small_sdp_ops small_env 2 small_received []
      (small_connection call_direction.Incoming Incoming, demo_link\<lparr>link_stream := Active []\<rparr>)) = Ok small_answer"
  by (simp add: start_incoming_def small_run small_messages small_env_def set_offer_key_def set_answer_key_def
      negotiate_srtp_keys_def small_public_def answer_from_v4_def answer_new_def)

lemma small_child:
  "snd (start_outgoing_child small_ops small_sdp_ops small_env 1 () small_offer small_reply
      (small_connection call_direction.Outgoing OutgoingChild, demo_link\<lparr>link_stream := Active []\<rparr>)) = Ok ()"
  by (simp add: start_outgoing_child_def small_run small_messages small_env_def set_both_keys_def negotiated_offer_def
      negotiate_srtp_keys_def small_public_def)

theorem both_ends_agree_witness:
  "\<exists>caller callee key1 key2.
     start_outgoing_child small_ops small_sdp_ops small_env 1 () small_offer small_reply
       (small_connection call_direction.Outgoing OutgoingChild, demo_link\<lparr>link_stream := Active []\<rparr>) = (caller, Ok ())
     \<and> start_incoming small_ops small_sdp_ops small_env 2 small_received []
       (small_connection call_direction.Incoming Incoming, demo_link\<lparr>link_stream := Active []\<rparr>) = (callee, Ok small_answer)
     \<and> pc_of caller = Some (Some (Some key1), Some (Some key2))
     \<and> pc_of callee = Some (Some (Some key2), Some (Some key1))"
proof -
  let ?link = "demo_link\<lparr>link_stream := Active []\<rparr>"
  obtain parent1 where p: "start_outgoing_parent small_sdp_ops small_env 1 Audio
      (small_connection call_direction.Outgoing OutgoingParent, ?link) = (parent1, Ok (1, (), small_offer))"
    using small_parent by (metis surjective_pairing)
  obtain callee where i: "start_incoming small_ops small_sdp_ops small_env 2 small_received []
      (small_connection call_direction.Incoming Incoming, ?link) = (callee, Ok small_answer)"
    using small_incoming by (metis surjective_pairing)
  obtain caller where c: "start_outgoing_child small_ops small_sdp_ops small_env 1 () small_offer small_reply
      (small_connection call_direction.Outgoing OutgoingChild, ?link) = (caller, Ok ())"
    using small_child by (metis surjective_pairing)
  show ?thesis
    using both_ends_agree [OF small_web small_web small_env_laws p i c] i c
    by (fastforce simp: small_received_def small_reply_def)
qed

end
