(* ===== verification/Connection_System.thy ===== *)
theory Connection_System
  imports Connection_Status Connection_Start_Props
begin

text \<open>
  The threads around a connection, interleaved: the call that gives it a peer connection and
  starts it, the state machine's loop, its worker and notify threads, the tick thread, WebRTC's
  callbacks, the application's requests and the termination. The loop runs from the start on; reads the state and handles an event in two steps, so that other threads can act in
  between. The invariant relates termination to the threads: once a connection is terminated, no
  worker or notify task runs on its behalf any more.
\<close>

section \<open>Steps\<close>

text \<open>
  A state of the system: the event the loop has taken from its queue with the state it read, and
  the state machine, the connection and the call.
\<close>

type_synonym ('pc, 'm, 'x) conn_sys =
  "(connection_state \<times> connection_event) option \<times> ('pc, 'm, 'x) fsm_state"

inductive conn_sys_step ::
  "'pc conn_ops \<Rightarrow> ('pc, 'sd, 'ig) sdp_ops \<Rightarrow> 'sk start_env \<Rightarrow> 'm call_manager
   \<Rightarrow> (nat \<Rightarrow> (nat, ringrtc_error) result)
   \<Rightarrow> ('pc, 'm, 'x) conn_sys \<Rightarrow> ('pc, 'm, 'x) conn_sys \<Rightarrow> bool"
  for ops S E cm create where
  peer_connection_set:
    "conn_sys_step ops S E cm create (r, f, c, p) (r, f, fst (set_peer_connection pc c), p)"
| parent_started:
    "conn_sys_step ops S E cm create (r, f, cp)
       (r, f, fst (start_outgoing_parent S E secret media_type cp))"
| child_started:
    "conn_sys_step ops S E cm create (r, f, cp)
       (r, f, fst (start_outgoing_child ops S E secret gatherer offer reply cp))"
| incoming_started:
    "conn_sys_step ops S E cm create (r, f, cp)
       (r, f, fst (start_incoming ops S E secret received cands cp))"
| media_enabled:
    "conn_sys_step ops S E cm create (r, f, cp) (r, f, fst (enable_media ops cm cp))"
| ticks_started:
    "conn_sys_step ops S E cm create (r, f, c, p) (r, f, start_tick now c, p)"
| app_connection_set:
    "conn_sys_step ops S E cm create (r, f, c, p) (r, f, fst (set_app_connection app c), p)"
| regathered:
    "conn_sys_step ops S E cm create (r, f, c, p) (r, f, fst (regather_on_all_networks ops c), p)"
| loop_reads:
    "fsm_started c \<Longrightarrow> recv (conn_stream c) = (s, Received e)
     \<Longrightarrow> conn_sys_step ops S E cm create (None, f, c, p)
           (Some (conn_state c, e), f, c\<lparr>conn_stream := s\<rparr>, p)"
| loop_handles:
    "conn_sys_step ops S E cm create (Some (state, e), st) (None, fst (handle_event ops state e st))"
| worker_turn:
    "actor_iterate now (worker_thread f) = (t, w)
     \<Longrightarrow> conn_sys_step ops S E cm create (r, f, cp)
           (r, f\<lparr>worker_thread := w\<rparr>,
            case t of Some t \<Rightarrow> run_worker_task ops cm create t cp | None \<Rightarrow> cp)"
| notify_turn:
    "actor_iterate now (notify_thread f) = (t, w)
     \<Longrightarrow> conn_sys_step ops S E cm create (r, f, cp)
           (r, f\<lparr>notify_thread := w\<rparr>, case t of Some t \<Rightarrow> run_notify_task t cp | None \<Rightarrow> cp)"
| tick_turn:
    "actor_iterate now (tick_context c) = (Some (), a)
     \<Longrightarrow> tick_and_reschedule ops now (c\<lparr>tick_context := a\<rparr>, p) = Some cp
     \<Longrightarrow> conn_sys_step ops S E cm create (r, f, c, p) (r, f, cp)"
| rtp_received:
    "conn_sys_step ops S E cm create (r, f, c, p) (r, f, handle_rtp_received ops hdr payload c, p)"
| injected:
    "conn_sys_step ops S E cm create (r, f, c, p) (r, f, fst (inject_event e c), p)"
| hung_up:
    "conn_sys_step ops S E cm create (r, f, cp) (r, f, fst (inject_send_hangup_via_rtp_data h cp))"
| terminate_requested:
    "conn_sys_step ops S E cm create (r, f, cp) (r, f, fst (terminate_begin cp))"
| terminate_completed:
    "terminate_complete (fst cp)
     \<Longrightarrow> conn_sys_step ops S E cm create (r, f, cp) (r, f, fst (terminate_finish ops now cp))"
| parent_acts:
    "conn_sys_step ops S E cm create (r, f, c, p) (r, f, c, p')"

section \<open>What the operations keep\<close>

text \<open>
  The fields that termination is about. No operation of the connection changes whether it has
  completed its termination or closed its stream, and none but the end of \<open>terminate\<close> sets the
  state Terminated.
\<close>

definition ctl :: "'pc connection \<Rightarrow> bool \<times> bool \<times> connection_state" where
  "ctl c = (terminate_complete c, stream_open (conn_stream c), conn_state c)"

named_theorems ctl_rules \<open>operations that keep the control fields\<close>

lemma ctl_updates [simp]:
  "ctl (c\<lparr>webrtc := w\<rparr>) = ctl c" "ctl (c\<lparr>bandwidth := b\<rparr>) = ctl c"
  "ctl (c\<lparr>accumulated_rtp_data_message := m\<rparr>) = ctl c" "ctl (c\<lparr>bwe_state := bs\<rparr>) = ctl c"
  "ctl (c\<lparr>buffered_local_ice_candidates := bl\<rparr>) = ctl c" "ctl (c\<lparr>ticks_elapsed := n\<rparr>) = ctl c"
  "ctl (c\<lparr>tick_context := a\<rparr>) = ctl c" "ctl (c\<lparr>last_received_rtp_data_timestamp := t\<rparr>) = ctl c"
  by (simp_all add: ctl_def)

lemma ctl_with_peer_connection [simp]: "ctl (fst (with_peer_connection g c)) = ctl c"
  by (simp add: with_peer_connection_def split: option.split prod.split)

lemma ctl_notify_observer [simp]: "ctl (fst (fst (notify_observer e cp))) = ctl (fst cp)"
  by (simp add: conn_frame)

lemma ctl_inject_event [simp]: "ctl (fst (inject_event e c)) = ctl c"
  by (cases "conn_stream c") (simp_all add: inject_event_def ctl_def)

text \<open>A case distinction on the outcome of an operation keeps what its branches keep.\<close>

lemma ctl_bind:
  assumes "ctl (fst m) = k" "\<And>c e. ctl c = k \<Longrightarrow> ctl (fst (h c e)) = k" "\<And>c a. ctl c = k \<Longrightarrow> ctl (fst (g c a)) = k"
  shows "ctl (fst (case m of (c, Inl e) \<Rightarrow> h c e | (c, Inr a) \<Rightarrow> g c a)) = k"
  using assms by (cases m; cases "snd m") auto

lemma ctl_update_bandwidth_controller [simp]: "ctl (fst (update_bandwidth_controller ops u c)) = ctl c"
proof (cases "u (bandwidth c)")
  case (Pair b changed)
  have "ctl (fst (case apply_bandwidth_controller ops (c\<lparr>bandwidth := b\<rparr>) of
      (c, Inl e) \<Rightarrow> (c, Err e) | (c, Inr _) \<Rightarrow> (c, Ok x))) = ctl c" for x
    by (rule ctl_bind) (simp_all add: apply_bandwidth_controller_def)
  with Pair show ?thesis
    by (cases changed) (simp_all add: update_bandwidth_controller_def)
qed

lemma ctl_send_via_rtp_data [simp]: "ctl (fst (send_via_rtp_data ops m c)) = ctl c"
  by (simp add: send_via_rtp_data_def Let_def split: sum.split)

lemma ctl_update_and_send [simp]: "ctl (fst (update_and_send_rtp_data_message ops g c)) = ctl c"
  by (simp add: update_and_send_rtp_data_message_def Let_def)

lemma ctl_set_remote_max_bitrate [simp]: "ctl (fst (set_remote_max_bitrate ops r c)) = ctl c"
  unfolding set_remote_max_bitrate_def by (rule ctl_bind) simp_all

lemma ctl_update_data_mode [simp]: "ctl (fst (update_data_mode ops mode c)) = ctl c"
  unfolding update_data_mode_def by (rule ctl_bind) simp_all

lemma ctl_set_up [simp]:
  "ctl (fst (set_peer_connection pc c)) = ctl c" "ctl (fst (set_app_connection app c)) = ctl c"
  "ctl (start_tick now c) = ctl c" "ctl (fst (regather_on_all_networks ops c)) = ctl c"
  by (simp_all add: set_peer_connection_def set_app_connection_def start_tick_def regather_on_all_networks_def
      split: option.split)

lemma ctl_enable_media [simp]: "ctl (fst (fst (enable_media ops cm cp))) = ctl (fst cp)"
proof (cases cp)
  case (Pair c p)
  let ?m = "with_peer_connection
     (\<lambda>pc. (pc_set_audio_recording_enabled ops True (pc_set_outgoing_media_enabled ops True
        (pc_set_incoming_media_enabled ops True (pc_set_audio_playout_enabled ops True pc))), Ok ())) c"
  obtain c1 res where "?m = (c1, res)"
    by (meson surj_pair)
  moreover have "ctl (fst ?m) = ctl c"
    by simp
  ultimately show ?thesis
    using Pair by (cases res) (auto simp: enable_media_def split: option.split prod.split)
qed

lemma ctl_report_route [simp]: "ctl (report_route_to_stats ops r c) = ctl c"
  by (simp add: report_route_to_stats_def Let_def split: option.split)

lemma ctl_set_network_route [simp]: "ctl (fst (set_network_route ops r c)) = ctl c"
  unfolding set_network_route_def by (rule ctl_bind) simp_all

lemma ctl_handle_received_incoming_media [simp]:
  "ctl (fst (connection_handle_received_incoming_media create m c)) = ctl c"
  by (simp add: connection_handle_received_incoming_media_def set_incoming_media_def
      split: sum.split option.split)

lemma ctl_buffer_local_ice_candidates [simp]:
  "ctl (fst (fst (buffer_local_ice_candidates cm cands cp))) = ctl (fst cp)"
  by (simp add: buffer_local_ice_candidates_def Let_def split: prod.split)

lemma ctl_inject_received [simp]: "ctl (inject_received_via_rtp_data ops b c) = ctl c"
  by (simp add: inject_received_via_rtp_data_def inject_accepted_part_def inject_hangup_part_def
      inject_sender_status_part_def inject_receiver_status_part_def inject_internal_error_def
      split: sum.split option.split)

lemma ctl_handle_rtp_received [simp]: "ctl (handle_rtp_received ops hdr b c) = ctl c"
  by (simp add: handle_rtp_received_def)

lemma ctl_bind_pair:
  assumes "ctl (fst (fst m)) = k" "\<And>cp e. ctl (fst cp) = k \<Longrightarrow> ctl (fst (fst (h cp e))) = k"
    "\<And>cp a. ctl (fst cp) = k \<Longrightarrow> ctl (fst (fst (g cp a))) = k"
  shows "ctl (fst (fst (case m of (cp, Inl e) \<Rightarrow> h cp e | (cp, Inr a) \<Rightarrow> g cp a))) = k"
  using assms by (cases m; cases "snd m") auto

lemma ctl_fstD: "ctl (fst m) = k \<Longrightarrow> m = (c, r) \<Longrightarrow> ctl c = k"
  by simp

lemma ctl_pairD: "ctl (fst (fst m)) = k \<Longrightarrow> m = (cp, r) \<Longrightarrow> ctl (fst cp) = k"
  by simp

lemmas ctl_outcomes = ctl_with_peer_connection [THEN ctl_fstD] ctl_update_and_send [THEN ctl_fstD]
  ctl_update_data_mode [THEN ctl_fstD] ctl_handle_received_incoming_media [THEN ctl_fstD]
  ctl_set_network_route [THEN ctl_fstD] ctl_set_remote_max_bitrate [THEN ctl_fstD]
  ctl_notify_observer [THEN ctl_pairD] ctl_buffer_local_ice_candidates [THEN ctl_pairD]

lemma ctl_tick_send [simp]: "ctl (fst (tick_send ops n c)) = ctl c"
  by (simp add: tick_send_def send_latest_rtp_data_message_def)

lemma ctl_tick_stats: "tick_stats ops n c = Some (c', r) \<Longrightarrow> ctl c' = ctl c"
  by (auto simp: tick_stats_def Let_def split: if_splits option.splits dest: ctl_outcomes)

lemma ctl_tick_audio [simp]: "ctl (fst (fst (tick_audio ops n cp))) = ctl (fst cp)"
proof (cases cp)
  case (Pair c p)
  let ?m = "with_peer_connection (\<lambda>pc. (pc, Ok (pc_get_audio_levels ops pc))) c"
  obtain c1 r where "?m = (c1, r)"
    by (meson surj_pair)
  moreover have "ctl (fst ?m) = ctl c"
    by simp
  ultimately show ?thesis
    using Pair by (cases r) (auto simp: tick_audio_def split: option.split prod.split)
qed

lemma ctl_tick_bwe [simp]: "ctl (fst (fst (tick_bwe ops n cp))) = ctl (fst cp)"
proof (cases cp)
  case (Pair c p)
  let ?m = "with_peer_connection (\<lambda>pc. (pc, Ok (pc_get_last_bandwidth_estimate ops pc))) c"
  obtain c1 r where m: "?m = (c1, r)"
    by (meson surj_pair)
  then have "ctl c1 = ctl c"
    by (metis ctl_with_peer_connection fst_conv)
  moreover have "fst (fst (notify_observer e (c1, p))) = c1" for e
    by (simp add: conn_frame)
  ultimately show ?thesis
    using Pair m
    by (cases r; cases "bwe_state c")
       (auto simp: tick_bwe_def split: prod.split, metis ctl_updates(4) fst_conv, metis ctl_updates(4) fst_conv)
qed

lemma ctl_tick_and_reschedule:
  assumes "tick_and_reschedule ops now (c, p) = Some cp'"
  shows "ctl (fst cp') = ctl c"
proof -
  let ?n = "add64 (ticks_elapsed c) 1"
  let ?c = "c\<lparr>ticks_elapsed := ?n\<rparr>"
  obtain c1 r1 where 1: "tick_send ops ?n ?c = (c1, r1)"
    by (meson surj_pair)
  then have k1: "ctl c1 = ctl c"
    by (metis ctl_tick_send ctl_updates(6) fst_conv)
  have "ctl (fst cp2) = ctl c" if "tick ops ?n (?c, p) = Some (cp2, r)" for cp2 r
    using that 1 k1
    by (auto simp: tick_def split: sum.splits option.splits prod.splits
        dest!: ctl_tick_stats ctl_tick_audio [THEN ctl_pairD] ctl_tick_bwe [THEN ctl_pairD])
  then show ?thesis
    using assms by (auto simp: tick_and_reschedule_def Let_def start_tick_def split: option.splits prod.splits)
qed

lemma ctl_worker_task_body: "ctl (fst (fst (worker_task_body ops cm create t cp))) = ctl (fst cp)"
proof (cases cp)
  case (Pair c p)
  then show ?thesis
    by (cases t)
       (auto simp: worker_task_body_def send_hangup_via_rtp_data_def send_accepted_via_rtp_data_def
          update_sender_status_from_fsm_def split: prod.split dest!: ctl_outcomes)
qed

lemma ctl_run_worker_task [simp]: "ctl (fst (run_worker_task ops cm create t cp)) = ctl (fst cp)"
  using ctl_worker_task_body [of ops cm create t cp]
  by (auto simp: run_worker_task_def inject_internal_error_def split: prod.split sum.split)

lemma ctl_run_notify_task [simp]: "ctl (fst (run_notify_task t cp)) = ctl (fst cp)"
proof (cases cp)
  case (Pair c p)
  have "fst (fst (connection_internal_error x cp)) = c" for x
    using Pair by (simp add: connection_internal_error_def split: prod.split)
  with Pair show ?thesis
    by (cases t) (auto simp: run_notify_task_def inject_internal_error_def split: prod.split sum.split
        dest!: ctl_outcomes)
qed

section \<open>What a start keeps\<close>

text \<open>
  A start neither completes a termination nor closes the stream, and it makes no connection
  Terminated, wherever its first error ends it.
\<close>

definition not_ended_by :: "'pc connection \<Rightarrow> 'pc connection \<Rightarrow> bool" where
  "not_ended_by c c' = (terminate_complete c' = terminate_complete c
     \<and> stream_open (conn_stream c') = stream_open (conn_stream c)
     \<and> (conn_state c' = connection_state.Terminated \<longrightarrow> conn_state c = connection_state.Terminated))"

definition start_keeps :: "'pc connection \<Rightarrow> ('pc, 'm, 'x) conn_pair \<times> 'r \<Rightarrow> bool" where
  "start_keeps c res = not_ended_by c (fst (fst res))"

lemma not_ended_by_ctl: "not_ended_by c0 c \<Longrightarrow> ctl c' = ctl c \<Longrightarrow> not_ended_by c0 c'"
  by (simp add: not_ended_by_def ctl_def)

lemma start_keeps_bind:
  assumes "start_keeps c0 m" "\<And>a cp. not_ended_by c0 (fst cp) \<Longrightarrow> start_keeps c0 (g a cp)"
  shows "start_keeps c0 (bind_ok m g)"
  using assms by (cases m; cases "snd m") (auto simp: start_keeps_def)

lemma start_keeps_set_state:
  "not_ended_by c0 (fst cp) \<Longrightarrow> s \<noteq> connection_state.Terminated \<Longrightarrow> start_keeps c0 (set_state s cp)"
  by (simp add: start_keeps_def set_state_frame not_ended_by_def)

lemma start_keeps_pc:
  "not_ended_by c0 (fst cp) \<Longrightarrow> start_keeps c0 (on_pc g cp)"
  "not_ended_by c0 (fst cp) \<Longrightarrow> start_keeps c0 (configure_audio S cp)"
  "not_ended_by c0 (fst cp) \<Longrightarrow> start_keeps c0 (apply_bandwidth ops cp)"
  by (auto simp: start_keeps_def on_pc_def configure_audio_def apply_bandwidth_def apply_bandwidth_controller_def
      intro: not_ended_by_ctl split: prod.split dest: ctl_outcomes)

lemma start_keeps_value: "not_ended_by c0 (fst cp) \<Longrightarrow> start_keeps c0 (cp, res)"
  by (simp add: start_keeps_def)

lemma start_keeps_finish: "start_keeps c0 m \<Longrightarrow> start_keeps c0 (finish_start m)"
  by (auto simp: start_keeps_def finish_start_def start_fsm_def not_ended_by_def split: prod.split)

lemma not_ended_by_steps:
  "not_ended_by c c"
  "not_ended_by c0 (fst cp) \<Longrightarrow> not_ended_by c0 (fst (create_stats_observer cp))"
  "not_ended_by c0 (fst cp) \<Longrightarrow> not_ended_by c0 (fst (set_remote_max bps cp))"
  by (auto simp: not_ended_by_def create_stats_observer_def set_remote_max_def split: prod.split)

lemmas start_keeps_rules = start_keeps_finish start_keeps_bind start_keeps_set_state start_keeps_pc
  start_keeps_value not_ended_by_steps

lemma starts_keep:
  "start_keeps (fst cp) (start_outgoing_parent S E secret media_type cp)"
  "start_keeps (fst cp) (start_outgoing_child ops S E secret gatherer offer reply cp)"
  "start_keeps (fst cp) (start_incoming ops S E secret received cands cp)"
  unfolding start_outgoing_parent_def start_outgoing_child_def start_incoming_def Let_def
  by (auto intro!: start_keeps_rules split: option.split prod.split)

section \<open>What the handlers keep\<close>

text \<open>
  A handler other than the one of the termination neither stops nor ends a thread, and it never
  makes a connection Terminated, whatever state it was given.
\<close>

definition threads :: "conn_fsm \<Rightarrow> bool \<times> bool \<times> bool \<times> bool" where
  "threads f = (has_been_stopped (worker_thread f), ended (worker_thread f),
     has_been_stopped (notify_thread f), ended (notify_thread f))"

definition keeps_running :: "('pc, 'm, 'x) fsm_state \<Rightarrow> ('pc, 'm, 'x) fsm_state \<Rightarrow> bool" where
  "keeps_running st st' = (threads (fst st') = threads (fst st)
     \<and> terminate_complete (fsm_conn st') = terminate_complete (fsm_conn st)
     \<and> stream_open (conn_stream (fsm_conn st')) = stream_open (conn_stream (fsm_conn st))
     \<and> (conn_state (fsm_conn st') = connection_state.Terminated
        \<longrightarrow> conn_state (fsm_conn st) = connection_state.Terminated))"

lemma keeps_running_refl [simp]: "keeps_running st st"
  by (simp add: keeps_running_def)

lemma keeps_running_trans: "keeps_running st st2 \<Longrightarrow> keeps_running st2 st3 \<Longrightarrow> keeps_running st st3"
  by (simp add: keeps_running_def)

lemma keeps_runningI:
  assumes "threads f' = threads f" "ctl c' = ctl c"
  shows "keeps_running (f, c, p) (f', c', p')"
  using assms by (simp add: keeps_running_def ctl_def)

lemma threads_spawn [simp]:
  "threads (worker_spawn t f) = threads f" "threads (notify_spawn u f) = threads f"
  "threads (fsm_notify_observer e f) = threads f" "threads (fsm_send_accepted_via_rtp_data f) = threads f"
  "threads (f\<lparr>last_remote_sender_status := ls\<rparr>) = threads f"
  "threads (f\<lparr>last_remote_receiver_status := lr\<rparr>) = threads f"
  by (simp_all add: threads_def worker_spawn_def notify_spawn_def fsm_notify_observer_def
      fsm_send_accepted_via_rtp_data_def actor_send_def send_task_def)

lemma set_state_ctl:
  assumes "s \<noteq> connection_state.Terminated" "set_state s (c, p) = ((c', p'), r)"
  shows "keeps_running (f, c, p) (f, c', p')"
  using assms set_state_frame [of s "(c, p)"] by (simp add: keeps_running_def)

lemma with_conn_state_running:
  "s \<noteq> connection_state.Terminated \<Longrightarrow> keeps_running st (fst (with_conn_state s st))"
  using set_state_ctl by (cases st) (auto simp: with_conn_state_def split: prod.splits)

lemma first_time_running:
  "keeps_running st (fst (handle_connected_and_accepted_for_the_first_time ops st))"
proof (cases st)
  case (fields f c p)
  obtain c1 p1 r1 where 1: "set_state connection_state.ConnectedAndAccepted (c, p) = ((c1, p1), r1)"
    by (metis surj_pair)
  have run1: "keeps_running st (f, c1, p1)"
    using set_state_ctl [OF _ 1] fields by simp
  obtain cp2 r2 where 2: "(case last_remote_receiver_status f of
       Some (_, rate) \<Rightarrow> handle_remote_receiver_status_changed ops rate (c1, p1) | None \<Rightarrow> ((c1, p1), Ok ()))
     = (cp2, r2)"
    by (meson surj_pair)
  then have k2: "ctl (fst cp2) = ctl c1"
    by (auto simp: handle_remote_receiver_status_changed_def split: option.splits prod.splits dest: ctl_outcomes)
  obtain cp3 r3 where 3: "(case last_remote_sender_status f of
       Some (_, status) \<Rightarrow> handle_remote_sender_status_changed status cp2 | None \<Rightarrow> (cp2, Ok ()))
     = (cp3, r3)"
    by (meson surj_pair)
  then have k3: "ctl (fst cp3) = ctl c1"
    using k2 by (auto simp: handle_remote_sender_status_changed_def split: option.splits prod.splits
        dest: ctl_outcomes)
  have run: "keeps_running (f, c1, p1) (f', cp)" if "ctl (fst cp) = ctl c1" "threads f' = threads f" for f' cp
    using that keeps_runningI [of f' f "fst cp" c1 p1 "snd cp"] by simp
  show ?thesis
    using fields 1 2 3 keeps_running_trans [OF run1] run k2 k3
    by (cases r1; cases r2; cases r3)
       (auto simp: handle_connected_and_accepted_for_the_first_time_def)
qed

lemma handle_event_running:
  assumes "event \<noteq> connection_event.Terminate"
  shows "keeps_running st (fst (handle_event ops state event st))"
proof (cases st)
  case (fields f c p)
  have spawn: "keeps_running (f, c, p) (f', c, p)" if "threads f' = threads f" for f'
    using that keeps_runningI by blast
  have change: "keeps_running (f, c, p) (fst (with_conn_state s (f', c, p)))"
    if "threads f' = threads f" "s \<noteq> connection_state.Terminated" for s f'
    using that keeps_running_trans [OF spawn] with_conn_state_running by blast
  have first: "keeps_running (f, c, p) (fst (handle_connected_and_accepted_for_the_first_time ops (f', c, p)))"
    if "threads f' = threads f" for f'
    using that keeps_running_trans [OF spawn] first_time_running by blast
  show ?thesis
  proof (cases event)
    case Accept
    then show ?thesis
      using first_time_running [of st ops] by (simp add: handle_event_def handle_accept_def)
  next
    case (ReceivedAcceptedViaRtpData i)
    then show ?thesis
      using fields first_time_running [of st ops] with_conn_state_running [of connection_state.ConnectingAfterAccepted st]
      by (auto simp: handle_event_def handle_received_accepted_via_rtp_data_def split: connection_state.split)
  next
    case (ReceivedSenderStatusViaRtpData i s n)
    then show ?thesis
      using fields
      by (auto simp: handle_event_def handle_received_sender_status_via_rtp_data_def Let_def
          handle_remote_sender_status_changed_def intro!: keeps_runningI split: prod.split dest!: ctl_outcomes)
  next
    case (ReceivedReceiverStatusViaRtpData i r n)
    then show ?thesis
      using fields
      by (auto simp: handle_event_def handle_received_receiver_status_via_rtp_data_def Let_def
          handle_remote_receiver_status_changed_def intro!: keeps_runningI split: prod.split dest!: ctl_outcomes)
  next
    case IceConnected
    then show ?thesis
      using fields change first
      by (auto simp: handle_event_def handle_ice_connected_def Let_def intro!: spawn split: connection_state.split)
  next
    case IceFailed
    then show ?thesis
      using fields with_conn_state_running [of connection_state.IceFailed st]
      by (auto simp: handle_event_def fsm_handle_ice_failed_def)
  next
    case IceDisconnected
    then show ?thesis
      using fields change
      by (auto simp: handle_event_def handle_ice_disconnected_def Let_def intro!: spawn split: connection_state.split)
  next
    case (IceNetworkRouteChanged r)
    then show ?thesis
      using fields
      by (auto simp: handle_event_def handle_ice_network_route_changed_def intro!: keeps_runningI
          split: prod.split sum.split dest!: ctl_outcomes)
  next
    case (ReceivedIce msg)
    then show ?thesis
      using fields
      by (auto simp: handle_event_def fsm_handle_received_ice_def connection_handle_received_ice_def
          intro!: keeps_runningI split: prod.split dest!: ctl_outcomes)
  next
    case (Synchronize n)
    then show ?thesis
      using fields by (auto simp: handle_event_def handle_synchronize_def Let_def keeps_running_def threads_def
          actor_send_def send_task_def)
  qed (use fields assms in \<open>auto simp: handle_event_def handle_send_hangup_via_rtp_data_def
      handle_received_hangup_def handle_update_sender_status_def handle_update_data_mode_def
      handle_local_ice_candidates_def handle_internal_error_def fsm_handle_received_incoming_media_def
      intro!: keeps_runningI split: prod.split\<close>)
qed

section \<open>The invariant\<close>

definition wound_down :: "('pc, 'm, 'x) conn_sys \<Rightarrow> bool" where
  "wound_down s = (case s of (r, f, c, p) \<Rightarrow>
     (terminate_complete c \<longrightarrow> \<not> stream_open (conn_stream c)
        \<and> has_been_stopped (worker_thread f) \<and> has_been_stopped (notify_thread f))
     \<and> (has_been_stopped (worker_thread f) \<longrightarrow> ended (worker_thread f))
     \<and> (has_been_stopped (notify_thread f) \<longrightarrow> ended (notify_thread f))
     \<and> (conn_state c = connection_state.Terminated \<longrightarrow> terminate_complete c))"

lemma wound_down_running:
  assumes "wound_down (r, st)" "keeps_running st st'"
  shows "wound_down (r', st')"
  using assms by (cases st; cases st') (auto simp: wound_down_def keeps_running_def threads_def)

lemma wound_down_ctl:
  assumes "wound_down (r, f, cp)" "ctl (fst cp') = ctl (fst cp)"
  shows "wound_down (r', f, cp')"
  using assms by (auto simp: wound_down_def ctl_def split: prod.splits)

lemma actor_iterate_stopped:
  assumes "actor_iterate now a = (t, a')"
  shows "has_been_stopped a' = has_been_stopped a \<and> (ended a \<longrightarrow> ended a')"
  using assms by (auto simp: actor_iterate_def next_received_def split: if_splits list.splits option.splits)

lemma joined_ended:
  "(has_been_stopped a \<longrightarrow> ended a) \<Longrightarrow> ended (stop_all_and_join now a)"
  using stop_all_and_join_ended [of a now]
  by (cases "has_been_stopped a") (auto simp: stop_all_and_join_def)

lemma handle_terminate_wound_down:
  assumes "wound_down (r, st)"
  shows "wound_down (r', fst (handle_terminate st))"
  using assms
  by (cases st)
     (auto simp: wound_down_def handle_terminate_def drain_worker_thread_def drain_notify_thread_def
        notify_terminate_complete_def intro!: joined_ended)

lemma set_state_wound_down:
  assumes "wound_down (r, f, cp)" "s = connection_state.Terminated \<longrightarrow> terminate_complete (fst cp)"
    "set_state s cp = (cp', res)"
  shows "wound_down (r, f, cp')"
  using assms set_state_frame [of s cp] by (cases cp; cases cp') (auto simp: wound_down_def)

lemma terminating_wound_down:
  assumes "wound_down (r, f, cp)" "set_state connection_state.Terminating cp = ((c1, p1), res)"
  shows "wound_down (r, f, c1, p1) \<and> wound_down (r, f, fst (inject_event e c1), p1)"
proof
  show "wound_down (r, f, c1, p1)"
    using assms(1) _ assms(2) by (rule set_state_wound_down) simp
  then show "wound_down (r, f, fst (inject_event e c1), p1)"
    by (rule wound_down_ctl) simp
qed

lemma wound_down_start:
  assumes "wound_down (r, f, cp)" "start_keeps (fst cp) res"
  shows "wound_down (r, f, fst res)"
  using assms by (auto simp: wound_down_def start_keeps_def not_ended_by_def split: prod.splits)

lemma wound_down_step:
  assumes "conn_sys_step ops S E cm create s s'" "wound_down s"
  shows "wound_down s'"
  using assms
proof (induction rule: conn_sys_step.induct)
  case (loop_reads c s e f p)
  then show ?case
    using recv_events [OF loop_reads.hyps(2)] by (auto simp: wound_down_def)
next
  case (loop_handles state e st)
  then show ?case
    using handle_event_running [of e st ops state] handle_terminate_wound_down [of _ st]
    by (cases "e = connection_event.Terminate") (auto simp: handle_event_def intro: wound_down_running)
next
  case (worker_turn now f t w r cp)
  have "wound_down (r, f\<lparr>worker_thread := w\<rparr>, cp)"
    using worker_turn.prems actor_iterate_stopped [OF worker_turn.hyps] by (auto simp: wound_down_def split: prod.splits)
  then show ?case
    by (rule wound_down_ctl) (simp split: option.split)
next
  case (notify_turn now f t w r cp)
  have "wound_down (r, f\<lparr>notify_thread := w\<rparr>, cp)"
    using notify_turn.prems actor_iterate_stopped [OF notify_turn.hyps] by (auto simp: wound_down_def split: prod.splits)
  then show ?case
    by (rule wound_down_ctl) (simp split: option.split)
next
  case (tick_turn now c a p cp r f)
  then show ?case
    using ctl_tick_and_reschedule [OF tick_turn.hyps(2)] by (auto intro: wound_down_ctl)
next
  case (hung_up r f cp h)
  obtain c1 p1 res where 1: "set_state connection_state.Terminating cp = ((c1, p1), res)"
    by (metis surj_pair)
  then show ?case
    using terminating_wound_down [OF hung_up 1, of "SendHangupViaRtpData h"]
    by (auto simp: inject_send_hangup_via_rtp_data_def split: sum.split prod.split)
next
  case (terminate_requested r f cp)
  obtain c1 p1 res where 1: "set_state connection_state.Terminating cp = ((c1, p1), res)"
    by (metis surj_pair)
  then show ?case
    using terminating_wound_down [OF terminate_requested 1, of connection_event.Terminate]
    by (auto simp: terminate_begin_def split: sum.split prod.split)
next
  case (terminate_completed cp r f now)
  obtain c1 p1 res where 1: "set_state connection_state.Terminated cp = ((c1, p1), res)"
    by (metis surj_pair)
  then have "wound_down (r, f, c1, p1)"
    using set_state_wound_down [OF terminate_completed.prems] terminate_completed.hyps by simp
  then show ?case
    using 1 by (auto simp: terminate_finish_def release_webrtc_def Let_def intro: wound_down_ctl split: sum.split)
qed (auto intro: wound_down_ctl wound_down_start starts_keep)

lemma wound_down_reachable:
  assumes "(conn_sys_step ops S E cm create)\<^sup>*\<^sup>* s s'" "wound_down s"
  shows "wound_down s'"
  using assms by (induction) (auto dest: wound_down_step)

lemma wound_down_new:
  "wound_down (None, conn_fsm_new, connection_new i dir dev ty config levels ptr, p)"
  by (simp add: wound_down_def conn_fsm_new_def connection_new_def actor_start_def)

text \<open>
  C32: nothing runs on behalf of a terminated connection. However the threads of a new connection
  are interleaved, from its start on and with the race between reading the state and handling an
  event: the state Terminated, with which WebRTC's objects are released, is reached only after the
  state machine completed the termination; and from then on the worker and the notify thread never
  run a task, whatever is still in their queues, and the machine's stream takes no further event.
\<close>

theorem terminated_is_quiet:
  assumes "(conn_sys_step ops S E cm create)\<^sup>*\<^sup>*
      (None, conn_fsm_new, connection_new i dir dev ty config levels ptr, p0) (r, f, c, p)"
  shows "(conn_state c = connection_state.Terminated \<longrightarrow> terminate_complete c)
    \<and> (terminate_complete c \<longrightarrow>
         (\<forall>now. fst (actor_iterate now (worker_thread f)) = None
            \<and> fst (actor_iterate now (notify_thread f)) = None)
         \<and> (\<forall>e. events_of (fst (inject_event e c)) = events_of c))"
proof -
  have "wound_down (r, f, c, p)"
    using wound_down_reachable [OF assms wound_down_new] .
  moreover have "events_of (fst (inject_event e c)) = events_of c" if "\<not> stream_open (conn_stream c)" for e
    using that by (cases "conn_stream c") (simp_all add: inject_event_def events_of_def)
  ultimately show ?thesis
    by (auto simp: wound_down_def)
qed

text \<open>A connection that gets a peer connection, starts on an offer and is terminated.\<close>

definition new_connection :: "small_pc connection" where
  "new_connection = connection_new 5 call_direction.Incoming 2 Incoming call_config_default None 1"

definition started_pair :: "(small_pc, cm_request list, unit) conn_pair" where
  "started_pair = fst (start_incoming small_ops small_sdp_ops small_env 2 small_received []
      (fst (set_peer_connection (None, None) new_connection), demo_link\<lparr>link_stream := Active []\<rparr>))"

lemma started_connection:
  "fsm_started (fst started_pair)" "conn_stream (fst started_pair) = Active []"
  "conn_state (fst started_pair) = connection_state.ConnectingBeforeAccepted"
  "\<exists>q. link_stream (snd started_pair) = Active q \<and> length q = 2"
proof -
  have start: "fst (set_peer_connection (None, None) new_connection)
      = small_connection call_direction.Incoming Incoming"
    by (simp add: set_peer_connection_def new_connection_def connection_new_def small_connection_def)
  note defs = started_pair_def start start_incoming_def small_run small_messages small_env_def set_offer_key_def
    set_answer_key_def negotiate_srtp_keys_def small_public_def answer_from_v4_def answer_new_def
  show "fsm_started (fst started_pair)" "conn_stream (fst started_pair) = Active []"
    "conn_state (fst started_pair) = connection_state.ConnectingBeforeAccepted"
    "\<exists>q. link_stream (snd started_pair) = Active q \<and> length q = 2"
    by (simp_all add: defs)
qed

lemma terminate_run:
  assumes "fsm_started c" "conn_stream c = Active []" "conn_state c = connection_state.ConnectingBeforeAccepted"
    "link_stream p = Active q" "length q < CHANNEL_CAPACITY"
  shows "\<exists>f' c' p'. (conn_sys_step ops S E cm create)\<^sup>*\<^sup>* (None, conn_fsm_new, c, p) (None, f', c', p')
    \<and> fsm_started c' \<and> conn_state c' = connection_state.Terminated"
proof -
  let ?step = "conn_sys_step ops S E cm create"
  obtain c1 p1 where begun: "fst (terminate_begin (c, p)) = (c1, p1)"
    by (meson surj_pair)
  then have c1: "fsm_started c1" "conn_state c1 = connection_state.Terminating"
    "recv (conn_stream c1) = (Active [], Received connection_event.Terminate)"
    using assms by (auto simp: terminate_begin_def set_state_def notify_observer_def inject_event_def
        on_connection_observer_event_def inject_call_event_def CHANNEL_CAPACITY_def)
  let ?read = "(Some (connection_state.Terminating, connection_event.Terminate), conn_fsm_new, c1\<lparr>conn_stream := Active []\<rparr>, p1)"
  obtain f3 c3 p3 where handled: "fst (handle_event ops connection_state.Terminating connection_event.Terminate
      (conn_fsm_new, c1\<lparr>conn_stream := Active []\<rparr>, p1)) = (f3, c3, p3)"
    by (metis surj_pair)
  then have c3: "terminate_complete c3" "fsm_started c3"
    using c1(1) by (auto simp: handle_event_def handle_terminate_def notify_terminate_complete_def)
  obtain c4 p4 where finished: "fst (terminate_finish ops 0 (c3, p3)) = (c4, p4)"
    by (meson surj_pair)
  then have c4: "conn_state c4 = connection_state.Terminated" "fsm_started c4"
    using c3(2) by (auto simp: terminate_finish_def set_state_def notify_observer_def release_webrtc_def Let_def
        split: prod.splits sum.splits if_splits)
  have 1: "?step (None, conn_fsm_new, c, p) (None, conn_fsm_new, c1, p1)"
    using terminate_requested [of ops S E cm create None conn_fsm_new "(c, p)"] begun by simp
  have 2: "?step (None, conn_fsm_new, c1, p1) ?read"
    using loop_reads [OF c1(1,3)] c1(2) by simp
  have 3: "?step ?read (None, f3, c3, p3)"
    using loop_handles [of ops S E cm create connection_state.Terminating connection_event.Terminate
        "(conn_fsm_new, c1\<lparr>conn_stream := Active []\<rparr>, p1)"] handled by simp
  have 4: "?step (None, f3, c3, p3) (None, f3, c4, p4)"
    using terminate_completed [of "(c3, p3)" ops S E cm create None f3 0] c3(1) finished by simp
  show ?thesis
    using 1 2 3 4 c4 by (meson converse_rtranclp_into_rtranclp rtranclp.rtrancl_refl)
qed

theorem terminated_is_quiet_witness:
  "\<exists>f c p. (conn_sys_step small_ops small_sdp_ops small_env (\<lambda>_ r m. (m @ [r], Ok ())) Ok)\<^sup>*\<^sup>*
        (None, conn_fsm_new, new_connection, demo_link) (None, f, c, p)
      \<and> fsm_started c \<and> conn_state c = connection_state.Terminated
      \<and> fst (actor_iterate 3 (worker_thread f)) = None"
proof -
  let ?step = "conn_sys_step small_ops small_sdp_ops small_env (\<lambda>_ r m. (m @ [r], Ok ())) Ok"
  let ?set = "(None, conn_fsm_new, fst (set_peer_connection (None, None) new_connection),
      demo_link\<lparr>link_stream := Active []\<rparr>)"
  have 1: "?step (None, conn_fsm_new, new_connection, demo_link) ?set"
    using peer_connection_set [where p = demo_link] by (simp add: demo_link_def)
  have 2: "?step ?set (None, conn_fsm_new, fst started_pair, snd started_pair)"
    unfolding started_pair_def prod.collapse by (rule incoming_started)
  obtain q where q: "link_stream (snd started_pair) = Active q" "length q < CHANNEL_CAPACITY"
    using started_connection(4) by (auto simp: CHANNEL_CAPACITY_def)
  obtain f c p where end_run: "?step\<^sup>*\<^sup>* (None, conn_fsm_new, fst started_pair, snd started_pair) (None, f, c, p)"
    and c: "fsm_started c" "conn_state c = connection_state.Terminated"
    using terminate_run [OF started_connection(1,2,3) q] by blast
  then have run: "?step\<^sup>*\<^sup>* (None, conn_fsm_new, new_connection, demo_link) (None, f, c, p)"
    using 1 2 by (meson converse_rtranclp_into_rtranclp)
  then show ?thesis
    using terminated_is_quiet [OF run [unfolded new_connection_def]] c by blast
qed

end
