(* ===== verification/Call_Shutdown.thy ===== *)
theory Call_Shutdown
  imports Call_Fsm Connection_System Connection_Start_Props
begin

text \<open>
  How a call and its connections end. A loop that handles its queue while it winds down reaches the
  termination that was queued last, whatever was queued before: this is stated once for both state
  machines. From it follows that \<open>Call::terminate\<close> returns with every connection of the call ended.
\<close>

section \<open>Loops that are told to stop\<close>

text \<open>
  A loop over a queue: \<open>step\<close> takes an event from the queue and handles it, \<open>run\<close> repeats it until
  the loop is complete. While it winds down, an event other than \<open>stop\<close> only leaves the queue.
\<close>

locale stopping_loop =
  fixes run :: "nat \<Rightarrow> 's \<Rightarrow> 's"
    and step :: "'e \<Rightarrow> 's \<Rightarrow> 's"
    and events :: "'s \<Rightarrow> 'e list"
    and winding :: "'s \<Rightarrow> bool"
    and kept :: "'s \<Rightarrow> 'k"
    and stop :: 'e
    and complete :: "'s \<Rightarrow> bool"
  assumes run_step: "winding s \<Longrightarrow> events s = e # es \<Longrightarrow> run (Suc n) s = run n (step e s)"
    and step_other: "winding s \<Longrightarrow> events s = e # es \<Longrightarrow> e \<noteq> stop
      \<Longrightarrow> winding (step e s) \<and> events (step e s) = es \<and> kept (step e s) = kept s"
    and step_stop: "winding s \<Longrightarrow> events s = stop # es \<Longrightarrow> complete (step stop s)"
    and run_complete: "complete s \<Longrightarrow> run n s = s"
begin

lemma run_stops:
  assumes "winding s" "stop \<in> set (events s)" "length (events s) \<le> n"
  shows "\<exists>s0 es. run n s = step stop s0 \<and> winding s0 \<and> events s0 = stop # es \<and> kept s0 = kept s"
  using assms
proof (induction "events s" arbitrary: s n)
  case (Cons e es)
  obtain m where n: "n = Suc m" "length es \<le> m"
    using Cons.hyps(2) Cons.prems(3) by (cases n) (auto simp flip: Cons.hyps(2))
  have step: "run n s = run m (step e s)"
    using run_step [OF Cons.prems(1) Cons.hyps(2) [symmetric]] n by simp
  show ?case
  proof (cases "e = stop")
    case True
    then show ?thesis
      using step step_stop [OF Cons.prems(1)] run_complete Cons.hyps(2) Cons.prems(1) by metis
  next
    case False
    have *: "winding (step e s)" "events (step e s) = es" "kept (step e s) = kept s"
      using step_other [OF Cons.prems(1) Cons.hyps(2) [symmetric] False] by auto
    have "stop \<in> set es"
      using Cons.prems(2) False by (simp flip: Cons.hyps(2))
    then have "\<exists>s0 es'. run m (step e s) = step stop s0 \<and> winding s0 \<and> events s0 = stop # es'
        \<and> kept s0 = kept (step e s)"
      using Cons.hyps(1) [of "step e s" m] * n by simp
    then show ?thesis
      using step * by auto
  qed
qed simp

lemma run_completes:
  assumes "winding s" "stop \<in> set (events s)" "length (events s) \<le> n"
  shows "complete (run n s)"
  using run_stops [OF assms] step_stop by metis

end

section \<open>The machine of a connection\<close>

definition pop_event :: "'pc connection \<Rightarrow> 'pc connection" where
  "pop_event c = c\<lparr>conn_stream := fst (recv (conn_stream c))\<rparr>"

definition conn_loop_step ::
  "'pc conn_ops \<Rightarrow> connection_event \<Rightarrow> ('pc, 'm, 'x) fsm_state \<Rightarrow> ('pc, 'm, 'x) fsm_state" where
  "conn_loop_step ops e st = (case st of (f, c, p) \<Rightarrow>
     fst (handle_event ops (conn_state c) e (f, pop_event c, p)))"

definition conn_events :: "('pc, 'm, 'x) fsm_state \<Rightarrow> connection_event list" where
  "conn_events st = stream_events (conn_stream (fsm_conn st))"

definition conn_unwinding :: "('pc, 'm, 'x) fsm_state \<Rightarrow> bool" where
  "conn_unwinding st = (conn_terminating_or_terminated (conn_state (fsm_conn st))
     \<and> \<not> terminate_complete (fsm_conn st) \<and> stream_open (conn_stream (fsm_conn st)))"

definition conn_kept ::
  "('pc, 'm, 'x) fsm_state \<Rightarrow> (bool \<times> bool \<times> bool \<times> bool) \<times> ('pc, 'm, 'x) conn_pair" where
  "conn_kept st = (case st of (f, c, p) \<Rightarrow> (threads f, c\<lparr>conn_stream := Active []\<rparr>, p))"

lemma winding_event:
  assumes "conn_terminating_or_terminated s" "e \<noteq> connection_event.Terminate"
  shows "\<exists>f'. fst (handle_event ops s e (f, c, p)) = (f', c, p) \<and> threads f' = threads f"
proof (cases "conn_urgent e")
  case False
  then show ?thesis
    by (simp add: handle_event_dropped [OF assms(1)])
next
  case True
  then show ?thesis
    using assms handle_event_running [OF assms(2), of "(f, c, p)" ops s]
    by (cases e) (auto simp: conn_urgent_def handle_event_def handle_send_hangup_via_rtp_data_def
        handle_synchronize_def Let_def keeps_running_def)
qed

lemma terminate_event:
  "fst (handle_event ops s connection_event.Terminate (f, c, p)) =
     (drain_notify_thread (drain_worker_thread f),
      c\<lparr>conn_stream := close_stream (conn_stream c), terminate_complete := True\<rparr>, p)"
  by (simp add: handle_event_def handle_terminate_def notify_terminate_complete_def)

interpretation conn_loop: stopping_loop "run_machine ops" "conn_loop_step ops" conn_events conn_unwinding
  conn_kept connection_event.Terminate "\<lambda>st. terminate_complete (fsm_conn st)" for ops
proof
  fix st :: "('a, 'b, 'c) fsm_state" and e es n
  obtain f c p where st: "st = (f, c, p)"
    by (metis surj_pair)
  show "run_machine ops (Suc n) st = run_machine ops n (conn_loop_step ops e st)"
    if "conn_unwinding st" "conn_events st = e # es"
    using that st
    by (cases "conn_stream c" rule: recv.cases)
       (auto simp: conn_unwinding_def conn_events_def conn_loop_step_def pop_event_def run_once_def)
  show "conn_unwinding (conn_loop_step ops e st) \<and> conn_events (conn_loop_step ops e st) = es
      \<and> conn_kept (conn_loop_step ops e st) = conn_kept st"
    if "conn_unwinding st" "conn_events st = e # es" "e \<noteq> connection_event.Terminate"
    using that st winding_event [of "conn_state c" e ops f "pop_event c" p]
    by (cases "conn_stream c" rule: recv.cases)
       (auto simp: conn_unwinding_def conn_events_def conn_loop_step_def pop_event_def conn_kept_def)
  show "terminate_complete (fsm_conn (conn_loop_step ops connection_event.Terminate st))"
    if "conn_unwinding st" "conn_events st = connection_event.Terminate # es"
    using that st by (simp add: conn_loop_step_def terminate_event)
  show "run_machine ops n st = st" if "terminate_complete (fsm_conn st)"
    using that by (cases n) simp_all
qed

declare run_machine.simps [simp del]

section \<open>The end of a connection\<close>

text \<open>
  A connection whose machine runs: its queue is open, its termination has not completed, and a
  thread that was stopped has ended. It can be told to terminate if its queue has room.
\<close>

definition conn_alive :: "'pc conn_entry \<Rightarrow> bool" where
  "conn_alive fc = (case fc of (f, c) \<Rightarrow>
     stream_open (conn_stream c) \<and> \<not> terminate_complete c
     \<and> (has_been_stopped (worker_thread f) \<longrightarrow> ended (worker_thread f))
     \<and> (has_been_stopped (notify_thread f) \<longrightarrow> ended (notify_thread f)))"

definition conn_running :: "'pc conn_entry \<Rightarrow> bool" where
  "conn_running fc = (conn_alive fc \<and> length (stream_events (conn_stream (snd fc))) < CHANNEL_CAPACITY)"

definition conn_ended :: "'pc conn_entry \<Rightarrow> bool" where
  "conn_ended fc = (case fc of (f, c) \<Rightarrow>
     conn_state c = connection_state.Terminated \<and> terminate_complete c \<and> \<not> stream_open (conn_stream c)
     \<and> ended (worker_thread f) \<and> ended (notify_thread f) \<and> has_been_stopped (tick_context c)
     \<and> connection_ptr (webrtc c) = None)"

lemma inject_call_event_closed:
  "\<not> stream_open (link_stream p) \<Longrightarrow> inject_call_event e p = (p, Ok ())"
  by (cases "link_stream p") (simp_all add: inject_call_event_def)

lemma set_state_closed:
  "\<not> stream_open (link_stream p) \<Longrightarrow> set_state s (c, p) = ((c\<lparr>conn_state := s\<rparr>, p), Ok ())"
  by (simp add: set_state_def notify_observer_def on_connection_observer_event_def inject_call_event_closed)

lemma drained_threads:
  assumes "has_been_stopped (worker_thread f) \<longrightarrow> ended (worker_thread f)"
    "has_been_stopped (notify_thread f) \<longrightarrow> ended (notify_thread f)"
  shows "ended (worker_thread (drain_notify_thread (drain_worker_thread f)))
    \<and> ended (notify_thread (drain_notify_thread (drain_worker_thread f)))"
  using assms stop_all_and_join_ended [of "worker_thread f" 0] stop_all_and_join_ended [of "notify_thread f" 0]
  by (cases "has_been_stopped (worker_thread f)"; cases "has_been_stopped (notify_thread f)")
     (auto simp: drain_notify_thread_def drain_worker_thread_def stop_all_and_join_def)

lemma machine_terminates:
  assumes "conn_alive (f, c)" "conn_terminating_or_terminated (conn_state c)"
    "connection_event.Terminate \<in> set (stream_events (conn_stream c))"
    "length (stream_events (conn_stream c)) \<le> n"
  obtains f' s where "run_machine ops n (f, c, p) = (f', c\<lparr>conn_stream := s, terminate_complete := True\<rparr>, p)"
    "\<not> stream_open s" "ended (worker_thread f')" "ended (notify_thread f')"
proof -
  have "conn_unwinding (f, c, p)"
    using assms(1,2) by (simp add: conn_alive_def conn_unwinding_def)
  then obtain s0 es where run: "run_machine ops n (f, c, p) = conn_loop_step ops connection_event.Terminate s0"
    and s0: "conn_kept s0 = conn_kept (f, c, p)"
    using conn_loop.run_stops [of "(f, c, p)" n ops] assms(3,4) by (auto simp: conn_events_def)
  obtain f0 c0 p0 where fields: "s0 = (f0, c0, p0)"
    by (metis surj_pair)
  have c0: "threads f0 = threads f" "c0\<lparr>conn_stream := Active []\<rparr> = c\<lparr>conn_stream := Active []\<rparr>" "p0 = p"
    using s0 fields by (auto simp: conn_kept_def)
  have upd: "c0\<lparr>conn_stream := s, terminate_complete := True\<rparr> = c\<lparr>conn_stream := s, terminate_complete := True\<rparr>" for s
    using arg_cong [OF c0(2), of "\<lambda>c. c\<lparr>conn_stream := s, terminate_complete := True\<rparr>"] by simp
  show thesis
    using run fields c0 that [of _ "close_stream (conn_stream (pop_event c0))"] assms(1)
      drained_threads [of f0] upd
    by (simp add: conn_loop_step_def terminate_event conn_alive_def threads_def pop_event_def)
qed

lemma connection_terminate_ends:
  assumes "\<not> stream_open (link_stream p)" "conn_running (f, c)"
  obtains f' c' r where "connection_terminate ops now ((f, c), p) = (((f', c'), p), r)"
    "conn_ended (f', c')" "remote_device_id c' = remote_device_id c"
proof -
  obtain q where q: "conn_stream c = Active q" "length q < CHANNEL_CAPACITY"
    using assms(2) by (cases "conn_stream c") (auto simp: conn_running_def conn_alive_def)
  let ?c = "c\<lparr>conn_state := connection_state.Terminating, conn_stream := Active (q @ [connection_event.Terminate])\<rparr>"
  have starts: "terminate_begin (c, p) = ((?c, p), Ok ())"
    using q by (simp add: terminate_begin_def set_state_closed [OF assms(1)] inject_event_def)
  have alive: "conn_alive (f, ?c)"
    using assms(2) by (simp add: conn_running_def conn_alive_def)
  obtain f' s where run: "run_machine ops (length (stream_events (conn_stream ?c))) (f, ?c, p) =
      (f', ?c\<lparr>conn_stream := s, terminate_complete := True\<rparr>, p)"
    and ends: "\<not> stream_open s" "ended (worker_thread f')" "ended (notify_thread f')"
    by (rule machine_terminates [OF alive, where ops = ops and p = p
          and n = "length (stream_events (conn_stream ?c))"]) (simp, simp, simp)
  obtain c' r where finish: "terminate_finish ops now (?c\<lparr>conn_stream := s, terminate_complete := True\<rparr>, p) = ((c', p), r)"
    and c': "conn_state c' = connection_state.Terminated" "terminate_complete c'" "conn_stream c' = s"
      "has_been_stopped (tick_context c')" "connection_ptr (webrtc c') = None"
      "remote_device_id c' = remote_device_id c"
    by (simp add: terminate_finish_def set_state_closed [OF assms(1)] Let_def release_webrtc_def)
  show thesis
    using that [of f' c' r] starts run finish ends c'
    by (simp add: connection_terminate_def conn_ended_def)
qed

definition entry_device :: "'pc conn_entry \<Rightarrow> device_id" where
  "entry_device fc = remote_device_id (snd fc)"

lemma entry_device_simp [simp]: "entry_device (f, c) = remote_device_id c"
  by (simp add: entry_device_def)

lemma retired_keeps_stream: "link_stream (call\<lparr>retired := gone\<rparr>) = link_stream call"
  by simp

lemma terminate_entries_end:
  assumes "\<not> stream_open (link_stream call)" "\<forall>fc \<in> set entries. conn_running fc"
  shows "\<exists>gone. terminate_entries ops now entries call = call\<lparr>retired := retired call @ gone\<rparr>
    \<and> map entry_device gone = map entry_device entries
    \<and> (\<forall>fc \<in> set gone. conn_ended fc)"
  using assms
proof (induction entries arbitrary: call)
  case (Cons entry entries)
  obtain f c where entry: "entry = (f, c)"
    by (metis surj_pair)
  obtain f' c' r where ends: "connection_terminate ops now (entry, call) = (((f', c'), call), r)"
    "conn_ended (f', c')" "remote_device_id c' = remote_device_id c"
    using connection_terminate_ends [of call f c ops now] Cons.prems entry by (metis list.set_intros(1))
  let ?call = "call\<lparr>retired := retired call @ [(f', c')]\<rparr>"
  obtain gone where "terminate_entries ops now entries ?call = ?call\<lparr>retired := retired ?call @ gone\<rparr>"
    "map entry_device gone = map entry_device entries"
    "\<forall>fc \<in> set gone. conn_ended fc"
    using Cons.IH [of ?call] Cons.prems by (metis list.set_intros(2) retired_keeps_stream)
  then show ?case
    using ends entry by (intro exI [of _ "(f', c') # gone"]) simp
qed simp

text \<open>The connections of a call, the parent of an outgoing call first.\<close>

definition call_connections :: "('m, 'pc, 'sk, 'ig, 'x) call_scheme \<Rightarrow> 'pc conn_entry list" where
  "call_connections call =
     (case forking call of Some fork \<Rightarrow> [parent_connection fork] | None \<Rightarrow> []) @ map snd (connection_map call)"

lemma cm_call_only_manager:
  "\<exists>m. fst (cm_call cm req call) = call\<lparr>manager := m\<rparr>"
  by (auto simp: cm_call_def split: prod.split)

lemma terminate_connections_end:
  assumes closed: "\<not> stream_open (link_stream call)" and run: "\<forall>fc \<in> set (call_connections call). conn_running fc"
  shows "\<exists>gone m. terminate_connections E now call =
      call\<lparr>manager := m, connection_map := [], forking := None, retired := retired call @ gone\<rparr>
    \<and> map entry_device gone = map entry_device (call_connections call)
    \<and> (\<forall>fc \<in> set gone. conn_ended fc)"
proof -
  obtain m where m: "(case call_context call of
      Ok ctx \<Rightarrow> fst (cm_call (e_cm E) (CmDisconnectIncomingMedia ctx) call) | Err _ \<Rightarrow> call) = call\<lparr>manager := m\<rparr>"
    using cm_call_only_manager [of "e_cm E" _ call] by (cases "call_context call") (auto intro: that [of "manager call"])
  let ?call = "call\<lparr>manager := m\<rparr>"
  let ?parent = "case forking call of Some fork \<Rightarrow> [parent_connection fork] | None \<Rightarrow> []"
  obtain gone1 where 1: "(case forking ?call of
       Some fork \<Rightarrow> terminate_entries (e_ops E) now [parent_connection fork] (?call\<lparr>forking := None\<rparr>)
     | None \<Rightarrow> ?call) = ?call\<lparr>forking := None, retired := retired call @ gone1\<rparr>"
    "map entry_device gone1 = map entry_device ?parent" "\<forall>fc \<in> set gone1. conn_ended fc"
  proof (cases "forking call")
    case None
    then show ?thesis
      using that [of "[]"] by simp
  next
    case (Some fork)
    then show ?thesis
      using terminate_entries_end [of "?call\<lparr>forking := None\<rparr>" "[parent_connection fork]" "e_ops E" now]
        closed run that by (auto simp: call_connections_def simp del: terminate_entries.simps)
  qed
  let ?call2 = "?call\<lparr>forking := None, retired := retired call @ gone1, connection_map := []\<rparr>"
  obtain gone2 where 2: "terminate_entries (e_ops E) now (map snd (connection_map call)) ?call2 =
      ?call2\<lparr>retired := retired ?call2 @ gone2\<rparr>"
    "map entry_device gone2 = map entry_device (map snd (connection_map call))"
    "\<forall>fc \<in> set gone2. conn_ended fc"
    using terminate_entries_end [of ?call2 "map snd (connection_map call)" "e_ops E" now] closed run
    by (auto simp: call_connections_def)
  show ?thesis
    using m 1 2 by (intro exI [of _ "gone1 @ gone2"] exI [of _ m])
      (auto simp: terminate_connections_def Let_def call_connections_def)
qed

section \<open>The machine of a call\<close>

definition call_loop_step ::
  "('pc, 'm, 'sd, 'ig, 'sk) call_env \<Rightarrow> call_event \<Rightarrow> ('m, 'pc, 'sk, 'ig, 'x) call_fsm_state
   \<Rightarrow> ('m, 'pc, 'sk, 'ig, 'x) call_fsm_state" where
  "call_loop_step E e st = (case st of (f, call) \<Rightarrow>
     fst (call_handle_event E (link_state call) e (f, call\<lparr>link_stream := fst (recv (link_stream call))\<rparr>)))"

definition call_events :: "('m, 'pc, 'sk, 'ig, 'x) call_fsm_state \<Rightarrow> call_event list" where
  "call_events st = stream_events (link_stream (snd st))"

definition call_unwinding :: "('m, 'pc, 'sk, 'ig, 'x) call_fsm_state \<Rightarrow> bool" where
  "call_unwinding st = (call_terminating_or_terminated (link_state (snd st))
     \<and> \<not> call_terminate_complete (snd st) \<and> stream_open (link_stream (snd st)))"

definition call_threads :: "call_fsm \<Rightarrow> bool \<times> bool \<times> bool \<times> bool" where
  "call_threads f = (has_been_stopped (call_worker f), ended (call_worker f),
     has_been_stopped (call_notify f), ended (call_notify f))"

definition call_kept ::
  "('m, 'pc, 'sk, 'ig, 'x) call_fsm_state
   \<Rightarrow> (bool \<times> bool \<times> bool \<times> bool) \<times> ('m, 'pc, 'sk, 'ig, 'x) call_scheme" where
  "call_kept st = (case st of (f, call) \<Rightarrow> (call_threads f, call\<lparr>link_stream := Active []\<rparr>))"

text \<open>The events that are handled even while terminating.\<close>

definition call_urgent :: "call_event \<Rightarrow> bool" where
  "call_urgent e = (case e of
     SendHangupViaRtpDataToAll _ \<Rightarrow> True
   | call_event.Terminate \<Rightarrow> True
   | call_event.Synchronize _ \<Rightarrow> True
   | _ \<Rightarrow> False)"

lemma call_threads_spawn [simp]:
  "call_threads (call_worker_spawn t f) = call_threads f" "call_threads (call_notify_spawn u f) = call_threads f"
  "call_threads (f\<lparr>call_synced := s\<rparr>) = call_threads f"
  by (simp_all add: call_threads_def call_worker_spawn_def call_notify_spawn_def actor_send_def send_task_def)

lemma call_event_dropped:
  "call_terminating_or_terminated s \<Longrightarrow> \<not> call_urgent e \<Longrightarrow> call_handle_event E s e st = (st, Ok ())"
  by (cases e) (simp_all add: call_handle_event_def call_urgent_def)

lemma call_winding_event:
  assumes "call_terminating_or_terminated s" "e \<noteq> call_event.Terminate"
  shows "\<exists>f'. fst (call_handle_event E s e (f, call)) = (f', call) \<and> call_threads f' = call_threads f"
proof (cases "call_urgent e")
  case False
  then show ?thesis
    by (simp add: call_event_dropped [OF assms(1)])
next
  case True
  then show ?thesis
    using assms by (cases e) (simp_all add: call_urgent_def call_handle_event_def
        handle_send_hangup_via_rtp_data_to_all_def call_handle_synchronize_def)
qed

lemma call_terminate_event:
  "fst (call_handle_event E s call_event.Terminate (f, call)) =
     (call_drain_notify_thread (call_drain_worker_thread f),
      call\<lparr>link_stream := close_stream (link_stream call), link_state := call_state.Terminated,
           call_terminate_complete := True\<rparr>)"
  by (simp add: call_handle_event_def call_handle_terminate_def call_notify_terminate_complete_def call_set_state_def)

interpretation call_loop: stopping_loop "call_run_machine E" "call_loop_step E" call_events call_unwinding
  call_kept call_event.Terminate "\<lambda>st. call_terminate_complete (snd st)" for E
proof
  fix st :: "('b, 'a, 'e, 'd, 'f) call_fsm_state" and e es n
  obtain f call where st: "st = (f, call)"
    by (metis surj_pair)
  show "call_run_machine E (Suc n) st = call_run_machine E n (call_loop_step E e st)"
    if "call_unwinding st" "call_events st = e # es"
    using that st
    by (cases "link_stream call" rule: recv.cases)
       (auto simp: call_unwinding_def call_events_def call_loop_step_def call_run_once_def)
  show "call_unwinding (call_loop_step E e st) \<and> call_events (call_loop_step E e st) = es
      \<and> call_kept (call_loop_step E e st) = call_kept st"
    if "call_unwinding st" "call_events st = e # es" "e \<noteq> call_event.Terminate"
    using that st call_winding_event [of "link_state call" e E f "call\<lparr>link_stream := fst (recv (link_stream call))\<rparr>"]
    by (cases "link_stream call" rule: recv.cases)
       (auto simp: call_unwinding_def call_events_def call_loop_step_def call_kept_def)
  show "call_terminate_complete (snd (call_loop_step E call_event.Terminate st))"
    if "call_unwinding st" "call_events st = call_event.Terminate # es"
    using that st by (simp add: call_loop_step_def call_terminate_event)
  show "call_run_machine E n st = st" if "call_terminate_complete (snd st)"
    using that by (cases n) simp_all
qed

declare call_run_machine.simps [simp del]

section \<open>The end of a call\<close>

definition call_alive :: "('m, 'pc, 'sk, 'ig, 'x) call_fsm_state \<Rightarrow> bool" where
  "call_alive st = (case st of (f, call) \<Rightarrow>
     stream_open (link_stream call) \<and> length (stream_events (link_stream call)) < CHANNEL_CAPACITY
     \<and> \<not> call_terminate_complete call
     \<and> (has_been_stopped (call_worker f) \<longrightarrow> ended (call_worker f))
     \<and> (has_been_stopped (call_notify f) \<longrightarrow> ended (call_notify f)))"

lemma call_drained_threads:
  assumes "has_been_stopped (call_worker f) \<longrightarrow> ended (call_worker f)"
    "has_been_stopped (call_notify f) \<longrightarrow> ended (call_notify f)"
  shows "ended (call_worker (call_drain_notify_thread (call_drain_worker_thread f)))
    \<and> ended (call_notify (call_drain_notify_thread (call_drain_worker_thread f)))"
  using assms stop_all_and_join_ended [of "call_worker f" 0] stop_all_and_join_ended [of "call_notify f" 0]
  by (cases "has_been_stopped (call_worker f)"; cases "has_been_stopped (call_notify f)")
     (auto simp: call_drain_notify_thread_def call_drain_worker_thread_def stop_all_and_join_def)

lemma call_machine_terminates:
  assumes "call_alive (f, call)"
  obtains f' q s where
    "call_terminate_begin call = (call\<lparr>link_state := call_state.Terminating, link_stream := Active q\<rparr>, Ok ())"
    "call_run_machine E (length q) (f, call\<lparr>link_state := call_state.Terminating, link_stream := Active q\<rparr>) =
      (f', call\<lparr>link_state := call_state.Terminated, link_stream := s, call_terminate_complete := True\<rparr>)"
    "\<not> stream_open s" "ended (call_worker f')" "ended (call_notify f')"
proof -
  obtain q where q: "link_stream call = Active q" "length q < CHANNEL_CAPACITY"
    using assms by (cases "link_stream call") (auto simp: call_alive_def)
  let ?q = "q @ [call_event.Terminate]"
  let ?call = "call\<lparr>link_state := call_state.Terminating, link_stream := Active ?q\<rparr>"
  have starts: "call_terminate_begin call = (?call, Ok ())"
    using q by (simp add: call_terminate_begin_def call_set_state_def inject_call_event_def)
  have "call_unwinding (f, ?call)"
    using assms by (simp add: call_unwinding_def call_alive_def)
  then obtain s0 es where run: "call_run_machine E (length ?q) (f, ?call) = call_loop_step E call_event.Terminate s0"
    and s0: "call_kept s0 = call_kept (f, ?call)"
    using call_loop.run_stops [of "(f, ?call)" "length ?q" E] by (auto simp: call_events_def)
  obtain f0 call0 where fields: "s0 = (f0, call0)"
    by (metis surj_pair)
  have kept: "call_threads f0 = call_threads f"
    "call0\<lparr>link_stream := Active []\<rparr> = call\<lparr>link_state := call_state.Terminating, link_stream := Active []\<rparr>"
    using s0 fields by (auto simp: call_kept_def)
  have upd: "call0\<lparr>link_stream := s, link_state := call_state.Terminated, call_terminate_complete := True\<rparr> =
      call\<lparr>link_state := call_state.Terminated, link_stream := s, call_terminate_complete := True\<rparr>" for s
    using arg_cong [OF kept(2), of "\<lambda>call. call\<lparr>link_stream := s, link_state := call_state.Terminated,
      call_terminate_complete := True\<rparr>"] by simp
  show thesis
    using that [of ?q _ "close_stream (fst (recv (link_stream call0)))"] starts run fields kept assms
      call_drained_threads [of f0] upd
    by (simp add: call_loop_step_def call_terminate_event call_alive_def call_threads_def)
qed

text \<open>
  C36: terminating a call ends it and all its connections. If the state machine of a call runs and
  its queue has room, and the same holds of each of its connections, then \<open>Call::terminate\<close>
  returns, whatever events were queued before and whatever the environment answers. The call is
  then Terminated, its threads have ended, its map of connections and its forking state are empty,
  and every connection it had, the parent of an outgoing call included, has been terminated: it is
  in the state Terminated, its queue is closed, its threads have ended and its pointer is released.
\<close>

theorem call_terminate_ends_connections:
  assumes alive: "call_alive (f, call)" and conns: "\<forall>fc \<in> set (call_connections call). conn_running fc"
  shows "\<exists>f' call' gone. call_terminate E now (f, call) = ((f', call'), Ok ())
    \<and> link_state call' = call_state.Terminated \<and> call_terminate_complete call'
    \<and> ended (call_worker f') \<and> ended (call_notify f')
    \<and> connection_map call' = [] \<and> forking call' = None \<and> retired call' = retired call @ gone
    \<and> map entry_device gone = map entry_device (call_connections call) \<and> (\<forall>fc \<in> set gone. conn_ended fc)"
proof -
  obtain f' q s where starts:
    "call_terminate_begin call = (call\<lparr>link_state := call_state.Terminating, link_stream := Active q\<rparr>, Ok ())"
    and run: "call_run_machine E (length q) (f, call\<lparr>link_state := call_state.Terminating, link_stream := Active q\<rparr>) =
      (f', call\<lparr>link_state := call_state.Terminated, link_stream := s, call_terminate_complete := True\<rparr>)"
    and ends: "\<not> stream_open s" "ended (call_worker f')" "ended (call_notify f')"
    by (rule call_machine_terminates [OF alive])
  let ?call = "call\<lparr>link_state := call_state.Terminated, link_stream := s, call_terminate_complete := True\<rparr>"
  have same: "call_connections ?call = call_connections call"
    by (simp add: call_connections_def)
  obtain gone m where "terminate_connections E now ?call =
      ?call\<lparr>manager := m, connection_map := [], forking := None, retired := retired ?call @ gone\<rparr>"
    "map entry_device gone = map entry_device (call_connections call)" "\<forall>fc \<in> set gone. conn_ended fc"
    using terminate_connections_end [of ?call E now] ends conns unfolding same by auto
  then show ?thesis
    using starts run ends
    by (intro exI [of _ f'] exI [of _ "call_terminate_finish E now ?call"] exI [of _ gone])
       (simp add: call_terminate_def call_terminate_finish_def Let_def call_set_state_def)
qed

definition small_call_env :: "(small_pc, cm_request list, small_sd, unit, nat) call_env" where
  "small_call_env = \<lparr> e_ops = small_ops, e_sdp = small_sdp_ops, e_start = small_env, e_cm = log_manager,
     e_create = \<lambda>call_id d ty config levels log. (log, Ok ((small_connection call_direction.Outgoing ty)\<lparr>remote_device_id := d\<rparr>)),
     e_call_sim = False \<rparr>"

definition small_call :: "(cm_request list, small_pc, nat, unit) call" where
  "small_call = (call_new 5 call_direction.Outgoing Audio 1 Map.empty [])
     \<lparr>link_state := call_state.ConnectedBeforeAccepted, did_send_offer := True,
      connection_map := [(2, conn_fsm_new, small_connection call_direction.Outgoing OutgoingChild),
        (3, conn_fsm_new, (small_connection call_direction.Outgoing OutgoingChild)\<lparr>remote_device_id := 3\<rparr>)],
      forking := Some \<lparr> parent_connection = (conn_fsm_new, (small_connection call_direction.Outgoing OutgoingParent)\<lparr>remote_device_id := 0\<rparr>),
        fork_local_secret = 1, fork_ice_gatherer = (), fork_offer = small_offer \<rparr>\<rparr>"

lemmas small_call_simps = small_call_def call_new_def small_connection_def connection_new_def Let_def
  conn_fsm_new_def call_fsm_new_def actor_start_def CHANNEL_CAPACITY_def

theorem call_terminate_ends_connections_witness:
  "call_alive (call_fsm_new, small_call) \<and> conn_running (parent_connection (the (forking small_call)))
   \<and> (\<exists>f' call'. call_terminate small_call_env 7 (call_fsm_new, small_call) = ((f', call'), Ok ())
      \<and> connection_map call' = [] \<and> map entry_device (retired call') = [0, 2, 3]
      \<and> list_all conn_ended (retired call'))"
proof -
  have alive: "call_alive (call_fsm_new, small_call)"
    by (simp add: call_alive_def small_call_simps)
  have conns: "\<forall>fc \<in> set (call_connections small_call). conn_running fc"
    by (simp add: call_connections_def conn_running_def conn_alive_def small_call_simps)
  moreover have "retired small_call = []" "map entry_device (call_connections small_call) = [0, 2, 3]"
    "parent_connection (the (forking small_call)) \<in> set (call_connections small_call)"
    by (simp_all add: call_connections_def small_call_simps)
  ultimately show ?thesis
    using alive call_terminate_ends_connections [OF alive conns, of small_call_env 7]
    by (auto simp: list_all_iff)
qed

section \<open>Events while a call terminates\<close>

definition call_fsm_step ::
  "('pc, 'm, 'sd, 'ig, 'sk) call_env \<Rightarrow> call_event \<Rightarrow> ('m, 'pc, 'sk, 'ig, 'x) call_fsm_state
   \<Rightarrow> ('m, 'pc, 'sk, 'ig, 'x) call_fsm_state" where
  "call_fsm_step E e st = fst (call_handle_event E (link_state (snd st)) e st)"

definition call_winding_down :: "('m, 'pc, 'sk, 'ig, 'x) call_fsm_state \<Rightarrow> bool" where
  "call_winding_down st = call_terminating_or_terminated (link_state (snd st))"

lemma call_fsm_step_winding:
  assumes "call_winding_down st"
  shows "call_winding_down (call_fsm_step E e st)
    \<and> connection_map (snd (call_fsm_step E e st)) = connection_map (snd st)
    \<and> active_device (snd (call_fsm_step E e st)) = active_device (snd st)
    \<and> manager (snd (call_fsm_step E e st)) = manager (snd st)"
proof (cases st)
  case (Pair f call)
  then show ?thesis
    using call_winding_event [of "link_state call" e E f call] assms
    by (cases "e = call_event.Terminate")
       (auto simp: call_fsm_step_def call_winding_down_def call_terminate_event)
qed

interpretation call_wind: winding_down "call_fsm_step E" call_winding_down call_urgent for E
proof
  fix st :: "('b, 'a, 'e, 'd, 'f) call_fsm_state" and e
  show "call_fsm_step E e st = st" if "call_winding_down st" "\<not> call_urgent e"
    using that by (simp add: call_fsm_step_def call_winding_down_def call_event_dropped)
  show "call_winding_down (call_fsm_step E e st)" if "call_winding_down st"
    using call_fsm_step_winding [OF that, of E e] by blast
qed

text \<open>
  C38: a terminating call stays so whatever events its state machine handles, and the outcome is that
  of the hangups to send, the synchronisations and the terminations among them. Neither the
  connections nor the active device change any more and the call manager is not called: a state
  change, a hangup or a timeout that arrives late is dropped.
\<close>

theorem terminating_call_drops_events:
  assumes "call_winding_down st"
  shows "call_winding_down (fold (call_fsm_step E) es st)
    \<and> fold (call_fsm_step E) es st = fold (call_fsm_step E) (filter call_urgent es) st
    \<and> connection_map (snd (fold (call_fsm_step E) es st)) = connection_map (snd st)
    \<and> active_device (snd (fold (call_fsm_step E) es st)) = active_device (snd st)
    \<and> manager (snd (fold (call_fsm_step E) es st)) = manager (snd st)"
proof -
  have "connection_map (snd (fold (call_fsm_step E) es st)) = connection_map (snd st)
    \<and> active_device (snd (fold (call_fsm_step E) es st)) = active_device (snd st)
    \<and> manager (snd (fold (call_fsm_step E) es st)) = manager (snd st)"
    using assms
  proof (induction es arbitrary: st)
    case (Cons e es)
    then show ?case
      using Cons.IH [of "call_fsm_step E e st"] call_fsm_step_winding [of st E e] by simp
  qed simp
  then show ?thesis
    using call_wind.run_terminal [OF assms, of E es] call_wind.run_urgent_only [OF assms, of E es] by blast
qed

theorem terminating_call_drops_events_witness:
  "call_winding_down (call_fsm_new, small_call\<lparr>link_state := call_state.Terminating\<rparr>)
   \<and> fold (call_fsm_step small_call_env)
       [CallTimeout, SendHangupViaRtpDataToAll hangup.Normal, AcceptCall]
       (call_fsm_new, small_call\<lparr>link_state := call_state.Terminating\<rparr>) =
     call_fsm_step small_call_env (SendHangupViaRtpDataToAll hangup.Normal)
       (call_fsm_new, small_call\<lparr>link_state := call_state.Terminating\<rparr>)"
proof -
  let ?st = "(call_fsm_new, small_call\<lparr>link_state := call_state.Terminating\<rparr>)"
  have "call_winding_down ?st"
    by (simp add: call_winding_down_def)
  from terminating_call_drops_events [OF this, of small_call_env
      "[CallTimeout, SendHangupViaRtpDataToAll hangup.Normal, AcceptCall]"] this
  show ?thesis
    by (simp add: call_urgent_def)
qed

end
