(* ===== verification/Call_Hangup.thy ===== *)
theory Call_Hangup
  imports Call_Shutdown
begin

text \<open>
  What a call does with a hangup of one of the devices it rings, and with an acceptance: the other
  devices are told, over their connections and over signaling, and the application's call ends.
\<close>

section \<open>Telling the connections\<close>

text \<open>A connection that was asked to send a hangup.\<close>

definition hung_up :: "hangup \<Rightarrow> 'pc conn_entry \<Rightarrow> 'pc conn_entry" where
  "hung_up h fc = (case fc of (f, c) \<Rightarrow>
     (f, c\<lparr>conn_state := connection_state.Terminating,
           conn_stream := Active (stream_events (conn_stream c) @ [SendHangupViaRtpData h])\<rparr>))"

definition has_room :: "'e event_stream \<Rightarrow> nat \<Rightarrow> bool" where
  "has_room s n = (stream_open s \<and> length (stream_events s) + n \<le> CHANNEL_CAPACITY)"

lemma has_room_Active: "has_room s n \<longleftrightarrow> (\<exists>q. s = Active q \<and> length q + n \<le> CHANNEL_CAPACITY)"
  by (cases s) (simp_all add: has_room_def)

lemma inject_hangup:
  assumes "has_room (conn_stream c) 1" "has_room (link_stream p) (Suc n)"
  obtains s where "inject_send_hangup_via_rtp_data h (c, p) = ((snd (hung_up h (f, c)), p\<lparr>link_stream := s\<rparr>), Ok ())"
    "has_room s n"
proof -
  obtain q where q: "conn_stream c = Active q" "length q < CHANNEL_CAPACITY"
    using assms(1) by (auto simp: has_room_Active)
  obtain l where l: "link_stream p = Active l" "length l + Suc n \<le> CHANNEL_CAPACITY"
    using assms(2) by (auto simp: has_room_Active)
  show thesis
    using q l that [of "Active l"]
      that [of "Active (l @ [ConnectionObserverEvent (StateChanged connection_state.Terminating) (remote_device_id c)])"]
    by (cases "conn_state c = connection_state.Terminating")
       (simp_all add: inject_send_hangup_via_rtp_data_def set_state_def notify_observer_def
          on_connection_observer_event_def inject_call_event_def inject_event_def hung_up_def has_room_def)
qed

lemma hang_up_device_effect:
  assumes "map_of (connection_map call) d = Some fc" "has_room (conn_stream (snd fc)) 1"
    "has_room (link_stream call) (Suc n)"
  obtains s m where "hang_up_device h d call = (call\<lparr>link_stream := s, connection_map := m\<rparr>, Ok ())"
    "map_of m = (map_of (connection_map call))(d \<mapsto> hung_up h fc)" "has_room s n"
proof -
  obtain f c where fc: "fc = (f, c)"
    by (metis surj_pair)
  obtain s where "inject_send_hangup_via_rtp_data h (c, call) =
      ((snd (hung_up h (f, c)), call\<lparr>link_stream := s\<rparr>), Ok ())" "has_room s n"
    using inject_hangup [of c call n h f] assms(2,3) fc by (metis snd_conv)
  moreover have "hung_up h (f, c) = (f, snd (hung_up h (f, c)))"
    by (simp add: hung_up_def)
  ultimately show thesis
    using that assms(1) fc
    by (simp add: hang_up_device_def with_connection_def on_entry_def update_conv')
qed

lemma hang_up_devices:
  assumes "distinct ds" "\<forall>d \<in> set ds. \<exists>fc. map_of (connection_map call) d = Some fc \<and> has_room (conn_stream (snd fc)) 1"
    "has_room (link_stream call) (length ds)"
  shows "\<exists>s m. for_each_device ds (hang_up_device h) call = (call\<lparr>link_stream := s, connection_map := m\<rparr>, Ok ())
    \<and> map_of m = (\<lambda>d. if d \<in> set ds then map_option (hung_up h) (map_of (connection_map call) d)
                       else map_of (connection_map call) d)"
  using assms
proof (induction ds arbitrary: call)
  case Nil
  have "call\<lparr>link_stream := link_stream call, connection_map := connection_map call\<rparr> = call"
    by simp
  then show ?case
    by (intro exI [of _ "link_stream call"] exI [of _ "connection_map call"]) simp
next
  case (Cons d ds)
  obtain fc where fc: "map_of (connection_map call) d = Some fc" "has_room (conn_stream (snd fc)) 1"
    using Cons.prems(2) by auto
  obtain s m where 1: "hang_up_device h d call = (call\<lparr>link_stream := s, connection_map := m\<rparr>, Ok ())"
    "map_of m = (map_of (connection_map call))(d \<mapsto> hung_up h fc)" "has_room s (length ds)"
    by (rule hang_up_device_effect [OF fc, of "length ds" h]) (use Cons.prems(3) in simp)
  let ?call = "call\<lparr>link_stream := s, connection_map := m\<rparr>"
  have sel: "connection_map ?call = m"
    by simp
  have "\<forall>d \<in> set ds. \<exists>fc. map_of (connection_map ?call) d = Some fc \<and> has_room (conn_stream (snd fc)) 1"
    using Cons.prems(1,2) 1(2) by auto
  then have "\<exists>s' m'. for_each_device ds (hang_up_device h) ?call =
      (?call\<lparr>link_stream := s', connection_map := m'\<rparr>, Ok ())
    \<and> map_of m' = (\<lambda>d. if d \<in> set ds then map_option (hung_up h) (map_of m d) else map_of m d)"
    using Cons.IH [of ?call] Cons.prems(1) 1(3) unfolding sel by simp
  then obtain s' m' where "for_each_device ds (hang_up_device h) ?call =
      (?call\<lparr>link_stream := s', connection_map := m'\<rparr>, Ok ())"
    "map_of m' = (\<lambda>d. if d \<in> set ds then map_option (hung_up h) (map_of m d) else map_of m d)"
    by blast
  then show ?case
    using 1 fc Cons.prems(1) by (intro exI [of _ s'] exI [of _ m']) auto
qed

text \<open>
  The connections of a call can be told a hangup: each is filed under its own device, and its queue
  and that of the call have room.
\<close>

definition can_be_told :: "('m, 'pc, 'sk, 'ig, 'x) call_scheme \<Rightarrow> bool" where
  "can_be_told call = (distinct (map fst (connection_map call))
     \<and> list_all (\<lambda>(d, f, c). remote_device_id c = d \<and> has_room (conn_stream c) 1) (connection_map call)
     \<and> has_room (link_stream call) (length (connection_map call)))"

definition all_told :: "hangup \<Rightarrow> device_id \<Rightarrow> (device_id \<rightharpoonup> 'pc conn_entry) \<Rightarrow> device_id \<rightharpoonup> 'pc conn_entry" where
  "all_told h excluded m d = (if d = excluded then m d else map_option (hung_up h) (m d))"

lemma devices_except_keys:
  assumes "list_all (\<lambda>(d, f, c). remote_device_id c = d \<and> has_room (conn_stream c) 1) entries"
  shows "devices_except excluded entries = filter (\<lambda>d. d \<noteq> excluded) (map fst entries)"
  using assms by (induction entries) (auto simp: devices_except_def)

lemma send_hangup_to_all_except_effect:
  assumes "can_be_told call"
  shows "\<exists>s m. send_hangup_via_rtp_data_to_all_except h excluded call =
      (call\<lparr>link_stream := s, connection_map := m\<rparr>, Ok ())
    \<and> map_of m = all_told h excluded (map_of (connection_map call))"
proof -
  let ?ds = "filter (\<lambda>d. d \<noteq> excluded) (map fst (connection_map call))"
  have ds: "devices_except excluded (connection_map call) = ?ds"
    using assms by (intro devices_except_keys) (simp add: can_be_told_def)
  have "\<forall>d \<in> set ?ds. \<exists>fc. map_of (connection_map call) d = Some fc \<and> has_room (conn_stream (snd fc)) 1"
    using assms by (force simp: can_be_told_def list_all_iff)
  moreover have le: "length ?ds \<le> length (connection_map call)"
    by (metis length_filter_le length_map)
  moreover have "has_room (link_stream call) (length ?ds)"
    using assms le unfolding can_be_told_def has_room_def by (meson add_le_cancel_left order_trans)
  ultimately have "\<exists>s m. for_each_device ?ds (hang_up_device h) call =
      (call\<lparr>link_stream := s, connection_map := m\<rparr>, Ok ())
    \<and> map_of m = (\<lambda>d. if d \<in> set ?ds then map_option (hung_up h) (map_of (connection_map call) d)
                       else map_of (connection_map call) d)"
    using assms by (intro hang_up_devices) (simp_all add: can_be_told_def)
  moreover have "(\<lambda>d. if d \<in> set ?ds then map_option (hung_up h) (map_of (connection_map call) d)
                       else map_of (connection_map call) d) = all_told h excluded (map_of (connection_map call))"
    by (rule ext) (auto simp: all_told_def dest: map_of_eq_None_iff [THEN iffD2])
  ultimately show ?thesis
    by (simp add: send_hangup_via_rtp_data_to_all_except_def ds)
qed

section \<open>A hangup from one of the devices\<close>

text \<open>What the caller tells the other devices, and the reason it gives its application.\<close>

definition caller_tells :: "hangup_type \<Rightarrow> device_id \<Rightarrow> hangup" where
  "caller_tells ty sender =
     (if ty = hangup_type.NeedPermission then hangup.NeedPermission (Some sender)
      else hangup.DeclinedOnAnotherDevice sender)"

definition caller_reason :: "hangup_type \<Rightarrow> call_end_reason option" where
  "caller_reason ty = (if ty = hangup_type.NeedPermission then Some RemoteHangupNeedPermission else None)"

lemma caller_response:
  assumes "ty = hangup_type.Normal \<or> ty = hangup_type.NeedPermission"
  shows "hangup_response ty call_direction.Outgoing sender = (Some (caller_tells ty sender), caller_reason ty)"
    "snd (to_type_and_device_id (caller_tells ty sender)) = Some sender"
  using assms by (auto simp: hangup_response_def caller_tells_def caller_reason_def)

text \<open>
  C37: a device that declines ends the call for all. While an outgoing call rings, a hangup or a
  refusal of permission from one device makes the call Terminating; every other connected device is
  asked over its connection to stop ringing, as declined or as needing permission by that device,
  while the connection of that device is left alone; the same hangup goes to all devices over
  signaling; and the worker is to report the end of the call with the matching reason.
\<close>

theorem declined_by_one_device:
  assumes "call_dir call = call_direction.Outgoing" "active_device call = None" "call_should_propagate_hangup (link_state call)"
    and "fst (to_type_and_device_id (rh_hangup received)) = ty" "ty = hangup_type.Normal \<or> ty = hangup_type.NeedPermission"
    and "rh_sender_device_id received = sender" "can_be_told call"
    and "cm (link_call_id call) (CmSendHangup (caller_tells ty sender)) (manager call) = (m, Ok ())"
  shows "\<exists>call'. call_handle_received_hangup cm (link_state call) received (f, call) =
      ((call_worker_spawn (WRemoteHangup (caller_reason ty)) f, call'), Ok ())
    \<and> link_state call' = call_state.Terminating \<and> manager call' = m
    \<and> map_of (connection_map call') = all_told (caller_tells ty sender) sender (map_of (connection_map call))"
proof -
  let ?h = "caller_tells ty sender"
  let ?call = "call\<lparr>link_state := call_state.Terminating\<rparr>"
  have can: "call_can_be_terminated_remotely (link_state call)"
    using assms(3) by (cases "link_state call") simp_all
  have told: "can_be_told ?call"
    using assms(7) by (simp add: can_be_told_def)
  obtain s m' where sent: "send_hangup_via_rtp_data_to_all_except ?h sender ?call =
      (?call\<lparr>link_stream := s, connection_map := m'\<rparr>, Ok ())"
    "map_of m' = all_told ?h sender (map_of (connection_map call))"
    using send_hangup_to_all_except_effect [OF told, of ?h sender] by auto
  obtain dev where "to_type_and_device_id (rh_hangup received) = (ty, dev)"
    using assms(4) by (metis prod.collapse)
  then have "call_handle_received_hangup cm (link_state call) received (f, call) =
      ((call_worker_spawn (WRemoteHangup (caller_reason ty)) f,
        ?call\<lparr>link_stream := s, connection_map := m', manager := m\<rparr>), Ok ())"
    using assms(1,2,3,6,8) can sent(1) caller_response [OF assms(5), of sender]
    by (simp add: call_handle_received_hangup_def active_device_id_def call_set_state_def cm_call_def
        send_hangup_via_rtp_data_and_signaling_to_all_except_def send_hangup_via_signaling_to_all_def
        split: prod.split)
  then show ?thesis
    using sent(2) by (intro exI [of _ "?call\<lparr>link_stream := s, connection_map := m', manager := m\<rparr>"]) simp
qed

theorem declined_by_one_device_witness:
  "can_be_told small_call \<and> call_should_propagate_hangup (link_state small_call)
   \<and> (\<exists>call'. call_handle_received_hangup log_manager (link_state small_call)
         \<lparr> rh_hangup = hangup.Normal, rh_sender_device_id = 3 \<rparr> (call_fsm_new, small_call) =
         ((call_worker_spawn (WRemoteHangup None) call_fsm_new, call'), Ok ())
      \<and> link_state call' = call_state.Terminating \<and> manager call' = [CmSendHangup (hangup.DeclinedOnAnotherDevice 3)]
      \<and> map_option (stream_events \<circ> conn_stream \<circ> snd) (map_of (connection_map call') 2) =
          Some [SendHangupViaRtpData (hangup.DeclinedOnAnotherDevice 3)]
      \<and> map_option (stream_events \<circ> conn_stream \<circ> snd) (map_of (connection_map call') 3) = Some [])"
proof -
  have facts: "call_dir small_call = call_direction.Outgoing" "active_device small_call = None"
    "call_should_propagate_hangup (link_state small_call)" "can_be_told small_call"
    by (simp_all add: can_be_told_def has_room_def small_call_simps)
  have conns: "map_option (stream_events \<circ> conn_stream \<circ> snd) (map_of (connection_map small_call) 2) = Some []"
    "map_option (stream_events \<circ> conn_stream \<circ> snd) (map_of (connection_map small_call) 3) = Some []"
    by (simp_all add: small_call_simps)
  have cm: "log_manager (link_call_id small_call) (CmSendHangup (caller_tells hangup_type.Normal 3)) (manager small_call)
      = ([CmSendHangup (hangup.DeclinedOnAnotherDevice 3)], Ok ())"
    by (simp add: log_manager_def caller_tells_def small_call_simps)
  show ?thesis
    using declined_by_one_device [of small_call "\<lparr> rh_hangup = hangup.Normal, rh_sender_device_id = 3 \<rparr>"
        hangup_type.Normal 3 log_manager "[CmSendHangup (hangup.DeclinedOnAnotherDevice 3)]" call_fsm_new]
      facts cm conns
    by (auto simp: caller_reason_def caller_tells_def all_told_def hung_up_def)
qed

end
