(* ===== verification/Group_Messages.thy ===== *)
theory Group_Messages
  imports Rtc_Prelude
begin

text \<open>
  The messages that devices exchange about group calls: \<open>DeviceToDevice\<close> of
  \<open>protobuf/group_call.proto\<close>, and \<open>CallMessage\<close> of \<open>protobuf/signaling.proto\<close>, which carries it
  over signaling together with the messages about rings. A Rust \<open>String\<close> is the list of its
  UTF-8 bytes where only its length matters.
\<close>

type_synonym user_id = bytes
type_synonym group_id = bytes
type_synonym ring_id = "64 word"
type_synonym demux_id = "32 word"

section \<open>Between devices\<close>

record media_key =
  mk_ratchet_counter :: "32 word option"
  mk_secret :: "bytes option"
  mk_demux_id :: "demux_id option"

record heartbeat =
  hb_audio_muted :: "bool option"
  hb_video_muted :: "bool option"
  hb_presenting :: "bool option"
  hb_sharing_screen :: "bool option"
  hb_muted_by_demux_id :: "demux_id option"

record leaving =
  leaving_demux_id :: "demux_id option"

record reaction_message =
  reaction_value :: "bytes option"

record remote_mute_request =
  target_demux_id :: "demux_id option"

record device_to_device =
  dtd_group_id :: "group_id option"
  dtd_media_key :: "media_key option"
  dtd_heartbeat :: "heartbeat option"
  dtd_leaving :: "leaving option"
  dtd_reaction :: "reaction_message option"
  dtd_remote_mute_request :: "remote_mute_request option"

definition device_to_device_default :: device_to_device where
  "device_to_device_default =
     \<lparr> dtd_group_id = None, dtd_media_key = None, dtd_heartbeat = None, dtd_leaving = None,
       dtd_reaction = None, dtd_remote_mute_request = None \<rparr>"

section \<open>Over signaling\<close>

datatype signaling_message_urgency = Droppable | HandleImmediately

record ring_message =
  rm_group_id :: "group_id option"
  rm_type :: "32 word option"
  rm_ring_id :: "ring_id option"

record call_message =
  group_call_message :: "device_to_device option"
  ring_intention :: "ring_message option"
  ring_response :: "ring_message option"

definition call_message_default :: call_message where
  "call_message_default = \<lparr> group_call_message = None, ring_intention = None, ring_response = None \<rparr>"

datatype intention_type = IntentionRing | IntentionCancelled

datatype response_type = ResponseRinging | ResponseAccepted | ResponseDeclined | ResponseBusy

definition intention_type_of :: "32 word \<Rightarrow> intention_type option" where
  "intention_type_of n = (if n = 0 then Some IntentionRing else if n = 1 then Some IntentionCancelled else None)"

primrec intention_code :: "intention_type \<Rightarrow> 32 word" where
  "intention_code IntentionRing = 0"
| "intention_code IntentionCancelled = 1"

definition response_type_of :: "32 word \<Rightarrow> response_type option" where
  "response_type_of n =
     (if n = 0 then Some ResponseRinging else if n = 1 then Some ResponseAccepted
      else if n = 2 then Some ResponseDeclined else if n = 3 then Some ResponseBusy else None)"

primrec response_code :: "response_type \<Rightarrow> 32 word" where
  "response_code ResponseRinging = 0"
| "response_code ResponseAccepted = 1"
| "response_code ResponseDeclined = 2"
| "response_code ResponseBusy = 3"

lemma type_codes [simp]:
  "intention_type_of (intention_code i) = Some i" "response_type_of (response_code r) = Some r"
  by (cases i; simp add: intention_type_of_def) (cases r; simp add: response_type_of_def)

end
