(* ===== verification/Call_Manager.thy ===== *)
theory Call_Manager
  imports Call_Fsm Group_Messages
begin

text \<open>
  The call manager (\<open>core/call_manager.rs\<close>), first part: its state, the messages that wait for an
  offer, the queue of signaling messages, the termination of calls and the requests that calls make
  of it. Calls are shared objects, so they live in a store, and the manager's map, its queue and its
  tasks hold their addresses; the last reference to a call, whose destruction reports the call as
  concluded, is not modelled. The application's platform is the state \<open>'p\<close> with the operations of
  \<open>platform_ops\<close>, through which a queued message also reaches the connection it has captured. Times
  are in milliseconds. A lock that is poisoned because its holder panicked is not modelled.
\<close>

section \<open>Messages\<close>

definition MAX_MESSAGE_AGE :: nat where
  "MAX_MESSAGE_AGE = 60 * 1000"

definition TIME_OUT_PERIOD :: nat where
  "TIME_OUT_PERIOD = 60 * 1000"

datatype message_type = Offer | Answer | Ice | Hangup | Busy

text \<open>What the closure of a queued message has captured: the address of the call, and the message.\<close>

datatype message_closure =
    SendOffer nat offer
  | SendAnswer nat device_id answer
  | SendIce nat device_id bool
  | SendHangup nat hangup
  | SendBusy nat

record message_item =
  item_call_id :: call_id
  item_type :: message_type
  item_closure :: message_closure

record signaling_message_queue =
  queue :: "message_item list"
  last_sent_message_type :: "message_type option"
  messages_in_flight :: bool

definition signaling_message_queue_new :: signaling_message_queue where
  "signaling_message_queue_new = \<lparr> queue = [], last_sent_message_type = None, messages_in_flight = False \<rparr>"

datatype offer_validation_error = OfferExpired

definition validate_offer :: "received_offer \<Rightarrow> (unit, offer_validation_error) result" where
  "validate_offer received = (if MAX_MESSAGE_AGE < ro_age received then Err OfferExpired else Ok ())"

section \<open>Messages that arrive before their offer\<close>

datatype 'peer pending_call_messages =
    NoMessages
  | IceCandidates 'peer call_id "received_ice list"
  | PendingHangup 'peer call_id received_hangup

definition save_ice_candidates ::
  "'peer \<Rightarrow> call_id \<Rightarrow> received_ice \<Rightarrow> 'peer pending_call_messages \<Rightarrow> 'peer pending_call_messages" where
  "save_ice_candidates remote_peer new_call_id new_received pend = (case pend of
     IceCandidates peer cid received \<Rightarrow>
       if cid = new_call_id
       then IceCandidates peer cid ((if 30 \<le> length received then tl received else received) @ [new_received])
       else IceCandidates remote_peer new_call_id [new_received]
   | PendingHangup peer cid received \<Rightarrow>
       if cid = new_call_id then pend else IceCandidates remote_peer new_call_id [new_received]
   | NoMessages \<Rightarrow> IceCandidates remote_peer new_call_id [new_received])"

definition save_hangup ::
  "'peer \<Rightarrow> call_id \<Rightarrow> received_hangup \<Rightarrow> 'peer pending_call_messages \<Rightarrow> 'peer pending_call_messages" where
  "save_hangup remote_peer new_call_id new_received pend = PendingHangup remote_peer new_call_id new_received"

section \<open>State\<close>

datatype ring_update =
    Requested | ExpiredRequest | AcceptedOnAnotherDevice | DeclinedOnAnotherDevice | BusyLocally
  | BusyOnAnotherDevice | CancelledByRinger

record outstanding_group_ring =
  ring_sender_id :: user_id
  ring_ring_id :: ring_id
  ring_received :: nat

definition has_expired :: "nat \<Rightarrow> outstanding_group_ring \<Rightarrow> bool" where
  "has_expired now ring = (TIME_OUT_PERIOD \<le> now - ring_received ring)"

text \<open>A group call client, as the manager sees it: requests are sent to its own thread.\<close>

datatype group_call_request =
    ProvideRingIdIfAbsent ring_id
  | OnSignalingMessageReceived user_id device_to_device
  | Disconnect
  | Forwarded bytes

record group_call_client =
  gc_group_id :: group_id
  gc_active :: bool
  gc_ring_id :: "ring_id option"
  gc_requests :: "group_call_request list"

datatype 'peer platform_request =
    OnStartCall 'peer call_id call_direction call_media_type
  | OnCallEnded 'peer call_id call_end_reason
  | OnEvent 'peer call_id application_event
  | OnNetworkRouteChanged 'peer network_route
  | OnAudioLevels 'peer "16 word" "16 word"
  | OnLowBandwidthForVideo 'peer bool
  | OnOfferExpired 'peer call_id nat
  | OnCallConcluded 'peer call_id
  | OnSendOffer 'peer call_id offer
  | OnSendAnswer 'peer call_id device_id answer
  | OnSendIce 'peer call_id "device_id option" "ice_candidate list"
  | OnSendHangup 'peer call_id hangup
  | OnSendBusy 'peer call_id
  | ConnectIncomingMedia 'peer nat nat
  | DisconnectIncomingMedia nat
  | GroupCallRingUpdate group_id ring_id user_id ring_update
  | SendCallMessage user_id bytes signaling_message_urgency

text \<open>
  What the manager calls. \<open>platform_do\<close> and \<open>compare_remotes\<close> are the platform; the codec of call
  messages is generated code. \<open>conn_can_send\<close> and \<open>conn_take_candidates\<close> are what a message's
  closure asks of the connection it holds, \<open>can_send_messages\<close> and
  \<open>take_buffered_local_ice_candidates\<close>: a closure runs at some later time and often while the call
  that owns the connection is in the middle of an operation, so that the call in the store is not
  the current one. They are therefore parameters: whatever the connection answers, at whatever
  time, is one choice of them, and every theorem holds for all choices.
\<close>

record ('p, 'peer) platform_ops =
  platform_do :: "'peer platform_request \<Rightarrow> 'p \<Rightarrow> 'p \<times> (unit, ringrtc_error) result"
  compare_remotes :: "'peer \<Rightarrow> 'peer \<Rightarrow> (bool, ringrtc_error) result"
  assume_messages_sent :: bool
  conn_can_send :: "nat \<Rightarrow> device_id \<Rightarrow> 'p \<Rightarrow> bool"
  conn_take_candidates :: "nat \<Rightarrow> device_id \<Rightarrow> 'p \<Rightarrow> 'p \<times> ice_candidate list"
  ring_time :: nat
  call_message_encode :: "call_message \<Rightarrow> (bytes, ringrtc_error) result"
  call_message_decode :: "bytes \<Rightarrow> (call_message, ringrtc_error) result"

datatype 'peer cm_task =
    TaskCall 'peer call_id call_media_type device_id
  | TaskAcceptCall call_id
  | TaskDropCall call_id
  | TaskProceed call_id nat call_config "nat option"
  | TaskMessageSent call_id
  | TaskMessageSendFailure call_id
  | TaskHangup
  | TaskReceivedOffer 'peer call_id received_offer
  | TaskReceivedAnswer 'peer call_id received_answer
  | TaskReceivedIce 'peer call_id received_ice
  | TaskReceivedHangup 'peer call_id received_hangup
  | TaskReceivedBusy 'peer call_id device_id
  | TaskReceivedCallMessage user_id bytes nat
  | TaskReset
  | TaskTerminate nat call_id "hangup option"
  | TaskRingTimeout group_id ring_id user_id

text \<open>A call in the store: its peer, its state machine and the call without the manager it refers to.\<close>

type_synonym ('peer, 'pc, 'sk, 'ig) call_object = "'peer \<times> call_fsm \<times> (unit, 'pc, 'sk, 'ig) call"

record ('p, 'peer, 'pc, 'sk, 'ig) call_manager_state =
  platform_state :: 'p
  self_uuid :: "user_id option"
  call_objects :: "nat \<Rightarrow> ('peer, 'pc, 'sk, 'ig) call_object option"
  next_object :: nat
  call_by_call_id :: "(call_id \<times> nat) list"
  active_call_id :: "call_id option"
  pending_call_messages :: "'peer pending_call_messages"
  group_call_by_client_id :: "(32 word \<times> group_call_client) list"
  next_group_call_client_id :: "32 word"
  outstanding_group_rings :: "(group_id \<times> outstanding_group_ring) list"
  busy :: bool
  worker :: "'peer cm_task actor"
  message_queue :: signaling_message_queue
  asset_manager_of :: asset_manager

type_synonym ('p, 'peer, 'pc, 'sk, 'ig) cms = "('p, 'peer, 'pc, 'sk, 'ig) call_manager_state"

type_synonym ('p, 'peer, 'pc, 'sk, 'ig) cm_result =
  "('p, 'peer, 'pc, 'sk, 'ig) call_manager_state \<times> (unit, ringrtc_error) result"

definition call_manager_new :: "bool \<Rightarrow> 'p \<Rightarrow> ('p, 'peer, 'pc, 'sk, 'ig) cms" where
  "call_manager_new assets_off p =
     \<lparr> platform_state = p, self_uuid = None, call_objects = (\<lambda>_. None), next_object = 0, call_by_call_id = [],
       active_call_id = None, pending_call_messages = NoMessages, group_call_by_client_id = [],
       next_group_call_client_id = 0, outstanding_group_rings = [], busy = False, worker = actor_start,
       message_queue = signaling_message_queue_new,
       asset_manager_of = asset_manager_new (supported_assets assets_off) \<rparr>"

section \<open>Calls in the store\<close>

definition load_call :: "'m \<Rightarrow> ('n, 'pc, 'sk, 'ig) call \<Rightarrow> ('m, 'pc, 'sk, 'ig) call" where
  "load_call m c = call_link.extend
     \<lparr> link_call_id = link_call_id c, link_state = link_state c, link_call_context = link_call_context c,
       link_stream = link_stream c, manager = m \<rparr> (call_link.more c)"

text \<open>
  An operation on the call at an address. While it runs, the requests that the call makes of the
  manager see a copy of the call whose event stream is empty: what they inject into the call is
  delivered to its stream when the operation ends.
\<close>

definition deliver :: "('m, 'x) call_link_scheme \<Rightarrow> ('n, 'y) call_link_scheme \<Rightarrow> ('n, 'y) call_link_scheme" where
  "deliver mailbox call =
     fold (\<lambda>event call. fst (inject_call_event event call)) (stream_events (link_stream mailbox))
       (if call_terminating mailbox then call_set_state call_state.Terminating call else call)"

definition on_call ::
  "nat \<Rightarrow> (call_fsm \<times> (('p, 'peer, 'pc, 'sk, 'ig) cms, 'pc, 'sk, 'ig) call
            \<Rightarrow> (call_fsm \<times> (('p, 'peer, 'pc, 'sk, 'ig) cms, 'pc, 'sk, 'ig) call) \<times> ('a, ringrtc_error) result)
   \<Rightarrow> ('p, 'peer, 'pc, 'sk, 'ig) cms \<Rightarrow> ('p, 'peer, 'pc, 'sk, 'ig) cms \<times> ('a, ringrtc_error) result" where
  "on_call h g cm = (case call_objects cm h of
     None \<Rightarrow> (cm, Err NoActiveCall)
   | Some (peer, f, c) \<Rightarrow>
       (case g (f, load_call (cm\<lparr>call_objects :=
                (call_objects cm)(h \<mapsto> (peer, f, c\<lparr>link_stream := Active []\<rparr>))\<rparr>) c) of
          ((f, call), r) \<Rightarrow>
            (let cm = manager call; c = load_call () call in
             case call_objects cm h of
               None \<Rightarrow> (cm, r)
             | Some (_, _, mailbox) \<Rightarrow>
                 (cm\<lparr>call_objects := (call_objects cm)(h \<mapsto> (peer, f, deliver mailbox c))\<rparr>, r))))"

text \<open>An operation that only reads the call and injects events into it.\<close>

definition on_link ::
  "nat \<Rightarrow> ((unit, 'pc, 'sk, 'ig) call \<Rightarrow> (unit, 'pc, 'sk, 'ig) call \<times> (unit, ringrtc_error) result)
   \<Rightarrow> ('p, 'peer, 'pc, 'sk, 'ig) cms \<Rightarrow> ('p, 'peer, 'pc, 'sk, 'ig) cm_result" where
  "on_link h g cm = (case call_objects cm h of
     None \<Rightarrow> (cm, Err NoActiveCall)
   | Some (peer, f, c) \<Rightarrow> (case g c of (c, r) \<Rightarrow>
       (cm\<lparr>call_objects := (call_objects cm)(h \<mapsto> (peer, f, c))\<rparr>, r)))"

definition remote_peer_of :: "('p, 'peer, 'pc, 'sk, 'ig) cms \<Rightarrow> nat \<Rightarrow> ('peer, ringrtc_error) result" where
  "remote_peer_of cm h = (case call_objects cm h of None \<Rightarrow> Err NoActiveCall | Some (peer, _, _) \<Rightarrow> Ok peer)"

text \<open>A predicate of the call at an address.\<close>

definition call_at :: "('p, 'peer, 'pc, 'sk, 'ig) cms \<Rightarrow> nat \<Rightarrow> ((unit, 'pc, 'sk, 'ig) call \<Rightarrow> bool) \<Rightarrow> bool" where
  "call_at cm h Q = (case call_objects cm h of None \<Rightarrow> False | Some (_, _, c) \<Rightarrow> Q c)"

text \<open>\<open>Call::new\<close> puts the new call into the store; its assets are the manager's at that moment.\<close>

definition create_call ::
  "'peer \<Rightarrow> call_id \<Rightarrow> call_direction \<Rightarrow> call_media_type \<Rightarrow> device_id \<Rightarrow> ('p, 'peer, 'pc, 'sk, 'ig) cms
   \<Rightarrow> nat \<times> ('p, 'peer, 'pc, 'sk, 'ig) cms" where
  "create_call peer cid dir media dev cm =
     (next_object cm,
      cm\<lparr>call_objects := (call_objects cm)
           (next_object cm \<mapsto> (peer, call_fsm_new, call_new cid dir media dev (registry (asset_manager_of cm)) ())),
         next_object := Suc (next_object cm)\<rparr>)"

section \<open>Small operations\<close>

definition on_platform ::
  "('p, 'peer) platform_ops \<Rightarrow> 'peer platform_request \<Rightarrow> ('p, 'peer, 'pc, 'sk, 'ig) cms
   \<Rightarrow> ('p, 'peer, 'pc, 'sk, 'ig) cm_result" where
  "on_platform P req cm = (case platform_do P req (platform_state cm) of (p, r) \<Rightarrow>
     (cm\<lparr>platform_state := p\<rparr>, r))"

definition cm_worker_spawn ::
  "'peer cm_task \<Rightarrow> ('p, 'peer, 'pc, 'sk, 'ig) cms \<Rightarrow> ('p, 'peer, 'pc, 'sk, 'ig) cms" where
  "cm_worker_spawn t cm =
     (if has_been_stopped (worker cm) then cm else cm\<lparr>worker := actor_send t (worker cm)\<rparr>)"

definition active_call :: "('p, 'peer, 'pc, 'sk, 'ig) cms \<Rightarrow> (nat, ringrtc_error) result" where
  "active_call cm = (case active_call_id cm of
     Some cid \<Rightarrow> (case map_of (call_by_call_id cm) cid of Some h \<Rightarrow> Ok h | None \<Rightarrow> Err (CallIdNotFound cid))
   | None \<Rightarrow> Err NoActiveCall)"

definition call_is_active :: "call_id \<Rightarrow> ('p, 'peer, 'pc, 'sk, 'ig) cms \<Rightarrow> bool" where
  "call_is_active cid cm = (case active_call_id cm of Some v \<Rightarrow> v = cid | None \<Rightarrow> False)"

definition clear_active_call :: "('p, 'peer, 'pc, 'sk, 'ig) cms \<Rightarrow> ('p, 'peer, 'pc, 'sk, 'ig) cms" where
  "clear_active_call cm = cm\<lparr>active_call_id := None\<rparr>"

definition release_busy :: "('p, 'peer, 'pc, 'sk, 'ig) cms \<Rightarrow> ('p, 'peer, 'pc, 'sk, 'ig) cms" where
  "release_busy cm = cm\<lparr>busy := False\<rparr>"

definition on_call_ended ::
  "('p, 'peer) platform_ops \<Rightarrow> 'peer \<Rightarrow> call_id \<Rightarrow> call_end_reason \<Rightarrow> ('p, 'peer, 'pc, 'sk, 'ig) cms
   \<Rightarrow> ('p, 'peer, 'pc, 'sk, 'ig) cm_result" where
  "on_call_ended P peer cid reason = on_platform P (OnCallEnded peer cid reason)"

definition reset_messages_in_flight :: "('p, 'peer, 'pc, 'sk, 'ig) cms \<Rightarrow> ('p, 'peer, 'pc, 'sk, 'ig) cms" where
  "reset_messages_in_flight cm = cm\<lparr>message_queue := (message_queue cm)\<lparr>messages_in_flight := False\<rparr>\<rparr>"

definition trim_messages :: "call_id \<Rightarrow> ('p, 'peer, 'pc, 'sk, 'ig) cms \<Rightarrow> ('p, 'peer, 'pc, 'sk, 'ig) cms" where
  "trim_messages cid cm = cm\<lparr>message_queue := (message_queue cm)
     \<lparr>queue := filter (\<lambda>x. item_call_id x \<noteq> cid \<or> item_type x = message_type.Busy
                          \<or> item_type x = message_type.Hangup) (queue (message_queue cm))\<rparr>\<rparr>"

section \<open>Termination of a call\<close>

text \<open>
  The first part of the termination runs at once, the rest as a task of the worker. The call summary
  that the application receives is not modelled.
\<close>

definition terminate_call ::
  "('p, 'peer) platform_ops \<Rightarrow> nat \<Rightarrow> hangup option \<Rightarrow> call_end_reason option
   \<Rightarrow> ('p, 'peer, 'pc, 'sk, 'ig) cms \<Rightarrow> ('p, 'peer, 'pc, 'sk, 'ig) cm_result" where
  "terminate_call P h hang reason cm = (case call_objects cm h of
     None \<Rightarrow> (cm, Err NoActiveCall)
   | Some (peer, _, c) \<Rightarrow>
       (let cid = link_call_id c; cm = trim_messages cid cm in
        bind_ok (case reason of
                   Some reason \<Rightarrow> on_call_ended P peer cid reason cm
                 | None \<Rightarrow> (cm, Ok ())) (\<lambda>_ cm.
        bind_ok (case hang of
                   Some hang \<Rightarrow> on_link h (inject_send_hangup_via_rtp_data_to_all hang) cm
                 | None \<Rightarrow> (cm, Ok ())) (\<lambda>_ cm.
          (cm_worker_spawn (TaskTerminate h cid hang) cm, Ok ())))))"

definition terminate_active_call ::
  "('p, 'peer) platform_ops \<Rightarrow> bool \<Rightarrow> call_end_reason \<Rightarrow> ('p, 'peer, 'pc, 'sk, 'ig) cms
   \<Rightarrow> ('p, 'peer, 'pc, 'sk, 'ig) cm_result" where
  "terminate_active_call P send reason cm = (case active_call_id cm of
     None \<Rightarrow> (cm, Ok ())
   | Some cid \<Rightarrow> (case active_call cm of
       Err e \<Rightarrow> (cm, Err e)
     | Ok h \<Rightarrow> terminate_call P h (if send then Some hangup.Normal else None) (Some reason)
                (release_busy (clear_active_call cm))))"

definition remote_hangup ::
  "('p, 'peer) platform_ops \<Rightarrow> call_id \<Rightarrow> call_end_reason option \<Rightarrow> ('p, 'peer, 'pc, 'sk, 'ig) cms
   \<Rightarrow> ('p, 'peer, 'pc, 'sk, 'ig) cm_result" where
  "remote_hangup P cid end_reason_override cm =
     (if call_is_active cid cm then
        (case end_reason_override of
           Some end_reason \<Rightarrow> terminate_active_call P False end_reason cm
         | None \<Rightarrow> terminate_active_call P False RemoteHangup cm)
      else (cm, Ok ()))"

definition cm_timeout ::
  "('p, 'peer) platform_ops \<Rightarrow> call_id \<Rightarrow> ('p, 'peer, 'pc, 'sk, 'ig) cms
   \<Rightarrow> ('p, 'peer, 'pc, 'sk, 'ig) cm_result" where
  "cm_timeout P cid cm =
     (if call_is_active cid cm then terminate_active_call P True Timeout cm else (cm, Ok ()))"

definition connection_failure ::
  "('p, 'peer) platform_ops \<Rightarrow> call_id \<Rightarrow> ('p, 'peer, 'pc, 'sk, 'ig) cms
   \<Rightarrow> ('p, 'peer, 'pc, 'sk, 'ig) cm_result" where
  "connection_failure P cid cm =
     (if call_is_active cid cm then
        (case active_call cm of
           Err e \<Rightarrow> (cm, Err e)
         | Ok h \<Rightarrow> terminate_active_call P (call_at cm h should_send_hangup_on_failure) ConnectionFailure cm)
      else (cm, Ok ()))"

definition cm_internal_error ::
  "('p, 'peer) platform_ops \<Rightarrow> call_id \<Rightarrow> ringrtc_error \<Rightarrow> ('p, 'peer, 'pc, 'sk, 'ig) cms
   \<Rightarrow> ('p, 'peer, 'pc, 'sk, 'ig) cm_result" where
  "cm_internal_error P cid error cm =
     (if call_is_active cid cm then
        (case active_call cm of
           Err e \<Rightarrow> (cm, Err e)
         | Ok h \<Rightarrow> terminate_active_call P (call_at cm h should_send_hangup_on_failure) InternalFailure cm)
      else (cm, Ok ()))"

section \<open>The message queue\<close>

datatype message_send_result = Sent | NotSent

definition send_to_peer ::
  "('p, 'peer) platform_ops \<Rightarrow> nat \<Rightarrow> ('peer \<Rightarrow> 'peer platform_request) \<Rightarrow> ('p, 'peer, 'pc, 'sk, 'ig) cms
   \<Rightarrow> ('p, 'peer, 'pc, 'sk, 'ig) cms \<times> (message_send_result, ringrtc_error) result" where
  "send_to_peer P h req cm = (case remote_peer_of cm h of
     Err e \<Rightarrow> (cm, Err e)
   | Ok peer \<Rightarrow> bind_ok (on_platform P (req peer) cm) (\<lambda>_ cm. (cm, Ok Sent)))"

text \<open>The closures that \<open>send_offer\<close>, \<open>send_answer\<close> and the others put into the queue.\<close>

definition run_message_closure ::
  "('p, 'peer) platform_ops \<Rightarrow> call_id \<Rightarrow> message_closure \<Rightarrow> ('p, 'peer, 'pc, 'sk, 'ig) cms
   \<Rightarrow> ('p, 'peer, 'pc, 'sk, 'ig) cms \<times> (message_send_result, ringrtc_error) result" where
  "run_message_closure P cid closure cm = (case closure of
     SendOffer h offer \<Rightarrow>
       (case remote_peer_of cm h of
          Err e \<Rightarrow> (cm, Err e)
        | Ok _ \<Rightarrow>
            if conn_can_send P h 0 (platform_state cm)
            then send_to_peer P h (\<lambda>peer. OnSendOffer peer cid offer) cm else (cm, Ok NotSent))
   | SendAnswer h d answer \<Rightarrow>
       (case remote_peer_of cm h of
          Err e \<Rightarrow> (cm, Err e)
        | Ok _ \<Rightarrow>
            if conn_can_send P h d (platform_state cm)
            then send_to_peer P h (\<lambda>peer. OnSendAnswer peer cid d answer) cm else (cm, Ok NotSent))
   | SendIce h d broadcast \<Rightarrow>
       (case conn_take_candidates P h d (platform_state cm) of (p, local_candidates) \<Rightarrow>
          (let cm = cm\<lparr>platform_state := p\<rparr> in
           if local_candidates = [] then (cm, Ok NotSent)
           else send_to_peer P h (\<lambda>peer. OnSendIce peer cid (if broadcast then None else Some d) local_candidates) cm))
   | SendHangup h hang \<Rightarrow> send_to_peer P h (\<lambda>peer. OnSendHangup peer cid hang) cm
   | SendBusy h \<Rightarrow> send_to_peer P h (\<lambda>peer. OnSendBusy peer cid) cm)"

definition set_queue :: "message_item list \<Rightarrow> ('p, 'peer, 'pc, 'sk, 'ig) cms \<Rightarrow> ('p, 'peer, 'pc, 'sk, 'ig) cms" where
  "set_queue q cm = cm\<lparr>message_queue := (message_queue cm)\<lparr>queue := q\<rparr>\<rparr>"

lemma queue_set_queue [simp]: "queue (message_queue (set_queue q cm)) = q"
  by (simp add: set_queue_def)

lemma send_to_peer_queue [simp]: "message_queue (fst (send_to_peer P h req cm)) = message_queue cm"
  by (auto simp: send_to_peer_def on_platform_def bind_ok_def split: sum.split prod.split)

lemma run_message_closure_queue [simp]:
  "message_queue (fst (run_message_closure P cid closure cm)) = message_queue cm"
  by (auto simp: run_message_closure_def Let_def split: message_closure.split prod.split sum.split)

lemma platform_queue [simp]: "message_queue (fst (on_platform P req cm)) = message_queue cm"
  by (simp add: on_platform_def split: prod.split)

lemma on_link_queue [simp]: "message_queue (fst (on_link h g cm)) = message_queue cm"
  by (simp add: on_link_def split: option.split prod.split)

lemma spawn_queue [simp]: "message_queue (cm_worker_spawn t cm) = message_queue cm"
  by (simp add: cm_worker_spawn_def)

lemma terminate_call_queue:
  "message_queue (fst (terminate_call P h hang reason cm)) = (case call_objects cm h of
     None \<Rightarrow> message_queue cm | Some (_, _, c) \<Rightarrow> message_queue (trim_messages (link_call_id c) cm))"
  by (cases "call_objects cm h"; cases reason; cases hang)
     (auto simp: terminate_call_def Let_def on_call_ended_def fst_bind_ok_same [where f = message_queue])

lemma cm_internal_error_queue:
  "length (queue (message_queue (fst (cm_internal_error P cid e cm)))) \<le> length (queue (message_queue cm))"
  by (auto simp: cm_internal_error_def terminate_active_call_def terminate_call_queue trim_messages_def
        clear_active_call_def release_busy_def split: sum.split option.split)

text \<open>One round of the loop of \<open>send_next_message\<close>; it tells whether a message is in flight then.\<close>

definition attempt_message ::
  "('p, 'peer) platform_ops \<Rightarrow> message_item \<Rightarrow> ('p, 'peer, 'pc, 'sk, 'ig) cms
   \<Rightarrow> ('p, 'peer, 'pc, 'sk, 'ig) cms \<times> (bool, ringrtc_error) result" where
  "attempt_message P item cm =
     (case run_message_closure P (item_call_id item) (item_closure item) cm of
        (cm, Ok message_is_in_flight) \<Rightarrow>
          (let in_flight = (message_is_in_flight = Sent \<and> \<not> assume_messages_sent P) in
           (cm\<lparr>message_queue := (message_queue cm)
              \<lparr>messages_in_flight := in_flight, last_sent_message_type := Some (item_type item)\<rparr>\<rparr>, Ok in_flight))
      | (cm, Err e) \<Rightarrow>
          bind_ok (cm_internal_error P (item_call_id item) e cm) (\<lambda>_ cm. (cm, Ok False)))"

lemma attempt_message_queue:
  "length (queue (message_queue (fst (attempt_message P item cm)))) \<le> length (queue (message_queue cm))"
proof -
  obtain cm' r where c: "run_message_closure P (item_call_id item) (item_closure item) cm = (cm', r)"
    by fastforce
  then have "message_queue cm' = message_queue cm"
    using run_message_closure_queue [of P "item_call_id item" "item_closure item" cm] by simp
  then show ?thesis
    using c cm_internal_error_queue [of P "item_call_id item" _ cm']
    by (cases r) (simp_all add: attempt_message_def Let_def)
qed

text \<open>
  The loop ends because every round takes a message from the queue, and neither a closure nor the
  report of its error adds one.
\<close>

function send_loop ::
  "('p, 'peer) platform_ops \<Rightarrow> ('p, 'peer, 'pc, 'sk, 'ig) cms \<Rightarrow> ('p, 'peer, 'pc, 'sk, 'ig) cm_result" where
  "send_loop P cm =
     (if messages_in_flight (message_queue cm) then (cm, Ok ())
      else (case queue (message_queue cm) of
        [] \<Rightarrow> (cm, Ok ())
      | item # rest \<Rightarrow>
          (let attempt = attempt_message P item (set_queue rest cm) in
           case snd attempt of
             Err e \<Rightarrow> (fst attempt, Err e)
           | Ok in_flight \<Rightarrow> if in_flight then (fst attempt, Ok ()) else send_loop P (fst attempt))))"
  by pat_completeness auto

termination send_loop
proof (relation "measure (\<lambda>(P, cm). length (queue (message_queue cm)))")
  fix P :: "('p, 'peer) platform_ops" and cm :: "('p, 'peer, 'pc, 'sk, 'ig) cms" and item rest attempt in_flight
  assume "queue (message_queue cm) = item # rest" "attempt = attempt_message P item (set_queue rest cm)"
  then show "((P, fst attempt), P, cm) \<in> measure (\<lambda>(P, cm). length (queue (message_queue cm)))"
    using attempt_message_queue [of P item "set_queue rest cm"] by simp
qed simp

declare send_loop.simps [simp del]

definition send_next_message ::
  "('p, 'peer) platform_ops \<Rightarrow> message_item option \<Rightarrow> ('p, 'peer, 'pc, 'sk, 'ig) cms
   \<Rightarrow> ('p, 'peer, 'pc, 'sk, 'ig) cm_result" where
  "send_next_message P message_item cm = (case message_item of
     Some item \<Rightarrow> send_loop P (set_queue (queue (message_queue cm) @ [item]) cm)
   | None \<Rightarrow> send_loop P cm)"

definition send_item ::
  "('p, 'peer) platform_ops \<Rightarrow> call_id \<Rightarrow> message_type \<Rightarrow> message_closure \<Rightarrow> ('p, 'peer, 'pc, 'sk, 'ig) cms
   \<Rightarrow> ('p, 'peer, 'pc, 'sk, 'ig) cm_result" where
  "send_item P cid ty closure =
     send_next_message P (Some \<lparr> item_call_id = cid, item_type = ty, item_closure = closure \<rparr>)"

definition cm_send_offer ::
  "('p, 'peer) platform_ops \<Rightarrow> nat \<Rightarrow> call_id \<Rightarrow> offer \<Rightarrow> ('p, 'peer, 'pc, 'sk, 'ig) cms
   \<Rightarrow> ('p, 'peer, 'pc, 'sk, 'ig) cm_result" where
  "cm_send_offer P h cid offer = send_item P cid message_type.Offer (SendOffer h offer)"

definition cm_send_answer ::
  "('p, 'peer) platform_ops \<Rightarrow> nat \<Rightarrow> call_id \<Rightarrow> device_id \<Rightarrow> answer \<Rightarrow> ('p, 'peer, 'pc, 'sk, 'ig) cms
   \<Rightarrow> ('p, 'peer, 'pc, 'sk, 'ig) cm_result" where
  "cm_send_answer P h cid d answer = send_item P cid message_type.Answer (SendAnswer h d answer)"

definition cm_send_buffered_local_ice_candidates ::
  "('p, 'peer) platform_ops \<Rightarrow> nat \<Rightarrow> call_id \<Rightarrow> device_id \<Rightarrow> bool \<Rightarrow> ('p, 'peer, 'pc, 'sk, 'ig) cms
   \<Rightarrow> ('p, 'peer, 'pc, 'sk, 'ig) cm_result" where
  "cm_send_buffered_local_ice_candidates P h cid d broadcast =
     send_item P cid message_type.Ice (SendIce h d broadcast)"

definition cm_send_hangup ::
  "('p, 'peer) platform_ops \<Rightarrow> nat \<Rightarrow> call_id \<Rightarrow> hangup \<Rightarrow> ('p, 'peer, 'pc, 'sk, 'ig) cms
   \<Rightarrow> ('p, 'peer, 'pc, 'sk, 'ig) cm_result" where
  "cm_send_hangup P h cid hang = send_item P cid message_type.Hangup (SendHangup h hang)"

definition send_busy ::
  "('p, 'peer) platform_ops \<Rightarrow> nat \<Rightarrow> call_id \<Rightarrow> ('p, 'peer, 'pc, 'sk, 'ig) cms
   \<Rightarrow> ('p, 'peer, 'pc, 'sk, 'ig) cm_result" where
  "send_busy P h cid = send_item P cid message_type.Busy (SendBusy h)"

section \<open>The requests of calls\<close>

definition with_peer ::
  "('p, 'peer) platform_ops \<Rightarrow> nat \<Rightarrow> ('peer \<Rightarrow> 'peer platform_request) \<Rightarrow> ('p, 'peer, 'pc, 'sk, 'ig) cms
   \<Rightarrow> ('p, 'peer, 'pc, 'sk, 'ig) cm_result" where
  "with_peer P h req cm = (case remote_peer_of cm h of
     Err e \<Rightarrow> (cm, Err e)
   | Ok peer \<Rightarrow> on_platform P (req peer) cm)"

text \<open>What a call, given by its address, and its connections ask the manager to do.\<close>

definition cm_serve ::
  "('p, 'peer) platform_ops \<Rightarrow> nat \<Rightarrow> ('p, 'peer, 'pc, 'sk, 'ig) cms call_manager" where
  "cm_serve P h cid req = (case req of
     CmStartCall dir media \<Rightarrow> with_peer P h (\<lambda>peer. OnStartCall peer cid dir media)
   | CmNotifyApplication event \<Rightarrow> with_peer P h (\<lambda>peer. OnEvent peer cid event)
   | CmNotifyNetworkRouteChanged r \<Rightarrow> with_peer P h (\<lambda>peer. OnNetworkRouteChanged peer r)
   | CmNotifyAudioLevels captured received \<Rightarrow> with_peer P h (\<lambda>peer. OnAudioLevels peer captured received)
   | CmNotifyLowBandwidthForVideo recovered \<Rightarrow> with_peer P h (\<lambda>peer. OnLowBandwidthForVideo peer recovered)
   | CmInternalError e \<Rightarrow> cm_internal_error P cid e
   | CmConnectionFailure \<Rightarrow> connection_failure P cid
   | CmTimeout \<Rightarrow> cm_timeout P cid
   | CmRemoteHangup reason \<Rightarrow> remote_hangup P cid reason
   | CmSendOffer offer \<Rightarrow> cm_send_offer P h cid offer
   | CmSendAnswer answer d \<Rightarrow> cm_send_answer P h cid d answer
   | CmSendBufferedLocalIceCandidates d broadcast \<Rightarrow> cm_send_buffered_local_ice_candidates P h cid d broadcast
   | CmSendHangup hang \<Rightarrow> cm_send_hangup P h cid hang
   | CmConnectIncomingMedia ctx media \<Rightarrow> with_peer P h (\<lambda>peer. ConnectIncomingMedia peer ctx media)
   | CmDisconnectIncomingMedia ctx \<Rightarrow> on_platform P (DisconnectIncomingMedia ctx))"

text \<open>The environment of the call at an address: its manager is the one it is stored in.\<close>

definition env_of ::
  "('p, 'peer) platform_ops \<Rightarrow> ('pc, ('p, 'peer, 'pc, 'sk, 'ig) cms, 'sd, 'ig, 'sk) call_env \<Rightarrow> nat
   \<Rightarrow> ('pc, ('p, 'peer, 'pc, 'sk, 'ig) cms, 'sd, 'ig, 'sk) call_env" where
  "env_of P E h = E\<lparr>e_cm := cm_serve P h\<rparr>"

end
