(* ===== verification/Call_Manager_Api.thy ===== *)
theory Call_Manager_Api
  imports Call_Manager
begin

text \<open>
  The call manager, second part: the handlers of the application's requests on 1:1 calls, which the
  worker runs as tasks, the collision of an offer with the active call, group rings and the
  bookkeeping of group call clients. A group call client is here the list of requests it has been
  sent; what it does with them is in the theories on group calls. Unlocking is not modelled: \<open>busy\<close> is read and written where the
  code holds its lock.
\<close>

section \<open>Tasks that terminate calls\<close>

definition terminate_and_drop_call ::
  "('p, 'peer) platform_ops \<Rightarrow> ('pc, ('p, 'peer, 'pc, 'sk, 'ig) cms, 'sd, 'ig, 'sk) call_env \<Rightarrow> nat
   \<Rightarrow> call_id \<Rightarrow> ('p, 'peer, 'pc, 'sk, 'ig) cms \<Rightarrow> ('p, 'peer, 'pc, 'sk, 'ig) cm_result" where
  "terminate_and_drop_call P E now cid cm = (case map_of (call_by_call_id cm) cid of
     None \<Rightarrow> (cm, Err (CallIdNotFound cid))
   | Some h \<Rightarrow>
       on_call h (call_terminate (env_of P E h) now)
         (cm\<lparr>call_by_call_id := AList.delete cid (call_by_call_id cm)\<rparr>))"

text \<open>An operation on the call that leaves its state machine alone.\<close>

definition call_op ::
  "('c \<Rightarrow> 'c \<times> ('a, ringrtc_error) result) \<Rightarrow> call_fsm \<times> 'c \<Rightarrow> (call_fsm \<times> 'c) \<times> ('a, ringrtc_error) result" where
  "call_op g st = (case g (snd st) of (c, r) \<Rightarrow> ((fst st, c), r))"

text \<open>The closure that \<open>terminate_call\<close> gives to the worker.\<close>

definition run_terminate_task ::
  "('p, 'peer) platform_ops \<Rightarrow> ('pc, ('p, 'peer, 'pc, 'sk, 'ig) cms, 'sd, 'ig, 'sk) call_env \<Rightarrow> nat
   \<Rightarrow> nat \<Rightarrow> call_id \<Rightarrow> hangup option \<Rightarrow> ('p, 'peer, 'pc, 'sk, 'ig) cms \<Rightarrow> ('p, 'peer, 'pc, 'sk, 'ig) cms" where
  "run_terminate_task P E now h cid hang cm =
     (case bind_ok (case hang of
                Some hang \<Rightarrow>
                  if call_at cm h should_send_hangup
                  then on_call h (call_op (send_hangup_via_signaling_to_all (cm_serve P h) hang)) cm
                  else (cm, Ok ())
              | None \<Rightarrow> (cm, Ok ())) (\<lambda>_ cm.
              terminate_and_drop_call P E now cid cm) of
        (cm, Ok _) \<Rightarrow> cm
      | (cm, Err _) \<Rightarrow> (case remote_peer_of cm h of
          Ok peer \<Rightarrow> fst (on_call_ended P peer cid InternalFailure cm)
        | Err _ \<Rightarrow> cm))"

definition handle_terminate_active_call ::
  "('p, 'peer) platform_ops \<Rightarrow> nat \<Rightarrow> hangup option \<Rightarrow> call_end_reason
   \<Rightarrow> ('p, 'peer, 'pc, 'sk, 'ig) cms \<Rightarrow> ('p, 'peer, 'pc, 'sk, 'ig) cm_result" where
  "handle_terminate_active_call P h hang reason cm =
     terminate_call P h hang (Some reason) (release_busy (clear_active_call cm))"

section \<open>Requests on the active call\<close>

text \<open>
  The address of the active call, when it is the one with the given id; the id of a call never
  changes, and the map files a call under its id.
\<close>

definition active_with_id :: "call_id \<Rightarrow> ('p, 'peer, 'pc, 'sk, 'ig) cms \<Rightarrow> nat option" where
  "active_with_id cid cm = (case active_call cm of
     Ok h \<Rightarrow> if call_at cm h (\<lambda>c. link_call_id c = cid) then Some h else None
   | Err _ \<Rightarrow> None)"

definition same_remote :: "('p, 'peer) platform_ops \<Rightarrow> 'peer \<Rightarrow> 'peer \<Rightarrow> bool" where
  "same_remote P peer other = (case compare_remotes P peer other of Ok b \<Rightarrow> b | Err _ \<Rightarrow> False)"

definition remote_peer_equals_active ::
  "('p, 'peer) platform_ops \<Rightarrow> nat \<Rightarrow> 'peer \<Rightarrow> ('p, 'peer, 'pc, 'sk, 'ig) cms \<Rightarrow> bool" where
  "remote_peer_equals_active P h peer cm = (case remote_peer_of cm h of
     Ok active_remote_peer \<Rightarrow> same_remote P active_remote_peer peer
   | Err _ \<Rightarrow> False)"

definition handle_call ::
  "('p, 'peer) platform_ops \<Rightarrow> nat \<Rightarrow> 'peer \<Rightarrow> call_id \<Rightarrow> call_media_type \<Rightarrow> device_id
   \<Rightarrow> ('p, 'peer, 'pc, 'sk, 'ig) cms \<Rightarrow> ('p, 'peer, 'pc, 'sk, 'ig) cm_result" where
  "handle_call P now peer cid media dev cm =
     (if busy cm then (cm, Err ringrtc_error.CallManagerIsBusy)
      else (case active_call_id cm of
        Some v \<Rightarrow> (cm, Err (CallAlreadyInProgress v))
      | None \<Rightarrow>
          (case create_call peer cid call_direction.Outgoing media dev cm of (h, cm) \<Rightarrow>
             (let cm = reset_messages_in_flight cm;
                  cm = cm\<lparr>call_by_call_id := AList.update cid h (call_by_call_id cm), busy := True,
                          active_call_id := Some cid\<rparr>
              in on_link h (\<lambda>c. inject_call_event StartCall (start_timeout_timer now TIME_OUT_PERIOD c)) cm))))"

definition cm_handle_accept_call ::
  "call_id \<Rightarrow> ('p, 'peer, 'pc, 'sk, 'ig) cms \<Rightarrow> ('p, 'peer, 'pc, 'sk, 'ig) cm_result" where
  "cm_handle_accept_call cid cm = (case active_with_id cid cm of
     Some h \<Rightarrow> on_link h (inject_call_event AcceptCall) cm
   | None \<Rightarrow> (cm, Ok ()))"

definition handle_drop_call ::
  "('p, 'peer) platform_ops \<Rightarrow> call_id \<Rightarrow> ('p, 'peer, 'pc, 'sk, 'ig) cms
   \<Rightarrow> ('p, 'peer, 'pc, 'sk, 'ig) cm_result" where
  "handle_drop_call P cid cm = (case active_with_id cid cm of
     Some h \<Rightarrow> handle_terminate_active_call P h None AppDroppedCall cm
   | None \<Rightarrow> (cm, Ok ()))"

definition cm_handle_proceed ::
  "call_id \<Rightarrow> nat \<Rightarrow> call_config \<Rightarrow> nat option \<Rightarrow> ('p, 'peer, 'pc, 'sk, 'ig) cms
   \<Rightarrow> ('p, 'peer, 'pc, 'sk, 'ig) cm_result" where
  "cm_handle_proceed cid ctx config levels cm = (case active_with_id cid cm of
     Some h \<Rightarrow> on_link h (\<lambda>c. bind_ok (set_call_context ctx c) (\<lambda>_ c. inject_call_event (Proceed config levels) c)) cm
   | None \<Rightarrow> (cm, Ok ()))"

definition handle_message_sent ::
  "('p, 'peer) platform_ops \<Rightarrow> ('p, 'peer, 'pc, 'sk, 'ig) cms \<Rightarrow> ('p, 'peer, 'pc, 'sk, 'ig) cm_result" where
  "handle_message_sent P cm = send_next_message P None (reset_messages_in_flight cm)"

definition handle_message_send_failure ::
  "('p, 'peer) platform_ops \<Rightarrow> call_id \<Rightarrow> ('p, 'peer, 'pc, 'sk, 'ig) cms
   \<Rightarrow> ('p, 'peer, 'pc, 'sk, 'ig) cm_result" where
  "handle_message_send_failure P cid cm =
     bind_ok (case active_with_id cid cm of
                Some h \<Rightarrow>
                  if call_at cm h (\<lambda>c. call_connected_or_reconnecting (link_state c))
                     \<and> last_sent_message_type (message_queue cm) = Some message_type.Ice
                  then (cm, Ok ())
                  else (fst (terminate_active_call P (call_at cm h should_send_hangup_on_failure) SignalingFailure cm),
                        Ok ())
              | None \<Rightarrow> (case map_of (call_by_call_id cm) cid of
                  Some h \<Rightarrow>
                    terminate_call P h
                      (if call_at cm h should_send_hangup_on_failure then Some hangup.Normal else None)
                      (Some SignalingFailure) cm
                | None \<Rightarrow> (cm, Ok ()))) (\<lambda>_ cm.
       send_next_message P None (reset_messages_in_flight cm))"

definition handle_hangup ::
  "('p, 'peer) platform_ops \<Rightarrow> ('p, 'peer, 'pc, 'sk, 'ig) cms \<Rightarrow> ('p, 'peer, 'pc, 'sk, 'ig) cm_result" where
  "handle_hangup P cm = (case active_call cm of
     Ok h \<Rightarrow> handle_terminate_active_call P h (Some hangup.Normal) LocalHangup cm
   | Err _ \<Rightarrow> (cm, Ok ()))"

definition cm_handle_received_answer ::
  "('p, 'peer) platform_ops \<Rightarrow> 'peer \<Rightarrow> call_id \<Rightarrow> received_answer \<Rightarrow> ('p, 'peer, 'pc, 'sk, 'ig) cms
   \<Rightarrow> ('p, 'peer, 'pc, 'sk, 'ig) cm_result" where
  "cm_handle_received_answer P peer cid received cm = (case active_with_id cid cm of
     Some h \<Rightarrow>
       if remote_peer_equals_active P h peer cm then on_link h (inject_call_event (ReceivedAnswer received)) cm
       else (cm, Ok ())
   | None \<Rightarrow> (cm, Ok ()))"

text \<open>
  Candidates and hangups: for the active call when the id and the peer agree; kept for later when
  the active call is an outgoing one with another id, or when there is no call at all.
\<close>

definition received_or_saved ::
  "('p, 'peer) platform_ops \<Rightarrow> 'peer \<Rightarrow> call_id \<Rightarrow> call_event
   \<Rightarrow> ('peer pending_call_messages \<Rightarrow> 'peer pending_call_messages) \<Rightarrow> ('p, 'peer, 'pc, 'sk, 'ig) cms
   \<Rightarrow> ('p, 'peer, 'pc, 'sk, 'ig) cm_result" where
  "received_or_saved P peer cid event save cm =
     (let saved = cm\<lparr>pending_call_messages := save (pending_call_messages cm)\<rparr> in
      case active_call cm of
        Ok h \<Rightarrow>
          if call_at cm h (\<lambda>c. link_call_id c = cid) then
            (if remote_peer_equals_active P h peer cm then on_link h (inject_call_event event) cm else (cm, Ok ()))
          else if call_at cm h (\<lambda>c. call_dir c = call_direction.Outgoing) then (saved, Ok ())
          else (cm, Ok ())
      | Err _ \<Rightarrow> if busy cm then (cm, Ok ()) else (saved, Ok ()))"

definition cm_handle_received_ice ::
  "('p, 'peer) platform_ops \<Rightarrow> 'peer \<Rightarrow> call_id \<Rightarrow> received_ice \<Rightarrow> ('p, 'peer, 'pc, 'sk, 'ig) cms
   \<Rightarrow> ('p, 'peer, 'pc, 'sk, 'ig) cm_result" where
  "cm_handle_received_ice P peer cid received =
     received_or_saved P peer cid (call_event.ReceivedIce received) (save_ice_candidates peer cid received)"

definition cm_handle_received_hangup ::
  "('p, 'peer) platform_ops \<Rightarrow> 'peer \<Rightarrow> call_id \<Rightarrow> received_hangup \<Rightarrow> ('p, 'peer, 'pc, 'sk, 'ig) cms
   \<Rightarrow> ('p, 'peer, 'pc, 'sk, 'ig) cm_result" where
  "cm_handle_received_hangup P peer cid received =
     received_or_saved P peer cid (call_event.ReceivedHangup received) (save_hangup peer cid received)"

definition handle_received_busy ::
  "('p, 'peer) platform_ops \<Rightarrow> 'peer \<Rightarrow> call_id \<Rightarrow> device_id \<Rightarrow> ('p, 'peer, 'pc, 'sk, 'ig) cms
   \<Rightarrow> ('p, 'peer, 'pc, 'sk, 'ig) cm_result" where
  "handle_received_busy P peer cid sender_device_id cm = (case active_with_id cid cm of
     Some h \<Rightarrow>
       if remote_peer_equals_active P h peer cm then
         bind_ok (on_call h (call_op (send_hangup_via_rtp_data_and_signaling_to_all_except (cm_serve P h)
                    (hangup.BusyOnAnotherDevice sender_device_id) sender_device_id)) cm) (\<lambda>_ cm.
           handle_terminate_active_call P h None RemoteBusy cm)
       else (cm, Ok ())
   | None \<Rightarrow> (cm, Ok ()))"

section \<open>A received offer\<close>

datatype received_offer_collision =
    NoCollision | CollidesBusy | GlareWinner | GlareLoser | GlareDoubleLoser | ReCall

text \<open>The position of a state in its declaration, which \<open>derive(PartialOrd)\<close> compares.\<close>

primrec call_state_rank :: "call_state \<Rightarrow> nat" where
  "call_state_rank call_state.NotYetStarted = 0"
| "call_state_rank call_state.WaitingToProceed = 1"
| "call_state_rank call_state.ConnectingBeforeAccepted = 2"
| "call_state_rank call_state.ConnectingAfterAccepted = 3"
| "call_state_rank call_state.ConnectedBeforeAccepted = 4"
| "call_state_rank call_state.ConnectedAndAccepted = 5"
| "call_state_rank call_state.ReconnectingAfterAccepted = 6"
| "call_state_rank call_state.Terminating = 7"
| "call_state_rank call_state.Terminated = 8"

instantiation call_state :: linorder
begin

definition less_eq_call_state :: "call_state \<Rightarrow> call_state \<Rightarrow> bool" where
  "less_eq_call_state a b \<longleftrightarrow> call_state_rank a \<le> call_state_rank b"

definition less_call_state :: "call_state \<Rightarrow> call_state \<Rightarrow> bool" where
  "less_call_state a b \<longleftrightarrow> call_state_rank a < call_state_rank b"

instance
proof
  fix a b c :: call_state
  show "a < b \<longleftrightarrow> a \<le> b \<and> \<not> b \<le> a" by (auto simp: less_eq_call_state_def less_call_state_def)
  show "a \<le> a" by (simp add: less_eq_call_state_def)
  show "a \<le> b \<Longrightarrow> b \<le> c \<Longrightarrow> a \<le> c" by (simp add: less_eq_call_state_def)
  show "a \<le> b \<Longrightarrow> b \<le> a \<Longrightarrow> a = b" by (cases a; cases b) (simp_all add: less_eq_call_state_def)
  show "a \<le> b \<or> b \<le> a" by (auto simp: less_eq_call_state_def)
qed

end

definition glare_tiebreaker :: "call_id \<Rightarrow> call_id \<Rightarrow> received_offer_collision" where
  "glare_tiebreaker active incoming =
     (if incoming < active then GlareWinner else if active < incoming then GlareLoser else GlareDoubleLoser)"

definition check_for_collision ::
  "('p, 'peer) platform_ops \<Rightarrow> nat \<Rightarrow> 'peer \<Rightarrow> call_id \<Rightarrow> received_offer \<Rightarrow> ('p, 'peer, 'pc, 'sk, 'ig) cms
   \<Rightarrow> received_offer_collision" where
  "check_for_collision P h peer incoming received cm = (case call_objects cm h of
     None \<Rightarrow> GlareDoubleLoser
   | Some (_, _, c) \<Rightarrow>
       if remote_peer_equals_active P h peer cm then
         (case active_device_id c of
            Ok device \<Rightarrow>
              if ro_sender_device_id received = device then
                (if call_state.ConnectedAndAccepted \<le> link_state c then ReCall
                 else glare_tiebreaker (link_call_id c) incoming)
              else CollidesBusy
          | Err _ \<Rightarrow> glare_tiebreaker (link_call_id c) incoming)
       else CollidesBusy)"

datatype active_call_action =
    DontTerminate | TerminateAndSendHangup call_end_reason | TerminateWithoutSendingHangup call_end_reason

datatype incoming_call_action = Ignore application_event | RejectAsBusy application_event | Start

primrec collision_actions :: "received_offer_collision \<Rightarrow> active_call_action \<times> incoming_call_action" where
  "collision_actions NoCollision = (DontTerminate, Start)"
| "collision_actions CollidesBusy = (DontTerminate, RejectAsBusy ReceivedOfferWhileActive)"
| "collision_actions GlareWinner = (DontTerminate, Ignore ReceivedOfferWithGlare)"
| "collision_actions GlareLoser = (TerminateAndSendHangup RemoteGlare, Start)"
| "collision_actions GlareDoubleLoser = (TerminateAndSendHangup RemoteGlare, RejectAsBusy GlareHandlingFailure)"
| "collision_actions ReCall = (TerminateWithoutSendingHangup RemoteReCall, Start)"

definition offer_collision ::
  "('p, 'peer) platform_ops \<Rightarrow> 'peer \<Rightarrow> call_id \<Rightarrow> received_offer \<Rightarrow> ('p, 'peer, 'pc, 'sk, 'ig) cms
   \<Rightarrow> received_offer_collision" where
  "offer_collision P peer cid received cm = (case active_call_id cm of
     None \<Rightarrow> if busy cm then CollidesBusy else NoCollision
   | Some active \<Rightarrow> (case map_of (call_by_call_id cm) active of
       Some h \<Rightarrow> check_for_collision P h peer cid received cm
     | None \<Rightarrow> CollidesBusy))"

definition act_on_active_call ::
  "('p, 'peer) platform_ops \<Rightarrow> active_call_action \<Rightarrow> ('p, 'peer, 'pc, 'sk, 'ig) cms
   \<Rightarrow> ('p, 'peer, 'pc, 'sk, 'ig) cm_result" where
  "act_on_active_call P action cm = (case (action, active_call cm) of
     (TerminateAndSendHangup reason, Ok h) \<Rightarrow>
       terminate_call P h (Some hangup.Normal) (Some reason) (release_busy (clear_active_call cm))
   | (TerminateWithoutSendingHangup reason, Ok h) \<Rightarrow>
       terminate_call P h None (Some reason) (release_busy (clear_active_call cm))
   | _ \<Rightarrow> (cm, Ok ()))"

text \<open>The events for a new incoming call that arrived before it.\<close>

definition pending_events ::
  "('p, 'peer) platform_ops \<Rightarrow> 'peer \<Rightarrow> call_id \<Rightarrow> 'peer pending_call_messages \<Rightarrow> call_event list" where
  "pending_events P peer cid pend = (case pend of
     IceCandidates pending_peer pending_id received \<Rightarrow>
       if pending_id = cid \<and> same_remote P pending_peer peer then map call_event.ReceivedIce received else []
   | PendingHangup pending_peer pending_id received \<Rightarrow>
       if pending_id = cid \<and> same_remote P pending_peer peer then [call_event.ReceivedHangup received] else []
   | NoMessages \<Rightarrow> [])"

fun inject_all ::
  "call_event list \<Rightarrow> ('m, 'x) call_link_scheme \<Rightarrow> ('m, 'x) call_link_scheme \<times> (unit, ringrtc_error) result" where
  "inject_all [] c = (c, Ok ())"
| "inject_all (e # es) c = bind_ok (inject_call_event e c) (\<lambda>_ c. inject_all es c)"

definition start_incoming_call ::
  "('p, 'peer) platform_ops \<Rightarrow> nat \<Rightarrow> nat \<Rightarrow> 'peer \<Rightarrow> call_id \<Rightarrow> received_offer \<Rightarrow> ('p, 'peer, 'pc, 'sk, 'ig) cms
   \<Rightarrow> ('p, 'peer, 'pc, 'sk, 'ig) cm_result" where
  "start_incoming_call P now h peer cid received cm = (case active_call_id cm of
     Some active \<Rightarrow> (cm, Err (CallAlreadyInProgress active))
   | None \<Rightarrow>
       (let cm = reset_messages_in_flight cm;
            cm = cm\<lparr>call_by_call_id := AList.update cid h (call_by_call_id cm), busy := True,
                    active_call_id := Some cid\<rparr> in
        bind_ok (on_link h (\<lambda>c.
                   bind_ok (handle_received_offer received (start_timeout_timer now TIME_OUT_PERIOD c))
                     (\<lambda>_ c. inject_call_event StartCall c)) cm) (\<lambda>_ cm.
          on_link h (inject_all (pending_events P peer cid (pending_call_messages cm)))
            (cm\<lparr>pending_call_messages := NoMessages\<rparr>))))"

definition act_on_incoming_call ::
  "('p, 'peer) platform_ops \<Rightarrow> nat \<Rightarrow> nat \<Rightarrow> 'peer \<Rightarrow> call_id \<Rightarrow> received_offer \<Rightarrow> incoming_call_action
   \<Rightarrow> ('p, 'peer, 'pc, 'sk, 'ig) cms \<Rightarrow> ('p, 'peer, 'pc, 'sk, 'ig) cm_result" where
  "act_on_incoming_call P now h peer cid received action cm = (case action of
     Ignore event \<Rightarrow> on_platform P (OnEvent peer cid event) cm
   | RejectAsBusy event \<Rightarrow>
       bind_ok (on_platform P (OnEvent peer cid event) cm) (\<lambda>_ cm. send_busy P h cid cm)
   | Start \<Rightarrow> start_incoming_call P now h peer cid received cm)"

text \<open>
  The code holds the lock of \<open>busy\<close> throughout. It would be taken a second time only when the busy
  message for an offer with the id of the active call cannot be sent: the report of that error
  ends the active call, which releases \<open>busy\<close>. The code blocks there for ever; here it goes on.
\<close>

definition cm_handle_received_offer ::
  "('p, 'peer) platform_ops \<Rightarrow> nat \<Rightarrow> 'peer \<Rightarrow> call_id \<Rightarrow> received_offer \<Rightarrow> ('p, 'peer, 'pc, 'sk, 'ig) cms
   \<Rightarrow> ('p, 'peer, 'pc, 'sk, 'ig) cm_result" where
  "cm_handle_received_offer P now peer cid received cm = (case validate_offer received of
     Err _ \<Rightarrow>
       bind_ok (on_platform P (OnOfferExpired peer cid (ro_age received)) cm) (\<lambda>_ cm.
         on_platform P (OnCallConcluded peer cid) cm)
   | Ok _ \<Rightarrow>
       (case create_call peer cid call_direction.Incoming (offer_media_type (ro_offer received))
               (ro_receiver_device_id received) cm of
          (h, cm) \<Rightarrow>
            (case collision_actions (offer_collision P peer cid received cm) of
               (active_action, incoming_action) \<Rightarrow>
                 bind_ok (act_on_active_call P active_action cm) (\<lambda>_ cm.
                   act_on_incoming_call P now h peer cid received incoming_action cm))))"

section \<open>Reset and failures of requests\<close>

text \<open>The errors of the terminations are dropped.\<close>

definition handle_reset ::
  "('p, 'peer) platform_ops \<Rightarrow> ('p, 'peer, 'pc, 'sk, 'ig) cms \<Rightarrow> ('p, 'peer, 'pc, 'sk, 'ig) cm_result" where
  "handle_reset P cm =
     (let cm = fold (\<lambda>h cm. fst (terminate_call P h (Some hangup.Normal) None cm)) (map snd (call_by_call_id cm)) cm;
          cm = release_busy (clear_active_call cm)
      in (cm\<lparr>message_queue := (message_queue cm)\<lparr>queue := [], messages_in_flight := False\<rparr>\<rparr>, Ok ()))"

definition internal_api_error ::
  "('p, 'peer) platform_ops \<Rightarrow> ringrtc_error \<Rightarrow> ('p, 'peer, 'pc, 'sk, 'ig) cms
   \<Rightarrow> ('p, 'peer, 'pc, 'sk, 'ig) cm_result" where
  "internal_api_error P e cm = (case active_call cm of
     Ok h \<Rightarrow> (case call_objects cm h of
         Some (_, _, c) \<Rightarrow> cm_internal_error P (link_call_id c) e cm
       | None \<Rightarrow> (cm, Ok ()))
   | Err _ \<Rightarrow> (cm, Ok ()))"

definition internal_create_api_error ::
  "('p, 'peer) platform_ops \<Rightarrow> 'peer \<Rightarrow> call_id \<Rightarrow> ringrtc_error \<Rightarrow> ('p, 'peer, 'pc, 'sk, 'ig) cms
   \<Rightarrow> ('p, 'peer, 'pc, 'sk, 'ig) cms" where
  "internal_create_api_error P peer cid e cm =
     (if (case active_call cm of Ok h \<Rightarrow> remote_peer_equals_active P h peer cm | Err _ \<Rightarrow> False)
      then fst (internal_api_error P e cm)
      else (let cm = fst (on_call_ended P peer cid InternalFailure cm)
            in fst (on_platform P (OnCallConcluded peer cid) cm)))"

end
