(* ===== verification/Call_Manager_Worker.thy ===== *)
theory Call_Manager_Worker
  imports Call_Manager_Api
begin

text \<open>
  The call manager, third part: group rings, the bookkeeping of group call clients, the worker that
  runs the requests of the application one after the other, and the requests themselves. A new group
  call client is started by \<open>group_call.rs\<close>; whether that succeeds is an argument.
\<close>

section \<open>Group rings\<close>

datatype ring_cancel_reason = DeclinedByUser | CancelBusy

datatype opaque_ring_validation_error = NotARing | RingExpired | RejectedByCallback

definition validate_call_message_as_opaque_ring ::
  "call_message \<Rightarrow> nat \<Rightarrow> (group_id \<Rightarrow> ring_id \<Rightarrow> bool) \<Rightarrow> (unit, opaque_ring_validation_error) result" where
  "validate_call_message_as_opaque_ring message message_age validate_group_ring =
     (case ring_intention message of
        None \<Rightarrow> Err NotARing
      | Some m \<Rightarrow> (case (rm_group_id m, rm_type m, rm_ring_id m) of
          (Some group_id, Some ring_type, Some ring_id) \<Rightarrow>
            if intention_type_of ring_type \<noteq> Some IntentionRing then Err NotARing
            else if MAX_MESSAGE_AGE < message_age then Err RingExpired
            else if \<not> validate_group_ring group_id ring_id then Err RejectedByCallback
            else Ok ()
        | _ \<Rightarrow> Err NotARing))"

definition remove_outstanding_group_ring ::
  "group_id \<Rightarrow> user_id option \<Rightarrow> ring_id \<Rightarrow> ('p, 'peer, 'pc, 'sk, 'ig) cms \<Rightarrow> ('p, 'peer, 'pc, 'sk, 'ig) cms" where
  "remove_outstanding_group_ring group_id expected_user_id ring_id cm =
     (case map_of (outstanding_group_rings cm) group_id of
        Some ring \<Rightarrow>
          if ring_ring_id ring = ring_id
             \<and> (case expected_user_id of None \<Rightarrow> True | Some expected \<Rightarrow> ring_sender_id ring = expected)
          then cm\<lparr>outstanding_group_rings := AList.delete group_id (outstanding_group_rings cm)\<rparr>
          else cm
      | None \<Rightarrow> cm)"

definition send_signaling_message ::
  "('p, 'peer) platform_ops \<Rightarrow> user_id \<Rightarrow> call_message \<Rightarrow> signaling_message_urgency
   \<Rightarrow> ('p, 'peer, 'pc, 'sk, 'ig) cms \<Rightarrow> ('p, 'peer, 'pc, 'sk, 'ig) cms" where
  "send_signaling_message P recipient message urgency cm = (case call_message_encode P message of
     Ok bytes \<Rightarrow> fst (on_platform P (SendCallMessage recipient bytes urgency) cm)
   | Err _ \<Rightarrow> cm)"

definition ring_response_message :: "group_id \<Rightarrow> ring_id \<Rightarrow> 32 word \<Rightarrow> call_message" where
  "ring_response_message group_id ring_id ty =
     \<lparr> group_call_message = None, ring_intention = None,
       ring_response = Some \<lparr> rm_group_id = Some group_id, rm_type = Some ty, rm_ring_id = Some ring_id \<rparr> \<rparr>"

definition cancel_group_ring ::
  "('p, 'peer) platform_ops \<Rightarrow> group_id \<Rightarrow> ring_id \<Rightarrow> ring_cancel_reason option
   \<Rightarrow> ('p, 'peer, 'pc, 'sk, 'ig) cms \<Rightarrow> ('p, 'peer, 'pc, 'sk, 'ig) cms" where
  "cancel_group_ring P group_id ring_id reason cm =
     (let cm = remove_outstanding_group_ring group_id None ring_id cm in
      case reason of
        None \<Rightarrow> cm
      | Some reason \<Rightarrow> (case self_uuid cm of
          None \<Rightarrow> cm
        | Some uuid \<Rightarrow>
            send_signaling_message P uuid
              (ring_response_message group_id ring_id (case reason of DeclinedByUser \<Rightarrow> 2 | CancelBusy \<Rightarrow> 3))
              HandleImmediately cm))"

definition live_rings :: "nat \<Rightarrow> (group_id \<times> outstanding_group_ring) list \<Rightarrow> (group_id \<times> outstanding_group_ring) list" where
  "live_rings now = filter (\<lambda>(_, ring). \<not> has_expired now ring)"

definition active_in_group :: "group_id \<Rightarrow> group_call_client \<Rightarrow> bool" where
  "active_in_group group_id c \<longleftrightarrow> gc_group_id c = group_id \<and> gc_active c"

definition send_request :: "group_call_request \<Rightarrow> group_call_client \<Rightarrow> group_call_client" where
  "send_request req c = c\<lparr>gc_requests := gc_requests c @ [req]\<rparr>"

definition start_group_ring ::
  "('p, 'peer) platform_ops \<Rightarrow> nat \<Rightarrow> group_id \<Rightarrow> ring_id \<Rightarrow> user_id \<Rightarrow> ('p, 'peer, 'pc, 'sk, 'ig) cms
   \<Rightarrow> ('p, 'peer, 'pc, 'sk, 'ig) cms" where
  "start_group_ring P now group_id ring_id sender_uuid cm =
     cm\<lparr>outstanding_group_rings := AList.update group_id
            \<lparr> ring_sender_id = sender_uuid, ring_ring_id = ring_id, ring_received = now \<rparr>
            (live_rings now (outstanding_group_rings cm)),
        group_call_by_client_id := map (\<lambda>(i, c).
            (i, if active_in_group group_id c then send_request (ProvideRingIdIfAbsent ring_id) c else c))
            (group_call_by_client_id cm),
        worker := actor_send_delayed now (ring_time P) (TaskRingTimeout group_id ring_id sender_uuid) (worker cm)\<rparr>"

definition group_call_ring_update ::
  "('p, 'peer) platform_ops \<Rightarrow> group_id \<Rightarrow> ring_id \<Rightarrow> user_id \<Rightarrow> ring_update \<Rightarrow> ('p, 'peer, 'pc, 'sk, 'ig) cms
   \<Rightarrow> ('p, 'peer, 'pc, 'sk, 'ig) cms" where
  "group_call_ring_update P group_id ring_id sender upd cm =
     fst (on_platform P (GroupCallRingUpdate group_id ring_id sender upd) cm)"

definition ring_timeout ::
  "('p, 'peer) platform_ops \<Rightarrow> group_id \<Rightarrow> ring_id \<Rightarrow> user_id \<Rightarrow> ('p, 'peer, 'pc, 'sk, 'ig) cms
   \<Rightarrow> ('p, 'peer, 'pc, 'sk, 'ig) cms" where
  "ring_timeout P group_id ring_id sender cm =
     group_call_ring_update P group_id ring_id sender ExpiredRequest
       (remove_outstanding_group_ring group_id (Some sender) ring_id cm)"

definition handle_ring_intention ::
  "('p, 'peer) platform_ops \<Rightarrow> nat \<Rightarrow> user_id \<Rightarrow> ring_message \<Rightarrow> nat \<Rightarrow> ('p, 'peer, 'pc, 'sk, 'ig) cms
   \<Rightarrow> ('p, 'peer, 'pc, 'sk, 'ig) cms" where
  "handle_ring_intention P now sender m message_age cm =
     (case (rm_group_id m, Option.bind (rm_type m) intention_type_of, rm_ring_id m) of
        (Some group_id, Some ring_type, Some ring_id) \<Rightarrow>
          (case (case ring_type of
                   IntentionRing \<Rightarrow>
                     if MAX_MESSAGE_AGE < message_age then (cm, ExpiredRequest)
                     else if busy cm then (cancel_group_ring P group_id ring_id (Some CancelBusy) cm, BusyLocally)
                     else (start_group_ring P now group_id ring_id sender cm, Requested)
                 | IntentionCancelled \<Rightarrow>
                     (remove_outstanding_group_ring group_id (Some sender) ring_id cm, CancelledByRinger)) of
             (cm, upd) \<Rightarrow> group_call_ring_update P group_id ring_id sender upd cm)
      | _ \<Rightarrow> cm)"

definition handle_ring_response ::
  "('p, 'peer) platform_ops \<Rightarrow> user_id \<Rightarrow> ring_message \<Rightarrow> ('p, 'peer, 'pc, 'sk, 'ig) cms
   \<Rightarrow> ('p, 'peer, 'pc, 'sk, 'ig) cms" where
  "handle_ring_response P sender m cm =
     (if self_uuid cm \<noteq> Some sender then cm
      else (case (rm_group_id m, Option.bind (rm_type m) response_type_of, rm_ring_id m) of
        (Some group_id, Some ty, Some ring_id) \<Rightarrow>
          (case ty of
             ResponseRinging \<Rightarrow> cm
           | ResponseAccepted \<Rightarrow> group_call_ring_update P group_id ring_id sender ring_update.AcceptedOnAnotherDevice
               (remove_outstanding_group_ring group_id None ring_id cm)
           | ResponseBusy \<Rightarrow> group_call_ring_update P group_id ring_id sender ring_update.BusyOnAnotherDevice
               (remove_outstanding_group_ring group_id None ring_id cm)
           | ResponseDeclined \<Rightarrow> group_call_ring_update P group_id ring_id sender ring_update.DeclinedOnAnotherDevice
               (remove_outstanding_group_ring group_id None ring_id cm))
      | _ \<Rightarrow> cm))"

text \<open>The first client that matches, in the order in which the hash map is iterated.\<close>

fun update_first :: "('a \<Rightarrow> bool) \<Rightarrow> ('a \<Rightarrow> 'a) \<Rightarrow> ('k \<times> 'a) list \<Rightarrow> ('k \<times> 'a) list" where
  "update_first Q f [] = []"
| "update_first Q f ((k, a) # xs) = (if Q a then (k, f a) # xs else (k, a) # update_first Q f xs)"

definition handle_received_call_message ::
  "('p, 'peer) platform_ops \<Rightarrow> nat \<Rightarrow> user_id \<Rightarrow> bytes \<Rightarrow> nat \<Rightarrow> ('p, 'peer, 'pc, 'sk, 'ig) cms
   \<Rightarrow> ('p, 'peer, 'pc, 'sk, 'ig) cm_result" where
  "handle_received_call_message P now sender bytes message_age cm = (case call_message_decode P bytes of
     Err e \<Rightarrow> (cm, Err e)
   | Ok message \<Rightarrow>
       (case (ring_intention message, ring_response message, group_call_message message) of
          (Some m, _, _) \<Rightarrow> (handle_ring_intention P now sender m message_age cm, Ok ())
        | (None, Some m, _) \<Rightarrow> (handle_ring_response P sender m cm, Ok ())
        | (None, None, Some m) \<Rightarrow> (case dtd_group_id m of
            Some group_id \<Rightarrow>
              (cm\<lparr>group_call_by_client_id := update_first (active_in_group group_id)
                     (send_request (OnSignalingMessageReceived sender m)) (group_call_by_client_id cm)\<rparr>, Ok ())
          | None \<Rightarrow> (cm, Ok ()))
        | (None, None, None) \<Rightarrow> (cm, Ok ())))"

section \<open>Group call clients\<close>

definition INVALID_CLIENT_ID :: "32 word" where
  "INVALID_CLIENT_ID = 0"

definition take_client_id :: "('p, 'peer, 'pc, 'sk, 'ig) cms \<Rightarrow> 32 word \<times> ('p, 'peer, 'pc, 'sk, 'ig) cms" where
  "take_client_id cm =
     (let client_id = (if next_group_call_client_id cm = INVALID_CLIENT_ID
                       then next_group_call_client_id cm + 1 else next_group_call_client_id cm)
      in (client_id, cm\<lparr>next_group_call_client_id := client_id + 1\<rparr>))"

definition create_group_call_client ::
  "nat \<Rightarrow> (unit, ringrtc_error) result \<Rightarrow> group_id \<Rightarrow> ('p, 'peer, 'pc, 'sk, 'ig) cms
   \<Rightarrow> ('p, 'peer, 'pc, 'sk, 'ig) cms \<times> (32 word, ringrtc_error) result" where
  "create_group_call_client now started group_id cm =
     (if list_ex (\<lambda>(_, c). active_in_group group_id c) (group_call_by_client_id cm)
      then (cm, Err ClientAlreadyExistsForCall)
      else (case take_client_id cm of (client_id, cm) \<Rightarrow>
        (let rings = live_rings now (outstanding_group_rings cm);
             ring_id = map_option ring_ring_id (map_of rings group_id);
             cm = cm\<lparr>outstanding_group_rings := rings\<rparr> in
         case started of
           Err e \<Rightarrow> (cm, Err e)
         | Ok _ \<Rightarrow>
             (cm\<lparr>group_call_by_client_id := AList.update client_id
                   \<lparr> gc_group_id = group_id, gc_active = True, gc_ring_id = ring_id, gc_requests = [] \<rparr>
                   (group_call_by_client_id cm)\<rparr>, Ok client_id))))"

definition create_call_link_call_client ::
  "(unit, ringrtc_error) result \<Rightarrow> group_id \<Rightarrow> ('p, 'peer, 'pc, 'sk, 'ig) cms
   \<Rightarrow> ('p, 'peer, 'pc, 'sk, 'ig) cms \<times> (32 word, ringrtc_error) result" where
  "create_call_link_call_client started room_id cm =
     (if list_ex (\<lambda>(_, c). active_in_group room_id c) (group_call_by_client_id cm)
      then (cm, Err ClientAlreadyExistsForCall)
      else (case take_client_id cm of (client_id, cm) \<Rightarrow>
        (case started of
           Err e \<Rightarrow> (cm, Err e)
         | Ok _ \<Rightarrow>
             (cm\<lparr>group_call_by_client_id := AList.update client_id
                   \<lparr> gc_group_id = room_id, gc_active = True, gc_ring_id = None, gc_requests = [] \<rparr>
                   (group_call_by_client_id cm)\<rparr>, Ok client_id))))"

definition delete_group_call_client ::
  "32 word \<Rightarrow> ('p, 'peer, 'pc, 'sk, 'ig) cms \<Rightarrow> ('p, 'peer, 'pc, 'sk, 'ig) cms" where
  "delete_group_call_client client_id cm =
     cm\<lparr>group_call_by_client_id := AList.delete client_id (group_call_by_client_id cm)\<rparr>"

definition with_group_call ::
  "32 word \<Rightarrow> (group_call_client \<Rightarrow> group_call_client) \<Rightarrow> ('p, 'peer, 'pc, 'sk, 'ig) cms
   \<Rightarrow> ('p, 'peer, 'pc, 'sk, 'ig) cms" where
  "with_group_call client_id g cm = (case map_of (group_call_by_client_id cm) client_id of
     Some c \<Rightarrow> cm\<lparr>group_call_by_client_id := AList.update client_id (g c) (group_call_by_client_id cm)\<rparr>
   | None \<Rightarrow> cm)"

definition cm_disconnect :: "32 word \<Rightarrow> ('p, 'peer, 'pc, 'sk, 'ig) cms \<Rightarrow> ('p, 'peer, 'pc, 'sk, 'ig) cms" where
  "cm_disconnect client_id =
     with_group_call client_id (\<lambda>c. send_request Disconnect (c\<lparr>gc_active := False\<rparr>))"

text \<open>
  The busy flag is shared with the group call clients, which take it when they join and release it
  when they leave, on threads of their own.
\<close>

definition client_take_busy :: "('p, 'peer, 'pc, 'sk, 'ig) cms \<Rightarrow> ('p, 'peer, 'pc, 'sk, 'ig) cms \<times> bool" where
  "client_take_busy cm = (if busy cm then (cm, False) else (cm\<lparr>busy := True\<rparr>, True))"

definition client_release_busy :: "('p, 'peer, 'pc, 'sk, 'ig) cms \<Rightarrow> ('p, 'peer, 'pc, 'sk, 'ig) cms" where
  "client_release_busy cm = cm\<lparr>busy := False\<rparr>"

section \<open>The worker\<close>

text \<open>
  \<open>handle_active_call_api\<close> reports an error on the active call, the two requests that create a call
  have their own handler, and \<open>handle_api\<close> only logs.
\<close>

definition or_api_error ::
  "('p, 'peer) platform_ops \<Rightarrow> ('p, 'peer, 'pc, 'sk, 'ig) cm_result \<Rightarrow> ('p, 'peer, 'pc, 'sk, 'ig) cms" where
  "or_api_error P res = (case res of
     (cm, Ok _) \<Rightarrow> cm
   | (cm, Err e) \<Rightarrow> fst (internal_api_error P e cm))"

definition or_create_api_error ::
  "('p, 'peer) platform_ops \<Rightarrow> 'peer \<Rightarrow> call_id \<Rightarrow> ('p, 'peer, 'pc, 'sk, 'ig) cm_result
   \<Rightarrow> ('p, 'peer, 'pc, 'sk, 'ig) cms" where
  "or_create_api_error P peer cid res = (case res of
     (cm, Ok _) \<Rightarrow> cm
   | (cm, Err e) \<Rightarrow> internal_create_api_error P peer cid e cm)"

definition run_cm_task ::
  "('p, 'peer) platform_ops \<Rightarrow> ('pc, ('p, 'peer, 'pc, 'sk, 'ig) cms, 'sd, 'ig, 'sk) call_env \<Rightarrow> nat
   \<Rightarrow> 'peer cm_task \<Rightarrow> ('p, 'peer, 'pc, 'sk, 'ig) cms \<Rightarrow> ('p, 'peer, 'pc, 'sk, 'ig) cms" where
  "run_cm_task P E now t cm = (case t of
     TaskCall peer cid media dev \<Rightarrow> or_create_api_error P peer cid (handle_call P now peer cid media dev cm)
   | TaskAcceptCall cid \<Rightarrow> or_api_error P (cm_handle_accept_call cid cm)
   | TaskDropCall cid \<Rightarrow> or_api_error P (handle_drop_call P cid cm)
   | TaskProceed cid ctx config levels \<Rightarrow> or_api_error P (cm_handle_proceed cid ctx config levels cm)
   | TaskMessageSent cid \<Rightarrow> or_api_error P (handle_message_sent P cm)
   | TaskMessageSendFailure cid \<Rightarrow> or_api_error P (handle_message_send_failure P cid cm)
   | TaskHangup \<Rightarrow> or_api_error P (handle_hangup P cm)
   | TaskReceivedOffer peer cid received \<Rightarrow>
       or_create_api_error P peer cid (cm_handle_received_offer P now peer cid received cm)
   | TaskReceivedAnswer peer cid received \<Rightarrow> or_api_error P (cm_handle_received_answer P peer cid received cm)
   | TaskReceivedIce peer cid received \<Rightarrow> or_api_error P (cm_handle_received_ice P peer cid received cm)
   | TaskReceivedHangup peer cid received \<Rightarrow> or_api_error P (cm_handle_received_hangup P peer cid received cm)
   | TaskReceivedBusy peer cid dev \<Rightarrow> or_api_error P (handle_received_busy P peer cid dev cm)
   | TaskReceivedCallMessage sender bytes age \<Rightarrow> fst (handle_received_call_message P now sender bytes age cm)
   | TaskReset \<Rightarrow> fst (handle_reset P cm)
   | TaskTerminate h cid hang \<Rightarrow> run_terminate_task P E now h cid hang cm
   | TaskRingTimeout group_id ring_id sender \<Rightarrow> ring_timeout P group_id ring_id sender cm)"

text \<open>One round of the worker's loop.\<close>

definition cm_worker_step ::
  "('p, 'peer) platform_ops \<Rightarrow> ('pc, ('p, 'peer, 'pc, 'sk, 'ig) cms, 'sd, 'ig, 'sk) call_env \<Rightarrow> nat
   \<Rightarrow> ('p, 'peer, 'pc, 'sk, 'ig) cms \<Rightarrow> ('p, 'peer, 'pc, 'sk, 'ig) cms" where
  "cm_worker_step P E now cm = (case actor_iterate now (worker cm) of
     (Some t, w) \<Rightarrow> run_cm_task P E now t (cm\<lparr>worker := w\<rparr>)
   | (None, w) \<Rightarrow> cm\<lparr>worker := w\<rparr>)"

section \<open>Requests of the application\<close>

text \<open>
  Every request on calls is a task of the worker. The requests that are answered at once are those on
  assets, on the user's own id, on rings and on group call clients.
\<close>

definition add_asset ::
  "asset_env \<Rightarrow> string \<Rightarrow> asset_handle \<Rightarrow> ('p, 'peer, 'pc, 'sk, 'ig) cms
   \<Rightarrow> ('p, 'peer, 'pc, 'sk, 'ig) cms \<times> (unit, asset_error) result" where
  "add_asset A grp handle cm = (case add_asset_for_feature A grp handle (asset_manager_of cm) of
     (m, r) \<Rightarrow> (cm\<lparr>asset_manager_of := m\<rparr>, r))"

definition set_self_uuid :: "user_id \<Rightarrow> ('p, 'peer, 'pc, 'sk, 'ig) cms \<Rightarrow> ('p, 'peer, 'pc, 'sk, 'ig) cms" where
  "set_self_uuid uuid cm = cm\<lparr>self_uuid := Some uuid\<rparr>"

text \<open>
  \<open>close\<close> queues a reset, then stops the worker and waits for it to end. How many rounds the worker
  makes in between is a matter of scheduling; it is the argument \<open>n\<close>, and a theorem holds for those
  \<open>n\<close> that it names.
\<close>

fun run_worker ::
  "('p, 'peer) platform_ops \<Rightarrow> ('pc, ('p, 'peer, 'pc, 'sk, 'ig) cms, 'sd, 'ig, 'sk) call_env \<Rightarrow> nat \<Rightarrow> nat
   \<Rightarrow> ('p, 'peer, 'pc, 'sk, 'ig) cms \<Rightarrow> ('p, 'peer, 'pc, 'sk, 'ig) cms" where
  "run_worker P E now 0 cm = cm"
| "run_worker P E now (Suc n) cm = run_worker P E now n (cm_worker_step P E now cm)"

definition cm_close ::
  "('p, 'peer) platform_ops \<Rightarrow> ('pc, ('p, 'peer, 'pc, 'sk, 'ig) cms, 'sd, 'ig, 'sk) call_env \<Rightarrow> nat \<Rightarrow> nat
   \<Rightarrow> ('p, 'peer, 'pc, 'sk, 'ig) cms \<Rightarrow> ('p, 'peer, 'pc, 'sk, 'ig) cms" where
  "cm_close P E now n cm =
     (if has_been_stopped (worker cm) then cm
      else (let cm = run_worker P E now n (cm_worker_spawn TaskReset cm)
            in cm\<lparr>worker := stop_all_and_join now (worker cm)\<rparr>))"

end
