(* ===== verification/Actor_Tasks.thy ===== *)
theory Actor_Tasks
  imports Event_Actor "HOL-Library.Multiset"
begin

text \<open>
  The tasks that wait in an actor, in its queue and in its heap: an iteration of the thread takes one of
  them, or drops some when the actor has been stopped. Invariants of the components that run on
  actors count waiting tasks.
\<close>

definition actor_tasks :: "'f actor \<Rightarrow> 'f list" where
  "actor_tasks a = List.map_filter run (inbox a @ delayed_tasks a)"

lemma mset_heap_push: "mset (heap_push t us) = add_mset t (mset us)"
  by (induction t us rule: heap_push.induct) auto

definition pending_runs :: "'f actor \<Rightarrow> 'f option multiset" where
  "pending_runs a = image_mset run (mset (inbox a @ delayed_tasks a))"

definition somes :: "'f option multiset \<Rightarrow> 'f multiset" where
  "somes M = image_mset the (filter_mset (\<lambda>x. x \<noteq> None) M)"

lemma somes_simps [simp]:
  "somes {#} = {#}" "somes (add_mset None M) = somes M" "somes (add_mset (Some t) M) = add_mset t (somes M)"
  by (simp_all add: somes_def)

lemma next_received_runs:
  "next_received now a = Some (t, a') \<Longrightarrow> pending_runs a = add_mset (run t) (pending_runs a')"
  by (auto simp: pending_runs_def next_received_def into_immediate_def split: list.splits if_splits)

lemma actor_tasks_mset: "mset (actor_tasks a) = somes (pending_runs a)"
proof -
  have "mset (List.map_filter run ts) = somes (image_mset run (mset ts))" for ts :: "'a task list"
    by (induction ts) (auto simp: somes_def split: option.split)
  then show ?thesis
    by (simp only: actor_tasks_def pending_runs_def)
qed

lemma iterate_tasks:
  "actor_iterate now a = (Some t, a') \<Longrightarrow> mset (actor_tasks a) = add_mset t (mset (actor_tasks a'))"
  "actor_iterate now a = (None, a') \<Longrightarrow> mset (actor_tasks a') \<subseteq># mset (actor_tasks a)"
proof -
  have push: "pending_runs (b\<lparr>delayed_tasks := heap_push u (delayed_tasks b)\<rparr>) = add_mset (run u) (pending_runs b)"
    for u and b :: "'a actor"
    by (simp add: pending_runs_def mset_heap_push)
  have stop: "pending_runs (b\<lparr>inbox := [], delayed_tasks := [], ended := True\<rparr>) = {#}" for b :: "'a actor"
    by (simp add: pending_runs_def)
  show "mset (actor_tasks a) = add_mset t (mset (actor_tasks a'))" if "actor_iterate now a = (Some t, a')"
    using that next_received_runs [of now a]
    by (auto simp: actor_iterate_def actor_tasks_mset split: if_splits option.splits prod.splits)
  show "mset (actor_tasks a') \<subseteq># mset (actor_tasks a)" if "actor_iterate now a = (None, a')"
    using that next_received_runs [of now a]
    by (auto simp: actor_iterate_def actor_tasks_mset push stop split: if_splits option.splits prod.splits)
qed

end
