(* ===== verification/Call_Manager_Inv.thy ===== *)
theory Call_Manager_Inv
  imports Call_Manager_Worker Call_Shutdown Actor_Tasks
begin

text \<open>
  The call manager with its worker, the threads of its calls and the application interleaved: the
  active call is always one that the manager has. The proof follows what an operation may do to the
  calls: \<open>winds\<close> relates a manager to one in which calls have only been brought to their end.
\<close>

section \<open>Operations on a call and the manager behind it\<close>

text \<open>
  The operations of a call reach its manager only through requests: a relation that every request
  respects relates the manager before and after them.
\<close>

definition link_kept :: "('m, 'x) call_link_scheme \<Rightarrow> ('m, 'x) call_link_scheme \<Rightarrow> bool" where
  "link_kept p p' \<longleftrightarrow> link_call_id p' = link_call_id p \<and> manager p' = manager p
     \<and> link_call_context p' = link_call_context p"

lemma link_kept_refl [simp]: "link_kept p p"
  by (simp add: link_kept_def)

lemma link_kept_trans [trans]: "link_kept p q \<Longrightarrow> link_kept q r \<Longrightarrow> link_kept p r"
  by (simp add: link_kept_def)

lemma inject_call_event_kept [simp]: "link_kept p (fst (inject_call_event e p))"
  by (auto simp: inject_call_event_def link_kept_def split: prod.split sum.split try_send_error.split)

lemma set_state_kept [simp]: "link_kept p (snd (fst (set_state s (c, p))))"
proof -
  obtain q r where "inject_call_event (ConnectionObserverEvent (StateChanged s) (remote_device_id c)) p = (q, r)"
    by fastforce
  moreover from this have "link_kept p q"
    using inject_call_event_kept [of p "ConnectionObserverEvent (StateChanged s) (remote_device_id c)"] by simp
  ultimately show ?thesis
    by (simp add: set_state_def notify_observer_def on_connection_observer_event_def)
qed

lemma winding_event_kept:
  assumes "conn_terminating_or_terminated s"
  shows "\<exists>f' c'. fst (handle_event ops s e (f, c, p)) = (f', c', p) \<and> conn_state c' = conn_state c"
  using winding_event [OF assms, of e ops f c p] terminate_event [of ops s f c p]
  by (cases "e = connection_event.Terminate") auto

lemma run_machine_kept:
  "conn_terminating_or_terminated (conn_state c) \<Longrightarrow> \<exists>f' c'. run_machine ops n (f, c, p) = (f', c', p)"
proof (induction n arbitrary: f c)
  case (Suc n)
  show ?case
  proof (cases "\<exists>s e. recv (conn_stream c) = (s, Received e) \<and> \<not> terminate_complete c")
    case True
    then obtain s e where e: "recv (conn_stream c) = (s, Received e)" "\<not> terminate_complete c" by blast
    obtain f' c' where "fst (handle_event ops (conn_state c) e (f, c\<lparr>conn_stream := s\<rparr>, p)) = (f', c', p)"
      "conn_state c' = conn_state c"
      using winding_event_kept [OF Suc.prems, of ops e f "c\<lparr>conn_stream := s\<rparr>" p] by auto
    then show ?thesis
      using Suc e by (simp add: run_machine.simps run_once_def)
  next
    case False
    then show ?thesis
      using Suc by (auto simp: run_machine.simps run_once_def split: prod.split received.split)
  qed
qed (simp add: run_machine.simps)

lemma terminate_begin_kept:
  assumes "terminate_begin (c, p) = ((c', p'), r)"
  shows "link_kept p p' \<and> (r = Ok () \<longrightarrow> conn_state c' = connection_state.Terminating)"
proof -
  obtain d q s where ss: "set_state connection_state.Terminating (c, p) = ((d, q), s)"
    by (metis surj_pair)
  then have "link_kept p q"
    using set_state_kept [of p connection_state.Terminating c] by simp
  moreover have "conn_state d = connection_state.Terminating"
    using ss by (auto simp: set_state_def notify_observer_def split: if_splits prod.splits)
  ultimately show ?thesis
    using assms ss
    by (auto simp: terminate_begin_def inject_event_def split: sum.splits prod.splits try_send_error.splits)
qed

lemma terminate_finish_kept: "link_kept p (snd (fst (terminate_finish ops now (c, p))))"
proof -
  obtain d q s where ss: "set_state connection_state.Terminated (c, p) = ((d, q), s)"
    by (metis surj_pair)
  then have "link_kept p q"
    using set_state_kept [of p connection_state.Terminated c] by simp
  then show ?thesis
    using ss by (simp add: terminate_finish_def Let_def split: sum.split)
qed

lemma connection_terminate_kept: "link_kept p (snd (fst (connection_terminate ops now ((f, c), p))))"
proof -
  obtain c' p' r where b: "terminate_begin (c, p) = ((c', p'), r)"
    by (metis surj_pair)
  note kept = terminate_begin_kept [OF b]
  show ?thesis
  proof (cases r)
    case (Inr u)
    then have "conn_terminating_or_terminated (conn_state c')"
      using kept by simp
    then obtain f'' c'' where "run_machine ops (length (stream_events (conn_stream c'))) (f, c', p') = (f'', c'', p')"
      using run_machine_kept by blast
    then show ?thesis
      using kept b Inr terminate_finish_kept [of p' ops now c'']
      by (auto simp: connection_terminate_def intro: link_kept_trans split: prod.split)
  qed (use b kept in \<open>simp add: connection_terminate_def\<close>)
qed

lemma terminate_entries_kept: "link_kept call (terminate_entries ops now entries call)"
proof (induction entries arbitrary: call)
  case (Cons entry entries)
  obtain f c where "entry = (f, c)" by fastforce
  moreover obtain e' call' r where t: "connection_terminate ops now (entry, call) = ((e', call'), r)"
    by (metis surj_pair)
  ultimately have "link_kept call call'"
    using connection_terminate_kept [of call ops now f c] by simp
  moreover have "link_kept call' (call'\<lparr>retired := retired call' @ [e']\<rparr>)"
    by (simp add: link_kept_def)
  ultimately show ?case
    using Cons t by (auto intro: link_kept_trans)
qed simp

definition kept_by :: "('m \<Rightarrow> 'm \<Rightarrow> bool) \<Rightarrow> ('m, 'x) call_link_scheme \<Rightarrow> ('m, 'x) call_link_scheme \<Rightarrow> bool" where
  "kept_by R p p' \<longleftrightarrow> link_call_id p' = link_call_id p \<and> R (manager p) (manager p')"

text \<open>
  A preorder that every request of a call respects: what the manager guarantees of the operations of
  its calls.
\<close>

locale request_order =
  fixes cm :: "'m call_manager" and R :: "'m \<Rightarrow> 'm \<Rightarrow> bool"
  assumes order_refl: "R m m"
    and order_trans: "R m m' \<Longrightarrow> R m' m'' \<Longrightarrow> R m m''"
    and order_request: "R m (fst (cm cid req m))"
begin

lemma kept_refl: "kept_by R p p"
  by (simp add: kept_by_def order_refl)

lemma kept_trans: "kept_by R p p' \<Longrightarrow> kept_by R p' p'' \<Longrightarrow> kept_by R p p''"
  by (auto simp: kept_by_def intro: order_trans)

lemma link_kept_kept: "link_kept p p' \<Longrightarrow> kept_by R p p'"
  by (simp add: link_kept_def kept_by_def order_refl)

lemma cm_call_kept: "kept_by R p (fst (cm_call cm req p))"
  using order_request by (auto simp: cm_call_def kept_by_def split: prod.split) (metis fst_conv)

end

text \<open>The machine of a terminating call makes no request at all.\<close>

lemma call_winding_event_kept:
  assumes "call_terminating_or_terminated s" "call_terminating_or_terminated (link_state call)"
  shows "link_kept call (snd (fst (call_handle_event E s e (f, call))))
    \<and> call_terminating_or_terminated (link_state (snd (fst (call_handle_event E s e (f, call)))))"
  using call_winding_event [OF assms(1), of e E f call] call_terminate_event [of E s f call] assms(2)
  by (cases "e = call_event.Terminate") (auto simp: link_kept_def)

lemma call_run_machine_kept:
  "call_terminating_or_terminated (link_state call) \<Longrightarrow> link_kept call (snd (call_run_machine E n (f, call)))"
proof (induction n arbitrary: f call)
  case (Suc n)
  show ?case
  proof (cases "\<exists>s e. recv (link_stream call) = (s, Received e) \<and> \<not> call_terminate_complete call")
    case True
    then obtain s e where e: "recv (link_stream call) = (s, Received e)" "\<not> call_terminate_complete call" by blast
    obtain f' call' where h: "fst (call_handle_event E (link_state call) e (f, call\<lparr>link_stream := s\<rparr>)) = (f', call')"
      by fastforce
    have "link_kept (call\<lparr>link_stream := s\<rparr>) call' \<and> call_terminating_or_terminated (link_state call')"
      using call_winding_event_kept [OF Suc.prems, of "call\<lparr>link_stream := s\<rparr>" E e f] Suc.prems h by simp
    moreover have "link_kept call (call\<lparr>link_stream := s\<rparr>)"
      by (simp add: link_kept_def)
    ultimately show ?thesis
      using Suc.IH [of call' f'] e h
      by (auto simp: call_run_machine.simps call_run_once_def intro: link_kept_trans)
  next
    case False
    then show ?thesis
      using Suc by (auto simp: call_run_machine.simps call_run_once_def split: prod.split received.split)
  qed
qed (simp add: call_run_machine.simps)

text \<open>Terminating a call makes one request at most, which disconnects its media.\<close>

definition media_disconnected ::
  "('pc, 'm, 'sd, 'ig, 'sk) call_env \<Rightarrow> ('m, 'x) call_link_scheme \<Rightarrow> ('m, 'x) call_link_scheme" where
  "media_disconnected E call = (case call_context call of
     Ok ctx \<Rightarrow> fst (cm_call (e_cm E) (CmDisconnectIncomingMedia ctx) call) | Err _ \<Rightarrow> call)"

lemma terminate_connections_kept: "link_kept (media_disconnected E call) (terminate_connections E now call)"
proof -
  define c1 where "c1 = media_disconnected E call"
  define c2 where "c2 = (case forking c1 of
    Some fork \<Rightarrow> terminate_entries (e_ops E) now [parent_connection fork] (c1\<lparr>forking := None\<rparr>) | None \<Rightarrow> c1)"
  have "link_kept c1 (c1\<lparr>forking := None\<rparr>)" "link_kept c2 (c2\<lparr>connection_map := []\<rparr>)"
    by (simp_all add: link_kept_def)
  then have "link_kept c1 c2"
    by (auto simp: c2_def intro: link_kept_trans terminate_entries_kept split: option.split
        simp del: terminate_entries.simps)
  also have "link_kept c2 (terminate_entries (e_ops E) now (map snd (connection_map c2)) (c2\<lparr>connection_map := []\<rparr>))"
    by (rule link_kept_trans [OF \<open>link_kept c2 _\<close> terminate_entries_kept])
  also have "terminate_entries (e_ops E) now (map snd (connection_map c2)) (c2\<lparr>connection_map := []\<rparr>)
      = terminate_connections E now call"
    unfolding terminate_connections_def Let_def c1_def c2_def media_disconnected_def by (rule refl)
  finally show ?thesis
    by (simp add: c1_def)
qed

lemma call_terminate_phases:
  obtains call2 where "link_kept call call2"
    "snd (fst (call_terminate E now (f, call))) = call2 \<or> snd (fst (call_terminate E now (f, call))) = call_terminate_finish E now call2"
proof -
  obtain call1 r where b: "call_terminate_begin call = (call1, r)"
    by fastforce
  have k1: "link_kept call call1" "call_terminating_or_terminated (link_state call1)"
    using b inject_call_event_kept [of "call_set_state call_state.Terminating call" call_event.Terminate]
    by (auto simp: call_terminate_begin_def call_set_state_def link_kept_def inject_call_event_def
        split: prod.splits sum.splits try_send_error.splits)
  obtain f2 call2 where m: "call_run_machine E (length (stream_events (link_stream call1))) (f, call1) = (f2, call2)"
    by fastforce
  have k2: "link_kept call call2"
    using link_kept_trans [OF k1(1) call_run_machine_kept [OF k1(2), of E "length (stream_events (link_stream call1))" f]] m
    by simp
  show thesis
    using that [OF k1(1)] that [OF k2] b m by (cases r) (simp_all add: call_terminate_def)
qed

lemma call_terminate_finish_kept: "link_kept (media_disconnected E call) (call_terminate_finish E now call)"
  using terminate_connections_kept [of E call now]
  by (simp add: link_kept_def call_terminate_finish_def Let_def call_set_state_def)

lemma call_terminate_without_context:
  assumes "link_call_context call = None"
  shows "link_kept call (snd (fst (call_terminate E now (f, call))))"
proof -
  obtain call2 where k: "link_kept call call2" and
    r: "snd (fst (call_terminate E now (f, call))) = call2
        \<or> snd (fst (call_terminate E now (f, call))) = call_terminate_finish E now call2"
    by (rule call_terminate_phases)
  then have "media_disconnected E call2 = call2"
    using assms by (simp add: media_disconnected_def link_kept_def call_context_def)
  with call_terminate_finish_kept [of E call2 now] k r show ?thesis
    by (auto intro: link_kept_trans)
qed

context request_order
begin

lemma call_terminate_kept:
  assumes "e_cm E = cm"
  shows "kept_by R call (snd (fst (call_terminate E now (f, call))))"
proof -
  obtain call2 where k: "link_kept call call2" and
    r: "snd (fst (call_terminate E now (f, call))) = call2
        \<or> snd (fst (call_terminate E now (f, call))) = call_terminate_finish E now call2"
    by (rule call_terminate_phases)
  have "kept_by R call2 (media_disconnected E call2)"
    using cm_call_kept kept_refl by (auto simp: media_disconnected_def assms split: sum.split)
  from kept_trans [OF this link_kept_kept [OF call_terminate_finish_kept]] k r show ?thesis
    by (metis kept_trans link_kept_kept)
qed

lemma signaling_hangup_kept:
  "kept_by R call (fst (send_hangup_via_signaling_to_all cm h call))"
  by (simp add: send_hangup_via_signaling_to_all_def cm_call_kept)

end

lemma hang_up_device_kept: "link_kept call (fst (hang_up_device h d call))"
proof (cases "map_of (connection_map call) d")
  case (Some entry)
  obtain f c where entry: "entry = (f, c)" by fastforce
  obtain c' p' r where ss: "set_state connection_state.Terminating (c, call) = ((c', p'), r)"
    by (metis surj_pair)
  have "link_kept call p'"
    using set_state_kept [of call connection_state.Terminating c] ss by simp
  then show ?thesis
    using Some ss entry
    by (auto simp: hang_up_device_def with_connection_def on_entry_def inject_send_hangup_via_rtp_data_def
        link_kept_def split: sum.splits prod.splits)
qed (simp add: hang_up_device_def with_connection_def)

lemma for_each_device_kept:
  "(\<And>d call. link_kept call (fst (g d call))) \<Longrightarrow> link_kept call (fst (for_each_device ds g call))"
proof (induction ds arbitrary: call)
  case (Cons d ds)
  obtain call' r where g: "g d call = (call', r)" by fastforce
  then have "link_kept call call'"
    using Cons.prems [of call d] by simp
  then show ?case
    using Cons g by (auto simp: bind_ok_def intro: link_kept_trans split: sum.split)
qed simp

context request_order
begin

lemma hangup_others_kept:
  "kept_by R call (fst (send_hangup_via_rtp_data_and_signaling_to_all_except cm h d call))"
proof -
  obtain call' r where g: "send_hangup_via_rtp_data_to_all_except h d call = (call', r)" by fastforce
  have "link_kept call (fst (for_each_device (devices_except d (connection_map call)) (hang_up_device h) call))"
    by (rule for_each_device_kept) (rule hang_up_device_kept)
  then have k: "kept_by R call call'"
    using g by (simp add: send_hangup_via_rtp_data_to_all_except_def link_kept_kept)
  show ?thesis
    using g k kept_trans [OF k signaling_hangup_kept]
    by (simp add: send_hangup_via_rtp_data_and_signaling_to_all_except_def bind_ok_def split: sum.split)
qed

end

section \<open>Bringing calls to their end\<close>

definition object_ids :: "('p, 'peer, 'pc, 'sk, 'ig) cms \<Rightarrow> nat \<Rightarrow> call_id option" where
  "object_ids cm h = map_option (\<lambda>(_, _, c). link_call_id c) (call_objects cm h)"

definition term_id :: "'peer cm_task \<Rightarrow> call_id option" where
  "term_id t = (case t of TaskTerminate _ cid _ \<Rightarrow> Some cid | _ \<Rightarrow> None)"

definition start_id :: "'peer cm_task \<Rightarrow> call_id option" where
  "start_id t = (case t of TaskCall _ cid _ _ \<Rightarrow> Some cid | TaskReceivedOffer _ cid _ \<Rightarrow> Some cid | _ \<Rightarrow> None)"

text \<open>The calls that waiting tasks will end, and those that they will start.\<close>

definition term_ids :: "('p, 'peer, 'pc, 'sk, 'ig) cms \<Rightarrow> call_id set" where
  "term_ids cm = set (List.map_filter term_id (actor_tasks (worker cm)))"

definition start_ids :: "('p, 'peer, 'pc, 'sk, 'ig) cms \<Rightarrow> call_id multiset" where
  "start_ids cm = image_mset (the \<circ> start_id) (filter_mset (\<lambda>t. start_id t \<noteq> None) (mset (actor_tasks (worker cm))))"

definition filed_ids :: "('p, 'peer, 'pc, 'sk, 'ig) cms \<Rightarrow> call_id set" where
  "filed_ids cm = {cid. \<exists>h \<in> ran (map_of (call_by_call_id cm)). object_ids cm h = Some cid}"

definition winds :: "('p, 'peer, 'pc, 'sk, 'ig) cms \<Rightarrow> ('p, 'peer, 'pc, 'sk, 'ig) cms \<Rightarrow> bool" where
  "winds cm cm' \<longleftrightarrow> call_by_call_id cm' = call_by_call_id cm \<and> next_object cm' = next_object cm
     \<and> object_ids cm' = object_ids cm \<and> start_ids cm' = start_ids cm
     \<and> (active_call_id cm' = active_call_id cm \<or> active_call_id cm' = None)
     \<and> (\<forall>cid \<in> term_ids cm'. cid \<in> term_ids cm
          \<or> active_call_id cm' \<noteq> Some cid \<and> cid \<in> filed_ids cm)"

lemma winds_refl [simp]: "winds cm cm"
  by (simp add: winds_def)

lemma winds_trans [trans]: "winds cm cm' \<Longrightarrow> winds cm' cm'' \<Longrightarrow> winds cm cm''"
  by (auto simp: winds_def filed_ids_def)

lemma winds_bind:
  assumes "winds s (fst m)" "\<And>a s'. winds s s' \<Longrightarrow> winds s (fst (k a s'))"
  shows "winds s (fst (bind_ok m k))"
  using assms by (cases m; cases "snd m") auto

lemma map_filter_simps [simp]:
  "List.map_filter f [] = []"
  "List.map_filter f (x # xs) = (case f x of None \<Rightarrow> List.map_filter f xs | Some y \<Rightarrow> y # List.map_filter f xs)"
  "List.map_filter f (xs @ ys) = List.map_filter f xs @ List.map_filter f ys"
  by (simp_all add: List.map_filter_def split: option.split)

lemma spawned_tasks:
  "mset (actor_tasks (worker (cm_worker_spawn t cm))) = mset (actor_tasks (worker cm))
   \<or> mset (actor_tasks (worker (cm_worker_spawn t cm))) = add_mset t (mset (actor_tasks (worker cm)))"
  by (simp add: cm_worker_spawn_def actor_send_def send_task_def immediate_def actor_tasks_def)

lemma spawned_set: "set (actor_tasks (worker (cm_worker_spawn t cm))) \<subseteq> insert t (set (actor_tasks (worker cm)))"
  by (auto simp: cm_worker_spawn_def actor_send_def send_task_def immediate_def actor_tasks_def)

lemma term_ids_iff: "cid \<in> term_ids cm \<longleftrightarrow> (\<exists>t \<in> set (actor_tasks (worker cm)). term_id t = Some cid)"
  by (force simp: term_ids_def List.map_filter_def)

lemma spawn_view [simp]:
  "call_by_call_id (cm_worker_spawn t cm) = call_by_call_id cm" "next_object (cm_worker_spawn t cm) = next_object cm"
  "call_objects (cm_worker_spawn t cm) = call_objects cm" "active_call_id (cm_worker_spawn t cm) = active_call_id cm"
  "busy (cm_worker_spawn t cm) = busy cm"
  by (simp_all add: cm_worker_spawn_def)

lemma object_ids_cong: "call_objects cm' = call_objects cm \<Longrightarrow> object_ids cm' = object_ids cm"
  by (simp add: object_ids_def fun_eq_iff)

lemma tasks_cong:
  "worker cm' = worker cm \<Longrightarrow> term_ids cm' = term_ids cm \<and> start_ids cm' = start_ids cm"
  by (simp add: term_ids_def start_ids_def)

lemma winds_same:
  assumes "call_by_call_id cm' = call_by_call_id cm" "next_object cm' = next_object cm"
    "call_objects cm' = call_objects cm" "worker cm' = worker cm"
    "active_call_id cm' = active_call_id cm \<or> active_call_id cm' = None"
  shows "winds cm cm'"
  using assms object_ids_cong [OF assms(3)] tasks_cong [OF assms(4)] by (simp add: winds_def)

lemma winds_update [simp]:
  "winds cm (cm\<lparr>platform_state := p\<rparr>)" "winds cm (cm\<lparr>message_queue := q\<rparr>)" "winds cm (set_queue l cm)"
  "winds cm (trim_messages cid cm)" "winds cm (reset_messages_in_flight cm)"
  "winds cm (cm\<lparr>pending_call_messages := pend\<rparr>)" "winds cm (release_busy (clear_active_call cm))"
  by (rule winds_same; simp add: set_queue_def trim_messages_def reset_messages_in_flight_def release_busy_def
      clear_active_call_def)+

lemma winds_platform [simp]: "winds cm (fst (on_platform P req cm))"
  by (auto simp: on_platform_def split: prod.split)

lemma on_link_ids:
  assumes "\<And>c. link_call_id (fst (g c)) = link_call_id c"
  shows "object_ids (fst (on_link h g cm)) = object_ids cm"
proof
  fix k
  show "object_ids (fst (on_link h g cm)) k = object_ids cm k"
  proof (cases "call_objects cm h")
    case (Some a)
    then obtain peer f c where a: "call_objects cm h = Some (peer, f, c)"
      by (cases a) auto
    obtain c' r where g: "g c = (c', r)" by fastforce
    with assms [of c] have "link_call_id c' = link_call_id c" by simp
    then show ?thesis
      using a g by (simp add: on_link_def object_ids_def)
  qed (simp add: on_link_def)
qed

lemma on_link_view [simp]:
  "call_by_call_id (fst (on_link h g cm)) = call_by_call_id cm" "next_object (fst (on_link h g cm)) = next_object cm"
  "active_call_id (fst (on_link h g cm)) = active_call_id cm" "busy (fst (on_link h g cm)) = busy cm"
  "worker (fst (on_link h g cm)) = worker cm"
  by (auto simp: on_link_def split: option.split prod.split)

lemma winds_on_link:
  assumes "\<And>c. link_call_id (fst (g c)) = link_call_id c"
  shows "winds cm (fst (on_link h g cm))"
  using on_link_ids [OF assms, of h cm] tasks_cong [of "fst (on_link h g cm)" cm] by (simp add: winds_def)

lemma winds_spawn_termination:
  assumes "active_call_id cm \<noteq> Some cid" "cid \<in> filed_ids cm"
  shows "winds cm (cm_worker_spawn (TaskTerminate k cid hang) cm)"
proof -
  have "start_ids (cm_worker_spawn (TaskTerminate k cid hang) cm) = start_ids cm"
    using spawned_tasks [of "TaskTerminate k cid hang" cm] by (auto simp: start_ids_def start_id_def)
  moreover have "i \<in> term_ids cm \<or> i = cid" if "i \<in> term_ids (cm_worker_spawn (TaskTerminate k cid hang) cm)" for i
    using that spawned_set [of "TaskTerminate k cid hang" cm] by (auto simp: term_ids_iff term_id_def)
  ultimately show ?thesis
    using assms object_ids_cong [OF spawn_view(3)] by (auto simp: winds_def)
qed

lemma injected_ids:
  "link_call_id (fst (inject_call_event e c)) = link_call_id c"
  "link_call_id (fst (inject_send_hangup_via_rtp_data_to_all h c)) = link_call_id c"
  using inject_call_event_kept [of c e]
    inject_call_event_kept [of "call_set_state call_state.Terminating c" "SendHangupViaRtpDataToAll h"]
  by (simp_all add: link_kept_def inject_send_hangup_via_rtp_data_to_all_def call_set_state_def)

lemma terminate_call_winds:
  fixes cm :: "('a, 'b, 'c, 'd, 'e) cms"
  assumes filed: "h \<in> ran (map_of (call_by_call_id cm))"
    and other: "\<And>cid. object_ids cm h = Some cid \<Longrightarrow> active_call_id cm \<noteq> Some cid"
  shows "winds cm (fst (terminate_call P h hang reason cm))"
proof (cases "call_objects cm h")
  case (Some a)
  then obtain peer f c where a: "call_objects cm h = Some (peer, f, c)"
    by (cases a) auto
  define cid where "cid = link_call_id c"
  have ids: "object_ids cm h = Some cid"
    using a by (simp add: object_ids_def cid_def)
  define m1 where "m1 = (case reason of Some reason \<Rightarrow> on_call_ended P peer cid reason (trim_messages cid cm)
    | None \<Rightarrow> (trim_messages cid cm, Ok ()))"
  define m2 where "m2 = (\<lambda>s :: ('a, 'b, 'c, 'd, 'e) cms. case hang of Some hang \<Rightarrow> on_link h (inject_send_hangup_via_rtp_data_to_all hang) s
    | None \<Rightarrow> (s, Ok ()))"
  have w1: "winds cm (fst m1)"
    unfolding m1_def on_call_ended_def
    by (auto intro: winds_trans [OF winds_update(4) winds_platform] split: option.split)
  have w2: "winds s (fst (m2 s))" for s
    unfolding m2_def by (auto intro: winds_on_link simp: injected_ids split: option.split)
  have w3: "winds cm (cm_worker_spawn (TaskTerminate h cid hang) s)" if "winds cm s" for s
    using that filed other [OF ids] ids
    by (intro winds_trans [OF that winds_spawn_termination]) (auto simp: winds_def filed_ids_def)
  have "terminate_call P h hang reason cm =
      bind_ok m1 (\<lambda>_ s. bind_ok (m2 s) (\<lambda>_ s. (cm_worker_spawn (TaskTerminate h cid hang) s, Ok ())))"
    using a by (cases reason; cases hang) (simp_all add: terminate_call_def Let_def m1_def m2_def cid_def)
  then show ?thesis
    using w3 by (auto intro!: winds_bind w1 intro: winds_trans w2)
qed (simp add: terminate_call_def)

text \<open>The active call is cleared before it is terminated.\<close>

lemma terminate_cleared_winds:
  "h \<in> ran (map_of (call_by_call_id cm)) \<Longrightarrow>
   winds cm (fst (terminate_call P h hang reason (release_busy (clear_active_call cm))))"
  by (rule winds_trans [OF winds_update(7) terminate_call_winds])
     (simp_all add: release_busy_def clear_active_call_def)

lemma active_call_filed: "active_call cm = Ok h \<Longrightarrow> h \<in> ran (map_of (call_by_call_id cm))"
  by (auto simp: active_call_def ran_def split: option.splits)

lemma terminate_active_call_winds [simp]: "winds cm (fst (terminate_active_call P send reason cm))"
  by (auto simp: terminate_active_call_def intro: terminate_cleared_winds active_call_filed
      split: option.split sum.split)

lemma request_ends_winds [simp]:
  "winds cm (fst (remote_hangup P cid reason cm))" "winds cm (fst (cm_timeout P cid cm))"
  "winds cm (fst (connection_failure P cid cm))" "winds cm (fst (cm_internal_error P cid e cm))"
  by (simp_all add: remote_hangup_def cm_timeout_def connection_failure_def cm_internal_error_def
      split: option.split sum.split)

lemma send_to_peer_winds [simp]: "winds cm (fst (send_to_peer P h req cm))"
  by (auto simp: send_to_peer_def intro: winds_bind split: sum.split)

lemma run_message_closure_winds [simp]: "winds cm (fst (run_message_closure P cid closure cm))"
proof (cases closure)
  case (SendIce h d broadcast)
  obtain p l where "conn_take_candidates P h d (platform_state cm) = (p, l)" by fastforce
  then show ?thesis
    using SendIce by (auto simp: run_message_closure_def Let_def intro: winds_trans [OF winds_update(1) send_to_peer_winds])
qed (simp_all add: run_message_closure_def split: sum.split)

lemma attempt_message_winds [simp]: "winds cm (fst (attempt_message P item cm))"
proof -
  obtain cm' r where c: "run_message_closure P (item_call_id item) (item_closure item) cm = (cm', r)"
    by fastforce
  then have w: "winds cm cm'"
    using run_message_closure_winds [of cm P "item_call_id item" "item_closure item"] by simp
  show ?thesis
  proof (cases r)
    case (Inl e)
    have "winds cm (fst (cm_internal_error P (item_call_id item) e cm'))"
      by (rule winds_trans [OF w request_ends_winds(4)])
    then show ?thesis
      using c Inl by (auto simp: attempt_message_def intro: winds_bind)
  qed (use c w in \<open>auto simp: attempt_message_def Let_def intro: winds_trans\<close>)
qed

lemma send_loop_winds [simp]: "winds cm (fst (send_loop P cm))"
proof (induction P cm rule: send_loop.induct)
  case (1 P cm)
  show ?case
  proof (cases "messages_in_flight (message_queue cm) \<or> queue (message_queue cm) = []")
    case False
    then obtain item rest where q: "queue (message_queue cm) = item # rest"
      by (cases "queue (message_queue cm)") auto
    define a where "a = attempt_message P item (set_queue rest cm)"
    have w: "winds cm (fst a)"
      unfolding a_def by (rule winds_trans [OF winds_update(3) attempt_message_winds])
    have "winds (fst a) (fst (send_loop P (fst a)))" if "snd a = Ok False"
      using 1 [OF _ q a_def that] False by simp
    then show ?thesis
      using False q w winds_trans [OF w]
      by (subst send_loop.simps) (auto simp: Let_def a_def [symmetric] split: sum.split)
  qed (auto simp: send_loop.simps)
qed

lemma send_winds [simp]:
  "winds cm (fst (send_next_message P item cm))" "winds cm (fst (send_item P cid ty closure cm))"
  by (auto simp: send_item_def send_next_message_def intro: winds_trans [OF winds_update(3) send_loop_winds]
      split: option.split)

lemma cm_serve_winds: "winds cm (fst (cm_serve P h cid req cm))"
  by (cases req) (simp_all add: cm_serve_def with_peer_def cm_send_offer_def cm_send_answer_def cm_send_hangup_def
      cm_send_buffered_local_ice_candidates_def split: sum.split)

interpretation serve: request_order "cm_serve P h" winds for P h
  by unfold_locales (auto intro: winds_trans cm_serve_winds)

lemma load_call_simps [simp]:
  "link_call_id (load_call m c) = link_call_id c" "manager (load_call m c) = m"
  "link_state (load_call m c) = link_state c" "link_stream (load_call m c) = link_stream c"
  "connection_map (load_call m c) = connection_map c" "retired (load_call m c) = retired c"
  by (cases c; simp add: load_call_def call_link.defs)+

lemma deliver_id [simp]: "link_call_id (deliver mailbox call) = link_call_id call"
proof -
  have "link_call_id (fold (\<lambda>event call. fst (inject_call_event event call)) es c) = link_call_id c" for es
    and c :: "('a, 'b) call_link_scheme"
    by (induction es arbitrary: c) (simp_all add: injected_ids)
  then show ?thesis
    by (simp add: deliver_def call_set_state_def)
qed

lemma update_object_winds:
  "object_ids cm h = Some (link_call_id c) \<Longrightarrow> winds cm (cm\<lparr>call_objects := (call_objects cm)(h \<mapsto> (peer, f, c))\<rparr>)"
  using tasks_cong [of "cm\<lparr>call_objects := (call_objects cm)(h \<mapsto> (peer, f, c))\<rparr>" cm]
  by (auto simp: winds_def object_ids_def fun_eq_iff)

lemma on_call_winds:
  assumes "\<And>f call. kept_by winds call (snd (fst (g (f, call))))"
  shows "winds cm (fst (on_call h g cm))"
proof (cases "call_objects cm h")
  case (Some a)
  then obtain peer f c where a: "call_objects cm h = Some (peer, f, c)"
    by (cases a) auto
  define cm1 where "cm1 = cm\<lparr>call_objects := (call_objects cm)(h \<mapsto> (peer, f, c\<lparr>link_stream := Active []\<rparr>))\<rparr>"
  have w1: "winds cm cm1"
    unfolding cm1_def using a by (intro update_object_winds) (simp add: object_ids_def)
  obtain f' call' r where g: "g (f, load_call cm1 c) = ((f', call'), r)"
    by (metis surj_pair)
  have k: "link_call_id call' = link_call_id c" "winds cm1 (manager call')"
    using assms [of "load_call cm1 c" f] g by (simp_all add: kept_by_def)
  then have w2: "winds cm (manager call')"
    using w1 winds_trans by blast
  have ids: "object_ids (manager call') h = Some (link_call_id c)"
    using w2 a by (simp add: winds_def object_ids_def [of cm])
  then obtain x y mailbox where m: "call_objects (manager call') h = Some (x, y, mailbox)"
    by (auto simp: object_ids_def)
  have "winds cm ((manager call')\<lparr>call_objects := (call_objects (manager call'))
      (h \<mapsto> (peer, f', deliver mailbox (load_call () call')))\<rparr>)"
    using ids k by (intro winds_trans [OF w2 update_object_winds]) simp
  then show ?thesis
    using a g m by (simp add: on_call_def cm1_def Let_def)
qed (simp add: on_call_def)

lemma call_op_winds:
  "(\<And>call. kept_by winds call (fst (g call))) \<Longrightarrow> winds cm (fst (on_call h (call_op g) cm))"
  by (rule on_call_winds) (simp add: call_op_def split: prod.split, metis fst_conv)

section \<open>The invariant\<close>

text \<open>
  Calls are filed under their own identifier; the active call is one of the filed calls, no waiting
  task will end it. The identifiers that waiting tasks will start are
  distinct and belong to no call yet. \<open>used\<close> collects the identifiers that have occurred.
\<close>

definition cm_inv :: "call_id set \<Rightarrow> ('p, 'peer, 'pc, 'sk, 'ig) cms \<Rightarrow> bool" where
  "cm_inv used cm \<longleftrightarrow>
     (\<forall>h. object_ids cm h \<noteq> None \<longrightarrow> h < next_object cm)
     \<and> distinct (map fst (call_by_call_id cm))
     \<and> (\<forall>cid h. map_of (call_by_call_id cm) cid = Some h \<longrightarrow> object_ids cm h = Some cid)
     \<and> (\<forall>cid. active_call_id cm = Some cid \<longrightarrow>
          cid \<in> dom (map_of (call_by_call_id cm)) \<and> cid \<notin> term_ids cm)
     \<and> (\<forall>cid \<in># start_ids cm. count (start_ids cm) cid = 1 \<and> Some cid \<notin> range (object_ids cm) \<and> cid \<in> used)
     \<and> (\<forall>cid. Some cid \<in> range (object_ids cm) \<longrightarrow> cid \<in> used)
     \<and> (\<forall>cid \<in> term_ids cm. Some cid \<in> range (object_ids cm))"

lemma cm_inv_winds:
  assumes inv: "cm_inv used cm" and w: "winds cm cm'"
  shows "cm_inv used cm'"
proof -
  have same: "call_by_call_id cm' = call_by_call_id cm" "next_object cm' = next_object cm"
    "object_ids cm' = object_ids cm" "start_ids cm' = start_ids cm"
    using w by (simp_all add: winds_def)
  have act: "cid \<in> dom (map_of (call_by_call_id cm)) \<and> cid \<notin> term_ids cm'"
    if "active_call_id cm' = Some cid" for cid
    using that inv w by (auto simp: cm_inv_def winds_def)
  have "Some cid \<in> range (object_ids cm)" if "cid \<in> filed_ids cm" for cid
    using that unfolding filed_ids_def by (auto intro: sym rangeI simp: image_iff)
  then have "Some cid \<in> range (object_ids cm)" if "cid \<in> term_ids cm'" for cid
    using that inv w unfolding cm_inv_def winds_def by blast
  with act inv show ?thesis
    unfolding cm_inv_def same by blast
qed

lemma cm_inv_new: "cm_inv used (call_manager_new off p)"
  by (simp add: cm_inv_def call_manager_new_def object_ids_def term_ids_def start_ids_def actor_tasks_def
      actor_start_def)

text \<open>A task that has been taken from the worker's queue: what the invariant says of its identifiers.\<close>

definition ready :: "call_id set \<Rightarrow> 'peer cm_task \<Rightarrow> ('p, 'peer, 'pc, 'sk, 'ig) cms \<Rightarrow> bool" where
  "ready used t cm \<longleftrightarrow>
     (\<forall>cid. start_id t = Some cid \<longrightarrow> cid \<notin># start_ids cm \<and> Some cid \<notin> range (object_ids cm) \<and> cid \<in> used)
     \<and> (\<forall>cid. term_id t = Some cid \<longrightarrow> active_call_id cm \<noteq> Some cid)"

lemma fewer_tasks:
  assumes "mset (actor_tasks w) \<subseteq># mset (actor_tasks (worker cm))"
  shows "term_ids (cm\<lparr>worker := w\<rparr>) \<subseteq> term_ids cm" "start_ids (cm\<lparr>worker := w\<rparr>) \<subseteq># start_ids cm"
proof -
  show "term_ids (cm\<lparr>worker := w\<rparr>) \<subseteq> term_ids cm"
    using set_mset_mono [OF assms] by (fastforce simp: term_ids_iff)
  show "start_ids (cm\<lparr>worker := w\<rparr>) \<subseteq># start_ids cm"
    using assms by (auto simp: start_ids_def intro!: image_mset_subseteq_mono multiset_filter_mono)
qed

lemma object_ids_worker [simp]: "object_ids (cm\<lparr>worker := w\<rparr>) = object_ids cm"
  by (rule object_ids_cong) simp

lemma cm_inv_fewer_tasks:
  assumes inv: "cm_inv used cm" and few: "mset (actor_tasks w) \<subseteq># mset (actor_tasks (worker cm))"
  shows "cm_inv used (cm\<lparr>worker := w\<rparr>)"
proof -
  note sub = fewer_tasks [OF few]
  have "count (start_ids (cm\<lparr>worker := w\<rparr>)) cid = 1" if "cid \<in># start_ids (cm\<lparr>worker := w\<rparr>)" for cid
  proof -
    have "count (start_ids cm) cid = 1"
      using that inv mset_subset_eqD [OF sub(2)] by (simp add: cm_inv_def)
    moreover have "count (start_ids (cm\<lparr>worker := w\<rparr>)) cid \<le> count (start_ids cm) cid"
      using sub(2) by (simp add: mset_subset_eq_count)
    ultimately show ?thesis
      using that by (simp add: le_antisym Suc_leI count_greater_zero_iff)
  qed
  then show ?thesis
    using inv sub(1) mset_subset_eqD [OF sub(2)] unfolding cm_inv_def by (auto simp del: range_eqI)
qed

lemma cm_inv_pop:
  assumes inv: "cm_inv used cm" and pop: "actor_iterate now (worker cm) = (Some t, w)"
  shows "cm_inv used (cm\<lparr>worker := w\<rparr>) \<and> ready used t (cm\<lparr>worker := w\<rparr>)"
proof
  note tasks = iterate_tasks(1) [OF pop]
  show "cm_inv used (cm\<lparr>worker := w\<rparr>)"
    using tasks by (intro cm_inv_fewer_tasks [OF inv]) simp
  have t: "t \<in> set (actor_tasks (worker cm))"
    using tasks by (metis set_mset_mset union_single_eq_member)
  have "cid \<notin># start_ids (cm\<lparr>worker := w\<rparr>) \<and> Some cid \<notin> range (object_ids cm) \<and> cid \<in> used"
    if "start_id t = Some cid" for cid
  proof -
    have eq: "start_ids cm = add_mset cid (start_ids (cm\<lparr>worker := w\<rparr>))"
      using tasks that by (simp add: start_ids_def)
    then have "cid \<in># start_ids cm" by simp
    then have "count (start_ids cm) cid = 1" "Some cid \<notin> range (object_ids cm)" "cid \<in> used"
      using inv unfolding cm_inv_def by blast+
    with eq show ?thesis by (simp add: not_in_iff)
  qed
  moreover have "active_call_id cm \<noteq> Some cid" if "term_id t = Some cid" for cid
    using that t inv unfolding cm_inv_def term_ids_iff by blast
  ultimately show "ready used t (cm\<lparr>worker := w\<rparr>)"
    by (simp add: ready_def)
qed

section \<open>Starting a call\<close>

lemma create_call_inv:
  assumes inv: "cm_inv used cm" and new: "Some cid \<notin> range (object_ids cm)" "cid \<notin># start_ids cm" "cid \<in> used"
    and create: "create_call peer cid dir media dev cm = (h, cm')"
  shows "cm_inv used cm' \<and> object_ids cm' h = Some cid \<and> cid \<notin> term_ids cm' \<and> cid \<notin> filed_ids cm'
    \<and> active_call_id cm' = active_call_id cm"
proof -
  have h: "h = next_object cm"
    and cm': "object_ids cm' = (object_ids cm)(h \<mapsto> cid)" "next_object cm' = Suc h" "worker cm' = worker cm"
      "call_by_call_id cm' = call_by_call_id cm" "active_call_id cm' = active_call_id cm"
    using create by (auto simp: create_call_def object_ids_def call_new_def fun_eq_iff)
  note tasks = tasks_cong [OF cm'(3)]
  have none: "object_ids cm h = None"
    using inv h unfolding cm_inv_def by (metis less_irrefl)
  have tid: "cid \<notin> term_ids cm" and below: "object_ids cm k \<noteq> None \<Longrightarrow> k < next_object cm" for k
    using inv new(1) unfolding cm_inv_def by blast+
  have filed: "map_of (call_by_call_id cm) i = Some k \<Longrightarrow> k \<noteq> h \<and> object_ids cm k = Some i" for i k
    using inv none unfolding cm_inv_def by (metis option.distinct(1))
  have range: "Some i \<in> range (object_ids cm') \<longleftrightarrow> i = cid \<or> Some i \<in> range (object_ids cm)" for i
    using none unfolding cm'(1) by (auto simp: image_iff) (metis fun_upd_apply option.distinct(1))
  have "cm_inv used cm'"
    unfolding cm_inv_def range
  proof (intro conjI)
    show "\<forall>k. object_ids cm' k \<noteq> None \<longrightarrow> k < next_object cm'"
      using below by (auto simp: cm' h intro: less_SucI)
    show "\<forall>i k. map_of (call_by_call_id cm') i = Some k \<longrightarrow> object_ids cm' k = Some i"
      using filed by (auto simp: cm')
  qed (use inv new tasks in \<open>auto simp: cm_inv_def cm'(4,5)\<close>)
  then show ?thesis
    using filed tid new(1) tasks
    by (auto simp: cm' filed_ids_def ran_def) (metis option.inject rangeI)
qed

lemma file_call_inv:
  assumes inv: "cm_inv used cm" and obj: "object_ids cm h = Some cid" and tid: "cid \<notin> term_ids cm"
  shows "cm_inv used (cm\<lparr>call_by_call_id := AList.update cid h (call_by_call_id cm), busy := True,
    active_call_id := Some cid\<rparr>)" (is "cm_inv used ?cm'")
proof -
  have same: "object_ids ?cm' = object_ids cm" "term_ids ?cm' = term_ids cm" "start_ids ?cm' = start_ids cm"
    by (simp_all add: object_ids_def term_ids_def start_ids_def fun_eq_iff)
  show ?thesis
    using inv obj tid unfolding cm_inv_def same by (auto simp: update_conv' distinct_update split: if_splits)
qed

lemma start_timeout_timer_id [simp]: "link_call_id (start_timeout_timer now period c) = link_call_id c"
  by (simp add: start_timeout_timer_def)

lemma handle_call_inv:
  assumes inv: "cm_inv used cm" and ready: "ready used (TaskCall peer cid media dev) cm"
  shows "cm_inv used (fst (handle_call P now peer cid media dev cm))"
proof (cases "busy cm \<or> active_call_id cm \<noteq> None")
  case False
  obtain h cm1 where create: "create_call peer cid call_direction.Outgoing media dev cm = (h, cm1)"
    by fastforce
  have c: "cm_inv used cm1 \<and> object_ids cm1 h = Some cid \<and> cid \<notin> term_ids cm1"
    using create_call_inv [OF inv _ _ _ create] ready by (simp add: ready_def start_id_def)
  define cm2 where "cm2 = reset_messages_in_flight cm1"
  have w: "winds cm1 cm2"
    unfolding cm2_def by simp
  have "cid \<notin> term_ids cm2" "object_ids cm2 h = Some cid"
    using c tasks_cong [of cm2 cm1] object_ids_cong [of cm2 cm1] by (simp_all add: cm2_def reset_messages_in_flight_def)
  then have "cm_inv used (cm2\<lparr>call_by_call_id := AList.update cid h (call_by_call_id cm2), busy := True,
      active_call_id := Some cid\<rparr>)"
    using c cm_inv_winds [OF _ w] by (blast intro: file_call_inv)
  moreover have "fst (handle_call P now peer cid media dev cm) =
      fst (on_link h (\<lambda>c. inject_call_event StartCall (start_timeout_timer now TIME_OUT_PERIOD c))
        (cm2\<lparr>call_by_call_id := AList.update cid h (call_by_call_id cm2), busy := True, active_call_id := Some cid\<rparr>))"
    using False create by (simp add: handle_call_def cm2_def Let_def)
  ultimately show ?thesis
    by (simp add: cm_inv_winds [OF _ winds_on_link] injected_ids)
qed (use inv in \<open>auto simp: handle_call_def\<close>)

section \<open>Every task\<close>

lemma active_with_id_filed: "active_with_id cid cm = Some h \<Longrightarrow> h \<in> ran (map_of (call_by_call_id cm))"
  by (auto simp: active_with_id_def intro: active_call_filed split: sum.splits if_splits)

lemma link_op_winds [simp]:
  "winds cm (fst (on_link h (inject_call_event e) cm))"
  "winds cm (fst (on_link h (\<lambda>c. bind_ok (set_call_context ctx c) (\<lambda>_ c. inject_call_event e c)) cm))"
  by (rule winds_on_link;
      simp add: injected_ids bind_ok_def set_call_context_def split: option.split sum.split prod.split)+

lemma active_call_handlers_wind:
  "winds cm (fst (cm_handle_accept_call cid cm))"
  "winds cm (fst (cm_handle_proceed cid ctx config levels cm))"
  "winds cm (fst (handle_drop_call P cid cm))"
  "winds cm (fst (handle_message_sent P cm))"
  "winds cm (fst (handle_hangup P cm))"
  "winds cm (fst (cm_handle_received_answer P peer cid answer cm))"
  "winds cm (fst (cm_handle_received_ice P peer cid received cm))"
  "winds cm (fst (cm_handle_received_hangup P peer cid hungup cm))"
proof -
  show "winds cm (fst (cm_handle_accept_call cid cm))" "winds cm (fst (cm_handle_proceed cid ctx config levels cm))"
    "winds cm (fst (cm_handle_received_answer P peer cid answer cm))"
    by (simp_all add: cm_handle_accept_call_def cm_handle_proceed_def cm_handle_received_answer_def split: option.split)
  show "winds cm (fst (handle_drop_call P cid cm))"
    by (auto simp: handle_drop_call_def handle_terminate_active_call_def
        intro: terminate_cleared_winds active_with_id_filed split: option.split)
  show "winds cm (fst (handle_hangup P cm))"
    by (auto simp: handle_hangup_def handle_terminate_active_call_def
        intro: terminate_cleared_winds active_call_filed split: sum.split)
  show "winds cm (fst (handle_message_sent P cm))"
    unfolding handle_message_sent_def by (rule winds_trans [OF winds_update(5) send_winds(1)])
  have "winds cm (fst (received_or_saved P peer cid e save cm))" for e save
    by (simp add: received_or_saved_def Let_def split: sum.split)
  then show "winds cm (fst (cm_handle_received_ice P peer cid received cm))"
    "winds cm (fst (cm_handle_received_hangup P peer cid hungup cm))"
    by (simp_all add: cm_handle_received_ice_def cm_handle_received_hangup_def)
qed

lemma handle_received_busy_winds: "winds cm (fst (handle_received_busy P peer cid dev cm))"
proof (cases "active_with_id cid cm")
  case (Some h)
  have "winds cm (fst (handle_terminate_active_call P h hang reason cm'))" if "winds cm cm'" for cm' hang reason
    using that active_with_id_filed [OF Some] terminate_cleared_winds [of h cm' P hang "Some reason"]
    by (auto simp: handle_terminate_active_call_def winds_def [of cm cm'] intro: winds_trans [OF that])
  then show ?thesis
    using Some by (auto simp: handle_received_busy_def intro!: winds_bind call_op_winds serve.hangup_others_kept)
qed (simp add: handle_received_busy_def)

lemma handle_message_send_failure_winds:
  assumes "cm_inv used cm"
  shows "winds cm (fst (handle_message_send_failure P cid cm))"
proof -
  have "winds cm (fst (terminate_call P h hang reason cm))"
    if "active_with_id cid cm = None" "map_of (call_by_call_id cm) cid = Some h" for h hang reason
  proof (rule terminate_call_winds)
    show "h \<in> ran (map_of (call_by_call_id cm))"
      using that(2) by (auto simp: ran_def)
    fix i
    assume "object_ids cm h = Some i"
    with that(2) assms have i: "i = cid" and obj: "object_ids cm h = Some cid"
      by (auto simp: cm_inv_def)
    show "active_call_id cm \<noteq> Some i"
      using that obj i by (auto simp: active_with_id_def active_call_def call_at_def object_ids_def
          split: option.splits sum.splits if_splits)
  qed
  then show ?thesis
    by (auto simp: handle_message_send_failure_def intro!: winds_bind
        intro: winds_trans [OF _ winds_trans [OF winds_update(5) send_winds(1)]] split: option.split)
qed

lemma act_on_active_call_winds: "winds cm (fst (act_on_active_call P action cm))"
  by (auto simp: act_on_active_call_def intro: terminate_cleared_winds active_call_filed
      split: active_call_action.split sum.split)

lemma inject_all_id [simp]: "link_call_id (fst (inject_all es c)) = link_call_id c"
proof (induction es arbitrary: c)
  case (Cons e es)
  obtain c' r where i: "inject_call_event e c = (c', r)" by fastforce
  then have "link_call_id c' = link_call_id c"
    using injected_ids(1) [of e c] by simp
  then show ?case
    using Cons i by (cases r) simp_all
qed simp

lemma start_incoming_call_inv:
  assumes inv: "cm_inv used cm" and obj: "object_ids cm h = Some cid" and tid: "cid \<notin> term_ids cm"
  shows "cm_inv used (fst (start_incoming_call P now h peer cid received cm))"
proof (cases "active_call_id cm")
  case None
  define cm1 where "cm1 = reset_messages_in_flight cm"
  define cm2 where "cm2 = cm1\<lparr>call_by_call_id := AList.update cid h (call_by_call_id cm1), busy := True,
    active_call_id := Some cid\<rparr>"
  have "object_ids cm1 h = Some cid" "cid \<notin> term_ids cm1"
    using obj tid by (simp_all add: cm1_def reset_messages_in_flight_def object_ids_def term_ids_def)
  moreover have "cm_inv used cm1"
    unfolding cm1_def by (rule cm_inv_winds [OF inv winds_update(5)])
  ultimately have "cm_inv used cm2"
    unfolding cm2_def by (blast intro: file_call_inv)
  moreover have "winds cm2 (fst (bind_ok (on_link h (\<lambda>c.
      bind_ok (handle_received_offer received (start_timeout_timer now TIME_OUT_PERIOD c))
        (\<lambda>_ c. inject_call_event StartCall c)) cm2) (\<lambda>_ cm.
      on_link h (inject_all (pending_events P peer cid (pending_call_messages cm)))
        (cm\<lparr>pending_call_messages := NoMessages\<rparr>))))"
    by (rule winds_bind; (rule winds_on_link)?)
       (auto simp: handle_received_offer_def injected_ids bind_ok_def split: option.split
         intro: winds_trans [OF _ winds_trans [OF winds_update(6) winds_on_link]])
  ultimately show ?thesis
    using None by (simp add: start_incoming_call_def Let_def cm1_def cm2_def cm_inv_winds)
qed (use inv in \<open>simp add: start_incoming_call_def\<close>)

lemma received_offer_inv:
  assumes inv: "cm_inv used cm" and ready: "ready used (TaskReceivedOffer peer cid received) cm"
  shows "cm_inv used (fst (cm_handle_received_offer P now peer cid received cm))"
proof (cases "validate_offer received")
  case (Inl e)
  have "winds cm (fst (bind_ok (on_platform P (OnOfferExpired peer cid (ro_age received)) cm)
      (\<lambda>_ cm. on_platform P (OnCallConcluded peer cid) cm)))"
    by (rule winds_bind) (auto intro: winds_trans)
  then show ?thesis
    using Inl inv by (simp add: cm_handle_received_offer_def cm_inv_winds)
next
  case (Inr u)
  obtain h cm1 where create: "create_call peer cid call_direction.Incoming (offer_media_type (ro_offer received))
      (ro_receiver_device_id received) cm = (h, cm1)"
    by fastforce
  have c: "cm_inv used cm1" "object_ids cm1 h = Some cid" "cid \<notin> term_ids cm1" "cid \<notin> filed_ids cm1"
    using create_call_inv [OF inv _ _ _ create] ready by (simp_all add: ready_def start_id_def)
  obtain aa ia where actions: "collision_actions (offer_collision P peer cid received cm1) = (aa, ia)"
    by fastforce
  have "cm_inv used (fst (act_on_incoming_call P now h peer cid received ia cm2))" if w: "winds cm1 cm2" for cm2
  proof -
    have c2: "cm_inv used cm2" "object_ids cm2 h = Some cid" "cid \<notin> term_ids cm2"
      using w c cm_inv_winds [OF c(1) w] by (auto simp: winds_def)
    have "winds cm2 (fst (bind_ok (on_platform P req cm2) (\<lambda>_ cm. send_busy P h cid cm)))" for req
      by (rule winds_bind) (auto simp: send_busy_def intro: winds_trans)
    then show ?thesis
      using c2 start_incoming_call_inv [OF c2] cm_inv_winds [OF c2(1)]
      by (simp add: act_on_incoming_call_def split: incoming_call_action.split)
  qed
  then have "cm_inv used (fst (bind_ok (act_on_active_call P aa cm1) (\<lambda>_ cm.
      act_on_incoming_call P now h peer cid received ia cm)))"
    using act_on_active_call_winds [of cm1 P aa] cm_inv_winds [OF c(1)]
    by (cases "act_on_active_call P aa cm1"; cases "snd (act_on_active_call P aa cm1)") auto
  then show ?thesis
    using Inr create actions by (simp add: cm_handle_received_offer_def)
qed

text \<open>Terminating a call does not look at the active call, so a reset may as well clear it first.\<close>

lemma clear_commutes:
  "on_platform P req (clear_active_call cm) = (case on_platform P req cm of (cm', r) \<Rightarrow> (clear_active_call cm', r))"
  "on_link h g (clear_active_call cm) = (case on_link h g cm of (cm', r) \<Rightarrow> (clear_active_call cm', r))"
  "trim_messages cid (clear_active_call cm) = clear_active_call (trim_messages cid cm)"
  "cm_worker_spawn t (clear_active_call cm) = clear_active_call (cm_worker_spawn t cm)"
  "call_objects (clear_active_call cm) = call_objects cm"
  by (auto simp: clear_active_call_def on_platform_def on_link_def trim_messages_def cm_worker_spawn_def
      split: prod.split option.split)

lemma terminate_call_clear:
  "fst (terminate_call P h hang reason (clear_active_call cm)) = clear_active_call (fst (terminate_call P h hang reason cm))"
  by (cases "call_objects cm h"; cases reason; cases hang)
     (auto simp: terminate_call_def clear_commutes on_call_ended_def Let_def bind_ok_def split: prod.split sum.split)

lemma terminate_call_filed:
  "call_by_call_id (fst (terminate_call P h hang reason cm)) = call_by_call_id cm"
  by (cases "call_objects cm h"; cases reason; cases hang)
     (auto simp: terminate_call_def on_call_ended_def on_platform_def Let_def trim_messages_def
       fst_bind_ok_same [where f = call_by_call_id] split: prod.split)

lemma terminate_all_winds:
  "set hs \<subseteq> ran (map_of (call_by_call_id cm)) \<Longrightarrow> active_call_id cm = None
   \<Longrightarrow> winds cm (fold (\<lambda>h cm. fst (terminate_call P h hang reason cm)) hs cm)"
proof (induction hs arbitrary: cm)
  case (Cons h hs)
  have w: "winds cm (fst (terminate_call P h hang reason cm))"
    using Cons.prems by (intro terminate_call_winds) auto
  then have "active_call_id (fst (terminate_call P h hang reason cm)) = None"
    using Cons.prems by (auto simp: winds_def)
  then show ?case
    using Cons w by (auto simp: terminate_call_filed intro: winds_trans)
qed simp

lemma handle_reset_winds:
  fixes cm :: "('a, 'b, 'c, 'd, 'e) cms"
  assumes "cm_inv used cm"
  shows "winds cm (fst (handle_reset P cm))"
proof -
  define ended where "ended = (\<lambda>h (cm :: ('a, 'b, 'c, 'd, 'e) cms).
    fst (terminate_call P h (Some hangup.Normal) None cm))"
  have clear: "clear_active_call (fold ended hs c) = fold ended hs (clear_active_call c)" for hs c
    by (induction hs arbitrary: c) (simp_all add: ended_def terminate_call_clear)
  have "set (map snd (call_by_call_id cm)) \<subseteq> ran (map_of (call_by_call_id cm))"
    using assms by (auto simp: cm_inv_def ran_distinct)
  then have "winds (clear_active_call cm) (fold ended (map snd (call_by_call_id cm)) (clear_active_call cm))"
    unfolding ended_def by (intro terminate_all_winds) (simp_all add: clear_active_call_def)
  then have "winds cm (clear_active_call (fold ended (map snd (call_by_call_id cm)) cm))"
    unfolding clear by (rule winds_trans [rotated]) (rule winds_same; simp add: clear_active_call_def)
  moreover have "winds (clear_active_call c) (release_busy (clear_active_call c))" for c
    by (rule winds_same; simp add: clear_active_call_def release_busy_def)
  ultimately have "winds cm (release_busy (clear_active_call (fold ended (map snd (call_by_call_id cm)) cm)))"
    by (rule winds_trans)
  from winds_trans [OF this winds_update(2)] show ?thesis
    by (simp add: handle_reset_def Let_def ended_def)
qed

section \<open>Tasks, requests and their interleaving\<close>

lemma error_handlers_wind [simp]:
  "winds cm (fst (internal_api_error P e cm))" "winds cm (internal_create_api_error P peer cid e cm)"
  by (simp_all add: internal_api_error_def internal_create_api_error_def Let_def on_call_ended_def
      winds_trans [OF winds_platform winds_platform] split: sum.split option.split)

lemma or_error_inv:
  assumes "cm_inv used (fst res)"
  shows "cm_inv used (or_api_error P res)" "cm_inv used (or_create_api_error P peer cid res)"
  using assms by (auto simp: or_api_error_def or_create_api_error_def cm_inv_winds split: prod.split sum.split)

lemma group_op_winds [simp]:
  "winds cm (remove_outstanding_group_ring group_id expected ring_id cm)"
  "winds cm (cm\<lparr>group_call_by_client_id := g\<rparr>)"
  "winds cm (send_signaling_message P recipient message urgency cm)"
  "winds cm (group_call_ring_update P group_id ring_id sender upd cm)"
proof -
  show "winds cm (remove_outstanding_group_ring group_id expected ring_id cm)"
    by (rule winds_same; simp add: remove_outstanding_group_ring_def split: option.split)
  show "winds cm (cm\<lparr>group_call_by_client_id := g\<rparr>)"
    by (rule winds_same) simp_all
qed (simp_all add: send_signaling_message_def group_call_ring_update_def split: sum.split)

lemma cancel_group_ring_winds [simp]: "winds cm (cancel_group_ring P group_id ring_id reason cm)"
  by (simp add: cancel_group_ring_def Let_def winds_trans [OF group_op_winds(1) group_op_winds(3)] split: option.split)

lemma winds_other_task:
  assumes same: "call_by_call_id cm' = call_by_call_id cm" "next_object cm' = next_object cm"
      "call_objects cm' = call_objects cm" "active_call_id cm' = active_call_id cm"
    and tasks: "mset (actor_tasks (worker cm')) = mset (actor_tasks (worker cm))
      \<or> mset (actor_tasks (worker cm')) = add_mset t (mset (actor_tasks (worker cm)))"
    and other: "start_id t = None" "term_id t = None"
  shows "winds cm cm'"
proof -
  have "start_ids cm' = start_ids cm"
    using tasks other by (auto simp: start_ids_def)
  moreover have "set (actor_tasks (worker cm')) \<subseteq> insert t (set (actor_tasks (worker cm)))"
    using tasks by (metis set_mset_add_mset_insert set_mset_mset subset_insertI subset_refl)
  then have "term_ids cm' \<subseteq> term_ids cm"
    using other by (fastforce simp: term_ids_iff)
  ultimately show ?thesis
    using same object_ids_cong [OF same(3)] by (auto simp: winds_def)
qed

lemma start_group_ring_winds [simp]: "winds cm (start_group_ring P now group_id ring_id sender cm)"
  by (rule winds_other_task [where t = "TaskRingTimeout group_id ring_id sender"])
     (simp_all add: start_group_ring_def actor_send_delayed_def send_task_def delayed_def actor_tasks_def
       start_id_def term_id_def)

lemma received_call_message_winds [simp]: "winds cm (fst (handle_received_call_message P now sender bytes age cm))"
proof -
  have "winds cm (handle_ring_intention P now sender m age cm)" for m
    by (auto simp: handle_ring_intention_def intro: winds_trans [OF _ group_op_winds(4)]
        split: option.split intention_type.split)
  moreover have "winds cm (handle_ring_response P sender m cm)" for m
    by (auto simp: handle_ring_response_def intro: winds_trans [OF group_op_winds(1) group_op_winds(4)]
        split: option.split response_type.split)
  ultimately show ?thesis
    by (simp add: handle_received_call_message_def split: sum.split option.split)
qed

lemma ring_timeout_winds [simp]: "winds cm (ring_timeout P group_id ring_id sender cm)"
  unfolding ring_timeout_def by (rule winds_trans [OF group_op_winds(1) group_op_winds(4)])

lemma terminate_task_inv:
  assumes inv: "cm_inv used cm" and other: "active_call_id cm \<noteq> Some cid"
  shows "cm_inv used (run_terminate_task P E now h cid hang cm)"
proof -
  define hung where "hung = (case hang of
      Some hang \<Rightarrow> if call_at cm h should_send_hangup
        then on_call h (call_op (send_hangup_via_signaling_to_all (cm_serve P h) hang)) cm else (cm, Ok ())
    | None \<Rightarrow> (cm, Ok ()))"
  have w: "winds cm (fst hung)"
    by (auto simp: hung_def intro!: call_op_winds serve.signaling_hangup_kept split: option.split)
  have drop: "cm_inv used (fst (terminate_and_drop_call P E now cid cm1))" if w1: "winds cm cm1" for cm1
  proof -
    have i1: "cm_inv used cm1" and o1: "active_call_id cm1 \<noteq> Some cid"
      using cm_inv_winds [OF inv w1] other w1 by (auto simp: winds_def)
    define cm2 where "cm2 = cm1\<lparr>call_by_call_id := AList.delete cid (call_by_call_id cm1)\<rparr>"
    have same: "object_ids cm2 = object_ids cm1" "term_ids cm2 = term_ids cm1" "start_ids cm2 = start_ids cm1"
      by (simp_all add: cm2_def object_ids_def term_ids_def start_ids_def fun_eq_iff)
    have "cm_inv used cm2"
      using i1 o1 unfolding cm_inv_def same
      by (auto simp: cm2_def delete_conv' distinct_delete split: if_splits)
    moreover have "winds cm2 (fst (on_call k (call_terminate (env_of P E k) now) cm2))" for k
      by (rule on_call_winds) (rule serve.call_terminate_kept [of _ P k], simp add: env_of_def)
    ultimately show ?thesis
      using i1 by (simp add: terminate_and_drop_call_def cm2_def cm_inv_winds split: option.split)
  qed
  have "cm_inv used (fst (bind_ok hung (\<lambda>_ cm. terminate_and_drop_call P E now cid cm)))"
    using w drop cm_inv_winds [OF inv w] by (cases hung; cases "snd hung") auto
  then show ?thesis
    by (auto simp: run_terminate_task_def hung_def [symmetric] on_call_ended_def
        intro: cm_inv_winds split: prod.split sum.split)
qed

lemma run_cm_task_inv:
  assumes inv: "cm_inv used cm" and ready: "ready used t cm"
  shows "cm_inv used (run_cm_task P E now t cm)"
proof (cases t)
  case (TaskTerminate h cid hang)
  then show ?thesis
    using terminate_task_inv [OF inv, of cid P E now h hang] ready by (simp add: run_cm_task_def ready_def term_id_def)
qed (use ready handle_call_inv [OF inv] received_offer_inv [OF inv] in
  \<open>auto simp: run_cm_task_def intro!: or_error_inv
     intro: cm_inv_winds [OF inv] active_call_handlers_wind handle_received_busy_winds handle_reset_winds [OF inv]
       handle_message_send_failure_winds [OF inv]\<close>)

lemma worker_step_inv: "cm_inv used cm \<Longrightarrow> cm_inv used (cm_worker_step P E now cm)"
  using cm_inv_pop [of used cm now] cm_inv_fewer_tasks [of used cm] iterate_tasks(2) [of now "worker cm"]
  by (auto simp: cm_worker_step_def intro: run_cm_task_inv split: prod.split option.split)

text \<open>
  The states that the manager reaches when the application, the worker and the threads of calls take
  turns. A call identifier is requested once. A call's own threads change the call in any way, but
  never its identifier, and make requests of the manager. The platform changes its own state freely.
  Group call clients share the busy flag: on their own threads they take it to join, when it is free,
  and release it when they leave, at any time.
\<close>

inductive cm_run ::
  "('p, 'peer) platform_ops \<Rightarrow> ('pc, ('p, 'peer, 'pc, 'sk, 'ig) cms, 'sd, 'ig, 'sk) call_env \<Rightarrow> call_id set
   \<Rightarrow> ('p, 'peer, 'pc, 'sk, 'ig) cms \<Rightarrow> bool" for P E where
  run_new: "cm_run P E {} (call_manager_new off p)"
| run_request: "cm_run P E used cm \<Longrightarrow> term_id t = None \<Longrightarrow> (\<And>cid. start_id t = Some cid \<Longrightarrow> cid \<notin> used)
    \<Longrightarrow> cm_run P E (used \<union> set_option (start_id t)) (cm_worker_spawn t cm)"
| run_worker_step: "cm_run P E used cm \<Longrightarrow> cm_run P E used (cm_worker_step P E now cm)"
| run_call_request: "cm_run P E used cm \<Longrightarrow> object_ids cm h = Some cid
    \<Longrightarrow> cm_run P E used (fst (cm_serve P h cid req cm))"
| run_call: "cm_run P E used cm \<Longrightarrow> object_ids cm h = Some (link_call_id c)
    \<Longrightarrow> cm_run P E used (cm\<lparr>call_objects := (call_objects cm)(h \<mapsto> (peer, f, c))\<rparr>)"
| run_platform: "cm_run P E used cm \<Longrightarrow> cm_run P E used (cm\<lparr>platform_state := p\<rparr>)"
| run_uuid: "cm_run P E used cm \<Longrightarrow> cm_run P E used (set_self_uuid uuid cm)"
| run_asset: "cm_run P E used cm \<Longrightarrow> cm_run P E used (fst (add_asset A grp handle cm))"
| run_cancel_ring: "cm_run P E used cm \<Longrightarrow> cm_run P E used (cancel_group_ring P group_id ring_id reason cm)"
| run_group_create: "cm_run P E used cm \<Longrightarrow> cm_run P E used (fst (create_group_call_client now started group_id cm))"
| run_link_create: "cm_run P E used cm \<Longrightarrow> cm_run P E used (fst (create_call_link_call_client started group_id cm))"
| run_group_delete: "cm_run P E used cm \<Longrightarrow> cm_run P E used (delete_group_call_client client_id cm)"
| run_group_call: "cm_run P E used cm \<Longrightarrow> cm_run P E used (with_group_call client_id g cm)"
| run_client_takes_busy: "cm_run P E used cm \<Longrightarrow> cm_run P E used (fst (client_take_busy cm))"
| run_client_releases_busy: "cm_run P E used cm \<Longrightarrow> cm_run P E used (client_release_busy cm)"

lemma direct_requests_wind:
  "winds cm (set_self_uuid uuid cm)" "winds cm (fst (add_asset A grp handle cm))"
  "winds cm (fst (create_group_call_client now started group_id cm))"
  "winds cm (fst (create_call_link_call_client started group_id cm))"
  "winds cm (delete_group_call_client client_id cm)" "winds cm (with_group_call client_id g cm)"
  "winds cm (fst (client_take_busy cm))" "winds cm (client_release_busy cm)"
  by (rule winds_same; auto simp: client_take_busy_def client_release_busy_def set_self_uuid_def add_asset_def create_group_call_client_def take_client_id_def Let_def
      create_call_link_call_client_def delete_group_call_client_def with_group_call_def
      split: prod.split sum.split option.split)+

lemma request_inv:
  assumes inv: "cm_inv used cm" and "term_id t = None" and new: "\<And>cid. start_id t = Some cid \<Longrightarrow> cid \<notin> used"
  shows "cm_inv (used \<union> set_option (start_id t)) (cm_worker_spawn t cm)"
proof (cases "start_id t")
  case None
  have "winds cm (cm_worker_spawn t cm)"
    by (rule winds_other_task [OF _ _ _ _ spawned_tasks None assms(2)]) simp_all
  with inv None show ?thesis
    by (simp add: cm_inv_winds)
next
  case (Some cid)
  then have cid: "cid \<notin> used" "Some cid \<notin> range (object_ids cm)" "cid \<notin># start_ids cm"
    using new inv unfolding cm_inv_def by blast+
  have ids: "object_ids (cm_worker_spawn t cm) = object_ids cm"
    by (rule object_ids_cong) simp
  have terms: "term_ids (cm_worker_spawn t cm) \<subseteq> term_ids cm"
    using spawned_set [of t cm] assms(2) by (fastforce simp: term_ids_iff)
  have starts: "start_ids (cm_worker_spawn t cm) = start_ids cm
      \<or> start_ids (cm_worker_spawn t cm) = add_mset cid (start_ids cm)"
    using spawned_tasks [of t cm] Some by (auto simp: start_ids_def)
  have once: "count (start_ids (cm_worker_spawn t cm)) i = 1 \<and> Some i \<notin> range (object_ids cm)
      \<and> i \<in> used \<union> {cid}" if "i \<in># start_ids (cm_worker_spawn t cm)" for i
    using that starts cid inv unfolding cm_inv_def by (auto simp: not_in_iff simp del: range_eqI)
  show ?thesis
    using inv terms once unfolding cm_inv_def ids Some by (auto simp del: range_eqI)
qed

lemma cm_run_inv: "cm_run P E used cm \<Longrightarrow> cm_inv used cm"
proof (induction rule: cm_run.induct)
  case run_new then show ?case by (rule cm_inv_new)
next
  case run_request then show ?case by (blast intro: request_inv)
next
  case run_worker_step then show ?case by (blast intro: worker_step_inv)
next
  case run_call_request then show ?case by (blast intro: cm_inv_winds cm_serve_winds)
next
  case run_call then show ?case by (blast intro: cm_inv_winds update_object_winds)
qed (blast intro: cm_inv_winds direct_requests_wind winds_update(1) cancel_group_ring_winds)+

text \<open>
  C8: Whatever the application, the worker, the calls' threads and the group call clients do, in
  whatever order, as long as a call identifier is requested once: when the manager has an active
  call, the call is in its map, under its own identifier, and no waiting task will terminate it. So
  \<open>active_call\<close> never fails with \<open>CallIdNotFound\<close>, although the busy flag may say anything.
\<close>

theorem active_call_exists:
  assumes "cm_run P E used cm" "active_call_id cm = Some cid"
  shows "(\<exists>h. active_call cm = Ok h \<and> call_at cm h (\<lambda>c. link_call_id c = cid)) \<and> cid \<notin> term_ids cm"
proof -
  obtain h where "map_of (call_by_call_id cm) cid = Some h" "object_ids cm h = Some cid" "cid \<notin> term_ids cm"
    using cm_run_inv [OF assms(1)] assms(2) unfolding cm_inv_def by blast
  then show ?thesis
    using assms(2) by (auto simp: active_call_def call_at_def object_ids_def)
qed

section \<open>A small platform\<close>

text \<open>A platform that keeps the list of the requests it has received; peers are numbers.\<close>

definition small_platform :: "(nat platform_request list, nat) platform_ops" where
  "small_platform =
     \<lparr> platform_do = (\<lambda>req p. (p @ [req], Ok ())), compare_remotes = (\<lambda>a b. Ok (a = b)),
       assume_messages_sent = False, conn_can_send = (\<lambda>_ _ _. True), conn_take_candidates = (\<lambda>_ _ p. (p, [])),
       ring_time = TIME_OUT_PERIOD, call_message_encode = (\<lambda>_. Ok []),
       call_message_decode = (\<lambda>_. Err (Anyhow ''decode'')) \<rparr>"

type_synonym small_cms = "(nat platform_request list, nat, small_pc, nat, unit) cms"

definition small_cm_env :: "(small_pc, small_cms, small_sd, unit, nat) call_env" where
  "small_cm_env =
     \<lparr> e_ops = e_ops small_call_env, e_sdp = e_sdp small_call_env, e_start = e_start small_call_env,
       e_cm = cm_serve small_platform 0, e_create = (\<lambda>_ _ _ _ _ m. (m, Err CreatePeerConnection)),
       e_call_sim = False \<rparr>"

definition small_manager :: small_cms where
  "small_manager = cm_worker_step small_platform small_cm_env 0
     (cm_worker_spawn (TaskCall 5 7 Audio 1) (call_manager_new False []))"

lemmas small_manager_simps = small_manager_def cm_worker_step_def cm_worker_spawn_def call_manager_new_def
  actor_start_def actor_send_def send_task_def immediate_def actor_iterate_def next_received_def is_delayed_def
  run_cm_task_def handle_call_def create_call_def call_new_def call_fsm_new_def Let_def reset_messages_in_flight_def
  signaling_message_queue_new_def on_link_def start_timeout_timer_def TIME_OUT_PERIOD_def actor_send_delayed_def
  delayed_def inject_call_event_def CHANNEL_CAPACITY_def or_create_api_error_def

theorem active_call_exists_witness:
  "cm_run small_platform small_cm_env {7} (client_release_busy small_manager)
   \<and> active_call_id (client_release_busy small_manager) = Some 7 \<and> \<not> busy (client_release_busy small_manager)
   \<and> (\<exists>h. active_call (client_release_busy small_manager) = Ok h
        \<and> call_at (client_release_busy small_manager) h (\<lambda>c. link_call_id c = 7))"
proof -
  have "cm_run small_platform small_cm_env ({} \<union> set_option (start_id (TaskCall (5 :: nat) 7 Audio 1)))
      (client_release_busy small_manager)"
    unfolding small_manager_def
    by (intro run_client_releases_busy run_worker_step run_request run_new) (simp_all add: term_id_def)
  then have run: "cm_run small_platform small_cm_env {7} (client_release_busy small_manager)"
    by (simp add: start_id_def)
  moreover have "active_call_id (client_release_busy small_manager) = Some 7" "\<not> busy (client_release_busy small_manager)"
    by (simp_all add: client_release_busy_def small_manager_simps)
  ultimately show ?thesis
    using active_call_exists [OF run, of 7] by simp
qed

end
