(* ===== verification/Call_Manager_Props.thy ===== *)
theory Call_Manager_Props
  imports Call_Manager_Inv "HOL-Library.Sublist"
begin

text \<open>
  What the call manager promises: two managers that call each other at the same time agree on one
  call, signaling messages leave in the order in which they were queued and one at a time, a group
  ring reaches the client that is created for it; and two situations in which calls are left behind.
\<close>

text \<open>A platform whose operations succeed.\<close>

definition obliging :: "('p, 'peer) platform_ops \<Rightarrow> bool" where
  "obliging P \<longleftrightarrow> (\<forall>req p. snd (platform_do P req p) = Ok ())"

lemma obliging_platform:
  assumes "obliging P"
  obtains p where "on_platform P req cm = (cm\<lparr>platform_state := p\<rparr>, Ok ())"
proof -
  obtain p r where "platform_do P req (platform_state cm) = (p, r)" by fastforce
  moreover from this have "r = Ok ()"
    using assms unfolding obliging_def by (metis snd_conv)
  ultimately show thesis
    using that by (simp add: on_platform_def)
qed

section \<open>Glare\<close>

text \<open>
  A call to a peer that no device has answered yet: it is the active call and its machine takes
  events.
\<close>

definition calling :: "('p, 'peer, 'pc, 'sk, 'ig) cms \<Rightarrow> nat \<Rightarrow> 'peer \<Rightarrow> call_id \<Rightarrow> bool" where
  "calling cm h peer cid \<longleftrightarrow> active_call_id cm = Some cid \<and> map_of (call_by_call_id cm) cid = Some h
     \<and> h < next_object cm \<and> busy cm \<and> (case call_objects cm h of
          None \<Rightarrow> False
        | Some (p, _, c) \<Rightarrow> p = peer \<and> link_call_id c = cid \<and> active_device c = None
            \<and> length (stream_events (link_stream c)) < CHANNEL_CAPACITY)"

lemma inject_ok:
  "length (stream_events (link_stream c)) < CHANNEL_CAPACITY \<Longrightarrow> snd (inject_call_event e c) = Ok ()"
  by (cases "link_stream c") (simp_all add: inject_call_event_def)

lemma terminate_call_ok:
  assumes P: "obliging P" and obj: "call_objects cm h = Some (peer, f, c)"
    and room: "length (stream_events (link_stream c)) < CHANNEL_CAPACITY"
  shows "snd (terminate_call P h (Some hang) (Some reason) cm) = Ok ()"
    "worker (fst (terminate_call P h (Some hang) (Some reason) cm))
       = worker (cm_worker_spawn (TaskTerminate h (link_call_id c) (Some hang)) cm)"
    "active_call_id (fst (terminate_call P h (Some hang) (Some reason) cm)) = active_call_id cm"
proof -
  define cm1 where "cm1 = trim_messages (link_call_id c) cm"
  obtain p where p: "on_platform P (OnCallEnded peer (link_call_id c) reason) cm1 = (cm1\<lparr>platform_state := p\<rparr>, Ok ())"
    using obliging_platform [OF P] by blast
  obtain c' where i: "inject_send_hangup_via_rtp_data_to_all hang c = (c', Ok ())"
    using inject_ok [of "call_set_state call_state.Terminating c" "SendHangupViaRtpDataToAll hang"] room
    by (metis inject_send_hangup_via_rtp_data_to_all_def call_set_state_def surj_pair snd_conv call_link.update_convs(2)
        call_link.select_convs(4) call_link.surjective)
  have obj1: "call_objects cm1 h = Some (peer, f, c)"
    using obj by (simp add: cm1_def trim_messages_def)
  have "terminate_call P h (Some hang) (Some reason) cm = (cm_worker_spawn (TaskTerminate h (link_call_id c) (Some hang))
      (cm1\<lparr>platform_state := p, call_objects := (call_objects cm1)(h \<mapsto> (peer, f, c'))\<rparr>), Ok ())"
    using obj obj1 p i by (simp add: terminate_call_def Let_def on_call_ended_def on_link_def flip: cm1_def)
  then show "snd (terminate_call P h (Some hang) (Some reason) cm) = Ok ()"
    "worker (fst (terminate_call P h (Some hang) (Some reason) cm))
       = worker (cm_worker_spawn (TaskTerminate h (link_call_id c) (Some hang)) cm)"
    "active_call_id (fst (terminate_call P h (Some hang) (Some reason) cm)) = active_call_id cm"
    by (simp_all add: cm1_def trim_messages_def cm_worker_spawn_def)
qed

lemma calling_collision:
  assumes "calling cm h peer active" "same_remote P peer peer'"
  shows "offer_collision P peer' incoming received (snd (create_call peer' incoming dir media dev cm))
    = glare_tiebreaker active incoming"
  using assms
  by (auto simp: calling_def offer_collision_def check_for_collision_def create_call_def active_device_id_def
      remote_peer_equals_active_def remote_peer_of_def split: option.splits)

lemma glare_winner:
  assumes P: "obliging P" and call: "calling cm h peer active" and peer: "same_remote P peer peer'"
    and fresh: "validate_offer received = Ok ()" and win: "incoming < active"
  shows "active_call_id (fst (cm_handle_received_offer P now peer' incoming received cm)) = Some active
    \<and> busy (fst (cm_handle_received_offer P now peer' incoming received cm))"
proof -
  obtain h' cm1 where create: "create_call peer' incoming call_direction.Incoming (offer_media_type (ro_offer received))
      (ro_receiver_device_id received) cm = (h', cm1)"
    by fastforce
  obtain p where "on_platform P (OnEvent peer' incoming ReceivedOfferWithGlare) cm1 = (cm1\<lparr>platform_state := p\<rparr>, Ok ())"
    using obliging_platform [OF P] by blast
  moreover have "offer_collision P peer' incoming received cm1 = GlareWinner"
    using calling_collision [OF call peer, of incoming received] create win
    by (metis glare_tiebreaker_def snd_conv)
  moreover have "active_call_id cm1 = Some active" "busy cm1"
    using create call by (auto simp: create_call_def calling_def)
  ultimately show ?thesis
    using fresh create by (simp add: cm_handle_received_offer_def act_on_active_call_def act_on_incoming_call_def)
qed

lemma glare_loser:
  assumes P: "obliging P" and call: "calling cm h peer active" and peer: "same_remote P peer peer'"
    and fresh: "validate_offer received = Ok ()" and lose: "active < incoming"
    and running: "\<not> has_been_stopped (worker cm)" "\<not> ended (worker cm)"
  shows "active_call_id (fst (cm_handle_received_offer P now peer' incoming received cm)) = Some incoming
    \<and> busy (fst (cm_handle_received_offer P now peer' incoming received cm))
    \<and> TaskTerminate h active (Some hangup.Normal)
        \<in> set (actor_tasks (worker (fst (cm_handle_received_offer P now peer' incoming received cm))))"
proof -
  obtain h' cm1 where create: "create_call peer' incoming call_direction.Incoming (offer_media_type (ro_offer received))
      (ro_receiver_device_id received) cm = (h', cm1)"
    by fastforce
  obtain f c where obj: "call_objects cm h = Some (peer, f, c)" and c: "link_call_id c = active"
      "length (stream_events (link_stream c)) < CHANNEL_CAPACITY"
    using call by (auto simp: calling_def split: option.splits)
  have h: "h \<noteq> h'" "h < next_object cm"
    using call create by (auto simp: calling_def create_call_def)
  define cm2 where "cm2 = release_busy (clear_active_call cm1)"
  have obj2: "call_objects cm2 h = Some (peer, f, c)"
    using create obj h by (auto simp: cm2_def create_call_def release_busy_def clear_active_call_def)
  obtain cm3 where t: "terminate_call P h (Some hangup.Normal) (Some RemoteGlare) cm2 = (cm3, Ok ())"
    "worker cm3 = worker (cm_worker_spawn (TaskTerminate h active (Some hangup.Normal)) cm2)" "active_call_id cm3 = None"
    using terminate_call_ok [OF P obj2 c(2), of hangup.Normal RemoteGlare] c(1)
    by (auto simp: cm2_def release_busy_def clear_active_call_def intro!: that
        [of "fst (terminate_call P h (Some hangup.Normal) (Some RemoteGlare) (release_busy (clear_active_call cm1)))"])
      (metis prod.collapse)
  have col: "offer_collision P peer' incoming received cm1 = GlareLoser"
    using calling_collision [OF call peer, of incoming received] create lose
    by (metis glare_tiebreaker_def snd_conv less_asym)
  have act: "active_call cm1 = Ok h"
    using create call by (auto simp: create_call_def calling_def active_call_def)
  have w: "worker cm2 = worker cm"
    using create by (auto simp: cm2_def create_call_def release_busy_def clear_active_call_def)
  then have mem: "TaskTerminate h active (Some hangup.Normal) \<in> set (actor_tasks (worker cm3))"
    using t(2) running by (simp add: cm_worker_spawn_def actor_send_def send_task_def immediate_def actor_tasks_def)
  have "fst (cm_handle_received_offer P now peer' incoming received cm)
      = fst (start_incoming_call P now h' peer' incoming received cm3)"
    using fresh create col act t(1)
    by (simp add: cm_handle_received_offer_def act_on_active_call_def act_on_incoming_call_def cm2_def)
  moreover have "active_call_id (fst (start_incoming_call P now h' peer' incoming received cm3)) = Some incoming"
    "busy (fst (start_incoming_call P now h' peer' incoming received cm3))"
    "worker (fst (start_incoming_call P now h' peer' incoming received cm3)) = worker cm3"
    using t(3) by (simp_all add: start_incoming_call_def Let_def reset_messages_in_flight_def
        fst_bind_ok_same [where f = active_call_id] fst_bind_ok_same [where f = busy] fst_bind_ok_same [where f = worker])
  ultimately show ?thesis
    using mem by simp
qed

text \<open>
  C9: Two users call each other at the same time, and each manager receives the other's offer while
  its own call is not answered yet. Both end up with the same active call, the one with the larger
  identifier, and the manager that gave up its own call has queued the termination of that call with
  a hangup.
\<close>

theorem glare_agreement:
  assumes "obliging P" "obliging P'" "same_remote P peer peer" "same_remote P' peer' peer'"
    "calling cm h peer cid" "calling cm' h' peer' cid'" "cid < cid'"
    "validate_offer received = Ok ()" "validate_offer received' = Ok ()"
    "\<not> has_been_stopped (worker cm)" "\<not> ended (worker cm)"
  shows "let cm1 = fst (cm_handle_received_offer P now peer cid' received' cm);
             cm2 = fst (cm_handle_received_offer P' now' peer' cid received cm') in
    active_call_id cm1 = Some cid' \<and> active_call_id cm2 = Some cid' \<and> busy cm1 \<and> busy cm2
    \<and> TaskTerminate h cid (Some hangup.Normal) \<in> set (actor_tasks (worker cm1))"
  using glare_loser [OF assms(1,5,3,9,7,10,11), of now] glare_winner [OF assms(2,6,4,8,7), of now']
  by (simp add: Let_def)

definition small_received :: received_offer where
  "small_received = \<lparr> ro_offer = small_offer, ro_age = 0, ro_sender_device_id = 2, ro_receiver_device_id = 1,
     ro_sender_identity_key = [], ro_receiver_identity_key = [] \<rparr>"

definition other_manager :: small_cms where
  "other_manager = cm_worker_step small_platform small_cm_env 0
     (cm_worker_spawn (TaskCall 4 9 Audio 1) (call_manager_new False []))"

lemma small_managers_call: "calling small_manager 0 5 7" "calling other_manager 0 4 9"
  by (simp_all add: calling_def small_manager_simps other_manager_def)

lemma obliging_small: "obliging small_platform"
  by (simp add: obliging_def small_platform_def)

theorem glare_agreement_witness:
  "calling small_manager 0 5 7 \<and> calling other_manager 0 4 9
   \<and> active_call_id (fst (cm_handle_received_offer small_platform 10 5 9 small_received small_manager)) = Some 9
   \<and> active_call_id (fst (cm_handle_received_offer small_platform 20 4 7 small_received other_manager)) = Some 9"
  using small_managers_call
    glare_agreement [OF obliging_small obliging_small _ _ small_managers_call, of small_received small_received 10 20]
  by (simp add: same_remote_def small_platform_def validate_offer_def small_received_def small_manager_simps Let_def)

section \<open>The message queue\<close>

lemma attempt_message_subseq:
  "subseq (queue (message_queue (fst (attempt_message P item cm)))) (queue (message_queue cm))"
proof -
  obtain cm' r where c: "run_message_closure P (item_call_id item) (item_closure item) cm = (cm', r)"
    by fastforce
  then have "message_queue cm' = message_queue cm"
    using run_message_closure_queue [of P "item_call_id item" "item_closure item" cm] by simp
  moreover have "subseq (queue (message_queue (fst (cm_internal_error P cid e cm')))) (queue (message_queue cm'))" for cid e
    by (auto simp: cm_internal_error_def terminate_active_call_def terminate_call_queue trim_messages_def
        clear_active_call_def release_busy_def split: sum.split option.split)
  ultimately show ?thesis
    using c by (cases r) (simp_all add: attempt_message_def Let_def)
qed

lemma attempt_message_flag:
  "snd (attempt_message P item cm) = Ok True \<Longrightarrow> messages_in_flight (message_queue (fst (attempt_message P item cm)))"
  by (auto simp: attempt_message_def Let_def bind_ok_def split: prod.splits sum.splits)

text \<open>
  \<open>tries P cm items cm'\<close>: from \<open>cm\<close> the items are tried one after the other, each when it is the
  first in the queue and no message is in flight, which leads to \<open>cm'\<close>.
\<close>

inductive tries ::
  "('p, 'peer) platform_ops \<Rightarrow> ('p, 'peer, 'pc, 'sk, 'ig) cms \<Rightarrow> message_item list
   \<Rightarrow> ('p, 'peer, 'pc, 'sk, 'ig) cms \<Rightarrow> bool"
  for P where
  tries_none: "tries P cm [] cm"
| tries_first:
    "\<not> messages_in_flight (message_queue cm) \<Longrightarrow> queue (message_queue cm) = item # rest
     \<Longrightarrow> tries P (fst (attempt_message P item (set_queue rest cm))) items cm'
     \<Longrightarrow> tries P cm (item # items) cm'"

lemma tries_subseq:
  "tries P cm items cm' \<Longrightarrow> subseq (items @ queue (message_queue cm')) (queue (message_queue cm))"
proof (induction rule: tries.induct)
  case (tries_first cm item rest items cm')
  then have "subseq (items @ queue (message_queue cm')) rest"
    using attempt_message_subseq [of P item "set_queue rest cm"] subseq_order.order_trans by fastforce
  then show ?case
    using tries_first.hyps(2) by simp
qed simp

lemma send_loop_tries:
  "\<exists>items. tries P cm items (fst (send_loop P cm))
   \<and> (items = [] \<longrightarrow> messages_in_flight (message_queue cm) \<or> queue (message_queue cm) = [])
   \<and> (snd (send_loop P cm) = Ok () \<longrightarrow> messages_in_flight (message_queue (fst (send_loop P cm)))
        \<or> queue (message_queue (fst (send_loop P cm))) = [])"
proof (induction P cm rule: send_loop.induct)
  case (1 P cm)
  show ?case
  proof (cases "messages_in_flight (message_queue cm) \<or> queue (message_queue cm) = []")
    case True
    then have "send_loop P cm = (cm, Ok ())"
      by (auto simp: send_loop.simps)
    with True show ?thesis
      by (intro exI [of _ "[]"]) (simp add: tries_none)
  next
    case False
    then obtain item rest where q: "queue (message_queue cm) = item # rest"
      by (cases "queue (message_queue cm)") auto
    define a where "a = attempt_message P item (set_queue rest cm)"
    have loop: "send_loop P cm = (case snd a of Err e \<Rightarrow> (fst a, Err e)
        | Ok in_flight \<Rightarrow> if in_flight then (fst a, Ok ()) else send_loop P (fst a))"
      using False q unfolding a_def by (subst send_loop.simps) (simp add: Let_def)
    have first: "tries P cm (item # items) cm'" if "tries P (fst a) items cm'" for items cm'
      using that False q tries_first unfolding a_def by blast
    show ?thesis
    proof (cases "snd a = Ok False")
      case True
      then show ?thesis
        using 1 [OF _ q a_def True] False loop first by fastforce
    next
      case other: False
      then have "fst (send_loop P cm) = fst a"
        "snd (send_loop P cm) = Ok () \<longrightarrow> messages_in_flight (message_queue (fst a))"
        using loop attempt_message_flag [of P item "set_queue rest cm"] by (auto simp: a_def [symmetric] split: sum.split)
      then show ?thesis
        using first [OF tries_none] by (intro exI [of _ "[item]"]) simp
    qed
  qed
qed

text \<open>
  C10: messages are sent in the order in which they were queued, one at a time. A new message joins
  the end of the queue. Then messages are tried one after the other, each when it is the first in
  the queue and none is in flight, the first one being the oldest; those tried and those that
  still wait at the end are in the order of the queue. Sending ends, and unless the report of a
  failure fails, it ends with a message in flight or with an empty queue. While a message is in
  flight, none is tried.
\<close>

theorem messages_leave_in_order:
  "\<exists>tried cm' r. send_next_message P (Some item) cm = (cm', r)
     \<and> tries P (set_queue (queue (message_queue cm) @ [item]) cm) tried cm'
     \<and> subseq (tried @ queue (message_queue cm')) (queue (message_queue cm) @ [item])
     \<and> (r = Ok () \<longrightarrow> messages_in_flight (message_queue cm') \<or> queue (message_queue cm') = [])
     \<and> (if messages_in_flight (message_queue cm)
        then tried = [] \<and> cm' = set_queue (queue (message_queue cm) @ [item]) cm \<and> r = Ok ()
        else tried \<noteq> [] \<and> hd tried = hd (queue (message_queue cm) @ [item]))"
proof -
  define cm1 where "cm1 = set_queue (queue (message_queue cm) @ [item]) cm"
  have cm1: "messages_in_flight (message_queue cm1) = messages_in_flight (message_queue cm)"
    "queue (message_queue cm1) = queue (message_queue cm) @ [item]"
    by (simp_all add: cm1_def set_queue_def)
  obtain cm' r where run: "send_loop P cm1 = (cm', r)"
    by fastforce
  then obtain tried where t: "tries P cm1 tried cm'" "tried = [] \<longrightarrow> messages_in_flight (message_queue cm1)"
    and res: "r = Ok () \<longrightarrow> messages_in_flight (message_queue cm') \<or> queue (message_queue cm') = []"
    using send_loop_tries [of P cm1] cm1(2) by auto
  have "if messages_in_flight (message_queue cm) then tried = [] \<and> cm' = cm1 \<and> r = Ok ()
      else tried \<noteq> [] \<and> hd tried = hd (queue (message_queue cm) @ [item])"
    using t run cm1 by (cases rule: tries.cases [OF t(1)]) (auto simp: send_loop.simps dest: arg_cong [of _ _ hd])
  then show ?thesis
    using t run res tries_subseq [OF t(1)] cm1(2)
    by (intro exI [of _ tried] exI [of _ cm'] exI [of _ r]) (simp add: send_next_message_def cm1_def)
qed

theorem messages_leave_in_order_witness:
  "\<not> messages_in_flight (message_queue small_manager)
   \<and> (\<exists>cm'. send_next_message small_platform
          (Some \<lparr> item_call_id = 7, item_type = message_type.Busy, item_closure = SendBusy 0 \<rparr>) small_manager = (cm', Ok ())
        \<and> messages_in_flight (message_queue cm') \<and> queue (message_queue cm') = []
        \<and> platform_state cm' = [OnSendBusy 5 7])"
proof -
  let ?item = "\<lparr> item_call_id = 7, item_type = message_type.Busy, item_closure = SendBusy 0 \<rparr>"
  obtain cm' r where s: "send_next_message small_platform (Some ?item) small_manager = (cm', r)"
    and o: "r = Ok () \<Longrightarrow> messages_in_flight (message_queue cm') \<or> queue (message_queue cm') = []"
    using messages_leave_in_order [of small_platform ?item small_manager] by blast
  have "r = Ok () \<and> messages_in_flight (message_queue cm') \<and> queue (message_queue cm') = []
      \<and> platform_state cm' = [OnSendBusy 5 7]"
    using s by (auto simp: send_next_message_def send_loop.simps attempt_message_def run_message_closure_def
        send_to_peer_def remote_peer_of_def on_platform_def small_platform_def set_queue_def small_manager_simps)
  with s o show ?thesis
    by (auto simp: small_manager_simps)
qed

section \<open>Group rings\<close>

definition ring_of :: "32 word \<Rightarrow> ('p, 'peer, 'pc, 'sk, 'ig) cms \<Rightarrow> ring_id option" where
  "ring_of client_id cm = Option.bind (map_of (group_call_by_client_id cm) client_id) gc_ring_id"

definition ring_intention_message :: "group_id \<Rightarrow> 32 word \<Rightarrow> ring_id \<Rightarrow> call_message" where
  "ring_intention_message group_id ty ring_id =
     \<lparr> group_call_message = None,
       ring_intention = Some \<lparr> rm_group_id = Some group_id, rm_type = Some ty, rm_ring_id = Some ring_id \<rparr>,
       ring_response = None \<rparr>"

definition no_client :: "group_id \<Rightarrow> ('p, 'peer, 'pc, 'sk, 'ig) cms \<Rightarrow> bool" where
  "no_client group_id cm \<longleftrightarrow> \<not> list_ex (\<lambda>(_, c). active_in_group group_id c) (group_call_by_client_id cm)"

lemma platform_rings [simp]:
  "outstanding_group_rings (fst (on_platform P req cm)) = outstanding_group_rings cm"
  "group_call_by_client_id (fst (on_platform P req cm)) = group_call_by_client_id cm"
  by (simp_all add: on_platform_def split: prod.split)

lemma active_send_request [simp]: "active_in_group g (send_request req c) = active_in_group g c"
  by (simp add: active_in_group_def send_request_def)

lemma ring_recorded:
  assumes "\<not> busy cm" "call_message_decode P bytes = Ok (ring_intention_message g 0 r)" "age \<le> MAX_MESSAGE_AGE"
    "no_client g cm"
  shows "map_of (outstanding_group_rings (fst (handle_received_call_message P t sender bytes age cm))) g
      = Some \<lparr> ring_sender_id = sender, ring_ring_id = r, ring_received = t \<rparr>
    \<and> no_client g (fst (handle_received_call_message P t sender bytes age cm))"
  using assms
  by (auto simp: handle_received_call_message_def ring_intention_message_def handle_ring_intention_def
      intention_type_of_def group_call_ring_update_def start_group_ring_def update_conv' no_client_def
      list_ex_iff split: if_splits)

lemma cancellation:
  assumes "call_message_decode P bytes = Ok (ring_intention_message g 1 r)" "no_client g cm"
    "map_of (outstanding_group_rings cm) g = Some ring" "ring_ring_id ring = r"
  shows "map_of (outstanding_group_rings (fst (handle_received_call_message P t other bytes age cm))) g
      = (if other = ring_sender_id ring then None else Some ring)
    \<and> no_client g (fst (handle_received_call_message P t other bytes age cm))"
  using assms
  by (auto simp: handle_received_call_message_def ring_intention_message_def handle_ring_intention_def
      intention_type_of_def group_call_ring_update_def remove_outstanding_group_ring_def delete_conv' no_client_def)

lemma created_client:
  assumes "no_client g cm" "map_of (outstanding_group_rings cm) g = ring"
    "\<And>x. ring = Some x \<Longrightarrow> \<not> has_expired now x"
  shows "\<exists>cm' i. create_group_call_client now (Ok ()) g cm = (cm', Ok i) \<and> ring_of i cm' = map_option ring_ring_id ring"
proof -
  have "map_of (live_rings now rings) g = ring" if "map_of rings g = ring" for rings
    using that assms(3) by (induction rings) (auto simp: live_rings_def split: if_splits)
  then show ?thesis
    using assms(1,2)
    by (auto simp: create_group_call_client_def no_client_def take_client_id_def Let_def ring_of_def update_conv')
qed

text \<open>
  C11: A ring for a group arrives while the manager is not busy and has no client for the group. A
  client that is created within 60 seconds is given the ring. After a cancellation that its sender
  has sent a client is given no ring; one that anybody else has sent changes nothing.
\<close>

theorem ring_reaches_client:
  assumes "\<not> busy cm" "no_client g cm" "age \<le> MAX_MESSAGE_AGE" "now < t + TIME_OUT_PERIOD"
    "call_message_decode P ring = Ok (ring_intention_message g 0 r)"
    "call_message_decode P cancel = Ok (ring_intention_message g 1 r)"
  shows "let cm1 = fst (handle_received_call_message P t sender ring age cm);
             cm2 = fst (handle_received_call_message P t' other cancel age' cm1) in
    (\<exists>cm' i. create_group_call_client now (Ok ()) g cm1 = (cm', Ok i) \<and> ring_of i cm' = Some r)
    \<and> (\<exists>cm' i. create_group_call_client now (Ok ()) g cm2 = (cm', Ok i)
         \<and> ring_of i cm' = (if other = sender then None else Some r))"
proof -
  define cm1 where "cm1 = fst (handle_received_call_message P t sender ring age cm)"
  define cm2 where "cm2 = fst (handle_received_call_message P t' other cancel age' cm1)"
  let ?ring = "\<lparr> ring_sender_id = sender, ring_ring_id = r, ring_received = t \<rparr>"
  have live: "\<not> has_expired now ?ring"
    using assms(4) by (simp add: has_expired_def TIME_OUT_PERIOD_def)
  have one: "map_of (outstanding_group_rings cm1) g = Some ?ring" "no_client g cm1"
    using ring_recorded [OF assms(1,5,3,2)] unfolding cm1_def by blast+
  moreover have "map_of (outstanding_group_rings cm2) g = (if other = sender then None else Some ?ring)" "no_client g cm2"
    using cancellation [OF assms(6) one(2,1), of t' other age'] unfolding cm2_def by simp_all
  ultimately show ?thesis
    using created_client [of g cm1 "Some ?ring" now] live
      created_client [of g cm2 "if other = sender then None else Some ?ring" now]
    unfolding Let_def cm1_def [symmetric] cm2_def [symmetric] by (auto split: if_splits)
qed

definition ringing_platform :: "(nat platform_request list, nat) platform_ops" where
  "ringing_platform = small_platform\<lparr>call_message_decode :=
     (\<lambda>b. if b = [] then Ok (ring_intention_message [1] 0 5) else Ok (ring_intention_message [1] 1 5))\<rparr>"

theorem ring_reaches_client_witness:
  "\<exists>cm1 cm2 cm3 cm4 i j.
     cm1 = fst (handle_received_call_message ringing_platform 100 [8] [] 0
       (call_manager_new False [] :: small_cms))
   \<and> cm2 = fst (handle_received_call_message ringing_platform 200 [8] [0] 0 cm1)
   \<and> create_group_call_client 300 (Ok ()) [1] cm1 = (cm3, Ok i) \<and> ring_of i cm3 = Some 5
   \<and> create_group_call_client 300 (Ok ()) [1] cm2 = (cm4, Ok j) \<and> ring_of j cm4 = None"
proof -
  have hyps: "\<not> busy (call_manager_new False [] :: small_cms)" "no_client [1] (call_manager_new False [] :: small_cms)"
    "(0 :: nat) \<le> MAX_MESSAGE_AGE" "300 < 100 + TIME_OUT_PERIOD"
    "call_message_decode ringing_platform [] = Ok (ring_intention_message [1] 0 5)"
    "call_message_decode ringing_platform [0] = Ok (ring_intention_message [1] 1 5)"
    by (simp_all add: call_manager_new_def no_client_def TIME_OUT_PERIOD_def ringing_platform_def)
  show ?thesis
    using ring_reaches_client [OF hyps, of "[8]" 200 "[8]" 0] by (auto simp: Let_def)
qed

section \<open>Calls that are left behind\<close>

lemma on_call_quiet:
  assumes obj: "call_objects cm h = Some (peer, f, c)"
    and quiet: "\<And>m. link_kept (load_call m c) (snd (fst (g (f, load_call m c))))"
  obtains x where "fst (on_call h g cm) = cm\<lparr>call_objects := (call_objects cm)(h \<mapsto> x)\<rparr>"
proof -
  define cm1 where "cm1 = cm\<lparr>call_objects := (call_objects cm)(h \<mapsto> (peer, f, c\<lparr>link_stream := Active []\<rparr>))\<rparr>"
  obtain f' call' r where g: "g (f, load_call cm1 c) = ((f', call'), r)"
    by (metis surj_pair)
  then have "manager call' = cm1"
    using quiet [of cm1] by (simp add: link_kept_def)
  then have "fst (on_call h g cm) =
      cm\<lparr>call_objects := (call_objects cm)(h \<mapsto> (peer, f', deliver (c\<lparr>link_stream := Active []\<rparr>) (load_call () call')))\<rparr>"
    using obj g by (simp add: on_call_def Let_def flip: cm1_def) (simp add: cm1_def)
  then show thesis
    by (rule that)
qed

lemma load_call_context [simp]: "link_call_context (load_call m c) = link_call_context c"
  by (cases c; simp add: load_call_def call_link.defs)

lemma drop_call_without_context:
  assumes filed: "map_of (call_by_call_id cm) cid = Some h" and obj: "call_objects cm h = Some (peer, f, c)"
    and ctx: "link_call_context c = None"
  obtains x r where "terminate_and_drop_call P E now cid cm =
    (cm\<lparr>call_by_call_id := AList.delete cid (call_by_call_id cm), call_objects := (call_objects cm)(h \<mapsto> x)\<rparr>, r)"
proof -
  let ?cm = "cm\<lparr>call_by_call_id := AList.delete cid (call_by_call_id cm)\<rparr>"
  have quiet: "link_kept (load_call m c) (snd (fst (call_terminate (env_of P E h) now (f, load_call m c))))" for m
    using ctx by (intro call_terminate_without_context) simp
  have "call_objects ?cm h = Some (peer, f, c)"
    using obj by simp
  then obtain x where x: "fst (on_call h (call_terminate (env_of P E h) now) ?cm)
      = ?cm\<lparr>call_objects := (call_objects ?cm)(h \<mapsto> x)\<rparr>"
    by (rule on_call_quiet) (rule quiet)
  obtain cm' r where t: "on_call h (call_terminate (env_of P E h) now) ?cm = (cm', r)"
    by fastforce
  then show thesis
    using filed x that [of x r] by (simp add: terminate_and_drop_call_def)
qed

lemma terminate_without_hangup:
  assumes P: "obliging P" and obj: "call_objects cm h = Some (peer, f, c)"
  obtains p q where "terminate_call P h None (Some reason) cm =
    (cm_worker_spawn (TaskTerminate h (link_call_id c) None) (cm\<lparr>message_queue := q, platform_state := p\<rparr>), Ok ())"
proof -
  define cm1 where "cm1 = trim_messages (link_call_id c) cm"
  obtain p where p: "on_platform P (OnCallEnded peer (link_call_id c) reason) cm1 = (cm1\<lparr>platform_state := p\<rparr>, Ok ())"
    using obliging_platform [OF P] by blast
  have "cm1\<lparr>platform_state := p\<rparr> = cm\<lparr>message_queue := message_queue cm1, platform_state := p\<rparr>"
    by (simp add: cm1_def trim_messages_def)
  then show thesis
    using obj p that [of p "message_queue cm1"]
    by (simp add: terminate_call_def Let_def on_call_ended_def flip: cm1_def)
qed

text \<open>The state in which a connected call is the active one, and the worker has nothing to do.\<close>

definition in_call :: "('p, 'peer, 'pc, 'sk, 'ig) cms \<Rightarrow> nat \<Rightarrow> 'peer \<Rightarrow> call_id \<Rightarrow> device_id \<Rightarrow> bool" where
  "in_call cm h peer cid d \<longleftrightarrow> active_call_id cm = Some cid \<and> map_of (call_by_call_id cm) cid = Some h
     \<and> h < next_object cm \<and> busy cm \<and> worker cm = actor_start \<and> (case call_objects cm h of
          None \<Rightarrow> False
        | Some (p, _, c) \<Rightarrow> p = peer \<and> link_call_id c = cid \<and> active_device c = Some d
            \<and> call_state.ConnectedAndAccepted \<le> link_state c)"

lemma injected_context [simp]: "link_call_context (fst (inject_call_event e c)) = link_call_context c"
  using inject_call_event_kept [of c e] by (simp add: link_kept_def)

lemma inject_all_context [simp]: "link_call_context (fst (inject_all es c)) = link_call_context c"
proof (induction es arbitrary: c)
  case (Cons e es)
  obtain c' r where i: "inject_call_event e c = (c', r)" by fastforce
  then have "link_call_context c' = link_call_context c"
    using injected_context [of e c] by simp
  then show ?case
    using Cons i by (cases r) simp_all
qed simp

lemma offered_context:
  "link_call_context (fst (bind_ok (handle_received_offer received (start_timeout_timer now period c))
     (\<lambda>_ c. inject_call_event StartCall c))) = link_call_context c"
  by (simp add: handle_received_offer_def start_timeout_timer_def split: option.split)

lemma on_link_object:
  "call_objects cm h = Some (peer, f, c) \<Longrightarrow>
   on_link h g cm = (cm\<lparr>call_objects := (call_objects cm)(h \<mapsto> (peer, f, fst (g c)))\<rparr>, snd (g c))"
  by (simp add: on_link_def split: prod.split)

lemma start_incoming_call_fields:
  fixes cm :: "('a, 'b, 'c, 'd, 'e) cms"
  assumes "active_call_id cm = None" "call_objects cm h = Some (peer, f, c)"
    and start: "start_incoming_call P now h p cid received cm = (cm', r)"
  obtains c' where "call_objects cm' = (call_objects cm)(h \<mapsto> (peer, f, c'))"
    "link_call_context c' = link_call_context c" "call_by_call_id cm' = AList.update cid h (call_by_call_id cm)"
    "active_call_id cm' = Some cid" "busy cm'" "worker cm' = worker cm"
proof -
  define cm0 where "cm0 = (reset_messages_in_flight cm)
    \<lparr>call_by_call_id := AList.update cid h (call_by_call_id (reset_messages_in_flight cm)), busy := True, active_call_id := Some cid\<rparr>"
  define g where "g = (\<lambda>c :: (unit, 'c, 'd, 'e) call. bind_ok (handle_received_offer received (start_timeout_timer now TIME_OUT_PERIOD c))
    (\<lambda>_ c. inject_call_event StartCall c))"
  have obj0: "call_objects cm0 h = Some (peer, f, c)"
    using assms(2) by (simp add: cm0_def reset_messages_in_flight_def)
  have run: "start_incoming_call P now h p cid received cm = bind_ok (on_link h g cm0) (\<lambda>_ cm.
      on_link h (inject_all (pending_events P p cid (pending_call_messages cm))) (cm\<lparr>pending_call_messages := NoMessages\<rparr>))"
    using assms(1) by (simp add: start_incoming_call_def Let_def cm0_def g_def)
  have c1: "link_call_context (fst (g c)) = link_call_context c"
    unfolding g_def by (rule offered_context)
  show thesis
  proof (cases "snd (g c)")
    case (Inl e)
    then show thesis
      using that [of "fst (g c)"] c1 obj0 start
      by (simp add: run on_link_object) (auto simp: cm0_def reset_messages_in_flight_def)
  next
    case (Inr u)
    then show thesis
      using that [of "fst (inject_all (pending_events P p cid (pending_call_messages cm0)) (fst (g c)))"] c1 obj0 start
      by (simp add: run on_link_object) (auto simp: cm0_def reset_messages_in_flight_def)
  qed
qed

lemma replayed_offer:
  assumes P: "obliging P" and call: "in_call cm h peer cid d" and peer: "same_remote P peer peer'"
    and fresh: "validate_offer received = Ok ()" and d: "ro_sender_device_id received = d"
    and cm1_def: "cm1 = fst (cm_handle_received_offer P now peer' cid received cm)"
  obtains h' c' where "h' \<noteq> h" "call_objects cm1 h = call_objects cm h" "call_objects cm1 h' = Some (peer', call_fsm_new, c')"
    "link_call_context c' = None" "map_of (call_by_call_id cm1) cid = Some h'" "active_call_id cm1 = Some cid" "busy cm1"
    "worker cm1 = actor_send (TaskTerminate h cid None) actor_start"
proof -
  obtain f c where obj: "call_objects cm h = Some (peer, f, c)" and c: "link_call_id c = cid" "active_device c = Some d"
      "call_state.ConnectedAndAccepted \<le> link_state c" and w: "worker cm = actor_start"
    using call by (auto simp: in_call_def split: option.splits)
  obtain h' cm0 where create: "create_call peer' cid call_direction.Incoming (offer_media_type (ro_offer received))
      (ro_receiver_device_id received) cm = (h', cm0)"
    by fastforce
  have h: "h \<noteq> h'"
    using call create by (auto simp: in_call_def create_call_def)
  have new: "call_objects cm0 = (call_objects cm)(h' \<mapsto> (peer', call_fsm_new, call_new cid call_direction.Incoming
      (offer_media_type (ro_offer received)) (ro_receiver_device_id received) (registry (asset_manager_of cm)) ()))"
    "worker cm0 = actor_start" "map_of (call_by_call_id cm0) cid = Some h" "active_call_id cm0 = Some cid"
    using create w call by (auto simp: create_call_def in_call_def)
  have col: "offer_collision P peer' cid received cm0 = ReCall"
    using new obj c d h peer by (simp add: offer_collision_def check_for_collision_def remote_peer_equals_active_def
        remote_peer_of_def active_device_id_def)
  define cm2 where "cm2 = release_busy (clear_active_call cm0)"
  have "call_objects cm2 h = Some (peer, f, c)"
    using new obj h by (simp add: cm2_def release_busy_def clear_active_call_def)
  then obtain p q where t: "terminate_call P h None (Some RemoteReCall) cm2 =
      (cm_worker_spawn (TaskTerminate h cid None) (cm2\<lparr>message_queue := q, platform_state := p\<rparr>), Ok ())"
    using terminate_without_hangup [OF P] c(1) by metis
  define cm3 where "cm3 = cm_worker_spawn (TaskTerminate h cid None) (cm2\<lparr>message_queue := q, platform_state := p\<rparr>)"
  have f3: "active_call_id cm3 = None" "call_objects cm3 = call_objects cm0" "call_by_call_id cm3 = call_by_call_id cm0"
    "worker cm3 = actor_send (TaskTerminate h cid None) actor_start"
    using new(2) by (simp_all add: cm3_def cm2_def release_busy_def clear_active_call_def cm_worker_spawn_def actor_start_def)
  have run: "cm1 = fst (start_incoming_call P now h' peer' cid received cm3)"
    using fresh create col new(3,4) t
    by (simp add: cm1_def cm_handle_received_offer_def act_on_active_call_def act_on_incoming_call_def active_call_def
        cm2_def cm3_def)
  obtain r where "start_incoming_call P now h' peer' cid received cm3 = (cm1, r)"
    using run by (metis prod.collapse)
  then obtain c' where "call_objects cm1 = (call_objects cm3)(h' \<mapsto> (peer', call_fsm_new, c'))"
    "link_call_context c' = None" "call_by_call_id cm1 = AList.update cid h' (call_by_call_id cm3)"
    "active_call_id cm1 = Some cid" "busy cm1" "worker cm1 = worker cm3"
    using start_incoming_call_fields [OF f3(1)] f3(2) new(1)
    by (metis (no_types, lifting) call_new_def call_link.select_convs(3) fun_upd_same)
  then show thesis
    using that [of h' c'] h f3 new(1) by (simp add: update_conv')
qed

text \<open>
  C39: The offer of a connected incoming call arrives a second time. The manager takes it for a new call
  of the peer, ends the old call and starts a call with the same identifier; the queued termination of
  the old call then removes the new one. In the end the manager is busy with an active call that it
  does not have: hanging up does nothing, no call can be made, and the old call is never terminated.
\<close>

theorem replayed_offer_loses_call:
  assumes "obliging P" "in_call cm h peer cid d" "same_remote P peer peer'"
    "validate_offer received = Ok ()" "ro_sender_device_id received = d"
  shows "let cm1 = fst (cm_handle_received_offer P now peer' cid received cm); cm2 = cm_worker_step P E now' cm1 in
    active_call_id cm2 = Some cid \<and> active_call cm2 = Err (CallIdNotFound cid) \<and> busy cm2
    \<and> call_objects cm2 h = call_objects cm h \<and> worker cm2 = actor_start
    \<and> handle_hangup P cm2 = (cm2, Ok ())
    \<and> snd (handle_call P later other_peer other_id media dev cm2) = Err ringrtc_error.CallManagerIsBusy"
proof -
  define cm1 where "cm1 = fst (cm_handle_received_offer P now peer' cid received cm)"
  obtain h' c' where a: "h' \<noteq> h" "call_objects cm1 h = call_objects cm h" "call_objects cm1 h' = Some (peer', call_fsm_new, c')"
    "link_call_context c' = None" "map_of (call_by_call_id cm1) cid = Some h'" "active_call_id cm1 = Some cid" "busy cm1"
    "worker cm1 = actor_send (TaskTerminate h cid None) actor_start"
    using replayed_offer [OF assms cm1_def] by blast
  define cm1' where "cm1' = cm1\<lparr>worker := actor_start\<rparr>"
  have step: "cm_worker_step P E now' cm1 = run_terminate_task P E now' h cid None cm1'"
    using a(8) by (simp add: cm_worker_step_def run_cm_task_def cm1'_def actor_iterate_def next_received_def
        actor_send_def send_task_def immediate_def is_delayed_def actor_start_def)
  have a': "map_of (call_by_call_id cm1') cid = Some h'" "call_objects cm1' h' = Some (peer', call_fsm_new, c')"
    using a by (simp_all add: cm1'_def)
  obtain x r where t: "terminate_and_drop_call P E now' cid cm1' = (cm1'\<lparr>call_by_call_id := AList.delete cid (call_by_call_id cm1'),
      call_objects := (call_objects cm1')(h' \<mapsto> x)\<rparr>, r)"
    using drop_call_without_context [OF a' a(4)] by metis
  define cm2 where "cm2 = cm1'\<lparr>call_by_call_id := AList.delete cid (call_by_call_id cm1'),
      call_objects := (call_objects cm1')(h' \<mapsto> x)\<rparr>"
  have ended: "\<exists>q. fst (on_call_ended P y cid reason cm2) = cm2\<lparr>platform_state := q\<rparr>" for y reason
    by (auto simp: on_call_ended_def on_platform_def split: prod.split)
  have "cm_worker_step P E now' cm1 = (case r of Ok _ \<Rightarrow> cm2 | Err _ \<Rightarrow> (case remote_peer_of cm2 h of
      Ok peer \<Rightarrow> fst (on_call_ended P peer cid InternalFailure cm2) | Err _ \<Rightarrow> cm2))"
    using t [folded cm2_def] by (simp add: step run_terminate_task_def)
  moreover have "\<exists>q. cm2 = cm2\<lparr>platform_state := q\<rparr>"
    by (rule exI [of _ "platform_state cm2"]) simp
  ultimately obtain q where s: "cm_worker_step P E now' cm1 = cm2\<lparr>platform_state := q\<rparr>"
    using ended by (fastforce split: sum.splits)
  have "active_call (cm_worker_step P E now' cm1) = Err (CallIdNotFound cid)"
    using a(6) unfolding s by (simp add: active_call_def cm2_def cm1'_def delete_conv')
  then show ?thesis
    unfolding Let_def cm1_def [symmetric]
    using a by (auto simp: handle_hangup_def) (simp_all add: s cm2_def cm1'_def handle_call_def)
qed

definition connected_manager :: small_cms where
  "connected_manager = (call_manager_new False [])
     \<lparr>call_objects := [0 \<mapsto> (5, call_fsm_new, (call_new 7 call_direction.Incoming Audio 1 Map.empty ())
          \<lparr>link_state := call_state.ConnectedAndAccepted, active_device := Some 2,
           connection_map := [(2, conn_fsm_new, small_connection call_direction.Incoming Incoming)]\<rparr>)],
      next_object := 1, call_by_call_id := [(7, 0)], active_call_id := Some 7, busy := True\<rparr>"

lemma connected_in_call: "in_call connected_manager 0 5 7 2"
  by (simp add: in_call_def connected_manager_def call_manager_new_def call_new_def)

theorem replayed_offer_loses_call_witness:
  "in_call connected_manager 0 5 7 2
   \<and> (\<exists>cm2. cm2 = cm_worker_step small_platform small_cm_env 20
          (fst (cm_handle_received_offer small_platform 10 5 7 small_received connected_manager))
        \<and> active_call cm2 = Err (CallIdNotFound 7) \<and> busy cm2
        \<and> call_objects cm2 0 = call_objects connected_manager 0)"
  using connected_in_call
    replayed_offer_loses_call [OF obliging_small connected_in_call, of 5 small_received 10 small_cm_env 20]
  by (simp add: Let_def same_remote_def small_platform_def validate_offer_def small_received_def)

text \<open>The order in which a reset terminates calls leaves the connections of each call alone.\<close>

definition same_connections :: "(unit, 'pc, 'sk, 'ig) call \<Rightarrow> (unit, 'pc, 'sk, 'ig) call \<Rightarrow> bool" where
  "same_connections c c' \<longleftrightarrow> connection_map c' = connection_map c \<and> forking c' = forking c \<and> retired c' = retired c
     \<and> (link_state c' = link_state c \<or> link_state c' = call_state.Terminating)"

lemma injected_connections:
  "same_connections c (fst (inject_send_hangup_via_rtp_data_to_all hang c))"
  by (auto simp: same_connections_def inject_send_hangup_via_rtp_data_to_all_def call_set_state_def inject_call_event_def
      split: prod.split sum.split try_send_error.split)

lemma terminate_call_connections:
  assumes "call_objects cm h = Some (peer, f, c)"
  shows "\<exists>c'. call_objects (fst (terminate_call P k (Some hang) None cm)) h = Some (peer, f, c') \<and> same_connections c c'"
proof (cases "call_objects cm k")
  case (Some a)
  then obtain peer' f' d where a: "call_objects cm k = Some (peer', f', d)"
    by (cases a) auto
  define cm1 where "cm1 = trim_messages (link_call_id d) cm"
  have obj: "call_objects cm1 = call_objects cm"
    by (simp add: cm1_def trim_messages_def)
  have "fst (terminate_call P k (Some hang) None cm) = (case on_link k (inject_send_hangup_via_rtp_data_to_all hang) cm1 of
      (cm2, Ok _) \<Rightarrow> cm_worker_spawn (TaskTerminate k (link_call_id d) (Some hang)) cm2 | (cm2, Err _) \<Rightarrow> cm2)"
    using a by (simp add: terminate_call_def Let_def cm1_def bind_ok_def split: prod.split sum.split)
  then have "call_objects (fst (terminate_call P k (Some hang) None cm)) = (call_objects cm)
      (k \<mapsto> (peer', f', fst (inject_send_hangup_via_rtp_data_to_all hang d)))"
    using a on_link_object [of cm1 k peer' f' d] obj by (simp split: sum.split)
  then show ?thesis
    using assms a injected_connections [of d hang] by (auto simp: same_connections_def)
qed (use assms in \<open>simp add: terminate_call_def same_connections_def\<close>)

lemma terminate_all_filed:
  "call_by_call_id (fold (\<lambda>h cm. fst (terminate_call P h hang reason cm)) hs cm) = call_by_call_id cm"
  by (induction hs arbitrary: cm) (simp_all add: terminate_call_filed)

lemma reset_connections:
  assumes "call_objects cm h = Some (peer, f, c)"
  shows "\<exists>c'. call_objects (fst (handle_reset P cm)) h = Some (peer, f, c') \<and> same_connections c c'"
    "call_by_call_id (fst (handle_reset P cm)) = call_by_call_id cm"
proof -
  have "\<exists>c'. call_objects (fold (\<lambda>h cm. fst (terminate_call P h (Some hangup.Normal) None cm)) hs cm) h = Some (peer, f, c')
      \<and> same_connections c c'" for hs
    using assms
  proof (induction hs arbitrary: cm c)
    case (Cons k hs)
    obtain c1 where "call_objects (fst (terminate_call P k (Some hangup.Normal) None cm)) h = Some (peer, f, c1)"
      "same_connections c c1"
      using terminate_call_connections [OF Cons.prems] by blast
    with Cons.IH [of "fst (terminate_call P k (Some hangup.Normal) None cm)" c1] show ?case
      by (auto simp: same_connections_def)
  qed (simp add: same_connections_def)
  then show "\<exists>c'. call_objects (fst (handle_reset P cm)) h = Some (peer, f, c') \<and> same_connections c c'"
    by (simp add: handle_reset_def Let_def release_busy_def clear_active_call_def)
  show "call_by_call_id (fst (handle_reset P cm)) = call_by_call_id cm"
    by (simp add: handle_reset_def Let_def release_busy_def clear_active_call_def terminate_all_filed)
qed

lemma stopped_worker_ends:
  assumes "\<not> has_been_stopped w" "\<not> ended w"
  shows "ended (stop_all_and_join now w)"
  using assms by (auto simp: stop_all_and_join_def stop_all_without_joining_def stop_actor_def send_task_def
      actor_iterate_def next_received_def split: list.split)

lemma terminate_call_worker:
  "\<not> has_been_stopped (worker cm) \<and> \<not> ended (worker cm) \<Longrightarrow>
   \<not> has_been_stopped (worker (fst (terminate_call P h hang reason cm))) \<and> \<not> ended (worker (fst (terminate_call P h hang reason cm)))"
  by (cases "call_objects cm h"; cases reason; cases hang)
     (auto simp: terminate_call_def Let_def on_call_ended_def on_platform_def trim_messages_def cm_worker_spawn_def
       actor_send_def send_task_def bind_ok_def on_link_def split: prod.split sum.split)

lemma reset_worker:
  "\<not> has_been_stopped (worker cm) \<and> \<not> ended (worker cm) \<Longrightarrow>
   \<not> has_been_stopped (worker (fst (handle_reset P cm))) \<and> \<not> ended (worker (fst (handle_reset P cm)))"
proof -
  have "\<not> has_been_stopped (worker (fold (\<lambda>h cm. fst (terminate_call P h (Some hangup.Normal) None cm)) hs cm))
      \<and> \<not> ended (worker (fold (\<lambda>h cm. fst (terminate_call P h (Some hangup.Normal) None cm)) hs cm))"
    if "\<not> has_been_stopped (worker cm) \<and> \<not> ended (worker cm)" for hs
    using that by (induction hs arbitrary: cm) (simp_all add: terminate_call_worker)
  then show "\<not> has_been_stopped (worker (fst (handle_reset P cm))) \<and> \<not> ended (worker (fst (handle_reset P cm)))"
    if "\<not> has_been_stopped (worker cm) \<and> \<not> ended (worker cm)"
    using that by (simp add: handle_reset_def Let_def release_busy_def clear_active_call_def)
qed

lemma reset_round:
  assumes "worker cm = actor_start"
  shows "cm_worker_step P E now (cm_worker_spawn TaskReset cm) = fst (handle_reset P cm)"
proof -
  have "cm_worker_step P E now (cm_worker_spawn TaskReset cm) = fst (handle_reset P (cm\<lparr>worker := actor_start\<rparr>))"
    using assms by (simp add: cm_worker_step_def cm_worker_spawn_def run_cm_task_def actor_start_def actor_send_def
        send_task_def immediate_def actor_iterate_def next_received_def is_delayed_def)
  also have "cm\<lparr>worker := actor_start\<rparr> = cm"
    using assms by simp
  finally show ?thesis .
qed

text \<open>After a reset a hangup is sent, or dropped, without an error: no call is active that it could end.\<close>

lemma send_when_idle:
  assumes "active_call_id cm = None" "queue (message_queue cm) = []" "\<not> messages_in_flight (message_queue cm)"
  shows "snd (send_next_message P (Some item) cm) = Ok ()"
proof -
  define cm1 where "cm1 = set_queue [] cm"
  obtain cm2 r where run: "run_message_closure P (item_call_id item) (item_closure item) cm1 = (cm2, r)"
    by fastforce
  have active: "active_call_id cm2 = None"
    using run_message_closure_winds [of cm1 P "item_call_id item" "item_closure item"] run assms(1)
    by (auto simp: winds_def cm1_def set_queue_def)
  have "cm2 = fst (run_message_closure P (item_call_id item) (item_closure item) cm1)"
    using run by simp
  then have queue: "queue (message_queue cm2) = []"
    by (simp add: cm1_def)
  have a: "\<exists>b. snd (attempt_message P item cm1) = Ok b" "queue (message_queue (fst (attempt_message P item cm1))) = []"
  proof -
    have "attempt_message P item cm1 = (cm2, Ok False)" if "r = Err e" for e
      using run active that by (simp add: attempt_message_def cm_internal_error_def call_is_active_def)
    moreover have "\<exists>b x. attempt_message P item cm1 = (cm2\<lparr>message_queue := (message_queue cm2)
        \<lparr>messages_in_flight := b, last_sent_message_type := x\<rparr>\<rparr>, Ok b)" if "r = Ok sent" for sent
      using run that by (simp add: attempt_message_def Let_def) blast
    ultimately obtain cm3 b where "attempt_message P item cm1 = (cm3, Ok b)" "queue (message_queue cm3) = queue (message_queue cm2)"
      by (cases r) fastforce+
    then show "\<exists>b. snd (attempt_message P item cm1) = Ok b"
      "queue (message_queue (fst (attempt_message P item cm1))) = []"
      using queue by simp_all
  qed
  have cm1: "set_queue [] (set_queue [item] cm) = cm1"
    by (simp add: cm1_def set_queue_def)
  have loop: "send_loop P (set_queue [item] cm) = (case snd (attempt_message P item cm1) of
      Err e \<Rightarrow> (fst (attempt_message P item cm1), Err e)
    | Ok b \<Rightarrow> if b then (fst (attempt_message P item cm1), Ok ()) else send_loop P (fst (attempt_message P item cm1)))"
    using assms(3) unfolding send_loop.simps [of P "set_queue [item] cm"] queue_set_queue list.case cm1 Let_def
    by (simp add: set_queue_def)
  have "snd (send_loop P (fst (attempt_message P item cm1))) = Ok ()"
    using a(2) by (subst send_loop.simps) simp
  then show ?thesis
    using assms(2) a(1) loop by (auto simp: send_next_message_def)
qed

lemma terminate_task_drops:
  assumes idle: "active_call_id cm = None" "queue (message_queue cm) = []" "\<not> messages_in_flight (message_queue cm)"
    and call: "map_of (call_by_call_id cm) cid = Some k" "call_objects cm h = Some (peer, f, c)"
  shows "map_of (call_by_call_id (run_terminate_task P E now h cid (Some hang) cm)) cid = None"
proof -
  define hung where "hung = (if call_at cm h should_send_hangup
    then on_call h (call_op (send_hangup_via_signaling_to_all (cm_serve P h) hang)) cm else (cm, Ok ()))"
  have w: "winds cm (fst hung)"
    by (auto simp: hung_def intro!: call_op_winds serve.signaling_hangup_kept)
  have "snd hung = Ok ()"
  proof (cases "call_at cm h should_send_hangup")
    case True
    let ?cm = "cm\<lparr>call_objects := (call_objects cm)(h \<mapsto> (peer, f, c\<lparr>link_stream := Active []\<rparr>))\<rparr>"
    have "snd (cm_send_hangup P h (link_call_id c) hang ?cm) = Ok ()"
      unfolding cm_send_hangup_def send_item_def by (rule send_when_idle) (use idle in simp_all)
    then obtain cm' where "cm_send_hangup P h (link_call_id c) hang ?cm = (cm', Ok ())"
      by (cases "cm_send_hangup P h (link_call_id c) hang ?cm") auto
    then show ?thesis
      using True call(2)
      by (simp add: hung_def on_call_def call_op_def send_hangup_via_signaling_to_all_def cm_call_def cm_serve_def
          Let_def split: option.split)
  qed (simp add: hung_def)
  then obtain cm1 where cm1: "hung = (cm1, Ok ())" "call_by_call_id cm1 = call_by_call_id cm"
    using w by (cases hung) (auto simp: winds_def)
  define cm2 where "cm2 = cm1\<lparr>call_by_call_id := AList.delete cid (call_by_call_id cm1)\<rparr>"
  have "winds cm2 (fst (on_call k (call_terminate (env_of P E k) now) cm2))"
    by (rule on_call_winds) (rule serve.call_terminate_kept [of _ P k], simp add: env_of_def)
  then have "map_of (call_by_call_id (fst (terminate_and_drop_call P E now cid cm1))) cid = None"
    using cm1(2) call(1) by (simp add: terminate_and_drop_call_def cm2_def winds_def delete_conv')
  then show ?thesis
    using cm1(1) by (auto simp: run_terminate_task_def hung_def [symmetric] on_call_ended_def on_platform_def
        split: prod.split sum.split)
qed

lemma reset_spawns_termination:
  assumes idle: "worker cm = actor_start" and one: "call_by_call_id cm = [(cid, h)]"
    and call: "call_objects cm h = Some (peer, f, c)" "link_call_id c = cid"
    and room: "length (stream_events (link_stream c)) < CHANNEL_CAPACITY"
  shows "worker (fst (handle_reset P cm)) = actor_send (TaskTerminate h cid (Some hangup.Normal)) actor_start"
    "active_call_id (fst (handle_reset P cm)) = None" "queue (message_queue (fst (handle_reset P cm))) = []"
    "\<not> messages_in_flight (message_queue (fst (handle_reset P cm)))"
proof -
  obtain c' where "inject_send_hangup_via_rtp_data_to_all hangup.Normal c = (c', Ok ())"
    using room by (cases "link_stream c") (simp_all add: inject_send_hangup_via_rtp_data_to_all_def call_set_state_def
        inject_call_event_def)
  then show "worker (fst (handle_reset P cm)) = actor_send (TaskTerminate h cid (Some hangup.Normal)) actor_start"
    using assms by (simp add: handle_reset_def terminate_call_def Let_def trim_messages_def on_link_def cm_worker_spawn_def
        release_busy_def clear_active_call_def) (simp add: actor_start_def)
qed (simp_all add: handle_reset_def Let_def clear_active_call_def release_busy_def)

text \<open>
  C40: what \<open>close\<close> does with the calls depends on how far the worker gets before it is stopped. Let
  the worker be idle when the reset is queued. If it makes at most one round before it sees that it
  is stopped, then when \<open>close\<close> returns the worker has ended and every call is still in the map
  with its connections as they were: no call has been terminated, and no task will ever do it. If
  it makes one round more, the task that the reset has queued for a manager's only call is run,
  and the call is no longer in the map.
\<close>

theorem close_leaves_calls:
  assumes idle: "worker cm = actor_start"
    and call: "map_of (call_by_call_id cm) cid = Some h" "call_objects cm h = Some (peer, f, c)"
  shows "(\<forall>n \<le> 1. let cm' = cm_close P E now n cm in
      ended (worker cm') \<and> (\<forall>later. cm_worker_step P E later cm' = cm')
      \<and> map_of (call_by_call_id cm') cid = Some h
      \<and> (\<exists>c'. call_objects cm' h = Some (peer, f, c') \<and> connection_map c' = connection_map c \<and> retired c' = retired c
          \<and> (link_state c' = link_state c \<or> link_state c' = call_state.Terminating)))
    \<and> (call_by_call_id cm = [(cid, h)] \<and> link_call_id c = cid
         \<and> length (stream_events (link_stream c)) < CHANNEL_CAPACITY
       \<longrightarrow> map_of (call_by_call_id (cm_close P E now 2 cm)) cid = None)"
proof (intro conjI allI impI)
  fix n :: nat
  assume n: "n \<le> 1"
  define cm1 where "cm1 = run_worker P E now n (cm_worker_spawn TaskReset cm)"
  have close: "cm_close P E now n cm = cm1\<lparr>worker := stop_all_and_join now (worker cm1)\<rparr>"
    using idle by (simp add: cm_close_def cm1_def Let_def actor_start_def)
  have "cm1 = cm_worker_spawn TaskReset cm \<or> cm1 = fst (handle_reset P cm)"
    using n reset_round [OF idle] by (cases n) (auto simp: cm1_def)
  then have "map_of (call_by_call_id cm1) cid = Some h
      \<and> (\<exists>c'. call_objects cm1 h = Some (peer, f, c') \<and> same_connections c c')
      \<and> \<not> has_been_stopped (worker cm1) \<and> \<not> ended (worker cm1)"
    using call reset_connections [OF call(2), of P] reset_worker [of cm P] idle
    by (auto simp: cm_worker_spawn_def actor_start_def actor_send_def send_task_def same_connections_def)
  then show "let cm' = cm_close P E now n cm in
      ended (worker cm') \<and> (\<forall>later. cm_worker_step P E later cm' = cm')
      \<and> map_of (call_by_call_id cm') cid = Some h
      \<and> (\<exists>c'. call_objects cm' h = Some (peer, f, c') \<and> connection_map c' = connection_map c \<and> retired c' = retired c
          \<and> (link_state c' = link_state c \<or> link_state c' = call_state.Terminating))"
    using stopped_worker_ends [of "worker cm1" now]
    unfolding close by (auto simp: Let_def cm_worker_step_def actor_iterate_def same_connections_def)
next
  assume one: "call_by_call_id cm = [(cid, h)] \<and> link_call_id c = cid
    \<and> length (stream_events (link_stream c)) < CHANNEL_CAPACITY"
  define cm1 where "cm1 = fst (handle_reset P cm)"
  note r = reset_spawns_termination [OF idle _ call(2), of cid P, folded cm1_def]
  have step: "cm_worker_step P E now cm1 = run_terminate_task P E now h cid (Some hangup.Normal) (cm1\<lparr>worker := actor_start\<rparr>)"
    using r(1) one by (simp add: cm_worker_step_def run_cm_task_def actor_iterate_def next_received_def
        actor_send_def send_task_def immediate_def is_delayed_def actor_start_def)
  obtain c1 where "call_objects cm1 h = Some (peer, f, c1)" "map_of (call_by_call_id cm1) cid = Some h"
    using reset_connections [OF call(2), of P] call(1) unfolding cm1_def by auto
  then have "map_of (call_by_call_id (cm_worker_step P E now cm1)) cid = None"
    unfolding step using r one by (intro terminate_task_drops) auto
  then show "map_of (call_by_call_id (cm_close P E now 2 cm)) cid = None"
    using idle by (simp add: cm_close_def Let_def numeral_2_eq_2 cm1_def reset_round [OF idle]) (simp add: actor_start_def)
qed

theorem close_leaves_calls_witness:
  "worker connected_manager = actor_start
   \<and> (\<exists>cm' f c'. cm' = cm_close small_platform small_cm_env 10 1 connected_manager \<and> ended (worker cm')
        \<and> call_objects cm' 0 = Some (5, f, c') \<and> map fst (connection_map c') = [2])
   \<and> map_of (call_by_call_id (cm_close small_platform small_cm_env 10 2 connected_manager)) 7 = None"
proof -
  have c: "worker connected_manager = actor_start" "map_of (call_by_call_id connected_manager) 7 = Some 0"
    "call_objects connected_manager 0 = Some (5, call_fsm_new, (call_new 7 call_direction.Incoming Audio 1 Map.empty ())
          \<lparr>link_state := call_state.ConnectedAndAccepted, active_device := Some 2,
           connection_map := [(2, conn_fsm_new, small_connection call_direction.Incoming Incoming)]\<rparr>)"
    by (simp_all add: connected_manager_def call_manager_new_def)
  have one: "call_by_call_id connected_manager = [(7, 0)]"
    by (simp add: connected_manager_def)
  from close_leaves_calls [OF c, of small_platform small_cm_env 10] c(1) one show ?thesis
    by (auto simp: Let_def call_new_def CHANNEL_CAPACITY_def)
qed

end
