(* ===== verification/Http.thy ===== *)
theory Http
  imports Rtc_Prelude "HOL-Library.Finite_Map"
begin

text \<open>
  HTTP requests through the application, \<open>lite/http.rs\<close>: response statuses, the decoding of
  responses, and the \<open>DelegatingClient\<close> that numbers requests and keeps a callback for each. The JSON
  parser is a parameter. A callback is a value of type \<open>'cb\<close>; \<open>received_response\<close> returns the callback
  it calls, with the response.
\<close>

datatype http_method = Get | Put | Post | Delete

record http_request =
  req_method :: http_method
  req_url :: string
  req_headers :: "(string, string) fmap"
  req_body :: "bytes option"

type_synonym response_status = "16 word"

record http_response =
  resp_status :: response_status
  resp_body :: bytes

section \<open>Statuses\<close>

definition GROUP_CALL_NOT_STARTED :: response_status where "GROUP_CALL_NOT_STARTED = 404"
definition GROUP_CALL_FULL :: response_status where "GROUP_CALL_FULL = 413"
definition INVALID_CLIENT_AUTH :: response_status where "INVALID_CLIENT_AUTH = 601"
definition REQUEST_FAILED :: response_status where "REQUEST_FAILED = 602"
definition INVALID_RESPONSE_BODY_UTF8 :: response_status where "INVALID_RESPONSE_BODY_UTF8 = 701"
definition INVALID_RESPONSE_BODY_JSON :: response_status where "INVALID_RESPONSE_BODY_JSON = 702"
definition CALL_LINK_EXPIRED :: response_status where "CALL_LINK_EXPIRED = 703"
definition CALL_LINK_INVALID :: response_status where "CALL_LINK_INVALID = 704"
definition CALL_LINK_ALREADY_CREATED :: response_status where "CALL_LINK_ALREADY_CREATED = 705"

datatype response_status_type =
    UnknownStatus | Informational | Success | Redirection | ClientError | ServerError | RequestError | ResponseError

definition from_code :: "response_status \<Rightarrow> response_status_type" where
  "from_code code =
     (if 100 \<le> code \<and> code \<le> 199 then Informational
      else if 200 \<le> code \<and> code \<le> 299 then Success
      else if 300 \<le> code \<and> code \<le> 399 then Redirection
      else if 400 \<le> code \<and> code \<le> 499 then ClientError
      else if 500 \<le> code \<and> code \<le> 599 then ServerError
      else if 600 \<le> code \<and> code \<le> 699 then RequestError
      else if 700 \<le> code \<and> code \<le> 799 then ResponseError
      else UnknownStatus)"

definition is_success :: "response_status \<Rightarrow> bool" where
  "is_success status = (from_code status = Success)"

definition is_error :: "response_status \<Rightarrow> bool" where
  "is_error status = (from_code status \<in> {ClientError, ServerError, RequestError, ResponseError})"

definition parse_json_response ::
  "(bytes \<Rightarrow> 'd option) \<Rightarrow> http_response option \<Rightarrow> ('d, response_status) result" where
  "parse_json_response from_slice response = (case response of
     None \<Rightarrow> Err REQUEST_FAILED
   | Some r \<Rightarrow>
       if \<not> is_success (resp_status r) then Err (resp_status r)
       else (case from_slice (resp_body r) of
               None \<Rightarrow> Err INVALID_RESPONSE_BODY_JSON
             | Some d \<Rightarrow> Ok d))"

section \<open>The delegating client\<close>

record 'cb response_callbacks =
  response_callback_by_request_id :: "(32 word, 'cb) fmap"
  next_request_id :: "32 word"

definition response_callbacks_default :: "'cb response_callbacks" where
  "response_callbacks_default = \<lparr> response_callback_by_request_id = fmempty, next_request_id = 0 \<rparr>"

definition push_callback :: "'cb \<Rightarrow> 'cb response_callbacks \<Rightarrow> 'cb response_callbacks \<times> 32 word" where
  "push_callback response_callback cbs =
     (let request_id = next_request_id cbs in
      (cbs\<lparr>next_request_id := next_request_id cbs + 1,
           response_callback_by_request_id :=
             fmupd request_id response_callback (response_callback_by_request_id cbs)\<rparr>, request_id))"

definition pop_callback :: "32 word \<Rightarrow> 'cb response_callbacks \<Rightarrow> 'cb response_callbacks \<times> 'cb option" where
  "pop_callback request_id cbs =
     (cbs\<lparr>response_callback_by_request_id := fmdrop request_id (response_callback_by_request_id cbs)\<rparr>,
      fmlookup (response_callback_by_request_id cbs) request_id)"

text \<open>The delegate is the application: what it was asked to send, in order.\<close>

record 'cb delegating_client =
  delegate :: "(32 word \<times> http_request) list"
  response_callbacks :: "'cb response_callbacks"

definition delegating_client_new :: "'cb delegating_client" where
  "delegating_client_new = \<lparr> delegate = [], response_callbacks = response_callbacks_default \<rparr>"

definition send_http_request :: "http_request \<Rightarrow> 'cb \<Rightarrow> 'cb delegating_client \<Rightarrow> 'cb delegating_client" where
  "send_http_request request response_callback client =
     (case push_callback response_callback (response_callbacks client) of (cbs, request_id) \<Rightarrow>
        client\<lparr>response_callbacks := cbs, delegate := delegate client @ [(request_id, request)]\<rparr>)"

definition received_response ::
  "32 word \<Rightarrow> http_response option \<Rightarrow> 'cb delegating_client
   \<Rightarrow> 'cb delegating_client \<times> ('cb \<times> http_response option) option" where
  "received_response request_id response client =
     (case pop_callback request_id (response_callbacks client) of (cbs, callback) \<Rightarrow>
        (client\<lparr>response_callbacks := cbs\<rparr>, map_option (\<lambda>cb. (cb, response)) callback))"

end
