(* ===== verification/Call_Links.thy ===== *)
theory Call_Links
  imports Http Root_Key Group_Messages "HOL-Library.Char_ord"
begin

text \<open>
  Call links, \<open>lite/call_links.rs\<close>: the state of a link as the server describes it, the requests that
  read, create, change and delete a link, and the resolver of the users of a call link call with its
  two caches (\<open>lite/call_links/member_resolver.rs\<close>). Base64, UTF-8, JSON and the zero-knowledge
  decryption of user identifiers are parameters.
\<close>

section \<open>The state of a call link\<close>

datatype call_link_restrictions = NoRestrictions | AdminApproval | UnknownRestrictions

record call_link_response =
  encrypted_name :: bytes
  resp_restrictions :: call_link_restrictions
  resp_revoked :: bool
  expiration_unix_timestamp :: "64 word"
  resp_epoch :: "32 word option"

record call_link_state_proto =
  proto_encrypted_name :: "bytes option"
  proto_restrictions :: "32 word option"
  proto_revoked :: "bool option"
  proto_expiration_unix_timestamp :: "64 word option"

text \<open>\<open>restrictions()\<close> of the generated code gives the default for a number it does not know.\<close>

definition restrictions_of_i32 :: "32 word \<Rightarrow> call_link_restrictions" where
  "restrictions_of_i32 n = (if n = 1 then AdminApproval else NoRestrictions)"

definition call_link_response_try_from :: "call_link_state_proto \<Rightarrow> call_link_response option" where
  "call_link_response_try_from p =
     (case (proto_encrypted_name p, proto_restrictions p, proto_revoked p, proto_expiration_unix_timestamp p) of
        (Some name, Some restrictions, Some revoked, Some expiration) \<Rightarrow>
          Some \<lparr> encrypted_name = name, resp_restrictions = restrictions_of_i32 restrictions,
                 resp_revoked = revoked, expiration_unix_timestamp = expiration, resp_epoch = None \<rparr>
      | _ \<Rightarrow> None)"

record call_link_state =
  link_name :: string
  link_restrictions :: call_link_restrictions
  link_revoked :: bool
  link_expiration :: "64 word"
  link_root_key :: call_link_root_key

record link_codec =
  base64_encode :: "bytes \<Rightarrow> string"
  base64_decode :: "bytes \<Rightarrow> bytes option"
  from_utf8 :: "bytes \<Rightarrow> string option"
  parse_call_link :: "bytes \<Rightarrow> call_link_response option"
  parse_empty :: "bytes \<Rightarrow> unit option"

definition from_serialized ::
  "'x link_codec_scheme \<Rightarrow> link_prims \<Rightarrow> call_link_response \<Rightarrow> call_link_root_key \<Rightarrow> call_link_state" where
  "from_serialized C L d root_key =
     \<lparr> link_name =
         (if encrypted_name d = [] then []
          else (case base64_decode C (encrypted_name d) of
                  None \<Rightarrow> []
                | Some encrypted \<Rightarrow> (case name_decrypt L root_key encrypted of
                    Err _ \<Rightarrow> []
                  | Ok name \<Rightarrow> (case from_utf8 C name of None \<Rightarrow> [] | Some s \<Rightarrow> s)))),
       link_restrictions = resp_restrictions d,
       link_revoked = resp_revoked d,
       link_expiration = expiration_unix_timestamp d,
       link_root_key = root_key \<rparr>"

section \<open>Requests\<close>

definition trim_end_slashes :: "string \<Rightarrow> string" where
  "trim_end_slashes s = rev (dropWhile (\<lambda>c. c = CHR ''/'') (rev s))"

definition call_link_url_from_sfu_url :: "string \<Rightarrow> string" where
  "call_link_url_from_sfu_url sfu_url = trim_end_slashes sfu_url @ ''/v1/call-link''"

definition auth_header_from_auth_credential :: "link_codec \<Rightarrow> bytes \<Rightarrow> string" where
  "auth_header_from_auth_credential C auth_presentation = ''Bearer auth.'' @ base64_encode C auth_presentation"

definition hex_digit :: "nat \<Rightarrow> char" where
  "hex_digit n = (''0123456789abcdef'' ! (n mod 16))"

definition hex_encode :: "bytes \<Rightarrow> string" where
  "hex_encode bs = concat (map (\<lambda>b. [hex_digit (unat b div 16), hex_digit (unat b)]) bs)"

definition create_http_request_headers ::
  "link_codec \<Rightarrow> link_prims \<Rightarrow> bool \<Rightarrow> bytes \<Rightarrow> call_link_root_key \<Rightarrow> string \<Rightarrow> (string, string) fmap" where
  "create_http_request_headers C L create_flag auth_presentation root_key content_type =
     prepare_http_headers L hex_encode root_key
       (fmupd ''Content-Type'' content_type
         (fmupd ''Authorization''
           (if create_flag then ''Bearer create.'' @ base64_encode C auth_presentation
            else auth_header_from_auth_credential C auth_presentation) fmempty))"

text \<open>
  A request is refused at once, with the status the callback is called with, when the key is in the
  wrong state for it. The bodies are JSON that the caller's request is turned into.
\<close>

definition link_request ::
  "link_codec \<Rightarrow> link_prims \<Rightarrow> http_method \<Rightarrow> bool \<Rightarrow> string \<Rightarrow> call_link_root_key \<Rightarrow> bytes \<Rightarrow> bytes option
   \<Rightarrow> http_request" where
  "link_request C L method create_flag sfu_url root_key auth_presentation body =
     \<lparr> req_method = method, req_url = call_link_url_from_sfu_url sfu_url,
       req_headers = create_http_request_headers C L create_flag auth_presentation root_key ''application/json'',
       req_body = body \<rparr>"

definition read_call_link ::
  "link_codec \<Rightarrow> link_prims \<Rightarrow> string \<Rightarrow> call_link_root_key \<Rightarrow> bytes \<Rightarrow> (http_request, response_status) result" where
  "read_call_link C L sfu_url root_key auth_presentation =
     (if \<not> key_is_valid root_key then Err CALL_LINK_INVALID
      else Ok (link_request C L Get False sfu_url root_key auth_presentation None))"

definition call_link_read ::
  "link_codec \<Rightarrow> link_prims \<Rightarrow> call_link_root_key \<Rightarrow> http_response option \<Rightarrow> (call_link_state, response_status) result" where
  "call_link_read C L root_key response = (case parse_json_response (parse_call_link C) response of
     Ok d \<Rightarrow> Ok (from_serialized C L d root_key)
   | Err status \<Rightarrow> Err status)"

definition create_call_link ::
  "link_codec \<Rightarrow> link_prims \<Rightarrow> string \<Rightarrow> call_link_root_key \<Rightarrow> bytes \<Rightarrow> bytes \<Rightarrow> (http_request, response_status) result" where
  "create_call_link C L sfu_url root_key auth_presentation body =
     (if key_is_valid root_key then Err CALL_LINK_ALREADY_CREATED
      else Ok (link_request C L Put True sfu_url root_key auth_presentation (Some body)))"

text \<open>The key that \<open>process_server_response\<close> returns, if any, replaces the one of the request; it
  fails for no key and response.\<close>

definition call_link_created ::
  "link_codec \<Rightarrow> link_prims \<Rightarrow> call_link_root_key \<Rightarrow> http_response option \<Rightarrow> (call_link_state, response_status) result" where
  "call_link_created C L root_key response = (case parse_json_response (parse_call_link C) response of
     Ok d \<Rightarrow> Ok (from_serialized C L d
                   (case process_server_response root_key (resp_epoch d) of Some k \<Rightarrow> k | None \<Rightarrow> root_key))
   | Err status \<Rightarrow> Err status)"

definition update_call_link ::
  "link_codec \<Rightarrow> link_prims \<Rightarrow> string \<Rightarrow> call_link_root_key \<Rightarrow> bytes \<Rightarrow> bytes \<Rightarrow> (http_request, response_status) result" where
  "update_call_link C L sfu_url root_key auth_presentation body =
     (if \<not> key_is_valid root_key then Err CALL_LINK_INVALID
      else Ok (link_request C L Put False sfu_url root_key auth_presentation (Some body)))"

definition delete_call_link ::
  "link_codec \<Rightarrow> link_prims \<Rightarrow> string \<Rightarrow> call_link_root_key \<Rightarrow> bytes \<Rightarrow> bytes \<Rightarrow> (http_request, response_status) result" where
  "delete_call_link C L sfu_url root_key auth_presentation body =
     (if \<not> key_is_valid root_key then Err CALL_LINK_INVALID
      else Ok (link_request C L Delete False sfu_url root_key auth_presentation (Some body)))"

definition call_link_deleted :: "link_codec \<Rightarrow> http_response option \<Rightarrow> (unit, response_status) result" where
  "call_link_deleted C response = parse_json_response (parse_empty C) response"

section \<open>The users of a call link call\<close>

text \<open>
  \<open>CallLinkMemberResolver\<close>: \<open>decrypt_uid\<close> stands for deserialising a ciphertext and decrypting it
  with the parameters of the link. A cache is a queue, oldest entry first.
\<close>

type_synonym opaque_user_id = string

definition MAX_CACHE_ENTRIES :: nat where
  "MAX_CACHE_ENTRIES = 16"

record call_link_member_resolver =
  cache :: "(opaque_user_id \<times> user_id) list"
  bytes_cache :: "(bytes \<times> user_id) list"

definition call_link_member_resolver_new :: call_link_member_resolver where
  "call_link_member_resolver_new = \<lparr> cache = [], bytes_cache = [] \<rparr>"

definition cache_push :: "'k \<Rightarrow> 'v \<Rightarrow> ('k \<times> 'v) list \<Rightarrow> ('k \<times> 'v) list" where
  "cache_push k v c = (if MAX_CACHE_ENTRIES < length c then tl c else c) @ [(k, v)]"

definition hex_value :: "char \<Rightarrow> byte option" where
  "hex_value c =
     (if CHR ''0'' \<le> c \<and> c \<le> CHR ''9'' then Some (of_char c - 48)
      else if CHR ''a'' \<le> c \<and> c \<le> CHR ''f'' then Some (of_char c - 87)
      else if CHR ''A'' \<le> c \<and> c \<le> CHR ''F'' then Some (of_char c - 55)
      else None)"

fun from_hex :: "string \<Rightarrow> bytes option" where
  "from_hex [] = Some []"
| "from_hex [c] = None"
| "from_hex (h # l # s) = (case (hex_value h, hex_value l, from_hex s) of
     (Some a, Some b, Some bs) \<Rightarrow> Some ((16 * a + b) # bs) | _ \<Rightarrow> None)"

definition link_resolve_bytes ::
  "(bytes \<Rightarrow> user_id option) \<Rightarrow> bytes \<Rightarrow> call_link_member_resolver \<Rightarrow> call_link_member_resolver \<times> user_id option" where
  "link_resolve_bytes decrypt_uid opaque R = (case map_of (bytes_cache R) opaque of
     Some u \<Rightarrow> (R, Some u)
   | None \<Rightarrow> (case decrypt_uid opaque of
       None \<Rightarrow> (R, None)
     | Some u \<Rightarrow> (R\<lparr>bytes_cache := cache_push opaque u (bytes_cache R)\<rparr>, Some u)))"

definition link_resolve ::
  "(bytes \<Rightarrow> user_id option) \<Rightarrow> opaque_user_id \<Rightarrow> call_link_member_resolver \<Rightarrow> call_link_member_resolver \<times> user_id option" where
  "link_resolve decrypt_uid opaque R = (case map_of (cache R) opaque of
     Some u \<Rightarrow> (R, Some u)
   | None \<Rightarrow> (case from_hex opaque of
       None \<Rightarrow> (R, None)
     | Some ciphertext \<Rightarrow> (case link_resolve_bytes decrypt_uid ciphertext R of
         (R, None) \<Rightarrow> (R, None)
       | (R, Some u) \<Rightarrow> (R\<lparr>cache := cache_push opaque u (cache R)\<rparr>, Some u))))"

end
