(* ===== verification/Sfu.thy ===== *)
theory Sfu
  imports Call_Links Signaling
begin

text \<open>
  The calls to the selective forwarding unit (SFU), \<open>lite/sfu.rs\<close>: what peeking at a call returns,
  the resolution of the opaque user identifiers that the SFU knows to users, and the HTTP requests for
  peeking and joining. SHA-256, base64, the UTF-8 check and the JSON codec are parameters.
\<close>

section \<open>Users and resolvers\<close>

text \<open>\<open>dyn MemberResolver\<close>: how to resolve an opaque identifier given as text or as bytes.\<close>

record member_resolver =
  resolve :: "opaque_user_id \<Rightarrow> user_id option"
  resolve_bytes :: "bytes \<Rightarrow> user_id option"

record group_member =
  member_user_id :: user_id
  member_member_id :: bytes

definition sha256_as_hexstring :: "(bytes \<Rightarrow> bytes) \<Rightarrow> bytes \<Rightarrow> string" where
  "sha256_as_hexstring sha256 data = hex_encode (sha256 data)"

definition member_map_new :: "(bytes \<Rightarrow> bytes) \<Rightarrow> group_member list \<Rightarrow> (opaque_user_id \<times> user_id) list" where
  "member_map_new sha256 members =
     map (\<lambda>m. (sha256_as_hexstring sha256 (member_member_id m), member_user_id m)) members"

definition member_map_resolver :: "(opaque_user_id \<times> user_id) list \<Rightarrow> member_resolver" where
  "member_map_resolver members =
     \<lparr> resolve = map_of members, resolve_bytes = (\<lambda>opaque. map_of members (hex_encode opaque)) \<rparr>"

record obfuscated_resolver =
  or_member_resolver :: member_resolver
  or_call_link_root_key :: "call_link_root_key option"
  or_endorsement_public_key :: "bytes option"

section \<open>Peek information\<close>

record peek_device_info =
  peek_demux_id :: demux_id
  peek_user_id :: "user_id option"

record peek_info =
  devices :: "peek_device_info list"
  pending_devices :: "peek_device_info list"
  peek_creator :: "user_id option"
  peek_era_id :: "string option"
  max_devices :: "32 word option"
  peek_call_link_state :: "call_link_state option"

definition peek_info_default :: "peek_info" where
  "peek_info_default =
     \<lparr> devices = [], pending_devices = [], peek_creator = None, peek_era_id = None,
       max_devices = None, peek_call_link_state = None \<rparr>"

definition unique_users :: "peek_info \<Rightarrow> user_id list" where
  "unique_users info = remdups (List.map_filter peek_user_id (devices info))"

text \<open>\<open>seen\<close> holds the options already met, so that each user is listed at its first place.\<close>

fun pending_from :: "user_id option set \<Rightarrow> peek_device_info list \<Rightarrow> user_id list" where
  "pending_from seen [] = []"
| "pending_from seen (d # ds) =
     (if peek_user_id d \<in> seen then pending_from seen ds
      else (case peek_user_id d of
              Some u \<Rightarrow> u # pending_from (insert (Some u) seen) ds
            | None \<Rightarrow> pending_from (insert None seen) ds))"

definition unique_pending_users :: "peek_info \<Rightarrow> user_id list" where
  "unique_pending_users info = pending_from {} (pending_devices info)"

definition device_count_including_pending_devices :: "peek_info \<Rightarrow> nat" where
  "device_count_including_pending_devices info = length (devices info) + length (pending_devices info)"

text \<open>The forms that come over HTTP (JSON) and over RTP (protobuf), with opaque identifiers.\<close>

record serialized_peek_device_info =
  ser_opaque_user_id :: "opaque_user_id option"
  ser_demux_id :: demux_id

record serialized_peek_info =
  ser_era_id :: "string option"
  ser_max_devices :: "32 word option"
  ser_devices :: "serialized_peek_device_info list"
  ser_creator :: "opaque_user_id option"
  ser_pending_clients :: "serialized_peek_device_info list"
  ser_call_link_state :: "call_link_response option"

record proto_peek_device_info =
  proto_demux_id :: "demux_id option"
  proto_opaque_user_id :: "opaque_user_id option"

record proto_peek_info =
  proto_era_id :: "string option"
  proto_max_devices :: "32 word option"
  proto_creator :: "opaque_user_id option"
  proto_devices :: "proto_peek_device_info list"
  proto_pending_devices :: "proto_peek_device_info list"
  proto_call_link_state :: "call_link_state_proto option"

definition deobfuscate_device :: "member_resolver \<Rightarrow> serialized_peek_device_info \<Rightarrow> peek_device_info" where
  "deobfuscate_device R d =
     \<lparr> peek_demux_id = ser_demux_id d, peek_user_id = Option.bind (ser_opaque_user_id d) (resolve R) \<rparr>"

definition deobfuscate ::
  "'x link_codec_scheme \<Rightarrow> link_prims \<Rightarrow> member_resolver \<Rightarrow> call_link_root_key option
   \<Rightarrow> serialized_peek_info \<Rightarrow> peek_info" where
  "deobfuscate C L R root_key info =
     \<lparr> devices = map (deobfuscate_device R) (ser_devices info),
       pending_devices = map (deobfuscate_device R) (ser_pending_clients info),
       peek_creator = Option.bind (ser_creator info) (resolve R),
       peek_era_id = ser_era_id info,
       max_devices = ser_max_devices info,
       peek_call_link_state = (case (ser_call_link_state info, root_key) of
          (Some s, Some r) \<Rightarrow> Some (from_serialized C L s r) | _ \<Rightarrow> None) \<rparr>"

definition device_try_from :: "proto_peek_device_info \<Rightarrow> serialized_peek_device_info option" where
  "device_try_from d = (case proto_demux_id d of
     None \<Rightarrow> None
   | Some i \<Rightarrow> Some \<lparr> ser_opaque_user_id = proto_opaque_user_id d, ser_demux_id = i \<rparr>)"

definition deobfuscate_proto ::
  "'x link_codec_scheme \<Rightarrow> link_prims \<Rightarrow> obfuscated_resolver
   \<Rightarrow> proto_peek_info \<Rightarrow> peek_info option" where
  "deobfuscate_proto C L R proto =
     (let info = \<lparr> ser_era_id = proto_era_id proto, ser_max_devices = proto_max_devices proto,
            ser_devices = List.map_filter device_try_from (proto_devices proto),
            ser_creator = proto_creator proto,
            ser_pending_clients = List.map_filter device_try_from (proto_pending_devices proto),
            ser_call_link_state = Option.bind (proto_call_link_state proto) call_link_response_try_from \<rparr>
      in if length (ser_devices info) \<noteq> length (proto_devices proto)
            \<or> length (ser_pending_clients info) \<noteq> length (proto_pending_devices proto)
            \<or> (ser_call_link_state info \<noteq> None) \<noteq> (proto_call_link_state proto \<noteq> None)
         then None
         else Some (deobfuscate C L (or_member_resolver R) (or_call_link_root_key R) info))"

section \<open>Joining\<close>

datatype client_status = Active | Pending | Blocked

definition client_status_from_str :: "string \<Rightarrow> client_status option" where
  "client_status_from_str s =
     (if s = ''ACTIVE'' then Some client_status.Active
      else if s = ''PENDING'' then Some client_status.Pending
      else if s = ''BLOCKED'' then Some Blocked else None)"

record serialized_join_response =
  sj_client_demux_id :: demux_id
  sj_server_ips :: "ip_addr list"
  sj_server_port :: "16 word"
  sj_server_port_tcp :: "16 word"
  sj_server_port_tls :: "16 word option"
  sj_server_hostname :: "string option"
  sj_server_ice_ufrag :: string
  sj_server_ice_pwd :: string
  sj_server_dhe_pub_key :: bytes
  sj_call_creator :: opaque_user_id
  sj_era_id :: string
  sj_client_status :: string

record join_response =
  client_demux_id :: demux_id
  server_udp_addresses :: "socket_addr list"
  server_tcp_addresses :: "socket_addr list"
  server_tls_addresses :: "socket_addr list"
  server_hostname :: "string option"
  server_ice_ufrag :: string
  server_ice_pwd :: string
  jr_server_dhe_pub_key :: bytes
  call_creator :: "user_id option"
  jr_era_id :: string
  jr_client_status :: client_status

definition join_response_from :: "member_resolver \<Rightarrow> serialized_join_response \<Rightarrow> join_response" where
  "join_response_from R d =
     \<lparr> client_demux_id = sj_client_demux_id d,
       server_udp_addresses = map (\<lambda>ip. SocketAddr ip (sj_server_port d)) (sj_server_ips d),
       server_tcp_addresses = map (\<lambda>ip. SocketAddr ip (sj_server_port_tcp d)) (sj_server_ips d),
       server_tls_addresses = (case sj_server_port_tls d of
          None \<Rightarrow> [] | Some port \<Rightarrow> map (\<lambda>ip. SocketAddr ip port) (sj_server_ips d)),
       server_hostname = sj_server_hostname d,
       server_ice_ufrag = sj_server_ice_ufrag d,
       server_ice_pwd = sj_server_ice_pwd d,
       jr_server_dhe_pub_key = sj_server_dhe_pub_key d,
       call_creator = resolve R (sj_call_creator d),
       jr_era_id = sj_era_id d,
       jr_client_status = (case client_status_from_str (sj_client_status d) of
          Some status \<Rightarrow> status | None \<Rightarrow> client_status.Pending) \<rparr>"

section \<open>Requests\<close>

text \<open>What the code relies on of its libraries: base64, UTF-8, JSON.\<close>

record sfu_codec = link_codec +
  parse_peek_info :: "bytes \<Rightarrow> serialized_peek_info option"
  parse_peek_failure :: "bytes \<Rightarrow> string option"
  parse_join_response :: "bytes \<Rightarrow> serialized_join_response option"
  join_request_json :: "bytes option \<Rightarrow> string \<Rightarrow> string \<Rightarrow> bytes \<Rightarrow> bytes \<Rightarrow> bytes"

definition auth_header_from_membership_proof :: "sfu_codec \<Rightarrow> bytes \<Rightarrow> string option" where
  "auth_header_from_membership_proof C proof = (case from_utf8 C proof of
     None \<Rightarrow> None
   | Some token \<Rightarrow>
       Some (''Basic '' @ base64_encode C (ascii (takeWhile (\<lambda>c. c \<noteq> CHR '':'') token @ '':'' @ token))))"

definition participants_url_from_sfu_url :: "string \<Rightarrow> string" where
  "participants_url_from_sfu_url sfu_url =
     trim_end_slashes sfu_url @ ''/v2/conference/participants''"

definition http_request_headers ::
  "link_prims \<Rightarrow> string \<Rightarrow> string option \<Rightarrow> call_link_root_key option \<Rightarrow> string option
   \<Rightarrow> (string, string) fmap" where
  "http_request_headers L authorization room_id_header root_key content_type =
     (let headers = fmupd ''Authorization'' authorization fmempty;
          headers = (case content_type of
             Some ty \<Rightarrow> fmupd ''Content-Type'' ty headers | None \<Rightarrow> headers)
      in case root_key of
           Some k \<Rightarrow> prepare_http_headers L hex_encode k headers
         | None \<Rightarrow> (case room_id_header of
             Some room \<Rightarrow> fmupd ''X-Room-Id'' room headers | None \<Rightarrow> headers))"

definition classify_not_found :: "sfu_codec \<Rightarrow> bytes \<Rightarrow> response_status option" where
  "classify_not_found C body = (case parse_peek_failure C body of
     None \<Rightarrow> None
   | Some reason \<Rightarrow>
       if reason = ''expired'' then Some CALL_LINK_EXPIRED
       else if reason = ''invalid'' then Some CALL_LINK_INVALID else None)"

text \<open>
  A request is refused at once for a call link that is not valid; \<open>Inl\<close> is then the status the
  callback is called with. \<open>peek_completed\<close> and \<open>join_completed\<close> are the closures that turn the
  response into the argument of the callback.
\<close>

definition peek ::
  "link_prims \<Rightarrow> string \<Rightarrow> string option \<Rightarrow> string \<Rightarrow> call_link_root_key option
   \<Rightarrow> (http_request, response_status) result" where
  "peek L sfu_url room_id_header auth_header root_key =
     (if (case root_key of Some k \<Rightarrow> \<not> key_is_valid k | None \<Rightarrow> False) then Err CALL_LINK_INVALID
      else Ok \<lparr> req_method = Get, req_url = participants_url_from_sfu_url sfu_url,
                req_headers = http_request_headers L auth_header room_id_header root_key None,
                req_body = None \<rparr>)"

definition peek_completed ::
  "sfu_codec \<Rightarrow> link_prims \<Rightarrow> member_resolver \<Rightarrow> call_link_root_key option
   \<Rightarrow> http_response option \<Rightarrow> (peek_info, response_status) result" where
  "peek_completed C L R root_key response =
     (case parse_json_response (parse_peek_info C) response of
        Ok info \<Rightarrow> Ok (deobfuscate (C) L R root_key info)
      | Err status \<Rightarrow>
          if status = GROUP_CALL_NOT_STARTED then
            (case response of
               Some r \<Rightarrow>
                 if resp_body r = [] then Ok peek_info_default
                 else Err (case classify_not_found C (resp_body r) of Some st \<Rightarrow> st | None \<Rightarrow> status)
             | None \<Rightarrow> Ok peek_info_default)
          else Err status)"

definition join_call ::
  "sfu_codec \<Rightarrow> link_prims \<Rightarrow> string \<Rightarrow> string option \<Rightarrow> call_link_root_key option \<Rightarrow> string
   \<Rightarrow> bytes option \<Rightarrow> string \<Rightarrow> string \<Rightarrow> bytes \<Rightarrow> bytes \<Rightarrow> (http_request, response_status) result" where
  "join_call C L sfu_url room_id_header root_key auth_header admin_passkey ufrag pwd dhe_pub_key hkdf_extra_info =
     (if (case root_key of Some k \<Rightarrow> \<not> key_is_valid k | None \<Rightarrow> False) then Err CALL_LINK_INVALID
      else Ok \<lparr> req_method = Put, req_url = participants_url_from_sfu_url sfu_url,
                req_headers = http_request_headers L auth_header room_id_header root_key (Some ''application/json''),
                req_body = Some (join_request_json C admin_passkey ufrag pwd dhe_pub_key hkdf_extra_info) \<rparr>)"

definition join_completed ::
  "sfu_codec \<Rightarrow> member_resolver \<Rightarrow> http_response option \<Rightarrow> (join_response, response_status) result" where
  "join_completed C R response = (case parse_json_response (parse_join_response C) response of
     Ok d \<Rightarrow> Ok (join_response_from R d)
   | Err status \<Rightarrow> Err status)"

end
