(* ===== verification/Endorsements.thy ===== *)
theory Endorsements
  imports Group_Messages "HOL-Library.AList"
begin

text \<open>
  The cache of group send endorsements, \<open>core/endorsements.rs\<close>. The ordered map from expirations is
  an association list sorted by its keys, and hash maps are association lists. An endorsement is a
  value of type \<open>'e\<close>; combining endorsements into a token is a parameter. Expirations are seconds of
  the epoch, instants are numbers.
\<close>

type_synonym timestamp = "64 word"

datatype endorsement_update_error =
    MissingField string
  | ExpiredEndorsements timestamp
  | InvalidMemberCiphertexts
  | InvalidEndorsementResponseFormat
  | InvalidEndorsementResponse

record 'e endorsements_cache =
  endorsements :: "(timestamp \<times> (user_id \<times> 'e) list) list"
  invalid_markers :: "(timestamp option \<times> (nat \<times> string)) list"
  last_updated :: "(timestamp \<times> nat) list"
  last_shared :: "nat option"

definition endorsements_cache_new :: "'e endorsements_cache" where
  "endorsements_cache_new =
     \<lparr> endorsements = [], invalid_markers = [], last_updated = [], last_shared = None \<rparr>"

text \<open>\<open>BTreeMap::entry\<close>: the entry is inserted at its place in the order of the keys.\<close>

fun upsert_sorted :: "'k::linorder \<Rightarrow> ('v option \<Rightarrow> 'v) \<Rightarrow> ('k \<times> 'v) list \<Rightarrow> ('k \<times> 'v) list" where
  "upsert_sorted k f [] = [(k, f None)]"
| "upsert_sorted k f ((k', v) # kvs) =
     (if k < k' then (k, f None) # (k', v) # kvs
      else if k = k' then (k, f (Some v)) # kvs
      else (k', v) # upsert_sorted k f kvs)"

text \<open>\<open>HashMap::extend\<close>: later values replace earlier ones.\<close>

definition extend_map :: "('k \<times> 'v) list \<Rightarrow> ('k \<times> 'v) list \<Rightarrow> ('k \<times> 'v) list" where
  "extend_map new old = fold (\<lambda>(k, v). AList.update k v) new old"

definition cache_insert ::
  "nat \<Rightarrow> timestamp \<Rightarrow> (user_id \<times> 'e) list \<Rightarrow> 'e endorsements_cache \<Rightarrow> 'e endorsements_cache" where
  "cache_insert now expiration new cache =
     cache\<lparr>endorsements := upsert_sorted expiration
              (\<lambda>old. extend_map new (case old of Some m \<Rightarrow> m | None \<Rightarrow> [])) (endorsements cache),
           last_updated := AList.update expiration now (last_updated cache),
           invalid_markers := AList.delete None (AList.delete (Some expiration) (invalid_markers cache))\<rparr>"

definition cache_is_valid :: "timestamp \<Rightarrow> 'e endorsements_cache \<Rightarrow> bool" where
  "cache_is_valid expiration cache = (case map_of (last_updated cache) expiration of
     None \<Rightarrow> False
   | Some updated \<Rightarrow>
       if map_of (invalid_markers cache) (Some expiration) \<noteq> None then False
       else (case map_of (invalid_markers cache) None of
               None \<Rightarrow> True
             | Some (invalidated_at, _) \<Rightarrow> invalidated_at < updated))"

text \<open>The loops over the recipients stop at the first one without an endorsement.\<close>

fun find_all :: "('k \<times> 'v) list \<Rightarrow> 'k list \<Rightarrow> 'v list option" where
  "find_all m [] = Some []"
| "find_all m (k # ks) = (case map_of m k of
     None \<Rightarrow> None
   | Some v \<Rightarrow> map_option ((#) v) (find_all m ks))"

definition get_token_for ::
  "('e list \<Rightarrow> timestamp \<Rightarrow> 'token) \<Rightarrow> timestamp \<Rightarrow> user_id list \<Rightarrow> 'e endorsements_cache \<Rightarrow> 'token option" where
  "get_token_for combine expiration recipients cache =
     (if \<not> cache_is_valid expiration cache then None
      else (case map_of (endorsements cache) expiration of
              None \<Rightarrow> None
            | Some m \<Rightarrow> map_option (\<lambda>found. combine found expiration) (find_all m recipients)))"

definition get_endorsements_for_users ::
  "timestamp option \<Rightarrow> user_id list \<Rightarrow> 'e endorsements_cache \<Rightarrow> (timestamp \<times> (user_id \<times> 'e) list) option" where
  "get_endorsements_for_users epoch user_ids cache =
     (case (case epoch of
              None \<Rightarrow> if endorsements cache = [] then None else Some (last (endorsements cache))
            | Some key \<Rightarrow> map_option (Pair key) (map_of (endorsements cache) key)) of
        None \<Rightarrow> None
      | Some (expiration, m) \<Rightarrow>
          if \<not> cache_is_valid expiration cache then None
          else map_option (\<lambda>found. (expiration, zip user_ids found)) (find_all m user_ids))"

definition get_endorsements_for_expiration ::
  "timestamp \<Rightarrow> 'e endorsements_cache \<Rightarrow> (timestamp \<times> (user_id \<times> 'e) list) option" where
  "get_endorsements_for_expiration epoch cache =
     (if \<not> cache_is_valid epoch cache then None
      else map_option (Pair epoch) (map_of (endorsements cache) epoch))"

definition latest_is_valid :: "'e endorsements_cache \<Rightarrow> bool" where
  "latest_is_valid cache =
     (if endorsements cache = [] then False else cache_is_valid (fst (last (endorsements cache))) cache)"

definition get_latest ::
  "nat \<Rightarrow> 'e endorsements_cache \<Rightarrow> 'e endorsements_cache \<times> (timestamp \<times> (user_id \<times> 'e) list) option" where
  "get_latest now cache =
     (if \<not> latest_is_valid cache then (cache, None)
      else (cache\<lparr>last_shared := Some now\<rparr>, Some (last (endorsements cache))))"

definition has_valid_update :: "'e endorsements_cache \<Rightarrow> bool" where
  "has_valid_update cache =
     (if endorsements cache = [] then False
      else let expiration = fst (last (endorsements cache)) in
        if \<not> cache_is_valid expiration cache then False
        else (case map_of (last_updated cache) expiration of
                None \<Rightarrow> False
              | Some updated \<Rightarrow> (case last_shared cache of
                  None \<Rightarrow> True | Some shared \<Rightarrow> shared < updated)))"

definition set_invalid ::
  "nat \<Rightarrow> timestamp option \<Rightarrow> string \<Rightarrow> 'e endorsements_cache \<Rightarrow> 'e endorsements_cache" where
  "set_invalid now expiration reason cache =
     cache\<lparr>invalid_markers := AList.update expiration (now, reason) (invalid_markers cache)\<rparr>"

definition cache_remove :: "timestamp \<Rightarrow> 'e endorsements_cache \<Rightarrow> 'e endorsements_cache" where
  "cache_remove expiration cache =
     cache\<lparr>endorsements := AList.delete expiration (endorsements cache),
           invalid_markers := AList.delete (Some expiration) (invalid_markers cache),
           last_updated := AList.delete expiration (last_updated cache)\<rparr>"

definition clear_expired :: "timestamp \<Rightarrow> 'e endorsements_cache \<Rightarrow> 'e endorsements_cache" where
  "clear_expired now cache =
     fold cache_remove (filter (\<lambda>expiration. expiration \<le> now) (map fst (endorsements cache))) cache"

end
