(* ===== verification/Group_Types.thy ===== *)
theory Group_Types
  imports Sfu Endorsements Frame_Crypto Mrp_Stream Assets Session_Description
begin

text \<open>
  The vocabulary of group calls, \<open>core/group_call.rs\<close> and \<open>protobuf/group_call.proto\<close>: the states of
  a client and of the devices it knows, the messages exchanged with the selective forwarding unit
  (SFU), the requests a client makes of its observer, and the tasks of its thread. Instants are in
  milliseconds. A hash set is the list of its elements in the order of their insertion.
\<close>

section \<open>Rings and keys\<close>

text \<open>\<open>u64::from_str_radix(_, 16)\<close>: digits after an optional plus sign.\<close>

definition parse_hex_u64 :: "string \<Rightarrow> 64 word option" where
  "parse_hex_u64 s =
     (let digits = (case s of [] \<Rightarrow> [] | c # r \<Rightarrow> if c = CHR ''+'' then r else s);
          n = fold (\<lambda>c n. 16 * n + unat (the (hex_value c))) digits 0
      in if digits = [] \<or> list_ex (\<lambda>c. hex_value c = None) digits then None
         else if n < 2 ^ 64 then Some (of_nat n) else None)"

definition le_bytes_word :: "bytes \<Rightarrow> 64 word" where
  "le_bytes_word bs = foldr (\<lambda>b acc. ucast b + 256 * acc) bs 0"

definition from_era_id :: "(bytes \<Rightarrow> bytes) \<Rightarrow> string \<Rightarrow> ring_id" where
  "from_era_id sha256 era_id =
     (case (if length era_id = 16 then parse_hex_u64 era_id else None) of
        Some i \<Rightarrow> if i = 0 then -1 else i
      | None \<Rightarrow> le_bytes_word (take 8 (sha256 (ascii era_id))))"

record srtp_keys =
  client_key :: srtp_key
  server_key :: srtp_key

definition GROUP_KEY_LEN :: nat where "GROUP_KEY_LEN = 16"
definition GROUP_SALT_LEN :: nat where "GROUP_SALT_LEN = 12"

definition MASTER_KEY_MATERIAL_LEN :: nat where
  "MASTER_KEY_MATERIAL_LEN = GROUP_KEY_LEN + GROUP_SALT_LEN + GROUP_KEY_LEN + GROUP_SALT_LEN"

definition from_master_key_material :: "bytes \<Rightarrow> srtp_keys" where
  "from_master_key_material m =
     \<lparr> client_key = \<lparr> srtp_key_bytes = take GROUP_KEY_LEN m,
                      srtp_salt = take GROUP_SALT_LEN (drop GROUP_KEY_LEN m) \<rparr>,
       server_key = \<lparr> srtp_key_bytes = take GROUP_KEY_LEN (drop GROUP_SALT_LEN (drop GROUP_KEY_LEN m)),
                      srtp_salt = take GROUP_SALT_LEN
                        (drop GROUP_KEY_LEN (drop GROUP_SALT_LEN (drop GROUP_KEY_LEN m))) \<rparr> \<rparr>"

datatype dhe_state =
    NotYetStarted
  | WaitingForServerPublicKey bytes
  | FailedToNegotiate
  | Negotiated srtp_keys

text \<open>
  The key agreement as a parameter: \<open>dh\<close> returns no shared secret when it is not contributory, and
  \<open>hkdf\<close> expands a secret for an information string.
\<close>

definition negotiate ::
  "(bytes \<Rightarrow> bytes \<Rightarrow> bytes option) \<Rightarrow> (bytes \<Rightarrow> bytes \<Rightarrow> nat \<Rightarrow> bytes) \<Rightarrow> bytes \<Rightarrow> bytes \<Rightarrow> dhe_state \<Rightarrow> dhe_state" where
  "negotiate dh hkdf server_pub_key hkdf_extra_info st = (case st of
     NotYetStarted \<Rightarrow> st
   | WaitingForServerPublicKey client_secret \<Rightarrow> (case dh client_secret server_pub_key of
       None \<Rightarrow> FailedToNegotiate
     | Some shared \<Rightarrow> Negotiated (from_master_key_material
         (hkdf shared (ascii ''Signal_Group_Call_20211105_SignallingDH_SRTPKey_KDF'' @ hkdf_extra_info)
            MASTER_KEY_MATERIAL_LEN)))
   | Negotiated _ \<Rightarrow> st
   | FailedToNegotiate \<Rightarrow> st)"

section \<open>The states of a client\<close>

datatype group_connection_state = NotConnected | Connecting | Connected | Reconnecting

datatype join_state =
    NotJoined "ring_id option"
  | Joining
  | Pending demux_id
  | Joined demux_id

datatype speech_event = StoppedSpeaking | LowerHandSuggestion

datatype remote_devices_changed_reason =
    DemuxIdsChanged
  | MediaKeyReceived demux_id
  | SpeakerTimeChanged demux_id
  | HeartbeatStateChanged demux_id
  | ForwardedVideosChanged
  | HigherResolutionPendingChanged

record sfu_info =
  udp_addresses :: "socket_addr list"
  tcp_addresses :: "socket_addr list"
  tls_addresses :: "socket_addr list"
  sfu_hostname :: "string option"
  sfu_ice_ufrag :: string
  sfu_ice_pwd :: string

record reaction =
  reaction_demux_id :: demux_id
  reaction_text :: bytes

record joined_info =
  joined_sfu_info :: sfu_info
  joined_local_demux_id :: demux_id
  joined_server_dhe_pub_key :: bytes
  joined_hkdf_extra_info :: bytes
  joined_creator :: "user_id option"
  joined_era_id :: string
  joined_join_state :: join_state

datatype key_rotation_state =
    KeyApplied
  | KeyPending (pending_secret: bytes) (needs_another_rotation: bool)

datatype remote_devices_request_state =
    WaitingForMembershipProof
  | NeverRequested
  | Requested bool nat
  | Updated nat
  | RequestFailed nat

datatype outgoing_ring_state =
    UnknownRing
  | PermittedToRing ring_id
  | WantsToRing "user_id option"
  | HasSentRing ring_id
  | NotPermittedToRing

datatype group_call_kind = SignalGroup | CallLink

datatype bwe_check_state =
    CheckAt nat
  | RecoveredAt nat nat
  | CheckDisabled
  | NoCheck

record raise_hand_state =
  rh_seqnum :: "32 word"
  rh_raise :: bool
  rh_outstanding :: bool

record send_rates =
  min_rate :: "data_rate option"
  start_rate :: "data_rate option"
  max_rate :: "data_rate option"

definition send_rates_default :: send_rates where
  "send_rates_default = \<lparr> min_rate = None, start_rate = None, max_rate = None \<rparr>"

record video_request =
  vr_demux_id :: demux_id
  vr_width :: "16 word"
  vr_height :: "16 word"
  vr_framerate :: "16 word option"

section \<open>Remote devices\<close>

text \<open>\<open>HeartbeatState\<close> has the fields of the message \<open>Heartbeat\<close>.\<close>

type_synonym heartbeat_state = heartbeat

definition heartbeat_state_default :: heartbeat_state where
  "heartbeat_state_default =
     \<lparr> hb_audio_muted = None, hb_video_muted = None, hb_presenting = None, hb_sharing_screen = None,
       hb_muted_by_demux_id = None \<rparr>"

record remote_device_state =
  rd_demux_id :: demux_id
  rd_user_id :: user_id
  media_keys_received :: bool
  rd_heartbeat_state :: heartbeat_state
  heartbeat_rtp_timestamp :: "32 word option"
  added_time :: nat
  speaker_time :: "nat option"
  leaving_received :: bool
  forwarding_video :: "bool option"
  server_allocated_height :: "16 word"
  client_decoded_height :: "32 word option"
  is_higher_resolution_pending :: bool
  remote_mute_requesters :: "demux_id list"

definition remote_device_state_new :: "demux_id \<Rightarrow> user_id \<Rightarrow> nat \<Rightarrow> remote_device_state" where
  "remote_device_state_new demux_id user_id now =
     \<lparr> rd_demux_id = demux_id, rd_user_id = user_id, media_keys_received = False,
       rd_heartbeat_state = heartbeat_state_default, heartbeat_rtp_timestamp = None, added_time = now,
       speaker_time = None, leaving_received = False, forwarding_video = None, server_allocated_height = 0,
       client_decoded_height = None, is_higher_resolution_pending = False, remote_mute_requesters = [] \<rparr>"

definition recalculate_higher_resolution_pending :: "remote_device_state \<Rightarrow> remote_device_state" where
  "recalculate_higher_resolution_pending rd =
     rd\<lparr>is_higher_resolution_pending :=
          (case client_decoded_height rd of None \<Rightarrow> 0 | Some h \<Rightarrow> h) < ucast (server_allocated_height rd)\<rparr>"

text \<open>\<open>max_by_key\<close> returns the last of the greatest elements; no time is less than any time.\<close>

definition time_le :: "nat option \<Rightarrow> nat option \<Rightarrow> bool" where
  "time_le a b = (case a of None \<Rightarrow> True | Some t \<Rightarrow> (case b of None \<Rightarrow> False | Some t' \<Rightarrow> t \<le> t'))"

definition latest_speaker :: "remote_device_state list \<Rightarrow> remote_device_state option" where
  "latest_speaker rds =
     fold (\<lambda>rd best. case best of
             None \<Rightarrow> Some rd
           | Some b \<Rightarrow> if time_le (speaker_time b) (speaker_time rd) then Some rd else Some b) rds None"

definition latest_speaker_demux_id :: "remote_device_state list \<Rightarrow> demux_id option" where
  "latest_speaker_demux_id rds = (case latest_speaker rds of
     None \<Rightarrow> None
   | Some rd \<Rightarrow> if speaker_time rd = None then None else Some (rd_demux_id rd))"

definition find_by_demux_id :: "demux_id \<Rightarrow> remote_device_state list \<Rightarrow> remote_device_state option" where
  "find_by_demux_id i rds = find (\<lambda>rd. rd_demux_id rd = i) rds"

text \<open>What a handler does through \<open>find_by_demux_id_mut\<close>: it changes the first device with that id.\<close>

fun update_device ::
  "demux_id \<Rightarrow> (remote_device_state \<Rightarrow> remote_device_state) \<Rightarrow> remote_device_state list \<Rightarrow> remote_device_state list" where
  "update_device i f [] = []"
| "update_device i f (rd # rds) = (if rd_demux_id rd = i then f rd # rds else rd # update_device i f rds)"

definition demux_id_set :: "remote_device_state list \<Rightarrow> demux_id list" where
  "demux_id_set rds = remdups (map rd_demux_id rds)"

section \<open>Messages to and from the SFU\<close>

record video_request_message =
  vrm_requests :: "(demux_id \<times> 32 word) list"
  vrm_max_kbps :: "32 word option"
  vrm_active_speaker_height :: "32 word option"

datatype admin_action = Approve demux_id | Deny demux_id | Remove demux_id | Block demux_id

record device_to_sfu =
  dts_video_request :: "video_request_message option"
  dts_leave :: bool
  dts_admin_action :: "admin_action option"
  dts_raise_hand :: "(bool \<times> 32 word) option"
  dts_mrp_header :: "mrp_header option"
  dts_content :: "bytes option"
  dts_stats :: "(demux_id \<times> 32 word \<times> nat \<times> nat) list option"

definition device_to_sfu_default :: device_to_sfu where
  "device_to_sfu_default =
     \<lparr> dts_video_request = None, dts_leave = False, dts_admin_action = None, dts_raise_hand = None,
       dts_mrp_header = None, dts_content = None, dts_stats = None \<rparr>"

record current_devices =
  demux_ids_with_video :: "demux_id list"
  allocated_heights :: "32 word list"

record raised_hands_message =
  raised_demux_ids :: "demux_id list"
  raised_target_seqnum :: "32 word option"

record send_endorsements_response =
  endorsements_serialized :: "bytes option"
  member_ciphertexts :: "bytes list"

text \<open>A message that is present without content, such as \<open>Removed\<close>, is a flag. The fields that the
  client only logs (\<open>stats\<close>, \<open>video_request\<close>) are left out.\<close>

record sfu_to_device =
  std_speaker :: "demux_id option option"
  std_device_joined_or_left :: "proto_peek_info option option"
  std_current_devices :: "current_devices option"
  std_removed :: bool
  std_raised_hands :: "raised_hands_message option"
  std_mrp_header :: "mrp_header option"
  std_content :: "bytes option"
  std_endorsements :: "send_endorsements_response option"

definition sfu_to_device_default :: sfu_to_device where
  "sfu_to_device_default =
     \<lparr> std_speaker = None, std_device_joined_or_left = None, std_current_devices = None,
       std_removed = False, std_raised_hands = None, std_mrp_header = None, std_content = None,
       std_endorsements = None \<rparr>"

text \<open>\<open>Extend\<close> for messages in fragments and for their RTP headers (\<open>protobuf.rs\<close>, \<open>webrtc/rtp.rs\<close>).\<close>

definition is_extendable :: "sfu_to_device \<Rightarrow> bool" where
  "is_extendable m = (case std_mrp_header m of Some h \<Rightarrow> num_packets h \<noteq> None | None \<Rightarrow> False)"

definition sfu_to_device_extend :: "sfu_to_device \<Rightarrow> sfu_to_device list \<Rightarrow> sfu_to_device" where
  "sfu_to_device_extend m ms =
     (if is_extendable m then
        m\<lparr>std_content := Some ((case std_content m of Some c \<Rightarrow> c | None \<Rightarrow> [])
             @ concat (List.map_filter std_content ms))\<rparr>
      else m)"

definition header_extend :: "rtp_header \<Rightarrow> rtp_header list \<Rightarrow> rtp_header" where
  "header_extend h hs =
     fold (\<lambda>h' h. if pt h' \<noteq> pt h then h else if ssrc h \<noteq> ssrc h' then h
                  else h\<lparr>timestamp := timestamp h', rtp_seqnum := rtp_seqnum h'\<rparr>) hs h"

definition packet_extend_pair ::
  "rtp_header \<times> sfu_to_device \<Rightarrow> (rtp_header \<times> sfu_to_device) list \<Rightarrow> rtp_header \<times> sfu_to_device" where
  "packet_extend_pair p ps = (header_extend (fst p) (map fst ps), sfu_to_device_extend (snd p) (map snd ps))"

end
