(* ===== verification/Group_State.thy ===== *)
theory Group_State
  imports Group_Types
begin

text \<open>
  The state of a group call client (\<open>Client\<close> and \<open>State\<close> of \<open>core/group_call.rs\<close>), its environment,
  and the client of the SFU's HTTP interface. WebRTC's peer connection is an abstract state \<open>'pc\<close> with
  the operations of \<open>group_pc\<close>; the cryptographic and zero-knowledge libraries, the codecs and the
  random generator are fields of \<open>group_env\<close>. The calls a client makes of its observer are kept in
  order. The observer of statistics is part of the peer connection. The frame encryption context and the busy flag, which the code shares with other threads,
  are fields of the state. Call summaries and statistics are not modelled.
\<close>

section \<open>What a client tells its observer\<close>

datatype observer_call =
    RequestMembershipProof
  | RequestGroupMembers
  | SendSignalingMessage user_id call_message signaling_message_urgency
  | SendSignalingMessageToGroup group_id call_message signaling_message_urgency "user_id list"
  | SendSignalingMessageToAdhocGroup call_message signaling_message_urgency timestamp "(user_id \<times> bytes) list"
  | HandleConnectionStateChanged group_connection_state
  | HandleNetworkRouteChanged network_route
  | HandleJoinStateChanged join_state
  | HandleSendRatesChanged send_rates
  | HandleRemoteDevicesChanged "remote_device_state list" remote_devices_changed_reason
  | HandlePeekChanged peek_info "user_id list"
  | HandleIncomingVideoTrack demux_id nat
  | HandleSpeakingNotification speech_event
  | HandleAudioLevels "16 word" "(demux_id \<times> 16 word) list"
  | HandleLowBandwidthForVideo bool
  | HandleReactions "reaction list"
  | HandleRaisedHands "demux_id list"
  | HandleRemoteMuteRequest demux_id
  | HandleObservedRemoteMute demux_id demux_id
  | HandleRtcStatsReport string
  | HandleEnded call_end_reason
  | HandleEndorsementsUpdate "(timestamp \<times> (user_id \<times> bytes) list, endorsement_update_error) result"

section \<open>Tasks of the client's thread\<close>

text \<open>What the application asks of a client, and what else its thread runs.\<close>

datatype group_request =
    ProvideRingIdIfAbsent ring_id
  | OverrideSendRates send_rates
  | Connect
  | Join
  | Leave
  | Disconnect
  | Ring "user_id option"
  | SetOutgoingAudioMuted bool
  | SetOutgoingAudioMutedRemotely demux_id
  | SendRemoteMuteRequest demux_id
  | SetOutgoingVideoMuted bool
  | SetPresenting bool
  | SetSharingScreen bool
  | ResendMediaKeys
  | SetDataMode data_mode
  | RequestVideo "video_request list" "16 word"
  | ApproveUser user_id
  | DenyUser user_id
  | RemoveClient demux_id
  | BlockClient demux_id
  | SetGroupMembers "group_member list"
  | SetMembershipProof bytes
  | React bytes
  | RaiseHand bool
  | SetRtcStatsInterval nat
  | SendDecryptionStats "(demux_id \<times> decryption_error_stats) list"

datatype group_task =
    Request group_request
  | Initialize
  | Tick
  | FinishEnd call_end_reason
  | JoinAttemptCompleted "(joined_info, ringrtc_error) result"
  | SetPeekResult "(peek_info, response_status) result"
  | SignalingMessageReceived user_id device_to_device
  | ApplySendKey bytes "timestamp option"
  | RequestRemoteDevices
  | RequestRemoteDevicesIfUnknown demux_id
  | ReceiveReliably rtp_header mrp_header sfu_to_device
  | EndorsementsOrPeek nat "send_endorsements_response option" "proto_peek_info option option"
  | SpeakerReceived "32 word" demux_id
  | ForwardingVideoReceived "demux_id list" "32 word list"
  | RemovedReceived
  | RaisedHandsReceived "demux_id list" "32 word"
  | HeartbeatReceived demux_id "32 word" heartbeat
  | LeavingReceived demux_id
  | ReactionReceived demux_id bytes
  | RemoteMuteRequestReceived demux_id demux_id
  | IceConnectionStateChanged ice_connection_state
  | IceNetworkRouteChanged network_route
  | IncomingVideoAdded nat "demux_id option"
  | VideoFrameHeight demux_id "32 word"

section \<open>The client of the SFU\<close>

datatype sfu_callback =
    PeekCallback member_resolver
  | JoinCallback member_resolver bytes

record sfu_client =
  sfu_url :: string
  room_id_header :: "string option"
  sfu_root_key :: "call_link_root_key option"
  admin_passkey :: "bytes option"
  hkdf_extra_info :: bytes
  http_client :: "sfu_callback delegating_client"
  auth_header :: "string option"
  sfu_member_resolver :: member_resolver
  deferred_join :: "(string \<times> string \<times> bytes) option"

definition sfu_client_new ::
  "string \<Rightarrow> bytes option \<Rightarrow> call_link_root_key option \<Rightarrow> bytes option \<Rightarrow> bytes \<Rightarrow> sfu_client" where
  "sfu_client_new url room_id root_key passkey extra_info =
     \<lparr> sfu_url = url, room_id_header = map_option Call_Links.hex_encode room_id, sfu_root_key = root_key,
       admin_passkey = passkey, hkdf_extra_info = extra_info, http_client = delegating_client_new,
       auth_header = None, sfu_member_resolver = member_map_resolver [], deferred_join = None \<rparr>"

section \<open>The environment\<close>

datatype server_protocol = ServerUdp | ServerTcp | ServerTls string

record ('pc, 'sd) group_pc =
  gp_update_transceivers :: "demux_id list \<Rightarrow> 'pc \<Rightarrow> 'pc \<times> (unit, ringrtc_error) result"
  gp_create_offer :: "'pc \<Rightarrow> 'pc \<times> (unit, ringrtc_error) result"
  gp_local_description :: "string \<Rightarrow> string \<Rightarrow> srtp_key \<Rightarrow> demux_id \<Rightarrow> demux_id list \<Rightarrow> 'sd option"
  gp_remote_description :: "string \<Rightarrow> string \<Rightarrow> srtp_key \<Rightarrow> demux_id \<Rightarrow> demux_id list \<Rightarrow> 'sd option"
  gp_set_local_description :: "'sd \<Rightarrow> 'pc \<Rightarrow> 'pc \<times> (unit, ringrtc_error) result"
  gp_set_remote_description :: "'sd \<Rightarrow> 'pc \<Rightarrow> 'pc \<times> (unit, ringrtc_error) result"
  gp_add_ice_candidate_from_server :: "ip_addr \<Rightarrow> 16 word \<Rightarrow> server_protocol \<Rightarrow> 'pc \<Rightarrow> 'pc \<times> (unit, ringrtc_error) result"
  gp_receive_rtp :: "8 word \<Rightarrow> bool \<Rightarrow> 'pc \<Rightarrow> 'pc \<times> (unit, ringrtc_error) result"
  gp_send_rtp :: "rtp_header \<Rightarrow> bytes \<Rightarrow> 'pc \<Rightarrow> 'pc \<times> (unit, ringrtc_error) result"
  gp_set_send_rates :: "send_rates \<Rightarrow> 'pc \<Rightarrow> 'pc \<times> (unit, ringrtc_error) result"
  gp_get_audio_levels :: "'pc \<Rightarrow> 16 word \<times> (demux_id \<times> 16 word) list"
  gp_get_last_bandwidth_estimate :: "'pc \<Rightarrow> data_rate"

record ('pc, 'sd) group_pc_switches = "('pc, 'sd) group_pc" +
  gp_set_outgoing_media_enabled :: "bool \<Rightarrow> 'pc \<Rightarrow> 'pc"
  gp_set_incoming_media_enabled :: "bool \<Rightarrow> 'pc \<Rightarrow> 'pc"
  gp_set_audio_recording_enabled :: "bool \<Rightarrow> 'pc \<Rightarrow> 'pc"
  gp_set_audio_playout_enabled :: "bool \<Rightarrow> 'pc \<Rightarrow> 'pc"
  gp_configure_audio_encoders :: "audio_encoder_config \<Rightarrow> 'pc \<Rightarrow> 'pc"
  gp_configure_audio_decoders :: "audio_decoder_config \<Rightarrow> 'pc \<Rightarrow> 'pc"
  gp_regather_on_all_networks :: "'pc \<Rightarrow> 'pc"
  gp_close :: "'pc \<Rightarrow> 'pc"
  gp_get_stats :: "'pc \<Rightarrow> 'pc"
  gp_take_stats_report :: "'pc \<Rightarrow> 'pc \<times> string option"
  gp_set_collect_raw_stats_report :: "bool \<Rightarrow> 'pc \<Rightarrow> 'pc"

text \<open>
  \<open>random_secret n\<close> and \<open>ephemeral_secret n\<close> are the \<open>n\<close>-th secrets that the random generator gives.
  \<open>zk_response\<close> deserialises an endorsement response to its expiration and its validation, which
  needs the ciphertexts of the members, the time and the server's key; an endorsement is the
  bytes it is serialised to. \<open>zk_ciphertext\<close> tells whether a member's ciphertext deserialises.
\<close>

record group_crypto =
  ge_prims :: prims
  random_secret :: "nat \<Rightarrow> bytes"
  ephemeral_secret :: "nat \<Rightarrow> bytes"
  public_key_of :: "bytes \<Rightarrow> bytes"
  diffie_hellman :: "bytes \<Rightarrow> bytes \<Rightarrow> bytes option"
  srtp_hkdf :: "bytes \<Rightarrow> bytes \<Rightarrow> nat \<Rightarrow> bytes"
  sha256 :: "bytes \<Rightarrow> bytes"
  hash_user :: "user_id \<Rightarrow> 64 word"
  zk_response :: "bytes \<Rightarrow> (timestamp \<times> (bytes list \<Rightarrow> timestamp \<Rightarrow> bytes \<Rightarrow> bytes list option)) option"
  zk_ciphertext :: "bytes \<Rightarrow> bool"

record ('pc, 'sd) group_env = group_crypto +
  ge_pc :: "('pc, 'sd) group_pc_switches"
  ge_sfu_codec :: sfu_codec
  ge_link_prims :: link_prims
  encode_device_to_device :: "device_to_device \<Rightarrow> bytes"
  decode_device_to_device :: "bytes \<Rightarrow> device_to_device option"
  encode_device_to_sfu :: "device_to_sfu \<Rightarrow> bytes"
  decode_sfu_to_device :: "bytes \<Rightarrow> sfu_to_device option"
  ge_call_sim :: bool

section \<open>The state of a client\<close>

record 'pc group_base =
  gs_group_id :: group_id
  gs_kind :: group_call_kind
  gs_busy :: bool
  gs_self_uuid :: "user_id option"
  gs_assets :: asset_registry
  gs_observed :: "observer_call list"
  gs_sfu_client :: sfu_client
  gs_actor :: "group_task actor"
  gs_drawn :: nat
  gs_panicked :: bool
  gs_last_heights :: "(demux_id \<times> 32 word) list"
  gs_pc :: 'pc

record 'pc group_call_part = "'pc group_base" +
  gs_connection_state :: group_connection_state
  gs_join_state :: join_state
  gs_remote_devices :: "remote_device_state list"
  gs_dhe_state :: dhe_state
  gs_request_state :: remote_devices_request_state
  gs_last_peek_info :: "peek_info option"
  gs_known_members :: "user_id list"
  gs_resolver :: obfuscated_resolver
  gs_joined_members :: "user_id list"
  gs_pending_users_signature :: "64 word"
  gs_outgoing_heartbeat :: heartbeat_state
  gs_ring_state :: outgoing_ring_state

record 'pc group_media_part = "'pc group_call_part" +
  gs_ice_ufrag :: string
  gs_ice_pwd :: string
  gs_sfu_info :: "sfu_info option"
  gs_to_sfu_seqnum :: "32 word"
  gs_through_sfu_seqnum :: "32 word"
  gs_transceivers :: "demux_id option list"
  gs_endorsements :: "bytes endorsements_cache option"
  gs_crypto :: crypto_context
  gs_pending_keys :: "(user_id \<times> demux_id \<times> 8 word \<times> bytes) list"
  gs_rotation :: key_rotation_state
  gs_stream :: "(bytes, rtp_header \<times> sfu_to_device) mrp_stream"

record 'pc group_video_part = "'pc group_media_part" +
  gs_video_requests :: "video_request list option"
  gs_active_speaker_height :: "16 word option"
  gs_on_demand_sent :: bool
  gs_speaker_timestamp :: "32 word option"
  gs_send_rates :: send_rates
  gs_send_rates_override :: "send_rates option"
  gs_max_receive_rate :: "data_rate option"
  gs_data_mode :: data_mode
  gs_forwarding_videos :: "(demux_id \<times> 16 word) list"
  gs_reactions :: "reaction list"
  gs_raised_hands :: "demux_id list"
  gs_raise_hand :: raise_hand_state
  gs_mute_request :: "demux_id option"

record 'pc group_state = "'pc group_video_part" +
  next_heartbeat_time :: "nat option"
  next_stats_time :: "nat option"
  get_stats_interval :: nat
  next_decryption_error_time :: "nat option"
  audio_levels_interval :: "nat option"
  next_audio_levels_time :: "nat option"
  gs_dred_duration :: "8 word"
  next_speaking_audio_levels_time :: "nat option"
  started_speaking :: "nat option"
  silence_started :: "nat option"
  last_speaking_notification :: "speech_event option"
  next_membership_proof_request_time :: "nat option"
  next_raise_hand_time :: "nat option"
  gs_bwe_check :: bwe_check_state

text \<open>Telling the observer, and sending to the client's own thread.\<close>

definition observe :: "observer_call \<Rightarrow> 'pc group_state \<Rightarrow> 'pc group_state" where
  "observe c s = s\<lparr>gs_observed := gs_observed s @ [c]\<rparr>"

definition gc_send :: "group_task \<Rightarrow> 'pc group_state \<Rightarrow> 'pc group_state" where
  "gc_send t s = s\<lparr>gs_actor := actor_send t (gs_actor s)\<rparr>"

definition gc_send_delayed :: "nat \<Rightarrow> nat \<Rightarrow> group_task \<Rightarrow> 'pc group_state \<Rightarrow> 'pc group_state" where
  "gc_send_delayed now delay t s = s\<lparr>gs_actor := actor_send_delayed now delay t (gs_actor s)\<rparr>"

definition with_pc :: "('pc \<Rightarrow> 'pc) \<Rightarrow> 'pc group_state \<Rightarrow> 'pc group_state" where
  "with_pc f s = s\<lparr>gs_pc := f (gs_pc s)\<rparr>"

end
