(* ===== verification/Group_Frames.thy ===== *)
theory Group_Frames
  imports Group_State
begin

text \<open>
  What a group call client sends: the format of encrypted frames with \<open>Writer\<close> and \<open>Reader\<close>, RTP data
  to and through the SFU, reliably and not, and the messages over signaling
  (\<open>core/group_call.rs\<close>). A function of the state returns it with its \<open>Result\<close>. The MRP stream's
  internal \<open>expect\<close>s, which do not fail on a well-formed stream, set the flag \<open>gs_panicked\<close>.
\<close>

section \<open>Writer and Reader\<close>

record writer =
  w_buf :: bytes
  w_offset :: nat

definition writer_new :: "bytes \<Rightarrow> writer" where
  "writer_new buf = \<lparr> w_buf = buf, w_offset = 0 \<rparr>"

definition remaining_len :: "writer \<Rightarrow> nat" where
  "remaining_len w = length (w_buf w) - w_offset w"

definition replace_at :: "nat \<Rightarrow> bytes \<Rightarrow> bytes \<Rightarrow> bytes" where
  "replace_at i data buf = take i buf @ data @ drop (i + length data) buf"

definition write_slice :: "bytes \<Rightarrow> writer \<Rightarrow> (writer, ringrtc_error) result" where
  "write_slice input w =
     (if remaining_len w < length input then Err BufferTooSmall
      else Ok \<lparr> w_buf = replace_at (w_offset w) input (w_buf w), w_offset = w_offset w + length input \<rparr>)"

definition write_u8 :: "byte \<Rightarrow> writer \<Rightarrow> (writer, ringrtc_error) result" where
  "write_u8 input w =
     (if remaining_len w < 1 then Err BufferTooSmall
      else Ok \<lparr> w_buf = (w_buf w)[w_offset w := input], w_offset = w_offset w + 1 \<rparr>)"

definition write_u32 :: "32 word \<Rightarrow> writer \<Rightarrow> (writer, ringrtc_error) result" where
  "write_u32 input w = write_slice (be_bytes32 input) w"

text \<open>A reader is the list of the bytes that remain.\<close>

definition read_slice_from_end :: "nat \<Rightarrow> bytes \<Rightarrow> (bytes \<times> bytes, ringrtc_error) result" where
  "read_slice_from_end len data =
     (if length data < len then Err BufferTooSmall
      else Ok (drop (length data - len) data, take (length data - len) data))"

definition read_u8_from_end :: "bytes \<Rightarrow> (byte \<times> bytes, ringrtc_error) result" where
  "read_u8_from_end data = (if data = [] then Err BufferTooSmall else Ok (last data, butlast data))"

definition be_word32 :: "bytes \<Rightarrow> 32 word" where
  "be_word32 bs = fold (\<lambda>b acc. 256 * acc + ucast b) bs 0"

definition read_u32_from_end :: "bytes \<Rightarrow> (32 word \<times> bytes, ringrtc_error) result" where
  "read_u32_from_end data = (case read_slice_from_end 4 data of
     Err e \<Rightarrow> Err e
   | Ok (bs, rest) \<Rightarrow> Ok (be_word32 bs, rest))"

section \<open>Encrypted frames\<close>

definition FRAME_ENCRYPTION_FOOTER_LEN :: nat where
  "FRAME_ENCRYPTION_FOOTER_LEN = 1 + 4 + MAC_SIZE_BYTES"

definition get_ciphertext_buffer_size :: "nat \<Rightarrow> nat" where
  "get_ciphertext_buffer_size plaintext_size = saturating_add64 plaintext_size FRAME_ENCRYPTION_FOOTER_LEN"

definition get_plaintext_buffer_size :: "nat \<Rightarrow> nat" where
  "get_plaintext_buffer_size ciphertext_size = ciphertext_size - FRAME_ENCRYPTION_FOOTER_LEN"

text \<open>
  \<open>Client::encrypt\<close>: the context, the buffer as left behind, and the size or the error. The context
  encrypts the payload in the buffer, where it has been copied.
\<close>

definition encrypt_frame ::
  "prims \<Rightarrow> crypto_context \<Rightarrow> bytes \<Rightarrow> bytes \<Rightarrow> crypto_context \<times> bytes \<times> (nat, ringrtc_error) result" where
  "encrypt_frame P ctx plaintext ciphertext_buffer =
     (case write_slice plaintext (writer_new ciphertext_buffer) of
        Err e \<Rightarrow> (ctx, ciphertext_buffer, Err e)
      | Ok w \<Rightarrow> (case Frame_Crypto.encrypt P ctx plaintext of
          (ctx, data, mac, Err _) \<Rightarrow> (ctx, replace_at 0 data (w_buf w), Err (Anyhow ''frame encryption failed''))
        | (ctx, data, mac, Ok (counter, frame_counter)) \<Rightarrow>
            let w = w\<lparr>w_buf := replace_at 0 data (w_buf w)\<rparr> in
            if 0xFFFFFFFF < frame_counter then (ctx, w_buf w, Err FrameCounterTooBig)
            else (case write_u8 counter w of
                    Err e \<Rightarrow> (ctx, w_buf w, Err e)
                  | Ok w \<Rightarrow> (case write_u32 (ucast frame_counter) w of
                      Err e \<Rightarrow> (ctx, w_buf w, Err e)
                    | Ok w \<Rightarrow> (case write_slice mac w of
                        Err e \<Rightarrow> (ctx, w_buf w, Err e)
                      | Ok w \<Rightarrow> (ctx, w_buf w, Ok (get_ciphertext_buffer_size (length plaintext))))))))"

definition decrypt_frame ::
  "prims \<Rightarrow> nat \<Rightarrow> crypto_context \<Rightarrow> demux_id \<Rightarrow> bytes \<Rightarrow> bytes
   \<Rightarrow> crypto_context \<times> bytes \<times> (nat, ringrtc_error) result" where
  "decrypt_frame P now ctx remote_demux_id ciphertext plaintext_buffer =
     (case read_slice_from_end MAC_SIZE_BYTES ciphertext of
        Err e \<Rightarrow> (ctx, plaintext_buffer, Err e)
      | Ok (mac, rest) \<Rightarrow> (case read_u32_from_end rest of
          Err e \<Rightarrow> (ctx, plaintext_buffer, Err e)
        | Ok (frame_counter, rest) \<Rightarrow> (case read_u8_from_end rest of
            Err e \<Rightarrow> (ctx, plaintext_buffer, Err e)
          | Ok (counter, rest) \<Rightarrow> (case write_slice rest (writer_new plaintext_buffer) of
              Err e \<Rightarrow> (ctx, plaintext_buffer, Err e)
            | Ok w \<Rightarrow> (case Frame_Crypto.decrypt P now ctx remote_demux_id counter (ucast frame_counter) rest mac of
                (ctx, data, Err _) \<Rightarrow> (ctx, replace_at 0 data (w_buf w), Err (Anyhow ''NoMatchingReceiverState''))
              | (ctx, data, Ok _) \<Rightarrow> (ctx, replace_at 0 data (w_buf w), Ok (length rest)))))))"

text \<open>\<open>encrypt_media\<close> and \<open>decrypt_media\<close> are called by WebRTC with the buffers it has allocated.\<close>

definition encrypt_media ::
  "('pc, 'sd) group_env \<Rightarrow> bytes \<Rightarrow> bytes \<Rightarrow> 'pc group_state \<Rightarrow> 'pc group_state \<times> bytes \<times> (nat, ringrtc_error) result" where
  "encrypt_media E plaintext buffer s = (case encrypt_frame (ge_prims E) (gs_crypto s) plaintext buffer of
     (ctx, buffer, r) \<Rightarrow> (s\<lparr>gs_crypto := ctx\<rparr>, buffer, r))"

definition decrypt_media ::
  "('pc, 'sd) group_env \<Rightarrow> nat \<Rightarrow> demux_id \<Rightarrow> bytes \<Rightarrow> bytes \<Rightarrow> 'pc group_state
   \<Rightarrow> 'pc group_state \<times> bytes \<times> (nat, ringrtc_error) result" where
  "decrypt_media E now remote_demux_id ciphertext buffer s =
     (case decrypt_frame (ge_prims E) now (gs_crypto s) remote_demux_id ciphertext buffer of
        (ctx, buffer, r) \<Rightarrow> (s\<lparr>gs_crypto := ctx\<rparr>, buffer, r))"

definition encrypt_data ::
  "('pc, 'sd) group_env \<Rightarrow> bytes \<Rightarrow> 'pc group_state \<Rightarrow> 'pc group_state \<times> (bytes, ringrtc_error) result" where
  "encrypt_data E plaintext s =
     (case encrypt_media E plaintext (replicate (get_ciphertext_buffer_size (length plaintext)) 0) s of
        (s, ciphertext, Ok _) \<Rightarrow> (s, Ok ciphertext)
      | (s, _, Err e) \<Rightarrow> (s, Err e))"

definition decrypt_data ::
  "('pc, 'sd) group_env \<Rightarrow> nat \<Rightarrow> demux_id \<Rightarrow> bytes \<Rightarrow> 'pc group_state \<Rightarrow> 'pc group_state \<times> (bytes, ringrtc_error) result" where
  "decrypt_data E now remote_demux_id ciphertext s =
     (case decrypt_media E now remote_demux_id ciphertext
             (replicate (get_plaintext_buffer_size (length ciphertext)) 0) s of
        (s, plaintext, Ok _) \<Rightarrow> (s, Ok plaintext)
      | (s, _, Err e) \<Rightarrow> (s, Err e))"

section \<open>RTP data\<close>

definition RTP_DATA_THROUGH_SFU_SSRC_OFFSET :: "32 word" where "RTP_DATA_THROUGH_SFU_SSRC_OFFSET = 0xD"
definition RTP_DATA_TO_SFU_SSRC :: "32 word" where "RTP_DATA_TO_SFU_SSRC = 1"
definition DEVICE_TO_SFU_TIMEOUT :: nat where "DEVICE_TO_SFU_TIMEOUT = 1000"
definition MAX_MRP_FRAGMENT_BYTE_SIZE :: nat where "MAX_MRP_FRAGMENT_BYTE_SIZE = 1200 - 60"

definition saturating_add32 :: "32 word \<Rightarrow> 32 word \<Rightarrow> 32 word" where
  "saturating_add32 a b = (if unat a + unat b < 2 ^ 32 then a + b else -1)"

definition saturating_sub32 :: "32 word \<Rightarrow> 32 word \<Rightarrow> 32 word" where
  "saturating_sub32 a b = (if b \<le> a then a - b else 0)"

text \<open>The demux id of a device that the SFU has let in, or that waits for approval.\<close>

fun local_demux_id :: "join_state \<Rightarrow> demux_id option" where
  "local_demux_id (Pending d) = Some d"
| "local_demux_id (Joined d) = Some d"
| "local_demux_id _ = None"

definition data_header :: "32 word \<Rightarrow> 32 word \<Rightarrow> rtp_header" where
  "data_header to_ssrc n =
     \<lparr> pt = RTP_DATA_PAYLOAD_TYPE, ssrc = to_ssrc, rtp_seqnum = ucast n, timestamp = n \<rparr>"

definition unreliable_send_data_inner ::
  "('pc, 'sd) group_env \<Rightarrow> join_state \<Rightarrow> 32 word \<Rightarrow> 32 word \<Rightarrow> bytes \<Rightarrow> 'pc \<Rightarrow> 'pc \<times> (32 word, ringrtc_error) result" where
  "unreliable_send_data_inner E js to_ssrc n message p =
     (if local_demux_id js \<noteq> None then
        (case gp_send_rtp (ge_pc E) (data_header to_ssrc n) message p of
           (p, Ok _) \<Rightarrow> (p, Ok (n + 1))
         | (p, Err e) \<Rightarrow> (p, Err e))
      else (p, Err (Anyhow ''invalid JoinState'')))"

definition unreliable_send_data_to_sfu ::
  "('pc, 'sd) group_env \<Rightarrow> bytes \<Rightarrow> 'pc group_state \<Rightarrow> 'pc group_state \<times> (unit, ringrtc_error) result" where
  "unreliable_send_data_to_sfu E message s =
     (case unreliable_send_data_inner E (gs_join_state s) RTP_DATA_TO_SFU_SSRC (gs_to_sfu_seqnum s) message (gs_pc s) of
        (p, Ok n) \<Rightarrow> (s\<lparr>gs_pc := p, gs_to_sfu_seqnum := n\<rparr>, Ok ())
      | (p, Err e) \<Rightarrow> (s\<lparr>gs_pc := p\<rparr>, Err e))"

text \<open>The closures that the MRP stream calls; their state is the next sequence number and the peer connection.\<close>

definition send_payload ::
  "('pc, 'sd) group_env \<Rightarrow> join_state \<Rightarrow> 32 word \<times> 'pc \<Rightarrow> bytes \<Rightarrow> (32 word \<times> 'pc) \<times> (unit, ringrtc_error) result" where
  "send_payload E js c payload = (case c of (n, p) \<Rightarrow>
     (case unreliable_send_data_inner E js RTP_DATA_TO_SFU_SSRC n payload p of
        (p, Ok n') \<Rightarrow> ((n', p), Ok ())
      | (p, Err e) \<Rightarrow> ((n, p), Err e)))"

definition send_reliable_message ::
  "('pc, 'sd) group_env \<Rightarrow> nat \<Rightarrow> join_state \<Rightarrow> device_to_sfu \<Rightarrow> 32 word \<times> 'pc \<Rightarrow> mrp_header
   \<Rightarrow> (32 word \<times> 'pc) \<times> (bytes \<times> nat, ringrtc_error) result" where
  "send_reliable_message E now js message c header =
     (let payload = encode_device_to_sfu E (message\<lparr>dts_mrp_header := Some header\<rparr>)
      in case send_payload E js c payload of
           (c, Ok _) \<Rightarrow> (c, Ok (payload, now + DEVICE_TO_SFU_TIMEOUT))
         | (c, Err e) \<Rightarrow> (c, Err e))"

definition reliable_send_device_to_sfu ::
  "('pc, 'sd) group_env \<Rightarrow> nat \<Rightarrow> device_to_sfu \<Rightarrow> 'pc group_state
   \<Rightarrow> 'pc group_state \<times> (unit, ringrtc_error mrp_send_error) result" where
  "reliable_send_device_to_sfu E now message s =
     (case try_send (gs_stream s) (send_reliable_message E now (gs_join_state s) message)
             (gs_to_sfu_seqnum s, gs_pc s) of
        None \<Rightarrow> (s\<lparr>gs_panicked := True\<rparr>, Ok ())
      | Some (st, (n, p), r) \<Rightarrow> (s\<lparr>gs_stream := st, gs_to_sfu_seqnum := n, gs_pc := p\<rparr>, r))"

definition chunks :: "nat \<Rightarrow> 'a list \<Rightarrow> 'a list list" where
  "chunks n xs = map (\<lambda>i. take n (drop (i * n) xs)) [0..<(length xs + n - 1) div n]"

definition send_fragment ::
  "('pc, 'sd) group_env \<Rightarrow> nat \<Rightarrow> 32 word \<times> 'pc \<Rightarrow> nat \<Rightarrow> mrp_header \<Rightarrow> bytes \<Rightarrow> (32 word \<times> 'pc) \<times> bytes \<times> nat" where
  "send_fragment E now c idx header fragment = (case c of (n, p) \<Rightarrow>
     (let payload = encode_device_to_sfu E
            (device_to_sfu_default\<lparr>dts_mrp_header := Some header, dts_content := Some fragment\<rparr>)
      in case gp_send_rtp (ge_pc E) (data_header RTP_DATA_TO_SFU_SSRC n) payload p of
           (p, _) \<Rightarrow> ((n + 1, p), payload, now + DEVICE_TO_SFU_TIMEOUT)))"

definition reliable_send_to_sfu_inner ::
  "('pc, 'sd) group_env \<Rightarrow> nat \<Rightarrow> bytes \<Rightarrow> 'pc group_state \<Rightarrow> 'pc group_state \<times> (unit, ringrtc_error) result" where
  "reliable_send_to_sfu_inner E now message s =
     (if local_demux_id (gs_join_state s) \<noteq> None then
        (case try_send_fragmented (gs_stream s) (chunks MAX_MRP_FRAGMENT_BYTE_SIZE message)
                (send_fragment E now) (gs_to_sfu_seqnum s, gs_pc s) of
           None \<Rightarrow> (s\<lparr>gs_panicked := True\<rparr>, Ok ())
         | Some (st, (n, p), Ok _) \<Rightarrow> (s\<lparr>gs_stream := st, gs_to_sfu_seqnum := n, gs_pc := p\<rparr>, Ok ())
         | Some (st, (n, p), Err _) \<Rightarrow> (s\<lparr>gs_stream := st, gs_pc := p\<rparr>, Err (Anyhow ''send window full'')))
      else (s, Err (Anyhow ''invalid JoinState'')))"

definition send_data_to_sfu ::
  "('pc, 'sd) group_env \<Rightarrow> nat \<Rightarrow> bytes \<Rightarrow> 'pc group_state \<Rightarrow> 'pc group_state \<times> (unit, ringrtc_error) result" where
  "send_data_to_sfu E now message s =
     (if MAX_MRP_FRAGMENT_BYTE_SIZE < length message then reliable_send_to_sfu_inner E now message s
      else unreliable_send_data_to_sfu E message s)"

definition broadcast_data_through_sfu ::
  "('pc, 'sd) group_env \<Rightarrow> bytes \<Rightarrow> 'pc group_state \<Rightarrow> 'pc group_state \<times> (unit, ringrtc_error) result" where
  "broadcast_data_through_sfu E message s = (case gs_join_state s of
     Joined d \<Rightarrow> (case encrypt_data E message s of
         (s, Err e) \<Rightarrow> (s, Err e)
       | (s, Ok message) \<Rightarrow>
           (case unreliable_send_data_inner E (gs_join_state s)
                   (saturating_add32 d RTP_DATA_THROUGH_SFU_SSRC_OFFSET) (gs_through_sfu_seqnum s) message (gs_pc s) of
              (p, Ok n) \<Rightarrow> (s\<lparr>gs_pc := p, gs_through_sfu_seqnum := n\<rparr>, Ok ())
            | (p, Err e) \<Rightarrow> (s\<lparr>gs_pc := p\<rparr>, Err e)))
   | _ \<Rightarrow> (s, Ok ()))"

end
