(* ===== verification/Group_Client.thy ===== *)
theory Group_Client
  imports Group_Frames
begin

text \<open>
  The operations of a group call client that run on its own thread, first part
  (\<open>core/group_call.rs\<close>): messages, requests for the devices in the call, joining and leaving, media
  keys, and the processing of peek results.
\<close>

section \<open>Messages to other devices\<close>

definition send_heartbeat ::
  "('pc, 'sd) group_env \<Rightarrow> 'pc group_state \<Rightarrow> 'pc group_state \<times> (unit, ringrtc_error) result" where
  "send_heartbeat E s = broadcast_data_through_sfu E
     (encode_device_to_device E (device_to_device_default\<lparr>dtd_heartbeat := Some (gs_outgoing_heartbeat s)\<rparr>)) s"

definition send_reaction ::
  "('pc, 'sd) group_env \<Rightarrow> bytes \<Rightarrow> 'pc group_state \<Rightarrow> 'pc group_state \<times> (unit, ringrtc_error) result" where
  "send_reaction E value s = broadcast_data_through_sfu E
     (encode_device_to_device E
        (device_to_device_default\<lparr>dtd_reaction := Some \<lparr> reaction_value = Some value \<rparr>\<rparr>)) s"

definition send_raise_hand :: "('pc, 'sd) group_env \<Rightarrow> 'pc group_state \<Rightarrow> 'pc group_state" where
  "send_raise_hand E s = fst (unreliable_send_data_to_sfu E
     (encode_device_to_sfu E (device_to_sfu_default\<lparr>dts_raise_hand :=
        Some (rh_raise (gs_raise_hand s), rh_seqnum (gs_raise_hand s))\<rparr>)) s)"

definition send_leave_to_sfu :: "('pc, 'sd) group_env \<Rightarrow> 'pc group_state \<Rightarrow> 'pc group_state" where
  "send_leave_to_sfu E s =
     (let msg = encode_device_to_sfu E (device_to_sfu_default\<lparr>dts_leave := True\<rparr>)
      in fst (unreliable_send_data_to_sfu E msg (fst (unreliable_send_data_to_sfu E msg s))))"

text \<open>\<open>HashSet::take\<close> of the own user: whether it was there, and the others.\<close>

definition take_self :: "user_id option \<Rightarrow> user_id list \<Rightarrow> user_id option \<times> user_id list" where
  "take_self self recipients = (case self of
     Some u \<Rightarrow> if u \<in> set recipients then (Some u, removeAll u recipients) else (None, recipients)
   | None \<Rightarrow> (None, recipients))"

definition send_to_each :: "call_message \<Rightarrow> user_id list \<Rightarrow> 'pc group_state \<Rightarrow> 'pc group_state" where
  "send_to_each message = fold (\<lambda>u. observe (SendSignalingMessage u message Droppable))"

definition send_to_self :: "call_message \<Rightarrow> user_id option \<Rightarrow> 'pc group_state \<Rightarrow> 'pc group_state" where
  "send_to_self message self s = (case self of
     Some u \<Rightarrow> observe (SendSignalingMessage u message Droppable) s
   | None \<Rightarrow> s)"

definition send_leaving_through_sfu_and_over_signaling ::
  "('pc, 'sd) group_env \<Rightarrow> demux_id \<Rightarrow> 'pc group_state \<Rightarrow> 'pc group_state" where
  "send_leaving_through_sfu_and_over_signaling E local_demux s =
     (let s = fst (broadcast_data_through_sfu E (encode_device_to_device E
              (device_to_device_default\<lparr>dtd_leaving := Some \<lparr> leaving_demux_id = None \<rparr>\<rparr>)) s);
          message = call_message_default\<lparr>group_call_message := Some
              (device_to_device_default\<lparr>dtd_group_id := Some (gs_group_id s),
                 dtd_leaving := Some \<lparr> leaving_demux_id = Some local_demux \<rparr>\<rparr>)\<rparr>
      in case take_self (gs_self_uuid s) (gs_joined_members s) of (self, recipients) \<Rightarrow>
           send_to_self message self
             (if 1 < length recipients \<and> gs_kind s = SignalGroup
              then observe (SendSignalingMessageToGroup (gs_group_id s) message Droppable recipients) s
              else send_to_each message recipients s))"

definition send_decryption_stats_inner ::
  "('pc, 'sd) group_env \<Rightarrow> nat \<Rightarrow> (demux_id \<times> decryption_error_stats) list \<Rightarrow> 'pc group_state \<Rightarrow> 'pc group_state" where
  "send_decryption_stats_inner E now errors s = fst (send_data_to_sfu E now
     (encode_device_to_sfu E (device_to_sfu_default\<lparr>dts_stats :=
        Some (map (\<lambda>(d, st). (d, err_count st, start_time st, last_time st)) errors)\<rparr>)) s)"

definition ring_message_of :: "'pc group_state \<Rightarrow> ring_id \<Rightarrow> 32 word \<Rightarrow> ring_message" where
  "ring_message_of s ring_id ty =
     \<lparr> rm_group_id = Some (gs_group_id s), rm_type = Some ty, rm_ring_id = Some ring_id \<rparr>"

definition cancel_full_group_ring_if_needed :: "'pc group_state \<Rightarrow> 'pc group_state" where
  "cancel_full_group_ring_if_needed s = (case gs_ring_state s of
     HasSentRing ring_id \<Rightarrow> observe (SendSignalingMessageToGroup (gs_group_id s)
       (call_message_default\<lparr>ring_intention := Some (ring_message_of s ring_id (intention_code IntentionCancelled))\<rparr>)
       HandleImmediately []) s
   | _ \<Rightarrow> s)"

definition accept_ring_if_needed :: "ring_id option \<Rightarrow> 'pc group_state \<Rightarrow> 'pc group_state" where
  "accept_ring_if_needed ring_id s = (case ring_id of
     None \<Rightarrow> s
   | Some ring_id \<Rightarrow> (case gs_self_uuid s of
       Some self \<Rightarrow> observe (SendSignalingMessage self
         (call_message_default\<lparr>ring_response := Some (ring_message_of s ring_id (response_code ResponseAccepted))\<rparr>)
         HandleImmediately) s
     | None \<Rightarrow> s))"

text \<open>A group ring cannot go to a single recipient: the assertion fails.\<close>

definition ring_inner :: "user_id option \<Rightarrow> 'pc group_state \<Rightarrow> 'pc group_state" where
  "ring_inner recipient s = (case gs_ring_state s of
     PermittedToRing ring_id \<Rightarrow>
       if recipient \<noteq> None then s\<lparr>gs_panicked := True\<rparr>
       else (let s = observe (SendSignalingMessageToGroup (gs_group_id s)
                 (call_message_default\<lparr>ring_intention := Some (ring_message_of s ring_id (intention_code IntentionRing))\<rparr>)
                 HandleImmediately []) s
             in s\<lparr>gs_ring_state := (if gs_remote_devices s = [] then HasSentRing ring_id else NotPermittedToRing)\<rparr>)
   | UnknownRing \<Rightarrow> s\<lparr>gs_ring_state := WantsToRing recipient\<rparr>
   | WantsToRing _ \<Rightarrow> s
   | HasSentRing _ \<Rightarrow> s
   | NotPermittedToRing \<Rightarrow> s)"

section \<open>Asking the SFU\<close>

definition sfu_peek :: "('pc, 'sd) group_env \<Rightarrow> sfu_client \<Rightarrow> sfu_client \<times> response_status option" where
  "sfu_peek E c = (case auth_header c of
     None \<Rightarrow> (c, Some INVALID_CLIENT_AUTH)
   | Some header \<Rightarrow> (case peek (ge_link_prims E) (sfu_url c) (room_id_header c) header (sfu_root_key c) of
       Err status \<Rightarrow> (c, Some status)
     | Ok request \<Rightarrow>
         (c\<lparr>http_client := send_http_request request (PeekCallback (sfu_member_resolver c)) (http_client c)\<rparr>, None)))"

definition join_result ::
  "bytes \<Rightarrow> (join_response, response_status) result \<Rightarrow> (joined_info, ringrtc_error) result" where
  "join_result extra_info response = (case response of
     Ok r \<Rightarrow> Ok
       \<lparr> joined_sfu_info = \<lparr> udp_addresses = server_udp_addresses r, tcp_addresses = server_tcp_addresses r,
             tls_addresses = server_tls_addresses r, sfu_hostname = server_hostname r,
             sfu_ice_ufrag = server_ice_ufrag r, sfu_ice_pwd = server_ice_pwd r \<rparr>,
         joined_local_demux_id = client_demux_id r,
         joined_server_dhe_pub_key = jr_server_dhe_pub_key r,
         joined_hkdf_extra_info = extra_info,
         joined_creator = call_creator r,
         joined_era_id = jr_era_id r,
         joined_join_state = (case jr_client_status r of
             client_status.Active \<Rightarrow> Joined (client_demux_id r)
           | _ \<Rightarrow> Pending (client_demux_id r)) \<rparr>
   | Err status \<Rightarrow> Err
       (if status = REQUEST_FAILED then SfuClientRequestFailed
        else if status = GROUP_CALL_FULL then GroupCallFull
        else UnexpectedResponseCodeFromSFu status))"

definition join_with_header ::
  "('pc, 'sd) group_env \<Rightarrow> string \<Rightarrow> string \<Rightarrow> string \<Rightarrow> bytes \<Rightarrow> 'pc group_state \<Rightarrow> 'pc group_state" where
  "join_with_header E header ufrag pwd dhe_pub_key s =
     (let c = gs_sfu_client s in
      case join_call (ge_sfu_codec E) (ge_link_prims E) (sfu_url c) (room_id_header c) (sfu_root_key c)
             header (admin_passkey c) ufrag pwd dhe_pub_key (hkdf_extra_info c) of
        Err status \<Rightarrow> gc_send (JoinAttemptCompleted (join_result (hkdf_extra_info c) (Err status))) s
      | Ok request \<Rightarrow> s\<lparr>gs_sfu_client := c\<lparr>http_client := send_http_request request
            (JoinCallback (sfu_member_resolver c) (hkdf_extra_info c)) (http_client c)\<rparr>\<rparr>)"

definition sfu_join ::
  "('pc, 'sd) group_env \<Rightarrow> string \<Rightarrow> string \<Rightarrow> bytes \<Rightarrow> 'pc group_state \<Rightarrow> 'pc group_state" where
  "sfu_join E ufrag pwd dhe_pub_key s = (case auth_header (gs_sfu_client s) of
     Some header \<Rightarrow> join_with_header E header ufrag pwd dhe_pub_key s
   | None \<Rightarrow> s\<lparr>gs_sfu_client := (gs_sfu_client s)\<lparr>deferred_join := Some (ufrag, pwd, dhe_pub_key)\<rparr>\<rparr>)"

definition sfu_set_membership_proof :: "('pc, 'sd) group_env \<Rightarrow> bytes \<Rightarrow> 'pc group_state \<Rightarrow> 'pc group_state" where
  "sfu_set_membership_proof E proof s =
     (case auth_header_from_membership_proof (ge_sfu_codec E) proof of
        None \<Rightarrow> s
      | Some header \<Rightarrow>
          let c = (gs_sfu_client s)\<lparr>auth_header := Some header\<rparr> in
          (case deferred_join c of
             Some (ufrag, pwd, dhe_pub_key) \<Rightarrow>
               join_with_header E header ufrag pwd dhe_pub_key (s\<lparr>gs_sfu_client := c\<lparr>deferred_join := None\<rparr>\<rparr>)
           | None \<Rightarrow> s\<lparr>gs_sfu_client := c\<rparr>))"

text \<open>A response to one of the client's HTTP requests: its callback sends a task to the client's thread.\<close>

definition http_response_received ::
  "('pc, 'sd) group_env \<Rightarrow> 32 word \<Rightarrow> http_response option \<Rightarrow> 'pc group_state \<Rightarrow> 'pc group_state" where
  "http_response_received E request_id response s =
     (case received_response request_id response (http_client (gs_sfu_client s)) of (h, called) \<Rightarrow>
        let s = s\<lparr>gs_sfu_client := (gs_sfu_client s)\<lparr>http_client := h\<rparr>\<rparr> in
        (case called of
           None \<Rightarrow> s
         | Some (PeekCallback R, response) \<Rightarrow>
             gc_send (SetPeekResult (peek_completed (ge_sfu_codec E) (ge_link_prims E) R
               (sfu_root_key (gs_sfu_client s)) response)) s
         | Some (JoinCallback R extra_info, response) \<Rightarrow>
             gc_send (JoinAttemptCompleted (join_result extra_info
               (join_completed (ge_sfu_codec E) R response))) s))"

section \<open>Requests for the devices in the call\<close>

definition should_request_now :: "nat \<Rightarrow> nat \<Rightarrow> remote_devices_request_state \<Rightarrow> bool" where
  "should_request_now now max_age st = (case st of
     WaitingForMembershipProof \<Rightarrow> False
   | NeverRequested \<Rightarrow> True
   | Requested _ request_time \<Rightarrow> request_time + 5000 < now
   | Updated update_time \<Rightarrow> update_time + max_age \<le> now
   | RequestFailed failure_time \<Rightarrow> failure_time + 5000 < now)"

definition maybe_request_remote_devices ::
  "('pc, 'sd) group_env \<Rightarrow> nat \<Rightarrow> nat \<Rightarrow> bool \<Rightarrow> 'pc group_state \<Rightarrow> 'pc group_state" where
  "maybe_request_remote_devices E now max_age rerequest_if_pending s =
     (if should_request_now now max_age (gs_request_state s) then
        (case sfu_peek E (gs_sfu_client s) of (c, refused) \<Rightarrow>
           let s = s\<lparr>gs_sfu_client := c\<rparr>;
               s = (case refused of Some status \<Rightarrow> gc_send (SetPeekResult (Err status)) s | None \<Rightarrow> s)
           in s\<lparr>gs_request_state := Requested False now\<rparr>)
      else if rerequest_if_pending then
        (case gs_request_state s of
           Requested _ at \<Rightarrow> s\<lparr>gs_request_state := Requested True at\<rparr>
         | _ \<Rightarrow> s)
      else s)"

definition request_remote_devices_as_soon_as_possible ::
  "('pc, 'sd) group_env \<Rightarrow> nat \<Rightarrow> 'pc group_state \<Rightarrow> 'pc group_state" where
  "request_remote_devices_as_soon_as_possible E now = maybe_request_remote_devices E now 0 True"

definition request_remote_devices_from_sfu_if_older_than ::
  "('pc, 'sd) group_env \<Rightarrow> nat \<Rightarrow> nat \<Rightarrow> 'pc group_state \<Rightarrow> 'pc group_state" where
  "request_remote_devices_from_sfu_if_older_than E now max_age = maybe_request_remote_devices E now max_age False"

section \<open>Joining, leaving and ending\<close>

definition MEMBERSHIP_PROOF_REQUEST_INTERVAL :: nat where
  "MEMBERSHIP_PROOF_REQUEST_INTERVAL = 24 * 60 * 60 * 1000"

definition CLIENT_END_DELAY :: nat where
  "CLIENT_END_DELAY = 20"

definition set_connection_state_and_notify_observer ::
  "group_connection_state \<Rightarrow> 'pc group_state \<Rightarrow> 'pc group_state" where
  "set_connection_state_and_notify_observer cs s =
     observe (HandleConnectionStateChanged cs) (s\<lparr>gs_connection_state := cs\<rparr>)"

definition set_join_state_and_notify_observer :: "join_state \<Rightarrow> 'pc group_state \<Rightarrow> 'pc group_state" where
  "set_join_state_and_notify_observer js s = observe (HandleJoinStateChanged js) (s\<lparr>gs_join_state := js\<rparr>)"

definition take_busy :: "'pc group_state \<Rightarrow> 'pc group_state \<times> bool" where
  "take_busy s = (if gs_busy s then (s, False) else (s\<lparr>gs_busy := True\<rparr>, True))"

definition gc_release_busy :: "'pc group_state \<Rightarrow> 'pc group_state" where
  "gc_release_busy s = s\<lparr>gs_busy := False\<rparr>"

definition stats_entries :: "(demux_id, decryption_error_stats) fmap \<Rightarrow> (demux_id \<times> decryption_error_stats) list" where
  "stats_entries m = map (\<lambda>d. (d, the (fmlookup m d))) (sorted_list_of_fset (fmdom m))"

definition leave_inner :: "('pc, 'sd) group_env \<Rightarrow> nat \<Rightarrow> 'pc group_state \<Rightarrow> 'pc group_state" where
  "leave_inner E now s =
     (let s = cancel_full_group_ring_if_needed s;
          errors = stats_entries (error_stats (ctx_error_tracker (gs_crypto s)));
          s = (if errors \<noteq> [] then send_decryption_stats_inner E now errors s else s);
          stop_media = with_pc (\<lambda>p. gp_set_incoming_media_enabled (ge_pc E) False
                                      (gp_set_outgoing_media_enabled (ge_pc E) False p))
      in case gs_join_state s of
           NotJoined _ \<Rightarrow> s
         | js \<Rightarrow>
             let s = stop_media s;
                 s = (case local_demux_id js of
                        Some d \<Rightarrow> send_leave_to_sfu E (send_leaving_through_sfu_and_over_signaling E d s)
                      | None \<Rightarrow> s);
                 s = set_join_state_and_notify_observer (NotJoined None) (gc_release_busy s)
             in s\<lparr>next_heartbeat_time := None, next_stats_time := None, next_audio_levels_time := None,
                  next_speaking_audio_levels_time := None, next_membership_proof_request_time := None\<rparr>)"

definition end_call :: "('pc, 'sd) group_env \<Rightarrow> nat \<Rightarrow> call_end_reason \<Rightarrow> 'pc group_state \<Rightarrow> 'pc group_state" where
  "end_call E now reason s =
     (let s = (case gs_join_state s of NotJoined _ \<Rightarrow> s | _ \<Rightarrow> leave_inner E now s)
      in if gs_connection_state s = NotConnected then s
         else gc_send_delayed now CLIENT_END_DELAY (FinishEnd reason) s)"

text \<open>The closure that \<open>end\<close> sends to run after a short delay.\<close>

definition finish_end :: "('pc, 'sd) group_env \<Rightarrow> call_end_reason \<Rightarrow> 'pc group_state \<Rightarrow> 'pc group_state" where
  "finish_end E reason s =
     (let s = with_pc (gp_close (ge_pc E)) s;
          s = set_connection_state_and_notify_observer NotConnected s;
          s = s\<lparr>gs_actor := stop_all_without_joining (gs_actor s)\<rparr>
      in observe (HandleEnded reason) s)"

definition join :: "('pc, 'sd) group_env \<Rightarrow> nat \<Rightarrow> 'pc group_state \<Rightarrow> 'pc group_state" where
  "join E now s = (case gs_join_state s of
     NotJoined ring_id \<Rightarrow> (case take_busy s of
         (s, False) \<Rightarrow> end_call E now call_end_reason.CallManagerIsBusy s
       | (s, True) \<Rightarrow>
           let s = accept_ring_if_needed ring_id (set_join_state_and_notify_observer Joining s);
               s = (if gs_kind s = SignalGroup
                    then (observe RequestMembershipProof s)
                           \<lparr>next_membership_proof_request_time := Some (now + MEMBERSHIP_PROOF_REQUEST_INTERVAL)\<rparr>
                    else s);
               secret = ephemeral_secret E (gs_drawn s);
               s = s\<lparr>gs_drawn := gs_drawn s + 1, gs_dhe_state := WaitingForServerPublicKey secret\<rparr>
           in sfu_join E (gs_ice_ufrag s) (gs_ice_pwd s) (public_key_of E secret) s)
   | _ \<Rightarrow> s)"

section \<open>Sending rates\<close>

definition ALL_ALONE_MAX_SEND_RATE :: data_rate where "ALL_ALONE_MAX_SEND_RATE = from_kbps 1"
definition SMALL_CALL_MAX_SEND_RATE :: data_rate where "SMALL_CALL_MAX_SEND_RATE = from_kbps 1000"
definition LARGE_CALL_MAX_SEND_RATE :: data_rate where "LARGE_CALL_MAX_SEND_RATE = from_kbps 671"
definition SCREENSHARE_MIN_SEND_RATE :: data_rate where "SCREENSHARE_MIN_SEND_RATE = from_kbps 500"
definition SCREENSHARE_START_SEND_RATE :: data_rate where "SCREENSHARE_START_SEND_RATE = from_mbps 1"
definition SCREENSHARE_MAX_SEND_RATE :: data_rate where "SCREENSHARE_MAX_SEND_RATE = from_mbps 2"
definition BWE_INTERVAL :: nat where "BWE_INTERVAL = 1000"

definition compute_send_rates :: "nat \<Rightarrow> bool \<Rightarrow> send_rates" where
  "compute_send_rates joined_member_count sharing =
     (if joined_member_count = 0 then send_rates_default\<lparr>max_rate := Some ALL_ALONE_MAX_SEND_RATE\<rparr>
      else if sharing then
        \<lparr> min_rate = Some SCREENSHARE_MIN_SEND_RATE, start_rate = Some SCREENSHARE_START_SEND_RATE,
          max_rate = Some SCREENSHARE_MAX_SEND_RATE \<rparr>
      else if joined_member_count \<le> 7 then send_rates_default\<lparr>max_rate := Some SMALL_CALL_MAX_SEND_RATE\<rparr>
      else send_rates_default\<lparr>max_rate := Some LARGE_CALL_MAX_SEND_RATE\<rparr>)"

definition set_send_rates_inner ::
  "('pc, 'sd) group_env \<Rightarrow> nat \<Rightarrow> send_rates \<Rightarrow> 'pc group_state \<Rightarrow> 'pc group_state" where
  "set_send_rates_inner E now rates s =
     (let rates = (case gs_send_rates_override s of Some r \<Rightarrow> r | None \<Rightarrow> rates)
      in if gs_send_rates s = rates then s
         else
           let s = (if max_rate rates = Some ALL_ALONE_MAX_SEND_RATE then
                      (let s = with_pc (\<lambda>p. gp_set_audio_playout_enabled (ge_pc E) False
                            (gp_set_outgoing_media_enabled (ge_pc E) False
                              (gp_set_audio_recording_enabled (ge_pc E) False p))) s
                       in case gs_bwe_check s of CheckAt _ \<Rightarrow> s\<lparr>gs_bwe_check := CheckDisabled\<rparr> | _ \<Rightarrow> s)
                    else
                      (let s = with_pc (\<lambda>p. gp_set_audio_recording_enabled (ge_pc E) True
                            (gp_set_outgoing_media_enabled (ge_pc E) True
                              (gp_set_audio_playout_enabled (ge_pc E) True p))) s
                       in if gs_bwe_check s = CheckDisabled
                          then s\<lparr>gs_bwe_check := CheckAt (now + BWE_INTERVAL)\<rparr> else s))
           in (case gp_set_send_rates (ge_pc E) rates (gs_pc s) of
                 (p, Err _) \<Rightarrow> s\<lparr>gs_pc := p\<rparr>
               | (p, Ok _) \<Rightarrow> (observe (HandleSendRatesChanged rates) (s\<lparr>gs_pc := p\<rparr>))\<lparr>gs_send_rates := rates\<rparr>))"

section \<open>Media keys\<close>

definition MEDIA_SEND_KEY_ROTATION_DELAY :: nat where
  "MEDIA_SEND_KEY_ROTATION_DELAY = 5 * 1000"

definition media_key_message :: "group_id \<Rightarrow> demux_id \<Rightarrow> 8 word \<Rightarrow> bytes \<Rightarrow> call_message" where
  "media_key_message group_id d counter secret =
     call_message_default\<lparr>group_call_message := Some (device_to_device_default
       \<lparr>dtd_group_id := Some group_id,
        dtd_media_key := Some \<lparr> mk_ratchet_counter = Some (ucast counter), mk_secret = Some secret,
                                 mk_demux_id = Some d \<rparr>\<rparr>)\<rparr>"

definition send_media_send_key_to_users_over_signaling ::
  "user_id list \<Rightarrow> demux_id \<Rightarrow> 8 word \<Rightarrow> bytes \<Rightarrow> timestamp option \<Rightarrow> 'pc group_state \<Rightarrow> 'pc group_state" where
  "send_media_send_key_to_users_over_signaling recipients d counter secret endorsements_expiration s =
     (if recipients = [] then s
      else
        let message = media_key_message (gs_group_id s) d counter secret in
        case take_self (gs_self_uuid s) recipients of (self, recipients) \<Rightarrow>
          send_to_self message self
            (if gs_kind s = SignalGroup \<and> 1 < length recipients
             then observe (SendSignalingMessageToGroup (gs_group_id s) message Droppable recipients) s
             else case (gs_kind s, gs_endorsements s) of
               (CallLink, Some endorsement_cache) \<Rightarrow>
                 (case get_endorsements_for_users endorsements_expiration recipients endorsement_cache of
                    Some (expiration, found) \<Rightarrow>
                      observe (SendSignalingMessageToAdhocGroup message Droppable expiration found) s
                  | None \<Rightarrow> send_to_each message recipients s)
             | _ \<Rightarrow> send_to_each message recipients s))"

definition users_of :: "remote_device_state list \<Rightarrow> user_id list" where
  "users_of rds = remdups (map rd_user_id rds)"

definition rotate_media_send_key_and_send_to_users_not_removed ::
  "('pc, 'sd) group_env \<Rightarrow> nat \<Rightarrow> timestamp option \<Rightarrow> 'pc group_state \<Rightarrow> 'pc group_state" where
  "rotate_media_send_key_and_send_to_users_not_removed E now endorsements_expiration s = (case gs_rotation s of
     KeyPending secret _ \<Rightarrow> s\<lparr>gs_rotation := KeyPending secret True\<rparr>
   | KeyApplied \<Rightarrow>
       let secret = random_secret E (gs_drawn s);
           s = s\<lparr>gs_drawn := gs_drawn s + 1\<rparr>;
           s = (case local_demux_id (gs_join_state s) of
                  Some d \<Rightarrow> send_media_send_key_to_users_over_signaling (users_of (gs_remote_devices s)) d 0 secret
                              endorsements_expiration s
                | None \<Rightarrow> s)
       in gc_send_delayed now MEDIA_SEND_KEY_ROTATION_DELAY (ApplySendKey secret endorsements_expiration)
            (s\<lparr>gs_rotation := KeyPending secret False\<rparr>))"

text \<open>The closure that applies a new key after the delay.\<close>

definition apply_send_key ::
  "('pc, 'sd) group_env \<Rightarrow> nat \<Rightarrow> bytes \<Rightarrow> timestamp option \<Rightarrow> 'pc group_state \<Rightarrow> 'pc group_state" where
  "apply_send_key E now secret endorsements_expiration s =
     (let another = (case gs_rotation s of KeyPending _ again \<Rightarrow> again | KeyApplied \<Rightarrow> False);
          s = s\<lparr>gs_crypto := reset_send_ratchet (ge_prims E) (gs_crypto s) secret, gs_rotation := KeyApplied\<rparr>
      in if another then rotate_media_send_key_and_send_to_users_not_removed E now endorsements_expiration s
         else s)"

definition advance_media_send_key_and_send_to_users_with_added_devices ::
  "('pc, 'sd) group_env \<Rightarrow> user_id list \<Rightarrow> timestamp option \<Rightarrow> 'pc group_state \<Rightarrow> 'pc group_state" where
  "advance_media_send_key_and_send_to_users_with_added_devices E users endorsements_expiration s =
     (case advance_send_ratchet (ge_prims E) (gs_crypto s) of (ctx, counter, secret) \<Rightarrow>
        let s = s\<lparr>gs_crypto := ctx\<rparr> in
        (case local_demux_id (gs_join_state s) of
           Some d \<Rightarrow> send_media_send_key_to_users_over_signaling users d counter secret endorsements_expiration s
         | None \<Rightarrow> s))"

definition send_pending_media_send_key_to_users_with_added_devices ::
  "user_id list \<Rightarrow> timestamp option \<Rightarrow> 'pc group_state \<Rightarrow> 'pc group_state" where
  "send_pending_media_send_key_to_users_with_added_devices users endorsements_expiration s =
     (case (local_demux_id (gs_join_state s), gs_rotation s) of
        (Some d, KeyPending secret _) \<Rightarrow>
          send_media_send_key_to_users_over_signaling users d 0 secret endorsements_expiration s
      | _ \<Rightarrow> s)"

definition add_media_receive_key_or_store_for_later ::
  "('pc, 'sd) group_env \<Rightarrow> user_id \<Rightarrow> demux_id \<Rightarrow> 8 word \<Rightarrow> bytes \<Rightarrow> 'pc group_state \<Rightarrow> 'pc group_state" where
  "add_media_receive_key_or_store_for_later E user d counter secret s =
     (case find_by_demux_id d (gs_remote_devices s) of
        Some device \<Rightarrow>
          if rd_user_id device = user then
            let s = s\<lparr>gs_crypto := add_receive_secret (ge_prims E) (gs_crypto s) d counter secret,
                      gs_remote_devices := update_device d (\<lambda>rd. rd\<lparr>media_keys_received := True\<rparr>) (gs_remote_devices s)\<rparr>
            in if media_keys_received device then s
               else observe (HandleRemoteDevicesChanged (gs_remote_devices s) (MediaKeyReceived d)) s
          else s
      | None \<Rightarrow>
          let s = (if gs_pending_keys s = [] \<and> gs_kind s = SignalGroup then observe RequestGroupMembers s else s)
          in s\<lparr>gs_pending_keys := gs_pending_keys s @ [(user, d, counter, secret)]\<rparr>)"

end
