(* ===== verification/Group_Peek.thy ===== *)
theory Group_Peek
  imports Group_Client
begin

text \<open>
  How a group call client learns who is in the call and how it enters it (\<open>core/group_call.rs\<close>): the
  descriptions it sets on its peer connection, the processing of peek results with the changes of
  devices, transceivers and media keys that follow, and the completion of an attempt to join.
\<close>

section \<open>The peer connection\<close>

definition pc_then ::
  "('pc \<Rightarrow> 'pc \<times> (unit, ringrtc_error) result) \<Rightarrow> 'pc \<times> (unit, ringrtc_error) result
   \<Rightarrow> 'pc \<times> (unit, ringrtc_error) result" where
  "pc_then f r = (case r of (p, Ok _) \<Rightarrow> f p | (p, Err e) \<Rightarrow> (p, Err e))"

text \<open>\<open>observer.get_result()\<close> returns what WebRTC reports for the operation before it.\<close>

definition set_peer_connection_descriptions ::
  "('pc, 'sd) group_env \<Rightarrow> sfu_info \<Rightarrow> demux_id \<Rightarrow> srtp_keys \<Rightarrow> 'pc group_state
   \<Rightarrow> 'pc group_state \<times> (unit, ringrtc_error) result" where
  "set_peer_connection_descriptions E info d keys s =
     (let remote_demux_ids = map (\<lambda>i. case i of Some i \<Rightarrow> i | None \<Rightarrow> 0) (gs_transceivers s);
          set_local = (\<lambda>p. case gp_local_description (ge_pc E) (gs_ice_ufrag s) (gs_ice_pwd s)
                                  (client_key keys) d remote_demux_ids of
             None \<Rightarrow> (p, Err MungeSdp) | Some sd \<Rightarrow> gp_set_local_description (ge_pc E) sd p);
          set_remote = (\<lambda>p. case gp_remote_description (ge_pc E) (sfu_ice_ufrag info) (sfu_ice_pwd info)
                                  (server_key keys) d remote_demux_ids of
             None \<Rightarrow> (p, Err MungeSdp) | Some sd \<Rightarrow> gp_set_remote_description (ge_pc E) sd p)
      in case pc_then set_remote (pc_then set_local (pc_then (gp_create_offer (ge_pc E))
                (gp_update_transceivers (ge_pc E) remote_demux_ids (gs_pc s)))) of
           (p, r) \<Rightarrow> (s\<lparr>gs_pc := p\<rparr>, r))"

text \<open>The candidates of the SFU, in the order they are added: UDP, TCP, and TLS where it has a name.\<close>

definition server_candidates :: "sfu_info \<Rightarrow> (socket_addr \<times> server_protocol) list" where
  "server_candidates info =
     map (\<lambda>a. (a, ServerUdp)) (udp_addresses info) @ map (\<lambda>a. (a, ServerTcp)) (tcp_addresses info)
     @ (case sfu_hostname info of
          Some hostname \<Rightarrow> map (\<lambda>a. (a, ServerTls hostname)) (tls_addresses info)
        | None \<Rightarrow> [])"

fun add_server_candidates ::
  "('pc, 'sd) group_env \<Rightarrow> (socket_addr \<times> server_protocol) list \<Rightarrow> 'pc \<Rightarrow> 'pc \<times> (unit, ringrtc_error) result" where
  "add_server_candidates E [] p = (p, Ok ())"
| "add_server_candidates E ((SocketAddr ip port, protocol) # cs) p =
     pc_then (add_server_candidates E cs) (gp_add_ice_candidate_from_server (ge_pc E) ip port protocol p)"

definition start_peer_connection ::
  "('pc, 'sd) group_env \<Rightarrow> sfu_info \<Rightarrow> demux_id \<Rightarrow> srtp_keys \<Rightarrow> 'pc group_state
   \<Rightarrow> 'pc group_state \<times> (unit, ringrtc_error) result" where
  "start_peer_connection E info d keys s = (case set_peer_connection_descriptions E info d keys s of
     (s, Err e) \<Rightarrow> (s, Err e)
   | (s, Ok _) \<Rightarrow> (case add_server_candidates E (server_candidates info) (gs_pc s) of
       (p, Err e) \<Rightarrow> (s\<lparr>gs_pc := p\<rparr>, Err e)
     | (p, Ok _) \<Rightarrow> (s\<lparr>gs_pc := fst (gp_receive_rtp (ge_pc E) RTP_DATA_PAYLOAD_TYPE True p)\<rparr>, Ok ())))"

definition on_client_joined :: "('pc, 'sd) group_env \<Rightarrow> 'pc group_state \<Rightarrow> 'pc group_state" where
  "on_client_joined E s =
     (case configure_dred_from_assets (ge_call_sim E) (gs_assets s)
             (audio_encoder_config_default\<lparr>dred_duration := gs_dred_duration s\<rparr>, audio_decoder_config_default) of
        (enc, dec) \<Rightarrow> with_pc (\<lambda>p. gp_configure_audio_decoders (ge_pc E) dec
                                    (gp_configure_audio_encoders (ge_pc E) enc p)) s)"

section \<open>Peek results\<close>

text \<open>
  The list of remote devices is built anew. A device keeps its state when its id was known with
  the same user; the old states are in a map from which each is removed when it is met.
\<close>

definition device_map :: "remote_device_state list \<Rightarrow> demux_id \<Rightarrow> remote_device_state option" where
  "device_map rds = fold (\<lambda>rd m. m(rd_demux_id rd \<mapsto> rd)) rds Map.empty"

fun rebuild_devices ::
  "demux_id \<Rightarrow> nat \<Rightarrow> (demux_id \<Rightarrow> remote_device_state option) \<Rightarrow> peek_device_info list \<Rightarrow> remote_device_state list" where
  "rebuild_devices d now old [] = []"
| "rebuild_devices d now old (dev # devs) =
     (if peek_demux_id dev = d then rebuild_devices d now old devs
      else case peek_user_id dev of
        None \<Rightarrow> rebuild_devices d now old devs
      | Some user \<Rightarrow>
          (case old (peek_demux_id dev) of
             Some rd \<Rightarrow> if rd_user_id rd = user then rd else remote_device_state_new (peek_demux_id dev) user now
           | None \<Rightarrow> remote_device_state_new (peek_demux_id dev) user now)
          # rebuild_devices d now (old(peek_demux_id dev := None)) devs)"

text \<open>A transceiver whose device has gone is free; added devices take the free ones first.\<close>

definition gone :: "demux_id list \<Rightarrow> demux_id option \<Rightarrow> bool" where
  "gone new_ids slot = (case slot of Some i \<Rightarrow> i \<notin> set new_ids | None \<Rightarrow> False)"

fun fill_transceivers :: "demux_id list \<Rightarrow> demux_id option list \<Rightarrow> demux_id list \<Rightarrow> demux_id option list" where
  "fill_transceivers new_ids [] added = map Some added"
| "fill_transceivers new_ids (slot # slots) added =
     (if slot = None \<or> gone new_ids slot then
        (case added of
           [] \<Rightarrow> None # fill_transceivers new_ids slots []
         | a # added \<Rightarrow> Some a # fill_transceivers new_ids slots added)
      else slot # fill_transceivers new_ids slots added)"

definition update_remote_transceivers ::
  "('pc, 'sd) group_env \<Rightarrow> demux_id \<Rightarrow> srtp_keys \<Rightarrow> demux_id list \<Rightarrow> demux_id list \<Rightarrow> 'pc group_state
   \<Rightarrow> 'pc group_state \<times> (unit, ringrtc_error) result" where
  "update_remote_transceivers E d keys new_ids added s = (case gs_sfu_info s of
     None \<Rightarrow> (s, Ok ())
   | Some info \<Rightarrow>
       let removed = list_ex (gone new_ids) (gs_transceivers s);
           s = s\<lparr>gs_transceivers := map (\<lambda>slot. if gone new_ids slot then None else slot) (gs_transceivers s)\<rparr>
       in (case (if removed then set_peer_connection_descriptions E info d keys s else (s, Ok ())) of
             (s, Err e) \<Rightarrow> (s, Err e)
           | (s, Ok _) \<Rightarrow>
               if added = [] then (s, Ok ())
               else set_peer_connection_descriptions E info d keys
                      (s\<lparr>gs_transceivers := fill_transceivers new_ids (gs_transceivers s) added\<rparr>)))"

definition pending_signature :: "('pc, 'sd) group_env \<Rightarrow> peek_info \<Rightarrow> 64 word" where
  "pending_signature E info =
     fold (\<lambda>u a. a + hash_user E u) (unique_pending_users info) (of_nat (length (pending_devices info)))"

text \<open>The keys that follow a change of the devices: for the users of new devices, and after users have gone.\<close>

definition update_media_keys ::
  "('pc, 'sd) group_env \<Rightarrow> nat \<Rightarrow> timestamp option \<Rightarrow> demux_id list \<Rightarrow> bool \<Rightarrow> 'pc group_state \<Rightarrow> 'pc group_state" where
  "update_media_keys E now expiration added user_removed s =
     (let users = users_of (filter (\<lambda>rd. rd_demux_id rd \<in> set added) (gs_remote_devices s));
          s = (if users \<noteq> [] then
                 send_pending_media_send_key_to_users_with_added_devices users expiration
                   (advance_media_send_key_and_send_to_users_with_added_devices E users expiration s)
               else s);
          s = (if user_removed then rotate_media_send_key_and_send_to_users_not_removed E now expiration s else s);
          pending = gs_pending_keys s
      in fold (\<lambda>(user, d, counter, secret). add_media_receive_key_or_store_for_later E user d counter secret)
           pending (s\<lparr>gs_pending_keys := []\<rparr>))"

text \<open>
  What a client that is in the call, or waits for approval, does with a peek result, once its
  transceivers are set; before that, an error ends the call and the processing.
\<close>

definition follow_participants ::
  "('pc, 'sd) group_env \<Rightarrow> nat \<Rightarrow> timestamp option \<Rightarrow> demux_id \<Rightarrow> bool \<Rightarrow> demux_id list \<Rightarrow> demux_id list \<Rightarrow> bool \<Rightarrow> bool
   \<Rightarrow> 'pc group_state \<Rightarrow> 'pc group_state" where
  "follow_participants E now expiration d participant new_ids added changed user_removed s =
     (let s = (if changed then observe (HandleRemoteDevicesChanged (gs_remote_devices s) DemuxIdsChanged) s else s);
          s = (case gs_join_state s of
                 Pending _ \<Rightarrow> if participant
                   then on_client_joined E (set_join_state_and_notify_observer (Joined d) s) else s
               | _ \<Rightarrow> s);
          s = update_media_keys E now expiration added user_removed s;
          s = (if participant then set_send_rates_inner E now (compute_send_rates (length new_ids)
                 (hb_sharing_screen (gs_outgoing_heartbeat s) = Some True)) s else s)
      in case gs_ring_state s of
           HasSentRing _ \<Rightarrow> if new_ids \<noteq> [] then s\<lparr>gs_ring_state := NotPermittedToRing\<rparr> else s
         | _ \<Rightarrow> s)"

definition update_participants ::
  "('pc, 'sd) group_env \<Rightarrow> nat \<Rightarrow> timestamp option \<Rightarrow> demux_id \<Rightarrow> srtp_keys \<Rightarrow> bool \<Rightarrow> peek_info
   \<Rightarrow> 'pc group_state \<Rightarrow> 'pc group_state \<times> bool" where
  "update_participants E now expiration d keys user_removed info s =
     (let old_ids = demux_id_set (gs_remote_devices s);
          participant = list_ex (\<lambda>dev. peek_demux_id dev = d) (devices info);
          s = s\<lparr>gs_remote_devices := rebuild_devices d now (device_map (gs_remote_devices s)) (devices info)\<rparr>;
          new_ids = demux_id_set (gs_remote_devices s);
          added = filter (\<lambda>i. i \<notin> set old_ids) new_ids;
          changed = (set old_ids \<noteq> set new_ids)
      in case (if changed then update_remote_transceivers E d keys new_ids added s else (s, Ok ())) of
           (s, Err _) \<Rightarrow> (end_call E now FailedToUpdatePeerConnection s, False)
         | (s, Ok _) \<Rightarrow>
             (follow_participants E now expiration d participant new_ids added changed user_removed s, True))"

definition set_peek_result_inner ::
  "('pc, 'sd) group_env \<Rightarrow> nat \<Rightarrow> (peek_info, response_status) result \<Rightarrow> timestamp option
   \<Rightarrow> 'pc group_state \<Rightarrow> 'pc group_state" where
  "set_peek_result_inner E now result expiration s = (case result of
     Err _ \<Rightarrow> s\<lparr>gs_request_state := RequestFailed now\<rparr>
   | Ok info \<Rightarrow>
       let is_first = (gs_last_peek_info s = None);
           again = (case gs_request_state s of Requested again _ \<Rightarrow> again | _ \<Rightarrow> False);
           old_users = gs_joined_members s;
           new_users = unique_users info;
           signature = pending_signature E info;
           old_era_id = Option.bind (gs_last_peek_info s) peek_era_id;
           s = s\<lparr>gs_request_state := Updated now, gs_joined_members := []\<rparr>;
           s = (if is_first \<or> set old_users \<noteq> set new_users \<or> old_era_id \<noteq> peek_era_id info
                   \<or> gs_pending_users_signature s \<noteq> signature
                then observe (HandlePeekChanged info new_users) s else s);
           processed = (case (local_demux_id (gs_join_state s), gs_dhe_state s) of
                (Some d, Negotiated keys) \<Rightarrow>
                  update_participants E now expiration d keys (list_ex (\<lambda>u. u \<notin> set new_users) old_users) info s
              | _ \<Rightarrow> (s, True))
       in (case processed of
             (s, False) \<Rightarrow> s
           | (s, True) \<Rightarrow>
               let s = s\<lparr>gs_last_peek_info := Some info, gs_joined_members := new_users,
                         gs_pending_users_signature := signature\<rparr>
               in if again then request_remote_devices_as_soon_as_possible E now s else s))"

section \<open>The end of an attempt to join\<close>

definition STATS_INITIAL_OFFSET :: nat where "STATS_INITIAL_OFFSET = 2 * 1000"
definition DECRYPTION_ERROR_INTERVAL :: nat where "DECRYPTION_ERROR_INTERVAL = 500"

text \<open>The first \<open>match\<close> of \<open>on_sfu_client_join_success\<close>; \<open>False\<close> is its early return.\<close>

definition connect_to_sfu ::
  "('pc, 'sd) group_env \<Rightarrow> nat \<Rightarrow> joined_info \<Rightarrow> 'pc group_state \<Rightarrow> 'pc group_state \<times> bool" where
  "connect_to_sfu E now joined s = (case gs_connection_state s of
     Connecting \<Rightarrow>
       let dhe = negotiate (diffie_hellman E) (srtp_hkdf E) (joined_server_dhe_pub_key joined)
                   (joined_hkdf_extra_info joined) (gs_dhe_state s);
           s = s\<lparr>gs_dhe_state := dhe\<rparr>
       in (case dhe of
             Negotiated keys \<Rightarrow>
               (case start_peer_connection E (joined_sfu_info joined) (joined_local_demux_id joined) keys s of
                  (s, Err _) \<Rightarrow> (end_call E now FailedToStartPeerConnection s, False)
                | (s, Ok _) \<Rightarrow>
                    let s = set_send_rates_inner E now
                              (send_rates_default\<lparr>max_rate := Some ALL_ALONE_MAX_SEND_RATE\<rparr>) s
                    in (s\<lparr>gs_sfu_info := Some (joined_sfu_info joined)\<rparr>, True))
           | _ \<Rightarrow> (end_call E now FailedToNegotiatedSrtpKeys s, False))
   | _ \<Rightarrow> (s, True))"

definition update_ring_state ::
  "('pc, 'sd) group_env \<Rightarrow> joined_info \<Rightarrow> 'pc group_state \<Rightarrow> 'pc group_state" where
  "update_ring_state E joined s =
     (if joined_creator joined = None then s
      else
        let previous = gs_ring_state s;
            s = s\<lparr>gs_ring_state :=
                   (if joined_creator joined = gs_self_uuid s
                    then PermittedToRing (from_era_id (sha256 E) (joined_era_id joined)) else NotPermittedToRing)\<rparr>
        in case previous of WantsToRing recipient \<Rightarrow> ring_inner recipient s | _ \<Rightarrow> s)"

definition is_joined :: "join_state \<Rightarrow> bool" where
  "is_joined js = (case js of Joined _ \<Rightarrow> True | _ \<Rightarrow> False)"

text \<open>The second \<open>match\<close>, when the client was joining.\<close>

definition complete_join ::
  "('pc, 'sd) group_env \<Rightarrow> nat \<Rightarrow> joined_info \<Rightarrow> 'pc group_state \<Rightarrow> 'pc group_state" where
  "complete_join E now joined s =
     (let s = request_remote_devices_as_soon_as_possible E now s;
          s = s\<lparr>gs_join_state := joined_join_state joined\<rparr>;
          s = (case gs_last_peek_info s of
                 None \<Rightarrow> s
               | Some info \<Rightarrow>
                   let s = set_peek_result_inner E now (Ok info) None s
                   in if gs_remote_devices s = []
                      then observe (HandleRemoteDevicesChanged (gs_remote_devices s) DemuxIdsChanged) s else s);
          s = observe (HandleJoinStateChanged (gs_join_state s)) s;
          s = (if is_joined (joined_join_state joined) \<and> is_joined (gs_join_state s) then on_client_joined E s else s);
          s = update_ring_state E joined s
      in s\<lparr>next_stats_time := Some (now + STATS_INITIAL_OFFSET),
           next_decryption_error_time := Some (now + DECRYPTION_ERROR_INTERVAL)\<rparr>)"

definition on_sfu_client_join_success ::
  "('pc, 'sd) group_env \<Rightarrow> nat \<Rightarrow> joined_info \<Rightarrow> 'pc group_state \<Rightarrow> 'pc group_state" where
  "on_sfu_client_join_success E now joined s = (case connect_to_sfu E now joined s of
     (s, False) \<Rightarrow> s
   | (s, True) \<Rightarrow> if gs_join_state s = Joining then complete_join E now joined s else s)"

definition on_sfu_client_join_failure ::
  "('pc, 'sd) group_env \<Rightarrow> nat \<Rightarrow> ringrtc_error \<Rightarrow> 'pc group_state \<Rightarrow> 'pc group_state" where
  "on_sfu_client_join_failure E now err s =
     end_call E now (if err = GroupCallFull then HasMaxDevices else SfuClientFailedToJoin) s"

definition on_sfu_client_join_attempt_completed ::
  "('pc, 'sd) group_env \<Rightarrow> nat \<Rightarrow> (joined_info, ringrtc_error) result \<Rightarrow> 'pc group_state \<Rightarrow> 'pc group_state" where
  "on_sfu_client_join_attempt_completed E now outcome s = (case outcome of
     Ok joined \<Rightarrow> on_sfu_client_join_success E now joined s
   | Err err \<Rightarrow> on_sfu_client_join_failure E now err s)"

end
