(* ===== verification/Group_Handlers.thy ===== *)
theory Group_Handlers
  imports Group_Peek
begin

text \<open>
  What a group call client does on behalf of the application, of the clock, and with what it receives
  (\<open>core/group_call.rs\<close>). The functions with the names of the code's methods are the closures that
  these send to the client's thread; the methods themselves are in \<open>Group_Run\<close>. System time and the
  monotonic clock are one clock, in milliseconds.
\<close>

section \<open>Requests of the application\<close>

definition provide_ring_id_if_absent :: "ring_id \<Rightarrow> 'pc group_state \<Rightarrow> 'pc group_state" where
  "provide_ring_id_if_absent ring_id s = (case gs_join_state s of
     NotJoined None \<Rightarrow> s\<lparr>gs_join_state := NotJoined (Some ring_id)\<rparr>
   | _ \<Rightarrow> s)"

definition override_send_rates :: "('pc, 'sd) group_env \<Rightarrow> nat \<Rightarrow> send_rates \<Rightarrow> 'pc group_state \<Rightarrow> 'pc group_state" where
  "override_send_rates E now rates s = set_send_rates_inner E now rates (s\<lparr>gs_send_rates_override := Some rates\<rparr>)"

definition set_outgoing_audio_muted_inner ::
  "('pc, 'sd) group_env \<Rightarrow> bool \<Rightarrow> demux_id option \<Rightarrow> 'pc group_state \<Rightarrow> 'pc group_state" where
  "set_outgoing_audio_muted_inner E muted muted_by s =
     (let hb = gs_outgoing_heartbeat s;
          hb = (if \<not> muted then hb\<lparr>hb_muted_by_demux_id := None\<rparr>
                else if hb_audio_muted hb = Some True then hb
                else hb\<lparr>hb_muted_by_demux_id := muted_by\<rparr>)
      in fst (send_heartbeat E (s\<lparr>gs_outgoing_heartbeat := hb\<lparr>hb_audio_muted := Some muted\<rparr>\<rparr>)))"

definition send_remote_mute_request ::
  "('pc, 'sd) group_env \<Rightarrow> demux_id \<Rightarrow> 'pc group_state \<Rightarrow> 'pc group_state" where
  "send_remote_mute_request E target s =
     (let msg = encode_device_to_device E
            (device_to_device_default\<lparr>dtd_remote_mute_request := Some \<lparr> target_demux_id = Some target \<rparr>\<rparr>)
      in case local_demux_id (gs_join_state s) of
           None \<Rightarrow> fst (broadcast_data_through_sfu E msg s)
         | Some ours \<Rightarrow>
             if ours = target then s
             else fst (broadcast_data_through_sfu E msg
               (s\<lparr>gs_remote_devices := update_device target
                    (\<lambda>rd. if hb_audio_muted (rd_heartbeat_state rd) = Some False
                          then rd\<lparr>remote_mute_requesters := List.insert ours (remote_mute_requesters rd)\<rparr> else rd)
                    (gs_remote_devices s)\<rparr>)))"

definition set_outgoing_video_muted :: "('pc, 'sd) group_env \<Rightarrow> bool \<Rightarrow> 'pc group_state \<Rightarrow> 'pc group_state" where
  "set_outgoing_video_muted E muted s =
     fst (send_heartbeat E (s\<lparr>gs_outgoing_heartbeat := (gs_outgoing_heartbeat s)\<lparr>hb_video_muted := Some muted\<rparr>\<rparr>))"

definition set_presenting :: "('pc, 'sd) group_env \<Rightarrow> bool \<Rightarrow> 'pc group_state \<Rightarrow> 'pc group_state" where
  "set_presenting E presenting s =
     fst (send_heartbeat E (s\<lparr>gs_outgoing_heartbeat := (gs_outgoing_heartbeat s)\<lparr>hb_presenting := Some presenting\<rparr>\<rparr>))"

definition set_sharing_screen :: "('pc, 'sd) group_env \<Rightarrow> nat \<Rightarrow> bool \<Rightarrow> 'pc group_state \<Rightarrow> 'pc group_state" where
  "set_sharing_screen E now sharing s =
     (let s = fst (send_heartbeat E
                (s\<lparr>gs_outgoing_heartbeat := (gs_outgoing_heartbeat s)\<lparr>hb_sharing_screen := Some sharing\<rparr>\<rparr>))
      in set_send_rates_inner E now (compute_send_rates (length (gs_remote_devices s)) sharing) s)"

definition resend_media_keys :: "'pc group_state \<Rightarrow> 'pc group_state" where
  "resend_media_keys s = (case local_demux_id (gs_join_state s) of
     None \<Rightarrow> s
   | Some d \<Rightarrow> (case send_state (gs_crypto s) of (counter, secret) \<Rightarrow>
       send_media_send_key_to_users_over_signaling (users_of (gs_remote_devices s)) d counter secret None s))"

definition LOW_MAX_RECEIVE_RATE :: data_rate where "LOW_MAX_RECEIVE_RATE = from_kbps 500"
definition NORMAL_MAX_RECEIVE_RATE :: data_rate where "NORMAL_MAX_RECEIVE_RATE = from_mbps 20"

text \<open>The SFU knows only landscape video, hence the smaller of the two dimensions.\<close>

definition send_video_requests_to_sfu :: "('pc, 'sd) group_env \<Rightarrow> 'pc group_state \<Rightarrow> 'pc group_state" where
  "send_video_requests_to_sfu E s = (case gs_video_requests s of
     None \<Rightarrow> s
   | Some requests \<Rightarrow>
       let known = List.map_filter (\<lambda>r. map_option
             (\<lambda>device. (rd_demux_id device, ucast (min (vr_height r) (vr_width r))))
             (find_by_demux_id (vr_demux_id r) (gs_remote_devices s))) requests
       in fst (unreliable_send_data_to_sfu E (encode_device_to_sfu E
            (device_to_sfu_default\<lparr>dts_video_request := Some
               \<lparr> vrm_requests = known,
                 vrm_max_kbps = map_option (\<lambda>rate. ucast (as_kbps rate)) (gs_max_receive_rate s),
                 vrm_active_speaker_height = map_option ucast (gs_active_speaker_height s) \<rparr>\<rparr>)) s))"

definition send_video_requests_on_demand :: "('pc, 'sd) group_env \<Rightarrow> 'pc group_state \<Rightarrow> 'pc group_state" where
  "send_video_requests_on_demand E s =
     (if gs_on_demand_sent s then s else (send_video_requests_to_sfu E s)\<lparr>gs_on_demand_sent := True\<rparr>)"

definition gc_set_data_mode :: "('pc, 'sd) group_env \<Rightarrow> data_mode \<Rightarrow> 'pc group_state \<Rightarrow> 'pc group_state" where
  "gc_set_data_mode E mode s = send_video_requests_on_demand E
     (s\<lparr>gs_max_receive_rate := Some (case mode of
            Low \<Rightarrow> LOW_MAX_RECEIVE_RATE | data_mode.Normal \<Rightarrow> NORMAL_MAX_RECEIVE_RATE | Custom _ rate \<Rightarrow> rate),
        gs_data_mode := mode\<rparr>)"

definition request_video ::
  "('pc, 'sd) group_env \<Rightarrow> video_request list \<Rightarrow> 16 word \<Rightarrow> 'pc group_state \<Rightarrow> 'pc group_state" where
  "request_video E requests height s = send_video_requests_on_demand E
     (s\<lparr>gs_video_requests := Some requests, gs_active_speaker_height := Some height\<rparr>)"

definition send_admin_action ::
  "('pc, 'sd) group_env \<Rightarrow> nat \<Rightarrow> admin_action \<Rightarrow> 'pc group_state \<Rightarrow> 'pc group_state" where
  "send_admin_action E now action s =
     fst (reliable_send_device_to_sfu E now (device_to_sfu_default\<lparr>dts_admin_action := Some action\<rparr>) s)"

text \<open>The SFU knows a pending user by the demux id of one of its devices.\<close>

definition approve_or_deny_user ::
  "('pc, 'sd) group_env \<Rightarrow> nat \<Rightarrow> user_id \<Rightarrow> bool \<Rightarrow> 'pc group_state \<Rightarrow> 'pc group_state" where
  "approve_or_deny_user E now user approved s = (case gs_last_peek_info s of
     None \<Rightarrow> s
   | Some info \<Rightarrow> (case find (\<lambda>dev. peek_user_id dev = Some user) (pending_devices info) of
       Some dev \<Rightarrow> send_admin_action E now
         (if approved then Approve (peek_demux_id dev) else Deny (peek_demux_id dev)) s
     | None \<Rightarrow> s))"

definition set_group_members ::
  "('pc, 'sd) group_env \<Rightarrow> nat \<Rightarrow> group_member list \<Rightarrow> 'pc group_state \<Rightarrow> 'pc group_state" where
  "set_group_members E now members s =
     (let new_members = remdups (map member_user_id members);
          R = member_map_resolver (member_map_new (sha256 E) members)
      in if set new_members = set (gs_known_members s) then s
         else request_remote_devices_as_soon_as_possible E now
           (s\<lparr>gs_known_members := new_members,
              gs_resolver := (gs_resolver s)\<lparr>or_member_resolver := R\<rparr>,
              gs_sfu_client := (gs_sfu_client s)\<lparr>sfu_member_resolver := R\<rparr>\<rparr>))"

definition set_membership_proof ::
  "('pc, 'sd) group_env \<Rightarrow> nat \<Rightarrow> bytes \<Rightarrow> 'pc group_state \<Rightarrow> 'pc group_state" where
  "set_membership_proof E now proof s =
     (let s = sfu_set_membership_proof E proof s
      in if gs_request_state s = WaitingForMembershipProof
         then request_remote_devices_as_soon_as_possible E now (s\<lparr>gs_request_state := NeverRequested\<rparr>)
         else s)"

text \<open>The sequence number wraps, as in a release build.\<close>

definition raise_hand :: "('pc, 'sd) group_env \<Rightarrow> bool \<Rightarrow> 'pc group_state \<Rightarrow> 'pc group_state" where
  "raise_hand E raise s = send_raise_hand E
     (s\<lparr>gs_raise_hand := \<lparr> rh_seqnum = rh_seqnum (gs_raise_hand s) + 1, rh_raise = raise, rh_outstanding = True \<rparr>\<rparr>)"

definition DEFAULT_STATS_INTERVAL :: nat where "DEFAULT_STATS_INTERVAL = 10 * 1000"

text \<open>An instant before the start of the clock is due at once, as is 0.\<close>

definition set_rtc_stats_interval :: "('pc, 'sd) group_env \<Rightarrow> nat \<Rightarrow> 'pc group_state \<Rightarrow> 'pc group_state" where
  "set_rtc_stats_interval E interval s =
     (let s = with_pc (gp_set_collect_raw_stats_report (ge_pc E) (interval \<noteq> 0)) s;
          old = get_stats_interval s;
          new = (if interval = 0 then DEFAULT_STATS_INTERVAL else interval)
      in s\<lparr>get_stats_interval := new, next_stats_time := map_option (\<lambda>t. t + new - old) (next_stats_time s)\<rparr>)"

section \<open>The clock\<close>

definition HEARTBEAT_INTERVAL :: nat where "HEARTBEAT_INTERVAL = 1000"
definition TICK_INTERVAL :: nat where "TICK_INTERVAL = 200"
definition SPEAKING_POLL_INTERVAL :: nat where "SPEAKING_POLL_INTERVAL = 200"
definition STOPPED_SPEAKING_DURATION :: nat where "STOPPED_SPEAKING_DURATION = 3 * 1000"
definition MIN_SPEAKING_HAND_LOWER :: nat where "MIN_SPEAKING_HAND_LOWER = 5 * 1000"
definition MIN_NON_SILENT_LEVEL :: "16 word" where "MIN_NON_SILENT_LEVEL = 1000"
definition RAISE_HAND_INTERVAL :: nat where "RAISE_HAND_INTERVAL = 500"
definition DELAYED_BWE_CHECK :: nat where "DELAYED_BWE_CHECK = 10 * 1000"
definition DELAY_FOR_RECOVERED_BWE_CALLBACK :: nat where "DELAY_FOR_RECOVERED_BWE_CALLBACK = 6 * 1000"
definition BWE_THRESHOLD_FOR_LOW_NOTIFICATION :: data_rate where
  "BWE_THRESHOLD_FOR_LOW_NOTIFICATION = from_kbps 70"
definition BWE_THRESHOLD_FOR_RECOVERED_NOTIFICATION :: data_rate where
  "BWE_THRESHOLD_FOR_RECOVERED_NOTIFICATION = from_kbps 80"

definition due :: "nat \<Rightarrow> nat option \<Rightarrow> bool" where
  "due now time = (case time of Some t \<Rightarrow> t \<le> now | None \<Rightarrow> False)"

definition tick_heartbeat :: "('pc, 'sd) group_env \<Rightarrow> nat \<Rightarrow> 'pc group_state \<Rightarrow> 'pc group_state" where
  "tick_heartbeat E now s =
     (if due now (next_heartbeat_time s)
      then (send_video_requests_to_sfu E (fst (send_heartbeat E s)))
             \<lparr>gs_on_demand_sent := False, next_heartbeat_time := Some (now + HEARTBEAT_INTERVAL)\<rparr>
      else s)"

definition tick_stats :: "('pc, 'sd) group_env \<Rightarrow> nat \<Rightarrow> 'pc group_state \<Rightarrow> 'pc group_state" where
  "tick_stats E now s =
     (if next_stats_time s = None then s
      else
        let s = (if due now (next_stats_time s)
                 then (with_pc (gp_get_stats (ge_pc E)) s)\<lparr>next_stats_time := Some (now + get_stats_interval s)\<rparr>
                 else s)
        in case gp_take_stats_report (ge_pc E) (gs_pc s) of
             (p, None) \<Rightarrow> s\<lparr>gs_pc := p\<rparr>
           | (p, Some report) \<Rightarrow> observe (HandleRtcStatsReport report) (s\<lparr>gs_pc := p\<rparr>))"

definition tick_decryption_errors :: "('pc, 'sd) group_env \<Rightarrow> nat \<Rightarrow> 'pc group_state \<Rightarrow> 'pc group_state" where
  "tick_decryption_errors E now s =
     (if due now (next_decryption_error_time s) then
        (case get_error_report now (gs_crypto s) of (ctx, report) \<Rightarrow>
           let s = s\<lparr>gs_crypto := ctx\<rparr>;
               s = (case report of
                      Some errors \<Rightarrow> send_decryption_stats_inner E now (stats_entries errors) s
                    | None \<Rightarrow> s)
           in s\<lparr>next_decryption_error_time := Some (now + DECRYPTION_ERROR_INTERVAL)\<rparr>)
      else s)"

text \<open>How long the user has been speaking and silent, and what follows.\<close>

definition tick_speaking :: "('pc, 'sd) group_env \<Rightarrow> nat \<Rightarrow> 'pc group_state \<Rightarrow> 'pc group_state" where
  "tick_speaking E now s =
     (if \<not> due now (next_speaking_audio_levels_time s) then s
      else
        let level = fst (gp_get_audio_levels (ge_pc E) (gs_pc s));
            speaking = (MIN_NON_SILENT_LEVEL < level
              \<and> hb_audio_muted (gs_outgoing_heartbeat s) = Some False);
            silence = (if speaking then None
                       else Some (case silence_started s of Some t \<Rightarrow> t | None \<Rightarrow> now));
            time_silent = (case silence of Some start \<Rightarrow> now - start | None \<Rightarrow> 0);
            started = (if speaking then Some (case started_speaking s of Some t \<Rightarrow> t | None \<Rightarrow> now)
                       else if STOPPED_SPEAKING_DURATION \<le> time_silent then None else started_speaking s);
            time_speaking = (now - (case started of Some t \<Rightarrow> t | None \<Rightarrow> now)) - time_silent;
            event = (if MIN_SPEAKING_HAND_LOWER \<le> time_speaking then Some LowerHandSuggestion
                     else if time_speaking = 0 \<and> last_speaking_notification s \<noteq> None then Some StoppedSpeaking
                     else None);
            s = s\<lparr>silence_started := silence, started_speaking := started\<rparr>;
            s = (case event of
                   Some e \<Rightarrow> if last_speaking_notification s = event then s
                     else (observe (HandleSpeakingNotification e) s)\<lparr>last_speaking_notification := Some e\<rparr>
                 | None \<Rightarrow> s)
        in s\<lparr>next_speaking_audio_levels_time := Some (now + SPEAKING_POLL_INTERVAL)\<rparr>)"

definition tick_audio_levels :: "('pc, 'sd) group_env \<Rightarrow> nat \<Rightarrow> 'pc group_state \<Rightarrow> 'pc group_state" where
  "tick_audio_levels E now s = (case audio_levels_interval s of
     Some interval \<Rightarrow>
       if due now (next_audio_levels_time s) then
         (case gp_get_audio_levels (ge_pc E) (gs_pc s) of (captured, received) \<Rightarrow>
            (observe (HandleAudioLevels captured received) s)\<lparr>next_audio_levels_time := Some (now + interval)\<rparr>)
       else s
   | None \<Rightarrow> s)"

definition tick_membership_proof :: "nat \<Rightarrow> 'pc group_state \<Rightarrow> 'pc group_state" where
  "tick_membership_proof now s =
     (if gs_kind s = SignalGroup \<and> due now (next_membership_proof_request_time s)
      then (observe RequestMembershipProof s)
             \<lparr>next_membership_proof_request_time := Some (now + MEMBERSHIP_PROOF_REQUEST_INTERVAL)\<rparr>
      else s)"

definition tick_bwe :: "('pc, 'sd) group_env \<Rightarrow> nat \<Rightarrow> 'pc group_state \<Rightarrow> 'pc group_state" where
  "tick_bwe E now s = (case gs_bwe_check s of
     CheckAt t \<Rightarrow>
       if gs_connection_state s = group_connection_state.Connected then
         if t \<le> now then
           if gp_get_last_bandwidth_estimate (ge_pc E) (gs_pc s) < BWE_THRESHOLD_FOR_LOW_NOTIFICATION
           then (observe (HandleLowBandwidthForVideo False) s)\<lparr>gs_bwe_check := RecoveredAt (now + BWE_INTERVAL) now\<rparr>
           else s\<lparr>gs_bwe_check := CheckAt (now + BWE_INTERVAL)\<rparr>
         else s
       else s\<lparr>gs_bwe_check := CheckAt (now + DELAYED_BWE_CHECK)\<rparr>
   | RecoveredAt t last_callback \<Rightarrow>
       if t \<le> now \<and> last_callback + DELAY_FOR_RECOVERED_BWE_CALLBACK \<le> now then
         if BWE_THRESHOLD_FOR_RECOVERED_NOTIFICATION < gp_get_last_bandwidth_estimate (ge_pc E) (gs_pc s)
         then (observe (HandleLowBandwidthForVideo True) s)\<lparr>gs_bwe_check := NoCheck\<rparr>
         else s\<lparr>gs_bwe_check := RecoveredAt (now + BWE_INTERVAL) last_callback\<rparr>
       else s
   | CheckDisabled \<Rightarrow> s
   | NoCheck \<Rightarrow> s)"

definition tick_reactions :: "'pc group_state \<Rightarrow> 'pc group_state" where
  "tick_reactions s =
     (if gs_reactions s = [] then s else observe (HandleReactions (gs_reactions s)) (s\<lparr>gs_reactions := []\<rparr>))"

definition tick_raise_hand :: "('pc, 'sd) group_env \<Rightarrow> nat \<Rightarrow> 'pc group_state \<Rightarrow> 'pc group_state" where
  "tick_raise_hand E now s =
     (if due now (next_raise_hand_time s) \<and> rh_outstanding (gs_raise_hand s)
      then send_raise_hand E (s\<lparr>next_raise_hand_time := Some (now + RAISE_HAND_INTERVAL)\<rparr>) else s)"

definition tick_mute_request :: "'pc group_state \<Rightarrow> 'pc group_state" where
  "tick_mute_request s = (case gs_mute_request s of
     Some source \<Rightarrow> (observe (HandleRemoteMuteRequest source) s)\<lparr>gs_mute_request := None\<rparr>
   | None \<Rightarrow> s)"

text \<open>Acknowledging and resending on the reliable stream; both closures send unreliably to the SFU.\<close>

definition send_ack_to_sfu ::
  "('pc, 'sd) group_env \<Rightarrow> join_state \<Rightarrow> 32 word \<times> 'pc \<Rightarrow> mrp_header \<Rightarrow> (32 word \<times> 'pc) \<times> (unit, ringrtc_error) result" where
  "send_ack_to_sfu E js c header =
     send_payload E js c (encode_device_to_sfu E (device_to_sfu_default\<lparr>dts_mrp_header := Some header\<rparr>))"

definition resend_to_sfu ::
  "('pc, 'sd) group_env \<Rightarrow> nat \<Rightarrow> join_state \<Rightarrow> 32 word \<times> 'pc \<Rightarrow> bytes \<Rightarrow> (32 word \<times> 'pc) \<times> (nat, ringrtc_error) result" where
  "resend_to_sfu E now js c payload = (case send_payload E js c payload of
     (c, Ok _) \<Rightarrow> (c, Ok (now + DEVICE_TO_SFU_TIMEOUT))
   | (c, Err e) \<Rightarrow> (c, Err e))"

definition tick_reliable_stream :: "('pc, 'sd) group_env \<Rightarrow> nat \<Rightarrow> 'pc group_state \<Rightarrow> 'pc group_state" where
  "tick_reliable_stream E now s =
     (case try_send_ack (gs_stream s) (send_ack_to_sfu E (gs_join_state s)) (gs_to_sfu_seqnum s, gs_pc s) of
        (st, c, _) \<Rightarrow> (case try_resend st now (resend_to_sfu E now (gs_join_state s)) c of
          (st, (n, p), _) \<Rightarrow> s\<lparr>gs_stream := st, gs_to_sfu_seqnum := n, gs_pc := p\<rparr>))"

definition tick :: "('pc, 'sd) group_env \<Rightarrow> nat \<Rightarrow> 'pc group_state \<Rightarrow> 'pc group_state" where
  "tick E now s =
     (let s = request_remote_devices_from_sfu_if_older_than E now (10 * 1000) s;
          s = tick_heartbeat E now s;
          s = tick_stats E now s;
          s = tick_decryption_errors E now s;
          s = tick_speaking E now s;
          s = tick_audio_levels E now s;
          s = tick_membership_proof now s;
          s = tick_bwe E now s;
          s = tick_reactions s;
          s = tick_raise_hand E now s;
          s = tick_mute_request s;
          s = tick_reliable_stream E now s
      in gc_send_delayed now TICK_INTERVAL Tick s)"

definition connect :: "('pc, 'sd) group_env \<Rightarrow> nat \<Rightarrow> 'pc group_state \<Rightarrow> 'pc group_state" where
  "connect E now s =
     (if gs_connection_state s = NotConnected then
        let s = set_connection_state_and_notify_observer Connecting s;
            s = s\<lparr>next_heartbeat_time := Some now, next_audio_levels_time := Some now,
                  next_speaking_audio_levels_time := Some now, next_raise_hand_time := Some now\<rparr>;
            s = (if gs_kind s = SignalGroup
                 then observe RequestGroupMembers ((observe RequestMembershipProof s)
                        \<lparr>next_membership_proof_request_time := Some (now + MEMBERSHIP_PROOF_REQUEST_INTERVAL)\<rparr>)
                 else s)
        in tick E now s
      else s)"

end
