(* ===== verification/Group_Receive.thy ===== *)
theory Group_Receive
  imports Group_Handlers
begin

text \<open>
  What a group call client does with what it receives (\<open>core/group_call.rs\<close>): messages over
  signaling, RTP data from the SFU and from other devices, and the events of the peer connection.
  Handlers that run on WebRTC's network thread, \<open>handle_rtp_received\<close> and those it calls up to
  \<open>handle_sfu_to_device_inner\<close>, only send tasks to the client's thread.
\<close>

section \<open>Other devices\<close>

definition REACTION_STRING_MAX_SIZE :: nat where "REACTION_STRING_MAX_SIZE = 256"

definition handle_leaving_received ::
  "('pc, 'sd) group_env \<Rightarrow> nat \<Rightarrow> user_id option \<Rightarrow> demux_id \<Rightarrow> 'pc group_state \<Rightarrow> 'pc group_state" where
  "handle_leaving_received E now expected_user_id d s = (case find_by_demux_id d (gs_remote_devices s) of
     None \<Rightarrow> s
   | Some device \<Rightarrow>
       if leaving_received device then s
       else if (case expected_user_id of Some expected \<Rightarrow> expected \<noteq> rd_user_id device | None \<Rightarrow> False) then s
       else
         let s = s\<lparr>gs_remote_devices := update_device d (\<lambda>rd. rd\<lparr>leaving_received := True\<rparr>) (gs_remote_devices s)\<rparr>;
             s = request_remote_devices_as_soon_as_possible E now s
         in gc_send_delayed now 2000 RequestRemoteDevices s)"

text \<open>\<open>u8::try_from\<close> of the counter, and the copy of the secret, whose length must be that of a key.\<close>

definition on_signaling_message_received ::
  "('pc, 'sd) group_env \<Rightarrow> nat \<Rightarrow> user_id \<Rightarrow> device_to_device \<Rightarrow> 'pc group_state \<Rightarrow> 'pc group_state" where
  "on_signaling_message_received E now sender message s =
     (case map_option (\<lambda>k. (mk_demux_id k, mk_ratchet_counter k, mk_secret k)) (dtd_media_key message) of
        Some (Some d, Some counter, Some secret) \<Rightarrow>
          let request_if_unknown = (\<lambda>s :: 'pc group_state.
                if list_ex (\<lambda>rd. rd_demux_id rd = d) (gs_remote_devices s) then s
                else request_remote_devices_as_soon_as_possible E now s)
          in if 255 < counter then request_if_unknown s
             else if length secret \<noteq> 32 then s
             else request_if_unknown (add_media_receive_key_or_store_for_later E sender d (ucast counter) secret s)
      | _ \<Rightarrow> (case (dtd_group_id message, Option.bind (dtd_leaving message) leaving_demux_id) of
          (Some group_id, Some d) \<Rightarrow>
            if group_id = gs_group_id s then handle_leaving_received E now (Some sender) d s else s
        | _ \<Rightarrow> s))"

text \<open>A heartbeat older than the last one is ignored; the requesters of a mute are forgotten on an unmute.\<close>

definition apply_heartbeat :: "heartbeat \<Rightarrow> remote_device_state \<Rightarrow> remote_device_state" where
  "apply_heartbeat hb rd =
     (let rd = (if hb_video_muted hb = Some True
                then recalculate_higher_resolution_pending (rd\<lparr>client_decoded_height := None\<rparr>) else rd)
      in if hb_audio_muted hb = Some False \<and> hb_audio_muted (rd_heartbeat_state rd) \<noteq> Some False
         then rd\<lparr>remote_mute_requesters := []\<rparr> else rd)"

definition observed_mute_source :: "heartbeat \<Rightarrow> remote_device_state \<Rightarrow> demux_id option" where
  "observed_mute_source hb rd =
     (let old = rd_heartbeat_state rd in
      case (if hb_muted_by_demux_id hb \<noteq> hb_muted_by_demux_id old then hb_muted_by_demux_id hb else None) of
        Some source \<Rightarrow>
          if hb_audio_muted hb = Some True \<and> hb_audio_muted old = Some False
             \<and> source \<in> set (remote_mute_requesters rd)
          then Some source else None
      | None \<Rightarrow> None)"

definition handle_heartbeat_received ::
  "demux_id \<Rightarrow> 32 word \<Rightarrow> heartbeat \<Rightarrow> 'pc group_state \<Rightarrow> 'pc group_state" where
  "handle_heartbeat_received d rtp_time hb s = (case find_by_demux_id d (gs_remote_devices s) of
     None \<Rightarrow> s
   | Some rd \<Rightarrow>
       if rtp_time \<le> (case heartbeat_rtp_timestamp rd of Some t \<Rightarrow> t | None \<Rightarrow> 0) then s
       else
         let rd = rd\<lparr>heartbeat_rtp_timestamp := Some rtp_time\<rparr>;
             put = (\<lambda>rd s :: 'pc group_state.
                      s\<lparr>gs_remote_devices := update_device d (\<lambda>_. rd) (gs_remote_devices s)\<rparr>)
         in if rd_heartbeat_state rd = hb then put rd s
            else
              let rd = apply_heartbeat hb rd;
                  s = (case observed_mute_source hb rd of
                         Some source \<Rightarrow> observe (HandleObservedRemoteMute source d) s | None \<Rightarrow> s);
                  s = put (rd\<lparr>rd_heartbeat_state := hb\<rparr>) s
              in observe (HandleRemoteDevicesChanged (gs_remote_devices s) (HeartbeatStateChanged d)) s)"

definition reaction_received :: "demux_id \<Rightarrow> bytes \<Rightarrow> 'pc group_state \<Rightarrow> 'pc group_state" where
  "reaction_received d value s =
     s\<lparr>gs_reactions := gs_reactions s @ [\<lparr> reaction_demux_id = d, reaction_text = value \<rparr>]\<rparr>"

definition remote_mute_request_received :: "demux_id \<Rightarrow> demux_id \<Rightarrow> 'pc group_state \<Rightarrow> 'pc group_state" where
  "remote_mute_request_received source target s = (case local_demux_id (gs_join_state s) of
     None \<Rightarrow> s
   | Some ours \<Rightarrow>
       if ours = target then
         (if gs_mute_request s = None \<and> source \<noteq> ours then s\<lparr>gs_mute_request := Some source\<rparr> else s)
       else s\<lparr>gs_remote_devices := update_device target
              (\<lambda>rd. if hb_audio_muted (rd_heartbeat_state rd) \<noteq> Some True
                    then rd\<lparr>remote_mute_requesters := List.insert source (remote_mute_requesters rd)\<rparr> else rd)
              (gs_remote_devices s)\<rparr>)"

section \<open>The SFU\<close>

definition removed_received :: "('pc, 'sd) group_env \<Rightarrow> nat \<Rightarrow> 'pc group_state \<Rightarrow> 'pc group_state" where
  "removed_received E now s =
     end_call E now (if is_joined (gs_join_state s) then RemovedFromCall else DeniedRequestToJoinCall) s"

definition speaker_received :: "nat \<Rightarrow> 32 word \<Rightarrow> demux_id \<Rightarrow> 'pc group_state \<Rightarrow> 'pc group_state" where
  "speaker_received now rtp_time d s =
     (if (case gs_speaker_timestamp s of Some t \<Rightarrow> rtp_time \<le> t | None \<Rightarrow> False) then s
      else
        let s = s\<lparr>gs_speaker_timestamp := Some rtp_time\<rparr> in
        (case find_by_demux_id d (gs_remote_devices s) of
           None \<Rightarrow> s
         | Some device \<Rightarrow>
             if latest_speaker_demux_id (gs_remote_devices s) = Some d then s
             else
               let s = s\<lparr>gs_remote_devices :=
                          update_device d (\<lambda>rd. rd\<lparr>speaker_time := Some now\<rparr>) (gs_remote_devices s)\<rparr>
               in observe (HandleRemoteDevicesChanged (gs_remote_devices s) (SpeakerTimeChanged d)) s))"

definition forwarding_video_received ::
  "demux_id list \<Rightarrow> 32 word list \<Rightarrow> 'pc group_state \<Rightarrow> 'pc group_state" where
  "forwarding_video_received with_video heights s =
     (let forwarded = extend_map (zip with_video (map ucast heights)) [] in
      if set (gs_forwarding_videos s) = set forwarded then s
      else
        let s = s\<lparr>gs_remote_devices := map (\<lambda>rd.
                    let height = map_of forwarded (rd_demux_id rd) in
                    recalculate_higher_resolution_pending
                      (rd\<lparr>forwarding_video := Some (height \<noteq> None),
                          server_allocated_height := (case height of Some h \<Rightarrow> h | None \<Rightarrow> 0),
                          client_decoded_height := (if height = None then None else client_decoded_height rd)\<rparr>))
                    (gs_remote_devices s),
                  gs_forwarding_videos := forwarded\<rparr>
        in observe (HandleRemoteDevicesChanged (gs_remote_devices s) ForwardedVideosChanged) s)"

definition raised_hands_received :: "demux_id list \<Rightarrow> 32 word \<Rightarrow> 'pc group_state \<Rightarrow> 'pc group_state" where
  "raised_hands_received hands server_seqnum s =
     (let changed = (\<lambda>s :: 'pc group_state. observe (HandleRaisedHands hands) (s\<lparr>gs_raised_hands := hands\<rparr>)) in
      if server_seqnum \<noteq> 0 then
        if rh_seqnum (gs_raise_hand s) \<le> server_seqnum then
          let s = s\<lparr>gs_raise_hand := (gs_raise_hand s)\<lparr>rh_seqnum := server_seqnum\<rparr>\<rparr>
          in if rh_outstanding (gs_raise_hand s)
             then changed (s\<lparr>gs_raise_hand := (gs_raise_hand s)\<lparr>rh_outstanding := False\<rparr>\<rparr>)
             else if gs_raised_hands s \<noteq> hands then changed s else s
        else s
      else if rh_seqnum (gs_raise_hand s) = 0 \<and> gs_raised_hands s \<noteq> hands then changed s else s)"

subsection \<open>Endorsements\<close>

definition validate_and_cache_endorsements ::
  "('pc, 'sd) group_env \<Rightarrow> nat \<Rightarrow> timestamp \<Rightarrow> (bytes list \<Rightarrow> timestamp \<Rightarrow> bytes \<Rightarrow> bytes list option)
   \<Rightarrow> bytes list \<Rightarrow> timestamp \<Rightarrow> 'pc group_state \<Rightarrow> 'pc group_state \<times> timestamp option" where
  "validate_and_cache_endorsements E instant expiration receive_with_ciphertexts ciphertexts now s =
     (case (or_endorsement_public_key (gs_resolver s), gs_endorsements s) of
        (Some key, Some known) \<Rightarrow>
          let parsed = filter (zk_ciphertext E) ciphertexts;
              member_ids = List.map_filter (resolve_bytes (or_member_resolver (gs_resolver s))) ciphertexts
          in if length member_ids \<noteq> length ciphertexts \<or> length parsed \<noteq> length ciphertexts then
               (observe (HandleEndorsementsUpdate (Err InvalidMemberCiphertexts))
                  (observe (HandleEndorsementsUpdate (Err InvalidEndorsementResponse))
                     (s\<lparr>gs_endorsements := Some (set_invalid instant (Some expiration)
                          ''Received endorsements with invalid member ciphertexts'' known)\<rparr>)), None)
             else (case receive_with_ciphertexts parsed now key of
               Some found \<Rightarrow>
                 let known = cache_insert instant expiration (extend_map (zip member_ids found) []) known;
                     s = s\<lparr>gs_endorsements := Some known\<rparr>
                 in ((case get_endorsements_for_expiration expiration known of
                        Some update \<Rightarrow> observe (HandleEndorsementsUpdate (Ok update)) s
                      | None \<Rightarrow> s), Some expiration)
             | None \<Rightarrow>
                 (observe (HandleEndorsementsUpdate (Err InvalidEndorsementResponse))
                    (s\<lparr>gs_endorsements := Some (set_invalid instant (Some expiration)
                         ''Failed to processing endorsement response in receive_with_ciphertext'' known)\<rparr>), None))
      | _ \<Rightarrow> (s, None))"

definition handle_send_endorsements_response_inner ::
  "('pc, 'sd) group_env \<Rightarrow> nat \<Rightarrow> nat \<Rightarrow> send_endorsements_response \<Rightarrow> 'pc group_state
   \<Rightarrow> 'pc group_state \<times> timestamp option" where
  "handle_send_endorsements_response_inner E instant sys_now response s =
     (let failed = (\<lambda>e. (observe (HandleEndorsementsUpdate (Err e)) s, None :: timestamp option)) in
      if gs_endorsements s = None then (s, None)
      else case endorsements_serialized response of
        None \<Rightarrow> failed (MissingField ''serialized'')
      | Some serialized \<Rightarrow>
          if member_ciphertexts response = [] then failed (MissingField ''member_ciphertexts'')
          else (case zk_response E serialized of
            None \<Rightarrow> failed InvalidEndorsementResponseFormat
          | Some (expiration, receive_with_ciphertexts) \<Rightarrow>
              let now = of_nat (sys_now div 1000) in
              if expiration < now then failed (ExpiredEndorsements expiration)
              else validate_and_cache_endorsements E instant expiration receive_with_ciphertexts
                     (member_ciphertexts response) now s))"

text \<open>The task that takes endorsements and a change of the devices together.\<close>

definition endorsements_or_peek ::
  "('pc, 'sd) group_env \<Rightarrow> nat \<Rightarrow> nat \<Rightarrow> send_endorsements_response option \<Rightarrow> proto_peek_info option option
   \<Rightarrow> 'pc group_state \<Rightarrow> 'pc group_state" where
  "endorsements_or_peek E now sys_now response joined_or_left s =
     (case (case response of
              Some r \<Rightarrow> handle_send_endorsements_response_inner E now sys_now r s
            | None \<Rightarrow> (s, None)) of
        (s, expiration) \<Rightarrow> (case joined_or_left of
          None \<Rightarrow> s
        | Some None \<Rightarrow> request_remote_devices_as_soon_as_possible E now s
        | Some (Some proto) \<Rightarrow>
            (case deobfuscate_proto (ge_sfu_codec E) (ge_link_prims E) (gs_resolver s) proto of
               Some info \<Rightarrow> set_peek_result_inner E now (Ok info) expiration s
             | None \<Rightarrow> request_remote_devices_as_soon_as_possible E now s)))"

subsection \<open>Messages\<close>

definition handle_sfu_to_device_inner ::
  "nat \<Rightarrow> rtp_header \<Rightarrow> sfu_to_device \<Rightarrow> 'pc group_state \<Rightarrow> 'pc group_state" where
  "handle_sfu_to_device_inner sys_now header msg s =
     (let s = (case std_speaker msg of
                 Some (Some d) \<Rightarrow> gc_send (SpeakerReceived (timestamp header) d) s | _ \<Rightarrow> s);
          s = (if std_endorsements msg \<noteq> None \<or> std_device_joined_or_left msg \<noteq> None
               then gc_send (EndorsementsOrPeek sys_now (std_endorsements msg) (std_device_joined_or_left msg)) s
               else s);
          s = (case std_current_devices msg of
                 Some c \<Rightarrow> gc_send (ForwardingVideoReceived (demux_ids_with_video c) (allocated_heights c)) s
               | None \<Rightarrow> s);
          s = (if std_removed msg then gc_send RemovedReceived s else s)
      in case std_raised_hands msg of
           Some r \<Rightarrow> (case raised_target_seqnum r of
             Some n \<Rightarrow> gc_send (RaisedHandsReceived (raised_demux_ids r) n) s
           | None \<Rightarrow> s)
         | None \<Rightarrow> s)"

definition handle_sfu_to_device ::
  "nat \<Rightarrow> rtp_header \<Rightarrow> sfu_to_device \<Rightarrow> 'pc group_state \<Rightarrow> 'pc group_state" where
  "handle_sfu_to_device sys_now header msg s = (case std_mrp_header msg of
     Some h \<Rightarrow> gc_send (ReceiveReliably header h msg) s
   | None \<Rightarrow> handle_sfu_to_device_inner sys_now header msg s)"

text \<open>The loop over the packets that have become ready; it returns after one that has content.\<close>

fun handle_ready_packets ::
  "('pc, 'sd) group_env \<Rightarrow> nat \<Rightarrow> (rtp_header \<times> sfu_to_device) list \<Rightarrow> 'pc group_state \<Rightarrow> 'pc group_state" where
  "handle_ready_packets E now [] s = s"
| "handle_ready_packets E now ((header, msg) # packets) s = (case std_content msg of
     Some content \<Rightarrow> (case decode_sfu_to_device E content of
         Some inner \<Rightarrow> handle_sfu_to_device_inner now header inner s
       | None \<Rightarrow> s)
   | None \<Rightarrow> handle_ready_packets E now packets (handle_sfu_to_device_inner now header msg s))"

definition receive_reliably ::
  "('pc, 'sd) group_env \<Rightarrow> nat \<Rightarrow> rtp_header \<Rightarrow> mrp_header \<Rightarrow> sfu_to_device \<Rightarrow> 'pc group_state \<Rightarrow> 'pc group_state" where
  "receive_reliably E now header h msg s =
     (case receive_and_merge packet_extend_pair (gs_stream s) h (header, msg) of
        None \<Rightarrow> s\<lparr>gs_panicked := True\<rparr>
      | Some (st, Ok ready) \<Rightarrow> handle_ready_packets E now ready (s\<lparr>gs_stream := st\<rparr>)
      | Some (st, Err _) \<Rightarrow> s\<lparr>gs_stream := st\<rparr>)"

definition handle_device_to_device :: "demux_id \<Rightarrow> 32 word \<Rightarrow> device_to_device \<Rightarrow> 'pc group_state \<Rightarrow> 'pc group_state" where
  "handle_device_to_device d rtp_time msg s =
     (let s = (case dtd_heartbeat msg of Some hb \<Rightarrow> gc_send (HeartbeatReceived d rtp_time hb) s | None \<Rightarrow> s);
          s = (if dtd_leaving msg \<noteq> None then gc_send (LeavingReceived d) s else s);
          s = (case dtd_reaction msg of
                 Some r \<Rightarrow>
                   let value = (case reaction_value r of Some v \<Rightarrow> v | None \<Rightarrow> [])
                   in if value = [] \<or> REACTION_STRING_MAX_SIZE < length value then s
                      else gc_send (ReactionReceived d value) s
               | None \<Rightarrow> s)
      in case dtd_remote_mute_request msg of
           Some r \<Rightarrow> (case target_demux_id r of
             Some target \<Rightarrow> gc_send (RemoteMuteRequestReceived d target) s | None \<Rightarrow> s)
         | None \<Rightarrow> s)"

definition handle_rtp_received ::
  "('pc, 'sd) group_env \<Rightarrow> nat \<Rightarrow> rtp_header \<Rightarrow> bytes \<Rightarrow> 'pc group_state \<Rightarrow> 'pc group_state" where
  "handle_rtp_received E now header payload s =
     (if pt header \<noteq> RTP_DATA_PAYLOAD_TYPE then s
      else if ssrc header = RTP_DATA_TO_SFU_SSRC then
        (case decode_sfu_to_device E payload of
           Some msg \<Rightarrow> handle_sfu_to_device now header msg s
         | None \<Rightarrow> s)
      else
        let d = saturating_sub32 (ssrc header) RTP_DATA_THROUGH_SFU_SSRC_OFFSET;
            s = (case decrypt_data E now d payload s of
                   (s, Ok plaintext) \<Rightarrow> (case decode_device_to_device E plaintext of
                       Some msg \<Rightarrow> handle_device_to_device d (timestamp header) msg s
                     | None \<Rightarrow> s)
                 | (s, Err _) \<Rightarrow> s)
        in gc_send (RequestRemoteDevicesIfUnknown d) s)"

section \<open>The peer connection\<close>

definition ice_connection_state_changed ::
  "('pc, 'sd) group_env \<Rightarrow> nat \<Rightarrow> ice_connection_state \<Rightarrow> 'pc group_state \<Rightarrow> 'pc group_state" where
  "ice_connection_state_changed E now ice s =
     (let lost = (ice = Failed \<or> ice = Closed);
          up = (ice = ice_connection_state.Connected \<or> ice = Completed)
      in case gs_connection_state s of
           Connecting \<Rightarrow>
             if ice = ice_connection_state.Disconnected \<or> lost then end_call E now IceFailedWhileConnecting s
             else if up then set_connection_state_and_notify_observer group_connection_state.Connected s
             else s
         | group_connection_state.Connected \<Rightarrow>
             if ice = Checking \<or> ice = ice_connection_state.Disconnected
             then with_pc (gp_regather_on_all_networks (ge_pc E))
                    (set_connection_state_and_notify_observer group_connection_state.Reconnecting s)
             else if lost then end_call E now IceFailedAfterConnected s else s
         | group_connection_state.Reconnecting \<Rightarrow>
             if up then set_connection_state_and_notify_observer group_connection_state.Connected s
             else if lost then end_call E now IceFailedAfterConnected s else s
         | NotConnected \<Rightarrow> if lost then end_call E now IceFailedAfterConnected s else s)"

text \<open>The check that the height has changed is made again because it knows nothing of muting.\<close>

definition video_frame_height :: "demux_id \<Rightarrow> 32 word \<Rightarrow> 'pc group_state \<Rightarrow> 'pc group_state" where
  "video_frame_height d height s = (case find_by_demux_id d (gs_remote_devices s) of
     None \<Rightarrow> s
   | Some rd \<Rightarrow>
       if client_decoded_height rd \<noteq> Some height \<and> hb_video_muted (rd_heartbeat_state rd) \<noteq> Some True then
         let rd' = recalculate_higher_resolution_pending (rd\<lparr>client_decoded_height := Some height\<rparr>);
             s = s\<lparr>gs_remote_devices := update_device d (\<lambda>_. rd') (gs_remote_devices s)\<rparr>
         in if is_higher_resolution_pending rd' \<noteq> is_higher_resolution_pending rd
            then observe (HandleRemoteDevicesChanged (gs_remote_devices s) HigherResolutionPendingChanged) s
            else s
       else s)"

end
