(* ===== verification/Group_Run.thy ===== *)
theory Group_Run
  imports Group_Receive
begin

text \<open>
  A group call client as a whole (\<open>core/group_call.rs\<close>): how it is created, the methods that the
  application, the platform and WebRTC call on their own threads, the tasks its thread runs, and the
  runs of a client as sequences of these with a clock that does not go back.
\<close>

section \<open>Starting\<close>

record start_params =
  sp_group_id :: group_id
  sp_kind :: group_call_kind
  sp_sfu_client :: sfu_client
  sp_busy :: bool
  sp_self_uuid :: "user_id option"
  sp_assets :: asset_registry
  sp_ring_id :: "ring_id option"
  sp_audio_levels_interval :: "nat option"
  sp_dred_duration :: "8 word"
  sp_resolver :: obfuscated_resolver
  sp_endorsements :: "bytes endorsements_cache option"

datatype 'pc creation = FactoryFailed | ConnectionFailed | Created 'pc

definition RELIABLE_RTP_BUFFER_SIZE :: nat where "RELIABLE_RTP_BUFFER_SIZE = 64"

definition client_base :: "('pc, 'sd) group_env \<Rightarrow> start_params \<Rightarrow> 'pc \<Rightarrow> 'pc group_base" where
  "client_base E P p =
     \<lparr> gs_group_id = sp_group_id P, gs_kind = sp_kind P, gs_busy = sp_busy P, gs_self_uuid = sp_self_uuid P,
       gs_assets = sp_assets P, gs_observed = [], gs_sfu_client = sp_sfu_client P,
       gs_actor = actor_send Initialize actor_start, gs_drawn = 1, gs_panicked = False, gs_last_heights = [],
       gs_pc = p \<rparr>"

definition client_call_part :: "start_params \<Rightarrow> 'pc group_base \<Rightarrow> 'pc group_call_part" where
  "client_call_part P b = group_base.extend b (group_call_part.fields
     NotConnected (NotJoined (sp_ring_id P)) [] NotYetStarted
     (if sp_kind P = SignalGroup then WaitingForMembershipProof else NeverRequested)
     None [] (sp_resolver P) [] 0 heartbeat_state_default UnknownRing)"

definition client_media_part ::
  "('pc, 'sd) group_env \<Rightarrow> nat \<Rightarrow> start_params \<Rightarrow> string \<Rightarrow> string \<Rightarrow> (bytes, rtp_header \<times> sfu_to_device) mrp_stream
   \<Rightarrow> 'pc group_call_part \<Rightarrow> 'pc group_media_part" where
  "client_media_part E now P ufrag pwd st b = group_call_part.extend b (group_media_part.fields
     ufrag pwd None 1 1 [] (sp_endorsements P) (context_new (ge_prims E) now (random_secret E 0)) [] KeyApplied st)"

definition client_video_part :: "'pc group_media_part \<Rightarrow> 'pc group_video_part" where
  "client_video_part b = group_media_part.extend b (group_video_part.fields
     None None False None send_rates_default None (Some NORMAL_MAX_RECEIVE_RATE) data_mode.Normal [] [] []
     \<lparr> rh_seqnum = 0, rh_raise = False, rh_outstanding = False \<rparr> None)"

definition client_state :: "start_params \<Rightarrow> 'pc group_video_part \<Rightarrow> 'pc group_state" where
  "client_state P b = group_video_part.extend b (group_state.fields
     None None DEFAULT_STATS_INTERVAL None (sp_audio_levels_interval P) None (sp_dred_duration P)
     None None None None None None CheckDisabled)"

text \<open>
  \<open>Client::start\<close>: what the observer is told, and the client unless the peer connection could not be
  created. The fragment and password of the local ICE agent are drawn at random. The random secret
  number 0 is the first send key.
\<close>

definition client_start ::
  "('pc, 'sd) group_env \<Rightarrow> nat \<Rightarrow> start_params \<Rightarrow> string \<Rightarrow> string \<Rightarrow> 'pc creation
   \<Rightarrow> observer_call list \<times> 'pc group_state option" where
  "client_start E now P ufrag pwd created = (case created of
     FactoryFailed \<Rightarrow> ([HandleEnded FailedToCreatePeerConnectionFactory], None)
   | ConnectionFailed \<Rightarrow> ([HandleEnded FailedToCreatePeerConnection], None)
   | Created p \<Rightarrow> ([], map_option
       (\<lambda>st. client_state P (client_video_part
               (client_media_part E now P ufrag pwd st (client_call_part P (client_base E P p)))))
       (stream_with_capacity_limit RELIABLE_RTP_BUFFER_SIZE)))"

section \<open>Tasks\<close>

fun run_request :: "('pc, 'sd) group_env \<Rightarrow> nat \<Rightarrow> group_request \<Rightarrow> 'pc group_state \<Rightarrow> 'pc group_state" where
  "run_request E now (ProvideRingIdIfAbsent ring_id) s = provide_ring_id_if_absent ring_id s"
| "run_request E now (OverrideSendRates rates) s = override_send_rates E now rates s"
| "run_request E now Connect s = connect E now s"
| "run_request E now Join s = join E now s"
| "run_request E now Leave s = leave_inner E now s"
| "run_request E now Disconnect s = end_call E now DeviceExplicitlyDisconnected s"
| "run_request E now (Ring recipient) s = ring_inner recipient s"
| "run_request E now (SetOutgoingAudioMuted muted) s = set_outgoing_audio_muted_inner E muted None s"
| "run_request E now (SetOutgoingAudioMutedRemotely source) s = set_outgoing_audio_muted_inner E True (Some source) s"
| "run_request E now (SendRemoteMuteRequest target) s = send_remote_mute_request E target s"
| "run_request E now (SetOutgoingVideoMuted muted) s = set_outgoing_video_muted E muted s"
| "run_request E now (SetPresenting presenting) s = set_presenting E presenting s"
| "run_request E now (SetSharingScreen sharing) s = set_sharing_screen E now sharing s"
| "run_request E now ResendMediaKeys s = resend_media_keys s"
| "run_request E now (SetDataMode mode) s = gc_set_data_mode E mode s"
| "run_request E now (RequestVideo requests height) s = request_video E requests height s"
| "run_request E now (ApproveUser user) s = approve_or_deny_user E now user True s"
| "run_request E now (DenyUser user) s = approve_or_deny_user E now user False s"
| "run_request E now (RemoveClient d) s = send_admin_action E now (Remove d) s"
| "run_request E now (BlockClient d) s = send_admin_action E now (Block d) s"
| "run_request E now (SetGroupMembers members) s = set_group_members E now members s"
| "run_request E now (SetMembershipProof proof) s = set_membership_proof E now proof s"
| "run_request E now (React value) s = fst (send_reaction E value s)"
| "run_request E now (RaiseHand raise) s = raise_hand E raise s"
| "run_request E now (SetRtcStatsInterval interval) s = set_rtc_stats_interval E interval s"
| "run_request E now (SendDecryptionStats errors) s = send_decryption_stats_inner E now errors s"

fun run_gc_task :: "('pc, 'sd) group_env \<Rightarrow> nat \<Rightarrow> group_task \<Rightarrow> 'pc group_state \<Rightarrow> 'pc group_state" where
  "run_gc_task E now (Request r) s = run_request E now r s"
| "run_gc_task E now Initialize s = request_remote_devices_as_soon_as_possible E now s"
| "run_gc_task E now Tick s = tick E now s"
| "run_gc_task E now (FinishEnd reason) s = finish_end E reason s"
| "run_gc_task E now (JoinAttemptCompleted r) s = on_sfu_client_join_attempt_completed E now r s"
| "run_gc_task E now (SetPeekResult r) s = set_peek_result_inner E now r None s"
| "run_gc_task E now (SignalingMessageReceived sender m) s = on_signaling_message_received E now sender m s"
| "run_gc_task E now (ApplySendKey secret expiration) s = apply_send_key E now secret expiration s"
| "run_gc_task E now RequestRemoteDevices s = request_remote_devices_as_soon_as_possible E now s"
| "run_gc_task E now (RequestRemoteDevicesIfUnknown d) s =
     (if list_ex (\<lambda>rd. rd_demux_id rd = d) (gs_remote_devices s) then s
      else request_remote_devices_as_soon_as_possible E now s)"
| "run_gc_task E now (ReceiveReliably header h m) s = receive_reliably E now header h m s"
| "run_gc_task E now (EndorsementsOrPeek sys_now r p) s = endorsements_or_peek E now sys_now r p s"
| "run_gc_task E now (SpeakerReceived t d) s = speaker_received now t d s"
| "run_gc_task E now (ForwardingVideoReceived ds hs) s = forwarding_video_received ds hs s"
| "run_gc_task E now RemovedReceived s = removed_received E now s"
| "run_gc_task E now (RaisedHandsReceived ds n) s = raised_hands_received ds n s"
| "run_gc_task E now (HeartbeatReceived d t hb) s = handle_heartbeat_received d t hb s"
| "run_gc_task E now (LeavingReceived d) s = handle_leaving_received E now None d s"
| "run_gc_task E now (ReactionReceived d value) s = reaction_received d value s"
| "run_gc_task E now (RemoteMuteRequestReceived d target) s = remote_mute_request_received d target s"
| "run_gc_task E now (IceConnectionStateChanged ice) s = ice_connection_state_changed E now ice s"
| "run_gc_task E now (IceNetworkRouteChanged nr) s = observe (HandleNetworkRouteChanged nr) s"
| "run_gc_task E now (IncomingVideoAdded track d) s =
     (case d of Some d \<Rightarrow> observe (HandleIncomingVideoTrack d track) s | None \<Rightarrow> s)"
| "run_gc_task E now (VideoFrameHeight d height) s = video_frame_height d height s"

section \<open>Runs\<close>

text \<open>
  What happens to a client: a call of one of its methods, on whatever thread, an iteration of its own
  thread, or a change of the busy flag by the call manager. A client whose thread has panicked runs
  no more tasks.
\<close>

datatype group_input =
    Ask group_request
  | ReceiveSignaling user_id device_to_device
  | ReceiveHttp "32 word" "http_response option"
  | ReceiveRtp rtp_header bytes
  | IceState ice_connection_state
  | IceRoute network_route
  | VideoAdded nat "demux_id option"
  | VideoFrame demux_id "32 word"
  | EncryptMedia bytes bytes
  | DecryptMedia demux_id bytes bytes
  | RunTask
  | SharedBusy bool

text \<open>A reaction is checked before it is sent to the thread.\<close>

definition gc_ask :: "group_request \<Rightarrow> 'pc group_state \<Rightarrow> 'pc group_state" where
  "gc_ask r s = (case r of
     React value \<Rightarrow>
       if value = [] \<or> REACTION_STRING_MAX_SIZE < length value then s else gc_send (Request r) s
   | _ \<Rightarrow> gc_send (Request r) s)"

definition handle_incoming_video_frame :: "demux_id \<Rightarrow> 32 word \<Rightarrow> 'pc group_state \<Rightarrow> 'pc group_state" where
  "handle_incoming_video_frame d height s =
     (let earlier = map_of (gs_last_heights s) d;
          s = s\<lparr>gs_last_heights := AList.update d height (gs_last_heights s)\<rparr>
      in if earlier \<noteq> Some height then gc_send (VideoFrameHeight d height) s else s)"

definition run_one_task :: "('pc, 'sd) group_env \<Rightarrow> nat \<Rightarrow> 'pc group_state \<Rightarrow> 'pc group_state" where
  "run_one_task E now s =
     (if gs_panicked s then s
      else case actor_iterate now (gs_actor s) of
        (None, a) \<Rightarrow> s\<lparr>gs_actor := a\<rparr>
      | (Some t, a) \<Rightarrow> run_gc_task E now t (s\<lparr>gs_actor := a\<rparr>))"

fun gc_step :: "('pc, 'sd) group_env \<Rightarrow> nat \<Rightarrow> group_input \<Rightarrow> 'pc group_state \<Rightarrow> 'pc group_state" where
  "gc_step E now (Ask r) s = gc_ask r s"
| "gc_step E now (ReceiveSignaling sender m) s = gc_send (SignalingMessageReceived sender m) s"
| "gc_step E now (ReceiveHttp i response) s = http_response_received E i response s"
| "gc_step E now (ReceiveRtp header payload) s = handle_rtp_received E now header payload s"
| "gc_step E now (IceState ice) s = gc_send (IceConnectionStateChanged ice) s"
| "gc_step E now (IceRoute nr) s = gc_send (IceNetworkRouteChanged nr) s"
| "gc_step E now (VideoAdded track d) s = gc_send (IncomingVideoAdded track d) s"
| "gc_step E now (VideoFrame d height) s = handle_incoming_video_frame d height s"
| "gc_step E now (EncryptMedia plaintext buffer) s = fst (encrypt_media E plaintext buffer s)"
| "gc_step E now (DecryptMedia d ciphertext buffer) s = fst (decrypt_media E now d ciphertext buffer s)"
| "gc_step E now RunTask s = run_one_task E now s"
| "gc_step E now (SharedBusy busy) s = s\<lparr>gs_busy := busy\<rparr>"

text \<open>The states that a client can reach from \<open>s0\<close>, with the inputs it has had and the time.\<close>

inductive gc_reach ::
  "('pc, 'sd) group_env \<Rightarrow> 'pc group_state \<Rightarrow> group_input list \<Rightarrow> nat \<Rightarrow> 'pc group_state \<Rightarrow> bool"
  for E :: "('pc, 'sd) group_env" and s0 :: "'pc group_state" where
  gc_reach_start: "gc_reach E s0 [] t s0"
| gc_reach_step: "gc_reach E s0 ins t s \<Longrightarrow> t \<le> t' \<Longrightarrow> gc_reach E s0 (ins @ [i]) t' (gc_step E t' i s)"

end
