(* ===== verification/Group_Keys.thy ===== *)
theory Group_Keys
  imports Group_Run "HOL-Library.Multiset"
begin

text \<open>
  Who holds the media keys of a group call client. The keys that a client has sent are read off what
  it told its observer, in every run of the client. What a state has to do with keys is a
  \<^emph>\<open>view\<close> of it; most operations leave the view as it is, and the invariant of the runs is one of
  views.
\<close>

section \<open>Keys sent\<close>

definition key_of_message :: "call_message \<Rightarrow> bytes option" where
  "key_of_message m = Option.bind (group_call_message m) (\<lambda>d. Option.bind (dtd_media_key d) mk_secret)"

text \<open>A message to the group without recipients goes to everybody.\<close>

fun keys_in :: "observer_call \<Rightarrow> (user_id \<times> bytes) set" where
  "keys_in (SendSignalingMessage u m urgency) = {u} \<times> set_option (key_of_message m)"
| "keys_in (SendSignalingMessageToGroup g m urgency us) =
     (if us = [] then UNIV else set us) \<times> set_option (key_of_message m)"
| "keys_in (SendSignalingMessageToAdhocGroup m urgency expiration us) =
     fst ` set us \<times> set_option (key_of_message m)"
| "keys_in c = {}"

definition keys_sent :: "observer_call list \<Rightarrow> (user_id \<times> bytes) set" where
  "keys_sent calls = (\<Union>c \<in> set calls. keys_in c)"

text \<open>How often the client has started to join.\<close>

definition joins :: "observer_call list \<Rightarrow> nat" where
  "joins calls = length (filter (\<lambda>c. c = HandleJoinStateChanged Joining) calls)"

text \<open>Who has a secret, or one that it follows from in at most \<open>effort\<close> ratchets, holds it.\<close>

definition holds :: "prims \<Rightarrow> nat \<Rightarrow> (user_id \<times> bytes) set \<Rightarrow> user_id \<Rightarrow> bytes \<Rightarrow> bool" where
  "holds P effort sent u k = (\<exists>k'. \<exists>n \<le> effort. (u, k') \<in> sent \<and> ratchet_n P n k' = k)"

text \<open>The key that is \<open>n\<close> ratchets after the \<open>i\<close>-th secret that was drawn.\<close>

abbreviation media_key_at :: "('pc, 'sd) group_env \<Rightarrow> nat \<Rightarrow> nat \<Rightarrow> bytes" where
  "media_key_at E i n \<equiv> ratchet_n (ge_prims E) n (random_secret E i)"

text \<open>
  The first keys are different ones: those of the first \<open>B\<close> secrets, each ratcheted up to \<open>B\<close> times.
  This is what one expects of the random generator and of the key derivation for every \<open>B\<close> that a
  computer can count to.
\<close>

definition keys_apart :: "('pc, 'sd) group_env \<Rightarrow> nat \<Rightarrow> bool" where
  "keys_apart E B = (\<forall>i \<le> B. \<forall>j \<le> B. \<forall>m \<le> B. \<forall>n \<le> B. media_key_at E i m = media_key_at E j n \<longrightarrow> i = j \<and> m = n)"

section \<open>The view\<close>

record key_view =
  kv_sent :: "(user_id \<times> bytes) set"
  kv_joins :: nat
  kv_secret :: bytes
  kv_rotation :: key_rotation_state
  kv_drawn :: nat
  kv_users :: "user_id list"
  kv_joined :: "user_id list"
  kv_join :: join_state
  kv_dhe :: dhe_state
  kv_tasks :: "bytes multiset"
  kv_ended :: bool

fun key_task :: "group_task option \<Rightarrow> bytes option" where
  "key_task (Some (ApplySendKey secret expiration)) = Some secret"
| "key_task t = None"

definition key_tasks :: "group_task actor \<Rightarrow> bytes multiset" where
  "key_tasks a = mset (List.map_filter (\<lambda>t. key_task (run t)) (inbox a @ delayed_tasks a))"

definition kv :: "'pc group_state \<Rightarrow> key_view" where
  "kv s = \<lparr> kv_sent = keys_sent (gs_observed s), kv_joins = joins (gs_observed s),
            kv_secret = current_secret (ctx_sender_state (gs_crypto s)), kv_rotation = gs_rotation s,
            kv_drawn = gs_drawn s, kv_users = map rd_user_id (gs_remote_devices s),
            kv_joined = gs_joined_members s, kv_join = gs_join_state s, kv_dhe = gs_dhe_state s,
            kv_tasks = key_tasks (gs_actor s), kv_ended = ended (gs_actor s) \<rparr>"

lemma kv_sel [simp]:
  "kv_sent (kv s) = keys_sent (gs_observed s)" "kv_joins (kv s) = joins (gs_observed s)"
  "kv_secret (kv s) = current_secret (ctx_sender_state (gs_crypto s))" "kv_rotation (kv s) = gs_rotation s"
  "kv_drawn (kv s) = gs_drawn s" "kv_users (kv s) = map rd_user_id (gs_remote_devices s)"
  "kv_joined (kv s) = gs_joined_members s" "kv_join (kv s) = gs_join_state s" "kv_dhe (kv s) = gs_dhe_state s"
  "kv_tasks (kv s) = key_tasks (gs_actor s)" "kv_ended (kv s) = ended (gs_actor s)"
  by (simp_all add: kv_def)

lemma keys_sent_append [simp]: "keys_sent (cs @ ds) = keys_sent cs \<union> keys_sent ds"
  by (simp add: keys_sent_def)

lemma keys_sent_simps [simp]: "keys_sent [] = {}" "keys_sent (c # cs) = keys_in c \<union> keys_sent cs"
  by (simp_all add: keys_sent_def)

lemma joins_append [simp]: "joins (cs @ ds) = joins cs + joins ds"
  by (simp add: joins_def)

lemma joins_simps [simp]: "joins [] = 0"
  "joins (c # cs) = (if c = HandleJoinStateChanged Joining then Suc (joins cs) else joins cs)"
  by (simp_all add: joins_def)

lemma kv_observe:
  "kv (observe c s) = (kv s)\<lparr>kv_sent := kv_sent (kv s) \<union> keys_in c,
     kv_joins := kv_joins (kv s) + (if c = HandleJoinStateChanged Joining then 1 else 0)\<rparr>"
  by (simp add: kv_def observe_def)

lemma kv_observe_other [simp]:
  assumes "keys_in c = {}" "c \<noteq> HandleJoinStateChanged Joining"
  shows "kv (observe c s) = kv s"
  using assms by (simp add: kv_observe)

lemma key_tasks_send [simp]:
  "key_task (Some t) = None \<Longrightarrow> key_tasks (actor_send t a) = key_tasks a"
  "key_task (Some t) = None \<Longrightarrow> key_tasks (actor_send_delayed now d t a) = key_tasks a"
  by (simp_all add: key_tasks_def actor_send_def actor_send_delayed_def send_task_def immediate_def delayed_def
      List.map_filter_def)

lemma ended_send [simp]:
  "ended (actor_send t a) = ended a" "ended (actor_send_delayed now d t a) = ended a"
  "ended (stop_all_without_joining a) = ended a"
  by (simp_all add: actor_send_def actor_send_delayed_def send_task_def stop_all_without_joining_def stop_actor_def)

lemma kv_send [simp]:
  "key_task (Some t) = None \<Longrightarrow> kv (gc_send t s) = kv s"
  "key_task (Some t) = None \<Longrightarrow> kv (gc_send_delayed now d t s) = kv s"
  by (simp_all add: kv_def gc_send_def gc_send_delayed_def)

text \<open>Optional steps of an operation.\<close>

lemma kv_optional:
  "(\<And>x. kv (f x) = kv s) \<Longrightarrow> kv (case a of None \<Rightarrow> s | Some x \<Rightarrow> f x) = kv s"
  "kv s' = kv s \<Longrightarrow> kv (if b then s' else s) = kv s"
  by (simp_all split: option.split)

lemma remote_devices_observe [simp]: "gs_remote_devices (observe c s) = gs_remote_devices s"
  by (simp add: observe_def)

lemma kv_with_pc [simp]: "kv (with_pc f s) = kv s"
  by (simp add: kv_def with_pc_def)

lemma key_of_message_simps [simp]:
  "key_of_message (call_message_default\<lparr>ring_intention := r\<rparr>) = None"
  "key_of_message (call_message_default\<lparr>ring_response := r\<rparr>) = None"
  "key_of_message (call_message_default\<lparr>group_call_message := Some (device_to_device_default\<lparr>dtd_group_id := g0, dtd_leaving := l\<rparr>)\<rparr>) = None"
  "key_of_message (media_key_message g d counter secret) = Some secret"
  by (simp_all add: key_of_message_def call_message_default_def device_to_device_default_def media_key_message_def)

section \<open>Operations that leave the view\<close>

lemma sender_state_encrypt_frame [simp]:
  "ctx_sender_state (fst (encrypt_frame P ctx plaintext buffer)) = ctx_sender_state ctx"
  by (simp add: encrypt_frame_def Frame_Crypto.encrypt_def Let_def split: sum.splits)

lemma sender_state_decrypt [simp]:
  "ctx_sender_state (fst (Frame_Crypto.decrypt P now ctx i rc fc data mac)) = ctx_sender_state ctx"
  by (simp add: Frame_Crypto.decrypt_def Let_def set_states_by_id_def split: option.splits prod.splits)

lemma sender_state_decrypt_frame [simp]:
  "ctx_sender_state (fst (decrypt_frame P now ctx d ciphertext buffer)) = ctx_sender_state ctx"
  using sender_state_decrypt [of P now ctx d]
  by (auto simp: decrypt_frame_def simp del: sender_state_decrypt split: sum.splits prod.splits)
     (metis fst_conv)+

lemma sender_state_add_receive_secret [simp]:
  "ctx_sender_state (add_receive_secret P ctx d counter secret) = ctx_sender_state ctx"
  by (simp add: add_receive_secret_def set_states_by_id_def Let_def)

lemma sender_state_error_report [simp]:
  "ctx_sender_state (fst (get_error_report now ctx)) = ctx_sender_state ctx"
  by (simp add: get_error_report_def split: prod.splits)

lemma kv_crypto:
  "ctx_sender_state ctx = ctx_sender_state (gs_crypto s) \<Longrightarrow> kv (s\<lparr>gs_crypto := ctx\<rparr>) = kv s"
  by (simp add: kv_def)

lemma kv_encrypt_media [simp]: "kv (fst (encrypt_media E plaintext buffer s)) = kv s"
  using sender_state_encrypt_frame [of "ge_prims E" "gs_crypto s" plaintext buffer]
  by (auto simp: encrypt_media_def kv_crypto simp del: sender_state_encrypt_frame split: prod.splits)

lemma kv_decrypt_media [simp]: "kv (fst (decrypt_media E now d ciphertext buffer s)) = kv s"
  using sender_state_decrypt_frame [of "ge_prims E" now "gs_crypto s" d ciphertext buffer]
  by (auto simp: decrypt_media_def kv_crypto simp del: sender_state_decrypt_frame split: prod.splits)

lemma kv_encrypt_data [simp]: "kv (fst (encrypt_data E plaintext s)) = kv s"
  using kv_encrypt_media [of E plaintext "replicate (get_ciphertext_buffer_size (length plaintext)) 0" s]
  by (auto simp: encrypt_data_def simp del: kv_encrypt_media split: prod.splits sum.splits)

lemma kv_decrypt_data [simp]: "kv (fst (decrypt_data E now d ciphertext s)) = kv s"
  using kv_decrypt_media [of E now d ciphertext "replicate (get_plaintext_buffer_size (length ciphertext)) 0" s]
  by (auto simp: decrypt_data_def simp del: kv_decrypt_media split: prod.splits sum.splits)

lemma kv_fields [simp]:
  "kv (s\<lparr>gs_pc := p\<rparr>) = kv s" "kv (s\<lparr>gs_to_sfu_seqnum := n\<rparr>) = kv s" "kv (s\<lparr>gs_through_sfu_seqnum := n\<rparr>) = kv s"
  "kv (s\<lparr>gs_stream := st\<rparr>) = kv s" "kv (s\<lparr>gs_panicked := b\<rparr>) = kv s" "kv (s\<lparr>gs_sfu_client := c\<rparr>) = kv s"
  "kv (s\<lparr>gs_request_state := r\<rparr>) = kv s" "kv (s\<lparr>gs_connection_state := cs\<rparr>) = kv s" "kv (s\<lparr>gs_busy := b\<rparr>) = kv s"
  "kv (s\<lparr>gs_ring_state := rs\<rparr>) = kv s" "kv (s\<lparr>gs_bwe_check := bw\<rparr>) = kv s" "kv (s\<lparr>gs_send_rates := sr\<rparr>) = kv s"
  "kv (s\<lparr>gs_send_rates_override := sro\<rparr>) = kv s" "kv (s\<lparr>gs_pending_keys := ks\<rparr>) = kv s"
  "kv (s\<lparr>gs_sfu_info := si\<rparr>) = kv s" "kv (s\<lparr>gs_transceivers := ts\<rparr>) = kv s" "kv (s\<lparr>gs_last_peek_info := pi\<rparr>) = kv s"
  "kv (s\<lparr>gs_pending_users_signature := sg\<rparr>) = kv s" "kv (s\<lparr>gs_outgoing_heartbeat := hb\<rparr>) = kv s"
  by (simp_all add: kv_def)

lemma kv_more_fields [simp]:
  "kv (s\<lparr>gs_on_demand_sent := b\<rparr>) = kv s" "kv (s\<lparr>gs_max_receive_rate := mr\<rparr>) = kv s" "kv (s\<lparr>gs_data_mode := dm\<rparr>) = kv s"
  "kv (s\<lparr>gs_video_requests := vr\<rparr>) = kv s" "kv (s\<lparr>gs_active_speaker_height := ah\<rparr>) = kv s"
  "kv (s\<lparr>gs_known_members := km\<rparr>) = kv s" "kv (s\<lparr>gs_resolver := R\<rparr>) = kv s" "kv (s\<lparr>gs_raise_hand := rh\<rparr>) = kv s"
  "kv (s\<lparr>gs_raised_hands := rhs\<rparr>) = kv s" "kv (s\<lparr>gs_reactions := re\<rparr>) = kv s" "kv (s\<lparr>gs_mute_request := mq\<rparr>) = kv s"
  "kv (s\<lparr>gs_forwarding_videos := fv\<rparr>) = kv s" "kv (s\<lparr>gs_speaker_timestamp := st\<rparr>) = kv s"
  "kv (s\<lparr>gs_endorsements := en\<rparr>) = kv s" "kv (s\<lparr>gs_last_heights := lh\<rparr>) = kv s"
  by (simp_all add: kv_def)

lemma kv_times [simp]:
  "kv (s\<lparr>next_heartbeat_time := t\<rparr>) = kv s" "kv (s\<lparr>next_stats_time := t\<rparr>) = kv s" "kv (s\<lparr>get_stats_interval := n\<rparr>) = kv s"
  "kv (s\<lparr>next_decryption_error_time := t\<rparr>) = kv s" "kv (s\<lparr>next_audio_levels_time := t\<rparr>) = kv s"
  "kv (s\<lparr>next_speaking_audio_levels_time := t\<rparr>) = kv s" "kv (s\<lparr>started_speaking := t\<rparr>) = kv s"
  "kv (s\<lparr>silence_started := t\<rparr>) = kv s" "kv (s\<lparr>last_speaking_notification := ev\<rparr>) = kv s"
  "kv (s\<lparr>next_membership_proof_request_time := t\<rparr>) = kv s" "kv (s\<lparr>next_raise_hand_time := t\<rparr>) = kv s"
  by (simp_all add: kv_def)

text \<open>Sending data.\<close>

lemma kv_unreliable_send [simp]: "kv (fst (unreliable_send_data_to_sfu E message s)) = kv s"
  by (simp add: unreliable_send_data_to_sfu_def split: prod.splits sum.splits)

lemma kv_reliable_send [simp]:
  "kv (fst (reliable_send_device_to_sfu E now message s)) = kv s"
  "kv (fst (reliable_send_to_sfu_inner E now payload s)) = kv s"
  by (simp_all add: reliable_send_device_to_sfu_def reliable_send_to_sfu_inner_def
      split: prod.splits sum.splits option.splits)

lemma kv_send_data_to_sfu [simp]: "kv (fst (send_data_to_sfu E now message s)) = kv s"
  by (simp add: send_data_to_sfu_def)

lemma kv_broadcast [simp]: "kv (fst (broadcast_data_through_sfu E message s)) = kv s"
  using kv_encrypt_data [of E message s]
  by (auto simp: broadcast_data_through_sfu_def simp del: kv_encrypt_data split: join_state.splits prod.splits sum.splits)

lemma kv_messages [simp]:
  "kv (fst (send_heartbeat E s)) = kv s" "kv (fst (send_reaction E value s)) = kv s"
  "kv (send_raise_hand E s) = kv s" "kv (send_leave_to_sfu E s) = kv s"
  "kv (send_decryption_stats_inner E now errors s) = kv s"
  by (simp_all add: send_heartbeat_def send_reaction_def send_raise_hand_def send_leave_to_sfu_def Let_def
      send_decryption_stats_inner_def)

lemma kv_send_to_each [simp]: "key_of_message m = None \<Longrightarrow> kv (send_to_each m us s) = kv s"
  by (induction us arbitrary: s) (simp_all add: send_to_each_def)

lemma kv_send_to_self [simp]: "key_of_message m = None \<Longrightarrow> kv (send_to_self m u s) = kv s"
  by (simp add: send_to_self_def split: option.splits)

lemma kv_leaving [simp]: "kv (send_leaving_through_sfu_and_over_signaling E d s) = kv s"
  by (simp add: send_leaving_through_sfu_and_over_signaling_def Let_def split: prod.splits)

lemma kv_rings [simp]:
  "kv (cancel_full_group_ring_if_needed s) = kv s" "kv (accept_ring_if_needed r s) = kv s" "kv (ring_inner u s) = kv s"
  by (simp_all add: cancel_full_group_ring_if_needed_def accept_ring_if_needed_def ring_inner_def Let_def
      split: outgoing_ring_state.splits option.splits)

text \<open>Requests to the SFU.\<close>

lemma kv_sfu [simp]:
  "kv (join_with_header E header ufrag pwd key s) = kv s" "kv (sfu_join E ufrag pwd key s) = kv s"
  "kv (sfu_set_membership_proof E proof s) = kv s"
  by (simp_all add: join_with_header_def sfu_join_def sfu_set_membership_proof_def Let_def
      split: sum.splits option.splits prod.splits)

lemma kv_http [simp]: "kv (http_response_received E i response s) = kv s"
  by (simp add: http_response_received_def Let_def split: prod.splits option.splits sfu_callback.splits)

lemma kv_maybe_request [simp]: "kv (maybe_request_remote_devices E now age again s) = kv s"
  by (simp add: maybe_request_remote_devices_def Let_def split: prod.splits option.splits remote_devices_request_state.splits)

lemma kv_request [simp]:
  "kv (request_remote_devices_as_soon_as_possible E now s) = kv s"
  "kv (request_remote_devices_from_sfu_if_older_than E now age s) = kv s"
  by (simp_all add: request_remote_devices_as_soon_as_possible_def request_remote_devices_from_sfu_if_older_than_def)

text \<open>Rates and the peer connection.\<close>

lemma kv_set_connection_state [simp]: "kv (set_connection_state_and_notify_observer cs s) = kv s"
  by (simp add: set_connection_state_and_notify_observer_def)

lemmas kv_distrib =
  if_distrib [of kv] option.case_distrib [of kv] prod.case_distrib [of kv] sum.case_distrib [of kv]
  bwe_check_state.case_distrib [of kv] join_state.case_distrib [of kv] outgoing_ring_state.case_distrib [of kv]

lemma kv_send_rates [simp]: "kv (set_send_rates_inner E now rates s) = kv s"
  by (simp add: set_send_rates_inner_def Let_def kv_distrib split: bwe_check_state.split prod.split sum.split)

lemma kv_descriptions [simp]:
  "kv (fst (set_peer_connection_descriptions E info d keys s)) = kv s"
  by (simp add: set_peer_connection_descriptions_def Let_def split: prod.splits)

lemma kv_start_peer_connection [simp]: "kv (fst (start_peer_connection E info d keys s)) = kv s"
  using kv_descriptions [of E info d keys s]
  by (auto simp: start_peer_connection_def simp del: kv_descriptions split: prod.splits sum.splits)

lemma kv_on_client_joined [simp]: "kv (on_client_joined E s) = kv s"
  by (simp add: on_client_joined_def split: prod.splits)

lemma kv_update_transceivers [simp]:
  "kv (fst (update_remote_transceivers E d keys new_ids added s)) = kv s"
proof (cases "gs_sfu_info s")
  case (Some info)
  define s1 where "s1 = s\<lparr>gs_transceivers := map (\<lambda>slot. if gone new_ids slot then None else slot) (gs_transceivers s)\<rparr>"
  define r where "r = (if list_ex (gone new_ids) (gs_transceivers s)
    then set_peer_connection_descriptions E info d keys s1 else (s1, Ok ()))"
  have "kv (fst r) = kv s"
    by (simp add: r_def s1_def)
  moreover have "kv (fst (update_remote_transceivers E d keys new_ids added s)) = kv (fst r)"
    by (cases r; cases "snd r") (simp_all add: update_remote_transceivers_def Some Let_def flip: s1_def r_def)
  ultimately show ?thesis
    by simp
qed (simp add: update_remote_transceivers_def)

lemma kv_update_ring_state [simp]: "kv (update_ring_state E joined s) = kv s"
  by (simp add: update_ring_state_def Let_def split: outgoing_ring_state.splits)

text \<open>Devices keep their users.\<close>

lemma users_update_device [simp]:
  "(\<And>rd. rd_user_id (f rd) = rd_user_id rd) \<Longrightarrow> map rd_user_id (update_device d f rds) = map rd_user_id rds"
  by (induction rds) simp_all

lemma users_put_device:
  "find_by_demux_id d rds = Some rd \<Longrightarrow> rd_user_id rd' = rd_user_id rd
   \<Longrightarrow> map rd_user_id (update_device d (\<lambda>_. rd') rds) = map rd_user_id rds"
  by (induction rds) (auto simp: find_by_demux_id_def split: if_splits)

lemma kv_devices:
  "map rd_user_id rds = map rd_user_id (gs_remote_devices s) \<Longrightarrow> kv (s\<lparr>gs_remote_devices := rds\<rparr>) = kv s"
  by (simp add: kv_def)

lemma user_recalculate [simp]: "rd_user_id (recalculate_higher_resolution_pending rd) = rd_user_id rd"
  by (simp add: recalculate_higher_resolution_pending_def)

lemma user_apply_heartbeat [simp]: "rd_user_id (apply_heartbeat hb rd) = rd_user_id rd"
  by (simp add: apply_heartbeat_def Let_def)

text \<open>Requests of the application that have nothing to do with keys.\<close>

lemma kv_requests [simp]:
  "kv (override_send_rates E now rates s) = kv s" "kv (set_outgoing_audio_muted_inner E muted by_id s) = kv s"
  "kv (set_outgoing_video_muted E muted s) = kv s" "kv (set_presenting E b s) = kv s"
  "kv (set_sharing_screen E now b s) = kv s"
  by (simp_all add: override_send_rates_def set_outgoing_audio_muted_inner_def set_outgoing_video_muted_def
      set_presenting_def set_sharing_screen_def Let_def)

lemma kv_video_requests [simp]:
  "kv (send_video_requests_to_sfu E s) = kv s" "kv (send_video_requests_on_demand E s) = kv s"
  "kv (gc_set_data_mode E mode s) = kv s" "kv (request_video E requests height s) = kv s"
  by (simp_all add: send_video_requests_to_sfu_def send_video_requests_on_demand_def gc_set_data_mode_def
      request_video_def Let_def split: option.split)

lemma kv_admin [simp]:
  "kv (send_admin_action E now action s) = kv s" "kv (approve_or_deny_user E now user approved s) = kv s"
  by (simp_all add: send_admin_action_def approve_or_deny_user_def split: option.split)

lemma kv_members [simp]:
  "kv (set_group_members E now members s) = kv s" "kv (set_membership_proof E now proof s) = kv s"
  "kv (raise_hand E raise s) = kv s" "kv (set_rtc_stats_interval E interval s) = kv s"
  by (simp_all add: set_group_members_def set_membership_proof_def raise_hand_def set_rtc_stats_interval_def Let_def)

lemma kv_send_remote_mute_request [simp]: "kv (send_remote_mute_request E target s) = kv s"
  by (simp add: send_remote_mute_request_def Let_def kv_devices split: option.split)

text \<open>Ticks.\<close>

lemma kv_ticks [simp]:
  "kv (tick_heartbeat E now s) = kv s" "kv (tick_stats E now s) = kv s" "kv (tick_audio_levels E now s) = kv s"
  "kv (tick_membership_proof now s) = kv s" "kv (tick_reactions s) = kv s" "kv (tick_raise_hand E now s) = kv s"
  "kv (tick_mute_request s) = kv s" "kv (tick_reliable_stream E now s) = kv s"
  by (simp_all add: tick_heartbeat_def tick_stats_def tick_audio_levels_def tick_membership_proof_def
      tick_reactions_def tick_raise_hand_def tick_mute_request_def tick_reliable_stream_def Let_def kv_distrib
      split: prod.split option.split)

lemma kv_tick_bwe [simp]: "kv (Group_Handlers.tick_bwe E now s) = kv s"
  by (simp add: Group_Handlers.tick_bwe_def split: bwe_check_state.split)

lemma kv_tick_decryption_errors [simp]: "kv (tick_decryption_errors E now s) = kv s"
  using sender_state_error_report [of now "gs_crypto s"]
  by (auto simp: tick_decryption_errors_def Let_def kv_crypto simp del: sender_state_error_report
      split: prod.split option.split)

lemma kv_speaking_notification:
  "kv (case ev of Some e \<Rightarrow> if b e then s
         else (observe (HandleSpeakingNotification e) s)\<lparr>last_speaking_notification := Some e\<rparr> | None \<Rightarrow> s) = kv s"
  by (cases ev) simp_all

lemma kv_tick_speaking [simp]: "kv (tick_speaking E now s) = kv s"
  by (simp only: tick_speaking_def Let_def if_distrib [of kv] kv_times kv_speaking_notification if_cancel)

lemma kv_tick [simp]: "kv (Group_Handlers.tick E now s) = kv s"
  by (simp add: Group_Handlers.tick_def Let_def)

lemma kv_connect [simp]: "kv (connect E now s) = kv s"
  by (simp add: connect_def Let_def)

text \<open>What is received.\<close>

lemma kv_leaving_received [simp]: "kv (handle_leaving_received E now u d s) = kv s"
  by (simp add: handle_leaving_received_def Let_def kv_devices split: option.split)

lemma kv_add_media_receive_key [simp]:
  "kv (add_media_receive_key_or_store_for_later E user d counter secret s) = kv s"
  by (simp add: add_media_receive_key_or_store_for_later_def Let_def kv_def observe_def split: option.split)

lemma kv_signaling [simp]: "kv (on_signaling_message_received E now sender m s) = kv s"
  by (simp add: on_signaling_message_received_def Let_def kv_distrib split: option.split)

lemma kv_heartbeat_received [simp]: "kv (handle_heartbeat_received d t hb s) = kv s"
proof (cases "find_by_demux_id d (gs_remote_devices s)")
  case (Some rd)
  then have put: "rd_user_id rd' = rd_user_id rd \<Longrightarrow> gs_remote_devices s' = gs_remote_devices s \<Longrightarrow>
      kv (s'\<lparr>gs_remote_devices := update_device d (\<lambda>_. rd') (gs_remote_devices s')\<rparr>) = kv s'" for rd' s'
    by (simp add: kv_devices users_put_device)
  show ?thesis
    by (simp add: handle_heartbeat_received_def Some Let_def put kv_distrib split: option.split)
qed (simp add: handle_heartbeat_received_def)

lemma kv_received [simp]:
  "kv (reaction_received d value s) = kv s" "kv (remote_mute_request_received source target s) = kv s"
  "kv (speaker_received now t d s) = kv s" "kv (raised_hands_received hands n s) = kv s"
  by (simp_all add: reaction_received_def remote_mute_request_received_def speaker_received_def
      raised_hands_received_def Let_def kv_devices split: option.split)

lemma kv_forwarding [simp]: "kv (forwarding_video_received ds hs s) = kv s"
  by (simp add: forwarding_video_received_def Let_def kv_def observe_def comp_def)

lemma kv_video_frame_height [simp]: "kv (video_frame_height d height s) = kv s"
  by (auto simp: video_frame_height_def Let_def kv_devices users_put_device split: option.split)

lemma kv_endorsements [simp]:
  "kv (fst (validate_and_cache_endorsements E i expiration rwc ciphertexts now s)) = kv s"
  "kv (fst (handle_send_endorsements_response_inner E i now' response s)) = kv s"
  by (simp_all add: validate_and_cache_endorsements_def handle_send_endorsements_response_inner_def Let_def
      split: option.split prod.split)

lemma kv_sfu_messages [simp]:
  "kv (handle_sfu_to_device_inner now header m s) = kv s" "kv (handle_sfu_to_device now header m s) = kv s"
proof -
  have speaker: "kv (case a of Some (Some d) \<Rightarrow> gc_send (SpeakerReceived t d) s | _ \<Rightarrow> s) = kv s" for a t and s :: "'a group_state"
    by (simp split: option.split)
  show *: "kv (handle_sfu_to_device_inner now header m s) = kv s" for s :: "'a group_state"
    by (simp add: handle_sfu_to_device_inner_def Let_def kv_optional speaker)
  show "kv (handle_sfu_to_device now header m s) = kv s"
    by (simp add: handle_sfu_to_device_def * split: option.split)
qed

lemma kv_ready_packets [simp]: "kv (handle_ready_packets E now packets s) = kv s"
  by (induction packets arbitrary: s) (auto split: option.split)

lemma kv_receive_reliably [simp]: "kv (receive_reliably E now header h m s) = kv s"
  by (simp add: receive_reliably_def split: option.split sum.split)

lemma kv_device_to_device [simp]: "kv (handle_device_to_device d t m s) = kv s"
  by (simp add: handle_device_to_device_def Let_def kv_optional)

lemma kv_rtp_received [simp]: "kv (Group_Receive.handle_rtp_received E now header payload s) = kv s"
  using kv_decrypt_data [of E now "saturating_sub32 (ssrc header) RTP_DATA_THROUGH_SFU_SSRC_OFFSET" payload s]
  by (auto simp: Group_Receive.handle_rtp_received_def Let_def simp del: kv_decrypt_data
      split: option.split prod.split sum.split)

lemma kv_video_frame [simp]: "kv (handle_incoming_video_frame d height s) = kv s"
  by (simp add: handle_incoming_video_frame_def Let_def)

lemma kv_ask [simp]: "kv (gc_ask r s) = kv s"
  by (simp add: gc_ask_def split: group_request.split)

section \<open>Operations that change the view\<close>

text \<open>Leaving and ending change the join state alone.\<close>

definition left_call :: "key_view \<Rightarrow> key_view \<Rightarrow> bool" where
  "left_call v v' = (v' = v \<or> v' = v\<lparr>kv_join := NotJoined None\<rparr>)"

lemma kv_set_join_state:
  "js \<noteq> Joining \<Longrightarrow> kv (set_join_state_and_notify_observer js s) = (kv s)\<lparr>kv_join := js\<rparr>"
  by (simp add: set_join_state_and_notify_observer_def kv_def observe_def)

lemma kv_leave_inner: "left_call (kv s) (kv (leave_inner E now s))"
proof -
  define s1 where "s1 = (let s = cancel_full_group_ring_if_needed s;
      errors = stats_entries (error_stats (ctx_error_tracker (gs_crypto s)))
    in if errors \<noteq> [] then send_decryption_stats_inner E now errors s else s)"
  have s1: "kv s1 = kv s"
    by (simp add: s1_def Let_def)
  have "leave_inner E now s = (case gs_join_state s1 of NotJoined _ \<Rightarrow> s1 | js \<Rightarrow>
      let s = with_pc (\<lambda>p. gp_set_incoming_media_enabled (ge_pc E) False
                (gp_set_outgoing_media_enabled (ge_pc E) False p)) s1;
          s = (case local_demux_id js of
                 Some d \<Rightarrow> send_leave_to_sfu E (send_leaving_through_sfu_and_over_signaling E d s) | None \<Rightarrow> s);
          s = set_join_state_and_notify_observer (NotJoined None) (gc_release_busy s)
      in s\<lparr>next_heartbeat_time := None, next_stats_time := None, next_audio_levels_time := None,
           next_speaking_audio_levels_time := None, next_membership_proof_request_time := None\<rparr>)"
    by (simp only: leave_inner_def s1_def Let_def)
  then show ?thesis
    by (cases "gs_join_state s1") (simp_all add: Let_def left_call_def kv_set_join_state gc_release_busy_def s1)
qed

lemma kv_end_call: "left_call (kv s) (kv (end_call E now reason s))"
  using kv_leave_inner [of s E now]
  by (cases "gs_join_state s") (auto simp: end_call_def Let_def left_call_def)

lemma key_tasks_stop [simp]: "key_tasks (stop_all_without_joining a) = key_tasks a"
  by (simp add: stop_all_without_joining_def stop_actor_def send_task_def key_tasks_def immediate_def List.map_filter_def)

lemma kv_stop [simp]: "kv (s\<lparr>gs_actor := stop_all_without_joining (gs_actor s)\<rparr>) = kv s"
  by (simp add: kv_def)

lemma kv_finish_end [simp]: "kv (finish_end E reason s) = kv s"
  by (simp add: finish_end_def Let_def)

section \<open>A ledger of keys\<close>

text \<open>
  The operations on keys, as operations on views: a ledger of who was sent what. The client's
  operations refine them.
\<close>

abbreviation in_call :: "join_state \<Rightarrow> bool" where
  "in_call js \<equiv> local_demux_id js \<noteq> None"

definition lg_send :: "user_id list \<Rightarrow> bytes \<Rightarrow> key_view \<Rightarrow> key_view" where
  "lg_send users k v = v\<lparr>kv_sent := kv_sent v \<union> set users \<times> {k}\<rparr>"

definition lg_rotate :: "('pc, 'sd) group_env \<Rightarrow> key_view \<Rightarrow> key_view" where
  "lg_rotate E v = (case kv_rotation v of
     KeyPending k _ \<Rightarrow> v\<lparr>kv_rotation := KeyPending k True\<rparr>
   | KeyApplied \<Rightarrow>
       let k = random_secret E (kv_drawn v);
           v = (if in_call (kv_join v) then lg_send (kv_users v) k v else v)
       in v\<lparr>kv_drawn := kv_drawn v + 1, kv_rotation := KeyPending k False,
            kv_tasks := (if kv_ended v then kv_tasks v else add_mset k (kv_tasks v))\<rparr>)"

definition lg_apply :: "('pc, 'sd) group_env \<Rightarrow> bytes \<Rightarrow> key_view \<Rightarrow> key_view" where
  "lg_apply E k v =
     (let again = (case kv_rotation v of KeyPending _ again \<Rightarrow> again | KeyApplied \<Rightarrow> False);
          v = v\<lparr>kv_secret := k, kv_rotation := KeyApplied\<rparr>
      in if again then lg_rotate E v else v)"

definition lg_advance :: "('pc, 'sd) group_env \<Rightarrow> user_id list \<Rightarrow> key_view \<Rightarrow> key_view" where
  "lg_advance E users v =
     (let v = v\<lparr>kv_secret := ratchet_secret (ge_prims E) (kv_secret v)\<rparr>
      in if in_call (kv_join v) then lg_send users (kv_secret v) v else v)"

definition lg_send_pending :: "user_id list \<Rightarrow> key_view \<Rightarrow> key_view" where
  "lg_send_pending users v = (case kv_rotation v of
     KeyPending k _ \<Rightarrow> if in_call (kv_join v) then lg_send users k v else v
   | KeyApplied \<Rightarrow> v)"

definition lg_update :: "('pc, 'sd) group_env \<Rightarrow> user_id list \<Rightarrow> bool \<Rightarrow> key_view \<Rightarrow> key_view" where
  "lg_update E users user_removed v =
     (let v = (if users \<noteq> [] then lg_send_pending users (lg_advance E users v) else v)
      in if user_removed then lg_rotate E v else v)"

lemma kv_send_to_each_key:
  "key_of_message m = Some k \<Longrightarrow> kv (send_to_each m us s) = lg_send us k (kv s)"
proof (induction us arbitrary: s)
  case (Cons u us)
  have "send_to_each m (u # us) s = send_to_each m us (observe (SendSignalingMessage u m Droppable) s)"
    by (simp add: send_to_each_def)
  then show ?case
    using Cons by (simp add: lg_send_def kv_observe del: kv_sel)
qed (simp add: send_to_each_def lg_send_def)

lemma kv_send_to_self_key:
  "key_of_message m = Some k \<Longrightarrow> kv (send_to_self m u s) = lg_send (case u of Some u \<Rightarrow> [u] | None \<Rightarrow> []) k (kv s)"
  by (simp add: send_to_self_def lg_send_def kv_observe split: option.split)

lemma find_all_length: "find_all m ks = Some vs \<Longrightarrow> length vs = length ks"
  by (induction ks arbitrary: vs) (auto split: option.splits)

lemma endorsed_users:
  assumes "get_endorsements_for_users epoch users known = Some (expiration, found)"
  shows "fst ` set found = set users"
proof -
  have "map fst found = users"
    using assms by (auto simp: get_endorsements_for_users_def find_all_length split: option.splits if_splits)
  then show ?thesis
    by (metis list.set_map)
qed

lemma take_self_users:
  "take_self self us = (u, others) \<Longrightarrow> set us = set others \<union> (case u of Some u \<Rightarrow> {u} | None \<Rightarrow> {})"
  by (auto simp: take_self_def split: option.splits if_splits)

lemma kv_send_key [simp]:
  "kv (send_media_send_key_to_users_over_signaling us d counter k expiration s) = lg_send us k (kv s)"
proof (cases "us = []")
  case False
  obtain self others where t: "take_self (gs_self_uuid s) us = (self, others)"
    by fastforce
  define message where "message = media_key_message (gs_group_id s) d counter k"
  define s1 where "s1 = (if gs_kind s = SignalGroup \<and> 1 < length others
      then observe (SendSignalingMessageToGroup (gs_group_id s) message Droppable others) s
      else case (gs_kind s, gs_endorsements s) of
        (CallLink, Some endorsement_cache) \<Rightarrow>
          (case get_endorsements_for_users expiration others endorsement_cache of
             Some (expiration, found) \<Rightarrow> observe (SendSignalingMessageToAdhocGroup message Droppable expiration found) s
           | None \<Rightarrow> send_to_each message others s)
      | _ \<Rightarrow> send_to_each message others s)"
  have key: "key_of_message message = Some k"
    by (simp add: message_def)
  have "kv s1 = lg_send others k (kv s)"
    unfolding s1_def using key
    by (auto simp: kv_send_to_each_key kv_observe lg_send_def dest!: endorsed_users split: option.split group_call_kind.split)
  moreover have "kv (send_media_send_key_to_users_over_signaling us d counter k expiration s)
      = kv (send_to_self message self s1)"
    by (simp only: send_media_send_key_to_users_over_signaling_def t Let_def prod.case False if_False message_def s1_def)
  ultimately show ?thesis
    using take_self_users [OF t] key
    by (simp add: kv_send_to_self_key lg_send_def Sigma_Un_distrib1 Un_assoc split: option.split)
qed (simp add: send_media_send_key_to_users_over_signaling_def lg_send_def)

lemma lg_send_users_of [simp]: "lg_send (users_of rds) k v = lg_send (map rd_user_id rds) k v"
  by (simp add: lg_send_def users_of_def)

lemma kv_resend_media_keys:
  "kv (resend_media_keys s) =
     (if in_call (gs_join_state s) then lg_send (kv_users (kv s)) (kv_secret (kv s)) (kv s) else kv s)"
  by (simp add: resend_media_keys_def send_state_def split: option.split)

lemma kv_advance:
  "kv (advance_media_send_key_and_send_to_users_with_added_devices E users expiration s) = lg_advance E users (kv s)"
proof -
  define ctx where "ctx = fst (advance_send_ratchet (ge_prims E) (gs_crypto s))"
  have sec: "snd (snd (advance_send_ratchet (ge_prims E) (gs_crypto s))) = ratchet_secret (ge_prims E) (kv_secret (kv s))"
    and ctx': "current_secret (ctx_sender_state ctx) = ratchet_secret (ge_prims E) (kv_secret (kv s))"
    by (simp_all add: ctx_def advance_send_ratchet_def send_state_def mut_advance_ratchet_def derive_hmac_key_def
        derive_aes_key_def Let_def kv_def)
  have "kv (s\<lparr>gs_crypto := ctx\<rparr>) = (kv s)\<lparr>kv_secret := ratchet_secret (ge_prims E) (kv_secret (kv s))\<rparr>"
    using ctx' by (simp add: kv_def)
  then show ?thesis
    using sec
    by (auto simp: advance_media_send_key_and_send_to_users_with_added_devices_def lg_advance_def ctx_def Let_def
        split: prod.split option.split)
qed

lemma kv_send_pending:
  "kv (send_pending_media_send_key_to_users_with_added_devices users expiration s) = lg_send_pending users (kv s)"
  by (cases "gs_rotation s"; cases "local_demux_id (gs_join_state s)")
     (simp_all add: send_pending_media_send_key_to_users_with_added_devices_def lg_send_pending_def)

lemma key_tasks_apply [simp]:
  "key_tasks (actor_send_delayed now d (ApplySendKey k expiration) a) =
     (if ended a then key_tasks a else add_mset k (key_tasks a))"
  by (simp add: key_tasks_def actor_send_delayed_def send_task_def delayed_def List.map_filter_def)

lemma kv_rotate:
  "kv (rotate_media_send_key_and_send_to_users_not_removed E now expiration s) = lg_rotate E (kv s)"
proof (cases "gs_rotation s")
  case (KeyPending k again)
  then show ?thesis
    by (simp add: rotate_media_send_key_and_send_to_users_not_removed_def lg_rotate_def kv_def)
next
  case KeyApplied
  define k where "k = random_secret E (gs_drawn s)"
  define s1 where "s1 = s\<lparr>gs_drawn := gs_drawn s + 1\<rparr>"
  define s2 where "s2 = (case local_demux_id (gs_join_state s1) of
      Some d \<Rightarrow> send_media_send_key_to_users_over_signaling (users_of (gs_remote_devices s1)) d 0 k expiration s1
    | None \<Rightarrow> s1)"
  have s1: "kv s1 = (kv s)\<lparr>kv_drawn := gs_drawn s + 1\<rparr>"
    by (simp add: s1_def kv_def)
  have s2: "kv s2 = (if in_call (gs_join_state s) then lg_send (kv_users (kv s)) k (kv s1) else kv s1)"
    by (simp add: s2_def s1 s1_def split: option.split)
  have "rotate_media_send_key_and_send_to_users_not_removed E now expiration s =
      gc_send_delayed now MEDIA_SEND_KEY_ROTATION_DELAY (ApplySendKey k expiration) (s2\<lparr>gs_rotation := KeyPending k False\<rparr>)"
    by (simp only: rotate_media_send_key_and_send_to_users_not_removed_def KeyApplied Let_def
        key_rotation_state.case k_def s1_def s2_def)
  also have "kv \<dots> = (kv s2)\<lparr>kv_rotation := KeyPending k False,
      kv_tasks := (if kv_ended (kv s2) then kv_tasks (kv s2) else add_mset k (kv_tasks (kv s2)))\<rparr>"
    by (simp add: kv_def gc_send_delayed_def)
  finally show ?thesis
    using KeyApplied by (simp only: s2 s1) (simp add: lg_rotate_def lg_send_def Let_def k_def)
qed

lemma kv_apply: "kv (apply_send_key E now k expiration s) = lg_apply E k (kv s)"
proof -
  define s1 where "s1 = s\<lparr>gs_crypto := reset_send_ratchet (ge_prims E) (gs_crypto s) k, gs_rotation := KeyApplied\<rparr>"
  have "kv s1 = (kv s)\<lparr>kv_secret := k, kv_rotation := KeyApplied\<rparr>"
    by (simp add: s1_def kv_def reset_send_ratchet_def sender_state_new_def derive_hmac_key_def derive_aes_key_def)
  then show ?thesis
    by (cases "gs_rotation s") (simp_all add: apply_send_key_def lg_apply_def Let_def kv_rotate flip: s1_def)
qed

section \<open>Peek results\<close>

text \<open>What a peek result does to the view of a client in the call, when it does not end the call.\<close>

definition lg_peek ::
  "('pc, 'sd) group_env \<Rightarrow> user_id list \<Rightarrow> user_id list \<Rightarrow> user_id list \<Rightarrow> join_state \<Rightarrow> key_view \<Rightarrow> key_view" where
  "lg_peek E devices_users added_users new_users js v =
     (lg_update E added_users (list_ex (\<lambda>u. u \<notin> set new_users) (kv_joined v))
        (v\<lparr>kv_users := devices_users, kv_join := js, kv_joined := []\<rparr>))\<lparr>kv_joined := new_users\<rparr>"

lemma rebuild_users: "set (map rd_user_id (rebuild_devices d now old devs)) \<subseteq> set (List.map_filter peek_user_id devs)"
  by (induction devs arbitrary: old) (auto simp: remote_device_state_new_def map_filter_simps split: option.splits)

lemma rebuild_users_unique: "set (map rd_user_id (rebuild_devices d now old (devices info))) \<subseteq> set (unique_users info)"
  using rebuild_users by (simp add: unique_users_def)

lemma kv_update_media_keys:
  "kv (update_media_keys E now expiration added user_gone s)
   = lg_update E (users_of (filter (\<lambda>rd. rd_demux_id rd \<in> set added) (gs_remote_devices s))) user_gone (kv s)"
proof -
  have pending: "kv (fold (\<lambda>(user, d, counter, secret).
      add_media_receive_key_or_store_for_later E user d counter secret) ks s) = kv s" for ks and s :: "'a group_state"
    by (induction ks arbitrary: s) auto
  show ?thesis
    by (simp add: update_media_keys_def Let_def pending lg_update_def kv_rotate kv_send_pending kv_advance
        if_distrib [of kv] del: kv_sel)
qed

lemma leave_inner_join:
  assumes "in_call (gs_join_state s)"
  shows "kv (leave_inner E now s) = (kv s)\<lparr>kv_join := NotJoined None\<rparr>"
proof -
  have *: "gs_join_state (cancel_full_group_ring_if_needed s) = gs_join_state s"
    "gs_join_state (send_decryption_stats_inner E now errors s') = gs_join_state s'" for errors s'
    using kv_rings(1) [of s] kv_messages(5) [of E now errors s'] by (metis kv_sel(8))+
  show ?thesis
    using assms
    by (cases "gs_join_state s") (simp_all add: leave_inner_def Let_def * kv_set_join_state gc_release_busy_def)
qed

lemma end_call_join:
  "in_call (gs_join_state s) \<Longrightarrow> kv (end_call E now reason s) = (kv s)\<lparr>kv_join := NotJoined None\<rparr>"
  by (cases "gs_join_state s") (simp_all add: end_call_def Let_def leave_inner_join)

lemma joined_fields [simp]:
  "gs_remote_devices (on_client_joined E s) = gs_remote_devices s" "gs_join_state (on_client_joined E s) = gs_join_state s"
  "gs_remote_devices (set_join_state_and_notify_observer js s) = gs_remote_devices s"
  "gs_join_state (set_join_state_and_notify_observer js s) = js"
  by (simp_all add: on_client_joined_def with_pc_def set_join_state_and_notify_observer_def observe_def split: prod.split)

lemma kv_same_join: "kv s \<lparr>kv_join := gs_join_state s\<rparr> = kv s"
  by (simp add: kv_def)

lemma kv_follow_participants:
  assumes "local_demux_id (gs_join_state s) = Some d"
  obtains js where "in_call js"
    and "kv (follow_participants E now expiration d participant new_ids added changed user_gone s)
      = lg_update E (users_of (filter (\<lambda>rd. rd_demux_id rd \<in> set added) (gs_remote_devices s))) user_gone
          ((kv s)\<lparr>kv_join := js\<rparr>)"
proof -
  define s1 where "s1 = (if changed then observe (HandleRemoteDevicesChanged (gs_remote_devices s) DemuxIdsChanged) s else s)"
  define s2 where "s2 = (case gs_join_state s1 of
      Pending _ \<Rightarrow> if participant then on_client_joined E (set_join_state_and_notify_observer (Joined d) s1) else s1
    | _ \<Rightarrow> s1)"
  have s1: "kv s1 = kv s" "gs_remote_devices s1 = gs_remote_devices s"
    by (simp_all add: s1_def)
  have js1: "gs_join_state s1 = gs_join_state s"
    using s1(1) by (metis kv_sel(8))
  define js where "js = gs_join_state s2"
  have s2: "kv s2 = (kv s)\<lparr>kv_join := js\<rparr>" "gs_remote_devices s2 = gs_remote_devices s" "in_call js"
    using assms by (cases "gs_join_state s"; simp add: s2_def js_def js1 s1 kv_set_join_state kv_same_join)+
  have ring: "kv (case rs of HasSentRing _ \<Rightarrow> if b then s\<lparr>gs_ring_state := rs'\<rparr> else s | _ \<Rightarrow> s) = kv s"
    for rs rs' b and s :: "'a group_state"
    by (cases rs) simp_all
  have "kv (follow_participants E now expiration d participant new_ids added changed user_gone s)
      = kv (if participant then set_send_rates_inner E now (compute_send_rates (length new_ids)
              (hb_sharing_screen (gs_outgoing_heartbeat (update_media_keys E now expiration added user_gone s2)) = Some True))
              (update_media_keys E now expiration added user_gone s2)
            else update_media_keys E now expiration added user_gone s2)"
    by (simp only: follow_participants_def Let_def ring s1_def s2_def)
  then have "kv (follow_participants E now expiration d participant new_ids added changed user_gone s)
      = kv (update_media_keys E now expiration added user_gone s2)"
    by simp
  then show thesis
    using s2 by (intro that [of js]) (simp_all add: kv_update_media_keys)
qed

lemma kv_update_participants:
  assumes "local_demux_id (gs_join_state s) = Some d"
    and r: "update_participants E now expiration d keys user_gone info s = (s', ok)"
  obtains us added js where "set added \<subseteq> set us" "set us \<subseteq> set (unique_users info)"
    and "\<not> ok \<Longrightarrow> kv s' = (kv s)\<lparr>kv_users := us, kv_join := NotJoined None\<rparr>"
    and "ok \<Longrightarrow> in_call js" "ok \<Longrightarrow> kv s' = lg_update E added user_gone ((kv s)\<lparr>kv_users := us, kv_join := js\<rparr>)"
proof -
  define s1 where "s1 = s\<lparr>gs_remote_devices := rebuild_devices d now (device_map (gs_remote_devices s)) (devices info)\<rparr>"
  define old_ids where "old_ids = demux_id_set (gs_remote_devices s)"
  define new_ids where "new_ids = demux_id_set (gs_remote_devices s1)"
  define added where "added = filter (\<lambda>i. i \<notin> set old_ids) new_ids"
  define changed where "changed = (set old_ids \<noteq> set new_ids)"
  define us where "us = map rd_user_id (gs_remote_devices s1)"
  obtain s2 res where r2: "(if changed then update_remote_transceivers E d keys new_ids added s1 else (s1, Ok ())) = (s2, res)"
    by fastforce
  have s1: "kv s1 = (kv s)\<lparr>kv_users := us\<rparr>"
    by (simp add: s1_def kv_def us_def)
  have "kv (fst (if changed then update_remote_transceivers E d keys new_ids added s1 else (s1, Ok ()))) = kv s1"
    by simp
  then have s2: "kv s2 = (kv s)\<lparr>kv_users := us\<rparr>"
    by (simp add: r2 s1)
  have js2: "gs_join_state s2 = gs_join_state s" and us2: "map rd_user_id (gs_remote_devices s2) = us"
    using arg_cong [OF s2, of kv_join] arg_cong [OF s2, of kv_users] by simp_all
  obtain js where js: "in_call js"
    "kv (follow_participants E now expiration d (list_ex (\<lambda>dev. peek_demux_id dev = d) (devices info)) new_ids added
        changed user_gone s2)
      = lg_update E (users_of (filter (\<lambda>rd. rd_demux_id rd \<in> set added) (gs_remote_devices s2))) user_gone
          ((kv s2)\<lparr>kv_join := js\<rparr>)"
    using kv_follow_participants [of s2 d] assms(1) js2 by metis
  have split: "(s', ok) = (case (s2, res) of (s, Err _) \<Rightarrow> (end_call E now FailedToUpdatePeerConnection s, False)
       | (s, Ok _) \<Rightarrow> (follow_participants E now expiration d (list_ex (\<lambda>dev. peek_demux_id dev = d) (devices info))
                        new_ids added changed user_gone s, True))"
    unfolding r2 [symmetric] r [symmetric]
    by (simp only: update_participants_def Let_def s1_def old_ids_def new_ids_def added_def changed_def)
  show thesis
  proof (rule that [of "users_of (filter (\<lambda>rd. rd_demux_id rd \<in> set added) (gs_remote_devices s2))" us js])
    show "set (users_of (filter (\<lambda>rd. rd_demux_id rd \<in> set added) (gs_remote_devices s2))) \<subseteq> set us"
      using us2 by (auto simp: users_of_def)
    show "set us \<subseteq> set (unique_users info)"
      using rebuild_users_unique by (simp add: us_def s1_def)
    show "kv s' = (kv s)\<lparr>kv_users := us, kv_join := NotJoined None\<rparr>" if "\<not> ok"
      using split that assms(1) by (cases res) (auto simp: end_call_join js2 s2)
    show "in_call js"
      by (rule js)
    show "kv s' = lg_update E (users_of (filter (\<lambda>rd. rd_demux_id rd \<in> set added) (gs_remote_devices s2))) user_gone
        ((kv s)\<lparr>kv_users := us, kv_join := js\<rparr>)" if "ok"
      using split that by (cases res) (auto simp: js(2) s2)
  qed
qed

definition negotiated :: "dhe_state \<Rightarrow> bool" where
  "negotiated dhe = (case dhe of Negotiated _ \<Rightarrow> True | _ \<Rightarrow> False)"

lemma lg_update_joined:
  "(lg_update E added user_gone (v\<lparr>kv_joined := ms, kv_users := us, kv_join := js\<rparr>))\<lparr>kv_joined := ms'\<rparr>
   = lg_update E added user_gone (v\<lparr>kv_users := us, kv_join := js, kv_joined := ms'\<rparr>)"
  by (cases v) (simp add: lg_update_def lg_rotate_def lg_send_pending_def lg_advance_def lg_send_def Let_def split: key_rotation_state.split)

lemma kv_set_peek_result:
  fixes s :: "'pc group_state"
  defines "v \<equiv> kv s"
  obtains (failed) "kv (set_peek_result_inner E now r expiration s) = v"
  | (outside) ms where "\<not> (in_call (kv_join v) \<and> negotiated (kv_dhe v))"
      "kv (set_peek_result_inner E now r expiration s) = v\<lparr>kv_joined := ms\<rparr>"
  | (left) us where "in_call (kv_join v)" "kv (set_peek_result_inner E now r expiration s) = v\<lparr>kv_users := us, kv_joined := [], kv_join := NotJoined None\<rparr>"
  | (updated) us added ms js where "in_call (kv_join v)" "negotiated (kv_dhe v)" "in_call js" "set added \<subseteq> set us" "set us \<subseteq> set ms"
      "kv (set_peek_result_inner E now r expiration s) =
         lg_update E added (\<not> set (kv_joined v) \<subseteq> set ms) (v\<lparr>kv_users := us, kv_join := js, kv_joined := ms\<rparr>)"
proof (cases r)
  case (Inl e)
  then show thesis
    using failed by (simp add: set_peek_result_inner_def v_def)
next
  case (Inr info)
  define again where "again = (case gs_request_state s of Requested again _ \<Rightarrow> again | _ \<Rightarrow> False)"
  define gone where "gone = list_ex (\<lambda>u. u \<notin> set (unique_users info)) (gs_joined_members s)"
  define s0 where "s0 = s\<lparr>gs_request_state := Updated now, gs_joined_members := []\<rparr>"
  define s1 where "s1 = (if gs_last_peek_info s = None \<or> set (gs_joined_members s) \<noteq> set (unique_users info)
      \<or> Option.bind (gs_last_peek_info s) peek_era_id \<noteq> peek_era_id info
      \<or> gs_pending_users_signature s0 \<noteq> pending_signature E info
    then observe (HandlePeekChanged info (unique_users info)) s0 else s0)"
  define finish where "finish = (\<lambda>s :: 'pc group_state.
      let s = s\<lparr>gs_last_peek_info := Some info, gs_joined_members := unique_users info,
                gs_pending_users_signature := pending_signature E info\<rparr>
      in if again then request_remote_devices_as_soon_as_possible E now s else s)"
  have kv0: "kv s1 = v\<lparr>kv_joined := []\<rparr>"
    by (simp add: s1_def s0_def v_def kv_observe)
  have fin: "kv (finish s') = (kv s')\<lparr>kv_joined := unique_users info\<rparr>" for s'
    by (simp add: finish_def Let_def)
  have gone: "gone = (\<not> set (kv_joined v) \<subseteq> set (unique_users info))"
    by (auto simp: gone_def v_def list_ex_iff)
  have eq: "set_peek_result_inner E now r expiration s = (case (case (local_demux_id (gs_join_state s1), gs_dhe_state s1) of
       (Some d, Negotiated keys) \<Rightarrow> update_participants E now expiration d keys gone info s1 | _ \<Rightarrow> (s1, True)) of
     (s, False) \<Rightarrow> s | (s, True) \<Rightarrow> finish s)"
    by (simp only: set_peek_result_inner_def Inr sum.case Let_def again_def gone_def s0_def s1_def finish_def)
  have fields: "gs_join_state s1 = kv_join v" "gs_dhe_state s1 = kv_dhe v"
    using arg_cong [OF kv0, of kv_join] arg_cong [OF kv0, of kv_dhe] by simp_all
  show thesis
  proof (cases "in_call (kv_join v) \<and> negotiated (kv_dhe v)")
    case False
    then have "set_peek_result_inner E now r expiration s = finish s1"
      unfolding eq fields by (auto simp: negotiated_def split: option.splits dhe_state.splits)
    then show thesis
      using outside [OF False] by (simp add: fin kv0)
  next
    case True
    then obtain d keys where d: "local_demux_id (gs_join_state s1) = Some d" "gs_dhe_state s1 = Negotiated keys"
      by (auto simp: fields negotiated_def split: dhe_state.splits)
    obtain s2 ok where r2: "update_participants E now expiration d keys gone info s1 = (s2, ok)"
      by fastforce
    obtain us added js where u: "set added \<subseteq> set us" "set us \<subseteq> set (unique_users info)"
      "\<not> ok \<Longrightarrow> kv s2 = (kv s1)\<lparr>kv_users := us, kv_join := NotJoined None\<rparr>" "ok \<Longrightarrow> in_call js"
      "ok \<Longrightarrow> kv s2 = lg_update E added gone ((kv s1)\<lparr>kv_users := us, kv_join := js\<rparr>)"
      using kv_update_participants [OF d(1) r2] by metis
    show thesis
    proof (cases ok)
      case False
      then show thesis
        using left [of us] u(3) True by (simp add: eq d r2 kv0)
    next
      case ok: True
      have "kv (set_peek_result_inner E now r expiration s)
          = lg_update E added gone (v\<lparr>kv_users := us, kv_join := js, kv_joined := unique_users info\<rparr>)"
        using ok u(5) by (simp add: eq d r2 fin kv0 lg_update_joined)
      then show thesis
        using updated [of js added us "unique_users info"] True u ok by (simp add: gone)
    qed
  qed
qed

end
