(* ===== verification/Group_Example.thy ===== *)
theory Group_Example
  imports Group_Run "HOL-Library.Code_Target_Nat"
begin

text \<open>
  A small call, on which the properties of whole runs are instantiated: a client, the environment it
  runs in, and a run in which it joins a call with two other users, one of whom leaves. The
  environment has simple functions for the libraries: they compute, and satisfy what the properties
  ask of them.
\<close>

section \<open>An environment\<close>

definition ex_pc :: "(unit, unit) group_pc_switches" where
  "ex_pc =
     \<lparr> gp_update_transceivers = \<lambda>_ p. (p, Ok ()), gp_create_offer = \<lambda>p. (p, Ok ()),
       gp_local_description = \<lambda>_ _ _ _ _. Some (), gp_remote_description = \<lambda>_ _ _ _ _. Some (),
       gp_set_local_description = \<lambda>_ p. (p, Ok ()), gp_set_remote_description = \<lambda>_ p. (p, Ok ()),
       gp_add_ice_candidate_from_server = \<lambda>_ _ _ p. (p, Ok ()), gp_receive_rtp = \<lambda>_ _ p. (p, Ok ()),
       gp_send_rtp = \<lambda>_ _ p. (p, Ok ()), gp_set_send_rates = \<lambda>_ p. (p, Ok ()),
       gp_get_audio_levels = \<lambda>_. (0, []), gp_get_last_bandwidth_estimate = \<lambda>_. from_kbps 1000,
       gp_set_outgoing_media_enabled = \<lambda>_ p. p, gp_set_incoming_media_enabled = \<lambda>_ p. p,
       gp_set_audio_recording_enabled = \<lambda>_ p. p, gp_set_audio_playout_enabled = \<lambda>_ p. p,
       gp_configure_audio_encoders = \<lambda>_ p. p, gp_configure_audio_decoders = \<lambda>_ p. p,
       gp_regather_on_all_networks = \<lambda>p. p, gp_close = \<lambda>p. p, gp_get_stats = \<lambda>p. p,
       gp_take_stats_report = \<lambda>p. (p, None), gp_set_collect_raw_stats_report = \<lambda>_ p. p \<rparr>"

text \<open>The body of a response to a peek lists the devices; each belongs to the user of that number.\<close>

definition ex_peek :: "bytes \<Rightarrow> serialized_peek_info" where
  "ex_peek body =
     \<lparr> ser_era_id = Some ''e'', ser_max_devices = None,
       ser_devices = map (\<lambda>b. \<lparr> ser_opaque_user_id = Some (Call_Links.hex_encode [b]), ser_demux_id = 16 * ucast b \<rparr>) body,
       ser_creator = None, ser_pending_clients = [], ser_call_link_state = None \<rparr>"

definition ex_join_response :: serialized_join_response where
  "ex_join_response =
     \<lparr> sj_client_demux_id = 144, sj_server_ips = [V4 [10, 0, 0, 1]], sj_server_port = 10000,
       sj_server_port_tcp = 80, sj_server_port_tls = None, sj_server_hostname = None,
       sj_server_ice_ufrag = ''u'', sj_server_ice_pwd = ''p'', sj_server_dhe_pub_key = [5],
       sj_call_creator = ''01'', sj_era_id = ''e'', sj_client_status = ''ACTIVE'' \<rparr>"

definition ex_codec :: sfu_codec where
  "ex_codec =
     \<lparr> base64_encode = map (\<lambda>b. char_of (unat b)), base64_decode = Some, from_utf8 = (\<lambda>bs. Some (map (\<lambda>b. char_of (unat b)) bs)),
       parse_call_link = (\<lambda>_. None), parse_empty = (\<lambda>_. None), parse_peek_info = (\<lambda>body. Some (ex_peek body)),
       parse_peek_failure = (\<lambda>_. None), parse_join_response = (\<lambda>_. Some ex_join_response),
       join_request_json = (\<lambda>_ _ _ _ _. []) \<rparr>"

text \<open>The \<open>n\<close>-th secret has \<open>n\<close> ones; each derivation puts a zero in front.\<close>

definition ex_prims :: prims where
  "ex_prims = \<lparr> hkdf_expand = (\<lambda>k _ _. 0 # k), aes_keystream = (\<lambda>_ _ n. replicate n 0), hmac_sha256 = (\<lambda>_ _. replicate 32 0) \<rparr>"

definition ex_link_prims :: link_prims where
  "ex_link_prims = \<lparr> lp_hkdf = (\<lambda>_ _ n. replicate n 0), gcm_siv_encrypt = (\<lambda>_ _ p. (p, [])), gcm_siv_decrypt = (\<lambda>_ _ c. Some c) \<rparr>"

definition ex_env :: "(unit, unit) group_env" where
  "ex_env =
     \<lparr> ge_prims = ex_prims, random_secret = (\<lambda>n. replicate n 1), ephemeral_secret = (\<lambda>n. [of_nat n]),
       public_key_of = (\<lambda>k. k), diffie_hellman = (\<lambda>a b. Some (a @ b)), srtp_hkdf = (\<lambda>_ _ n. replicate n 0),
       sha256 = (\<lambda>bs. bs), hash_user = (\<lambda>_. 0), zk_response = (\<lambda>_. None), zk_ciphertext = (\<lambda>_. False),
       ge_pc = ex_pc, ge_sfu_codec = ex_codec, ge_link_prims = ex_link_prims,
       encode_device_to_device = (\<lambda>_. [1]), decode_device_to_device = (\<lambda>_. None),
       encode_device_to_sfu = (\<lambda>_. [2]), decode_sfu_to_device = (\<lambda>_. None), ge_call_sim = False \<rparr>"

section \<open>A run\<close>

definition ex_params :: start_params where
  "ex_params =
     \<lparr> sp_group_id = [7], sp_kind = SignalGroup, sp_sfu_client = sfu_client_new ''https://sfu'' None None None [],
       sp_busy = False, sp_self_uuid = Some [9], sp_assets = Map.empty, sp_ring_id = None,
       sp_audio_levels_interval = None, sp_dred_duration = 0,
       sp_resolver = \<lparr> or_member_resolver = member_map_resolver [], or_call_link_root_key = None,
                       or_endorsement_public_key = None \<rparr>,
       sp_endorsements = None \<rparr>"

definition ex_start :: "unit group_state" where
  "ex_start = the (snd (client_start ex_env 0 ex_params ''f'' ''w'' (Created ())))"

definition ex_members :: "8 word list \<Rightarrow> group_member list" where
  "ex_members = map (\<lambda>b. \<lparr> member_user_id = [b], member_member_id = [b] \<rparr>)"

definition ex_ok :: "bytes \<Rightarrow> http_response option" where
  "ex_ok body = Some \<lparr> resp_status = 200, resp_body = body \<rparr>"

definition gc_run ::
  "('pc, 'sd) group_env \<Rightarrow> (nat \<times> group_input) list \<Rightarrow> 'pc group_state \<Rightarrow> 'pc group_state" where
  "gc_run E = fold (\<lambda>(t, i). gc_step E t i)"

text \<open>
  Joining: the application gives the membership proof and the members, connects and joins; the SFU
  answers the join and then tells that the users 1 and 2 are in the call.
\<close>

definition ex_joining :: "(nat \<times> group_input) list" where
  "ex_joining =
     [(0, RunTask), (1, Ask (SetGroupMembers (ex_members [1, 2, 9]))), (1, RunTask),
      (2, Ask (SetMembershipProof [58])), (2, RunTask), (3, Ask Connect), (3, RunTask), (3, RunTask),
      (4, Ask Join), (4, RunTask), (5, ReceiveHttp 1 (ex_ok [])), (5, RunTask),
      (6, ReceiveHttp 0 (ex_ok [1, 2, 9])), (6, RunTask)]"

text \<open>Then the members of the group change, the client peeks again and finds that user 1 has left.\<close>

definition ex_leaving :: "(nat \<times> group_input) list" where
  "ex_leaving =
     [(7, Ask (SetGroupMembers (ex_members [1, 2, 3, 9]))), (7, RunTask),
      (8, ReceiveHttp 2 (ex_ok [2, 9])), (8, RunTask)]"

definition ex_end :: "unit group_state" where
  "ex_end = gc_run ex_env (ex_joining @ ex_leaving) ex_start"

section \<open>Facts\<close>

lemma gc_reach_run:
  assumes "gc_reach E s0 ins t s" "sorted (t # map fst tis)"
  shows "gc_reach E s0 (ins @ map snd tis) (last (t # map fst tis)) (gc_run E tis s)"
  using assms
proof (induction tis arbitrary: ins t s)
  case (Cons ti tis)
  have "gc_reach E s0 (ins @ [snd ti]) (fst ti) (gc_step E (fst ti) (snd ti) s)"
    using Cons.prems by (intro gc_reach_step) auto
  then show ?case
    using Cons.IH [of "ins @ [snd ti]" "fst ti"] Cons.prems by (simp add: gc_run_def split_beta)
qed (simp add: gc_run_def)

lemma ex_started: "client_start ex_env 0 ex_params ''f'' ''w'' (Created ()) = ([], Some ex_start)"
  by (simp add: ex_start_def client_start_def stream_with_capacity_limit_def RELIABLE_RTP_BUFFER_SIZE_def
      with_capacity_limit_def INITIAL_SEQNUM_def INITIAL_ACKNUM_def)

lemma ex_reached: "gc_reach ex_env ex_start (map snd (ex_joining @ ex_leaving)) 8 ex_end"
  using gc_reach_run [OF gc_reach_start, of 0 "ex_joining @ ex_leaving" ex_env ex_start]
  by (simp add: ex_end_def ex_joining_def ex_leaving_def)

end
