(* ===== verification/Group_Secrecy.thy ===== *)
theory Group_Secrecy
  imports Group_Keys Group_Example Actor_Tasks
begin

text \<open>
  The invariant of the ledger of media keys, its preservation by everything a group call client
  does, and what follows: users that have left a call do not hold the key in use.
\<close>

section \<open>The invariant of the ledger\<close>

text \<open>
  Keys are named by the number of the secret that was drawn and how often it was ratcheted. Names
  up to \<open>B\<close> name different keys; a run has used names up to \<open>N\<close>.
\<close>

definition holders :: "('pc, 'sd) group_env \<Rightarrow> nat \<Rightarrow> key_view \<Rightarrow> nat \<Rightarrow> user_id set" where
  "holders E B v i = {u. \<exists>n \<le> B. (u, media_key_at E i n) \<in> kv_sent v}"

definition rotation_ok :: "('pc, 'sd) group_env \<Rightarrow> nat \<Rightarrow> key_view \<Rightarrow> nat \<Rightarrow> bool" where
  "rotation_ok E B v c = (case kv_rotation v of
     KeyApplied \<Rightarrow> kv_tasks v = {#}
   | KeyPending k again \<Rightarrow> (\<exists>p. k = media_key_at E p 0 \<and> p < kv_drawn v \<and> p \<noteq> c \<and> kv_tasks v \<subseteq># {#k#}
        \<and> (\<forall>u n. n \<le> B \<longrightarrow> (u, media_key_at E p n) \<in> kv_sent v \<longrightarrow> n = 0)))"

text \<open>The key in use is \<open>m\<close> ratchets after the secret \<open>c\<close>; nothing beyond it was sent.\<close>

definition sent_ok :: "('pc, 'sd) group_env \<Rightarrow> nat \<Rightarrow> key_view \<Rightarrow> nat \<Rightarrow> nat \<Rightarrow> bool" where
  "sent_ok E N v c m = (\<forall>u k. (u, k) \<in> kv_sent v \<longrightarrow>
     (\<exists>i n. k = media_key_at E i n \<and> i < kv_drawn v \<and> n \<le> N \<and> (i = c \<longrightarrow> n \<le> m)))"

definition ledger_ok :: "('pc, 'sd) group_env \<Rightarrow> nat \<Rightarrow> nat \<Rightarrow> key_view \<Rightarrow> nat \<Rightarrow> nat \<Rightarrow> bool" where
  "ledger_ok E B N v c m =
     (kv_secret v = media_key_at E c m \<and> c < kv_drawn v \<and> kv_drawn v \<le> Suc N \<and> m \<le> N \<and> N \<le> B
      \<and> rotation_ok E B v c \<and> sent_ok E N v c m)"

definition members_only :: "('pc, 'sd) group_env \<Rightarrow> nat \<Rightarrow> key_view \<Rightarrow> nat \<Rightarrow> bool" where
  "members_only E B v c =
     (in_call (kv_join v) \<longrightarrow> set (kv_users v) \<subseteq> set (kv_joined v)
        \<and> (case kv_rotation v of
             KeyApplied \<Rightarrow> holders E B v c \<subseteq> set (kv_joined v)
           | KeyPending k again \<Rightarrow> again \<or> {u. (u, k) \<in> kv_sent v} \<subseteq> set (kv_joined v)))"

definition quiet :: "key_view \<Rightarrow> bool" where
  "quiet v = (kv_sent v = {} \<and> kv_users v = [] \<and> kv_rotation v = KeyApplied)"

definition phase_ok :: "key_view \<Rightarrow> bool" where
  "phase_ok v =
     ((kv_joins v = 0 \<longrightarrow> (\<exists>r. kv_join v = NotJoined r))
      \<and> (kv_joins v = 0 \<or> kv_join v = Joining \<or> in_call (kv_join v) \<and> \<not> negotiated (kv_dhe v) \<longrightarrow> quiet v))"

definition keys_inv :: "('pc, 'sd) group_env \<Rightarrow> nat \<Rightarrow> nat \<Rightarrow> key_view \<Rightarrow> bool" where
  "keys_inv E B N v = (kv_joins v \<le> 1 \<longrightarrow> (\<exists>c m. ledger_ok E B N v c m \<and> members_only E B v c) \<and> phase_ok v)"

lemma keys_apartD:
  assumes "keys_apart E B" "media_key_at E i m = media_key_at E j n" "i \<le> B" "j \<le> B" "m \<le> B" "n \<le> B"
  shows "i = j \<and> m = n"
  using assms unfolding keys_apart_def by blast

text \<open>What a key with a small name is, when it was sent.\<close>

lemma sent_name:
  assumes "keys_apart E B" "ledger_ok E B N v c m" "(u, media_key_at E i n) \<in> kv_sent v" "i \<le> B" "n \<le> B"
  shows "i < kv_drawn v \<and> n \<le> N \<and> (i = c \<longrightarrow> n \<le> m)"
proof -
  obtain i' n' where *: "media_key_at E i n = media_key_at E i' n'" "i' < kv_drawn v" "n' \<le> N" "i' = c \<longrightarrow> n' \<le> m"
    using assms(2,3) unfolding ledger_ok_def sent_ok_def by blast
  moreover have "i' \<le> B" "n' \<le> B"
    using assms(2) * by (simp_all add: ledger_ok_def)
  ultimately show ?thesis
    using keys_apartD [OF assms(1) *(1)] assms(4,5) by simp
qed

lemma sent_okI:
  "(\<And>u k. (u, k) \<in> kv_sent v \<Longrightarrow> \<exists>i n. k = media_key_at E i n \<and> i < kv_drawn v \<and> n \<le> N \<and> (i = c \<longrightarrow> n \<le> m))
     \<Longrightarrow> sent_ok E N v c m"
  by (simp add: sent_ok_def)

lemma sent_okE:
  assumes "sent_ok E N v c m" "(u, k) \<in> kv_sent v"
  obtains i n where "k = media_key_at E i n" "i < kv_drawn v" "n \<le> N" "i = c \<longrightarrow> n \<le> m"
  using assms unfolding sent_ok_def by blast

lemma ledger_mono:
  assumes "ledger_ok E B N v c m" "N \<le> N'" "N' \<le> B"
  shows "ledger_ok E B N' v c m"
  using assms unfolding ledger_ok_def sent_ok_def by (meson le_trans Suc_le_mono)

section \<open>Steps of the ledger\<close>

lemma lg_send_simps [simp]:
  "kv_sent (lg_send us k v) = kv_sent v \<union> set us \<times> {k}" "kv_joins (lg_send us k v) = kv_joins v"
  "kv_secret (lg_send us k v) = kv_secret v" "kv_rotation (lg_send us k v) = kv_rotation v"
  "kv_drawn (lg_send us k v) = kv_drawn v" "kv_users (lg_send us k v) = kv_users v"
  "kv_joined (lg_send us k v) = kv_joined v" "kv_join (lg_send us k v) = kv_join v" "kv_dhe (lg_send us k v) = kv_dhe v"
  "kv_tasks (lg_send us k v) = kv_tasks v" "kv_ended (lg_send us k v) = kv_ended v"
  by (simp_all add: lg_send_def)

lemma ledger_send:
  assumes apart: "keys_apart E B" and ok: "ledger_ok E B N v c m"
    and which: "i = c \<and> n \<le> m \<or> n = 0 \<and> (\<exists>again. kv_rotation v = KeyPending (media_key_at E i 0) again)"
    and i: "i < kv_drawn v"
  shows "ledger_ok E B N (lg_send us (media_key_at E i n) v) c m" (is "ledger_ok E B N ?w c m")
proof -
  have bounds: "i \<le> B" "n \<le> N" "N \<le> B" "m \<le> N"
    using ok which i by (auto simp: ledger_ok_def)
  have "sent_ok E N ?w c m"
  proof (rule sent_okI)
    fix u k assume "(u, k) \<in> kv_sent ?w"
    then consider "(u, k) \<in> kv_sent v" | "k = media_key_at E i n"
      by auto
    then show "\<exists>i n. k = media_key_at E i n \<and> i < kv_drawn ?w \<and> n \<le> N \<and> (i = c \<longrightarrow> n \<le> m)"
    proof cases
      case 1
      then show ?thesis
        using ok by (auto simp: ledger_ok_def elim!: sent_okE)
    next
      case 2
      then show ?thesis
        using which i bounds by (intro exI [of _ i] exI [of _ n]) auto
    qed
  qed
  moreover have "rotation_ok E B ?w c"
  proof (cases "kv_rotation v")
    case (KeyPending k again)
    then obtain p where p: "k = media_key_at E p 0" "p < kv_drawn v" "p \<noteq> c" "kv_tasks v \<subseteq># {#k#}"
      "\<forall>u n. n \<le> B \<longrightarrow> (u, media_key_at E p n) \<in> kv_sent v \<longrightarrow> n = 0"
      using ok by (auto simp: ledger_ok_def rotation_ok_def)
    have "p \<le> B"
      using p(2) ok by (simp add: ledger_ok_def)
    have "n' = 0" if "n' \<le> B" "media_key_at E p n' = media_key_at E i n" for n'
      using keys_apartD [OF apart that(2) \<open>p \<le> B\<close> bounds(1) that(1)] bounds which p(3) by auto
    then show ?thesis
      using KeyPending p by (auto simp: rotation_ok_def intro!: exI [of _ p])
  qed (use ok in \<open>simp add: ledger_ok_def rotation_ok_def\<close>)
  ultimately show ?thesis
    using ok by (simp add: ledger_ok_def)
qed

lemma ledger_advance:
  assumes "ledger_ok E B N v c m" "N < B"
  shows "ledger_ok E B (Suc N) (v\<lparr>kv_secret := ratchet_secret (ge_prims E) (kv_secret v)\<rparr>) c (Suc m)"
    (is "ledger_ok E B (Suc N) ?w c (Suc m)")
proof -
  have "sent_ok E (Suc N) v c (Suc m)"
    using assms unfolding ledger_ok_def sent_ok_def by (meson le_SucI)
  then have "sent_ok E (Suc N) ?w c (Suc m)"
    by (simp add: sent_ok_def)
  moreover have "rotation_ok E B ?w c = rotation_ok E B v c"
    by (cases "kv_rotation v") (simp_all add: rotation_ok_def)
  ultimately show ?thesis
    using assms by (simp add: ledger_ok_def)
qed

lemma lg_rotate_pending:
  "kv_rotation v = KeyPending k again \<Longrightarrow> lg_rotate E v = v\<lparr>kv_rotation := KeyPending k True\<rparr>"
  by (simp add: lg_rotate_def)

lemma lg_rotate_applied:
  assumes "kv_rotation v = KeyApplied"
  shows "kv_sent (lg_rotate E v) = kv_sent v \<union> (if in_call (kv_join v) then set (kv_users v) \<times> {random_secret E (kv_drawn v)} else {})"
    "kv_rotation (lg_rotate E v) = KeyPending (random_secret E (kv_drawn v)) False" "kv_drawn (lg_rotate E v) = Suc (kv_drawn v)"
    "kv_secret (lg_rotate E v) = kv_secret v" "kv_joins (lg_rotate E v) = kv_joins v"
    "kv_tasks (lg_rotate E v) = (if kv_ended v then kv_tasks v else add_mset (random_secret E (kv_drawn v)) (kv_tasks v))"
    "kv_joined (lg_rotate E v) = kv_joined v" "kv_users (lg_rotate E v) = kv_users v"
    "kv_join (lg_rotate E v) = kv_join v" "kv_dhe (lg_rotate E v) = kv_dhe v"
  using assms by (simp_all add: lg_rotate_def Let_def)

text \<open>Nobody has the next secret.\<close>

lemma next_unsent:
  assumes "keys_apart E B" "ledger_ok E B N v c m" "N < B" "n \<le> B"
  shows "(u, media_key_at E (kv_drawn v) n) \<notin> kv_sent v"
  using sent_name [OF assms(1,2), where u = u and i = "kv_drawn v" and n = n] assms(2-4) by (auto simp: ledger_ok_def)

lemma ledger_rotate:
  assumes "keys_apart E B" "ledger_ok E B N v c m" "N < B"
  shows "ledger_ok E B (Suc N) (lg_rotate E v) c m"
proof (cases "kv_rotation v")
  case (KeyPending k again)
  moreover have "ledger_ok E B (Suc N) v c m"
    using assms(2,3) by (simp add: ledger_mono)
  ultimately show ?thesis
    by (auto simp: lg_rotate_pending ledger_ok_def rotation_ok_def sent_ok_def)
next
  case KeyApplied
  note r = lg_rotate_applied [OF KeyApplied, of E]
  have d: "c < kv_drawn v" "kv_drawn v \<le> B"
    using assms(2,3) by (auto simp: ledger_ok_def)
  have same: "n = 0" if "n \<le> B" "media_key_at E (kv_drawn v) n = random_secret E (kv_drawn v)" for n
    using keys_apartD [OF assms(1), where i = "kv_drawn v" and m = n and j = "kv_drawn v" and n = 0] d that by simp
  have "rotation_ok E B (lg_rotate E v) c"
    using assms(2) KeyApplied d same next_unsent [OF assms]
    by (auto simp: rotation_ok_def r ledger_ok_def intro!: exI [of _ "kv_drawn v"])
  moreover have "sent_ok E (Suc N) (lg_rotate E v) c m"
  proof (rule sent_okI)
    fix u k assume k: "(u, k) \<in> kv_sent (lg_rotate E v)"
    show "\<exists>i n. k = media_key_at E i n \<and> i < kv_drawn (lg_rotate E v) \<and> n \<le> Suc N \<and> (i = c \<longrightarrow> n \<le> m)"
    proof (cases "(u, k) \<in> kv_sent v")
      case True
      then show ?thesis
        using assms(2) unfolding ledger_ok_def r by (meson sent_okE le_SucI less_SucI)
    next
      case False
      then show ?thesis
        using k d by (intro exI [of _ "kv_drawn v"] exI [of _ 0]) (auto simp: r split: if_splits)
    qed
  qed
  ultimately show ?thesis
    using assms by (simp add: ledger_ok_def r less_Suc_eq)
qed

lemma ledger_apply:
  assumes "keys_apart E B" "ledger_ok E B N v c m" "kv_rotation v = KeyPending k again" "kv_tasks v = {#}"
  obtains p where "k = media_key_at E p 0" "p \<le> B" "ledger_ok E B N (v\<lparr>kv_secret := k, kv_rotation := KeyApplied\<rparr>) p 0"
proof -
  obtain p where p: "k = media_key_at E p 0" "p < kv_drawn v"
      "\<forall>u n. n \<le> B \<longrightarrow> (u, media_key_at E p n) \<in> kv_sent v \<longrightarrow> n = 0"
    using assms by (auto simp: ledger_ok_def rotation_ok_def)
  have "sent_ok E N v p 0"
  proof (rule sent_okI)
    fix u k assume k: "(u, k) \<in> kv_sent v"
    then obtain i n where "k = media_key_at E i n" "i < kv_drawn v" "n \<le> N"
      using assms(2) by (auto simp: ledger_ok_def elim!: sent_okE)
    moreover have "n = 0" if "i = p"
      using p(3) k that calculation assms(2) by (auto simp: ledger_ok_def)
    ultimately show "\<exists>i n. k = media_key_at E i n \<and> i < kv_drawn v \<and> n \<le> N \<and> (i = p \<longrightarrow> n \<le> 0)"
      by blast
  qed
  then show thesis
    using that p assms by (simp add: ledger_ok_def rotation_ok_def sent_ok_def)
qed

section \<open>Who holds what\<close>

lemma holders_send: "holders E B (lg_send us k v) i \<subseteq> holders E B v i \<union> set us"
  by (auto simp: holders_def)

lemma members_send:
  assumes "members_only E B v c" "set us \<subseteq> set (kv_joined v)"
  shows "members_only E B (lg_send us k v) c"
proof -
  have *: "holders E B (lg_send us k v) i \<subseteq> set (kv_joined v)" if "holders E B v i \<subseteq> set (kv_joined v)" for i
    using holders_send [of E B us k v i] assms(2) that by blast
  show ?thesis
    using assms * by (cases "kv_rotation v") (auto simp: members_only_def)
qed

lemma members_rotate:
  assumes "keys_apart E B" "ledger_ok E B N v c m" "N < B" "set (kv_users v) \<subseteq> set (kv_joined v)"
  shows "members_only E B (lg_rotate E v) c"
proof (cases "kv_rotation v")
  case (KeyPending k again)
  then show ?thesis
    using assms by (simp add: lg_rotate_pending members_only_def)
next
  case KeyApplied
  note r = lg_rotate_applied [OF KeyApplied, of E]
  have "{u. (u, random_secret E (kv_drawn v)) \<in> kv_sent (lg_rotate E v)} \<subseteq> set (kv_users v)"
    using next_unsent [OF assms(1-3), of 0] by (auto simp: r split: if_splits)
  then show ?thesis
    using assms by (auto simp: members_only_def r)
qed

lemma lg_advance_simps [simp]:
  "kv_rotation (lg_advance E us v) = kv_rotation v" "kv_joined (lg_advance E us v) = kv_joined v"
  "kv_users (lg_advance E us v) = kv_users v" "kv_join (lg_advance E us v) = kv_join v"
  "kv_joins (lg_advance E us v) = kv_joins v" "kv_dhe (lg_advance E us v) = kv_dhe v"
  by (simp_all add: lg_advance_def Let_def)

lemma lg_send_pending_simps [simp]:
  "kv_joined (lg_send_pending us v) = kv_joined v" "kv_users (lg_send_pending us v) = kv_users v"
  "kv_join (lg_send_pending us v) = kv_join v" "kv_joins (lg_send_pending us v) = kv_joins v"
  "kv_dhe (lg_send_pending us v) = kv_dhe v"
  by (simp_all add: lg_send_pending_def split: key_rotation_state.split)

lemma advance_ok:
  assumes "keys_apart E B" "ledger_ok E B N v c m" "N < B"
  shows "ledger_ok E B (Suc N) (lg_advance E us v) c (Suc m)"
proof -
  define w where "w = v\<lparr>kv_secret := ratchet_secret (ge_prims E) (kv_secret v)\<rparr>"
  have w: "ledger_ok E B (Suc N) w c (Suc m)"
    using ledger_advance [OF assms(2,3)] by (simp add: w_def)
  then have "kv_secret w = media_key_at E c (Suc m)" "c < kv_drawn w"
    by (simp_all add: ledger_ok_def)
  then show ?thesis
    using w ledger_send [OF assms(1) w, where i = c and n = "Suc m" and us = us] by (simp add: lg_advance_def Let_def flip: w_def)
qed

lemma send_pending_ok:
  assumes "keys_apart E B" "ledger_ok E B N v c m"
  shows "ledger_ok E B N (lg_send_pending us v) c m"
proof (cases "kv_rotation v")
  case (KeyPending k again)
  then obtain p where "k = media_key_at E p 0" "p < kv_drawn v"
    using assms(2) by (auto simp: ledger_ok_def rotation_ok_def)
  then show ?thesis
    using ledger_send [OF assms, where i = p and n = 0 and us = us] assms(2) KeyPending by (auto simp: lg_send_pending_def)
qed (use assms in \<open>simp add: lg_send_pending_def\<close>)

lemma members_advance:
  assumes "members_only E B v c" "set us \<subseteq> set (kv_joined v)"
  shows "members_only E B (lg_advance E us v) c"
proof -
  have "members_only E B (v\<lparr>kv_secret := k\<rparr>) c" for k
    using assms(1) by (auto simp: members_only_def holders_def split: key_rotation_state.splits)
  then show ?thesis
    using assms(2) by (simp add: lg_advance_def Let_def members_send)
qed

lemma members_send_pending:
  assumes "members_only E B v c" "set us \<subseteq> set (kv_joined v)"
  shows "members_only E B (lg_send_pending us v) c"
  using assms by (simp add: lg_send_pending_def members_send split: key_rotation_state.split)

text \<open>After a peek result the holders are members again: those who are gone do not get the next key.\<close>

lemma update_ok:
  assumes "keys_apart E B" "ledger_ok E B N v c m" "Suc N < B"
    and "set us \<subseteq> set (kv_users v)" "set (kv_users v) \<subseteq> set (kv_joined v)"
    and "user_gone \<or> members_only E B v c"
  shows "\<exists>m'. ledger_ok E B (Suc (Suc N)) (lg_update E us user_gone v) c m' \<and> members_only E B (lg_update E us user_gone v) c"
proof -
  define w where "w = (if us \<noteq> [] then lg_send_pending us (lg_advance E us v) else v)"
  have "ledger_ok E B (Suc N) v c m" "ledger_ok E B (Suc N) (lg_send_pending us (lg_advance E us v)) c (Suc m)"
    using assms(2,3) advance_ok [OF assms(1,2)] send_pending_ok [OF assms(1)] by (simp_all add: ledger_mono)
  then obtain m' where w: "ledger_ok E B (Suc N) w c m'"
    by (metis w_def)
  then have w': "ledger_ok E B (Suc (Suc N)) w c m'"
    using assms(3) by (simp add: ledger_mono)
  have "kv_users w = kv_users v" "kv_joined w = kv_joined v"
    by (simp_all add: w_def)
  moreover have "members_only E B w c" if "members_only E B v c"
    using assms(4,5) that by (auto simp: w_def intro!: members_send_pending members_advance)
  ultimately show ?thesis
    using assms w' ledger_rotate [OF assms(1) w assms(3)] members_rotate [OF assms(1) w assms(3)]
    by (auto simp: lg_update_def Let_def simp flip: w_def)
qed

lemma lg_update_fields [simp]:
  "kv_joins (lg_update E us user_gone v) = kv_joins v" "kv_join (lg_update E us user_gone v) = kv_join v"
  "kv_dhe (lg_update E us user_gone v) = kv_dhe v"
  by (simp_all add: lg_update_def Let_def lg_rotate_def split: key_rotation_state.split)


section \<open>Preservation\<close>

lemma keys_inv_cong:
  assumes "keys_inv E B N v" "kv_joins v \<le> kv_joins v'"
    and "\<And>c m. kv_joins v' \<le> 1 \<Longrightarrow> ledger_ok E B N v c m \<Longrightarrow> members_only E B v c \<Longrightarrow> phase_ok v \<Longrightarrow>
       (\<exists>c m. ledger_ok E B N' v' c m \<and> members_only E B v' c) \<and> phase_ok v'"
  shows "keys_inv E B N' v'"
  using assms unfolding keys_inv_def by fastforce

lemma keys_inv_mono:
  assumes "keys_inv E B N v" "N \<le> N'" "N' \<le> B"
  shows "keys_inv E B N' v"
  using assms ledger_mono unfolding keys_inv_def by blast

lemma ledger_frame:
  assumes "kv_sent w = kv_sent v" "kv_secret w = kv_secret v" "kv_rotation w = kv_rotation v"
    "kv_drawn w = kv_drawn v" "kv_tasks w \<subseteq># kv_tasks v"
  shows "ledger_ok E B N v c m \<Longrightarrow> ledger_ok E B N w c m"
proof -
  assume ok: "ledger_ok E B N v c m"
  have "rotation_ok E B w c"
  proof (cases "kv_rotation v")
    case (KeyPending k again)
    then show ?thesis
      using ok assms subset_mset.trans [OF assms(5)] by (auto simp: ledger_ok_def rotation_ok_def)
  qed (use ok assms in \<open>simp add: ledger_ok_def rotation_ok_def\<close>)
  then show ?thesis
    using ok assms by (simp add: ledger_ok_def sent_ok_def)
qed

text \<open>A draw for another purpose.\<close>

lemma ledger_draw:
  assumes "ledger_ok E B N v c m" "N < B"
  shows "ledger_ok E B (Suc N) (v\<lparr>kv_drawn := Suc (kv_drawn v)\<rparr>) c m"
proof -
  have "sent_ok E (Suc N) (v\<lparr>kv_drawn := Suc (kv_drawn v)\<rparr>) c m"
    using assms(1) unfolding ledger_ok_def sent_ok_def by (simp add: less_Suc_eq le_Suc_eq) blast
  moreover have "rotation_ok E B (v\<lparr>kv_drawn := Suc (kv_drawn v)\<rparr>) c"
    using assms(1) by (auto simp: ledger_ok_def rotation_ok_def split: key_rotation_state.splits intro: less_SucI)
  ultimately show ?thesis
    using assms by (auto simp: ledger_ok_def)
qed

lemma members_frame:
  assumes "kv_sent w = kv_sent v" "kv_rotation w = kv_rotation v" "kv_users w = kv_users v" "kv_joined w = kv_joined v"
    "kv_join w = kv_join v"
  shows "members_only E B w c = members_only E B v c"
  using assms by (cases "kv_rotation v") (simp_all add: members_only_def holders_def)

lemma quiet_frame:
  "kv_sent w = kv_sent v \<Longrightarrow> kv_rotation w = kv_rotation v \<Longrightarrow> kv_users w = kv_users v \<Longrightarrow> quiet w = quiet v"
  by (simp add: quiet_def)

lemma members_quiet: "quiet v \<Longrightarrow> members_only E B v c"
  by (simp add: members_only_def quiet_def holders_def)

lemma inv_left:
  assumes "keys_inv E B N v"
  shows "keys_inv E B N (v\<lparr>kv_join := NotJoined r\<rparr>)"
proof (rule keys_inv_cong [OF assms])
  fix c m assume "ledger_ok E B N v c m" "phase_ok v"
  moreover have "ledger_ok E B N (v\<lparr>kv_join := NotJoined r\<rparr>) c m" if "ledger_ok E B N v c m"
    using that by (rule ledger_frame [rotated -1]) simp_all
  ultimately show "(\<exists>c m. ledger_ok E B N (v\<lparr>kv_join := NotJoined r\<rparr>) c m \<and> members_only E B (v\<lparr>kv_join := NotJoined r\<rparr>) c)
      \<and> phase_ok (v\<lparr>kv_join := NotJoined r\<rparr>)"
    by (auto simp: members_only_def phase_ok_def quiet_def)
qed simp

lemma inv_left_peek:
  assumes "keys_inv E B N v" "in_call (kv_join v)"
  shows "keys_inv E B N (v\<lparr>kv_users := us, kv_joined := ms, kv_join := NotJoined r\<rparr>)" (is "keys_inv E B N ?w")
proof (rule keys_inv_cong [OF assms(1)])
  fix c m assume *: "ledger_ok E B N v c m" "phase_ok v"
  have "ledger_ok E B N ?w c m"
    using *(1) by (rule ledger_frame [rotated -1]) simp_all
  moreover have "kv_joins v \<noteq> 0"
    using *(2) assms(2) by (auto simp: phase_ok_def)
  ultimately show "(\<exists>c m. ledger_ok E B N ?w c m \<and> members_only E B ?w c) \<and> phase_ok ?w"
    by (auto simp: members_only_def phase_ok_def)
qed simp

lemma inv_joined:
  assumes "keys_inv E B N v" "\<not> (in_call (kv_join v) \<and> negotiated (kv_dhe v))"
  shows "keys_inv E B N (v\<lparr>kv_joined := ms\<rparr>)" (is "keys_inv E B N ?w")
proof (rule keys_inv_cong [OF assms(1)])
  fix c m assume *: "ledger_ok E B N v c m" "phase_ok v"
  have "ledger_ok E B N ?w c m"
    using *(1) by (rule ledger_frame [rotated -1]) simp_all
  moreover have "quiet ?w = quiet v"
    by (simp add: quiet_def)
  moreover have "members_only E B ?w c"
  proof (cases "in_call (kv_join v)")
    case True
    then have "quiet ?w"
      using *(2) assms(2) by (auto simp: phase_ok_def quiet_def)
    then show ?thesis
      by (rule members_quiet)
  qed (simp add: members_only_def)
  ultimately show "(\<exists>c m. ledger_ok E B N ?w c m \<and> members_only E B ?w c) \<and> phase_ok ?w"
    using *(2) by (auto simp: phase_ok_def)
qed simp

lemma inv_dhe:
  assumes "keys_inv E B N v" "negotiated (kv_dhe v) \<Longrightarrow> negotiated dhe"
  shows "keys_inv E B N (v\<lparr>kv_dhe := dhe\<rparr>)" (is "keys_inv E B N ?w")
proof (rule keys_inv_cong [OF assms(1)])
  fix c m assume *: "ledger_ok E B N v c m" "members_only E B v c" "phase_ok v"
  have "ledger_ok E B N ?w c m"
    using *(1) by (rule ledger_frame [rotated -1]) simp_all
  moreover have "members_only E B ?w c"
    using *(2) by (rule members_frame [THEN iffD2, rotated -1]) simp_all
  ultimately show "(\<exists>c m. ledger_ok E B N ?w c m \<and> members_only E B ?w c) \<and> phase_ok ?w"
    using *(3) assms(2) by (auto simp: phase_ok_def quiet_def)
qed simp

lemma inv_tasks:
  assumes "keys_inv E B N v" "ts \<subseteq># kv_tasks v"
  shows "keys_inv E B N (v\<lparr>kv_tasks := ts, kv_ended := e\<rparr>)" (is "keys_inv E B N ?w")
proof (rule keys_inv_cong [OF assms(1)])
  fix c m assume *: "ledger_ok E B N v c m" "members_only E B v c" "phase_ok v"
  have "ledger_ok E B N ?w c m"
    using *(1) by (rule ledger_frame [rotated -1]) (simp_all add: assms(2))
  moreover have "members_only E B ?w c"
    using *(2) by (rule members_frame [THEN iffD2, rotated -1]) simp_all
  ultimately show "(\<exists>c m. ledger_ok E B N ?w c m \<and> members_only E B ?w c) \<and> phase_ok ?w"
    using *(3) by (auto simp: phase_ok_def quiet_def)
qed simp

lemma inv_join:
  assumes "keys_inv E B N v" "kv_join v = NotJoined r" "N < B"
  shows "keys_inv E B (Suc N) (v\<lparr>kv_joins := Suc (kv_joins v), kv_join := Joining, kv_drawn := Suc (kv_drawn v), kv_dhe := dhe\<rparr>)"
    (is "keys_inv E B (Suc N) ?w")
proof (rule keys_inv_cong [OF assms(1)])
  fix c m assume *: "kv_joins ?w \<le> 1" "ledger_ok E B N v c m" "phase_ok v"
  have "ledger_ok E B (Suc N) ?w c m"
    using ledger_draw [OF *(2) assms(3)] by (rule ledger_frame [rotated -1]) simp_all
  moreover have "quiet ?w"
    using *(1,3) by (simp add: phase_ok_def quiet_def)
  ultimately show "(\<exists>c m. ledger_ok E B (Suc N) ?w c m \<and> members_only E B ?w c) \<and> phase_ok ?w"
    by (auto simp: phase_ok_def members_quiet)
qed simp

lemma inv_enter:
  assumes "keys_inv E B N v" "kv_join v = Joining"
  shows "keys_inv E B N (v\<lparr>kv_join := js\<rparr>)" (is "keys_inv E B N ?w")
proof (rule keys_inv_cong [OF assms(1)])
  fix c m assume *: "ledger_ok E B N v c m" "phase_ok v"
  have "ledger_ok E B N ?w c m"
    using *(1) by (rule ledger_frame [rotated -1]) simp_all
  moreover have "quiet ?w" "kv_joins v \<noteq> 0"
    using *(2) assms(2) by (auto simp: phase_ok_def quiet_def)
  ultimately show "(\<exists>c m. ledger_ok E B N ?w c m \<and> members_only E B ?w c) \<and> phase_ok ?w"
    by (auto simp: phase_ok_def members_quiet)
qed simp


lemma inv_peek:
  assumes "keys_apart E B" "keys_inv E B N v" "in_call (kv_join v)" "negotiated (kv_dhe v)" "in_call js"
    and "set added \<subseteq> set us" "set us \<subseteq> set ms"
    and "Suc N < B"
  shows "keys_inv E B (Suc (Suc N)) (lg_update E added (\<not> set (kv_joined v) \<subseteq> set ms) (v\<lparr>kv_users := us, kv_join := js, kv_joined := ms\<rparr>))"
    (is "keys_inv E B (Suc (Suc N)) (lg_update E added ?gone ?w)")
proof (rule keys_inv_cong [OF assms(2)])
  fix c m assume *: "ledger_ok E B N v c m" "members_only E B v c" "phase_ok v"
  have w: "ledger_ok E B N ?w c m"
    using *(1) by (rule ledger_frame [rotated -1]) simp_all
  have "?gone \<or> members_only E B ?w c"
    using *(2) assms(3,7) by (cases "kv_rotation v") (auto simp: members_only_def holders_def)
  then obtain m' where "ledger_ok E B (Suc (Suc N)) (lg_update E added ?gone ?w) c m'" "members_only E B (lg_update E added ?gone ?w) c"
    using update_ok [OF assms(1) w assms(8), of added ?gone] assms(6,7) by auto
  moreover have "kv_joins v \<noteq> 0"
    using *(3) assms(3) by (auto simp: phase_ok_def)
  ultimately show "(\<exists>c m. ledger_ok E B (Suc (Suc N)) (lg_update E added ?gone ?w) c m \<and> members_only E B (lg_update E added ?gone ?w) c)
      \<and> phase_ok (lg_update E added ?gone ?w)"
    using assms(4,5) by (auto simp: phase_ok_def)
qed simp

lemma inv_resend:
  assumes "keys_apart E B" "keys_inv E B N v" "in_call (kv_join v)"
  shows "keys_inv E B N (lg_send (kv_users v) (kv_secret v) v)" (is "keys_inv E B N ?w")
proof (rule keys_inv_cong [OF assms(2)])
  fix c m assume *: "ledger_ok E B N v c m" "members_only E B v c" "phase_ok v"
  have "kv_secret v = media_key_at E c m" "c < kv_drawn v"
    using *(1) by (simp_all add: ledger_ok_def)
  then have "ledger_ok E B N ?w c m"
    using ledger_send [OF assms(1) *(1), where i = c and n = m] by simp
  moreover have "members_only E B ?w c"
    using *(2) assms(3) by (intro members_send) (auto simp: members_only_def)
  moreover have "quiet ?w" if "quiet v"
    using that by (simp add: quiet_def)
  ultimately show "(\<exists>c m. ledger_ok E B N ?w c m \<and> members_only E B ?w c) \<and> phase_ok ?w"
    using *(3) by (auto simp: phase_ok_def)
qed simp

lemma inv_apply:
  assumes "keys_apart E B" "keys_inv E B N v" "k \<in># kv_tasks v" "N < B"
  shows "keys_inv E B (Suc N) (lg_apply E k (v\<lparr>kv_tasks := kv_tasks v - {#k#}\<rparr>))" (is "keys_inv E B (Suc N) (lg_apply E k ?w)")
proof (rule keys_inv_cong [OF assms(2)])
  fix c m assume *: "ledger_ok E B N v c m" "members_only E B v c" "phase_ok v"
  obtain k' again where rot': "kv_rotation v = KeyPending k' again" "kv_tasks v \<subseteq># {#k'#}"
    using *(1) assms(3) by (cases "kv_rotation v") (auto simp: ledger_ok_def rotation_ok_def)
  then have "k' = k" and tasks: "kv_tasks ?w = {#}"
    using assms(3) mset_subset_eqD [OF rot'(2) assms(3)] subset_mset.antisym [OF rot'(2)] by (auto simp: mset_subset_eq_single)
  then have rot: "kv_rotation v = KeyPending k again"
    using rot'(1) by simp
  have w: "ledger_ok E B N ?w c m"
    using *(1) by (rule ledger_frame [rotated -1]) simp_all
  define x where "x = ?w\<lparr>kv_secret := k, kv_rotation := KeyApplied\<rparr>"
  obtain p where p: "k = media_key_at E p 0" "ledger_ok E B N x p 0" "p \<le> B"
    using ledger_apply [OF assms(1) w _ tasks] rot by (auto simp: x_def)
  have users: "set (kv_users x) \<subseteq> set (kv_joined x)" "{u. (u, k) \<in> kv_sent x} \<subseteq> set (kv_joined x) \<or> again"
    if "in_call (kv_join v)"
    using *(2) that rot by (auto simp: members_only_def x_def)
  have phase: "\<not> (kv_joins v = 0 \<or> kv_join v = Joining \<or> in_call (kv_join v) \<and> \<not> negotiated (kv_dhe v))"
    using *(3) rot by (auto simp: phase_ok_def quiet_def)
  show "(\<exists>c m. ledger_ok E B (Suc N) (lg_apply E k ?w) c m \<and> members_only E B (lg_apply E k ?w) c) \<and> phase_ok (lg_apply E k ?w)"
  proof (cases again)
    case True
    then have "lg_apply E k ?w = lg_rotate E x"
      using rot by (simp add: lg_apply_def x_def)
    moreover have "kv_rotation x = KeyApplied"
      by (simp add: x_def)
    note r = lg_rotate_applied [OF this, of E]
    have "members_only E B (lg_rotate E x) p"
    proof (cases "in_call (kv_join v)")
      case True
      then show ?thesis
        using members_rotate [OF assms(1) p(2) assms(4) users(1)] by simp
    qed (simp add: members_only_def r, simp add: x_def)
    moreover have "phase_ok (lg_rotate E x)"
      using phase by (auto simp: phase_ok_def r) (auto simp: x_def)
    ultimately show ?thesis
      using ledger_rotate [OF assms(1) p(2) assms(4)] by auto
  next
    case False
    have "(u, k) \<in> kv_sent x" if "(u, media_key_at E p n) \<in> kv_sent x" "n \<le> B" for u n
      using sent_name [OF assms(1) p(2) that(1) p(3) that(2)] that p(1) by simp
    then have "holders E B x p \<subseteq> {u. (u, k) \<in> kv_sent x}"
      by (auto simp: holders_def)
    then have "members_only E B x p"
      using users False by (auto simp: members_only_def) (auto simp: x_def)
    moreover have "lg_apply E k ?w = x"
      using rot False by (simp add: lg_apply_def x_def)
    moreover have "phase_ok x"
      using phase by (auto simp: phase_ok_def x_def)
    ultimately show ?thesis
      using ledger_mono [OF p(2), of "Suc N"] assms(4) by auto
  qed
next
  show "kv_joins v \<le> kv_joins (lg_apply E k ?w)"
    by (simp add: lg_apply_def lg_rotate_def Let_def split: key_rotation_state.split)
qed


section \<open>Runs\<close>

lemma inv_left_call: "keys_inv E B N v \<Longrightarrow> left_call v v' \<Longrightarrow> keys_inv E B N v'"
  by (auto simp: left_call_def inv_left)

lemma inv_end_call: "keys_inv E B N (kv s) \<Longrightarrow> keys_inv E B N (kv (end_call E now reason s))"
  by (rule inv_left_call [OF _ kv_end_call])

lemma inv_leave_inner: "keys_inv E B N (kv s) \<Longrightarrow> keys_inv E B N (kv (leave_inner E now s))"
  by (rule inv_left_call [OF _ kv_leave_inner])

lemma inv_set_peek_result:
  assumes "keys_apart E B" "keys_inv E B N (kv s)" "Suc N < B"
  shows "keys_inv E B (Suc (Suc N)) (kv (set_peek_result_inner E now r expiration s))"
proof -
  have more: "keys_inv E B (Suc (Suc N)) (kv s)"
    using assms(2,3) by (simp add: keys_inv_mono)
  show ?thesis
  proof (cases rule: kv_set_peek_result [of E now r expiration s])
  case failed
  then show ?thesis
    using more by (simp only:)
next
  case (outside ms)
  show ?thesis
    unfolding outside(2) using more outside(1) by (rule inv_joined)
next
  case (left us)
  show ?thesis
    unfolding left(2) using more left(1) by (rule inv_left_peek)
next
  case (updated us added ms js)
  show ?thesis
    unfolding updated(6) using assms(1,2) updated(1-5) assms(3) by (rule inv_peek)
  qed
qed

lemma inv_more_joins:
  assumes "keys_inv E B N v" "kv_join v = Joining"
  shows "keys_inv E B N (v\<lparr>kv_joins := Suc (kv_joins v)\<rparr>)"
  using assms by (auto simp: keys_inv_def phase_ok_def)

lemma inv_join_call:
  assumes inv: "keys_inv E B N (kv s)" and "N < B"
  shows "keys_inv E B (Suc N) (kv (join E now s))"
proof (cases "gs_join_state s")
  case (NotJoined r)
  have more: "keys_inv E B (Suc N) (kv s)"
    using assms by (simp add: keys_inv_mono)
  show ?thesis
  proof (cases "gs_busy s")
    case True
    then show ?thesis
      using inv_end_call [OF more] NotJoined by (simp add: join_def take_busy_def)
  next
    case False
    define s1 where "s1 = accept_ring_if_needed r (set_join_state_and_notify_observer Joining (s\<lparr>gs_busy := True\<rparr>))"
    define s2 where "s2 = (if gs_kind s1 = SignalGroup
        then (observe RequestMembershipProof s1)
               \<lparr>next_membership_proof_request_time := Some (now + MEMBERSHIP_PROOF_REQUEST_INTERVAL)\<rparr>
        else s1)"
    define s3 where "s3 = s2\<lparr>gs_drawn := gs_drawn s2 + 1,
        gs_dhe_state := WaitingForServerPublicKey (ephemeral_secret E (gs_drawn s2))\<rparr>"
    have "kv s1 = (kv s)\<lparr>kv_joins := Suc (kv_joins (kv s)), kv_join := Joining\<rparr>"
      by (simp add: s1_def) (simp add: set_join_state_and_notify_observer_def kv_observe kv_def observe_def)
    moreover have "kv s2 = kv s1"
      by (simp add: s2_def)
    moreover have "kv s3 = (kv s2)\<lparr>kv_drawn := Suc (kv_drawn (kv s2)),
        kv_dhe := WaitingForServerPublicKey (ephemeral_secret E (gs_drawn s2))\<rparr>"
      by (simp add: s3_def kv_def)
    moreover have "join E now s = sfu_join E (gs_ice_ufrag s3) (gs_ice_pwd s3) (public_key_of E (ephemeral_secret E (gs_drawn s2))) s3"
      using False NotJoined by (simp add: join_def take_busy_def Let_def s1_def s2_def s3_def)
    ultimately show ?thesis
      using inv_join [OF inv _ assms(2), of r] NotJoined by simp
  qed
qed (use assms in \<open>simp_all add: join_def keys_inv_mono\<close>)

lemma negotiated_negotiate: "negotiated dhe \<Longrightarrow> negotiated (negotiate dh hkdf key extra dhe)"
  by (auto simp: negotiated_def negotiate_def split: dhe_state.splits)

lemma inv_connect_to_sfu:
  assumes "keys_inv E B N (kv s)"
  shows "keys_inv E B N (kv (fst (connect_to_sfu E now joined s)))"
proof (cases "gs_connection_state s = Connecting")
  case True
  define dhe where "dhe = negotiate (diffie_hellman E) (srtp_hkdf E) (joined_server_dhe_pub_key joined)
                   (joined_hkdf_extra_info joined) (gs_dhe_state s)"
  define s1 where "s1 = s\<lparr>gs_dhe_state := dhe\<rparr>"
  have "kv s1 = (kv s)\<lparr>kv_dhe := dhe\<rparr>"
    by (simp add: s1_def kv_def)
  then have inv: "keys_inv E B N (kv s1)"
    using inv_dhe [OF assms, of dhe] by (simp add: dhe_def negotiated_negotiate)
  show ?thesis
  proof (cases dhe)
    case (Negotiated keys)
    obtain s2 res where r: "start_peer_connection E (joined_sfu_info joined) (joined_local_demux_id joined) keys s1 = (s2, res)"
      by fastforce
    then have "kv s2 = kv s1"
      using kv_start_peer_connection [of E "joined_sfu_info joined" "joined_local_demux_id joined" keys s1] by simp
    then have s2: "keys_inv E B N (kv s2)"
      using inv by simp
    have "connect_to_sfu E now joined s = (case (s2, res) of
        (s, Err _) \<Rightarrow> (end_call E now FailedToStartPeerConnection s, False)
      | (s, Ok _) \<Rightarrow> ((set_send_rates_inner E now (send_rates_default\<lparr>max_rate := Some ALL_ALONE_MAX_SEND_RATE\<rparr>) s)
            \<lparr>gs_sfu_info := Some (joined_sfu_info joined)\<rparr>, True))"
      by (simp only: connect_to_sfu_def True group_connection_state.case Let_def r [symmetric] Negotiated dhe_state.case
          s1_def flip: dhe_def)
    then show ?thesis
      using s2 inv_end_call [OF s2] by (cases res) simp_all
  qed (use inv_end_call [OF inv] True in \<open>simp_all add: connect_to_sfu_def Let_def s1_def flip: dhe_def\<close>)
qed (use assms in \<open>cases "gs_connection_state s"; simp add: connect_to_sfu_def\<close>)

lemma inv_complete_join:
  assumes "keys_apart E B" "keys_inv E B N (kv s)" "gs_join_state s = Joining" "Suc N < B"
  shows "keys_inv E B (Suc (Suc N)) (kv (complete_join E now joined s))"
proof -
  define s1 where "s1 = (request_remote_devices_as_soon_as_possible E now s)\<lparr>gs_join_state := joined_join_state joined\<rparr>"
  define s2 where "s2 = (case gs_last_peek_info s1 of
      None \<Rightarrow> s1
    | Some info \<Rightarrow>
        let s = set_peek_result_inner E now (Ok info) None s1
        in if gs_remote_devices s = []
           then observe (HandleRemoteDevicesChanged (gs_remote_devices s) DemuxIdsChanged) s else s)"
  define s3 where "s3 = observe (HandleJoinStateChanged (gs_join_state s2)) s2"
  have "kv s1 = (kv (request_remote_devices_as_soon_as_possible E now s))\<lparr>kv_join := joined_join_state joined\<rparr>"
    unfolding s1_def by (simp add: kv_def)
  then have s1: "keys_inv E B N (kv s1)"
    using inv_enter [OF assms(2)] assms(3) by simp
  have "keys_inv E B (Suc (Suc N)) (kv (set_peek_result_inner E now (Ok info) None s1))" for info
    using inv_set_peek_result [OF assms(1) s1 assms(4)] .
  then have s2: "keys_inv E B (Suc (Suc N)) (kv s2)"
    using keys_inv_mono [OF s1, of "Suc (Suc N)"] assms(4) by (simp add: s2_def Let_def split: option.split)
  have s3: "keys_inv E B (Suc (Suc N)) (kv s3)"
  proof (cases "gs_join_state s2 = Joining")
    case True
    then show ?thesis
      using inv_more_joins [OF s2] by (simp add: s3_def kv_observe) (simp add: kv_def)
  qed (use s2 in \<open>simp add: s3_def\<close>)
  have "complete_join E now joined s = (update_ring_state E joined
      (if is_joined (joined_join_state joined) \<and> is_joined (gs_join_state s3) then on_client_joined E s3 else s3))
      \<lparr>next_stats_time := Some (now + STATS_INITIAL_OFFSET), next_decryption_error_time := Some (now + DECRYPTION_ERROR_INTERVAL)\<rparr>"
    by (simp only: complete_join_def Let_def s1_def s2_def s3_def)
  then show ?thesis
    using s3 by simp
qed

lemma inv_join_completed:
  assumes "keys_apart E B" "keys_inv E B N (kv s)" "Suc N < B"
  shows "keys_inv E B (Suc (Suc N)) (kv (on_sfu_client_join_attempt_completed E now r s))"
proof (cases r)
  case (Inr joined)
  obtain s1 ok where c: "connect_to_sfu E now joined s = (s1, ok)"
    by fastforce
  then have "keys_inv E B N (kv s1)"
    using inv_connect_to_sfu [OF assms(2), of now joined] by simp
  then show ?thesis
    using c inv_complete_join [OF assms(1) _ _ assms(3)] Inr assms(3)
    by (cases ok) (simp_all add: keys_inv_mono on_sfu_client_join_attempt_completed_def on_sfu_client_join_success_def)
next
  case (Inl e)
  then show ?thesis
    using inv_end_call [OF keys_inv_mono [OF assms(2)]] assms(3)
    by (simp add: on_sfu_client_join_attempt_completed_def on_sfu_client_join_failure_def)
qed

text \<open>Iterations of the client's thread.\<close>

lemma key_tasks_alt:
  "key_tasks a = image_mset (\<lambda>t. the (key_task (Some t))) (filter_mset (\<lambda>t. key_task (Some t) \<noteq> None) (mset (actor_tasks a)))"
proof -
  have "mset (List.map_filter (\<lambda>t. key_task (run t)) ts) = image_mset (\<lambda>t. the (key_task (Some t)))
      (filter_mset (\<lambda>t. key_task (Some t) \<noteq> None) (mset (List.map_filter run ts)))" for ts
  proof (induction ts)
    case (Cons t ts)
    then show ?case
      by (cases "run t") (auto split: option.split)
  qed simp
  then show ?thesis
    by (simp only: key_tasks_def actor_tasks_def)
qed

lemma actor_iterate_ended_same: "actor_iterate now a = (Some t, a') \<Longrightarrow> ended a' = ended a"
  by (auto simp: actor_iterate_def next_received_def split: if_splits list.splits)

lemma actor_iterate_key_tasks:
  assumes "actor_iterate now a = (t, a')"
  shows "key_task t = None \<Longrightarrow> key_tasks a' \<subseteq># key_tasks a"
    "key_task t = Some k \<Longrightarrow> key_tasks a = add_mset k (key_tasks a') \<and> ended a' = ended a"
proof -
  have "key_tasks a' \<subseteq># key_tasks a" if "t = None"
    using iterate_tasks(2) [of now a a'] assms that
    by (simp add: key_tasks_alt image_mset_subseteq_mono multiset_filter_mono)
  moreover have "key_tasks a = (if key_task t = None then key_tasks a' else add_mset (the (key_task t)) (key_tasks a'))"
    if "t \<noteq> None"
    using iterate_tasks(1) [of now a _ a'] assms that by (auto simp: key_tasks_alt)
  ultimately show "key_task t = None \<Longrightarrow> key_tasks a' \<subseteq># key_tasks a"
    "key_task t = Some k \<Longrightarrow> key_tasks a = add_mset k (key_tasks a') \<and> ended a' = ended a"
    using assms actor_iterate_ended_same [of now a _ a'] by (cases t; force)+
qed

lemma inv_ice:
  assumes "keys_inv E B N (kv s)"
  shows "keys_inv E B N (kv (ice_connection_state_changed E now ice s))"
  using assms inv_end_call [OF assms]
  by (simp add: ice_connection_state_changed_def Let_def split: group_connection_state.split)

lemma inv_provide_ring_id:
  assumes "keys_inv E B N (kv s)"
  shows "keys_inv E B N (kv (provide_ring_id_if_absent ring_id s))"
proof -
  have "kv (s\<lparr>gs_join_state := NotJoined (Some ring_id)\<rparr>) = (kv s)\<lparr>kv_join := NotJoined (Some ring_id)\<rparr>"
    by (simp add: kv_def)
  then have "keys_inv E B N (kv (s\<lparr>gs_join_state := NotJoined (Some ring_id)\<rparr>))"
    using inv_left [OF assms] by (simp only:)
  then show ?thesis
    using assms by (simp add: provide_ring_id_if_absent_def split: join_state.split option.split)
qed

lemma inv_endorsements_or_peek:
  assumes "keys_apart E B" "keys_inv E B N (kv s)" "Suc N < B"
  shows "keys_inv E B (Suc (Suc N)) (kv (endorsements_or_peek E now sys_now r p s))"
proof -
  obtain s1 e where r: "(case r of Some x \<Rightarrow> handle_send_endorsements_response_inner E now sys_now x s | None \<Rightarrow> (s, None)) = (s1, e)"
    by fastforce
  have "kv s1 = kv s"
    using arg_cong [where f = "\<lambda>x. kv (fst x)", OF r] by (simp split: option.splits)
  then have s1: "keys_inv E B N (kv s1)" "keys_inv E B (Suc (Suc N)) (kv s1)"
    using assms(2) keys_inv_mono [OF assms(2), of "Suc (Suc N)"] assms(3) by simp_all
  then show ?thesis
    using inv_set_peek_result [OF assms(1) s1(1) assms(3)]
    by (simp add: endorsements_or_peek_def r split: option.split)
qed

lemma inv_request:
  assumes "keys_apart E B" "keys_inv E B N (kv s)" "N < B"
  shows "keys_inv E B (Suc N) (kv (run_request E now r s))"
proof -
  have more: "keys_inv E B (Suc N) (kv s)"
    using assms(2,3) by (simp add: keys_inv_mono)
  show ?thesis
  proof (cases r)
    case ResendMediaKeys
    then show ?thesis
      using more inv_resend [OF assms(1) more] by (simp add: kv_resend_media_keys)
  next
    case Join
    then show ?thesis
      using inv_join_call [OF assms(2,3)] by simp
  qed (use more in \<open>simp_all add: inv_provide_ring_id inv_leave_inner inv_end_call\<close>)
qed

lemma inv_task:
  assumes "keys_apart E B" "keys_inv E B N (kv s)" "key_task (Some t) = None" "Suc N < B"
  shows "keys_inv E B (Suc (Suc N)) (kv (run_gc_task E now t s))"
proof -
  have more: "keys_inv E B (Suc (Suc N)) (kv s)"
    using assms(2,4) by (simp add: keys_inv_mono)
  have "keys_inv E B (Suc N) (kv s)"
    using assms(2,4) by (simp add: keys_inv_mono)
  then have "keys_inv E B (Suc (Suc N)) (kv (run_request E now r s))" for r
    using assms(1,4) by (simp add: inv_request)
  then show ?thesis
    using more assms
    by (cases t) (simp_all add: inv_join_completed inv_set_peek_result inv_endorsements_or_peek
        removed_received_def inv_end_call inv_ice split: option.split)
qed

lemma inv_run_one_task:
  assumes "keys_apart E B" "keys_inv E B N (kv s)" "Suc N < B"
  shows "keys_inv E B (Suc (Suc N)) (kv (run_one_task E now s))"
proof -
  obtain t a where i: "actor_iterate now (gs_actor s) = (t, a)"
    by fastforce
  have k: "kv (s\<lparr>gs_actor := a\<rparr>) = (kv s)\<lparr>kv_tasks := key_tasks a, kv_ended := ended a\<rparr>"
    by (simp add: kv_def)
  have more: "keys_inv E B (Suc (Suc N)) (kv s)" "keys_inv E B (Suc N) (kv s)"
    using assms(2,3) by (simp_all add: keys_inv_mono)
  show ?thesis
  proof (cases "key_task t")
    case None
    then have "keys_inv E B n (kv (s\<lparr>gs_actor := a\<rparr>))" if "keys_inv E B n (kv s)" for n
      unfolding k using inv_tasks [OF that] actor_iterate_key_tasks(1) [OF i] by simp
    then show ?thesis
      using None i assms more inv_task [OF assms(1)] by (cases t) (simp_all add: run_one_task_def)
  next
    case (Some key)
    then obtain expiration where t: "t = Some (ApplySendKey key expiration)"
      by (cases "t" rule: key_task.cases) auto
    have "kv (s\<lparr>gs_actor := a\<rparr>) = (kv s)\<lparr>kv_tasks := kv_tasks (kv s) - {#key#}\<rparr>" "key \<in># kv_tasks (kv s)"
      using actor_iterate_key_tasks(2) [OF i Some] by (simp_all add: kv_def)
    then show ?thesis
      using inv_apply [OF assms(1) more(2), of key] more(1) assms(3) i t by (simp add: run_one_task_def kv_apply)
  qed
qed

lemma inv_step:
  assumes "keys_apart E B" "keys_inv E B N (kv s)" "Suc N < B"
  shows "keys_inv E B (Suc (Suc N)) (kv (gc_step E now i s))"
proof -
  have "keys_inv E B (Suc (Suc N)) (kv s)"
    using assms(2,3) by (simp add: keys_inv_mono)
  then show ?thesis
    using assms by (cases i) (simp_all add: inv_run_one_task)
qed

text \<open>A step uses up at most two names.\<close>

lemma inv_reach:
  assumes "gc_reach E s0 ins t s" "keys_apart E B" "keys_inv E B 0 (kv s0)" "2 * length ins \<le> B"
  shows "keys_inv E B (2 * length ins) (kv s)"
  using assms by (induction rule: gc_reach.induct) (simp_all add: inv_step)

lemma key_tasks_start [simp]: "key_tasks actor_start = {#}" "ended actor_start = False"
  by (simp_all add: actor_start_def key_tasks_def List.map_filter_def)

lemma inv_start:
  assumes "client_start E now P ufrag pwd created = (cs, Some s0)"
  shows "keys_inv E B 0 (kv s0)"
proof -
  obtain p st where "s0 = client_state P (client_video_part
      (client_media_part E now P ufrag pwd st (client_call_part P (client_base E P p))))"
    using assms unfolding client_start_def by (cases created) (simp_all, blast)
  then have "kv s0 = \<lparr> kv_sent = {}, kv_joins = 0, kv_secret = random_secret E 0, kv_rotation = KeyApplied, kv_drawn = 1,
      kv_users = [], kv_joined = [], kv_join = NotJoined (sp_ring_id P), kv_dhe = NotYetStarted, kv_tasks = {#}, kv_ended = False \<rparr>"
    by (simp add: kv_def client_state_def client_video_part_def client_media_part_def client_call_part_def client_base_def
        group_video_part.defs group_media_part.defs group_call_part.defs group_base.defs group_state.defs
        context_new_def sender_state_new_def derive_hmac_key_def derive_aes_key_def)
  moreover have "ledger_ok E B 0 v 0 0" if "kv_secret v = random_secret E 0" "kv_rotation v = KeyApplied"
      "kv_drawn v = 1" "kv_tasks v = {#}" "kv_sent v = {}" for v
    using that by (simp add: ledger_ok_def rotation_ok_def sent_ok_def)
  ultimately have "ledger_ok E B 0 (kv s0) 0 0" "quiet (kv s0)" "phase_ok (kv s0)"
    by (simp_all add: quiet_def phase_ok_def)
  then show ?thesis
    using members_quiet [of "kv s0" E B 0] unfolding keys_inv_def by blast
qed

section \<open>Secrecy\<close>

text \<open>
  The newest key that the client has settled on: the one in use, or the one that it is about to use
  unless a rotation is to follow at once.
\<close>

definition settled_key :: "'pc group_state \<Rightarrow> bytes option" where
  "settled_key s = (case gs_rotation s of
     KeyApplied \<Rightarrow> Some (current_secret (ctx_sender_state (gs_crypto s)))
   | KeyPending k again \<Rightarrow> if again then None else Some k)"

lemma holds_start:
  assumes "keys_apart E B" "ledger_ok E B N v c m" "holds (ge_prims E) effort (kv_sent v) u (media_key_at E i n)"
    and "i \<le> B" "n \<le> B" "N + effort \<le> B"
  obtains j where "j \<le> n" "(u, media_key_at E i j) \<in> kv_sent v"
proof -
  obtain k' n' where k': "(u, k') \<in> kv_sent v" "ratchet_n (ge_prims E) n' k' = media_key_at E i n" "n' \<le> effort"
    using assms(3) by (auto simp: holds_def)
  then obtain i' j where j: "k' = media_key_at E i' j" "i' < kv_drawn v" "j \<le> N"
    using assms(2) by (auto simp: ledger_ok_def elim!: sent_okE)
  then have "media_key_at E i' (n' + j) = media_key_at E i n" "i' \<le> B" "n' + j \<le> B"
    using k'(2,3) assms(2,6) by (simp_all add: funpow_add ledger_ok_def)
  then have "i' = i" "n' + j = n"
    using keys_apartD [OF assms(1)] assms(4,5) by blast+
  then show thesis
    using that [of j] k'(1) j(1) by (simp only: le_add2)
qed

text \<open>
  C7: a client that has joined a call once sends its media with keys that only users in the call can
  have. In every run from the start of a client, when the client is in the call and has settled on a
  key, the users that were sent this key, or an earlier one of the same ratchet from which they can
  compute it, are among the users that the last peek of the call showed. So a user that has left does
  not hold the key once the rotation is over, whatever the order of peeks, ticks, requests,
  signaling messages, packets and delayed tasks. The hypothesis is that the secrets drawn and
  derived in a run of that length do not collide.
\<close>

theorem users_who_left_lose_the_key:
  assumes "client_start E t0 P ufrag pwd created = (cs, Some s0)" "gc_reach E s0 ins t s"
    and "keys_apart E (2 * length ins + effort)"
    and "joins (gs_observed s) \<le> 1" "in_call (gs_join_state s)" "settled_key s = Some k"
    and "holds (ge_prims E) effort (keys_sent (gs_observed s)) u k"
  shows "u \<in> set (gs_joined_members s)"
proof -
  let ?N = "2 * length ins" and ?B = "2 * length ins + effort"
  have "keys_inv E ?B ?N (kv s)"
    using inv_reach [OF assms(2,3) inv_start [OF assms(1)]] by simp
  then obtain c m where l: "ledger_ok E ?B ?N (kv s) c m" "members_only E ?B (kv s) c"
    using assms(4) by (auto simp: keys_inv_def)
  note start = holds_start [OF assms(3) l(1), where u = u and effort = effort]
  show ?thesis
  proof (cases "gs_rotation s")
    case KeyApplied
    then have k: "k = media_key_at E c m" "c \<le> ?B" "m \<le> ?B"
      using assms(6) l(1) by (simp_all add: settled_key_def ledger_ok_def)
    then obtain j where "j \<le> m" "(u, media_key_at E c j) \<in> kv_sent (kv s)"
      using start [where i = c and n = m] assms(7) by auto
    then have "u \<in> holders E ?B (kv s) c"
      using k(3) le_trans unfolding holders_def by blast
    then show ?thesis
      using l(2) KeyApplied assms(5) by (auto simp: members_only_def)
  next
    case (KeyPending k' again)
    then have "k' = k" "\<not> again"
      using assms(6) by (auto simp: settled_key_def split: if_splits)
    moreover obtain p where "k = media_key_at E p 0" "p \<le> ?B"
      using KeyPending l(1) \<open>k' = k\<close> by (auto simp: ledger_ok_def rotation_ok_def)
    then have "(u, k) \<in> kv_sent (kv s)"
      using start [where i = p and n = 0] assms(7) by auto
    ultimately show ?thesis
      using l(2) KeyPending assms(5) by (auto simp: members_only_def)
  qed
qed

text \<open>In the example user 1 had the first key, and left; the next one went to user 2.\<close>

definition key_facts :: "'pc group_state \<Rightarrow> nat \<times> join_state \<times> bytes option \<times> user_id list \<times> bool \<times> bool" where
  "key_facts s =
     (joins (gs_observed s), gs_join_state s, settled_key s, gs_joined_members s,
      ([1], [0]) \<in> keys_sent (gs_observed s), ([2], [1, 1]) \<in> keys_sent (gs_observed s))"

lemma ex_key_facts: "key_facts ex_end = (1, Joined 144, Some [1, 1], [[2], [9]], True, True)"
  by code_simp

lemma ex_media_key_at: "media_key_at ex_env i n = replicate n 0 @ replicate i 1"
  by (induction n) (simp_all add: ratchet_secret_def ex_env_def ex_prims_def)

lemma ex_keys_apart: "keys_apart ex_env B"
proof -
  have "m = n \<and> i = j" if "replicate m (0 :: 8 word) @ replicate i 1 = replicate n 0 @ replicate j 1" for i j m n
    using arg_cong [OF that, of "\<lambda>xs. length (filter (\<lambda>b. b = 0) xs)"] arg_cong [OF that, of length] by simp
  then show ?thesis
    unfolding keys_apart_def ex_media_key_at by blast
qed

theorem users_who_left_lose_the_key_witness:
  "keys_apart ex_env (2 * length (map snd (ex_joining @ ex_leaving)) + 5)
   \<and> holds (ge_prims ex_env) 5 (keys_sent (gs_observed ex_end)) [1] [0]
   \<and> settled_key ex_end = Some [1, 1] \<and> [2] \<in> set (gs_joined_members ex_end)
   \<and> \<not> holds (ge_prims ex_env) 5 (keys_sent (gs_observed ex_end)) [1] [1, 1]"
proof -
  have f: "joins (gs_observed ex_end) \<le> 1" "in_call (gs_join_state ex_end)" "settled_key ex_end = Some [1, 1]"
      "gs_joined_members ex_end = [[2], [9]]" "([1], [0]) \<in> keys_sent (gs_observed ex_end)"
      "([2], [1, 1]) \<in> keys_sent (gs_observed ex_end)"
    using ex_key_facts by (simp_all add: key_facts_def)
  have h: "holds (ge_prims ex_env) 5 (keys_sent (gs_observed ex_end)) u k" if "(u, k) \<in> keys_sent (gs_observed ex_end)" for u k
    using that unfolding holds_def by (intro exI [of _ k] exI [of _ 0]) simp
  note left = users_who_left_lose_the_key [OF ex_started ex_reached ex_keys_apart f(1-3)]
  show ?thesis
    using left [of 5 "[2]", OF h [OF f(6)]] left [of 5 "[1]"] h [OF f(5)] f(3,4) ex_keys_apart by auto
qed

end
