(* ===== verification/Spec2Isabelle.thy ===== *)
theory Spec2Isabelle
  imports Mrp_Delivery Frame_Crypto Root_Key Call_Hangup Call_Manager_Props Group_Secrecy
begin

text \<open>
  A verification library for RingRTC, the calling library of Signal: one-to-one calls over WebRTC,
  group calls through a selective forwarding unit (SFU), call links, and the reliable protocol that
  carries control messages over RTP. The Rust sources are under \<open>src/src/rust/src\<close> and \<open>src/mrp/src\<close>;
  file names below are relative to these.

  \<^bold>\<open>The program.\<close> An application talks to a \<^emph>\<open>call manager\<close>, which owns the one-to-one \<^emph>\<open>calls\<close> and the
  group call clients. A call has one \<^emph>\<open>connection\<close> for each device of the peer, until one is
  chosen. Call and connection each have a state machine that runs on a thread of its own and is
  fed through a queue of events; both start tasks on worker threads. Messages go through the
  application (signaling) and, once a connection is up, as RTP data. A \<^emph>\<open>group call client\<close> runs on the
  thread of an \<^emph>\<open>actor\<close>: every request of the application, every response to an HTTP request and every
  packet becomes a task of this thread. It asks the SFU who is in the call, hands its media key to
  the users it sees, ratchets the key when a user joins and replaces it when a user leaves, and
  encrypts the media frames with it. Messages that must arrive go through the reliable protocol.

  \<^bold>\<open>Conventions.\<close> A struct is a record and an enum a datatype with the constructors of the source, suffixed
  where a name is taken. A method is a function on the record that returns the new state; a result
  is a sum, \<open>Ok\<close> on the right and \<open>Err\<close> on the left, with the variants of the code's error types. A
  panic is \<open>None\<close> or a flag of the state. Integers have their width as words, or are natural numbers
  with the wrap-around or the saturation written out; an identifier or a time whose width plays
  no role is a natural number. Time is an argument. Calls to the observer or platform are
  appended to a log, in the order of the code, or are functions of an environment record that
  returns their result. Closures that are sent to a thread are values of a datatype, and running
  them is a function on that datatype. What is not in this repository is a parameter: the
  cryptographic primitives (\<open>prims\<close>, \<open>link_prims\<close>, \<open>group_crypto\<close>), WebRTC's peer connection
  (\<open>group_pc\<close> and the operations of a connection), protobuf, JSON, base64, UTF-8 and zero-knowledge
  libraries. What a property needs of a parameter is a named predicate such as
  \<open>keystream_total\<close>, \<open>aead_correct\<close> or \<open>keys_apart\<close>, and its witness gives a concrete instance.

  \<^bold>\<open>Foundations.\<close> \<open>Rtc_Prelude\<close> has the result type, bytes, saturating and wrapping arithmetic, decimal
  texts and general lemmas. \<open>Rtc_Units\<close>, \<open>Versioning\<close>, \<open>Audio_Config\<close> and \<open>Call_State\<close> model
  \<open>common/units.rs\<close>, \<open>common/versioning.rs\<close>, part of \<open>webrtc/media.rs\<close> and \<open>common/mod.rs\<close>. \<open>Event_Actor\<close>
  models the event stream of \<open>core/util.rs\<close> and the actor of \<open>common/actor.rs\<close>: its queue, the heap of
  delayed tasks and how stopping discards what is queued; \<open>Actor_Tasks\<close> counts the tasks that wait.

  \<^bold>\<open>The reliable protocol.\<close> \<open>Mrp_Window\<close>, \<open>Mrp_Merge\<close> and \<open>Mrp_Stream\<close> model \<open>mrp/src/window.rs\<close>,
  \<open>merge_buffer.rs\<close> and \<open>stream.rs\<close>. The locale \<open>sequence_window\<close> states what the stream needs of its buffer, and
  \<open>bw\<close> interprets it on the code's buffer. \<open>Mrp_Reassembly\<close> relates the merging loop to the messages
  that were fragmented. \<open>Mrp_Protocol\<close> puts two endpoints on a network that loses, duplicates and
  reorders (\<open>mrp_step\<close>), and proves the invariant; \<open>Mrp_Delivery\<close> concludes: messages arrive once
  and in order, every packet of the peer is accepted, what is not delivered is retained, and
  delivery stays possible.

  \<^bold>\<open>Frame encryption.\<close> \<open>Frame_Crypto\<close> models \<open>core/crypto.rs\<close>: sender and receiver states with their
  ratchets, frame counters, MACs and statistics of errors. It shows the round trip over up to 255
  ratchets, that only authenticated data is returned, that the frames \<open>encrypt\<close> makes have pairwise
  different initialisation vectors, and what a late frame does to the secret kept for late frames.

  \<^bold>\<open>Call links.\<close> \<open>Base16\<close> and \<open>Root_Key\<close> model \<open>lite/call_links/base16.rs\<close> and \<open>root_key.rs\<close>: parsing is
  safe, texts and names round-trip. \<open>Call_Links\<close>, \<open>Http\<close> and \<open>Sfu\<close> model \<open>lite/call_links.rs\<close> with the member
  resolver, \<open>lite/http.rs\<close> and \<open>lite/sfu.rs\<close>. The loop that draws random bytes until no
  chunk repeats (\<open>draw_crn\<close>) may run for ever; it is a partial function, and \<open>None\<close> when it does.

  \<^bold>\<open>One-to-one calls.\<close> \<open>Signaling\<close>, \<open>Connection_Types\<close>, \<open>Connection\<close>, \<open>Session_Description\<close> and
  \<open>Connection_Start\<close> model \<open>core/signaling.rs\<close>, \<open>core/connection.rs\<close> and the conversions of
  \<open>webrtc/sdp_observer.rs\<close>; \<open>Connection_Fsm\<close> models \<open>core/connection_fsm.rs\<close>, handler by handler.
  \<open>Connection_Props\<close>, \<open>Connection_Fsm_Props\<close>, \<open>Connection_Status\<close> and \<open>Connection_Start_Props\<close> hold what
  connections guarantee; the handlers refine an automaton on connection states. \<open>ticker_run\<close> in
  \<open>Connection_Props\<close> is the run of one tick thread, which holds a clone of the connection with its own
  stage of the low-bandwidth callbacks, while the other threads change what is shared.
  \<open>Connection_System\<close> interleaves all threads around a connection, from the call that sets its
  peer connection and starts it to its termination. \<open>Call\<close> and \<open>Call_Fsm\<close> model
  \<open>core/call.rs\<close> and \<open>core/call_fsm.rs\<close>. \<open>Call_Shutdown\<close> proves that termination returns. The locales
  \<open>winding_down\<close> and \<open>stopping_loop\<close> say once, for both state machines, what a machine does while
  it ends; each is interpreted on the connection's machine and on the call's. \<open>Call_Hangup\<close> follows a
  hangup of one device through the call. \<open>Assets\<close> models \<open>core/assets.rs\<close>.

  \<^bold>\<open>The call manager.\<close> \<open>Call_Manager\<close>, \<open>Call_Manager_Api\<close> and \<open>Call_Manager_Worker\<close> model
  \<open>core/call_manager.rs\<close>: the message queue, the handlers, the collision of calls, group rings and
  the worker. There a group call client is the list of requests that it was sent, and it takes and
  releases the busy flag, which it shares with the manager. What a queued message asks of the
  connection it belongs to is a parameter (\<open>conn_can_send\<close>, \<open>conn_take_candidates\<close>), since it asks
  at a time when the manager does not hold the connection's current state.
  \<open>Call_Manager_Inv\<close> interleaves application, worker, calls and group call clients, with the locale \<open>request_order\<close> for what serving a
  request may do to calls; \<open>Call_Manager_Props\<close> has the agreement on colliding calls, the order of
  messages, rings, and two situations in which calls are left behind; whether \<open>close\<close> leaves calls
  behind depends on the number of rounds that the worker makes before it is stopped, which is an
  argument of \<open>cm_close\<close>.

  \<^bold>\<open>Group calls.\<close> \<open>Group_Messages\<close> and \<open>Group_Types\<close> have the messages and states of
  \<open>core/group_call.rs\<close>, \<open>Endorsements\<close> models \<open>core/endorsements.rs\<close>. \<open>Group_State\<close> has the state of a client:
  the record is a chain of extensions from \<open>group_base\<close> to \<open>group_state\<close>, with the fields of \<open>Client\<close> and
  \<open>State\<close> under the prefix \<open>gs_\<close>; random draws are numbered by \<open>gs_drawn\<close>. \<open>Group_Frames\<close> models the
  format of frames and data packets, \<open>Group_Client\<close> the messages, the requests to the SFU and the
  handling of keys, \<open>Group_Peek\<close> what a peek result does and how the client enters the call,
  \<open>Group_Handlers\<close> the requests of the application and the tick, \<open>Group_Receive\<close> what is received.
  \<open>Group_Run\<close> has \<open>Client::start\<close>, the task and input datatypes, and \<open>gc_reach\<close>, the runs of a client.
  \<open>Group_Keys\<close> abstracts a client to its \<^emph>\<open>ledger\<close> of media keys: most operations leave the ledger as it
  is, and the others refine one of six operations on ledgers. \<open>Group_Secrecy\<close> proves the invariant of
  the ledger over all runs, and that users who have left do not hold the key in use.
  \<open>Group_Example\<close> is a concrete run for the witness.

  \<^bold>\<open>Bounds.\<close> Loops of the code are recursive functions with a termination proof. The event loops run
  until their queue is empty or they end; that they end is proved (\<open>Call_Shutdown\<close>), not assumed. No
  fuel is used. The sequence numbers of the reliable protocol wrap and saturate as \<open>u64\<close> values do; runs of
  the protocol send only while they stay below the largest one. The ticks of a connection are
  counted up to \<open>2\<^sup>6\<^sup>3\<close>, where adding the delay of a callback does not wrap. Secrecy counts the names of keys up to twice the length of the run, since
  a step draws or ratchets at most twice.

  \<^bold>\<open>Not modelled.\<close> The bindings to WebRTC (\<open>webrtc/*.rs\<close>, \<open>webrtc/ffi\<close>) convert pointers and call C++;
  their effects are the parameters above. The layers for Android, iOS, Electron and the native
  client, the C interfaces and the applications' bindings only forward calls. \<open>core/call_summary.rs\<close>
  computes statistics in floating point for reports. The flow information and the scope of an IPv6
  socket address are dropped. The notification of a call's conclusion when
  its last reference is dropped, and poisoned locks, depend on the memory model of the host
  language. Simulation, tests, command-line tools and build scripts are not part of the
  library. Parsing of statistics reports and logging are left out everywhere.
\<close>

end
